(* ===== verification/Prelude.thy ===== *)
theory Prelude
  imports Complex_Main "HOL-Library.AList" "HOL-Library.Char_ord" "HOL-Library.List_Lexorder"
begin

text \<open>
  What the components share. Python exceptions are values of \<open>pyexn\<close>; a function that may
  raise returns \<open>pyexn + 'a\<close>; a method that also changes state is an \<open>act\<close>: it maps the
  state to the result and the state it leaves, which is kept when an exception is raised, as
  Python keeps the mutations made before a \<open>raise\<close>. A dict is an association list, because
  its insertion order is visible (\<open>dict.values()\<close>); \<open>AList.update\<close> replaces a key in its
  place and appends a new one, as assignment to a dict item does. \<open>next((x for x in xs if
  P x), None)\<close> is \<open>List.find\<close>. A \<open>datetime\<close> is its number of microseconds (the resolution
  of Python's type), a \<open>timedelta\<close> too; all of them are timezone-aware in the program.
  The weakest precondition \<open>wp\<close> of an action, with one equation per combinator, carries the
  proofs about the services.
\<close>

named_theorems wp_simps \<open>weakest preconditions of the action combinators\<close>
named_theorems record_defs \<open>definitions unfolded when a record operation is analysed\<close>

section \<open>Types shared by all components\<close>

type_synonym datetime = int
type_synonym timedelta = int

definition seconds :: "int \<Rightarrow> timedelta" where
  "seconds n = n * 1000000"

definition minutes :: "int \<Rightarrow> timedelta" where
  "minutes n = seconds (n * 60)"

definition hours :: "int \<Rightarrow> timedelta" where
  "hours n = minutes (n * 60)"

lemmas timedelta_defs = hours_def minutes_def seconds_def

text \<open>The exceptions of the program, each with its message.\<close>

datatype pyexn =
    ValueError string
  | ValidationError string string
  | KeyError string
  | RuntimeError string
  | ApprovalError string
  | InterventionPublishError string
  | InterventionExecutionError string
  | ProposalPolicyError string
  | RecoveryVerificationError string
  | EvidenceRedactionError string
  | EvidenceGatewayError string
  | RetryableEvidenceProviderError string
  | CouncilError string
  | TimeoutError string
  | OtherError string string

text \<open>
  pydantic's \<open>ValidationError\<close> and the two evidence errors are subclasses of \<open>ValueError\<close>.
\<close>

fun is_value_error :: "pyexn \<Rightarrow> bool" where
  "is_value_error (ValueError m) = True"
| "is_value_error (ValidationError c m) = True"
| "is_value_error (EvidenceRedactionError m) = True"
| "is_value_error (EvidenceGatewayError m) = True"
| "is_value_error e = False"

fun is_key_error :: "pyexn \<Rightarrow> bool" where
  "is_key_error (KeyError m) = True"
| "is_key_error e = False"

text \<open>\<open>str(error)\<close>; of a \<open>ValidationError\<close> only the message the validator raised is kept.\<close>

fun exn_str :: "pyexn \<Rightarrow> string" where
  "exn_str (ValueError m) = m"
| "exn_str (ValidationError c m) = m"
| "exn_str (KeyError m) = m"
| "exn_str (RuntimeError m) = m"
| "exn_str (ApprovalError m) = m"
| "exn_str (InterventionPublishError m) = m"
| "exn_str (InterventionExecutionError m) = m"
| "exn_str (ProposalPolicyError m) = m"
| "exn_str (RecoveryVerificationError m) = m"
| "exn_str (EvidenceRedactionError m) = m"
| "exn_str (EvidenceGatewayError m) = m"
| "exn_str (RetryableEvidenceProviderError m) = m"
| "exn_str (CouncilError m) = m"
| "exn_str (TimeoutError m) = m"
| "exn_str (OtherError t m) = m"

text \<open>\<open>type(error).__name__\<close>.\<close>

fun exn_type :: "pyexn \<Rightarrow> string" where
  "exn_type (ValueError m) = ''ValueError''"
| "exn_type (ValidationError c m) = ''ValidationError''"
| "exn_type (KeyError m) = ''KeyError''"
| "exn_type (RuntimeError m) = ''RuntimeError''"
| "exn_type (ApprovalError m) = ''ApprovalError''"
| "exn_type (InterventionPublishError m) = ''InterventionPublishError''"
| "exn_type (InterventionExecutionError m) = ''InterventionExecutionError''"
| "exn_type (ProposalPolicyError m) = ''ProposalPolicyError''"
| "exn_type (RecoveryVerificationError m) = ''RecoveryVerificationError''"
| "exn_type (EvidenceRedactionError m) = ''EvidenceRedactionError''"
| "exn_type (EvidenceGatewayError m) = ''EvidenceGatewayError''"
| "exn_type (RetryableEvidenceProviderError m) = ''RetryableEvidenceProviderError''"
| "exn_type (CouncilError m) = ''CouncilError''"
| "exn_type (TimeoutError m) = ''TimeoutError''"
| "exn_type (OtherError t m) = t"

section \<open>Guards that raise the first failing message\<close>

text \<open>
  A validator is a sequence of \<open>if bad: raise ValueError(msg)\<close>; the first bad condition
  decides the message.
\<close>

fun first_problem :: "(bool \<times> string) list \<Rightarrow> string option" where
  "first_problem [] = None"
| "first_problem ((bad, msg) # rest) = (if bad then Some msg else first_problem rest)"

lemma first_problem_None: "first_problem gs = None \<longleftrightarrow> (\<forall>(bad, msg) \<in> set gs. \<not> bad)"
  by (induction gs rule: first_problem.induct) auto

lemma first_problem_None_Cons [simp]:
  "first_problem ((bad, msg) # gs) = None \<longleftrightarrow> \<not> bad \<and> first_problem gs = None"
  by simp

declare first_problem.simps(2) [simp del]

lemma first_problem_append:
  "first_problem (gs @ hs) =
     (case first_problem gs of None \<Rightarrow> first_problem hs | Some m \<Rightarrow> Some m)"
  by (induction gs rule: first_problem.induct) (auto simp: first_problem.simps)

lemma first_problem_append_None [simp]:
  "first_problem (gs @ hs) = None \<longleftrightarrow> first_problem gs = None \<and> first_problem hs = None"
  by (simp add: first_problem_append split: option.split)

definition guarded :: "(bool \<times> string) list \<Rightarrow> pyexn + 'a \<Rightarrow> pyexn + 'a" where
  "guarded gs k = (case first_problem gs of Some m \<Rightarrow> Inl (ValueError m) | None \<Rightarrow> k)"

lemma guarded_Inr: "guarded gs k = Inr x \<longleftrightarrow> first_problem gs = None \<and> k = Inr x"
  by (simp add: guarded_def split: option.split)

lemma guarded_pass: "first_problem gs = None \<Longrightarrow> guarded gs k = k"
  by (simp add: guarded_def)

fun bind_result :: "pyexn + 'a \<Rightarrow> ('a \<Rightarrow> pyexn + 'b) \<Rightarrow> pyexn + 'b" where
  "bind_result (Inl e) f = Inl e"
| "bind_result (Inr a) f = f a"

lemma bind_result_Inr: "bind_result r f = Inr y \<longleftrightarrow> (\<exists>x. r = Inr x \<and> f x = Inr y)"
  by (cases r) simp_all

fun is_error :: "pyexn + 'a \<Rightarrow> bool" where
  "is_error (Inl e) = True"
| "is_error (Inr a) = False"

lemma not_error: "\<not> is_error r \<longleftrightarrow> (\<exists>a. r = Inr a)"
  by (cases r) simp_all

section \<open>Lists and dicts\<close>

text \<open>\<open>sep.join(xs)\<close>.\<close>

definition join :: "string \<Rightarrow> string list \<Rightarrow> string" where
  "join sep xs = (case xs of [] \<Rightarrow> [] | y # ys \<Rightarrow> y @ concat (map (\<lambda>z. sep @ z) ys))"

lemma pred_option_code [code]:
  "pred_option P None = True"
  "pred_option P (Some x) = P x"
  by simp_all

lemma find_in_set: "List.find P xs = Some x \<Longrightarrow> x \<in> set xs \<and> P x"
  by (auto simp: find_Some_iff in_set_conv_nth)

lemma find_None_iff_list_all: "List.find P xs = None \<longleftrightarrow> list_all (\<lambda>x. \<not> P x) xs"
  by (auto simp: find_None_iff list_all_iff)

lemma list_ex_find: "list_ex P xs \<longleftrightarrow> List.find P xs \<noteq> None"
  by (auto simp: find_None_iff list_ex_iff)

definition last_option :: "'a list \<Rightarrow> 'a option" where
  "last_option xs = (if xs = [] then None else Some (last xs))"

lemma last_option_simps [simp]:
  "last_option [] = None" "last_option (xs @ [x]) = Some x"
  by (simp_all add: last_option_def)

lemma last_option_Some: "last_option xs = Some x \<longleftrightarrow> (\<exists>ys. xs = ys @ [x])"
  by (auto simp: last_option_def intro: append_butlast_last_id [symmetric])

text \<open>\<open>dict.get\<close> and item assignment.\<close>

abbreviation dict_get :: "('k \<times> 'v) list \<Rightarrow> 'k \<Rightarrow> 'v option" where
  "dict_get d k \<equiv> map_of d k"

abbreviation dict_set :: "'k \<Rightarrow> 'v \<Rightarrow> ('k \<times> 'v) list \<Rightarrow> ('k \<times> 'v) list" where
  "dict_set k v d \<equiv> AList.update k v d"

lemma dict_get_set: "dict_get (dict_set k v d) k' = (if k' = k then Some v else dict_get d k')"
  by (simp add: update_conv')

lemma dict_set_entries:
  assumes "(a, b) \<in> set (dict_set k v d)" and "distinct (map fst d)"
  shows "(a, b) = (k, v) \<or> a \<noteq> k \<and> (a, b) \<in> set d"
  using assms by (induction d) (auto split: if_splits simp: rev_image_eqI)

lemma dict_get_in_set: "dict_get d k = Some v \<Longrightarrow> (k, v) \<in> set d"
  by (rule map_of_SomeD)

section \<open>Actions: state and exceptions\<close>

type_synonym ('w, 'a) act = "'w \<Rightarrow> (pyexn + 'a) \<times> 'w"

definition ret :: "'a \<Rightarrow> ('w, 'a) act" where
  "ret a = (\<lambda>w. (Inr a, w))"

definition raise :: "pyexn \<Rightarrow> ('w, 'a) act" where
  "raise e = (\<lambda>w. (Inl e, w))"

definition seq :: "('w, 'a) act \<Rightarrow> ('a \<Rightarrow> ('w, 'b) act) \<Rightarrow> ('w, 'b) act" where
  "seq m f = (\<lambda>w. case m w of (Inl e, w') \<Rightarrow> (Inl e, w') | (Inr a, w') \<Rightarrow> f a w')"

definition gets :: "('w \<Rightarrow> 'a) \<Rightarrow> ('w, 'a) act" where
  "gets f = (\<lambda>w. (Inr (f w), w))"

definition raise_when :: "bool \<Rightarrow> pyexn \<Rightarrow> ('w, unit) act" where
  "raise_when b e = (if b then raise e else ret ())"

text \<open>\<open>try: m except ... as e: h(e)\<close>; the handler re-raises what it does not handle.\<close>

definition try_except :: "('w, 'a) act \<Rightarrow> (pyexn \<Rightarrow> ('w, 'a) act) \<Rightarrow> ('w, 'a) act" where
  "try_except m h = (\<lambda>w. case m w of (Inl e, w') \<Rightarrow> h e w' | (Inr a, w') \<Rightarrow> (Inr a, w'))"

text \<open>\<open>try: m finally: f\<close>; an exception of \<open>f\<close> supersedes the result of \<open>m\<close>.\<close>

definition try_finally :: "('w, 'a) act \<Rightarrow> ('w, unit) act \<Rightarrow> ('w, 'a) act" where
  "try_finally m f = (\<lambda>w. case m w of (r, w') \<Rightarrow>
     (case f w' of (Inl e, w'') \<Rightarrow> (Inl e, w'') | (Inr _, w'') \<Rightarrow> (r, w'')))"

text \<open>A raising function as an action, and an action on a part of the state.\<close>

definition lift_result :: "pyexn + 'a \<Rightarrow> ('w, 'a) act" where
  "lift_result r = (\<lambda>w. (r, w))"

definition on_part :: "('w \<Rightarrow> 's) \<Rightarrow> (('s \<Rightarrow> 's) \<Rightarrow> 'w \<Rightarrow> 'w) \<Rightarrow> ('s, 'a) act \<Rightarrow> ('w, 'a) act" where
  "on_part sel upd m = (\<lambda>w. case m (sel w) of (r, s') \<Rightarrow> (r, upd (\<lambda>_. s') w))"

lemmas act_defs = ret_def raise_def seq_def gets_def raise_when_def try_except_def
  try_finally_def lift_result_def on_part_def

definition wp :: "('w, 'a) act \<Rightarrow> ('a \<Rightarrow> 'w \<Rightarrow> bool) \<Rightarrow> (pyexn \<Rightarrow> 'w \<Rightarrow> bool) \<Rightarrow> 'w \<Rightarrow> bool" where
  "wp m Q E w = (case m w of (Inl e, w') \<Rightarrow> E e w' | (Inr a, w') \<Rightarrow> Q a w')"

lemma wp_ret [wp_simps]: "wp (ret a) Q E w = Q a w"
  by (simp add: wp_def ret_def)

lemma wp_raise [wp_simps]: "wp (raise e) Q E w = E e w"
  by (simp add: wp_def raise_def)

lemma wp_seq [wp_simps]: "wp (seq m f) Q E w = wp m (\<lambda>a w'. wp (f a) Q E w') E w"
  by (simp add: wp_def seq_def split: prod.splits sum.splits)

lemma wp_gets [wp_simps]: "wp (gets f) Q E w = Q (f w) w"
  by (simp add: wp_def gets_def)

lemma wp_raise_when [wp_simps]: "wp (raise_when b e) Q E w = (if b then E e w else Q () w)"
  by (simp add: raise_when_def wp_simps)

lemma wp_try_except [wp_simps]: "wp (try_except m h) Q E w = wp m Q (\<lambda>e w'. wp (h e) Q E w') w"
  by (simp add: wp_def try_except_def split: prod.splits sum.splits)

lemma wp_try_finally [wp_simps]:
  "wp (try_finally m f) Q E w =
     wp m (\<lambda>a w'. wp f (\<lambda>_. Q a) E w') (\<lambda>e w'. wp f (\<lambda>_. E e) E w') w"
  by (auto simp add: wp_def try_finally_def split: prod.splits sum.splits)

lemma wp_lift_result [wp_simps]:
  "wp (lift_result r) Q E w = (case r of Inl e \<Rightarrow> E e w | Inr a \<Rightarrow> Q a w)"
  by (simp add: wp_def lift_result_def)

lemma wp_mono:
  assumes "wp m Q E w" and "\<And>a w'. Q a w' \<Longrightarrow> Q' a w'" and "\<And>e w'. E e w' \<Longrightarrow> E' e w'"
  shows "wp m Q' E' w"
  using assms by (auto simp: wp_def split: prod.splits sum.splits)

lemma wp_result: "wp m Q E w \<Longrightarrow> m w = (Inr a, w') \<Longrightarrow> Q a w'"
  by (simp add: wp_def)

lemma wp_error: "wp m Q E w \<Longrightarrow> m w = (Inl e, w') \<Longrightarrow> E e w'"
  by (simp add: wp_def)

text \<open>An invariant of the state that an action keeps whether it returns or raises.\<close>

definition keeps :: "('w \<Rightarrow> bool) \<Rightarrow> ('w, 'a) act \<Rightarrow> bool" where
  "keeps I m \<longleftrightarrow> (\<forall>w. I w \<longrightarrow> I (snd (m w)))"

named_theorems keeps_intros \<open>actions that keep an invariant\<close>

lemma keepsI: "(\<And>w. I w \<Longrightarrow> I (snd (m w))) \<Longrightarrow> keeps I m"
  by (simp add: keeps_def)

lemma keepsD: "keeps I m \<Longrightarrow> I w \<Longrightarrow> I (snd (m w))"
  by (simp add: keeps_def)

lemma keeps_ret [keeps_intros]: "keeps I (ret a)"
  by (simp add: keeps_def ret_def)

lemma keeps_raise [keeps_intros]: "keeps I (raise e)"
  by (simp add: keeps_def raise_def)

lemma keeps_gets [keeps_intros]: "keeps I (gets f)"
  by (simp add: keeps_def gets_def)

lemma keeps_lift_result [keeps_intros]: "keeps I (lift_result r)"
  by (simp add: keeps_def lift_result_def)

lemma keeps_raise_when [keeps_intros]: "keeps I (raise_when b e)"
  by (simp add: raise_when_def keeps_intros)

lemma keeps_seq [keeps_intros]: "keeps I m \<Longrightarrow> (\<And>a. keeps I (f a)) \<Longrightarrow> keeps I (seq m f)"
  unfolding keeps_def seq_def by (fastforce split: prod.splits sum.splits)

lemma keeps_try_except [keeps_intros]:
  "keeps I m \<Longrightarrow> (\<And>e. keeps I (h e)) \<Longrightarrow> keeps I (try_except m h)"
  unfolding keeps_def try_except_def by (fastforce split: prod.splits sum.splits)

lemma keeps_try_finally [keeps_intros]:
  "keeps I m \<Longrightarrow> keeps I f \<Longrightarrow> keeps I (try_finally m f)"
  unfolding keeps_def try_finally_def by (fastforce split: prod.splits sum.splits)

lemma keeps_if [keeps_intros]:
  "(b \<Longrightarrow> keeps I m) \<Longrightarrow> (\<not> b \<Longrightarrow> keeps I n) \<Longrightarrow> keeps I (if b then m else n)"
  by simp

lemma keeps_option [keeps_intros]:
  "(x = None \<Longrightarrow> keeps I m) \<Longrightarrow> (\<And>a. x = Some a \<Longrightarrow> keeps I (f a)) \<Longrightarrow>
     keeps I (case x of None \<Rightarrow> m | Some a \<Rightarrow> f a)"
  by (cases x) simp_all

text \<open>When a composition returns.\<close>

lemma seq_Inr: "seq m f w = (Inr y, w'') \<longleftrightarrow> (\<exists>x w'. m w = (Inr x, w') \<and> f x w' = (Inr y, w''))"
  by (auto simp: seq_def split: prod.splits sum.splits)

lemma lift_result_Inr: "lift_result r w = (Inr x, w') \<longleftrightarrow> r = Inr x \<and> w' = w"
  by (auto simp: lift_result_def)

lemma try_except_Inr:
  "try_except m h w = (Inr x, w') \<longleftrightarrow>
     m w = (Inr x, w') \<or> (\<exists>e w1. m w = (Inl e, w1) \<and> h e w1 = (Inr x, w'))"
  by (auto simp: try_except_def split: prod.splits sum.splits)

text \<open>From a kept invariant to a Hoare triple, and single steps of a composition.\<close>

lemma keeps_wp: "keeps P m \<Longrightarrow> P w \<Longrightarrow> wp m (\<lambda>_. P) (\<lambda>_. P) w"
  using keepsD [of P m w] by (cases "m w") (simp add: wp_def split: sum.splits)

lemma wp_cong: "m w = m' w \<Longrightarrow> wp m Q E w = wp m' Q E w"
  by (simp add: wp_def)

lemma seq_run: "m w = (Inr a, w') \<Longrightarrow> seq m f w = f a w'"
  by (simp add: seq_def)

lemma not_list_ex: "x \<notin> set (map f xs) \<Longrightarrow> \<not> list_ex (\<lambda>e. f e = x) xs"
  by (auto simp: list_ex_iff)

lemma finally_keeps:
  assumes "P (snd (m w))" and "keeps P f"
  shows "P (snd (try_finally m f w))"
proof (cases "m w")
  case (Pair r x)
  then have "P (snd (f x))" using assms keepsD [OF assms(2), of x] by simp
  then show ?thesis using Pair by (auto simp: try_finally_def split: prod.splits sum.splits)
qed

end
