(* ===== verification/Profile.thy ===== *)
theory Profile
  imports Prelude
begin

text \<open>
  The Application Profile and Enrollment contracts of \<open>domain/incidents.py\<close>. Each class is a
  record; \<open>X_fields\<close> are the constraints its \<open>Field\<close> declarations put on its own fields,
  \<open>X_problem\<close> is its after-validator (the message of the first \<open>raise\<close>, \<open>None\<close> when it
  returns), and \<open>wf_X\<close> is what validating the whole nested document establishes. A \<open>float\<close>
  that has passed its range constraint is finite, hence a rational, and is only compared.
\<close>

section \<open>Enumerations\<close>

datatype workload_criticality = CRITICAL | IMPORTANT | OPTIONAL

datatype evidence_source = KUBERNETES | CLOUD_LOGGING | CLOUD_MONITORING | MANUAL

fun evidence_source_value :: "evidence_source \<Rightarrow> string" where
  "evidence_source_value KUBERNETES = ''kubernetes''"
| "evidence_source_value CLOUD_LOGGING = ''cloud_logging''"
| "evidence_source_value CLOUD_MONITORING = ''cloud_monitoring''"
| "evidence_source_value MANUAL = ''manual''"

datatype evidence_query_kind =
  WORKLOAD_STATE | POD_EVENTS | POD_LOGS | METRICS | CHANGE_HISTORY | ALERT_POLICY

fun evidence_query_kind_value :: "evidence_query_kind \<Rightarrow> string" where
  "evidence_query_kind_value WORKLOAD_STATE = ''workload_state''"
| "evidence_query_kind_value POD_EVENTS = ''pod_events''"
| "evidence_query_kind_value POD_LOGS = ''pod_logs''"
| "evidence_query_kind_value METRICS = ''metrics''"
| "evidence_query_kind_value CHANGE_HISTORY = ''change_history''"
| "evidence_query_kind_value ALERT_POLICY = ''alert_policy''"

datatype enrollment_check_code =
    PROFILE_VALID | NAMESPACE_SELECTED | NAMESPACE_ENROLLED_LABEL
  | INVESTIGATOR_ROLE_BINDING | EXECUTOR_ROLE_BINDING | WORKLOAD_SELECTED
  | MANAGED_WORKLOAD_LABEL | ADMISSION_POLICY_BINDING

text \<open>The literal action types, in the order the code declares them.\<close>

datatype action_type = Rollback_Deployment | Scale_Deployment | Restart_Deployment

fun action_type_value :: "action_type \<Rightarrow> string" where
  "action_type_value Rollback_Deployment = ''rollback_deployment''"
| "action_type_value Scale_Deployment = ''scale_deployment''"
| "action_type_value Restart_Deployment = ''restart_deployment''"

lemma evidence_source_value_inj: "evidence_source_value a = evidence_source_value b \<longleftrightarrow> a = b"
  by (cases a; cases b) simp_all

lemma evidence_query_kind_value_inj:
  "evidence_query_kind_value a = evidence_query_kind_value b \<longleftrightarrow> a = b"
  by (cases a; cases b) simp_all

lemma action_type_value_inj: "action_type_value a = action_type_value b \<longleftrightarrow> a = b"
  by (cases a; cases b) simp_all

section \<open>Workloads\<close>

text \<open>The pattern \<open>^[a-z0-9]([-a-z0-9]*[a-z0-9])?$\<close>.\<close>

definition label_char :: "char \<Rightarrow> bool" where
  "label_char c \<longleftrightarrow> (CHR ''a'' \<le> c \<and> c \<le> CHR ''z'') \<or> (CHR ''0'' \<le> c \<and> c \<le> CHR ''9'')"

definition dns_label :: "string \<Rightarrow> bool" where
  "dns_label s \<longleftrightarrow> s \<noteq> [] \<and> label_char (hd s) \<and> label_char (last s)
     \<and> list_all (\<lambda>c. label_char c \<or> c = CHR ''-'') s"

record workload_reference =
  wr_namespace :: string
  wr_name :: string
  wr_kind :: string

definition workload_reference_fields :: "workload_reference \<Rightarrow> bool" where
  "workload_reference_fields w \<longleftrightarrow>
     dns_label (wr_namespace w) \<and> dns_label (wr_name w) \<and> wr_kind w = ''Deployment''"

text \<open>\<open>WorkloadReference(namespace=..., name=...)\<close> with the default kind.\<close>

definition deployment_reference :: "string \<Rightarrow> string \<Rightarrow> workload_reference" where
  "deployment_reference ns n = \<lparr>wr_namespace = ns, wr_name = n, wr_kind = ''Deployment''\<rparr>"

lemma deployment_reference_simps [simp]:
  "wr_namespace (deployment_reference ns n) = ns"
  "wr_name (deployment_reference ns n) = n"
  "wr_kind (deployment_reference ns n) = ''Deployment''"
  by (simp_all add: deployment_reference_def)

record replica_bounds =
  rb_minimum :: int
  rb_maximum :: int

definition replica_bounds_fields :: "replica_bounds \<Rightarrow> bool" where
  "replica_bounds_fields b \<longleftrightarrow> 0 \<le> rb_minimum b \<and> 1 \<le> rb_maximum b"

definition replica_bounds_problem :: "replica_bounds \<Rightarrow> string option" where
  "replica_bounds_problem b = first_problem
    [(rb_minimum b > rb_maximum b,
      ''maximum replicas must be greater than or equal to minimum replicas'')]"

definition wf_replica_bounds :: "replica_bounds \<Rightarrow> bool" where
  "wf_replica_bounds b \<longleftrightarrow> replica_bounds_fields b \<and> replica_bounds_problem b = None"

record managed_workload =
  mw_reference :: workload_reference
  mw_criticality :: workload_criticality
  mw_replica_bounds :: replica_bounds
  mw_executable :: bool
  mw_protected_dependency :: bool
  mw_allowed_actions :: "action_type list"
  mw_dependencies :: "string list"

definition managed_workload_problem :: "managed_workload \<Rightarrow> string option" where
  "managed_workload_problem w = first_problem
    [(mw_protected_dependency w \<and> mw_executable w,
      ''protected dependencies cannot be executable''),
     (\<not> mw_executable w \<and> \<not> mw_protected_dependency w,
      ''non-executable workloads must be protected dependencies''),
     (\<not> mw_executable w \<and> mw_allowed_actions w \<noteq> [],
      ''non-executable workloads cannot allow remediation actions''),
     (mw_executable w \<and> mw_allowed_actions w = [],
      ''executable workloads must declare allowed remediation actions''),
     (\<not> distinct (mw_allowed_actions w), ''workload allowed actions must be unique'')]"

definition wf_managed_workload :: "managed_workload \<Rightarrow> bool" where
  "wf_managed_workload w \<longleftrightarrow> workload_reference_fields (mw_reference w)
     \<and> wf_replica_bounds (mw_replica_bounds w) \<and> managed_workload_problem w = None"

text \<open>Authority is explicit: a workload is executable exactly when it is not protected.\<close>

lemma managed_workload_authority:
  "managed_workload_problem w = None \<Longrightarrow> mw_executable w \<longleftrightarrow> \<not> mw_protected_dependency w"
  by (auto simp: managed_workload_problem_def)

lemma managed_workload_actions:
  "managed_workload_problem w = None \<Longrightarrow> mw_allowed_actions w \<noteq> [] \<longleftrightarrow> mw_executable w"
  by (auto simp: managed_workload_problem_def)

section \<open>Journeys, budgets and mappings\<close>

record synthetic_probe =
  sp_name :: string
  sp_target :: string
  sp_repetitions :: int

definition synthetic_probe_fields :: "synthetic_probe \<Rightarrow> bool" where
  "synthetic_probe_fields p \<longleftrightarrow> sp_name p \<noteq> [] \<and> sp_target p \<noteq> []
     \<and> 1 \<le> sp_repetitions p \<and> sp_repetitions p \<le> 10"

record critical_journey =
  cj_name :: string
  cj_success_rate_minimum :: rat
  cj_p95_latency_ms_maximum :: int
  cj_minimum_request_count :: int
  cj_synthetic_probe :: "synthetic_probe option"

definition critical_journey_fields :: "critical_journey \<Rightarrow> bool" where
  "critical_journey_fields j \<longleftrightarrow> cj_name j \<noteq> []
     \<and> 0 \<le> cj_success_rate_minimum j \<and> cj_success_rate_minimum j \<le> 1
     \<and> 0 < cj_p95_latency_ms_maximum j \<and> 100 \<le> cj_minimum_request_count j"

definition wf_critical_journey :: "critical_journey \<Rightarrow> bool" where
  "wf_critical_journey j \<longleftrightarrow> critical_journey_fields j
     \<and> pred_option synthetic_probe_fields (cj_synthetic_probe j)"

record evidence_budget =
  eb_maximum_queries_per_specialist :: int
  eb_maximum_log_lines :: int
  eb_maximum_metric_series :: int
  eb_maximum_window_minutes :: int

definition evidence_budget_fields :: "evidence_budget \<Rightarrow> bool" where
  "evidence_budget_fields b \<longleftrightarrow>
     0 \<le> eb_maximum_queries_per_specialist b \<and> eb_maximum_queries_per_specialist b \<le> 2
     \<and> 0 < eb_maximum_log_lines b \<and> eb_maximum_log_lines b \<le> 500
     \<and> 0 < eb_maximum_metric_series b \<and> eb_maximum_metric_series b \<le> 100
     \<and> 0 < eb_maximum_window_minutes b \<and> eb_maximum_window_minutes b \<le> 120"

record evidence_mapping =
  em_source :: evidence_source
  em_kind :: evidence_query_kind
  em_scope :: workload_reference
  em_identifier :: string
  em_query_template :: "string option"

definition evidence_mapping_fields :: "evidence_mapping \<Rightarrow> bool" where
  "evidence_mapping_fields m \<longleftrightarrow> em_identifier m \<noteq> [] \<and> int (length (em_identifier m)) \<le> 500
     \<and> pred_option (\<lambda>q. q \<noteq> [] \<and> int (length q) \<le> 2000) (em_query_template m)"

definition evidence_mapping_problem :: "evidence_mapping \<Rightarrow> string option" where
  "evidence_mapping_problem m = first_problem
    [(em_kind m = METRICS \<and> em_query_template m = None,
      ''metric evidence mappings must declare a query template'')]"

definition wf_evidence_mapping :: "evidence_mapping \<Rightarrow> bool" where
  "wf_evidence_mapping m \<longleftrightarrow> evidence_mapping_fields m \<and> workload_reference_fields (em_scope m)
     \<and> evidence_mapping_problem m = None"

record alert_mapping =
  am_provider :: string
  am_policy_name :: string
  am_target :: workload_reference

definition wf_alert_mapping :: "alert_mapping \<Rightarrow> bool" where
  "wf_alert_mapping m \<longleftrightarrow> am_provider m = ''cloud_monitoring'' \<and> am_policy_name m \<noteq> []
     \<and> int (length (am_policy_name m)) \<le> 500 \<and> workload_reference_fields (am_target m)"

record observability_link =
  ol_label :: string
  ol_source :: evidence_source
  ol_url :: string

definition observability_link_fields :: "observability_link \<Rightarrow> bool" where
  "observability_link_fields l \<longleftrightarrow> ol_label l \<noteq> [] \<and> int (length (ol_label l)) \<le> 100
     \<and> int (length (ol_url l)) \<le> 2000 \<and> take 8 (ol_url l) = ''https://''"

record recovery_criteria =
  rc_critical_journey_name :: string
  rc_required_stable_windows :: int
  rc_stabilization_window_seconds :: int
  rc_allow_synthetic_availability_fallback :: bool
  rc_latency_requires_application_traffic :: bool

definition recovery_criteria_fields :: "recovery_criteria \<Rightarrow> bool" where
  "recovery_criteria_fields c \<longleftrightarrow> rc_critical_journey_name c \<noteq> []
     \<and> 2 \<le> rc_required_stable_windows c \<and> 60 \<le> rc_stabilization_window_seconds c
     \<and> rc_latency_requires_application_traffic c"

section \<open>The Application Profile\<close>

record application_profile =
  ap_application_id :: string
  ap_display_name :: string
  ap_version :: string
  ap_namespace :: string
  ap_namespaces :: "string list"
  ap_investigator_identity :: string
  ap_investigator_role :: string
  ap_executor_identity :: string
  ap_executor_role :: string
  ap_workloads :: "managed_workload list"
  ap_critical_journeys :: "critical_journey list"
  ap_alert_mappings :: "alert_mapping list"
  ap_evidence_mappings :: "evidence_mapping list"
  ap_observability_links :: "observability_link list"
  ap_evidence_budget :: evidence_budget
  ap_recovery_criteria :: recovery_criteria

definition application_profile_fields :: "application_profile \<Rightarrow> bool" where
  "application_profile_fields p \<longleftrightarrow> ap_application_id p \<noteq> [] \<and> ap_display_name p \<noteq> []
     \<and> ap_version p \<noteq> [] \<and> dns_label (ap_namespace p)
     \<and> ap_namespaces p \<noteq> [] \<and> list_all dns_label (ap_namespaces p)
     \<and> ap_investigator_identity p \<noteq> [] \<and> ap_investigator_role p \<noteq> []
     \<and> ap_executor_identity p \<noteq> [] \<and> ap_executor_role p \<noteq> []
     \<and> ap_workloads p \<noteq> [] \<and> ap_critical_journeys p \<noteq> [] \<and> ap_evidence_mappings p \<noteq> []"

text \<open>\<open>{workload.reference for workload in self.workloads}\<close>, as the list it is built from.\<close>

definition enrolled_references :: "application_profile \<Rightarrow> workload_reference list" where
  "enrolled_references p = map mw_reference (ap_workloads p)"

text \<open>
  The comparisons made for one workload in the dependency loop, in the loop's order: the loop
  raises at the first workload that fails, and for that workload at the first failing check.
\<close>

definition dependency_problems :: "string list \<Rightarrow> managed_workload \<Rightarrow> (bool \<times> string) list" where
  "dependency_problems names w =
    [(wr_name (mw_reference w) \<in> set (mw_dependencies w),
      ''application profile workloads cannot depend on themselves''),
     (list_ex (\<lambda>d. d \<notin> set names) (mw_dependencies w),
      ''workload dependencies must reference a declared workload'')]"

text \<open>
  \<open>journeys = {journey.name: journey ...}\<close>: a later journey with the same name replaces an
  earlier one, so the lookup is from the end; once the names are known to be unique, it is the
  first journey with that name.
\<close>

definition recovery_journey :: "application_profile \<Rightarrow> critical_journey option" where
  "recovery_journey p = List.find
     (\<lambda>j. cj_name j = rc_critical_journey_name (ap_recovery_criteria p))
     (rev (ap_critical_journeys p))"

definition application_profile_problem :: "application_profile \<Rightarrow> string option" where
  "application_profile_problem p =
    (let names = map (wr_name \<circ> mw_reference) (ap_workloads p);
         journey = recovery_journey p
     in first_problem (
    [(ap_investigator_identity p = ap_executor_identity p,
      ''Investigator and Executor identities must be distinct''),
     (\<not> distinct names, ''application profile workload names must be unique''),
     (\<not> distinct (ap_namespaces p), ''application profile namespaces must be unique''),
     (ap_namespace p \<notin> set (ap_namespaces p),
      ''application profile namespace must be in the namespace allowlist''),
     (list_ex (\<lambda>w. wr_namespace (mw_reference w) \<notin> set (ap_namespaces p)) (ap_workloads p),
      ''application profile workloads must use an enrolled namespace'')]
    @ concat (map (dependency_problems names) (ap_workloads p)) @
    [(\<not> distinct (map cj_name (ap_critical_journeys p)),
      ''application profile critical journey names must be unique''),
     (journey = None, ''recovery criteria must reference a declared critical journey''),
     (rc_allow_synthetic_availability_fallback (ap_recovery_criteria p)
        \<and> (case journey of None \<Rightarrow> False | Some j \<Rightarrow> cj_synthetic_probe j = None),
      ''synthetic availability fallback requires a critical journey synthetic probe''),
     (\<not> distinct (map (\<lambda>m. (em_source m, em_kind m, em_scope m, em_identifier m))
                       (ap_evidence_mappings p)),
      ''application profile evidence mappings must be unique''),
     (\<not> distinct (map em_identifier (ap_evidence_mappings p)),
      ''application profile evidence mapping identifiers must be unique''),
     (list_ex (\<lambda>m. em_scope m \<notin> set (enrolled_references p)) (ap_evidence_mappings p),
      ''evidence mappings must target a declared workload''),
     (\<not> distinct (map am_policy_name (ap_alert_mappings p)),
      ''application profile alert policy names must be unique''),
     (list_ex (\<lambda>m. am_target m \<notin> set (enrolled_references p)) (ap_alert_mappings p),
      ''alert mappings must target a declared workload''),
     (\<not> distinct (map (\<lambda>l. (ol_source l, ol_url l)) (ap_observability_links p)),
      ''application profile observability links must be unique'')]))"

definition wf_application_profile :: "application_profile \<Rightarrow> bool" where
  "wf_application_profile p \<longleftrightarrow> application_profile_fields p
     \<and> list_all wf_managed_workload (ap_workloads p)
     \<and> list_all wf_critical_journey (ap_critical_journeys p)
     \<and> list_all wf_alert_mapping (ap_alert_mappings p)
     \<and> list_all wf_evidence_mapping (ap_evidence_mappings p)
     \<and> list_all observability_link_fields (ap_observability_links p)
     \<and> evidence_budget_fields (ap_evidence_budget p)
     \<and> recovery_criteria_fields (ap_recovery_criteria p)
     \<and> application_profile_problem p = None"

text \<open>\<open>ApplicationProfile.model_validate\<close>.\<close>

definition validate_application_profile :: "application_profile \<Rightarrow> pyexn + application_profile" where
  "validate_application_profile p =
     (if wf_application_profile p then Inr p
      else Inl (ValidationError ''ApplicationProfile''
             (case application_profile_problem p of Some m \<Rightarrow> m | None \<Rightarrow> [])))"

end
