(* ===== verification/Lifecycle.thy ===== *)
theory Lifecycle
  imports Prelude
begin

text \<open>
  The incident and its three state fields (\<open>domain/incidents.py\<close>): the lifecycle, the outcome
  of the investigation and the outcome of the intervention, with the transition tables and
  \<open>transition_incident\<close>, which checks one step of each table before it builds the new incident.
\<close>

datatype incident_lifecycle =
  OPEN | INVESTIGATING | AWAITING_APPROVAL | MITIGATING | MONITORING | RESOLVED | CLOSED

datatype investigation_outcome =
    INV_NOT_STARTED | PROPOSAL_READY | NEEDS_MORE_EVIDENCE | NO_SAFE_ACTION | INCONCLUSIVE

datatype intervention_outcome =
    OUT_NOT_STARTED | OUT_MONITORING | OUT_SUCCEEDED | OUT_ROLLED_BACK | OUT_FAILED
  | OUT_SAFE_HALTED

fun lifecycle_value :: "incident_lifecycle \<Rightarrow> string" where
  "lifecycle_value OPEN = ''open''"
| "lifecycle_value INVESTIGATING = ''investigating''"
| "lifecycle_value AWAITING_APPROVAL = ''awaiting_approval''"
| "lifecycle_value MITIGATING = ''mitigating''"
| "lifecycle_value MONITORING = ''monitoring''"
| "lifecycle_value RESOLVED = ''resolved''"
| "lifecycle_value CLOSED = ''closed''"

fun investigation_outcome_value :: "investigation_outcome \<Rightarrow> string" where
  "investigation_outcome_value INV_NOT_STARTED = ''not_started''"
| "investigation_outcome_value PROPOSAL_READY = ''proposal_ready''"
| "investigation_outcome_value NEEDS_MORE_EVIDENCE = ''needs_more_evidence''"
| "investigation_outcome_value NO_SAFE_ACTION = ''no_safe_action''"
| "investigation_outcome_value INCONCLUSIVE = ''inconclusive''"

fun intervention_outcome_value :: "intervention_outcome \<Rightarrow> string" where
  "intervention_outcome_value OUT_NOT_STARTED = ''not_started''"
| "intervention_outcome_value OUT_MONITORING = ''monitoring''"
| "intervention_outcome_value OUT_SUCCEEDED = ''succeeded''"
| "intervention_outcome_value OUT_ROLLED_BACK = ''rolled_back''"
| "intervention_outcome_value OUT_FAILED = ''failed''"
| "intervention_outcome_value OUT_SAFE_HALTED = ''safe_halted''"

text \<open>The lifecycles and outcomes are finite: quantifiers over them evaluate.\<close>

instantiation incident_lifecycle :: enum
begin

definition enum_incident_lifecycle :: "incident_lifecycle list" where
  "enum_incident_lifecycle =
     [OPEN, INVESTIGATING, AWAITING_APPROVAL, MITIGATING, MONITORING, RESOLVED, CLOSED]"

definition enum_all_incident_lifecycle :: "(incident_lifecycle \<Rightarrow> bool) \<Rightarrow> bool" where
  "enum_all_incident_lifecycle P \<longleftrightarrow> list_all P
     [OPEN, INVESTIGATING, AWAITING_APPROVAL, MITIGATING, MONITORING, RESOLVED, CLOSED]"

definition enum_ex_incident_lifecycle :: "(incident_lifecycle \<Rightarrow> bool) \<Rightarrow> bool" where
  "enum_ex_incident_lifecycle P \<longleftrightarrow> list_ex P
     [OPEN, INVESTIGATING, AWAITING_APPROVAL, MITIGATING, MONITORING, RESOLVED, CLOSED]"

lemma UNIV_incident_lifecycle:
  "(UNIV :: incident_lifecycle set) =
     {OPEN, INVESTIGATING, AWAITING_APPROVAL, MITIGATING, MONITORING, RESOLVED, CLOSED}"
  by (auto intro: incident_lifecycle.exhaust)

instance
  by standard (auto simp: enum_incident_lifecycle_def enum_all_incident_lifecycle_def
      enum_ex_incident_lifecycle_def UNIV_incident_lifecycle intro: incident_lifecycle.exhaust)

end

section \<open>The transition tables\<close>

fun lifecycle_transitions :: "incident_lifecycle \<Rightarrow> incident_lifecycle list" where
  "lifecycle_transitions OPEN = [INVESTIGATING, CLOSED]"
| "lifecycle_transitions INVESTIGATING = [AWAITING_APPROVAL, MONITORING, CLOSED]"
| "lifecycle_transitions AWAITING_APPROVAL = [INVESTIGATING, MITIGATING, CLOSED]"
| "lifecycle_transitions MITIGATING = [MONITORING, CLOSED]"
| "lifecycle_transitions MONITORING = [MITIGATING, RESOLVED, CLOSED]"
| "lifecycle_transitions RESOLVED = [CLOSED]"
| "lifecycle_transitions CLOSED = []"

fun investigation_outcome_transitions ::
  "investigation_outcome \<Rightarrow> investigation_outcome list" where
  "investigation_outcome_transitions INV_NOT_STARTED =
     [PROPOSAL_READY, NEEDS_MORE_EVIDENCE, NO_SAFE_ACTION, INCONCLUSIVE]"
| "investigation_outcome_transitions NEEDS_MORE_EVIDENCE =
     [PROPOSAL_READY, NO_SAFE_ACTION, INCONCLUSIVE]"
| "investigation_outcome_transitions PROPOSAL_READY = []"
| "investigation_outcome_transitions NO_SAFE_ACTION = []"
| "investigation_outcome_transitions INCONCLUSIVE = []"

fun intervention_outcome_transitions ::
  "intervention_outcome \<Rightarrow> intervention_outcome list" where
  "intervention_outcome_transitions OUT_NOT_STARTED =
     [OUT_MONITORING, OUT_SUCCEEDED, OUT_ROLLED_BACK, OUT_FAILED, OUT_SAFE_HALTED]"
| "intervention_outcome_transitions OUT_MONITORING =
     [OUT_SUCCEEDED, OUT_ROLLED_BACK, OUT_FAILED, OUT_SAFE_HALTED]"
| "intervention_outcome_transitions OUT_SUCCEEDED = []"
| "intervention_outcome_transitions OUT_ROLLED_BACK = []"
| "intervention_outcome_transitions OUT_FAILED = []"
| "intervention_outcome_transitions OUT_SAFE_HALTED = []"

section \<open>The incident\<close>

record incident =
  inc_incident_id :: string
  inc_application_id :: string
  inc_profile_version :: string
  inc_opened_at :: datetime
  inc_lifecycle :: incident_lifecycle
  inc_investigation_outcome :: investigation_outcome
  inc_intervention_outcome :: intervention_outcome
  inc_version :: int
  inc_summary :: string

definition incident_fields :: "incident \<Rightarrow> bool" where
  "incident_fields i \<longleftrightarrow> inc_incident_id i \<noteq> [] \<and> inc_application_id i \<noteq> []
     \<and> inc_profile_version i \<noteq> [] \<and> 0 \<le> inc_version i
     \<and> inc_summary i \<noteq> [] \<and> int (length (inc_summary i)) \<le> 1000"

text \<open>
  \<open>lifecycle or incident.lifecycle\<close>: a member of a \<open>StrEnum\<close> is a non-empty string, so only
  an omitted argument takes the default.
\<close>

definition transition_incident ::
  "incident \<Rightarrow> incident_lifecycle option \<Rightarrow> investigation_outcome option
     \<Rightarrow> intervention_outcome option \<Rightarrow> pyexn + incident" where
  "transition_incident i lifecycle investigation intervention =
    (let next_lifecycle = case_option (inc_lifecycle i) id lifecycle;
         next_investigation = case_option (inc_investigation_outcome i) id investigation;
         next_intervention = case_option (inc_intervention_outcome i) id intervention
     in guarded
      [(next_lifecycle \<noteq> inc_lifecycle i
          \<and> next_lifecycle \<notin> set (lifecycle_transitions (inc_lifecycle i)),
        ''invalid incident lifecycle transition: '' @ lifecycle_value (inc_lifecycle i)
          @ '' -> '' @ lifecycle_value next_lifecycle),
       (next_investigation \<noteq> inc_investigation_outcome i
          \<and> next_investigation
              \<notin> set (investigation_outcome_transitions (inc_investigation_outcome i)),
        ''invalid investigation outcome transition: ''
          @ investigation_outcome_value (inc_investigation_outcome i)
          @ '' -> '' @ investigation_outcome_value next_investigation),
       (next_intervention \<noteq> inc_intervention_outcome i
          \<and> next_intervention
              \<notin> set (intervention_outcome_transitions (inc_intervention_outcome i)),
        ''invalid intervention outcome transition: ''
          @ intervention_outcome_value (inc_intervention_outcome i)
          @ '' -> '' @ intervention_outcome_value next_intervention)]
      (Inr (i\<lparr>inc_lifecycle := next_lifecycle,
              inc_investigation_outcome := next_investigation,
              inc_intervention_outcome := next_intervention\<rparr>)))"

section \<open>What a transition does\<close>

definition lifecycle_ok :: "incident_lifecycle \<Rightarrow> incident_lifecycle \<Rightarrow> bool" where
  "lifecycle_ok a b \<longleftrightarrow> a = b \<or> b \<in> set (lifecycle_transitions a)"

definition investigation_ok :: "investigation_outcome \<Rightarrow> investigation_outcome \<Rightarrow> bool" where
  "investigation_ok a b \<longleftrightarrow> a = b \<or> b \<in> set (investigation_outcome_transitions a)"

definition intervention_ok :: "intervention_outcome \<Rightarrow> intervention_outcome \<Rightarrow> bool" where
  "intervention_ok a b \<longleftrightarrow> a = b \<or> b \<in> set (intervention_outcome_transitions a)"

lemma transition_incident_Inr:
  "transition_incident i l v o' = Inr j \<longleftrightarrow>
     lifecycle_ok (inc_lifecycle i) (case_option (inc_lifecycle i) id l)
     \<and> investigation_ok (inc_investigation_outcome i)
         (case_option (inc_investigation_outcome i) id v)
     \<and> intervention_ok (inc_intervention_outcome i)
         (case_option (inc_intervention_outcome i) id o')
     \<and> j = i\<lparr>inc_lifecycle := case_option (inc_lifecycle i) id l,
            inc_investigation_outcome := case_option (inc_investigation_outcome i) id v,
            inc_intervention_outcome := case_option (inc_intervention_outcome i) id o'\<rparr>"
  by (auto simp: transition_incident_def Let_def guarded_Inr lifecycle_ok_def
      investigation_ok_def intervention_ok_def)

lemma transition_incident_errors:
  "transition_incident i l v o' = Inl e \<Longrightarrow> \<exists>m. e = ValueError m"
  by (auto simp: transition_incident_def Let_def guarded_def split: option.splits)

lemma transition_incident_frame:
  assumes "transition_incident i l v o' = Inr j"
  shows "inc_incident_id j = inc_incident_id i \<and> inc_application_id j = inc_application_id i
    \<and> inc_profile_version j = inc_profile_version i \<and> inc_opened_at j = inc_opened_at i
    \<and> inc_version j = inc_version i \<and> inc_summary j = inc_summary i"
  using assms by (simp add: transition_incident_Inr)

lemma transition_incident_steps:
  assumes "transition_incident i l v o' = Inr j"
  shows "lifecycle_ok (inc_lifecycle i) (inc_lifecycle j)
    \<and> investigation_ok (inc_investigation_outcome i) (inc_investigation_outcome j)
    \<and> intervention_ok (inc_intervention_outcome i) (inc_intervention_outcome j)"
  using assms by (simp add: transition_incident_Inr)

lemma transition_incident_fields:
  "transition_incident i l v o' = Inr j \<Longrightarrow> incident_fields i \<Longrightarrow> incident_fields j"
  by (simp add: transition_incident_Inr incident_fields_def)

text \<open>
  One accepted transition as a step relation, and the incidents a sequence of transitions
  reaches. No call leaves \<open>CLOSED\<close>, only \<open>MONITORING\<close> leads to \<open>RESOLVED\<close>, and a terminal
  outcome never changes.
\<close>

inductive incident_step :: "incident \<Rightarrow> incident \<Rightarrow> bool" where
  transition: "transition_incident i l v o' = Inr j \<Longrightarrow> incident_step i j"

inductive_cases incident_stepE: "incident_step i j"

lemma lifecycle_ok_CLOSED: "lifecycle_ok CLOSED b \<longleftrightarrow> b = CLOSED"
  by (auto simp: lifecycle_ok_def)

lemma lifecycle_ok_RESOLVED: "lifecycle_ok a RESOLVED \<longleftrightarrow> a \<in> {RESOLVED, MONITORING}"
  by (cases a) (auto simp: lifecycle_ok_def)

text \<open>How far an outcome has come: every change of an outcome raises its rank.\<close>

fun investigation_rank :: "investigation_outcome \<Rightarrow> nat" where
  "investigation_rank INV_NOT_STARTED = 0"
| "investigation_rank NEEDS_MORE_EVIDENCE = 1"
| "investigation_rank _ = 2"

fun intervention_rank :: "intervention_outcome \<Rightarrow> nat" where
  "intervention_rank OUT_NOT_STARTED = 0"
| "intervention_rank OUT_MONITORING = 1"
| "intervention_rank _ = 2"

lemma investigation_ok_rank:
  "investigation_ok a b \<Longrightarrow> a \<noteq> b \<Longrightarrow> investigation_rank a < investigation_rank b"
  by (cases a) (auto simp: investigation_ok_def)

lemma intervention_ok_rank:
  "intervention_ok a b \<Longrightarrow> a \<noteq> b \<Longrightarrow> intervention_rank a < intervention_rank b"
  by (cases a) (auto simp: intervention_ok_def)

lemma investigation_rank_le: "investigation_rank a \<le> 2"
  by (cases a) simp_all

lemma intervention_rank_le: "intervention_rank a \<le> 2"
  by (cases a) simp_all

lemma incident_step_frame:
  "incident_step i j \<Longrightarrow> inc_incident_id j = inc_incident_id i \<and> inc_version j = inc_version i"
  by (auto elim!: incident_stepE dest: transition_incident_frame)

lemma incident_step_ok:
  "incident_step i j \<Longrightarrow> lifecycle_ok (inc_lifecycle i) (inc_lifecycle j)
    \<and> investigation_ok (inc_investigation_outcome i) (inc_investigation_outcome j)
    \<and> intervention_ok (inc_intervention_outcome i) (inc_intervention_outcome j)"
  by (auto elim!: incident_stepE dest: transition_incident_steps)

lemma incident_steps_closed:
  "incident_step\<^sup>*\<^sup>* i j \<Longrightarrow> inc_lifecycle i = CLOSED \<Longrightarrow> inc_lifecycle j = CLOSED"
  by (induction rule: rtranclp_induct) (auto dest!: incident_step_ok simp: lifecycle_ok_CLOSED)

lemma incident_steps_ranks:
  "incident_step\<^sup>*\<^sup>* i j \<Longrightarrow>
     (inc_investigation_outcome j = inc_investigation_outcome i
        \<or> investigation_rank (inc_investigation_outcome i)
            < investigation_rank (inc_investigation_outcome j))
     \<and> (inc_intervention_outcome j = inc_intervention_outcome i
        \<or> intervention_rank (inc_intervention_outcome i)
            < intervention_rank (inc_intervention_outcome j))"
proof (induction rule: rtranclp_induct)
  case (step j k)
  from incident_step_ok [OF step.hyps(2)]
  have "inc_investigation_outcome k = inc_investigation_outcome j
      \<or> investigation_rank (inc_investigation_outcome j)
          < investigation_rank (inc_investigation_outcome k)"
    and "inc_intervention_outcome k = inc_intervention_outcome j
      \<or> intervention_rank (inc_intervention_outcome j)
          < intervention_rank (inc_intervention_outcome k)"
    using investigation_ok_rank intervention_ok_rank by metis+
  with step.IH show ?case by (elim conjE disjE) simp_all
qed simp

text \<open>
  Before an incident is resolved it was being monitored.
\<close>

lemma incident_steps_resolved:
  "incident_step\<^sup>*\<^sup>* i j \<Longrightarrow> inc_lifecycle i \<noteq> RESOLVED \<Longrightarrow> inc_lifecycle j = RESOLVED \<Longrightarrow>
     \<exists>m. incident_step\<^sup>*\<^sup>* i m \<and> inc_lifecycle m = MONITORING \<and> incident_step\<^sup>*\<^sup>* m j"
proof (induction rule: rtranclp_induct)
  case (step j k)
  from incident_step_ok [OF step.hyps(2)] step.prems
  have "inc_lifecycle j \<in> {RESOLVED, MONITORING}" by (simp add: lifecycle_ok_RESOLVED)
  then show ?case
  proof
    assume "inc_lifecycle j = RESOLVED"
    with step show ?case by (meson rtranclp.rtrancl_into_rtrancl)
  next
    assume "inc_lifecycle j \<in> {MONITORING}"
    with step.hyps show ?case by blast
  qed
qed simp

end
