(* ===== verification/Json.thy ===== *)
theory Json
  imports Prelude
begin

text \<open>
  JSON values as \<open>model_dump(mode="json")\<close> and the Kubernetes patch bodies use them, Python's
  decimal \<open>str\<close> of an integer, and \<open>json.dumps(value, sort_keys=True, separators=(",", ":"))\<close>
  with its default \<open>ensure_ascii\<close> escapes. The main result is that the text determines the
  value up to the order of object keys, which is what makes a hash of the text a binding to the
  value. A \<open>char\<close> stands for a code point below 256; no float occurs in the hashed values.
\<close>

datatype json =
    JNull
  | JBool bool
  | JInt int
  | JStr string
  | JList "json list"
  | JObj "(string \<times> json) list"

section \<open>Reading values\<close>

text \<open>\<open>isinstance(v, dict)\<close>, \<open>isinstance(v, str)\<close> and \<open>isinstance(v, int)\<close>: a bool is an int.\<close>

fun as_dict :: "json \<Rightarrow> (string \<times> json) list option" where
  "as_dict (JObj kvs) = Some kvs"
| "as_dict v = None"

fun is_str :: "json \<Rightarrow> bool" where
  "is_str (JStr s) = True"
| "is_str v = False"

fun as_int :: "json \<Rightarrow> int option" where
  "as_int (JInt i) = Some i"
| "as_int (JBool b) = Some (if b then 1 else 0)"
| "as_int v = None"

definition is_int :: "json \<Rightarrow> bool" where
  "is_int v \<longleftrightarrow> as_int v \<noteq> None"

lemma as_dict_Some: "as_dict v = Some kvs \<longleftrightarrow> v = JObj kvs"
  by (cases v) auto

section \<open>Integers\<close>

definition digit_char :: "nat \<Rightarrow> char" where
  "digit_char n = char_of (48 + n)"

fun nat_str :: "nat \<Rightarrow> string" where
  "nat_str n = (if n < 10 then [digit_char n] else nat_str (n div 10) @ [digit_char (n mod 10)])"

declare nat_str.simps [simp del]

definition int_str :: "int \<Rightarrow> string" where
  "int_str i = (if i < 0 then CHR ''-'' # nat_str (nat (- i)) else nat_str (nat i))"

definition digit_val :: "char \<Rightarrow> nat" where
  "digit_val c = of_char c - 48"

definition is_digit :: "char \<Rightarrow> bool" where
  "is_digit c \<longleftrightarrow> 48 \<le> (of_char c :: nat) \<and> (of_char c :: nat) \<le> 57"

lemma digit_char_props:
  "n < 10 \<Longrightarrow> digit_val (digit_char n) = n" "n < 10 \<Longrightarrow> is_digit (digit_char n)"
  by (simp_all add: digit_char_def digit_val_def is_digit_def)

definition num_val :: "string \<Rightarrow> nat" where
  "num_val = foldl (\<lambda>a c. 10 * a + digit_val c) 0"

lemma nat_str_digits: "list_all is_digit (nat_str n) \<and> nat_str n \<noteq> []"
proof (induction n rule: nat_str.induct)
  case (1 n)
  then show ?case
    by (subst (1 2) nat_str.simps) (auto simp: digit_char_props)
qed

lemma num_val_nat_str: "num_val (nat_str n) = n"
proof (induction n rule: nat_str.induct)
  case (1 n)
  show ?case
  proof (cases "n < 10")
    case True
    then show ?thesis by (subst nat_str.simps) (simp add: num_val_def digit_char_props)
  next
    case False
    with 1 have "num_val (nat_str (n div 10)) = n div 10" by simp
    with False show ?thesis
      by (subst nat_str.simps) (simp add: num_val_def digit_char_props)
  qed
qed

lemma nat_str_inj: "nat_str m = nat_str n \<Longrightarrow> m = n"
  by (metis num_val_nat_str)

lemma int_str_head:
  obtains c cs where "int_str i = c # cs" "is_digit c \<or> c = CHR ''-''"
  using nat_str_digits [of "nat i"] nat_str_digits [of "nat (- i)"]
  by (cases "nat_str (nat i)"; cases "i < 0") (auto simp: int_str_def)

section \<open>Text of a value\<close>

definition hex_char :: "nat \<Rightarrow> char" where
  "hex_char n = char_of (if n < 10 then 48 + n else 87 + n)"

text \<open>One character inside a string literal: the short escapes, printable ASCII as it is, and
  \<open>\u00XX\<close> for the rest.\<close>

definition esc :: "char \<Rightarrow> string" where
  "esc c = (let n = of_char c :: nat in
     if c = CHR 0x22 then [CHR 0x5C, CHR 0x22]
     else if c = CHR 0x5C then [CHR 0x5C, CHR 0x5C]
     else if n = 10 then [CHR 0x5C, CHR ''n'']
     else if n = 13 then [CHR 0x5C, CHR ''r'']
     else if n = 9 then [CHR 0x5C, CHR ''t'']
     else if n = 8 then [CHR 0x5C, CHR ''b'']
     else if n = 12 then [CHR 0x5C, CHR ''f'']
     else if 32 \<le> n \<and> n \<le> 126 then [c]
     else [CHR 0x5C, CHR ''u'', CHR ''0'', CHR ''0'', hex_char (n div 16), hex_char (n mod 16)])"

definition quote :: "string \<Rightarrow> string" where
  "quote s = [CHR 0x22] @ concat (map esc s) @ [CHR 0x22]"

fun render :: "json \<Rightarrow> string"
  and render_items :: "json list \<Rightarrow> string"
  and render_fields :: "(string \<times> json) list \<Rightarrow> string" where
  "render JNull = ''null''"
| "render (JBool b) = (if b then ''true'' else ''false'')"
| "render (JInt i) = int_str i"
| "render (JStr s) = quote s"
| "render (JList []) = ''[]''"
| "render (JList (x # xs)) = ''['' @ render x @ render_items xs"
| "render (JObj []) = ''{}''"
| "render (JObj ((k, v) # kvs)) = ''{'' @ quote k @ '':'' @ render v @ render_fields kvs"
| "render_items [] = '']''"
| "render_items (x # xs) = '','' @ render x @ render_items xs"
| "render_fields [] = ''}''"
| "render_fields ((k, v) # kvs) = '','' @ quote k @ '':'' @ render v @ render_fields kvs"

text \<open>\<open>sort_keys=True\<close>: every object is written in the order of its keys.\<close>

fun sort_keys :: "json \<Rightarrow> json" where
  "sort_keys (JList xs) = JList (map sort_keys xs)"
| "sort_keys (JObj kvs) = JObj (sort_key fst (map (\<lambda>(k, v). (k, sort_keys v)) kvs))"
| "sort_keys v = v"

definition dumps :: "json \<Rightarrow> string" where
  "dumps v = render (sort_keys v)"

section \<open>The text determines the value\<close>

text \<open>A decoder of one escaped character, only used to show that escapes can be told apart.\<close>

definition unhex :: "char \<Rightarrow> nat" where
  "unhex c = (let n = of_char c :: nat in if n < 58 then n - 48 else n - 87)"

fun unesc :: "string \<Rightarrow> (char \<times> string) option" where
  "unesc (a # b # r) =
     (if a \<noteq> CHR 0x5C then Some (a, b # r)
      else if b = CHR 0x22 then Some (CHR 0x22, r)
      else if b = CHR 0x5C then Some (CHR 0x5C, r)
      else if b = CHR ''n'' then Some (char_of (10 :: nat), r)
      else if b = CHR ''r'' then Some (char_of (13 :: nat), r)
      else if b = CHR ''t'' then Some (char_of (9 :: nat), r)
      else if b = CHR ''b'' then Some (char_of (8 :: nat), r)
      else if b = CHR ''f'' then Some (char_of (12 :: nat), r)
      else (case r of _ # _ # h # l # r' \<Rightarrow> Some (char_of (16 * unhex h + unhex l), r')
            | _ \<Rightarrow> None))"
| "unesc [a] = (if a = CHR 0x5C then None else Some (a, []))"
| "unesc [] = None"

lemma unhex_hex_char: "n < 16 \<Longrightarrow> unhex (hex_char n) = n"
  by (simp add: unhex_def hex_char_def)

lemma char_of_eqI: "of_char c = (n :: nat) \<Longrightarrow> char_of n = c"
  by auto

lemma unesc_plain: "c \<noteq> CHR 0x5C \<Longrightarrow> unesc (c # r) = Some (c, r)"
  by (cases r) simp_all

lemma unesc_hex:
  assumes "n < 256"
  shows "unesc (CHR 0x5C # CHR ''u'' # CHR ''0'' # CHR ''0'' # hex_char (n div 16) #
           hex_char (n mod 16) # r) = Some (char_of n, r)"
proof -
  have "unhex (hex_char (n div 16)) = n div 16" "unhex (hex_char (n mod 16)) = n mod 16"
    using assms by (auto intro!: unhex_hex_char)
  then show ?thesis by simp
qed

lemma esc_hex:
  assumes "c \<noteq> CHR 0x22" "c \<noteq> CHR 0x5C" "of_char c \<noteq> (10 :: nat)" "of_char c \<noteq> (13 :: nat)"
    "of_char c \<noteq> (9 :: nat)" "of_char c \<noteq> (8 :: nat)" "of_char c \<noteq> (12 :: nat)"
    "\<not> (32 \<le> (of_char c :: nat) \<and> (of_char c :: nat) \<le> 126)"
  shows "esc c = [CHR 0x5C, CHR ''u'', CHR ''0'', CHR ''0'', hex_char (of_char c div 16),
    hex_char (of_char c mod 16)]"
  unfolding esc_def Let_def using assms by (simp only: if_False)

lemma unesc_esc: "unesc (esc c @ r) = Some (c, r)"
proof -
  define n where "n = (of_char c :: nat)"
  have c: "c = char_of n" and n: "n < 256" by (simp_all add: n_def)
  consider "c = CHR 0x22" | "c = CHR 0x5C" | "n \<in> {10, 13, 9, 8, 12}"
    | "c \<noteq> CHR 0x22" "c \<noteq> CHR 0x5C" "n \<notin> {10, 13, 9, 8, 12}" by blast
  then show ?thesis
  proof cases
    case 3
    then show ?thesis by (elim insertE) (simp_all add: c esc_def)
  next
    case 4
    show ?thesis
    proof (cases "32 \<le> n \<and> n \<le> 126")
      case True
      with 4 have "esc c = [c]" by (simp add: esc_def Let_def n_def)
      with 4 show ?thesis by (simp add: unesc_plain)
    next
      case False
      with 4 have "esc c = [CHR 0x5C, CHR ''u'', CHR ''0'', CHR ''0'', hex_char (n div 16),
          hex_char (n mod 16)]"
        by (intro esc_hex [of c, folded n_def]) simp_all
      then show ?thesis using unesc_hex [OF n, of r] by (simp only: append_Cons append_Nil c)
    qed
  qed (simp_all add: esc_def)
qed

lemma esc_prefix:
  assumes "esc c @ r = esc d @ s"
  shows "c = d \<and> r = s"
proof -
  have "Some (c, r) = Some (d, s)"
    using assms by (simp only: unesc_esc [symmetric])
  then show ?thesis by simp
qed

lemma esc_not_quote: "esc c \<noteq> [] \<and> hd (esc c) \<noteq> CHR 0x22"
  by (simp add: esc_def Let_def)

lemma esc_append_not_quote: "esc c @ r \<noteq> CHR 0x22 # s"
  using esc_not_quote [of c] by (cases "esc c") auto

lemma escaped_prefix:
  "concat (map esc a) @ CHR 0x22 # r = concat (map esc b) @ CHR 0x22 # s \<Longrightarrow> a = b \<and> r = s"
proof (induction a arbitrary: b)
  case Nil
  then show ?case
    by (cases b) (auto simp: esc_append_not_quote dest: sym [THEN esc_append_not_quote [THEN notE]])
next
  case (Cons c a)
  show ?case
  proof (cases b)
    case Nil
    with Cons.prems show ?thesis by (simp add: esc_append_not_quote)
  next
    case (Cons d b')
    with Cons.prems have "esc c @ concat (map esc a) @ CHR 0x22 # r =
        esc d @ concat (map esc b') @ CHR 0x22 # s" by simp
    from esc_prefix [OF this] Cons Cons.IH [of b'] show ?thesis by simp
  qed
qed

lemma quote_prefix: "quote a @ r = quote b @ s \<longleftrightarrow> a = b \<and> r = s"
  using escaped_prefix [of a r b s] by (auto simp: quote_def)

text \<open>What may follow a value inside a text: the end, a comma or a closing bracket.\<close>

definition ends :: "string \<Rightarrow> bool" where
  "ends r \<longleftrightarrow> r = [] \<or> hd r \<in> {CHR '','', CHR '']'', CHR ''}''}"

lemma ends_simps [simp]:
  "ends []" "ends (CHR '','' # r)" "ends (CHR '']'' # r)" "ends (CHR ''}'' # r)"
  by (simp_all add: ends_def)

lemma ends_render_items: "ends (render_items xs @ r)"
  by (cases xs) simp_all

lemma ends_render_fields: "ends (render_fields kvs @ r)"
  by (cases kvs) auto

lemma not_digit_ends: "ends r \<Longrightarrow> r = [] \<or> \<not> is_digit (hd r)"
  by (auto simp: ends_def is_digit_def)

lemma digits_prefix:
  assumes "a @ r = b @ s" "list_all is_digit a" "list_all is_digit b" "ends r" "ends s"
  shows "a = b \<and> r = s"
proof -
  have "takeWhile is_digit (a @ r) = a"
    using assms(2) not_digit_ends [OF assms(4)]
    by (cases r) (auto simp: list_all_iff takeWhile_append2)
  moreover have "takeWhile is_digit (b @ s) = b"
    using assms(3) not_digit_ends [OF assms(5)]
    by (cases s) (auto simp: list_all_iff takeWhile_append2)
  ultimately show ?thesis using assms(1) by auto
qed

lemma minus_not_digit: "\<not> is_digit (CHR ''-'')"
  by (simp add: is_digit_def)

lemma nat_str_prefix:
  "nat_str m @ r = nat_str n @ s \<Longrightarrow> ends r \<Longrightarrow> ends s \<Longrightarrow> m = n \<and> r = s"
  using digits_prefix [of "nat_str m" r "nat_str n" s] nat_str_digits [of m]
    nat_str_digits [of n] nat_str_inj [of m n] by auto

lemma nat_str_not_minus: "nat_str m @ r \<noteq> CHR ''-'' # s"
  using nat_str_digits [of m] minus_not_digit by (cases "nat_str m") auto

lemma int_str_prefix:
  assumes eq: "int_str i @ r = int_str j @ s" and ends: "ends r" "ends s"
  shows "i = j \<and> r = s"
proof (cases "i < 0")
  case True
  with eq nat_str_not_minus [of "nat j" s] have "j < 0"
    by (simp only: int_str_def if_True append_Cons split: if_splits) metis
  with eq True have "nat_str (nat (- i)) @ r = nat_str (nat (- j)) @ s"
    by (simp add: int_str_def)
  from nat_str_prefix [OF this ends] True \<open>j < 0\<close> show ?thesis by (auto simp: nat_eq_iff2)
next
  case False
  with eq nat_str_not_minus [of "nat i" r] have "\<not> j < 0"
    by (auto simp: int_str_def split: if_splits)
  with eq False have "nat_str (nat i) @ r = nat_str (nat j) @ s"
    by (simp add: int_str_def)
  from nat_str_prefix [OF this ends] False \<open>\<not> j < 0\<close> show ?thesis by (auto simp: nat_eq_iff2)
qed

lemma int_str_inj: "int_str i = int_str j \<longleftrightarrow> i = j"
  using int_str_prefix [of i "[]" j "[]"] by auto

text \<open>The first character tells the constructors apart.\<close>

fun lead :: "json \<Rightarrow> char \<Rightarrow> bool" where
  "lead JNull c \<longleftrightarrow> c = CHR ''n''"
| "lead (JBool b) c \<longleftrightarrow> c = (if b then CHR ''t'' else CHR ''f'')"
| "lead (JInt i) c \<longleftrightarrow> is_digit c \<or> c = CHR ''-''"
| "lead (JStr s) c \<longleftrightarrow> c = CHR 0x22"
| "lead (JList xs) c \<longleftrightarrow> c = CHR ''[''"
| "lead (JObj kvs) c \<longleftrightarrow> c = CHR ''{''"

lemma render_lead: "\<exists>c cs. render x = c # cs \<and> lead x c"
proof (cases x)
  case (JInt i)
  then show ?thesis by (metis int_str_head lead.simps(3) render.simps(3))
next
  case (JList xs)
  then show ?thesis by (cases xs) auto
next
  case (JObj kvs)
  then show ?thesis by (cases kvs) auto
qed (auto simp: quote_def)

lemma render_same_lead:
  assumes "render x @ r = render y @ s"
  shows "\<exists>c. lead x c \<and> lead y c"
  using assms render_lead [of x] render_lead [of y] by auto

lemma digit_not_lead [simp]:
  "\<not> is_digit (CHR ''n'')" "\<not> is_digit (CHR ''t'')" "\<not> is_digit (CHR ''f'')"
  "\<not> is_digit (CHR 0x22)" "\<not> is_digit (CHR ''['')" "\<not> is_digit (CHR ''{'')"
  "\<not> is_digit (CHR '']'')"
  by (simp_all add: is_digit_def)

lemma render_not_bracket: "render x @ r \<noteq> CHR '']'' # s"
  using render_lead [of x] by (cases x) auto

lemma render_JList_prefix:
  assumes x: "\<And>y r s. render x @ r = render y @ s \<Longrightarrow> ends r \<Longrightarrow> ends s \<Longrightarrow> x = y \<and> r = s"
    and xs: "\<And>ys r s. render_items xs @ r = render_items ys @ s \<Longrightarrow> xs = ys \<and> r = s"
    and eq: "render x @ render_items xs @ r = render y @ render_items ys @ s"
  shows "x = y \<and> xs = ys \<and> r = s"
  using x [OF eq] xs ends_render_items by blast

lemma render_JObj_prefix:
  assumes v: "\<And>y r s. render v @ r = render y @ s \<Longrightarrow> ends r \<Longrightarrow> ends s \<Longrightarrow> v = y \<and> r = s"
    and kvs: "\<And>lvs r s. render_fields kvs @ r = render_fields lvs @ s \<Longrightarrow> kvs = lvs \<and> r = s"
    and eq: "quote k @ CHR '':'' # render v @ render_fields kvs @ r =
      quote l @ CHR '':'' # render y @ render_fields lvs @ s"
  shows "k = l \<and> v = y \<and> kvs = lvs \<and> r = s"
proof -
  from eq have "k = l" "render v @ render_fields kvs @ r = render y @ render_fields lvs @ s"
    by (simp_all add: quote_prefix)
  with v kvs ends_render_fields show ?thesis by blast
qed

lemma render_prefix:
  "render x @ r = render y @ s \<Longrightarrow> ends r \<Longrightarrow> ends s \<Longrightarrow> x = y \<and> r = s"
  "render_items xs @ r = render_items ys @ s \<Longrightarrow> xs = ys \<and> r = s"
  "render_fields kvs @ r = render_fields lvs @ s \<Longrightarrow> kvs = lvs \<and> r = s"
proof (induction x and xs and kvs arbitrary: y r s and ys r s and lvs r s
    rule: render_render_items_render_fields.induct)
  case 1
  with render_same_lead [OF "1.prems"(1)] show ?case by (cases y) (auto split: if_splits)
next
  case (2 b)
  with render_same_lead [OF "2.prems"(1)] show ?case by (cases y) (auto split: if_splits)
next
  case (3 i)
  from render_same_lead [OF "3.prems"(1)] obtain j where "y = JInt j"
    by (cases y) (auto split: if_splits)
  with "3.prems" int_str_prefix [of i r j s] show ?case by simp
next
  case (4 t)
  with render_same_lead [OF "4.prems"(1)] show ?case
    by (cases y) (auto simp: quote_prefix split: if_splits)
next
  case 5
  from render_same_lead [OF "5.prems"(1)] obtain ys where "y = JList ys"
    by (cases y) (auto split: if_splits)
  note y = this
  show ?case
  proof (cases ys)
    case Nil
    with "5.prems"(1) y show ?thesis by simp
  next
    case (Cons z zs)
    from "5.prems"(1) have "CHR '']'' # r = render z @ render_items zs @ s"
      by (simp only: y Cons render.simps append_Cons append_Nil append_assoc list.inject)
    then have "render z @ render_items zs @ s = CHR '']'' # r" ..
    with render_not_bracket show ?thesis by blast
  qed
next
  case (6 x xs)
  from render_same_lead [OF "6.prems"(1)] obtain ys where y: "y = JList ys"
    by (cases y) (auto split: if_splits)
  show ?case
  proof (cases ys)
    case Nil
    with "6.prems"(1) y have "render x @ render_items xs @ r = CHR '']'' # s" by simp
    with render_not_bracket show ?thesis by blast
  next
    case (Cons z zs)
    with "6.prems" y have "render x @ render_items xs @ r = render z @ render_items zs @ s" by simp
    from render_JList_prefix [OF "6.IH" this] y Cons show ?thesis by simp
  qed
next
  case 7
  from render_same_lead [OF "7.prems"(1)] obtain lvs where "y = JObj lvs"
    by (cases y) (auto split: if_splits)
  with "7.prems"(1) show ?case by (cases lvs) (auto simp: quote_def)
next
  case (8 k v kvs)
  from render_same_lead [OF "8.prems"(1)] obtain lvs where y: "y = JObj lvs"
    by (cases y) (auto split: if_splits)
  show ?case
  proof (cases lvs)
    case Nil
    with "8.prems"(1) y show ?thesis by (simp add: quote_def)
  next
    case (Cons lw lvs')
    obtain l w where lw: "lw = (l, w)" by (cases lw)
    with "8.prems" y Cons have "quote k @ CHR '':'' # render v @ render_fields kvs @ r =
        quote l @ CHR '':'' # render w @ render_fields lvs' @ s" by simp
    from render_JObj_prefix [OF "8.IH" this] y Cons lw show ?thesis by simp
  qed
next
  case 9
  then show ?case by (cases ys) auto
next
  case (10 x xs)
  show ?case
  proof (cases ys)
    case Nil
    with "10.prems" show ?thesis by simp
  next
    case (Cons z zs)
    with "10.prems" have "render x @ render_items xs @ r = render z @ render_items zs @ s" by simp
    from render_JList_prefix [OF "10.IH" this] Cons show ?thesis by simp
  qed
next
  case 11
  then show ?case by (cases lvs) auto
next
  case (12 k v kvs)
  show ?case
  proof (cases lvs)
    case Nil
    with "12.prems" show ?thesis by simp
  next
    case (Cons lw lvs')
    obtain l w where lw: "lw = (l, w)" by (cases lw)
    with "12.prems" Cons have "quote k @ CHR '':'' # render v @ render_fields kvs @ r =
        quote l @ CHR '':'' # render w @ render_fields lvs' @ s" by simp
    from render_JObj_prefix [OF "12.IH" this] Cons lw show ?thesis by simp
  qed
qed

theorem render_inj: "render x = render y \<longleftrightarrow> x = y"
  using render_prefix(1) [of x "[]" y "[]"] by auto

text \<open>Equal canonical texts come from values that are equal up to the order of object keys.\<close>

theorem dumps_inj: "dumps x = dumps y \<longleftrightarrow> sort_keys x = sort_keys y"
  by (simp add: dumps_def render_inj)

text \<open>Sorting the keys keeps what each key maps to.\<close>

lemma map_of_insort_key:
  "k \<notin> fst ` set kvs \<Longrightarrow> map_of (insort_key fst (k, v) kvs) = (map_of kvs)(k \<mapsto> v)"
  by (induction kvs) (auto simp: fun_eq_iff)

lemma map_of_sort_key:
  "distinct (map fst kvs) \<Longrightarrow> map_of (sort_key fst kvs) = map_of kvs"
proof (induction kvs)
  case (Cons kv kvs)
  obtain k v where kv: "kv = (k, v)" by (cases kv)
  with Cons have "k \<notin> fst ` set (sort_key fst kvs)" by auto
  with Cons kv show ?case by (simp add: map_of_insort_key)
qed simp

lemma sort_keys_JObj_lookup:
  assumes "sort_keys (JObj kvs) = sort_keys (JObj lvs)"
    and "distinct (map fst kvs)" and "distinct (map fst lvs)"
  shows "map_option sort_keys (map_of kvs k) = map_option sort_keys (map_of lvs k)"
proof -
  have sorted: "map_of (sort_key fst (map (\<lambda>(k, v). (k, sort_keys v)) ds)) k =
      map_option sort_keys (map_of ds k)" if "distinct (map fst ds)" for ds
    using that by (subst map_of_sort_key) (simp_all add: comp_def case_prod_beta map_of_map)
  from assms(1) have "map_of (sort_key fst (map (\<lambda>(k, v). (k, sort_keys v)) kvs)) k =
      map_of (sort_key fst (map (\<lambda>(k, v). (k, sort_keys v)) lvs)) k" by simp
  then show ?thesis by (simp add: sorted assms(2,3))
qed

text \<open>
  Two objects with the same keys in the same order, as two dumps of one class have: their
  sorted forms agree exactly when their values do.
\<close>

lemma sort_keys_same_keys:
  assumes keys: "map fst kvs = map fst lvs" and dist: "distinct (map fst kvs)"
  shows "sort_keys (JObj kvs) = sort_keys (JObj lvs) \<longleftrightarrow>
    map (\<lambda>kv. sort_keys (snd kv)) kvs = map (\<lambda>kv. sort_keys (snd kv)) lvs"
proof
  assume eq: "sort_keys (JObj kvs) = sort_keys (JObj lvs)"
  have len: "length kvs = length lvs" using keys by (rule map_eq_imp_length_eq)
  show "map (\<lambda>kv. sort_keys (snd kv)) kvs = map (\<lambda>kv. sort_keys (snd kv)) lvs"
  proof (rule nth_equalityI)
    fix i assume "i < length (map (\<lambda>kv. sort_keys (snd kv)) kvs)"
    then have i: "i < length kvs" "i < length lvs" using len by simp_all
    with keys have k: "fst (kvs ! i) = fst (lvs ! i)" by (metis nth_map)
    have nth: "map_of ds (fst (ds ! i)) = Some (snd (ds ! i))"
      if "i < length ds" "distinct (map fst ds)" for ds :: "(string \<times> json) list"
      using that by (intro map_of_is_SomeI) simp_all
    have "distinct (map fst lvs)" using dist keys by simp
    moreover have "map_of kvs (fst (kvs ! i)) = Some (snd (kvs ! i))" using nth i(1) dist .
    moreover have "map_of lvs (fst (kvs ! i)) = Some (snd (lvs ! i))"
      unfolding k using nth i(2) \<open>distinct (map fst lvs)\<close> .
    ultimately have "sort_keys (snd (kvs ! i)) = sort_keys (snd (lvs ! i))"
      using sort_keys_JObj_lookup [OF eq dist, of "fst (kvs ! i)"]
      by (simp only: option.map option.inject)
    then show "map (\<lambda>kv. sort_keys (snd kv)) kvs ! i = map (\<lambda>kv. sort_keys (snd kv)) lvs ! i"
      using i by simp
  qed (simp add: len)
next
  assume vals: "map (\<lambda>kv. sort_keys (snd kv)) kvs = map (\<lambda>kv. sort_keys (snd kv)) lvs"
  have zip: "map (\<lambda>(k, v). (k, sort_keys v)) ds = zip (map fst ds) (map (\<lambda>kv. sort_keys (snd kv)) ds)"
    for ds by (induction ds) auto
  show "sort_keys (JObj kvs) = sort_keys (JObj lvs)" by (simp add: zip keys vals)
qed

declare sort_keys.simps(2) [simp del]

text \<open>An optional field, \<open>null\<close> when it is absent.\<close>

fun opt_json :: "('a \<Rightarrow> json) \<Rightarrow> 'a option \<Rightarrow> json" where
  "opt_json f None = JNull"
| "opt_json f (Some a) = f a"

lemma sort_keys_JNull: "sort_keys v = JNull \<longleftrightarrow> v = JNull"
  by (cases v) (auto simp: sort_keys.simps(2))

lemma sort_keys_opt_json:
  assumes "\<And>a b. sort_keys (f a) = sort_keys (f b) \<longleftrightarrow> a = b" and "\<And>a. f a \<noteq> JNull"
  shows "sort_keys (opt_json f x) = sort_keys (opt_json f y) \<longleftrightarrow> x = y"
  using assms by (cases x; cases y) (auto simp: sort_keys_JNull eq_commute [of JNull])

lemma sort_keys_list:
  assumes "\<And>a b. sort_keys (f a) = sort_keys (f b) \<longleftrightarrow> a = b"
  shows "sort_keys (JList (map f xs)) = sort_keys (JList (map f ys)) \<longleftrightarrow> xs = ys"
proof -
  have "inj (sort_keys \<circ> f)" using assms by (auto intro: injI)
  then show ?thesis by (simp add: inj_map_eq_map)
qed

end
