(* ===== verification/Records.thy ===== *)
theory Records
  imports Profile Lifecycle Json
begin

text \<open>
  The documents of one incident (\<open>domain/incidents.py\<close>): signals, evidence, findings, the
  proposal, policy decision, Approval, Intervention, recovery assessments and audit events.
  As in \<open>Profile\<close>, \<open>X_fields\<close> are a class's own field constraints, \<open>X_problem\<close> its
  after-validator and \<open>wf_X\<close> the validity of the nested document.
\<close>

section \<open>Enumerations\<close>

datatype specialist_role = HEALTH | LOGS | METRICS_ROLE | CHANGE

fun specialist_role_value :: "specialist_role \<Rightarrow> string" where
  "specialist_role_value HEALTH = ''health''"
| "specialist_role_value LOGS = ''logs''"
| "specialist_role_value METRICS_ROLE = ''metrics''"
| "specialist_role_value CHANGE = ''change''"

datatype policy_status = POLICY_PASSED | POLICY_REJECTED | DRY_RUN_FAILED

fun policy_status_value :: "policy_status \<Rightarrow> string" where
  "policy_status_value POLICY_PASSED = ''passed''"
| "policy_status_value POLICY_REJECTED = ''rejected''"
| "policy_status_value DRY_RUN_FAILED = ''dry_run_failed''"

datatype policy_check_code =
    PROPOSAL_SCOPED | EVIDENCE_CURRENT | ENROLLMENT_READY | TARGET_ENROLLED
  | TARGET_EXECUTABLE | ACTION_ALLOWED | LIVE_STATE_AVAILABLE | NO_ACTIVE_INTERVENTION
  | REVISION_AVAILABLE | RESTORATION_SAFE | REPLICA_BOUNDS | REPLICA_QUOTA | PATCH_SHAPE
  | SERVER_DRY_RUN

fun policy_check_code_value :: "policy_check_code \<Rightarrow> string" where
  "policy_check_code_value PROPOSAL_SCOPED = ''proposal_scoped''"
| "policy_check_code_value EVIDENCE_CURRENT = ''evidence_current''"
| "policy_check_code_value ENROLLMENT_READY = ''enrollment_ready''"
| "policy_check_code_value TARGET_ENROLLED = ''target_enrolled''"
| "policy_check_code_value TARGET_EXECUTABLE = ''target_executable''"
| "policy_check_code_value ACTION_ALLOWED = ''action_allowed''"
| "policy_check_code_value LIVE_STATE_AVAILABLE = ''live_state_available''"
| "policy_check_code_value NO_ACTIVE_INTERVENTION = ''no_active_intervention''"
| "policy_check_code_value REVISION_AVAILABLE = ''revision_available''"
| "policy_check_code_value RESTORATION_SAFE = ''restoration_safe''"
| "policy_check_code_value REPLICA_BOUNDS = ''replica_bounds''"
| "policy_check_code_value REPLICA_QUOTA = ''replica_quota''"
| "policy_check_code_value PATCH_SHAPE = ''patch_shape''"
| "policy_check_code_value SERVER_DRY_RUN = ''server_dry_run''"

datatype approval_decision = APPROVED | APPROVAL_REJECTED

fun approval_decision_value :: "approval_decision \<Rightarrow> string" where
  "approval_decision_value APPROVED = ''approved''"
| "approval_decision_value APPROVAL_REJECTED = ''rejected''"

datatype intervention_state =
  PENDING | RUNNING | IV_SUCCEEDED | IV_ROLLED_BACK | IV_FAILED | IV_SAFE_HALTED

datatype action_convergence_status =
  CONVERGENCE_SUCCEEDED | CONVERGENCE_FAILED | CONVERGENCE_AMBIGUOUS

datatype provider_state = State_Open | State_Closed

fun provider_state_value :: "provider_state \<Rightarrow> string" where
  "provider_state_value State_Open = ''open''"
| "provider_state_value State_Closed = ''closed''"

lemma policy_status_value_inj: "policy_status_value a = policy_status_value b \<longleftrightarrow> a = b"
  by (cases a; cases b) simp_all

lemma policy_check_code_value_inj:
  "policy_check_code_value a = policy_check_code_value b \<longleftrightarrow> a = b"
  by (cases a; cases b) simp_all

section \<open>Signals and evidence\<close>

record alert_signal =
  sg_signal_id :: string
  sg_application_id :: string
  sg_namespace :: string
  sg_workload_name :: string
  sg_workload_namespace :: string
  sg_summary :: string
  sg_observed_at :: datetime
  sg_window_start :: "datetime option"
  sg_window_end :: "datetime option"
  sg_provider_incident_id :: "string option"

definition alert_signal_fields :: "alert_signal \<Rightarrow> bool" where
  "alert_signal_fields s \<longleftrightarrow> sg_signal_id s \<noteq> [] \<and> sg_application_id s \<noteq> []
     \<and> sg_namespace s \<noteq> [] \<and> sg_workload_name s \<noteq> [] \<and> sg_workload_namespace s \<noteq> []
     \<and> sg_summary s \<noteq> [] \<and> int (length (sg_summary s)) \<le> 1000"

definition alert_signal_problem :: "alert_signal \<Rightarrow> string option" where
  "alert_signal_problem s = first_problem (
    [(sg_workload_namespace s \<noteq> sg_namespace s,
      ''alert workload must use the same namespace as its application''),
     ((sg_window_start s = None) \<noteq> (sg_window_end s = None),
      ''alert windows require both start and end timestamps'')]
    @ (case (sg_window_start s, sg_window_end s) of
        (Some start, Some end') \<Rightarrow>
          [(end' \<le> start, ''alert window end must be after start''),
           (end' - start > hours 2, ''alert window cannot exceed the evidence budget maximum'')]
      | _ \<Rightarrow> []))"

definition wf_alert_signal :: "alert_signal \<Rightarrow> bool" where
  "wf_alert_signal s \<longleftrightarrow> alert_signal_fields s \<and> alert_signal_problem s = None"

record alert_signal_evidence =
  se_notification_id :: string
  se_incident_id :: string
  se_signal :: alert_signal
  se_provider_state :: provider_state
  se_received_at :: datetime

definition wf_alert_signal_evidence :: "alert_signal_evidence \<Rightarrow> bool" where
  "wf_alert_signal_evidence e \<longleftrightarrow> se_notification_id e \<noteq> [] \<and> se_incident_id e \<noteq> []
     \<and> wf_alert_signal (se_signal e)"

record evidence_window =
  ew_window_id :: string
  ew_incident_id :: string
  ew_started_at :: datetime
  ew_ended_at :: datetime
  ew_captured_at :: datetime

definition evidence_window_fields :: "evidence_window \<Rightarrow> bool" where
  "evidence_window_fields w \<longleftrightarrow> ew_window_id w \<noteq> [] \<and> ew_incident_id w \<noteq> []"

definition evidence_window_problem :: "evidence_window \<Rightarrow> string option" where
  "evidence_window_problem w = first_problem
    [(ew_ended_at w \<le> ew_started_at w, ''evidence window end must be after start''),
     (ew_captured_at w < ew_ended_at w, ''evidence window must be captured after its end'')]"

definition wf_evidence_window :: "evidence_window \<Rightarrow> bool" where
  "wf_evidence_window w \<longleftrightarrow> evidence_window_fields w \<and> evidence_window_problem w = None"

record evidence_observation =
  eo_evidence_id :: string
  eo_incident_id :: string
  eo_source :: evidence_source
  eo_query :: evidence_query_kind
  eo_query_reference :: string
  eo_evidence_query_id :: "string option"
  eo_evidence_window_id :: string
  eo_observed_at :: datetime
  eo_scope :: workload_reference
  eo_redacted_excerpt :: string
  eo_content_hash :: string
  eo_truncated :: bool
  eo_provider_reference :: string

definition wf_evidence_observation :: "evidence_observation \<Rightarrow> bool" where
  "wf_evidence_observation e \<longleftrightarrow> eo_evidence_id e \<noteq> [] \<and> eo_incident_id e \<noteq> []
     \<and> eo_query_reference e \<noteq> [] \<and> pred_option (\<lambda>q. q \<noteq> []) (eo_evidence_query_id e)
     \<and> eo_evidence_window_id e \<noteq> [] \<and> workload_reference_fields (eo_scope e)
     \<and> eo_redacted_excerpt e \<noteq> [] \<and> int (length (eo_redacted_excerpt e)) \<le> 10000
     \<and> 8 \<le> length (eo_content_hash e) \<and> eo_provider_reference e \<noteq> []"

record evidence_retrieval_failure =
  ef_failure_id :: string
  ef_incident_id :: string
  ef_source :: "evidence_source option"
  ef_query :: "evidence_query_kind option"
  ef_scope :: "workload_reference option"
  ef_occurred_at :: datetime
  ef_message :: string

definition wf_evidence_retrieval_failure :: "evidence_retrieval_failure \<Rightarrow> bool" where
  "wf_evidence_retrieval_failure f \<longleftrightarrow> ef_failure_id f \<noteq> [] \<and> ef_incident_id f \<noteq> []
     \<and> pred_option workload_reference_fields (ef_scope f)
     \<and> ef_message f \<noteq> [] \<and> int (length (ef_message f)) \<le> 1000"

record evidence_query =
  qy_query_id :: string
  qy_incident_id :: string
  qy_specialist :: specialist_role
  qy_kind :: evidence_query_kind
  qy_target :: workload_reference
  qy_requested_at :: datetime
  qy_query_round :: int

definition wf_evidence_query :: "evidence_query \<Rightarrow> bool" where
  "wf_evidence_query q \<longleftrightarrow> qy_query_id q \<noteq> [] \<and> qy_incident_id q \<noteq> []
     \<and> workload_reference_fields (qy_target q) \<and> 1 \<le> qy_query_round q \<and> qy_query_round q \<le> 2"

section \<open>Findings and hypotheses\<close>

record evidence_citation =
  ec_evidence_id :: string
  ec_observation :: string

definition wf_evidence_citation :: "evidence_citation \<Rightarrow> bool" where
  "wf_evidence_citation c \<longleftrightarrow> ec_evidence_id c \<noteq> [] \<and> ec_observation c \<noteq> []
     \<and> int (length (ec_observation c)) \<le> 1000"

record specialist_finding =
  sf_finding_id :: string
  sf_incident_id :: string
  sf_specialist :: specialist_role
  sf_citations :: "evidence_citation list"
  sf_candidate_explanations :: "string list"
  sf_confidence :: rat
  sf_contradictions :: "string list"
  sf_unknowns :: "string list"

definition wf_specialist_finding :: "specialist_finding \<Rightarrow> bool" where
  "wf_specialist_finding f \<longleftrightarrow> sf_finding_id f \<noteq> [] \<and> sf_incident_id f \<noteq> []
     \<and> sf_citations f \<noteq> [] \<and> list_all wf_evidence_citation (sf_citations f)
     \<and> sf_candidate_explanations f \<noteq> [] \<and> 0 \<le> sf_confidence f \<and> sf_confidence f \<le> 1"

datatype invocation_role = Specialist specialist_role | Coordinator

datatype thinking_level = Minimal | Low | Medium | High

record model_invocation =
  mi_invocation_id :: string
  mi_incident_id :: string
  mi_role :: invocation_role
  mi_model_id :: string
  mi_prompt_version :: string
  mi_thinking_level :: thinking_level
  mi_latency_ms :: int
  mi_input_tokens :: int
  mi_output_tokens :: int
  mi_tool_count :: int
  mi_output_valid :: bool
  mi_failure_reason :: "string option"

definition model_invocation_fields :: "model_invocation \<Rightarrow> bool" where
  "model_invocation_fields m \<longleftrightarrow> mi_invocation_id m \<noteq> [] \<and> mi_incident_id m \<noteq> []
     \<and> mi_model_id m \<noteq> [] \<and> mi_prompt_version m \<noteq> [] \<and> 0 \<le> mi_latency_ms m
     \<and> 0 \<le> mi_input_tokens m \<and> 0 \<le> mi_output_tokens m \<and> 0 \<le> mi_tool_count m"

definition model_invocation_problem :: "model_invocation \<Rightarrow> string option" where
  "model_invocation_problem m = first_problem
    [(mi_output_valid m \<and> mi_failure_reason m \<noteq> None,
      ''valid model output cannot include a failure reason''),
     (\<not> mi_output_valid m \<and> mi_failure_reason m = None,
      ''invalid model output requires a failure reason'')]"

definition wf_model_invocation :: "model_invocation \<Rightarrow> bool" where
  "wf_model_invocation m \<longleftrightarrow> model_invocation_fields m \<and> model_invocation_problem m = None"

record root_cause_hypothesis =
  rh_hypothesis_id :: string
  rh_incident_id :: string
  rh_rank :: int
  rh_statement :: string
  rh_falsification_test :: string
  rh_confidence :: rat
  rh_citations :: "evidence_citation list"

definition wf_root_cause_hypothesis :: "root_cause_hypothesis \<Rightarrow> bool" where
  "wf_root_cause_hypothesis h \<longleftrightarrow> rh_hypothesis_id h \<noteq> [] \<and> rh_incident_id h \<noteq> []
     \<and> 1 \<le> rh_rank h \<and> rh_statement h \<noteq> [] \<and> rh_falsification_test h \<noteq> []
     \<and> 0 \<le> rh_confidence h \<and> rh_confidence h \<le> 1
     \<and> rh_citations h \<noteq> [] \<and> list_all wf_evidence_citation (rh_citations h)"

section \<open>Remediation proposals\<close>

datatype remediation_action =
    RollbackDeploymentAction workload_reference int
  | ScaleDeploymentAction workload_reference int
  | RestartDeploymentAction workload_reference string

fun action_target :: "remediation_action \<Rightarrow> workload_reference" where
  "action_target (RollbackDeploymentAction t r) = t"
| "action_target (ScaleDeploymentAction t n) = t"
| "action_target (RestartDeploymentAction t k) = t"

fun action_kind :: "remediation_action \<Rightarrow> action_type" where
  "action_kind (RollbackDeploymentAction t r) = Rollback_Deployment"
| "action_kind (ScaleDeploymentAction t n) = Scale_Deployment"
| "action_kind (RestartDeploymentAction t k) = Restart_Deployment"

fun wf_remediation_action :: "remediation_action \<Rightarrow> bool" where
  "wf_remediation_action (RollbackDeploymentAction t r) \<longleftrightarrow> workload_reference_fields t \<and> 1 \<le> r"
| "wf_remediation_action (ScaleDeploymentAction t n) \<longleftrightarrow> workload_reference_fields t \<and> 0 \<le> n"
| "wf_remediation_action (RestartDeploymentAction t k) \<longleftrightarrow>
     workload_reference_fields t \<and> k \<noteq> []"

record remediation_proposal =
  rp_proposal_id :: string
  rp_incident_id :: string
  rp_action :: remediation_action
  rp_expected_impact :: string
  rp_recovery_criteria :: recovery_criteria
  rp_rollback_strategy :: string
  rp_evidence_hash :: string
  rp_known_risks :: "string list"

definition wf_remediation_proposal :: "remediation_proposal \<Rightarrow> bool" where
  "wf_remediation_proposal p \<longleftrightarrow> rp_proposal_id p \<noteq> [] \<and> rp_incident_id p \<noteq> []
     \<and> wf_remediation_action (rp_action p) \<and> rp_expected_impact p \<noteq> []
     \<and> recovery_criteria_fields (rp_recovery_criteria p) \<and> rp_rollback_strategy p \<noteq> []
     \<and> 8 \<le> length (rp_evidence_hash p)"

record manual_guidance =
  mg_incident_id :: string
  mg_reason :: string
  mg_guidance :: string
  mg_outcome :: investigation_outcome

definition wf_manual_guidance :: "manual_guidance \<Rightarrow> bool" where
  "wf_manual_guidance g \<longleftrightarrow> mg_incident_id g \<noteq> [] \<and> mg_reason g \<noteq> [] \<and> mg_guidance g \<noteq> []
     \<and> mg_outcome g \<in> {NO_SAFE_ACTION, NEEDS_MORE_EVIDENCE}"

record coordinator_output =
  co_outcome :: investigation_outcome
  co_hypotheses :: "root_cause_hypothesis list"
  co_proposal :: "remediation_proposal option"
  co_manual_guidance :: "manual_guidance option"

definition coordinator_output_problem :: "coordinator_output \<Rightarrow> string option" where
  "coordinator_output_problem c =
    (let ranks = map rh_rank (co_hypotheses c) in first_problem (
    [(ranks \<noteq> map int [1..<length ranks + 1],
      ''Root Cause Hypotheses must have consecutive ranks starting at one'')]
    @ (if co_outcome c = PROPOSAL_READY then
        [(co_proposal c = None \<or> co_manual_guidance c \<noteq> None,
          ''proposal_ready requires exactly one Remediation Proposal'')]
       else if co_outcome c \<in> {NEEDS_MORE_EVIDENCE, NO_SAFE_ACTION} then
        [(co_manual_guidance c = None \<or> co_proposal c \<noteq> None,
          ''Safe Refusal requires exactly one Manual Guidance outcome''),
         (map_option mg_outcome (co_manual_guidance c) \<noteq> Some (co_outcome c),
          ''Manual Guidance outcome must match the Coordinator outcome'')]
       else
        [(co_proposal c \<noteq> None \<or> co_manual_guidance c \<noteq> None,
          ''inconclusive output cannot contain a proposal or Manual Guidance'')])
    @ [(co_outcome c \<noteq> INCONCLUSIVE \<and> co_hypotheses c = [],
        ''a conclusive Coordinator output requires ranked hypotheses'')]))"

definition wf_coordinator_output :: "coordinator_output \<Rightarrow> bool" where
  "wf_coordinator_output c \<longleftrightarrow> co_outcome c \<noteq> INV_NOT_STARTED
     \<and> list_all wf_root_cause_hypothesis (co_hypotheses c)
     \<and> pred_option wf_remediation_proposal (co_proposal c)
     \<and> pred_option wf_manual_guidance (co_manual_guidance c)
     \<and> coordinator_output_problem c = None"

end
