(* ===== verification/Decisions.thy ===== *)
theory Decisions
  imports Records
begin

text \<open>
  The documents decisions are made of (\<open>domain/incidents.py\<close>): the live Deployment state, the
  patch, the policy decision, Approval, Intervention, recovery assessment and audit event, and
  the Investigation Record that holds everything known about one incident, with its
  consistency validator.
\<close>

section \<open>Deployments and policy\<close>

record deployment_revision =
  dr_revision :: int
  dr_pod_template :: "(string \<times> json) list"
  dr_restorable :: bool
  dr_implicated :: bool

record deployment_policy_state =
  ds_target :: workload_reference
  ds_resource_version :: string
  ds_generation :: int
  ds_replicas :: int
  ds_current_revision :: int
  ds_available_revisions :: "deployment_revision list"
  ds_active_intervention :: bool
  ds_replica_quota_headroom :: int

definition wf_deployment_policy_state :: "deployment_policy_state \<Rightarrow> bool" where
  "wf_deployment_policy_state s \<longleftrightarrow> workload_reference_fields (ds_target s)
     \<and> ds_resource_version s \<noteq> [] \<and> 1 \<le> ds_generation s \<and> 0 \<le> ds_replicas s
     \<and> 1 \<le> ds_current_revision s \<and> ds_available_revisions s \<noteq> []
     \<and> list_all (\<lambda>r. 1 \<le> dr_revision r) (ds_available_revisions s)
     \<and> 0 \<le> ds_replica_quota_headroom s"

record deployment_patch =
  dp_action_type :: action_type
  dp_target :: workload_reference
  dp_resource_version :: string
  dp_body :: "(string \<times> json) list"

definition wf_deployment_patch :: "deployment_patch \<Rightarrow> bool" where
  "wf_deployment_patch p \<longleftrightarrow> workload_reference_fields (dp_target p)
     \<and> dp_resource_version p \<noteq> []"

record deployment_convergence_result =
  cr_status :: action_convergence_status
  cr_reason :: string
  cr_observed_state :: "deployment_policy_state option"

definition deployment_convergence_result_problem ::
  "deployment_convergence_result \<Rightarrow> string option" where
  "deployment_convergence_result_problem c = first_problem
    [(cr_status c \<noteq> CONVERGENCE_AMBIGUOUS \<and> cr_observed_state c = None,
      ''definitive convergence results require observed Deployment state'')]"

record dry_run_result =
  dry_accepted :: bool
  dry_diff :: "string option"
  dry_error :: "string option"

definition dry_run_result_problem :: "dry_run_result \<Rightarrow> string option" where
  "dry_run_result_problem d = first_problem
    [(dry_accepted d \<and> (dry_diff d = None \<or> dry_error d \<noteq> None),
      ''accepted dry-run results require only a diff''),
     (\<not> dry_accepted d \<and> (dry_error d = None \<or> dry_diff d \<noteq> None),
      ''rejected dry-run results require only an error'')]"

record policy_check =
  pc_code :: policy_check_code
  pc_passed :: bool
  pc_message :: string

record policy_decision =
  pd_incident_id :: string
  pd_proposal_id :: string
  pd_status :: policy_status
  pd_checks :: "policy_check list"
  pd_evaluated_at :: datetime
  pd_workload_resource_version :: "string option"
  pd_workload_generation :: "int option"
  pd_workload_revision :: "int option"
  pd_patch :: "deployment_patch option"
  pd_dry_run_diff :: "string option"
  pd_rejection_reason :: "string option"

definition policy_decision_fields :: "policy_decision \<Rightarrow> bool" where
  "policy_decision_fields d \<longleftrightarrow> pd_incident_id d \<noteq> [] \<and> pd_proposal_id d \<noteq> []
     \<and> pd_checks d \<noteq> [] \<and> list_all (\<lambda>c. pc_message c \<noteq> []) (pd_checks d)
     \<and> pred_option (\<lambda>n. 1 \<le> n) (pd_workload_generation d)
     \<and> pred_option (\<lambda>n. 1 \<le> n) (pd_workload_revision d)
     \<and> pred_option wf_deployment_patch (pd_patch d)"

definition policy_decision_problem :: "policy_decision \<Rightarrow> string option" where
  "policy_decision_problem d =
    (let failed = list_ex (\<lambda>c. \<not> pc_passed c) (pd_checks d)
     in first_problem
      (if pd_status d = POLICY_PASSED then
        [(failed \<or> pd_patch d = None \<or> pd_dry_run_diff d = None,
          ''passed policy requires all checks, a patch, and a dry-run diff''),
         (pd_rejection_reason d \<noteq> None, ''passed policy cannot include a rejection reason'')]
       else
        [(\<not> failed \<or> pd_rejection_reason d = None \<or> pd_dry_run_diff d \<noteq> None,
          ''rejected policy requires failed checks and a rejection reason'')]))"

definition wf_policy_decision :: "policy_decision \<Rightarrow> bool" where
  "wf_policy_decision d \<longleftrightarrow> policy_decision_fields d \<and> policy_decision_problem d = None"

section \<open>Approvals and Interventions\<close>

record approval_binding =
  ab_incident_version :: int
  ab_proposal_hash :: string
  ab_evidence_hash :: string
  ab_workload_resource_version :: string
  ab_workload_generation :: int
  ab_workload_revision :: int
  ab_policy_hash :: string
  ab_dry_run_hash :: string
  ab_recovery_criteria_hash :: string
  ab_failure_strategy_hash :: string
  ab_expires_at :: datetime

record approval_review =
  ar_incident_id :: string
  ar_proposal_id :: string
  ar_responder_principal :: string
  ar_binding :: approval_binding

record approval =
  apr_approval_id :: string
  apr_incident_id :: string
  apr_proposal_id :: string
  apr_responder_principal :: string
  apr_decision :: approval_decision
  apr_decided_at :: datetime
  apr_expires_at :: datetime
  apr_proposal_hash :: string
  apr_evidence_hash :: string
  apr_workload_resource_version :: string
  apr_workload_generation :: int
  apr_workload_revision :: int
  apr_policy_hash :: string
  apr_dry_run_hash :: string
  apr_recovery_criteria_hash :: string
  apr_failure_strategy_hash :: string

definition approval_fields :: "approval \<Rightarrow> bool" where
  "approval_fields a \<longleftrightarrow> apr_approval_id a \<noteq> [] \<and> apr_incident_id a \<noteq> []
     \<and> apr_proposal_id a \<noteq> [] \<and> apr_responder_principal a \<noteq> []
     \<and> 8 \<le> length (apr_proposal_hash a) \<and> 8 \<le> length (apr_evidence_hash a)
     \<and> apr_workload_resource_version a \<noteq> [] \<and> 1 \<le> apr_workload_generation a
     \<and> 1 \<le> apr_workload_revision a \<and> 8 \<le> length (apr_policy_hash a)
     \<and> 8 \<le> length (apr_dry_run_hash a) \<and> 8 \<le> length (apr_recovery_criteria_hash a)
     \<and> 8 \<le> length (apr_failure_strategy_hash a)"

definition approval_problem :: "approval \<Rightarrow> string option" where
  "approval_problem a = first_problem
    [(apr_expires_at a \<le> apr_decided_at a, ''approval expiry must be after its decision time'')]"

definition wf_approval :: "approval \<Rightarrow> bool" where
  "wf_approval a \<longleftrightarrow> approval_fields a \<and> approval_problem a = None"

record intervention_request =
  iq_request_id :: string
  iq_incident_id :: string
  iq_proposal_id :: string
  iq_approval_id :: string
  iq_target :: workload_reference
  iq_patch :: deployment_patch
  iq_requested_at :: datetime
  iq_idempotency_key :: string
  iq_payload_hash :: string

definition intervention_request_fields :: "intervention_request \<Rightarrow> bool" where
  "intervention_request_fields q \<longleftrightarrow> iq_request_id q \<noteq> [] \<and> iq_incident_id q \<noteq> []
     \<and> iq_proposal_id q \<noteq> [] \<and> iq_approval_id q \<noteq> []
     \<and> 8 \<le> length (iq_idempotency_key q) \<and> 8 \<le> length (iq_payload_hash q)"

definition intervention_request_problem :: "intervention_request \<Rightarrow> string option" where
  "intervention_request_problem q = first_problem
    [(dp_target (iq_patch q) \<noteq> iq_target q,
      ''Intervention request patch must target its declared workload'')]"

definition wf_intervention_request :: "intervention_request \<Rightarrow> bool" where
  "wf_intervention_request q \<longleftrightarrow> intervention_request_fields q
     \<and> workload_reference_fields (iq_target q) \<and> wf_deployment_patch (iq_patch q)
     \<and> intervention_request_problem q = None"

record intervention =
  iv_intervention_id :: string
  iv_incident_id :: string
  iv_proposal_id :: string
  iv_approval_id :: string
  iv_target :: workload_reference
  iv_state :: intervention_state
  iv_requested_at :: datetime
  iv_idempotency_key :: string

definition wf_intervention :: "intervention \<Rightarrow> bool" where
  "wf_intervention v \<longleftrightarrow> iv_intervention_id v \<noteq> [] \<and> iv_incident_id v \<noteq> []
     \<and> iv_proposal_id v \<noteq> [] \<and> iv_approval_id v \<noteq> []
     \<and> workload_reference_fields (iv_target v) \<and> 8 \<le> length (iv_idempotency_key v)"

section \<open>Recovery assessments and audit events\<close>

record recovery_assessment =
  ra_incident_id :: string
  ra_intervention_id :: string
  ra_window_started_at :: datetime
  ra_window_ended_at :: datetime
  ra_observed_at :: datetime
  ra_generation :: int
  ra_observed_generation :: int
  ra_active_revision :: int
  ra_desired_replicas :: int
  ra_updated_replicas :: int
  ra_available_replicas :: int
  ra_unavailable_replicas :: int
  ra_oom_terminations :: int
  ra_restart_delta :: int
  ra_kubernetes_converged :: bool
  ra_symptoms_cleared :: bool
  ra_journey_name :: string
  ra_criteria_satisfied :: bool
  ra_request_count :: int
  ra_success_rate :: "rat option"
  ra_p95_latency_ms :: "int option"
  ra_traffic_sufficient :: bool
  ra_availability_satisfied :: bool
  ra_latency_satisfied :: bool
  ra_synthetic_probe_used :: bool
  ra_synthetic_probe_successes :: "int option"
  ra_sufficient_evidence :: bool
  ra_stable_windows :: int
  ra_required_stable_windows :: int
  ra_explanation :: string

definition recovery_assessment_fields :: "recovery_assessment \<Rightarrow> bool" where
  "recovery_assessment_fields a \<longleftrightarrow> ra_incident_id a \<noteq> [] \<and> ra_intervention_id a \<noteq> []
     \<and> 1 \<le> ra_generation a \<and> 0 \<le> ra_observed_generation a \<and> 1 \<le> ra_active_revision a
     \<and> 0 \<le> ra_desired_replicas a \<and> 0 \<le> ra_updated_replicas a \<and> 0 \<le> ra_available_replicas a
     \<and> 0 \<le> ra_unavailable_replicas a \<and> 0 \<le> ra_oom_terminations a \<and> 0 \<le> ra_restart_delta a
     \<and> ra_journey_name a \<noteq> [] \<and> 0 \<le> ra_request_count a
     \<and> pred_option (\<lambda>r. 0 \<le> r \<and> r \<le> 1) (ra_success_rate a)
     \<and> pred_option (\<lambda>l. 0 < l) (ra_p95_latency_ms a)
     \<and> pred_option (\<lambda>n. 0 \<le> n) (ra_synthetic_probe_successes a)
     \<and> 0 \<le> ra_stable_windows a \<and> 2 \<le> ra_required_stable_windows a \<and> ra_explanation a \<noteq> []"

definition recovery_assessment_problem :: "recovery_assessment \<Rightarrow> string option" where
  "recovery_assessment_problem a = first_problem
    [(ra_window_ended_at a \<le> ra_window_started_at a,
      ''recovery window end must follow its start''),
     (ra_observed_at a < ra_window_ended_at a,
      ''recovery assessment cannot precede its evidence window''),
     (\<not> ra_criteria_satisfied a \<and> ra_stable_windows a \<noteq> 0,
      ''failed recovery criteria must reset stabilization progress''),
     (ra_criteria_satisfied a \<and> ra_stable_windows a < 1,
      ''satisfied recovery criteria must advance stabilization''),
     (ra_criteria_satisfied a \<and> \<not> ra_sufficient_evidence a,
      ''recovery cannot pass with insufficient evidence''),
     (ra_criteria_satisfied a \<and> \<not> (ra_kubernetes_converged a \<and> ra_symptoms_cleared a
        \<and> ra_traffic_sufficient a \<and> ra_availability_satisfied a \<and> ra_latency_satisfied a),
      ''recovery cannot pass with a failed deterministic check''),
     (ra_synthetic_probe_used a \<and> ra_synthetic_probe_successes a = None,
      ''synthetic fallback must record its successful probe count''),
     (\<not> ra_synthetic_probe_used a \<and> ra_synthetic_probe_successes a \<noteq> None,
      ''probe results require synthetic fallback to be marked as used'')]"

definition wf_recovery_assessment :: "recovery_assessment \<Rightarrow> bool" where
  "wf_recovery_assessment a \<longleftrightarrow> recovery_assessment_fields a
     \<and> recovery_assessment_problem a = None"

record audit_event =
  ae_event_id :: string
  ae_incident_id :: string
  ae_event_type :: string
  ae_occurred_at :: datetime
  ae_actor :: string
  ae_details :: "(string \<times> string) list"
  ae_cursor :: int

definition wf_audit_event :: "audit_event \<Rightarrow> bool" where
  "wf_audit_event e \<longleftrightarrow> ae_event_id e \<noteq> [] \<and> ae_incident_id e \<noteq> [] \<and> ae_event_type e \<noteq> []
     \<and> ae_actor e \<noteq> [] \<and> 0 \<le> ae_cursor e"

section \<open>The Investigation Record\<close>

record investigation_record =
  ir_incident :: incident
  ir_application_profile :: application_profile
  ir_evidence_window :: evidence_window
  ir_alert_signals :: "alert_signal_evidence list"
  ir_evidence :: "evidence_observation list"
  ir_evidence_retrieval_failures :: "evidence_retrieval_failure list"
  ir_evidence_queries :: "evidence_query list"
  ir_findings :: "specialist_finding list"
  ir_model_invocations :: "model_invocation list"
  ir_hypotheses :: "root_cause_hypothesis list"
  ir_proposal :: "remediation_proposal option"
  ir_manual_guidance :: "manual_guidance option"
  ir_policy_decision :: "policy_decision option"
  ir_approvals :: "approval list"
  ir_interventions :: "intervention list"
  ir_recovery_assessments :: "recovery_assessment list"
  ir_audit_events :: "audit_event list"

definition scoped_entries :: "investigation_record \<Rightarrow> workload_reference list" where
  "scoped_entries r = map eo_scope (ir_evidence r) @ map qy_target (ir_evidence_queries r)
     @ map (action_target \<circ> rp_action) (case_option [] (\<lambda>p. [p]) (ir_proposal r))
     @ map iv_target (ir_interventions r)"

definition entry_incident_ids :: "investigation_record \<Rightarrow> string list" where
  "entry_incident_ids r = map se_incident_id (ir_alert_signals r)
     @ map eo_incident_id (ir_evidence r)
     @ map ef_incident_id (ir_evidence_retrieval_failures r)
     @ map qy_incident_id (ir_evidence_queries r)
     @ map sf_incident_id (ir_findings r)
     @ map mi_incident_id (ir_model_invocations r)
     @ map rh_incident_id (ir_hypotheses r)
     @ map apr_incident_id (ir_approvals r)
     @ map iv_incident_id (ir_interventions r)
     @ map ra_incident_id (ir_recovery_assessments r)
     @ map ae_incident_id (ir_audit_events r)
     @ map rp_incident_id (case_option [] (\<lambda>p. [p]) (ir_proposal r))
     @ map mg_incident_id (case_option [] (\<lambda>g. [g]) (ir_manual_guidance r))"

definition record_citations :: "investigation_record \<Rightarrow> string list" where
  "record_citations r = concat (map (map ec_evidence_id \<circ> sf_citations) (ir_findings r))
     @ concat (map (map ec_evidence_id \<circ> rh_citations) (ir_hypotheses r))"

definition investigation_record_problem :: "investigation_record \<Rightarrow> string option" where
  "investigation_record_problem r =
    (let incident_id = inc_incident_id (ir_incident r) in first_problem (
    [(inc_application_id (ir_incident r) \<noteq> ap_application_id (ir_application_profile r),
      ''incident must reference the record application profile''),
     (ew_incident_id (ir_evidence_window r) \<noteq> incident_id,
      ''evidence window must belong to the same incident''),
     (list_ex (\<lambda>s. s \<notin> set (enrolled_references (ir_application_profile r))) (scoped_entries r),
      ''investigation record scope is outside the enrolled application profile''),
     (list_ex (\<lambda>i. i \<noteq> incident_id) (entry_incident_ids r),
      ''investigation record entries must belong to the same incident''),
     (list_ex (\<lambda>e. case eo_evidence_query_id e of None \<Rightarrow> False
                  | Some q \<Rightarrow> q \<notin> set (map qy_query_id (ir_evidence_queries r))) (ir_evidence r),
      ''follow-up evidence must reference a query in the investigation record''),
     (list_ex (\<lambda>c. c \<notin> set (map eo_evidence_id (ir_evidence r))) (record_citations r),
      ''findings and hypotheses must cite evidence in the investigation record''),
     (ir_proposal r \<noteq> None \<and> ir_manual_guidance r \<noteq> None,
      ''an investigation record cannot contain proposal and manual guidance together'')]
    @ (case ir_policy_decision r of None \<Rightarrow> [] | Some d \<Rightarrow>
        [(ir_proposal r = None, ''policy decisions require a remediation proposal''),
         (pd_incident_id d \<noteq> incident_id, ''policy decision must belong to the same incident''),
         (Some (pd_proposal_id d) \<noteq> map_option rp_proposal_id (ir_proposal r),
          ''policy decision must reference the record proposal'')])
    @ [(case ir_proposal r of None \<Rightarrow> False
         | Some p \<Rightarrow> list_ex (\<lambda>a. apr_proposal_id a \<noteq> rp_proposal_id p) (ir_approvals r),
        ''approvals must reference the record proposal''),
       (ir_approvals r \<noteq> []
          \<and> map_option pd_status (ir_policy_decision r) \<noteq> Some POLICY_PASSED,
        ''Approval cannot override a missing or rejected policy decision''),
       (1 < length (ir_approvals r), ''a proposal may have only one immutable Approval decision''),
       (ir_proposal r = None \<and> ir_interventions r \<noteq> [],
        ''interventions require a remediation proposal''),
       (list_ex (\<lambda>v. iv_approval_id v \<notin> set (map apr_approval_id (ir_approvals r)))
          (ir_interventions r),
        ''interventions must reference an approval in the investigation record''),
       (case ir_proposal r of None \<Rightarrow> False
         | Some p \<Rightarrow> list_ex (\<lambda>v. iv_proposal_id v \<noteq> rp_proposal_id p) (ir_interventions r),
        ''interventions must reference the record proposal''),
       (list_ex (\<lambda>a. ra_intervention_id a \<notin> set (map iv_intervention_id (ir_interventions r)))
          (ir_recovery_assessments r),
        ''recovery assessments must reference a record intervention'')]))"

text \<open>The validity of every nested entry.\<close>

definition nested_entries_wf :: "investigation_record \<Rightarrow> bool" where
  "nested_entries_wf r \<longleftrightarrow> incident_fields (ir_incident r)
     \<and> wf_application_profile (ir_application_profile r)
     \<and> wf_evidence_window (ir_evidence_window r)
     \<and> list_all wf_alert_signal_evidence (ir_alert_signals r)
     \<and> list_all wf_evidence_observation (ir_evidence r)
     \<and> list_all wf_evidence_retrieval_failure (ir_evidence_retrieval_failures r)
     \<and> list_all wf_evidence_query (ir_evidence_queries r)
     \<and> list_all wf_specialist_finding (ir_findings r)
     \<and> list_all wf_model_invocation (ir_model_invocations r)
     \<and> list_all wf_root_cause_hypothesis (ir_hypotheses r)
     \<and> pred_option wf_remediation_proposal (ir_proposal r)
     \<and> pred_option wf_manual_guidance (ir_manual_guidance r)
     \<and> pred_option wf_policy_decision (ir_policy_decision r)
     \<and> list_all wf_approval (ir_approvals r)
     \<and> list_all wf_intervention (ir_interventions r)
     \<and> list_all wf_recovery_assessment (ir_recovery_assessments r)
     \<and> list_all wf_audit_event (ir_audit_events r)"

definition wf_record :: "investigation_record \<Rightarrow> bool" where
  "wf_record r \<longleftrightarrow> nested_entries_wf r \<and> investigation_record_problem r = None"

text \<open>
  \<open>InvestigationRecord.model_validate(r.model_dump())\<close>: the nested documents are validated
  first, then the record's own validator runs.
\<close>

definition validate_record :: "investigation_record \<Rightarrow> pyexn + investigation_record" where
  "validate_record r =
     (if nested_entries_wf r then
        (case investigation_record_problem r of
           None \<Rightarrow> Inr r
         | Some m \<Rightarrow> Inl (ValidationError ''InvestigationRecord'' m))
      else Inl (ValidationError ''InvestigationRecord'' ''invalid nested entry''))"

lemma validate_record_Inr: "validate_record r = Inr r' \<longleftrightarrow> wf_record r \<and> r' = r"
  by (auto simp: validate_record_def wf_record_def split: option.splits)

lemma validate_record_errors:
  "validate_record r = Inl e \<Longrightarrow> is_value_error e"
  by (auto simp: validate_record_def split: option.splits if_splits)

end
