(* ===== verification/Approval_Binding.thy ===== *)
theory Approval_Binding
  imports Decisions
begin

text \<open>
  The hashing and freshness rules of human Approval (\<open>domain/approval.py\<close>). SHA-256 and
  pydantic's ISO text of a datetime are the parameter \<open>digest\<close>: every theorem holds for every
  hash function, and the ones that need it name collision-freeness as a hypothesis. The JSON
  text that is hashed is modelled: \<open>dump_X\<close> is \<open>X.model_dump(mode="json")\<close>, \<open>dumps\<close> the
  canonical text.
\<close>

record digest =
  dg_sha256 :: "string \<Rightarrow> string"
  dg_isoformat :: "datetime \<Rightarrow> string"

section \<open>Dumps\<close>

definition dump_reference :: "workload_reference \<Rightarrow> json" where
  "dump_reference w = JObj
    [(''namespace'', JStr (wr_namespace w)), (''name'', JStr (wr_name w)),
     (''kind'', JStr (wr_kind w))]"

fun dump_action :: "remediation_action \<Rightarrow> json" where
  "dump_action (RollbackDeploymentAction t r) = JObj
    [(''action_type'', JStr ''rollback_deployment''), (''target'', dump_reference t),
     (''revision'', JInt r)]"
| "dump_action (ScaleDeploymentAction t n) = JObj
    [(''action_type'', JStr ''scale_deployment''), (''target'', dump_reference t),
     (''replicas'', JInt n)]"
| "dump_action (RestartDeploymentAction t k) = JObj
    [(''action_type'', JStr ''restart_deployment''), (''target'', dump_reference t),
     (''restart_token'', JStr k)]"

definition dump_recovery_criteria :: "recovery_criteria \<Rightarrow> json" where
  "dump_recovery_criteria c = JObj
    [(''critical_journey_name'', JStr (rc_critical_journey_name c)),
     (''required_stable_windows'', JInt (rc_required_stable_windows c)),
     (''stabilization_window_seconds'', JInt (rc_stabilization_window_seconds c)),
     (''allow_synthetic_availability_fallback'',
        JBool (rc_allow_synthetic_availability_fallback c)),
     (''latency_requires_application_traffic'', JBool (rc_latency_requires_application_traffic c))]"

definition dump_proposal :: "remediation_proposal \<Rightarrow> json" where
  "dump_proposal p = JObj
    [(''proposal_id'', JStr (rp_proposal_id p)), (''incident_id'', JStr (rp_incident_id p)),
     (''action'', dump_action (rp_action p)), (''expected_impact'', JStr (rp_expected_impact p)),
     (''recovery_criteria'', dump_recovery_criteria (rp_recovery_criteria p)),
     (''rollback_strategy'', JStr (rp_rollback_strategy p)),
     (''evidence_hash'', JStr (rp_evidence_hash p)),
     (''known_risks'', JList (map JStr (rp_known_risks p)))]"

definition dump_evidence_window :: "digest \<Rightarrow> evidence_window \<Rightarrow> json" where
  "dump_evidence_window g w = JObj
    [(''window_id'', JStr (ew_window_id w)), (''incident_id'', JStr (ew_incident_id w)),
     (''started_at'', JStr (dg_isoformat g (ew_started_at w))),
     (''ended_at'', JStr (dg_isoformat g (ew_ended_at w))),
     (''captured_at'', JStr (dg_isoformat g (ew_captured_at w)))]"

definition dump_evidence_observation :: "digest \<Rightarrow> evidence_observation \<Rightarrow> json" where
  "dump_evidence_observation g e = JObj
    [(''evidence_id'', JStr (eo_evidence_id e)), (''incident_id'', JStr (eo_incident_id e)),
     (''source'', JStr (evidence_source_value (eo_source e))),
     (''query'', JStr (evidence_query_kind_value (eo_query e))),
     (''query_reference'', JStr (eo_query_reference e)),
     (''evidence_query_id'', opt_json JStr (eo_evidence_query_id e)),
     (''evidence_window_id'', JStr (eo_evidence_window_id e)),
     (''observed_at'', JStr (dg_isoformat g (eo_observed_at e))),
     (''scope'', dump_reference (eo_scope e)),
     (''redacted_excerpt'', JStr (eo_redacted_excerpt e)),
     (''content_hash'', JStr (eo_content_hash e)), (''truncated'', JBool (eo_truncated e)),
     (''provider_reference'', JStr (eo_provider_reference e))]"

definition dump_patch :: "deployment_patch \<Rightarrow> json" where
  "dump_patch p = JObj
    [(''action_type'', JStr (action_type_value (dp_action_type p))),
     (''target'', dump_reference (dp_target p)),
     (''resource_version'', JStr (dp_resource_version p)), (''body'', JObj (dp_body p))]"

definition dump_policy_check :: "policy_check \<Rightarrow> json" where
  "dump_policy_check c = JObj
    [(''code'', JStr (policy_check_code_value (pc_code c))), (''passed'', JBool (pc_passed c)),
     (''message'', JStr (pc_message c))]"

definition dump_policy_decision :: "digest \<Rightarrow> policy_decision \<Rightarrow> json" where
  "dump_policy_decision g d = JObj
    [(''incident_id'', JStr (pd_incident_id d)), (''proposal_id'', JStr (pd_proposal_id d)),
     (''status'', JStr (policy_status_value (pd_status d))),
     (''checks'', JList (map dump_policy_check (pd_checks d))),
     (''evaluated_at'', JStr (dg_isoformat g (pd_evaluated_at d))),
     (''workload_resource_version'', opt_json JStr (pd_workload_resource_version d)),
     (''workload_generation'', opt_json JInt (pd_workload_generation d)),
     (''workload_revision'', opt_json JInt (pd_workload_revision d)),
     (''patch'', opt_json dump_patch (pd_patch d)),
     (''dry_run_diff'', opt_json JStr (pd_dry_run_diff d)),
     (''rejection_reason'', opt_json JStr (pd_rejection_reason d))]"

section \<open>Canonical hashes\<close>

definition canonical_hash :: "digest \<Rightarrow> json \<Rightarrow> string" where
  "canonical_hash g material = dg_sha256 g (dumps material)"

definition proposal_hash :: "digest \<Rightarrow> remediation_proposal \<Rightarrow> string" where
  "proposal_hash g p = canonical_hash g (dump_proposal p)"

text \<open>\<open>canonical_hash((record.evidence_window, *record.evidence))\<close>.\<close>

definition evidence_material :: "digest \<Rightarrow> investigation_record \<Rightarrow> json" where
  "evidence_material g r = JList (dump_evidence_window g (ir_evidence_window r)
     # map (dump_evidence_observation g) (ir_evidence r))"

definition evidence_context_hash :: "digest \<Rightarrow> investigation_record \<Rightarrow> string" where
  "evidence_context_hash g r = canonical_hash g (evidence_material g r)"

definition policy_hash :: "digest \<Rightarrow> policy_decision \<Rightarrow> string" where
  "policy_hash g d = canonical_hash g (dump_policy_decision g d)"

definition text_hash :: "digest \<Rightarrow> string \<Rightarrow> string" where
  "text_hash g s = canonical_hash g (JStr s)"

definition recovery_criteria_hash :: "digest \<Rightarrow> recovery_criteria \<Rightarrow> string" where
  "recovery_criteria_hash g c = canonical_hash g (dump_recovery_criteria c)"

section \<open>Binding and matching\<close>

text \<open>
  \<open>build_approval_binding\<close>: the context a Responder reviews. The constructor of
  \<open>ApprovalBinding\<close> has only field constraints; \<open>approval_binding_fields\<close> are those.
\<close>

definition approval_binding_fields :: "approval_binding \<Rightarrow> bool" where
  "approval_binding_fields b \<longleftrightarrow> 0 \<le> ab_incident_version b
     \<and> 8 \<le> length (ab_proposal_hash b) \<and> 8 \<le> length (ab_evidence_hash b)
     \<and> ab_workload_resource_version b \<noteq> [] \<and> 1 \<le> ab_workload_generation b
     \<and> 1 \<le> ab_workload_revision b \<and> 8 \<le> length (ab_policy_hash b)
     \<and> 8 \<le> length (ab_dry_run_hash b) \<and> 8 \<le> length (ab_recovery_criteria_hash b)
     \<and> 8 \<le> length (ab_failure_strategy_hash b)"

definition build_approval_binding ::
  "digest \<Rightarrow> investigation_record \<Rightarrow> deployment_policy_state \<Rightarrow> datetime
     \<Rightarrow> pyexn + approval_binding" where
  "build_approval_binding g record state expires_at =
    (case (ir_proposal record, ir_policy_decision record) of
       (Some proposal, Some policy) \<Rightarrow>
         if pd_status policy \<noteq> POLICY_PASSED
         then Inl (ValueError ''Approval requires one policy-passed Remediation Proposal'')
         else (case pd_dry_run_diff policy of
           None \<Rightarrow> Inl (ValueError ''Approval requires a successful server-side dry-run'')
         | Some diff \<Rightarrow>
             if (pd_workload_resource_version policy, pd_workload_generation policy,
                 pd_workload_revision policy)
                \<noteq> (Some (ds_resource_version state), Some (ds_generation state),
                   Some (ds_current_revision state))
             then Inl (ValueError ''live workload state changed after policy review'')
             else
               (let binding = \<lparr>ab_incident_version = inc_version (ir_incident record),
                      ab_proposal_hash = proposal_hash g proposal,
                      ab_evidence_hash = evidence_context_hash g record,
                      ab_workload_resource_version = ds_resource_version state,
                      ab_workload_generation = ds_generation state,
                      ab_workload_revision = ds_current_revision state,
                      ab_policy_hash = policy_hash g policy,
                      ab_dry_run_hash = text_hash g diff,
                      ab_recovery_criteria_hash =
                        recovery_criteria_hash g (rp_recovery_criteria proposal),
                      ab_failure_strategy_hash = text_hash g (rp_rollback_strategy proposal),
                      ab_expires_at = expires_at\<rparr>
                in if approval_binding_fields binding then Inr binding
                   else Inl (ValidationError ''ApprovalBinding'' ''invalid field'')))
     | _ \<Rightarrow> Inl (ValueError ''Approval requires one policy-passed Remediation Proposal''))"

definition approval_matches_record ::
  "digest \<Rightarrow> investigation_record \<Rightarrow> approval \<Rightarrow> bool" where
  "approval_matches_record g record approval =
    (case (ir_proposal record, ir_policy_decision record) of
       (Some proposal, Some policy) \<Rightarrow>
         if pd_status policy \<noteq> POLICY_PASSED then False
         else (case pd_dry_run_diff policy of
           None \<Rightarrow> False
         | Some diff \<Rightarrow>
             apr_proposal_id approval = rp_proposal_id proposal
             \<and> apr_proposal_hash approval = proposal_hash g proposal
             \<and> apr_evidence_hash approval = evidence_context_hash g record
             \<and> Some (apr_workload_resource_version approval)
                 = pd_workload_resource_version policy
             \<and> Some (apr_workload_generation approval) = pd_workload_generation policy
             \<and> Some (apr_workload_revision approval) = pd_workload_revision policy
             \<and> apr_policy_hash approval = policy_hash g policy
             \<and> apr_dry_run_hash approval = text_hash g diff
             \<and> apr_recovery_criteria_hash approval
                 = recovery_criteria_hash g (rp_recovery_criteria proposal)
             \<and> apr_failure_strategy_hash approval = text_hash g (rp_rollback_strategy proposal))
     | _ \<Rightarrow> False)"

section \<open>A dump determines its document\<close>

lemma dump_reference_inj: "sort_keys (dump_reference a) = sort_keys (dump_reference b) \<longleftrightarrow> a = b"
  by (cases a; cases b) (simp add: dump_reference_def sort_keys_same_keys)

lemma dump_action_kind:
  "sort_keys (dump_action a) = sort_keys (dump_action b) \<Longrightarrow> action_kind a = action_kind b"
proof (rule ccontr)
  assume eq: "sort_keys (dump_action a) = sort_keys (dump_action b)"
    and neq: "action_kind a \<noteq> action_kind b"
  obtain as bs where "dump_action a = JObj as" "distinct (map fst as)"
      "map_of as ''action_type'' = Some (JStr (action_type_value (action_kind a)))"
    by (cases a) auto
  moreover obtain bs where "dump_action b = JObj bs" "distinct (map fst bs)"
      "map_of bs ''action_type'' = Some (JStr (action_type_value (action_kind b)))"
    by (cases b) auto
  ultimately show False
    using sort_keys_JObj_lookup [of as bs "''action_type''"] eq neq
    by (simp add: action_type_value_inj)
qed

lemma dump_action_inj: "sort_keys (dump_action a) = sort_keys (dump_action b) \<longleftrightarrow> a = b"
proof
  assume eq: "sort_keys (dump_action a) = sort_keys (dump_action b)"
  from dump_action_kind [OF this] eq show "a = b"
    by (cases a; cases b) (simp_all add: sort_keys_same_keys dump_reference_inj)
qed simp

lemma dump_recovery_criteria_inj:
  "sort_keys (dump_recovery_criteria a) = sort_keys (dump_recovery_criteria b) \<longleftrightarrow> a = b"
  by (cases a; cases b) (simp add: dump_recovery_criteria_def sort_keys_same_keys)

lemma sort_keys_strings: "sort_keys (JList (map JStr xs)) = sort_keys (JList (map JStr ys)) \<longleftrightarrow> xs = ys"
  by (rule sort_keys_list) simp

lemmas dump_inj = sort_keys_same_keys dump_reference_inj dump_action_inj
  dump_recovery_criteria_inj sort_keys_strings

lemma dump_proposal_inj: "sort_keys (dump_proposal a) = sort_keys (dump_proposal b) \<longleftrightarrow> a = b"
  by (cases a; cases b) (simp add: dump_proposal_def dump_inj del: sort_keys.simps(1))

lemma dump_evidence_window_inj:
  "inj (dg_isoformat g) \<Longrightarrow>
     sort_keys (dump_evidence_window g a) = sort_keys (dump_evidence_window g b) \<longleftrightarrow> a = b"
  by (cases a; cases b) (simp add: dump_evidence_window_def dump_inj inj_eq)

lemma sort_keys_opt_str: "sort_keys (opt_json JStr x) = sort_keys (opt_json JStr y) \<longleftrightarrow> x = y"
  by (rule sort_keys_opt_json) simp_all

lemma sort_keys_opt_int: "sort_keys (opt_json JInt x) = sort_keys (opt_json JInt y) \<longleftrightarrow> x = y"
  by (rule sort_keys_opt_json) simp_all

lemma dump_evidence_observation_inj:
  "inj (dg_isoformat g) \<Longrightarrow>
     sort_keys (dump_evidence_observation g a) = sort_keys (dump_evidence_observation g b)
       \<longleftrightarrow> a = b"
  by (cases a; cases b)
     (simp add: dump_evidence_observation_def dump_inj inj_eq sort_keys_opt_str
       evidence_source_value_inj evidence_query_kind_value_inj)

lemma evidence_material_inj:
  assumes "inj (dg_isoformat g)"
  shows "sort_keys (evidence_material g r) = sort_keys (evidence_material g r') \<longleftrightarrow>
    ir_evidence_window r = ir_evidence_window r' \<and> ir_evidence r = ir_evidence r'"
  using sort_keys_list [OF dump_evidence_observation_inj [OF assms], of "ir_evidence r" "ir_evidence r'"]
  by (simp add: evidence_material_def dump_evidence_window_inj [OF assms])

lemma dump_policy_check_inj:
  "sort_keys (dump_policy_check a) = sort_keys (dump_policy_check b) \<longleftrightarrow> a = b"
  by (cases a; cases b)
     (simp add: dump_policy_check_def dump_inj policy_check_code_value_inj)

text \<open>
  The body of a patch is arbitrary JSON, so its text determines it up to the order of object
  keys; \<open>normal_patch\<close> is the patch with its keys in order.
\<close>

definition normal_patch :: "deployment_patch \<Rightarrow> deployment_patch" where
  "normal_patch p = p\<lparr>dp_body := (case as_dict (sort_keys (JObj (dp_body p))) of
     None \<Rightarrow> [] | Some kvs \<Rightarrow> kvs)\<rparr>"

lemma sort_keys_JObj_ex: "\<exists>kvs. sort_keys (JObj b) = JObj kvs"
  by (simp add: sort_keys.simps(2))

lemma normal_body_eq:
  "(case as_dict (sort_keys (JObj b)) of None \<Rightarrow> [] | Some kvs \<Rightarrow> kvs)
     = (case as_dict (sort_keys (JObj c)) of None \<Rightarrow> [] | Some kvs \<Rightarrow> kvs)
   \<longleftrightarrow> sort_keys (JObj b) = sort_keys (JObj c)"
  using sort_keys_JObj_ex [of b] sort_keys_JObj_ex [of c] by auto

lemma dump_patch_inj:
  "sort_keys (dump_patch a) = sort_keys (dump_patch b) \<longleftrightarrow> normal_patch a = normal_patch b"
proof (cases a; cases b)
  fix k t v c k' t' v' c'
  assume a: "a = \<lparr>dp_action_type = k, dp_target = t, dp_resource_version = v, dp_body = c\<rparr>"
    and b: "b = \<lparr>dp_action_type = k', dp_target = t', dp_resource_version = v', dp_body = c'\<rparr>"
  have "sort_keys (dump_patch a) = sort_keys (dump_patch b) \<longleftrightarrow>
      k = k' \<and> t = t' \<and> v = v' \<and> sort_keys (JObj c) = sort_keys (JObj c')"
    unfolding a b dump_patch_def
    by (subst sort_keys_same_keys) (simp_all add: dump_reference_inj action_type_value_inj)
  also have "\<dots> \<longleftrightarrow> normal_patch a = normal_patch b"
    unfolding a b normal_patch_def by (simp add: normal_body_eq)
  finally show ?thesis .
qed

lemma dump_patch_not_null: "dump_patch p \<noteq> JNull"
  by (simp add: dump_patch_def)

lemma sort_keys_opt_patch:
  "sort_keys (opt_json dump_patch x) = sort_keys (opt_json dump_patch y) \<longleftrightarrow>
     map_option normal_patch x = map_option normal_patch y"
  by (cases x; cases y)
     (auto simp: dump_patch_inj sort_keys_JNull dump_patch_not_null eq_commute [of JNull])

definition normal_decision :: "policy_decision \<Rightarrow> policy_decision" where
  "normal_decision d = d\<lparr>pd_patch := map_option normal_patch (pd_patch d)\<rparr>"

lemma dump_policy_decision_inj:
  assumes "inj (dg_isoformat g)"
  shows "sort_keys (dump_policy_decision g a) = sort_keys (dump_policy_decision g b) \<longleftrightarrow>
    normal_decision a = normal_decision b"
proof -
  have checks: "sort_keys (JList (map dump_policy_check xs)) =
      sort_keys (JList (map dump_policy_check ys)) \<longleftrightarrow> xs = ys" for xs ys
    by (rule sort_keys_list) (rule dump_policy_check_inj)
  show ?thesis
    by (cases a; cases b)
       (simp add: dump_policy_decision_def sort_keys_same_keys checks sort_keys_opt_str
         sort_keys_opt_int sort_keys_opt_patch policy_status_value_inj normal_decision_def
         inj_eq [OF assms] del: sort_keys.simps(1))
qed

section \<open>What a binding binds\<close>

text \<open>The hash function tells two texts apart.\<close>

definition collision_free :: "digest \<Rightarrow> json \<Rightarrow> json \<Rightarrow> bool" where
  "collision_free g a b \<longleftrightarrow> (dg_sha256 g (dumps a) = dg_sha256 g (dumps b) \<longrightarrow> dumps a = dumps b)"

lemma canonical_hash_eq:
  "collision_free g a b \<Longrightarrow> canonical_hash g a = canonical_hash g b \<Longrightarrow> sort_keys a = sort_keys b"
  by (simp add: collision_free_def canonical_hash_def dumps_inj)

lemma approval_matches_recordE:
  assumes "approval_matches_record g r a"
  obtains p d diff where "ir_proposal r = Some p" "ir_policy_decision r = Some d"
    "pd_status d = POLICY_PASSED" "pd_dry_run_diff d = Some diff"
    "apr_proposal_id a = rp_proposal_id p" "apr_proposal_hash a = proposal_hash g p"
    "apr_evidence_hash a = evidence_context_hash g r"
    "pd_workload_resource_version d = Some (apr_workload_resource_version a)"
    "pd_workload_generation d = Some (apr_workload_generation a)"
    "pd_workload_revision d = Some (apr_workload_revision a)"
    "apr_policy_hash a = policy_hash g d" "apr_dry_run_hash a = text_hash g diff"
    "apr_recovery_criteria_hash a = recovery_criteria_hash g (rp_recovery_criteria p)"
    "apr_failure_strategy_hash a = text_hash g (rp_rollback_strategy p)"
  using assms by (auto simp: approval_matches_record_def split: option.splits if_splits)

lemma build_approval_bindingE:
  assumes "build_approval_binding g r s e = Inr b"
  obtains p d diff where "ir_proposal r = Some p" "ir_policy_decision r = Some d"
    "pd_status d = POLICY_PASSED" "pd_dry_run_diff d = Some diff"
    "pd_workload_resource_version d = Some (ds_resource_version s)"
    "pd_workload_generation d = Some (ds_generation s)"
    "pd_workload_revision d = Some (ds_current_revision s)"
    "b = \<lparr>ab_incident_version = inc_version (ir_incident r),
          ab_proposal_hash = proposal_hash g p, ab_evidence_hash = evidence_context_hash g r,
          ab_workload_resource_version = ds_resource_version s,
          ab_workload_generation = ds_generation s,
          ab_workload_revision = ds_current_revision s, ab_policy_hash = policy_hash g d,
          ab_dry_run_hash = text_hash g diff,
          ab_recovery_criteria_hash = recovery_criteria_hash g (rp_recovery_criteria p),
          ab_failure_strategy_hash = text_hash g (rp_rollback_strategy p), ab_expires_at = e\<rparr>"
    "approval_binding_fields b"
  using assms
  by (auto simp: build_approval_binding_def Let_def split: option.splits if_splits)

text \<open>Matching reads only the proposal, the decision and the evidence of the record.\<close>

lemma approval_matches_record_cong:
  "ir_proposal r = ir_proposal r' \<Longrightarrow> ir_policy_decision r = ir_policy_decision r' \<Longrightarrow>
   ir_evidence_window r = ir_evidence_window r' \<Longrightarrow> ir_evidence r = ir_evidence r' \<Longrightarrow>
     approval_matches_record g r a = approval_matches_record g r' a"
  by (simp add: approval_matches_record_def evidence_context_hash_def evidence_material_def
      cong: option.case_cong)

end
