(* ===== verification/Incident_Store.thy ===== *)
theory Incident_Store
  imports Approval_Binding
begin

text \<open>
  The incident store, \<open>InMemoryIncidentStore\<close> of \<open>domain/incident_fakes.py\<close>; the durable store
  runs the same methods inside a document transaction (\<open>Firestore\<close>). The state is the
  dict of records in insertion order. Every method reads one record, computes its replacement or
  raises, and stores the replacement: \<open>X_record\<close> is the computation on the record and the method
  \<open>X\<close> is \<open>store_update\<close> of it. The methods that hold the lock are atomic, and so is every step
  of this model. \<open>datetime.now\<close> and \<open>uuid4\<close> are arguments.
\<close>

type_synonym store = "(string \<times> investigation_record) list"

section \<open>Lookup and replacement\<close>

definition store_get :: "store \<Rightarrow> string \<Rightarrow> investigation_record option" where
  "store_get s incident_id = dict_get s incident_id"

definition required_record :: "store \<Rightarrow> string \<Rightarrow> pyexn + investigation_record" where
  "required_record s incident_id =
    (case store_get s incident_id of
       None \<Rightarrow> Inl (ValueError ''incident does not exist'')
     | Some r \<Rightarrow> Inr r)"

definition store_replace :: "investigation_record \<Rightarrow> store \<Rightarrow> store" where
  "store_replace r s = dict_set (inc_incident_id (ir_incident r)) r s"

definition store_update ::
  "string \<Rightarrow> (investigation_record \<Rightarrow> pyexn + investigation_record)
     \<Rightarrow> (store, investigation_record) act" where
  "store_update incident_id f s =
    (case bind_result (required_record s incident_id) f of
       Inl e \<Rightarrow> (Inl e, s)
     | Inr r' \<Rightarrow> (Inr r', store_replace r' s))"

text \<open>\<open>sorted(values, key=opened_at, reverse=True)\<close>: newest first, ties in insertion order.\<close>

definition store_list :: "store \<Rightarrow> investigation_record list" where
  "store_list s = sort_key (\<lambda>r. - inc_opened_at (ir_incident r)) (map snd s)"

definition timeline :: "string \<Rightarrow> int \<Rightarrow> store \<Rightarrow> pyexn + audit_event list" where
  "timeline incident_id after s =
     bind_result (required_record s incident_id)
       (\<lambda>r. Inr (filter (\<lambda>e. ae_cursor e > after) (ir_audit_events r)))"

section \<open>Audit cursors and versions\<close>

definition next_cursor :: "investigation_record \<Rightarrow> int" where
  "next_cursor r = (case last_option (ir_audit_events r) of None \<Rightarrow> 1 | Some e \<Rightarrow> ae_cursor e + 1)"

definition with_event :: "audit_event \<Rightarrow> investigation_record \<Rightarrow> investigation_record" where
  "with_event e r =
     r\<lparr>ir_audit_events := ir_audit_events r @ [e\<lparr>ae_cursor := next_cursor r\<rparr>]\<rparr>"

definition bump_version :: "incident \<Rightarrow> int \<Rightarrow> incident" where
  "bump_version i old = i\<lparr>inc_version := old + 1\<rparr>"

definition enrolled_in :: "investigation_record \<Rightarrow> workload_reference \<Rightarrow> bool" where
  "enrolled_in r t \<longleftrightarrow> t \<in> set (enrolled_references (ir_application_profile r))"

section \<open>Opening an incident\<close>

text \<open>
  \<open>create\<close>; \<open>h1\<close> and \<open>h2\<close> are the two \<open>uuid4().hex\<close>. Building the reference, the incident and
  the window runs their validators, then the record's validator runs; the profile is an instance
  and is not validated again.
\<close>

definition new_record ::
  "application_profile \<Rightarrow> alert_signal \<Rightarrow> string \<Rightarrow> string \<Rightarrow> datetime \<Rightarrow> datetime
     \<Rightarrow> investigation_record" where
  "new_record profile signal h1 h2 started_at ended_at =
    \<lparr>ir_incident = \<lparr>inc_incident_id = ''inc-'' @ h1,
        inc_application_id = ap_application_id profile,
        inc_profile_version = ap_version profile, inc_opened_at = sg_observed_at signal,
        inc_lifecycle = OPEN, inc_investigation_outcome = INV_NOT_STARTED,
        inc_intervention_outcome = OUT_NOT_STARTED, inc_version = 0,
        inc_summary = sg_summary signal\<rparr>,
     ir_application_profile = profile,
     ir_evidence_window = \<lparr>ew_window_id = ''window-'' @ h2, ew_incident_id = ''inc-'' @ h1,
        ew_started_at = started_at, ew_ended_at = ended_at,
        ew_captured_at = sg_observed_at signal\<rparr>,
     ir_alert_signals = [], ir_evidence = [], ir_evidence_retrieval_failures = [],
     ir_evidence_queries = [], ir_findings = [], ir_model_invocations = [],
     ir_hypotheses = [], ir_proposal = None, ir_manual_guidance = None,
     ir_policy_decision = None, ir_approvals = [], ir_interventions = [],
     ir_recovery_assessments = [], ir_audit_events = []\<rparr>"

definition create_record ::
  "application_profile \<Rightarrow> alert_signal \<Rightarrow> string \<Rightarrow> string \<Rightarrow> pyexn + investigation_record" where
  "create_record profile signal h1 h2 =
    (let workload = deployment_reference (sg_namespace signal) (sg_workload_name signal);
         maximum_window =
           minutes (eb_maximum_window_minutes (ap_evidence_budget profile));
         started_at = case_option (sg_observed_at signal - maximum_window) id
           (sg_window_start signal);
         ended_at = case_option (sg_observed_at signal) id (sg_window_end signal);
         r = new_record profile signal h1 h2 started_at ended_at
     in guarded
      [(sg_application_id signal \<noteq> ap_application_id profile,
        ''alert signal application is not enrolled by the supplied profile''),
       (sg_namespace signal \<notin> set (ap_namespaces profile),
        ''alert signal namespace is not enrolled by the supplied profile'')]
      (if \<not> workload_reference_fields workload
       then Inl (ValidationError ''WorkloadReference'' ''invalid field'')
       else guarded
        [(workload \<notin> set (enrolled_references profile),
          ''alert signal workload is not enrolled by the supplied profile''),
         (ended_at - started_at > maximum_window,
          ''alert window exceeds the application profile evidence budget'')]
        (if \<not> incident_fields (ir_incident r)
         then Inl (ValidationError ''Incident'' ''invalid field'')
         else if \<not> wf_evidence_window (ir_evidence_window r)
         then Inl (ValidationError ''EvidenceWindow''
                (case evidence_window_problem (ir_evidence_window r) of
                   None \<Rightarrow> ''invalid field'' | Some m \<Rightarrow> m))
         else (case investigation_record_problem r of
             None \<Rightarrow> Inr r
           | Some m \<Rightarrow> Inl (ValidationError ''InvestigationRecord'' m)))))"

definition store_create ::
  "application_profile \<Rightarrow> alert_signal \<Rightarrow> string \<Rightarrow> string \<Rightarrow> (store, investigation_record) act" where
  "store_create profile signal h1 h2 s =
    (case create_record profile signal h1 h2 of
       Inl e \<Rightarrow> (Inl e, s)
     | Inr r \<Rightarrow> (Inr r, store_replace r s))"

section \<open>Appending evidence and signals\<close>

definition append_evidence_record ::
  "string \<Rightarrow> evidence_observation \<Rightarrow> investigation_record \<Rightarrow> pyexn + investigation_record" where
  "append_evidence_record incident_id evidence r = guarded
    [(eo_incident_id evidence \<noteq> incident_id,
      ''evidence must belong to the requested incident''),
     (eo_evidence_window_id evidence \<noteq> ew_window_id (ir_evidence_window r),
      ''evidence must belong to the immutable initial evidence window''),
     (\<not> (ew_started_at (ir_evidence_window r) \<le> eo_observed_at evidence
         \<and> eo_observed_at evidence \<le> ew_ended_at (ir_evidence_window r)),
      ''evidence observation falls outside the immutable evidence window''),
     (\<not> enrolled_in r (eo_scope evidence),
      ''evidence scope is outside the enrolled application profile''),
     (case eo_evidence_query_id evidence of None \<Rightarrow> False
       | Some q \<Rightarrow> q \<notin> set (map qy_query_id (ir_evidence_queries r)),
      ''follow-up evidence must reference a recorded evidence query''),
     (list_ex (\<lambda>i. eo_evidence_id i = eo_evidence_id evidence) (ir_evidence r),
      ''evidence already exists and is append-only'')]
    (Inr (r\<lparr>ir_evidence := ir_evidence r @ [evidence]\<rparr>))"

definition append_alert_signal_record ::
  "string \<Rightarrow> alert_signal_evidence \<Rightarrow> investigation_record \<Rightarrow> pyexn + investigation_record" where
  "append_alert_signal_record incident_id signal r = guarded
    [(se_incident_id signal \<noteq> incident_id,
      ''alert signal evidence must belong to the requested incident''),
     (sg_application_id (se_signal signal) \<noteq> inc_application_id (ir_incident r),
      ''alert signal evidence must belong to the enrolled application''),
     (list_ex (\<lambda>i. se_notification_id i = se_notification_id signal) (ir_alert_signals r),
      ''alert signal evidence already exists and is append-only'')]
    (Inr (r\<lparr>ir_alert_signals := ir_alert_signals r @ [signal]\<rparr>))"

definition append_failure_record ::
  "string \<Rightarrow> evidence_retrieval_failure \<Rightarrow> investigation_record
     \<Rightarrow> pyexn + investigation_record" where
  "append_failure_record incident_id failure r = guarded
    [(ef_incident_id failure \<noteq> incident_id,
      ''evidence retrieval failure must belong to the requested incident''),
     (list_ex (\<lambda>i. ef_failure_id i = ef_failure_id failure) (ir_evidence_retrieval_failures r),
      ''evidence retrieval failure already exists and is append-only'')]
    (Inr (r\<lparr>ir_evidence_retrieval_failures := ir_evidence_retrieval_failures r @ [failure]\<rparr>))"

definition append_query_record ::
  "string \<Rightarrow> evidence_query \<Rightarrow> investigation_record \<Rightarrow> pyexn + investigation_record" where
  "append_query_record incident_id query r = guarded
    [(qy_incident_id query \<noteq> incident_id,
      ''evidence query must belong to the requested incident''),
     (\<not> enrolled_in r (qy_target query),
      ''evidence query target is outside the enrolled application profile''),
     (list_ex (\<lambda>i. qy_query_id i = qy_query_id query) (ir_evidence_queries r),
      ''evidence query already exists and is append-only'')]
    (Inr (r\<lparr>ir_evidence_queries := ir_evidence_queries r @ [query]\<rparr>))"

section \<open>The investigation\<close>

definition append_finding_record ::
  "string \<Rightarrow> specialist_finding \<Rightarrow> investigation_record \<Rightarrow> pyexn + investigation_record" where
  "append_finding_record incident_id finding r = guarded
    [(sf_incident_id finding \<noteq> incident_id,
      ''Specialist Finding must belong to the requested incident''),
     (list_ex (\<lambda>i. sf_finding_id i = sf_finding_id finding) (ir_findings r),
      ''Specialist Finding already exists and is append-only''),
     (list_ex (\<lambda>i. sf_specialist i = sf_specialist finding) (ir_findings r),
      ''a Specialist may record only one final finding''),
     (list_ex (\<lambda>c. ec_evidence_id c \<notin> set (map eo_evidence_id (ir_evidence r)))
        (sf_citations finding),
      ''Specialist Finding must cite recorded evidence'')]
    (validate_record (r\<lparr>ir_findings := ir_findings r @ [finding]\<rparr>))"

definition append_model_invocation_record ::
  "string \<Rightarrow> model_invocation \<Rightarrow> investigation_record \<Rightarrow> pyexn + investigation_record" where
  "append_model_invocation_record incident_id invocation r = guarded
    [(mi_incident_id invocation \<noteq> incident_id,
      ''model invocation must belong to the requested incident''),
     (list_ex (\<lambda>i. mi_invocation_id i = mi_invocation_id invocation) (ir_model_invocations r),
      ''model invocation already exists and is append-only'')]
    (validate_record (r\<lparr>ir_model_invocations := ir_model_invocations r @ [invocation]\<rparr>))"

definition complete_investigation_record ::
  "string \<Rightarrow> coordinator_output \<Rightarrow> investigation_record \<Rightarrow> pyexn + investigation_record" where
  "complete_investigation_record incident_id output r = guarded
    [(inc_investigation_outcome (ir_incident r) \<noteq> INV_NOT_STARTED,
      ''investigation already has a terminal outcome''),
     (list_ex (\<lambda>h. rh_incident_id h \<noteq> incident_id) (co_hypotheses output),
      ''Root Cause Hypotheses must belong to the requested incident'')]
    (bind_result
      (transition_incident (ir_incident r) (Some INVESTIGATING) (Some (co_outcome output)) None)
      (\<lambda>i. validate_record
        (r\<lparr>ir_incident := bump_version i (inc_version (ir_incident r)),
           ir_hypotheses := co_hypotheses output, ir_proposal := co_proposal output,
           ir_manual_guidance := co_manual_guidance output\<rparr>)))"

definition record_policy_decision_record ::
  "string \<Rightarrow> policy_decision \<Rightarrow> investigation_record \<Rightarrow> pyexn + investigation_record" where
  "record_policy_decision_record incident_id decision r = guarded
    [(ir_proposal r = None, ''policy decisions require a remediation proposal''),
     (ir_policy_decision r \<noteq> None,
      ''policy decision is already recorded and cannot be overridden''),
     (pd_incident_id decision \<noteq> incident_id,
      ''policy decision must belong to the requested incident''),
     (Some (pd_proposal_id decision) \<noteq> map_option rp_proposal_id (ir_proposal r),
      ''policy decision must reference the recorded proposal'')]
    (bind_result
      (if pd_status decision = POLICY_PASSED
       then bind_result
         (transition_incident (ir_incident r) (Some AWAITING_APPROVAL) None None)
         (\<lambda>i. Inr (bump_version i (inc_version (ir_incident r))))
       else Inr (ir_incident r))
      (\<lambda>i. validate_record (r\<lparr>ir_incident := i, ir_policy_decision := Some decision\<rparr>)))"

section \<open>Approval and Intervention\<close>

definition record_approval_record ::
  "digest \<Rightarrow> datetime \<Rightarrow> string \<Rightarrow> int \<Rightarrow> approval \<Rightarrow> audit_event \<Rightarrow> investigation_record
     \<Rightarrow> pyexn + investigation_record" where
  "record_approval_record g now incident_id expected_version approval event r = guarded
    [(inc_version (ir_incident r) \<noteq> expected_version, ''approval review context is stale''),
     (ir_approvals r \<noteq> [], ''proposal is already decided''),
     (apr_incident_id approval \<noteq> incident_id \<or> ae_incident_id event \<noteq> incident_id,
      ''Approval and audit event must belong to the requested incident''),
     (apr_expires_at approval \<le> now, ''approval review context expired''),
     (\<not> approval_matches_record g r approval, ''approval review context is stale'')]
    (validate_record (with_event event
      (r\<lparr>ir_incident := bump_version (ir_incident r) (inc_version (ir_incident r)),
         ir_approvals := [approval]\<rparr>)))"

definition record_intervention_record ::
  "string \<Rightarrow> int \<Rightarrow> intervention \<Rightarrow> audit_event \<Rightarrow> investigation_record
     \<Rightarrow> pyexn + investigation_record" where
  "record_intervention_record incident_id expected_version intervention event r = guarded
    [(inc_version (ir_incident r) \<noteq> expected_version, ''intervention request is stale''),
     (iv_incident_id intervention \<noteq> incident_id \<or> ae_incident_id event \<noteq> incident_id,
      ''Intervention and audit event must belong to the Incident''),
     (iv_state intervention \<noteq> RUNNING, ''a claimed Intervention must start in running state''),
     (case List.find (\<lambda>a. apr_approval_id a = iv_approval_id intervention) (ir_approvals r) of
        None \<Rightarrow> True | Some a \<Rightarrow> apr_decision a \<noteq> APPROVED,
      ''Intervention requires one recorded Approval''),
     (list_ex (\<lambda>v. iv_idempotency_key v = iv_idempotency_key intervention) (ir_interventions r),
      ''intervention request was already claimed''),
     (list_ex (\<lambda>v. iv_state v = RUNNING) (ir_interventions r),
      ''Incident already has an active Intervention'')]
    (bind_result (transition_incident (ir_incident r) (Some MITIGATING) None None)
      (\<lambda>i. validate_record (with_event event
        (r\<lparr>ir_incident := bump_version i (inc_version (ir_incident r)),
           ir_interventions := ir_interventions r @ [intervention]\<rparr>))))"

text \<open>The lifecycle and outcome an updated Intervention leads to.\<close>

fun intervention_consequence ::
  "intervention_state \<Rightarrow> incident_lifecycle \<Rightarrow> intervention_outcome
     \<Rightarrow> incident_lifecycle \<times> intervention_outcome" where
  "intervention_consequence IV_SUCCEEDED l w = (MONITORING, OUT_MONITORING)"
| "intervention_consequence IV_ROLLED_BACK l w = (l, OUT_ROLLED_BACK)"
| "intervention_consequence IV_FAILED l w = (l, OUT_FAILED)"
| "intervention_consequence IV_SAFE_HALTED l w = (l, OUT_SAFE_HALTED)"
| "intervention_consequence RUNNING l w = (l, w)"
| "intervention_consequence PENDING l w = (l, w)"

definition update_intervention_record ::
  "string \<Rightarrow> intervention \<Rightarrow> audit_event \<Rightarrow> investigation_record
     \<Rightarrow> pyexn + investigation_record" where
  "update_intervention_record incident_id intervention event r =
    (case List.find (\<lambda>v. iv_intervention_id v = iv_intervention_id intervention)
        (ir_interventions r) of
       None \<Rightarrow> Inl (ValueError ''Intervention has not been claimed'')
     | Some current \<Rightarrow> guarded
        [(ae_incident_id event \<noteq> incident_id,
          ''Intervention audit event must belong to the Incident''),
         (list_ex (\<lambda>e. ae_event_id e = ae_event_id event) (ir_audit_events r),
          ''audit event already exists and is append-only''),
         (iv_state current \<noteq> RUNNING, ''completed Interventions are immutable''),
         (intervention\<lparr>iv_state := iv_state current\<rparr> \<noteq> current,
          ''only Intervention state may change after claim''),
         (iv_state intervention = RUNNING, ''Intervention update must be terminal'')]
        (let (lifecycle, outcome) = intervention_consequence (iv_state intervention)
               (inc_lifecycle (ir_incident r)) (inc_intervention_outcome (ir_incident r))
         in bind_result
          (transition_incident (ir_incident r) (Some lifecycle) None (Some outcome))
          (\<lambda>i. validate_record (with_event event
            (r\<lparr>ir_incident := bump_version i (inc_version (ir_incident r)),
               ir_interventions := map
                 (\<lambda>v. if iv_intervention_id v = iv_intervention_id intervention
                      then intervention else v) (ir_interventions r)\<rparr>)))))"

section \<open>Recovery\<close>

definition assessments_of :: "string \<Rightarrow> investigation_record \<Rightarrow> recovery_assessment list" where
  "assessments_of intervention_id r =
     filter (\<lambda>a. ra_intervention_id a = intervention_id) (ir_recovery_assessments r)"

definition expected_stable_windows ::
  "recovery_assessment list \<Rightarrow> recovery_assessment \<Rightarrow> int" where
  "expected_stable_windows previous a =
    (if ra_criteria_satisfied a then
       (case last_option previous of
          Some q \<Rightarrow> if ra_criteria_satisfied q \<and> ra_window_ended_at q = ra_window_started_at a
                    then ra_stable_windows q + 1 else 1
        | None \<Rightarrow> 1)
     else 0)"

definition expected_recovery_event :: "int \<Rightarrow> recovery_assessment \<Rightarrow> string" where
  "expected_recovery_event required a =
    (if \<not> ra_criteria_satisfied a then ''recovery_window_failed''
     else if ra_stable_windows a \<ge> required then ''recovery_stabilized''
     else ''recovery_window_satisfied'')"

definition declared_journey :: "investigation_record \<Rightarrow> critical_journey option" where
  "declared_journey r = List.find
     (\<lambda>j. cj_name j = rc_critical_journey_name (ap_recovery_criteria (ir_application_profile r)))
     (ap_critical_journeys (ir_application_profile r))"

definition record_recovery_record ::
  "string \<Rightarrow> int \<Rightarrow> recovery_assessment \<Rightarrow> audit_event \<Rightarrow> investigation_record
     \<Rightarrow> pyexn + investigation_record" where
  "record_recovery_record incident_id expected_version a event r =
    (let criteria = ap_recovery_criteria (ir_application_profile r);
         previous = assessments_of (ra_intervention_id a) r;
         stabilized = ra_stable_windows a \<ge> rc_required_stable_windows criteria
     in guarded
      [(inc_version (ir_incident r) \<noteq> expected_version,
        ''recovery verification context is stale''),
       (inc_lifecycle (ir_incident r) \<noteq> MONITORING,
        ''recovery verification requires a monitoring Incident''),
       (ra_incident_id a \<noteq> incident_id \<or> ae_incident_id event \<noteq> incident_id,
        ''recovery assessment and audit event must belong to the Incident''),
       (case List.find (\<lambda>v. iv_intervention_id v = ra_intervention_id a) (ir_interventions r) of
          None \<Rightarrow> True | Some v \<Rightarrow> iv_state v \<noteq> IV_SUCCEEDED,
        ''recovery assessment requires a successful Intervention''),
       (ra_required_stable_windows a \<noteq> rc_required_stable_windows criteria,
        ''recovery assessment changed the required stabilization windows''),
       (case declared_journey r of None \<Rightarrow> True | Some j \<Rightarrow> ra_journey_name a \<noteq> cj_name j,
        ''recovery assessment changed the declared Critical Journey''),
       (case declared_journey r of None \<Rightarrow> True
         | Some j \<Rightarrow> ra_traffic_sufficient a \<noteq> (ra_request_count a \<ge> cj_minimum_request_count j),
        ''recovery traffic sufficiency is inconsistent''),
       (ra_criteria_satisfied a \<and> \<not> (ra_kubernetes_converged a \<and> ra_symptoms_cleared a
          \<and> ra_traffic_sufficient a \<and> ra_availability_satisfied a \<and> ra_latency_satisfied a
          \<and> ra_sufficient_evidence a),
        ''recovery criteria contain a failed deterministic check''),
       (ra_window_ended_at a - ra_window_started_at a
          \<noteq> seconds (rc_stabilization_window_seconds criteria),
        ''recovery assessment used the wrong stabilization window''),
       (case last_option previous of None \<Rightarrow> False
         | Some q \<Rightarrow> ra_window_started_at a < ra_window_ended_at q,
        ''recovery assessment windows cannot overlap''),
       (ra_stable_windows a \<noteq> expected_stable_windows previous a,
        ''recovery assessment stabilization progress is invalid''),
       (ae_event_type event \<noteq> expected_recovery_event (rc_required_stable_windows criteria) a,
        ''recovery audit event does not match the assessment''),
       (list_ex (\<lambda>e. ae_event_id e = ae_event_id event) (ir_audit_events r),
        ''audit event already exists and is append-only'')]
      (bind_result
        (if stabilized
         then transition_incident (ir_incident r) (Some RESOLVED) None (Some OUT_SUCCEEDED)
         else Inr (ir_incident r))
        (\<lambda>i. validate_record (with_event event
          (r\<lparr>ir_incident := bump_version i (inc_version (ir_incident r)),
             ir_recovery_assessments := ir_recovery_assessments r @ [a]\<rparr>)))))"

section \<open>Audit events and replacement of the incident\<close>

definition append_audit_event_record ::
  "string \<Rightarrow> audit_event \<Rightarrow> investigation_record \<Rightarrow> pyexn + investigation_record" where
  "append_audit_event_record incident_id event r = guarded
    [(ae_incident_id event \<noteq> incident_id, ''audit event must belong to the requested incident''),
     (list_ex (\<lambda>e. ae_event_id e = ae_event_id event) (ir_audit_events r),
      ''audit event already exists and is append-only'')]
    (Inr (with_event event r))"

definition compare_and_set_record ::
  "string \<Rightarrow> int \<Rightarrow> incident \<Rightarrow> investigation_record \<Rightarrow> pyexn + investigation_record" where
  "compare_and_set_record incident_id expected_version replacement r = guarded
    [(inc_version (ir_incident r) \<noteq> expected_version, ''stale incident version''),
     (inc_incident_id replacement \<noteq> incident_id,
      ''replacement incident does not match the stored incident''),
     (inc_version replacement \<noteq> expected_version,
      ''replacement incident must use the expected version''),
     (inc_application_id replacement \<noteq> inc_application_id (ir_incident r),
      ''replacement incident must use the enrolled application''),
     (inc_profile_version replacement \<noteq> inc_profile_version (ir_incident r),
      ''replacement incident must use the enrolled profile version'')]
    (validate_record (r\<lparr>ir_incident := bump_version replacement expected_version\<rparr>))"

lemmas record_operation_defs = append_evidence_record_def append_alert_signal_record_def
  append_failure_record_def append_query_record_def append_finding_record_def
  append_model_invocation_record_def complete_investigation_record_def
  record_policy_decision_record_def record_approval_record_def record_intervention_record_def
  update_intervention_record_def record_recovery_record_def append_audit_event_record_def
  compare_and_set_record_def

section \<open>The methods of the store\<close>

definition append_evidence where
  "append_evidence i e = store_update i (append_evidence_record i e)"

definition append_alert_signal where
  "append_alert_signal i e = store_update i (append_alert_signal_record i e)"

definition append_evidence_retrieval_failure where
  "append_evidence_retrieval_failure i e = store_update i (append_failure_record i e)"

definition append_evidence_query where
  "append_evidence_query i q = store_update i (append_query_record i q)"

definition append_finding where
  "append_finding i f = store_update i (append_finding_record i f)"

definition append_model_invocation where
  "append_model_invocation i m = store_update i (append_model_invocation_record i m)"

definition complete_investigation where
  "complete_investigation i c = store_update i (complete_investigation_record i c)"

definition record_policy_decision where
  "record_policy_decision i d = store_update i (record_policy_decision_record i d)"

definition record_approval_decision where
  "record_approval_decision g now i v a e = store_update i (record_approval_record g now i v a e)"

definition record_intervention where
  "record_intervention i v n e = store_update i (record_intervention_record i v n e)"

definition update_intervention where
  "update_intervention i n e = store_update i (update_intervention_record i n e)"

definition record_recovery_assessment where
  "record_recovery_assessment i v a e = store_update i (record_recovery_record i v a e)"

definition append_audit_event where
  "append_audit_event i e = store_update i (append_audit_event_record i e)"

definition compare_and_set where
  "compare_and_set i v c = store_update i (compare_and_set_record i v c)"

lemmas store_method_defs = append_evidence_def append_alert_signal_def
  append_evidence_retrieval_failure_def append_evidence_query_def append_finding_def
  append_model_invocation_def complete_investigation_def record_policy_decision_def
  record_approval_decision_def record_intervention_def update_intervention_def
  record_recovery_assessment_def append_audit_event_def compare_and_set_def

end
