(* ===== verification/Store_Invariants.thy ===== *)
theory Store_Invariants
  imports Incident_Store "HOL-Library.Sublist"
begin

text \<open>
  What every stored record satisfies, what every method may change of a record, and the proof
  that each method keeps both. The invariant of a record: it validates; its audit cursors are
  1, 2, 3, ...; the identities of its append-only entries are unique; at most one Intervention
  runs and each one has an approved Approval; the recovery windows of an Intervention do not
  overlap and count their stability correctly.
\<close>

section \<open>The invariant of a record\<close>

definition audit_ok :: "investigation_record \<Rightarrow> bool" where
  "audit_ok r \<longleftrightarrow>
     map ae_cursor (ir_audit_events r) = map int [1..<length (ir_audit_events r) + 1]"

definition unique_entries :: "investigation_record \<Rightarrow> bool" where
  "unique_entries r \<longleftrightarrow> distinct (map eo_evidence_id (ir_evidence r))
     \<and> distinct (map se_notification_id (ir_alert_signals r))
     \<and> distinct (map ef_failure_id (ir_evidence_retrieval_failures r))
     \<and> distinct (map qy_query_id (ir_evidence_queries r))
     \<and> distinct (map sf_finding_id (ir_findings r))
     \<and> distinct (map sf_specialist (ir_findings r))
     \<and> distinct (map mi_invocation_id (ir_model_invocations r))
     \<and> distinct (map iv_intervention_id (ir_interventions r))
     \<and> distinct (map iv_idempotency_key (ir_interventions r))"

definition running_count :: "intervention list \<Rightarrow> nat" where
  "running_count vs = length (filter (\<lambda>v. iv_state v = RUNNING) vs)"

definition approved_by :: "approval list \<Rightarrow> intervention \<Rightarrow> bool" where
  "approved_by as v \<longleftrightarrow>
     list_ex (\<lambda>a. apr_approval_id a = iv_approval_id v \<and> apr_decision a = APPROVED) as"

definition authority_ok :: "investigation_record \<Rightarrow> bool" where
  "authority_ok r \<longleftrightarrow> running_count (ir_interventions r) \<le> 1
     \<and> list_all (approved_by (ir_approvals r)) (ir_interventions r)"

text \<open>One window after the previous one, and a whole series of them.\<close>

definition window_link :: "recovery_assessment list \<Rightarrow> recovery_assessment \<Rightarrow> bool" where
  "window_link previous a \<longleftrightarrow>
     (case last_option previous of None \<Rightarrow> True
      | Some q \<Rightarrow> ra_window_ended_at q \<le> ra_window_started_at a)
     \<and> ra_stable_windows a = expected_stable_windows previous a"

fun windows_ok :: "recovery_assessment list \<Rightarrow> recovery_assessment list \<Rightarrow> bool" where
  "windows_ok before [] \<longleftrightarrow> True"
| "windows_ok before (a # as) \<longleftrightarrow> window_link before a \<and> windows_ok (before @ [a]) as"

definition window_length :: "investigation_record \<Rightarrow> timedelta" where
  "window_length r = seconds
     (rc_stabilization_window_seconds (ap_recovery_criteria (ir_application_profile r)))"

definition recovery_ok :: "investigation_record \<Rightarrow> bool" where
  "recovery_ok r \<longleftrightarrow>
     list_all (\<lambda>a. windows_ok [] (assessments_of (ra_intervention_id a) r)
         \<and> ra_window_ended_at a - ra_window_started_at a = window_length r)
       (ir_recovery_assessments r)"

definition record_inv :: "investigation_record \<Rightarrow> bool" where
  "record_inv r \<longleftrightarrow> wf_record r \<and> audit_ok r \<and> unique_entries r \<and> authority_ok r \<and> recovery_ok r"

lemma windows_ok_snoc: "windows_ok b (as @ [a]) \<longleftrightarrow> windows_ok b as \<and> window_link (b @ as) a"
  by (induction as arbitrary: b) auto

section \<open>What may change\<close>

text \<open>
  A claimed Intervention changes only its state, and only while it runs.
\<close>

definition intervention_update_ok :: "intervention \<Rightarrow> intervention \<Rightarrow> bool" where
  "intervention_update_ok v w \<longleftrightarrow> w\<lparr>iv_state := iv_state v\<rparr> = v \<and> (iv_state v \<noteq> RUNNING \<longrightarrow> w = v)"

definition interventions_extend :: "intervention list \<Rightarrow> intervention list \<Rightarrow> bool" where
  "interventions_extend vs ws \<longleftrightarrow> length vs \<le> length ws
     \<and> list_all2 intervention_update_ok vs (take (length vs) ws)"

definition record_extends :: "investigation_record \<Rightarrow> investigation_record \<Rightarrow> bool" where
  "record_extends r r' \<longleftrightarrow>
     inc_incident_id (ir_incident r') = inc_incident_id (ir_incident r)
     \<and> inc_application_id (ir_incident r') = inc_application_id (ir_incident r)
     \<and> inc_profile_version (ir_incident r') = inc_profile_version (ir_incident r)
     \<and> inc_version (ir_incident r) \<le> inc_version (ir_incident r')
     \<and> ir_application_profile r' = ir_application_profile r
     \<and> ir_evidence_window r' = ir_evidence_window r
     \<and> prefix (ir_alert_signals r) (ir_alert_signals r')
     \<and> prefix (ir_evidence r) (ir_evidence r')
     \<and> prefix (ir_evidence_retrieval_failures r) (ir_evidence_retrieval_failures r')
     \<and> prefix (ir_evidence_queries r) (ir_evidence_queries r')
     \<and> prefix (ir_findings r) (ir_findings r')
     \<and> prefix (ir_model_invocations r) (ir_model_invocations r')
     \<and> (ir_policy_decision r \<noteq> None \<longrightarrow> ir_policy_decision r' = ir_policy_decision r)
     \<and> prefix (ir_approvals r) (ir_approvals r')
     \<and> interventions_extend (ir_interventions r) (ir_interventions r')
     \<and> prefix (ir_recovery_assessments r) (ir_recovery_assessments r')
     \<and> prefix (ir_audit_events r) (ir_audit_events r')"

lemma intervention_update_ok_refl [simp]: "intervention_update_ok v v"
  by (simp add: intervention_update_ok_def)

lemma intervention_update_ok_trans:
  "intervention_update_ok u v \<Longrightarrow> intervention_update_ok v w \<Longrightarrow> intervention_update_ok u w"
  by (cases u; cases v; cases w) (auto simp: intervention_update_ok_def)

lemma interventions_extend_refl [simp]: "interventions_extend vs vs"
  by (simp add: interventions_extend_def list_all2_same)

lemma interventions_extend_snoc [simp]: "interventions_extend vs (vs @ [v])"
  by (simp add: interventions_extend_def list_all2_same)

lemma interventions_extend_map:
  "(\<And>v. v \<in> set vs \<Longrightarrow> intervention_update_ok v (f v)) \<Longrightarrow> interventions_extend vs (map f vs)"
  by (simp add: interventions_extend_def list_all2_conv_all_nth)

lemma interventions_extend_trans:
  assumes "interventions_extend us vs" and "interventions_extend vs ws"
  shows "interventions_extend us ws"
  using assms unfolding interventions_extend_def list_all2_conv_all_nth
  by (auto intro: intervention_update_ok_trans)

lemma record_extends_refl [simp]: "record_extends r r"
  by (simp add: record_extends_def)

lemma record_extends_trans:
  assumes "record_extends r s" and "record_extends s t"
  shows "record_extends r t"
proof -
  from assms have "interventions_extend (ir_interventions r) (ir_interventions t)"
    by (auto simp: record_extends_def intro: interventions_extend_trans)
  with assms show ?thesis
    unfolding record_extends_def by (auto intro: prefix_order.trans)
qed

section \<open>Audit events\<close>

lemma next_cursor_audit_ok:
  assumes "audit_ok r"
  shows "next_cursor r = int (length (ir_audit_events r)) + 1"
proof (cases "ir_audit_events r" rule: rev_cases)
  case Nil
  then show ?thesis by (simp add: next_cursor_def)
next
  case (snoc es e)
  with assms have "ae_cursor e = int (length es) + 1" by (simp add: audit_ok_def)
  with snoc show ?thesis by (simp add: next_cursor_def)
qed

lemma audit_ok_with_event: "audit_ok r \<Longrightarrow> audit_ok (with_event e r)"
  using next_cursor_audit_ok [of r] by (simp add: audit_ok_def with_event_def)

lemma with_event_simps [simp]:
  "ir_incident (with_event e r) = ir_incident r"
  "ir_application_profile (with_event e r) = ir_application_profile r"
  "ir_evidence_window (with_event e r) = ir_evidence_window r"
  "ir_alert_signals (with_event e r) = ir_alert_signals r"
  "ir_evidence (with_event e r) = ir_evidence r"
  "ir_evidence_retrieval_failures (with_event e r) = ir_evidence_retrieval_failures r"
  "ir_evidence_queries (with_event e r) = ir_evidence_queries r"
  "ir_findings (with_event e r) = ir_findings r"
  "ir_model_invocations (with_event e r) = ir_model_invocations r"
  "ir_hypotheses (with_event e r) = ir_hypotheses r"
  "ir_proposal (with_event e r) = ir_proposal r"
  "ir_manual_guidance (with_event e r) = ir_manual_guidance r"
  "ir_policy_decision (with_event e r) = ir_policy_decision r"
  "ir_approvals (with_event e r) = ir_approvals r"
  "ir_interventions (with_event e r) = ir_interventions r"
  "ir_recovery_assessments (with_event e r) = ir_recovery_assessments r"
  "ir_audit_events (with_event e r) = ir_audit_events r @ [e\<lparr>ae_cursor := next_cursor r\<rparr>]"
  by (simp_all add: with_event_def)

lemma bump_version_simps [simp]:
  "inc_version (bump_version i n) = n + 1"
  "inc_incident_id (bump_version i n) = inc_incident_id i"
  "inc_application_id (bump_version i n) = inc_application_id i"
  "inc_profile_version (bump_version i n) = inc_profile_version i"
  "inc_lifecycle (bump_version i n) = inc_lifecycle i"
  "inc_investigation_outcome (bump_version i n) = inc_investigation_outcome i"
  "inc_intervention_outcome (bump_version i n) = inc_intervention_outcome i"
  by (simp_all add: bump_version_def)

section \<open>Appends that are not validated again keep the record valid\<close>

text \<open>
  Five methods store their result without running the validators. Their own guards imply what
  the validators would check.
\<close>

definition decisions_consistent :: "investigation_record \<Rightarrow> bool" where
  "decisions_consistent r \<longleftrightarrow>
     \<not> (ir_proposal r \<noteq> None \<and> ir_manual_guidance r \<noteq> None)
     \<and> (case ir_policy_decision r of None \<Rightarrow> True | Some d \<Rightarrow>
          ir_proposal r \<noteq> None \<and> pd_incident_id d = inc_incident_id (ir_incident r)
          \<and> Some (pd_proposal_id d) = map_option rp_proposal_id (ir_proposal r))
     \<and> (\<forall>p. ir_proposal r = Some p \<longrightarrow> (\<forall>a\<in>set (ir_approvals r). apr_proposal_id a = rp_proposal_id p))
     \<and> (\<forall>p. ir_proposal r = Some p \<longrightarrow> (\<forall>v\<in>set (ir_interventions r). iv_proposal_id v = rp_proposal_id p))
     \<and> \<not> (ir_approvals r \<noteq> [] \<and> map_option pd_status (ir_policy_decision r) \<noteq> Some POLICY_PASSED)
     \<and> \<not> 1 < length (ir_approvals r)
     \<and> \<not> (ir_proposal r = None \<and> ir_interventions r \<noteq> [])
     \<and> iv_approval_id ` set (ir_interventions r) \<subseteq> apr_approval_id ` set (ir_approvals r)
     \<and> ra_intervention_id ` set (ir_recovery_assessments r)
         \<subseteq> iv_intervention_id ` set (ir_interventions r)"

definition evidence_consistent :: "investigation_record \<Rightarrow> bool" where
  "evidence_consistent r \<longleftrightarrow>
     (\<forall>e\<in>set (ir_evidence r). \<forall>q. eo_evidence_query_id e = Some q \<longrightarrow>
        q \<in> qy_query_id ` set (ir_evidence_queries r))
     \<and> set (record_citations r) \<subseteq> eo_evidence_id ` set (ir_evidence r)"

lemma first_problem_case_option:
  "first_problem (case x of None \<Rightarrow> [] | Some d \<Rightarrow> f d) = None \<longleftrightarrow>
     (case x of None \<Rightarrow> True | Some d \<Rightarrow> first_problem (f d) = None)"
  by (cases x) auto

lemma list_ex_not_in: "list_ex (\<lambda>x. x \<notin> A) xs \<longleftrightarrow> \<not> set xs \<subseteq> A"
  by (auto simp: list_ex_iff)

lemma list_ex_neq: "list_ex (\<lambda>x. x \<noteq> y) xs \<longleftrightarrow> \<not> set xs \<subseteq> {y}"
  by (auto simp: list_ex_iff)

lemma list_ex_not_mapped:
  "list_ex (\<lambda>x. f x \<notin> set (map g ys)) xs \<longleftrightarrow> \<not> f ` set xs \<subseteq> g ` set ys"
  by (auto simp: list_ex_iff)

lemma list_ex_proposal:
  "(case x of None \<Rightarrow> False | Some p \<Rightarrow> list_ex (\<lambda>y. h y \<noteq> k p) ys) \<longleftrightarrow>
     \<not> (\<forall>p. x = Some p \<longrightarrow> (\<forall>y\<in>set ys. h y = k p))"
  by (cases x) (auto simp: list_ex_iff)

lemma list_ex_option_not_in:
  "list_ex (\<lambda>e. case f e of None \<Rightarrow> False | Some q \<Rightarrow> q \<notin> set (map g ys)) xs \<longleftrightarrow>
     \<not> (\<forall>e\<in>set xs. \<forall>q. f e = Some q \<longrightarrow> q \<in> g ` set ys)"
  unfolding list_ex_iff by (auto split: option.splits) force

lemma record_problem_None:
  "investigation_record_problem r = None \<longleftrightarrow>
     inc_application_id (ir_incident r) = ap_application_id (ir_application_profile r)
     \<and> ew_incident_id (ir_evidence_window r) = inc_incident_id (ir_incident r)
     \<and> set (scoped_entries r) \<subseteq> set (enrolled_references (ir_application_profile r))
     \<and> set (entry_incident_ids r) \<subseteq> {inc_incident_id (ir_incident r)}
     \<and> evidence_consistent r \<and> decisions_consistent r"
  unfolding investigation_record_problem_def Let_def decisions_consistent_def
    evidence_consistent_def first_problem_append_None first_problem_case_option
    list_ex_not_in list_ex_neq list_ex_not_mapped list_ex_proposal list_ex_option_not_in
    first_problem_None_Cons
  by (simp only: not_not first_problem.simps(1) simp_thms conj_assoc list.set_map)
    (intro iffI; elim conjE; intro conjI; assumption)

lemma decisions_consistent_frame [simp]:
  "decisions_consistent (r\<lparr>ir_evidence := x1\<rparr>) = decisions_consistent r"
  "decisions_consistent (r\<lparr>ir_alert_signals := x2\<rparr>) = decisions_consistent r"
  "decisions_consistent (r\<lparr>ir_evidence_retrieval_failures := x3\<rparr>) = decisions_consistent r"
  "decisions_consistent (r\<lparr>ir_evidence_queries := x4\<rparr>) = decisions_consistent r"
  "decisions_consistent (r\<lparr>ir_audit_events := x5\<rparr>) = decisions_consistent r"
  unfolding decisions_consistent_def by (simp_all cong: option.case_cong)

lemmas wf_append_simps = record_problem_None evidence_consistent_def nested_entries_wf_def
  scoped_entries_def entry_incident_ids_def record_citations_def

lemma wf_record_append_evidence:
  assumes "wf_record r" "wf_evidence_observation e"
    and "append_evidence_record (inc_incident_id (ir_incident r)) e r = Inr r'"
  shows "wf_record r'"
proof -
  from assms(3) have r': "r' = r\<lparr>ir_evidence := ir_evidence r @ [e]\<rparr>"
    and new: "eo_incident_id e = inc_incident_id (ir_incident r)"
      "eo_scope e \<in> set (enrolled_references (ir_application_profile r))"
      "\<forall>q. eo_evidence_query_id e = Some q \<longrightarrow> q \<in> qy_query_id ` set (ir_evidence_queries r)"
    by (auto simp: append_evidence_record_def guarded_Inr enrolled_in_def split: option.splits)
  show ?thesis using assms(1,2) new unfolding r' wf_record_def
    by (simp add: wf_append_simps subset_insertI2)
qed

lemma wf_record_append_alert_signal:
  assumes "wf_record r" "wf_alert_signal_evidence e"
    and "append_alert_signal_record (inc_incident_id (ir_incident r)) e r = Inr r'"
  shows "wf_record r'"
proof -
  from assms(3) have r': "r' = r\<lparr>ir_alert_signals := ir_alert_signals r @ [e]\<rparr>"
    and new: "se_incident_id e = inc_incident_id (ir_incident r)"
    by (simp_all add: append_alert_signal_record_def guarded_Inr)
  show ?thesis using assms(1,2) new unfolding r' wf_record_def by (simp add: wf_append_simps)
qed

lemma wf_record_append_failure:
  assumes "wf_record r" "wf_evidence_retrieval_failure e"
    and "append_failure_record (inc_incident_id (ir_incident r)) e r = Inr r'"
  shows "wf_record r'"
proof -
  from assms(3)
  have r': "r' = r\<lparr>ir_evidence_retrieval_failures := ir_evidence_retrieval_failures r @ [e]\<rparr>"
    and new: "ef_incident_id e = inc_incident_id (ir_incident r)"
    by (simp_all add: append_failure_record_def guarded_Inr)
  show ?thesis using assms(1,2) new unfolding r' wf_record_def by (simp add: wf_append_simps)
qed

lemma wf_record_append_query:
  assumes "wf_record r" "wf_evidence_query q"
    and "append_query_record (inc_incident_id (ir_incident r)) q r = Inr r'"
  shows "wf_record r'"
proof -
  from assms(3) have r': "r' = r\<lparr>ir_evidence_queries := ir_evidence_queries r @ [q]\<rparr>"
    and new: "qy_incident_id q = inc_incident_id (ir_incident r)"
      "qy_target q \<in> set (enrolled_references (ir_application_profile r))"
    by (simp_all add: append_query_record_def guarded_Inr enrolled_in_def)
  show ?thesis using assms(1,2) new unfolding r' wf_record_def by (simp add: wf_append_simps)
qed

lemma wf_record_append_audit_event:
  assumes "wf_record r" "audit_ok r" "wf_audit_event e"
    and "append_audit_event_record (inc_incident_id (ir_incident r)) e r = Inr r'"
  shows "wf_record r'"
proof -
  from assms(4) have r': "r' = with_event e r"
    and new: "ae_incident_id e = inc_incident_id (ir_incident r)"
    by (simp_all add: append_audit_event_record_def guarded_Inr)
  have "wf_audit_event (e\<lparr>ae_cursor := next_cursor r\<rparr>)"
    using assms(2,3) by (simp add: wf_audit_event_def next_cursor_audit_ok)
  with assms(1) new show ?thesis unfolding r' with_event_def wf_record_def
    by (simp add: wf_append_simps)
qed

end
