(* ===== verification/Store_Methods.thy ===== *)
theory Store_Methods
  imports Store_Invariants
begin

text \<open>
  Each method of the store on one record, proved to keep the invariant of the record and to
  change the record only by extension: one lemma per method, \<open><method>_step\<close>. A step also says
  whether the lifecycle and the outcomes moved along the transition tables
  (\<open>record_moves\<close>), which every method but \<open>compare_and_set\<close> promises.
\<close>

definition record_moves :: "investigation_record \<Rightarrow> investigation_record \<Rightarrow> bool" where
  "record_moves r r' \<longleftrightarrow>
     lifecycle_ok (inc_lifecycle (ir_incident r)) (inc_lifecycle (ir_incident r'))
     \<and> investigation_ok (inc_investigation_outcome (ir_incident r))
         (inc_investigation_outcome (ir_incident r'))
     \<and> intervention_ok (inc_intervention_outcome (ir_incident r))
         (inc_intervention_outcome (ir_incident r'))"

definition record_step :: "investigation_record \<Rightarrow> investigation_record \<Rightarrow> bool" where
  "record_step r r' \<longleftrightarrow> record_inv r' \<and> record_extends r r'"

lemma stays_ok [simp]:
  "lifecycle_ok a a" "investigation_ok b b" "intervention_ok c c"
  by (simp_all add: lifecycle_ok_def investigation_ok_def intervention_ok_def)

text \<open>The parts of the invariant, as far as each depends on the fields of the record.\<close>

lemma frame_invariants:
  assumes "record_inv r" and "ir_audit_events r' = ir_audit_events r"
    and "ir_recovery_assessments r' = ir_recovery_assessments r"
    and "ir_application_profile r' = ir_application_profile r"
  shows "audit_ok r' \<and> recovery_ok r'"
  using assms by (simp add: record_inv_def audit_ok_def recovery_ok_def assessments_of_def
      window_length_def)

lemma event_invariants:
  assumes "record_inv r" and "ir_audit_events r' = ir_audit_events r"
    and "ir_recovery_assessments r' = ir_recovery_assessments r"
    and "ir_application_profile r' = ir_application_profile r"
  shows "audit_ok (with_event e r') \<and> recovery_ok (with_event e r')"
  using frame_invariants [OF assms] audit_ok_with_event [of r' e]
  by (simp add: recovery_ok_def assessments_of_def window_length_def)

lemmas step_simps = record_step_def record_inv_def record_extends_def unique_entries_def
  authority_ok_def

lemma fresh_key: "\<not> list_ex (\<lambda>x. f x = k) xs \<longleftrightarrow> k \<notin> f ` set xs"
  by (auto simp: list_ex_iff)

section \<open>Evidence, signals, findings\<close>

lemma append_evidence_step:
  assumes "record_inv r" "wf_evidence_observation e" "inc_incident_id (ir_incident r) = i"
    and "append_evidence_record i e r = Inr r'"
  shows "record_step r r' \<and> record_moves r r'"
proof -
  from assms(4) have r': "r' = r\<lparr>ir_evidence := ir_evidence r @ [e]\<rparr>"
    and new: "eo_evidence_id e \<notin> eo_evidence_id ` set (ir_evidence r)"
    by (simp_all add: append_evidence_record_def guarded_Inr fresh_key)
  have "wf_record r'" using assms wf_record_append_evidence [of r e r'] by (simp add: record_inv_def)
  moreover have "audit_ok r' \<and> recovery_ok r'"
    by (rule frame_invariants [OF assms(1)]) (simp_all add: r')
  ultimately show ?thesis using assms(1) new by (simp add: step_simps record_moves_def r')
qed

lemma append_alert_signal_step:
  assumes "record_inv r" "wf_alert_signal_evidence e" "inc_incident_id (ir_incident r) = i"
    and "append_alert_signal_record i e r = Inr r'"
  shows "record_step r r' \<and> record_moves r r'"
proof -
  from assms(4) have r': "r' = r\<lparr>ir_alert_signals := ir_alert_signals r @ [e]\<rparr>"
    and new: "se_notification_id e \<notin> se_notification_id ` set (ir_alert_signals r)"
    by (simp_all add: append_alert_signal_record_def guarded_Inr fresh_key)
  have "wf_record r'" using assms wf_record_append_alert_signal [of r e r'] by (simp add: record_inv_def)
  moreover have "audit_ok r' \<and> recovery_ok r'"
    by (rule frame_invariants [OF assms(1)]) (simp_all add: r')
  ultimately show ?thesis using assms(1) new by (simp add: step_simps record_moves_def r')
qed

lemma append_failure_step:
  assumes "record_inv r" "wf_evidence_retrieval_failure e" "inc_incident_id (ir_incident r) = i"
    and "append_failure_record i e r = Inr r'"
  shows "record_step r r' \<and> record_moves r r'"
proof -
  from assms(4)
  have r': "r' = r\<lparr>ir_evidence_retrieval_failures := ir_evidence_retrieval_failures r @ [e]\<rparr>"
    and new: "ef_failure_id e \<notin> ef_failure_id ` set (ir_evidence_retrieval_failures r)"
    by (simp_all add: append_failure_record_def guarded_Inr fresh_key)
  have "wf_record r'" using assms wf_record_append_failure [of r e r'] by (simp add: record_inv_def)
  moreover have "audit_ok r' \<and> recovery_ok r'"
    by (rule frame_invariants [OF assms(1)]) (simp_all add: r')
  ultimately show ?thesis using assms(1) new by (simp add: step_simps record_moves_def r')
qed

lemma append_query_step:
  assumes "record_inv r" "wf_evidence_query q" "inc_incident_id (ir_incident r) = i"
    and "append_query_record i q r = Inr r'"
  shows "record_step r r' \<and> record_moves r r'"
proof -
  from assms(4) have r': "r' = r\<lparr>ir_evidence_queries := ir_evidence_queries r @ [q]\<rparr>"
    and new: "qy_query_id q \<notin> qy_query_id ` set (ir_evidence_queries r)"
    by (simp_all add: append_query_record_def guarded_Inr fresh_key)
  have "wf_record r'" using assms wf_record_append_query [of r q r'] by (simp add: record_inv_def)
  moreover have "audit_ok r' \<and> recovery_ok r'"
    by (rule frame_invariants [OF assms(1)]) (simp_all add: r')
  ultimately show ?thesis using assms(1) new by (simp add: step_simps record_moves_def r')
qed

lemma append_finding_step:
  assumes "record_inv r" and "append_finding_record i f r = Inr r'"
  shows "record_step r r' \<and> record_moves r r'"
proof -
  from assms(2) have r': "r' = r\<lparr>ir_findings := ir_findings r @ [f]\<rparr>" and "wf_record r'"
    and new: "sf_finding_id f \<notin> sf_finding_id ` set (ir_findings r)"
      "sf_specialist f \<notin> sf_specialist ` set (ir_findings r)"
    by (simp_all add: append_finding_record_def guarded_Inr fresh_key validate_record_Inr)
  moreover have "audit_ok r' \<and> recovery_ok r'"
    by (rule frame_invariants [OF assms(1)]) (simp_all add: r')
  ultimately show ?thesis using assms(1) by (simp add: step_simps record_moves_def)
qed

lemma append_model_invocation_step:
  assumes "record_inv r" and "append_model_invocation_record i m r = Inr r'"
  shows "record_step r r' \<and> record_moves r r'"
proof -
  from assms(2) have r': "r' = r\<lparr>ir_model_invocations := ir_model_invocations r @ [m]\<rparr>"
    and "wf_record r'"
    and new: "mi_invocation_id m \<notin> mi_invocation_id ` set (ir_model_invocations r)"
    by (simp_all add: append_model_invocation_record_def guarded_Inr fresh_key validate_record_Inr)
  moreover have "audit_ok r' \<and> recovery_ok r'"
    by (rule frame_invariants [OF assms(1)]) (simp_all add: r')
  ultimately show ?thesis using assms(1) by (simp add: step_simps record_moves_def)
qed

section \<open>Decisions\<close>

lemma transition_moves:
  assumes "transition_incident (ir_incident r) l v o' = Inr j" and "ir_incident r' = bump_version j n"
  shows "record_moves r r'"
  using transition_incident_steps [OF assms(1)] assms(2) by (simp add: record_moves_def)

lemma complete_investigation_step:
  assumes "record_inv r" and "complete_investigation_record i c r = Inr r'"
  shows "record_step r r' \<and> record_moves r r'"
proof -
  from assms(2) obtain j where
    j: "transition_incident (ir_incident r) (Some INVESTIGATING) (Some (co_outcome c)) None = Inr j"
    and r': "r' = r\<lparr>ir_incident := bump_version j (inc_version (ir_incident r)),
           ir_hypotheses := co_hypotheses c, ir_proposal := co_proposal c,
           ir_manual_guidance := co_manual_guidance c\<rparr>" and wf: "wf_record r'"
    by (auto simp: complete_investigation_record_def guarded_Inr bind_result_Inr validate_record_Inr)
  have "audit_ok r' \<and> recovery_ok r'"
    by (rule frame_invariants [OF assms(1)]) (simp_all add: r')
  moreover have "record_moves r r'" by (rule transition_moves [OF j]) (simp add: r')
  ultimately show ?thesis using assms(1) wf transition_incident_frame [OF j]
    by (simp add: step_simps r')
qed

lemma record_policy_decision_step:
  assumes "record_inv r" and "record_policy_decision_record i d r = Inr r'"
  shows "record_step r r' \<and> record_moves r r'"
proof -
  from assms(2) obtain k where
    k: "(if pd_status d = POLICY_PASSED
       then bind_result (transition_incident (ir_incident r) (Some AWAITING_APPROVAL) None None)
         (\<lambda>i. Inr (bump_version i (inc_version (ir_incident r))))
       else Inr (ir_incident r)) = Inr k"
    and r': "r' = r\<lparr>ir_incident := k, ir_policy_decision := Some d\<rparr>" and wf: "wf_record r'"
    and none: "ir_policy_decision r = None"
    by (auto simp: record_policy_decision_record_def guarded_Inr bind_result_Inr
        validate_record_Inr)
  have inv: "audit_ok r' \<and> recovery_ok r'"
    by (rule frame_invariants [OF assms(1)]) (simp_all add: r')
  show ?thesis
  proof (cases "pd_status d = POLICY_PASSED")
    case True
    with k obtain j where
      j: "transition_incident (ir_incident r) (Some AWAITING_APPROVAL) None None = Inr j"
      and "k = bump_version j (inc_version (ir_incident r))" by (auto simp: bind_result_Inr)
    then have "record_moves r r'" by (intro transition_moves [OF j]) (simp add: r')
    with inv show ?thesis using assms(1) wf none transition_incident_frame [OF j]
      \<open>k = _\<close> by (simp add: step_simps r')
  next
    case False
    with k have "k = ir_incident r" by simp
    with inv show ?thesis using assms(1) wf none by (simp add: step_simps r' record_moves_def)
  qed
qed

lemma record_approval_step:
  assumes "record_inv r" and "record_approval_record g now i v a e r = Inr r'"
  shows "record_step r r' \<and> record_moves r r'"
proof -
  from assms(2) have r': "r' = with_event e
      (r\<lparr>ir_incident := bump_version (ir_incident r) (inc_version (ir_incident r)),
         ir_approvals := [a]\<rparr>)" and wf: "wf_record r'" and none: "ir_approvals r = []"
    by (auto simp: record_approval_record_def guarded_Inr validate_record_Inr)
  have inv: "audit_ok r' \<and> recovery_ok r'"
    unfolding r' by (rule event_invariants [OF assms(1)]) simp_all
  have "ir_interventions r = []"
  proof (cases "ir_interventions r")
    case (Cons w ws)
    with assms(1) none show ?thesis
      by (simp add: record_inv_def authority_ok_def approved_by_def)
  qed
  with inv show ?thesis using assms(1) wf none by (simp add: step_simps r' record_moves_def)
qed

section \<open>Interventions\<close>

lemma running_count_append: "running_count (vs @ ws) = running_count vs + running_count ws"
  by (simp add: running_count_def)

lemma running_count_none: "\<not> list_ex (\<lambda>v. iv_state v = RUNNING) vs \<Longrightarrow> running_count vs = 0"
  by (simp add: running_count_def list_ex_iff)

definition fresh_intervention :: "intervention \<Rightarrow> investigation_record \<Rightarrow> bool" where
  "fresh_intervention v r \<longleftrightarrow>
     \<not> list_ex (\<lambda>w. iv_intervention_id w = iv_intervention_id v) (ir_interventions r)"

lemma record_intervention_step:
  assumes "record_inv r" "fresh_intervention v r"
    and "record_intervention_record i n v e r = Inr r'"
  shows "record_step r r' \<and> record_moves r r'"
proof -
  from assms(3) obtain j where
    j: "transition_incident (ir_incident r) (Some MITIGATING) None None = Inr j"
    and r': "r' = with_event e (r\<lparr>ir_incident := bump_version j (inc_version (ir_incident r)),
           ir_interventions := ir_interventions r @ [v]\<rparr>)" and wf: "wf_record r'"
    and run: "iv_state v = RUNNING" "\<not> list_ex (\<lambda>v. iv_state v = RUNNING) (ir_interventions r)"
    and key: "iv_idempotency_key v \<notin> iv_idempotency_key ` set (ir_interventions r)"
    and a: "\<not> (case List.find (\<lambda>a. apr_approval_id a = iv_approval_id v) (ir_approvals r) of
        None \<Rightarrow> True | Some a \<Rightarrow> apr_decision a \<noteq> APPROVED)"
    by (auto simp: record_intervention_record_def guarded_Inr bind_result_Inr validate_record_Inr
        simp flip: fresh_key)
  have inv: "audit_ok r' \<and> recovery_ok r'"
    unfolding r' by (rule event_invariants [OF assms(1)]) simp_all
  have "approved_by (ir_approvals r) v"
    using a by (auto simp: approved_by_def list_ex_iff dest: find_in_set split: option.splits)
  moreover have "running_count (ir_interventions r @ [v]) \<le> 1"
    using running_count_none [OF run(2)] by (simp add: running_count_append running_count_def)
  moreover have "record_moves r r'" by (rule transition_moves [OF j]) (simp add: r')
  moreover have "iv_intervention_id v \<notin> iv_intervention_id ` set (ir_interventions r)"
    using assms(2) by (simp add: fresh_intervention_def fresh_key)
  ultimately show ?thesis using assms(1) wf inv key transition_incident_frame [OF j]
    by (simp add: step_simps r')
qed

lemma running_count_map:
  assumes "\<And>v. v \<in> set vs \<Longrightarrow> iv_state (f v) = RUNNING \<Longrightarrow> iv_state v = RUNNING"
  shows "running_count (map f vs) \<le> running_count vs"
  using assms
proof (induction vs)
  case (Cons v vs)
  then have "running_count (map f vs) \<le> running_count vs" by simp
  moreover have "iv_state (f v) = RUNNING \<Longrightarrow> iv_state v = RUNNING" using Cons.prems by simp
  ultimately show ?case by (simp add: running_count_def)
qed (simp add: running_count_def)

lemma update_intervention_step:
  assumes inv: "record_inv r" and "update_intervention_record i v e r = Inr r'"
  shows "record_step r r' \<and> record_moves r r'"
proof -
  from assms(2) obtain c lifecycle outcome j where
    c: "List.find (\<lambda>w. iv_intervention_id w = iv_intervention_id v) (ir_interventions r) = Some c"
    and j: "transition_incident (ir_incident r) (Some lifecycle) None (Some outcome) = Inr j"
    and r': "r' = with_event e (r\<lparr>ir_incident := bump_version j (inc_version (ir_incident r)),
         ir_interventions := map (\<lambda>w. if iv_intervention_id w = iv_intervention_id v
                      then v else w) (ir_interventions r)\<rparr>)" and wf: "wf_record r'"
    and upd: "iv_state c = RUNNING" "v\<lparr>iv_state := iv_state c\<rparr> = c" "iv_state v \<noteq> RUNNING"
    by (auto simp: update_intervention_record_def guarded_Inr bind_result_Inr validate_record_Inr
        split: option.splits prod.splits)
  define f where "f w = (if iv_intervention_id w = iv_intervention_id v then v else w)" for w
  have r'': "r' = with_event e (r\<lparr>ir_incident := bump_version j (inc_version (ir_incident r)),
       ir_interventions := map f (ir_interventions r)\<rparr>)" unfolding r' f_def ..
  have "c \<in> set (ir_interventions r)" "iv_intervention_id c = iv_intervention_id v"
    using find_in_set [OF c] by auto
  with inv have same: "w = c" if "w \<in> set (ir_interventions r)"
    "iv_intervention_id w = iv_intervention_id v" for w
    using that unfolding record_inv_def unique_entries_def distinct_map inj_on_def by metis
  have fields: "iv_intervention_id v = iv_intervention_id c" "iv_approval_id v = iv_approval_id c"
    "iv_idempotency_key v = iv_idempotency_key c"
    using arg_cong [OF upd(2), of iv_intervention_id] arg_cong [OF upd(2), of iv_approval_id]
      arg_cong [OF upd(2), of iv_idempotency_key] by simp_all
  have v: "intervention_update_ok c v"
    using upd(1,2) by (simp add: intervention_update_ok_def)
  have fc: "f w = v \<and> w = c \<or> f w = w" if "w \<in> set (ir_interventions r)" for w
    using same [OF that] by (cases "iv_intervention_id w = iv_intervention_id v") (simp_all add: f_def)
  have f: "intervention_update_ok w (f w)" "iv_intervention_id (f w) = iv_intervention_id w"
    "iv_approval_id (f w) = iv_approval_id w" "iv_idempotency_key (f w) = iv_idempotency_key w"
    "iv_state (f w) = RUNNING \<Longrightarrow> iv_state w = RUNNING" if "w \<in> set (ir_interventions r)" for w
  proof -
    consider (new) "f w = v" "w = c" | (old) "f w = w"
      using fc [OF \<open>w \<in> set (ir_interventions r)\<close>] by blast
    then have "intervention_update_ok w (f w) \<and> iv_intervention_id (f w) = iv_intervention_id w
      \<and> iv_approval_id (f w) = iv_approval_id w \<and> iv_idempotency_key (f w) = iv_idempotency_key w
      \<and> (iv_state (f w) = RUNNING \<longrightarrow> iv_state w = RUNNING)"
    proof cases
      case new
      show ?thesis unfolding new(1) unfolding new(2) using v fields upd(1) by (intro conjI; simp)
    next
      case old
      show ?thesis unfolding old by simp
    qed
    then show "intervention_update_ok w (f w)" "iv_intervention_id (f w) = iv_intervention_id w"
      "iv_approval_id (f w) = iv_approval_id w" "iv_idempotency_key (f w) = iv_idempotency_key w"
      "iv_state (f w) = RUNNING \<Longrightarrow> iv_state w = RUNNING" by blast+
  qed
  have "audit_ok r' \<and> recovery_ok r'"
    unfolding r' by (rule event_invariants [OF inv]) simp_all
  moreover have "record_moves r r'" by (rule transition_moves [OF j]) (simp add: r')
  moreover have "unique_entries r'"
  proof -
    have "map iv_intervention_id (map f (ir_interventions r))
        = map iv_intervention_id (ir_interventions r)"
      "map iv_idempotency_key (map f (ir_interventions r))
        = map iv_idempotency_key (ir_interventions r)"
      using f(2,4) by simp_all
    then show ?thesis using inv unfolding record_inv_def unique_entries_def r''
      by (simp del: map_map)
  qed
  moreover have "authority_ok r'"
  proof -
    have "running_count (map f (ir_interventions r)) \<le> running_count (ir_interventions r)"
      by (rule running_count_map) (rule f(5))
    moreover have "list_all (approved_by (ir_approvals r)) (map f (ir_interventions r))"
      using inv f(3) by (simp add: record_inv_def authority_ok_def list_all_iff approved_by_def)
    ultimately show ?thesis using inv by (simp add: record_inv_def authority_ok_def r'')
  qed
  moreover have "record_extends r r'"
  proof -
    have "interventions_extend (ir_interventions r) (map f (ir_interventions r))"
      by (rule interventions_extend_map) (rule f(1))
    then show ?thesis using transition_incident_frame [OF j] by (simp add: record_extends_def r'')
  qed
  ultimately show ?thesis using wf by (simp add: record_step_def record_inv_def)
qed

section \<open>Recovery\<close>

lemma record_recovery_step:
  assumes inv: "record_inv r" and op: "record_recovery_record i n a e r = Inr r'"
  shows "record_step r r' \<and> record_moves r r'"
proof -
  from op obtain k where
    k: "(if ra_stable_windows a \<ge> rc_required_stable_windows (ap_recovery_criteria (ir_application_profile r))
         then transition_incident (ir_incident r) (Some RESOLVED) None (Some OUT_SUCCEEDED)
         else Inr (ir_incident r)) = Inr k"
    and r': "r' = with_event e (r\<lparr>ir_incident := bump_version k (inc_version (ir_incident r)),
             ir_recovery_assessments := ir_recovery_assessments r @ [a]\<rparr>)" and wf: "wf_record r'"
    and len: "ra_window_ended_at a - ra_window_started_at a = window_length r"
    and link: "window_link (assessments_of (ra_intervention_id a) r) a"
    unfolding record_recovery_record_def Let_def guarded_Inr bind_result_Inr validate_record_Inr
      first_problem_None_Cons window_length_def window_link_def
    by (auto split: option.splits)
  have assess: "assessments_of x r' = assessments_of x r
      @ (if ra_intervention_id a = x then [a] else [])" for x
    by (simp add: assessments_of_def r')
  have old: "windows_ok [] (assessments_of (ra_intervention_id b) r)"
    if "b \<in> set (ir_recovery_assessments r)" for b
    using inv that by (simp add: record_inv_def recovery_ok_def list_all_iff)
  have all: "windows_ok [] (assessments_of x r)" for x
  proof (cases "assessments_of x r")
    case (Cons b bs)
    then have "b \<in> set (assessments_of x r)" by simp
    then have "b \<in> set (ir_recovery_assessments r)" "ra_intervention_id b = x"
      by (auto simp: assessments_of_def)
    with old show ?thesis by blast
  qed simp
  have "windows_ok [] (assessments_of x r')" for x
    using all [of x] link by (auto simp: assess windows_ok_snoc)
  moreover have "window_length r' = window_length r" by (simp add: window_length_def r')
  ultimately have "recovery_ok r'" using inv len
    by (simp add: recovery_ok_def record_inv_def r' list_all_iff)
  moreover have "audit_ok r'" unfolding r' using inv
    by (intro audit_ok_with_event) (simp add: record_inv_def audit_ok_def)
  moreover have "record_moves r r' \<and> inc_incident_id k = inc_incident_id (ir_incident r)
      \<and> inc_application_id k = inc_application_id (ir_incident r)
      \<and> inc_profile_version k = inc_profile_version (ir_incident r)"
  proof (cases "k = ir_incident r")
    case True
    then show ?thesis by (simp add: r' record_moves_def)
  next
    case False
    with k have t: "transition_incident (ir_incident r) (Some RESOLVED) None (Some OUT_SUCCEEDED) = Inr k"
      by (simp split: if_splits)
    have "record_moves r r'" by (rule transition_moves [OF t]) (simp add: r')
    with transition_incident_frame [OF t] show ?thesis by simp
  qed
  ultimately show ?thesis using inv wf
    by (simp add: step_simps r' prefix_def)
qed

section \<open>Audit events and replacement\<close>

lemma append_audit_event_step:
  assumes "record_inv r" "wf_audit_event e" "inc_incident_id (ir_incident r) = i"
    and "append_audit_event_record i e r = Inr r'"
  shows "record_step r r' \<and> record_moves r r'"
proof -
  from assms(4) have r': "r' = with_event e r"
    by (simp add: append_audit_event_record_def guarded_Inr)
  have "wf_record r'" using assms wf_record_append_audit_event [of r e r']
    by (simp add: record_inv_def)
  moreover have "audit_ok r' \<and> recovery_ok r'"
    unfolding r' by (rule event_invariants [OF assms(1)]) simp_all
  ultimately show ?thesis using assms(1) by (simp add: step_simps record_moves_def r')
qed

lemma compare_and_set_step:
  assumes "record_inv r" "inc_incident_id (ir_incident r) = i"
    and "compare_and_set_record i n c r = Inr r'"
  shows "record_step r r'"
proof -
  from assms(3) have r': "r' = r\<lparr>ir_incident := bump_version c n\<rparr>" and wf: "wf_record r'"
    and same: "inc_version (ir_incident r) = n" "inc_incident_id c = i"
      "inc_application_id c = inc_application_id (ir_incident r)"
      "inc_profile_version c = inc_profile_version (ir_incident r)"
    by (auto simp: compare_and_set_record_def guarded_Inr validate_record_Inr)
  have "audit_ok r' \<and> recovery_ok r'"
    by (rule frame_invariants [OF assms(1)]) (simp_all add: r')
  with wf same show ?thesis using assms(1,2) by (simp add: step_simps r')
qed

section \<open>A new record\<close>

lemma create_record_inv:
  assumes "wf_application_profile p" and "create_record p s h1 h2 = Inr r"
  shows "record_inv r"
proof -
  obtain a b where r: "r = new_record p s h1 h2 a b"
    and ok: "incident_fields (ir_incident r)" "wf_evidence_window (ir_evidence_window r)"
      "investigation_record_problem r = None"
    using assms(2) unfolding create_record_def Let_def
    by (auto simp: guarded_Inr split: if_splits option.splits)
  have "nested_entries_wf r" using ok(1,2) assms(1)
    by (simp add: nested_entries_wf_def r new_record_def)
  then show ?thesis using ok(3)
    by (simp add: record_inv_def wf_record_def audit_ok_def unique_entries_def authority_ok_def
        recovery_ok_def running_count_def) (simp add: r new_record_def)
qed

end
