(* ===== verification/Store_Contract.thy ===== *)
theory Store_Contract
  imports Store_Methods
begin

text \<open>
  The contract of a store method: applied to a record that satisfies the invariant, it gives an
  extension of the record that satisfies it again. The locale \<open>record_operation\<close> states it and
  lifts it to the whole store; it is interpreted for each of the fourteen methods. Runs of the
  store are lists of calls.
\<close>

definition store_inv :: "store \<Rightarrow> bool" where
  "store_inv s \<longleftrightarrow> distinct (map fst s)
     \<and> (\<forall>(i, r)\<in>set s. inc_incident_id (ir_incident r) = i \<and> record_inv r)"

lemma store_inv_get:
  "store_inv s \<Longrightarrow> store_get s i = Some r \<Longrightarrow> inc_incident_id (ir_incident r) = i \<and> record_inv r"
  by (auto simp: store_inv_def store_get_def dest: map_of_SomeD)

lemma store_inv_Nil [simp]: "store_inv []"
  by (simp add: store_inv_def)

lemma store_inv_replace:
  assumes "store_inv s" and "record_inv r"
  shows "store_inv (store_replace r s)"
proof -
  have "distinct (map fst (store_replace r s))"
    using assms(1) by (simp add: store_inv_def store_replace_def distinct_update)
  moreover have "inc_incident_id (ir_incident q) = i \<and> record_inv q"
    if "(i, q) \<in> set (store_replace r s)" for i q
  proof -
    have "(i, q) = (inc_incident_id (ir_incident r), r) \<or> (i, q) \<in> set s"
      using dict_set_entries [OF that [unfolded store_replace_def]] assms(1)
      by (auto simp: store_inv_def)
    then show ?thesis using assms by (auto simp: store_inv_def)
  qed
  ultimately show ?thesis by (auto simp: store_inv_def)
qed

lemma store_get_replace:
  "store_get (store_replace r s) j =
     (if j = inc_incident_id (ir_incident r) then Some r else store_get s j)"
  by (simp add: store_get_def store_replace_def dict_get_set)

lemma store_update_Inr:
  "store_update i f s = (Inr r', s') \<longleftrightarrow>
     (\<exists>r. store_get s i = Some r \<and> f r = Inr r') \<and> s' = store_replace r' s"
  by (auto simp: store_update_def required_record_def bind_result_Inr split: sum.splits option.splits)

lemma store_update_Inl: "store_update i f s = (Inl e, s') \<Longrightarrow> s' = s"
  by (auto simp: store_update_def split: sum.splits)

section \<open>The contract\<close>

locale record_operation =
  fixes operate :: "string \<Rightarrow> investigation_record \<Rightarrow> pyexn + investigation_record"
    and ok :: "investigation_record \<Rightarrow> bool"
  assumes step: "record_inv r \<Longrightarrow> ok r \<Longrightarrow> inc_incident_id (ir_incident r) = i \<Longrightarrow>
    operate i r = Inr r' \<Longrightarrow> record_step r r'"
begin

lemma updated:
  assumes "store_inv s" "\<And>r. store_get s i = Some r \<Longrightarrow> ok r"
    and "store_update i (operate i) s = (Inr r', s')"
  shows "\<exists>r. store_get s i = Some r \<and> record_step r r' \<and> s' = store_replace r' s
    \<and> inc_incident_id (ir_incident r') = i"
proof -
  obtain r where r: "store_get s i = Some r" "operate i r = Inr r'" "s' = store_replace r' s"
    using assms(3) by (auto simp: store_update_Inr)
  have "record_step r r'"
    using step [OF _ _ _ r(2)] store_inv_get [OF assms(1) r(1)] assms(2) r(1) by blast
  moreover from this have "inc_incident_id (ir_incident r') = i"
    using store_inv_get [OF assms(1) r(1)] by (simp add: record_step_def record_extends_def)
  ultimately show ?thesis using r by blast
qed

lemma keeps_store_inv:
  assumes "store_inv s" "\<And>r. store_get s i = Some r \<Longrightarrow> ok r"
    and "store_update i (operate i) s = (res, s')"
  shows "store_inv s'"
proof (cases res)
  case (Inl e)
  with assms show ?thesis using store_update_Inl by metis
next
  case (Inr r')
  with assms(3) have "store_update i (operate i) s = (Inr r', s')" by simp
  from updated [OF assms(1,2) this] show ?thesis
    using store_inv_replace [OF assms(1)] by (auto simp: record_step_def)
qed

lemma extends:
  assumes "store_inv s" "\<And>r. store_get s i = Some r \<Longrightarrow> ok r"
    and "store_update i (operate i) s = (res, s')" and "store_get s j = Some r"
  shows "\<exists>r'. store_get s' j = Some r' \<and> record_extends r r' \<and> (j \<noteq> i \<longrightarrow> r' = r)"
proof (cases res)
  case (Inl e)
  with assms(3,4) show ?thesis using store_update_Inl by (metis record_extends_refl)
next
  case (Inr r')
  with assms(3) have "store_update i (operate i) s = (Inr r', s')" by simp
  from updated [OF assms(1,2) this] show ?thesis
    using assms(4) by (auto simp: store_get_replace record_step_def)
qed

end

text \<open>A method that also moves the incident along the transition tables.\<close>

locale lifecycle_operation = record_operation +
  assumes moves: "record_inv r \<Longrightarrow> ok r \<Longrightarrow> inc_incident_id (ir_incident r) = i \<Longrightarrow>
    operate i r = Inr r' \<Longrightarrow> record_moves r r'"
begin

lemma store_moves:
  assumes "store_inv s" "\<And>r. store_get s i = Some r \<Longrightarrow> ok r"
    and "store_update i (operate i) s = (res, s')" and "store_get s j = Some r"
  shows "\<exists>r'. store_get s' j = Some r' \<and> record_moves r r'"
proof (cases res)
  case (Inl e)
  with assms(3,4) show ?thesis using store_update_Inl by (fastforce simp: record_moves_def)
next
  case (Inr r')
  with assms(3) have u: "store_update i (operate i) s = (Inr r', s')" by simp
  from updated [OF assms(1,2) u] obtain q where
    q: "store_get s i = Some q" "s' = store_replace r' s" "inc_incident_id (ir_incident r') = i"
    by blast
  have "operate i q = Inr r'" using u q(1) by (auto simp: store_update_Inr)
  then have "record_moves q r'"
    using moves store_inv_get [OF assms(1) q(1)] assms(2) [OF q(1)] by blast
  then show ?thesis using q assms(4) by (auto simp: store_get_replace record_moves_def)
qed

end

section \<open>The methods satisfy it\<close>

interpretation evidence: lifecycle_operation
  "\<lambda>i. append_evidence_record i e" "\<lambda>_. wf_evidence_observation e" for e
  by unfold_locales (use append_evidence_step in blast)+

interpretation signals: lifecycle_operation
  "\<lambda>i. append_alert_signal_record i e" "\<lambda>_. wf_alert_signal_evidence e" for e
  by unfold_locales (use append_alert_signal_step in blast)+

interpretation failures: lifecycle_operation
  "\<lambda>i. append_failure_record i e" "\<lambda>_. wf_evidence_retrieval_failure e" for e
  by unfold_locales (use append_failure_step in blast)+

interpretation queries: lifecycle_operation
  "\<lambda>i. append_query_record i q" "\<lambda>_. wf_evidence_query q" for q
  by unfold_locales (use append_query_step in blast)+

interpretation findings: lifecycle_operation
  "\<lambda>i. append_finding_record i f" "\<lambda>_. True" for f
  by unfold_locales (use append_finding_step in blast)+

interpretation invocations: lifecycle_operation
  "\<lambda>i. append_model_invocation_record i m" "\<lambda>_. True" for m
  by unfold_locales (use append_model_invocation_step in blast)+

interpretation completion: lifecycle_operation
  "\<lambda>i. complete_investigation_record i c" "\<lambda>_. True" for c
  by unfold_locales (use complete_investigation_step in blast)+

interpretation policy: lifecycle_operation
  "\<lambda>i. record_policy_decision_record i d" "\<lambda>_. True" for d
  by unfold_locales (use record_policy_decision_step in blast)+

interpretation approving: lifecycle_operation
  "\<lambda>i. record_approval_record g now i v a e" "\<lambda>_. True" for g now v a e
  by unfold_locales (use record_approval_step in blast)+

interpretation claiming: lifecycle_operation
  "\<lambda>i. record_intervention_record i n v e" "fresh_intervention v" for n v e
  by unfold_locales (use record_intervention_step in blast)+

interpretation updating: lifecycle_operation
  "\<lambda>i. update_intervention_record i v e" "\<lambda>_. True" for v e
  by unfold_locales (use update_intervention_step in blast)+

interpretation recovery: lifecycle_operation
  "\<lambda>i. record_recovery_record i n a e" "\<lambda>_. True" for n a e
  by unfold_locales (use record_recovery_step in blast)+

interpretation auditing: lifecycle_operation
  "\<lambda>i. append_audit_event_record i e" "\<lambda>_. wf_audit_event e" for e
  by unfold_locales (use append_audit_event_step in blast)+

interpretation replacing: record_operation
  "\<lambda>i. compare_and_set_record i n c" "\<lambda>_. True" for n c
  by unfold_locales (use compare_and_set_step in blast)

section \<open>Runs of the store\<close>

text \<open>
  One call of a method with its arguments. The arguments are instances of the program's models,
  so their validators have run: \<open>op_ok\<close>. A new Intervention carries an identity that no
  recorded one has.
\<close>

datatype store_op =
    Append_Evidence evidence_observation
  | Append_Alert_Signal alert_signal_evidence
  | Append_Failure evidence_retrieval_failure
  | Append_Query evidence_query
  | Append_Finding specialist_finding
  | Append_Model_Invocation model_invocation
  | Complete_Investigation coordinator_output
  | Record_Policy_Decision policy_decision
  | Record_Approval_Decision digest datetime int approval audit_event
  | Record_Intervention int intervention audit_event
  | Update_Intervention intervention audit_event
  | Record_Recovery int recovery_assessment audit_event
  | Append_Audit_Event audit_event
  | Compare_And_Set int incident

fun run_method :: "string \<Rightarrow> store_op \<Rightarrow> (store, investigation_record) act" where
  "run_method i (Append_Evidence e) = append_evidence i e"
| "run_method i (Append_Alert_Signal e) = append_alert_signal i e"
| "run_method i (Append_Failure e) = append_evidence_retrieval_failure i e"
| "run_method i (Append_Query q) = append_evidence_query i q"
| "run_method i (Append_Finding f) = append_finding i f"
| "run_method i (Append_Model_Invocation m) = append_model_invocation i m"
| "run_method i (Complete_Investigation c) = complete_investigation i c"
| "run_method i (Record_Policy_Decision d) = record_policy_decision i d"
| "run_method i (Record_Approval_Decision g now v a e) = record_approval_decision g now i v a e"
| "run_method i (Record_Intervention n v e) = record_intervention i n v e"
| "run_method i (Update_Intervention v e) = update_intervention i v e"
| "run_method i (Record_Recovery n a e) = record_recovery_assessment i n a e"
| "run_method i (Append_Audit_Event e) = append_audit_event i e"
| "run_method i (Compare_And_Set n c) = compare_and_set i n c"

fun op_ok :: "string \<Rightarrow> store_op \<Rightarrow> store \<Rightarrow> bool" where
  "op_ok i (Append_Evidence e) s = wf_evidence_observation e"
| "op_ok i (Append_Alert_Signal e) s = wf_alert_signal_evidence e"
| "op_ok i (Append_Failure e) s = wf_evidence_retrieval_failure e"
| "op_ok i (Append_Query q) s = wf_evidence_query q"
| "op_ok i (Record_Intervention n v e) s = pred_option (fresh_intervention v) (store_get s i)"
| "op_ok i (Append_Audit_Event e) s = wf_audit_event e"
| "op_ok i _ s = True"

text \<open>A call of any method, or \<open>create\<close>.\<close>

datatype store_call = Call string store_op | Create application_profile alert_signal string string

fun run_call :: "store_call \<Rightarrow> (store, investigation_record) act" where
  "run_call (Call i op) = run_method i op"
| "run_call (Create p sg h1 h2) = store_create p sg h1 h2"

fun call_ok :: "store_call \<Rightarrow> store \<Rightarrow> bool" where
  "call_ok (Call i op) s = op_ok i op s"
| "call_ok (Create p sg h1 h2) s \<longleftrightarrow> wf_application_profile p \<and> store_get s (''inc-'' @ h1) = None"

fun run_calls :: "store_call list \<Rightarrow> store \<Rightarrow> store" where
  "run_calls [] s = s"
| "run_calls (c # cs) s = run_calls cs (snd (run_call c s))"

fun calls_ok :: "store_call list \<Rightarrow> store \<Rightarrow> bool" where
  "calls_ok [] s = True"
| "calls_ok (c # cs) s \<longleftrightarrow> call_ok c s \<and> calls_ok cs (snd (run_call c s))"

lemma create_record_id: "create_record p sg h1 h2 = Inr r \<Longrightarrow> inc_incident_id (ir_incident r) = ''inc-'' @ h1"
  unfolding create_record_def Let_def
  by (auto simp: guarded_Inr new_record_def split: if_splits option.splits)

lemma method_step:
  assumes inv: "store_inv s" and ok: "op_ok i op s" and run: "run_method i op s = (res, s')"
  shows "store_inv s' \<and> (\<forall>j r. store_get s j = Some r \<longrightarrow>
    (\<exists>r'. store_get s' j = Some r' \<and> record_extends r r' \<and> (j \<noteq> i \<longrightarrow> r' = r)))"
proof (cases op)
  case (Append_Evidence e)
  with assms show ?thesis using evidence.keeps_store_inv [of s i e res s'] evidence.extends [of s i e res s']
    by (simp add: append_evidence_def)
next
  case (Append_Alert_Signal e)
  with assms show ?thesis using signals.keeps_store_inv [of s i e res s'] signals.extends [of s i e res s']
    by (simp add: append_alert_signal_def)
next
  case (Append_Failure e)
  with assms show ?thesis using failures.keeps_store_inv [of s i e res s'] failures.extends [of s i e res s']
    by (simp add: append_evidence_retrieval_failure_def)
next
  case (Append_Query e)
  with assms show ?thesis using queries.keeps_store_inv [of s i e res s'] queries.extends [of s i e res s']
    by (simp add: append_evidence_query_def)
next
  case (Append_Finding e)
  with assms show ?thesis using findings.keeps_store_inv [of s i e res s'] findings.extends [of s i e res s']
    by (simp add: append_finding_def)
next
  case (Append_Model_Invocation e)
  with assms show ?thesis
    using invocations.keeps_store_inv [of s i e res s'] invocations.extends [of s i e res s']
    by (simp add: append_model_invocation_def)
next
  case (Complete_Investigation e)
  with assms show ?thesis
    using completion.keeps_store_inv [of s i e res s'] completion.extends [of s i e res s']
    by (simp add: complete_investigation_def)
next
  case (Record_Policy_Decision e)
  with assms show ?thesis using policy.keeps_store_inv [of s i e res s'] policy.extends [of s i e res s']
    by (simp add: record_policy_decision_def)
next
  case (Record_Approval_Decision g now v a e)
  with assms show ?thesis
    using approving.keeps_store_inv [of s i g now v a e res s']
      approving.extends [of s i g now v a e res s']
    by (simp add: record_approval_decision_def)
next
  case (Record_Intervention n v e)
  with ok have "fresh_intervention v r" if "store_get s i = Some r" for r using that by simp
  with assms Record_Intervention show ?thesis
    using claiming.keeps_store_inv [of s i v n e res s'] claiming.extends [of s i v n e res s']
    by (simp add: record_intervention_def)
next
  case (Update_Intervention v e)
  with assms show ?thesis
    using updating.keeps_store_inv [of s i v e res s'] updating.extends [of s i v e res s']
    by (simp add: update_intervention_def)
next
  case (Record_Recovery n a e)
  with assms show ?thesis
    using recovery.keeps_store_inv [of s i n a e res s'] recovery.extends [of s i n a e res s']
    by (simp add: record_recovery_assessment_def)
next
  case (Append_Audit_Event e)
  with assms show ?thesis using auditing.keeps_store_inv [of s i e res s'] auditing.extends [of s i e res s']
    by (simp add: append_audit_event_def)
next
  case (Compare_And_Set n c)
  with assms show ?thesis
    using replacing.keeps_store_inv [of s i n c res s'] replacing.extends [of s i n c res s']
    by (simp add: compare_and_set_def)
qed

definition no_replacement :: "store_op \<Rightarrow> bool" where
  "no_replacement op \<longleftrightarrow> (case op of Compare_And_Set _ _ \<Rightarrow> False | _ \<Rightarrow> True)"

lemma method_moves:
  assumes "store_inv s" "op_ok i op s" "no_replacement op" "run_method i op s = (res, s')"
    and "store_get s j = Some r"
  shows "\<exists>r'. store_get s' j = Some r' \<and> record_moves r r'"
proof (cases op)
  case (Append_Evidence e)
  with assms show ?thesis using evidence.store_moves [of s i e res s' j r]
    by (simp add: append_evidence_def)
next
  case (Append_Alert_Signal e)
  with assms show ?thesis using signals.store_moves [of s i e res s' j r]
    by (simp add: append_alert_signal_def)
next
  case (Append_Failure e)
  with assms show ?thesis using failures.store_moves [of s i e res s' j r]
    by (simp add: append_evidence_retrieval_failure_def)
next
  case (Append_Query e)
  with assms show ?thesis using queries.store_moves [of s i e res s' j r]
    by (simp add: append_evidence_query_def)
next
  case (Append_Finding e)
  with assms show ?thesis using findings.store_moves [of s i e res s' j r]
    by (simp add: append_finding_def)
next
  case (Append_Model_Invocation e)
  with assms show ?thesis using invocations.store_moves [of s i e res s' j r]
    by (simp add: append_model_invocation_def)
next
  case (Complete_Investigation e)
  with assms show ?thesis using completion.store_moves [of s i e res s' j r]
    by (simp add: complete_investigation_def)
next
  case (Record_Policy_Decision e)
  with assms show ?thesis using policy.store_moves [of s i e res s' j r]
    by (simp add: record_policy_decision_def)
next
  case (Record_Approval_Decision g now v a e)
  with assms show ?thesis using approving.store_moves [of s i g now v a e res s' j r]
    by (simp add: record_approval_decision_def)
next
  case (Record_Intervention n v e)
  with assms(2) have "fresh_intervention v r" if "store_get s i = Some r" for r using that by simp
  with assms Record_Intervention show ?thesis using claiming.store_moves [of s i v n e res s' j r]
    by (simp add: record_intervention_def)
next
  case (Update_Intervention v e)
  with assms show ?thesis using updating.store_moves [of s i v e res s' j r]
    by (simp add: update_intervention_def)
next
  case (Record_Recovery n a e)
  with assms show ?thesis using recovery.store_moves [of s i n a e res s' j r]
    by (simp add: record_recovery_assessment_def)
next
  case (Append_Audit_Event e)
  with assms show ?thesis using auditing.store_moves [of s i e res s' j r]
    by (simp add: append_audit_event_def)
qed (use assms(3) in \<open>simp add: no_replacement_def\<close>)

lemma create_step:
  assumes "store_inv s" "wf_application_profile p" "store_get s (''inc-'' @ h1) = None"
    and "store_create p sg h1 h2 s = (res, s')"
  shows "store_inv s' \<and> (\<forall>j r. store_get s j = Some r \<longrightarrow> store_get s' j = Some r)"
proof (cases "create_record p sg h1 h2")
  case (Inl e)
  with assms(1,4) show ?thesis by (simp add: store_create_def)
next
  case (Inr r)
  then have "s' = store_replace r s" using assms(4) by (simp add: store_create_def)
  then show ?thesis
    using store_inv_replace [OF assms(1) create_record_inv [OF assms(2) Inr]]
      create_record_id [OF Inr] assms(3) by (auto simp: store_get_replace)
qed

lemma call_step:
  assumes "store_inv s" "call_ok c s" "run_call c s = (res, s')"
  shows "store_inv s' \<and> (\<forall>j r. store_get s j = Some r \<longrightarrow>
    (\<exists>r'. store_get s' j = Some r' \<and> record_extends r r'))"
proof (cases c)
  case (Call i op)
  with assms show ?thesis using method_step [of s i op res s'] by fastforce
next
  case (Create p sg h1 h2)
  with assms show ?thesis using create_step [of s p h1 sg h2 res s'] by fastforce
qed

lemma run_calls_inv: "store_inv s \<Longrightarrow> calls_ok cs s \<Longrightarrow> store_inv (run_calls cs s)"
proof (induction cs arbitrary: s)
  case (Cons c cs)
  from Cons.prems call_step [of s c "fst (run_call c s)" "snd (run_call c s)"]
  have "store_inv (snd (run_call c s))" by simp
  with Cons show ?case by simp
qed simp

lemma run_calls_extends:
  "store_inv s \<Longrightarrow> calls_ok cs s \<Longrightarrow> store_get s i = Some r \<Longrightarrow>
     \<exists>r'. store_get (run_calls cs s) i = Some r' \<and> record_extends r r'"
proof (induction cs arbitrary: s r)
  case (Cons c cs)
  from Cons.prems call_step [of s c "fst (run_call c s)" "snd (run_call c s)"]
  obtain q where "store_inv (snd (run_call c s))"
    and "store_get (snd (run_call c s)) i = Some q" and q: "record_extends r q" by fastforce
  with Cons.IH [of "snd (run_call c s)" q] Cons.prems obtain r' where
    "store_get (run_calls cs (snd (run_call c s))) i = Some r'" "record_extends q r'" by auto
  with q show ?case using record_extends_trans by auto
qed simp

text \<open>An incident that is closed stays closed, as long as no caller replaces it.\<close>

definition call_no_replacement :: "store_call \<Rightarrow> bool" where
  "call_no_replacement c \<longleftrightarrow> (case c of Call _ op \<Rightarrow> no_replacement op | Create _ _ _ _ \<Rightarrow> True)"

lemma call_moves:
  assumes "store_inv s" "call_ok c s" "call_no_replacement c" "run_call c s = (res, s')"
    and "store_get s j = Some r"
  shows "\<exists>r'. store_get s' j = Some r' \<and> record_moves r r'"
proof (cases c)
  case (Call i op)
  with assms show ?thesis using method_moves [of s i op res s' j r]
    by (simp add: call_no_replacement_def)
next
  case (Create p sg h1 h2)
  with assms have "store_get s' j = Some r" using create_step [of s p h1 sg h2 res s'] by simp
  then show ?thesis by (simp add: record_moves_def)
qed

lemma run_calls_moves:
  assumes "store_inv s" "calls_ok cs s" "list_all call_no_replacement cs" "store_get s i = Some r"
  shows "\<exists>r'. store_get (run_calls cs s) i = Some r' \<and> record_moves\<^sup>*\<^sup>* r r'"
  using assms
proof (induction cs arbitrary: s r)
  case (Cons c cs)
  from Cons.prems call_moves [of s c "fst (run_call c s)" "snd (run_call c s)" i r]
  obtain q where q: "store_get (snd (run_call c s)) i = Some q" "record_moves r q" by auto
  moreover have "store_inv (snd (run_call c s))"
    using Cons.prems call_step [of s c "fst (run_call c s)" "snd (run_call c s)"] by simp
  ultimately obtain r' where "store_get (run_calls cs (snd (run_call c s))) i = Some r'"
    "record_moves\<^sup>*\<^sup>* q r'" using Cons.IH [of "snd (run_call c s)" q] Cons.prems by auto
  with q(2) show ?case by (auto intro: converse_rtranclp_into_rtranclp)
qed auto

lemma moves_closed:
  "record_moves\<^sup>*\<^sup>* r r' \<Longrightarrow> inc_lifecycle (ir_incident r) = CLOSED \<Longrightarrow>
     inc_lifecycle (ir_incident r') = CLOSED"
  by (induction rule: rtranclp_induct) (auto simp: record_moves_def lifecycle_ok_CLOSED)

end
