(* ===== verification/Sample_Run.thy ===== *)
theory Sample_Run
  imports Store_Contract
begin

text \<open>
  One incident from its alert to its resolution, as the list of store calls that the services
  make: the concrete inputs of the witnesses. The digest keeps the text (so it is free of
  collisions) and writes an instant as its number of microseconds.
\<close>

definition sample_digest :: digest where
  "sample_digest = \<lparr>dg_sha256 = (\<lambda>t. ''sha-256:'' @ t), dg_isoformat = int_str\<rparr>"

definition sample_target :: workload_reference where
  "sample_target = deployment_reference ''shop'' ''web''"

definition sample_profile :: application_profile where
  "sample_profile =
    \<lparr>ap_application_id = ''shop'', ap_display_name = ''Shop'', ap_version = ''v1'',
     ap_namespace = ''shop'', ap_namespaces = [''shop''],
     ap_investigator_identity = ''inv'', ap_investigator_role = ''read'',
     ap_executor_identity = ''exe'', ap_executor_role = ''write'',
     ap_workloads =
      [\<lparr>mw_reference = sample_target, mw_criticality = IMPORTANT,
        mw_replica_bounds = \<lparr>rb_minimum = 1, rb_maximum = 5\<rparr>,
        mw_executable = True, mw_protected_dependency = False,
        mw_allowed_actions = [Rollback_Deployment, Scale_Deployment, Restart_Deployment],
        mw_dependencies = []\<rparr>],
     ap_critical_journeys =
      [\<lparr>cj_name = ''buy'', cj_success_rate_minimum = 99 / 100,
        cj_p95_latency_ms_maximum = 1500, cj_minimum_request_count = 100,
        cj_synthetic_probe = Some \<lparr>sp_name = ''probe'', sp_target = ''http'',
          sp_repetitions = 3\<rparr>\<rparr>],
     ap_alert_mappings = [],
     ap_evidence_mappings =
      [\<lparr>em_source = KUBERNETES, em_kind = WORKLOAD_STATE, em_scope = sample_target,
        em_identifier = ''web'', em_query_template = None\<rparr>],
     ap_observability_links = [],
     ap_evidence_budget = \<lparr>eb_maximum_queries_per_specialist = 2, eb_maximum_log_lines = 100,
       eb_maximum_metric_series = 20, eb_maximum_window_minutes = 30\<rparr>,
     ap_recovery_criteria = \<lparr>rc_critical_journey_name = ''buy'',
       rc_required_stable_windows = 2, rc_stabilization_window_seconds = 60,
       rc_allow_synthetic_availability_fallback = True,
       rc_latency_requires_application_traffic = True\<rparr>\<rparr>"

definition sample_signal :: alert_signal where
  "sample_signal = \<lparr>sg_signal_id = ''signal-1'', sg_application_id = ''shop'',
     sg_namespace = ''shop'', sg_workload_name = ''web'',
     sg_workload_namespace = ''shop'', sg_summary = ''errors'',
     sg_observed_at = minutes 60, sg_window_start = None, sg_window_end = None,
     sg_provider_incident_id = None\<rparr>"

definition sample_evidence :: evidence_observation where
  "sample_evidence = \<lparr>eo_evidence_id = ''e1'', eo_incident_id = ''inc-1'',
     eo_source = KUBERNETES, eo_query = WORKLOAD_STATE, eo_query_reference = ''rollout'',
     eo_evidence_query_id = None, eo_evidence_window_id = ''window-1'',
     eo_observed_at = minutes 50, eo_scope = sample_target, eo_redacted_excerpt = ''oom'',
     eo_content_hash = ''12345678'', eo_truncated = False, eo_provider_reference = ''k8s''\<rparr>"

definition sample_hypothesis :: root_cause_hypothesis where
  "sample_hypothesis = \<lparr>rh_hypothesis_id = ''h1'', rh_incident_id = ''inc-1'', rh_rank = 1,
     rh_statement = ''bad rollout'', rh_falsification_test = ''roll back'', rh_confidence = 1,
     rh_citations = [\<lparr>ec_evidence_id = ''e1'', ec_observation = ''oom''\<rparr>]\<rparr>"

definition sample_proposal :: remediation_proposal where
  "sample_proposal = \<lparr>rp_proposal_id = ''p1'', rp_incident_id = ''inc-1'',
     rp_action = ScaleDeploymentAction sample_target 3, rp_expected_impact = ''capacity'',
     rp_recovery_criteria = ap_recovery_criteria sample_profile,
     rp_rollback_strategy = ''scale back'', rp_evidence_hash = ''sha-256:12345678'',
     rp_known_risks = []\<rparr>"

definition sample_output :: coordinator_output where
  "sample_output = \<lparr>co_outcome = PROPOSAL_READY, co_hypotheses = [sample_hypothesis],
     co_proposal = Some sample_proposal, co_manual_guidance = None\<rparr>"

definition sample_patch :: deployment_patch where
  "sample_patch = \<lparr>dp_action_type = Scale_Deployment, dp_target = sample_target,
     dp_resource_version = ''rv1'',
     dp_body = [(''spec'', JObj [(''replicas'', JInt 3)])]\<rparr>"

definition sample_decision :: policy_decision where
  "sample_decision = \<lparr>pd_incident_id = ''inc-1'', pd_proposal_id = ''p1'',
     pd_status = POLICY_PASSED,
     pd_checks = [\<lparr>pc_code = REPLICA_BOUNDS, pc_passed = True, pc_message = ''within bounds''\<rparr>],
     pd_evaluated_at = minutes 61, pd_workload_resource_version = Some ''rv1'',
     pd_workload_generation = Some 1, pd_workload_revision = Some 1,
     pd_patch = Some sample_patch, pd_dry_run_diff = Some ''diff'', pd_rejection_reason = None\<rparr>"

definition sample_event :: "string \<Rightarrow> string \<Rightarrow> datetime \<Rightarrow> audit_event" where
  "sample_event n k t = \<lparr>ae_event_id = n, ae_incident_id = ''inc-1'', ae_event_type = k,
     ae_occurred_at = t, ae_actor = ''kubecouncil'', ae_details = [], ae_cursor = 0\<rparr>"

definition sample_window :: evidence_window where
  "sample_window = \<lparr>ew_window_id = ''window-1'', ew_incident_id = ''inc-1'',
     ew_started_at = minutes 30, ew_ended_at = minutes 60, ew_captured_at = minutes 60\<rparr>"

definition sample_approval :: approval where
  "sample_approval = \<lparr>apr_approval_id = ''a1'', apr_incident_id = ''inc-1'',
     apr_proposal_id = ''p1'', apr_responder_principal = ''alice'', apr_decision = APPROVED,
     apr_decided_at = minutes 62, apr_expires_at = minutes 67,
     apr_proposal_hash = ''12345678'', apr_evidence_hash = ''12345678'',
     apr_workload_resource_version = ''rv1'', apr_workload_generation = 1,
     apr_workload_revision = 1, apr_policy_hash = ''12345678'', apr_dry_run_hash = ''12345678'',
     apr_recovery_criteria_hash = ''12345678'', apr_failure_strategy_hash = ''12345678''\<rparr>"

definition sample_intervention :: intervention where
  "sample_intervention = \<lparr>iv_intervention_id = ''i1'', iv_incident_id = ''inc-1'',
     iv_proposal_id = ''p1'', iv_approval_id = ''a1'', iv_target = sample_target,
     iv_state = RUNNING, iv_requested_at = minutes 62, iv_idempotency_key = ''12345678''\<rparr>"

definition sample_assessment :: "datetime \<Rightarrow> int \<Rightarrow> recovery_assessment" where
  "sample_assessment t n = \<lparr>ra_incident_id = ''inc-1'', ra_intervention_id = ''i1'',
     ra_window_started_at = t, ra_window_ended_at = t + seconds 60,
     ra_observed_at = t + seconds 60, ra_generation = 2, ra_observed_generation = 2,
     ra_active_revision = 1, ra_desired_replicas = 3, ra_updated_replicas = 3,
     ra_available_replicas = 3, ra_unavailable_replicas = 0, ra_oom_terminations = 0,
     ra_restart_delta = 0, ra_kubernetes_converged = True, ra_symptoms_cleared = True,
     ra_journey_name = ''buy'', ra_criteria_satisfied = True, ra_request_count = 200,
     ra_success_rate = Some 1, ra_p95_latency_ms = Some 800, ra_traffic_sufficient = True,
     ra_availability_satisfied = True, ra_latency_satisfied = True,
     ra_synthetic_probe_used = False, ra_synthetic_probe_successes = None,
     ra_sufficient_evidence = True, ra_stable_windows = n, ra_required_stable_windows = 2,
     ra_explanation = ''ok''\<rparr>"

definition sample_investigation :: "store_call list" where
  "sample_investigation =
    [Create sample_profile sample_signal ''1'' ''1'',
     Call ''inc-1'' (Append_Evidence sample_evidence),
     Call ''inc-1'' (Complete_Investigation sample_output),
     Call ''inc-1'' (Record_Policy_Decision sample_decision)]"

text \<open>The record after a successful Intervention and one satisfied window.\<close>

definition sample_monitoring :: investigation_record where
  "sample_monitoring =
    \<lparr>ir_incident = \<lparr>inc_incident_id = ''inc-1'', inc_application_id = ''shop'',
        inc_profile_version = ''v1'', inc_opened_at = minutes 60, inc_lifecycle = MONITORING,
        inc_investigation_outcome = PROPOSAL_READY, inc_intervention_outcome = OUT_MONITORING,
        inc_version = 6, inc_summary = ''errors''\<rparr>,
     ir_application_profile = sample_profile, ir_evidence_window = sample_window,
     ir_alert_signals = [], ir_evidence = [sample_evidence],
     ir_evidence_retrieval_failures = [], ir_evidence_queries = [], ir_findings = [],
     ir_model_invocations = [], ir_hypotheses = [sample_hypothesis],
     ir_proposal = Some sample_proposal, ir_manual_guidance = None,
     ir_policy_decision = Some sample_decision, ir_approvals = [sample_approval],
     ir_interventions = [sample_intervention\<lparr>iv_state := IV_SUCCEEDED\<rparr>],
     ir_recovery_assessments = [sample_assessment (minutes 66) 1],
     ir_audit_events = [(sample_event ''ev1'' ''proposal_approved'' (minutes 62))\<lparr>ae_cursor := 1\<rparr>]\<rparr>"

definition sample_store :: store where
  "sample_store = [(''inc-1'', sample_monitoring)]"

definition sample_resolution :: store_op where
  "sample_resolution = Record_Recovery 6 (sample_assessment (minutes 67) 2)
     (sample_event ''ev5'' ''recovery_stabilized'' (minutes 68))"

text \<open>The same incident after it was closed, and one more audit event for it.\<close>

definition sample_closed :: store where
  "sample_closed = [(''inc-1'', sample_monitoring
     \<lparr>ir_incident := (ir_incident sample_monitoring)\<lparr>inc_lifecycle := CLOSED\<rparr>\<rparr>)]"

definition sample_note :: store_call where
  "sample_note = Call ''inc-1'' (Append_Audit_Event (sample_event ''ev9'' ''note'' (minutes 90)))"

lemma sample_profile_wf: "wf_application_profile sample_profile"
  by code_simp

lemma sample_store_inv: "store_inv sample_store"
  by code_simp

lemma sample_closed_inv: "store_inv sample_closed"
  by code_simp

lemma sample_investigation_ok: "calls_ok sample_investigation []"
  by code_simp

end
