(* ===== verification/Store_Guarantees.thy ===== *)
theory Store_Guarantees
  imports Sample_Run
begin

text \<open>
  What a client of the store can rely on over any run: stale writers fail, failing calls change
  nothing, and an incident is resolved only by a complete series of stable recovery windows.
\<close>

section \<open>Optimistic concurrency\<close>

text \<open>The version a versioned method expects, and the message it fails with on another one.\<close>

fun expected_version :: "store_op \<Rightarrow> int option" where
  "expected_version (Record_Approval_Decision g now v a e) = Some v"
| "expected_version (Record_Intervention n v e) = Some n"
| "expected_version (Record_Recovery n a e) = Some n"
| "expected_version (Compare_And_Set n c) = Some n"
| "expected_version _ = None"

fun stale_message :: "store_op \<Rightarrow> string" where
  "stale_message (Record_Approval_Decision g now v a e) = ''approval review context is stale''"
| "stale_message (Record_Intervention n v e) = ''intervention request is stale''"
| "stale_message (Record_Recovery n a e) = ''recovery verification context is stale''"
| "stale_message _ = ''stale incident version''"

lemma versioned_stale:
  assumes "expected_version op = Some n" "store_get s i = Some r" "inc_version (ir_incident r) \<noteq> n"
  shows "run_method i op s = (Inl (ValueError (stale_message op)), s)"
  using assms by (cases op) (simp_all add: store_method_defs store_update_def required_record_def
      record_approval_record_def record_intervention_record_def record_recovery_record_def
      compare_and_set_record_def guarded_def first_problem.simps)

lemma versioned_success:
  assumes "expected_version op = Some n" "run_method i op s = (Inr r', s')" "store_inv s"
  shows "store_get s' i = Some r' \<and> inc_version (ir_incident r') = n + 1"
proof (cases op)
  case (Record_Approval_Decision g now v a e)
  with assms obtain r where r: "store_get s i = Some r" "s' = store_replace r' s" "v = n"
    "record_approval_record g now i v a e r = Inr r'"
    by (auto simp: record_approval_decision_def store_update_Inr)
  with store_inv_get [OF assms(3) r(1)] show ?thesis
    by (auto simp: record_approval_record_def guarded_Inr validate_record_Inr store_get_replace)
next
  case (Record_Intervention m v e)
  with assms obtain r where r: "store_get s i = Some r" "s' = store_replace r' s" "m = n"
    "record_intervention_record i m v e r = Inr r'"
    by (auto simp: record_intervention_def store_update_Inr)
  with store_inv_get [OF assms(3) r(1)] show ?thesis
    by (auto simp: record_intervention_record_def guarded_Inr bind_result_Inr validate_record_Inr
        store_get_replace transition_incident_Inr)
next
  case (Record_Recovery m a e)
  with assms obtain r where r: "store_get s i = Some r" "s' = store_replace r' s" "m = n"
    "record_recovery_record i m a e r = Inr r'"
    by (auto simp: record_recovery_assessment_def store_update_Inr)
  with store_inv_get [OF assms(3) r(1)] show ?thesis
    by (auto simp: record_recovery_record_def Let_def guarded_Inr bind_result_Inr
        validate_record_Inr store_get_replace transition_incident_Inr split: if_splits)
next
  case (Compare_And_Set m c)
  with assms obtain r where r: "store_get s i = Some r" "s' = store_replace r' s" "m = n"
    "compare_and_set_record i m c r = Inr r'"
    by (auto simp: compare_and_set_def store_update_Inr)
  with store_inv_get [OF assms(3) r(1)] show ?thesis
    by (auto simp: compare_and_set_record_def guarded_Inr validate_record_Inr store_get_replace)
qed (use assms(1) in simp_all)

section \<open>Errors\<close>

lemma run_method_update: "\<exists>f. run_method i op = store_update i f"
  by (cases op) (auto simp: store_method_defs)

lemma run_call_error: "run_call c s = (Inl e, s') \<Longrightarrow> s' = s"
proof (cases c)
  case (Call i op)
  moreover assume "run_call c s = (Inl e, s')"
  ultimately show ?thesis using run_method_update [of i op] store_update_Inl by auto
next
  case (Create p sg h1 h2)
  moreover assume "run_call c s = (Inl e, s')"
  ultimately show ?thesis by (simp add: store_create_def split: sum.splits)
qed

lemma run_method_missing:
  assumes "store_get s i = None"
  shows "run_method i op s = (Inl (ValueError ''incident does not exist''), s)"
  using assms run_method_update [of i op] by (auto simp: store_update_def required_record_def)

section \<open>Recovery windows\<close>

text \<open>
  A run of windows in which every deterministic criterion held, each of the declared length and
  each starting where the one before ended.
\<close>

fun stable_run :: "recovery_assessment list \<Rightarrow> bool" where
  "stable_run [] = True"
| "stable_run [a] = ra_criteria_satisfied a"
| "stable_run (a # b # as) \<longleftrightarrow> ra_criteria_satisfied a
     \<and> ra_window_ended_at a = ra_window_started_at b \<and> stable_run (b # as)"

lemma stable_run_snoc:
  "stable_run (as @ [a]) \<longleftrightarrow> stable_run as \<and> ra_criteria_satisfied a
     \<and> (as \<noteq> [] \<longrightarrow> ra_window_ended_at (last as) = ra_window_started_at a)"
  by (induction as rule: stable_run.induct) auto

definition last_windows :: "nat \<Rightarrow> 'a list \<Rightarrow> 'a list" where
  "last_windows n as = drop (length as - n) as"

lemma last_windows_snoc: "last_windows (Suc n) (as @ [a]) = last_windows n as @ [a]"
  by (simp add: last_windows_def)

lemma stable_run_last_windows:
  assumes "windows_ok [] as" "as \<noteq> []"
  shows "0 \<le> ra_stable_windows (last as) \<and> nat (ra_stable_windows (last as)) \<le> length as
    \<and> stable_run (last_windows (nat (ra_stable_windows (last as))) as)"
  using assms
proof (induction as rule: rev_induct)
  case (snoc a as)
  then have ok: "windows_ok [] as" and link: "window_link as a" by (simp_all add: windows_ok_snoc)
  show ?case
  proof (cases "ra_criteria_satisfied a")
    case False
    with link show ?thesis
      by (simp add: window_link_def expected_stable_windows_def last_windows_def)
  next
    case sat: True
    show ?thesis
    proof (cases "as \<noteq> [] \<and> ra_criteria_satisfied (last as)
        \<and> ra_window_ended_at (last as) = ra_window_started_at a")
      case True
      then have n: "ra_stable_windows a = ra_stable_windows (last as) + 1" using link sat
        by (simp add: window_link_def expected_stable_windows_def last_option_def)
      have IH: "0 \<le> ra_stable_windows (last as)" "nat (ra_stable_windows (last as)) \<le> length as"
        "stable_run (last_windows (nat (ra_stable_windows (last as))) as)"
        using snoc.IH [OF ok] True by auto
      then have m: "nat (ra_stable_windows a) = Suc (nat (ra_stable_windows (last as)))"
        using n by simp
      have "last_windows (nat (ra_stable_windows (last as))) as \<noteq> [] \<Longrightarrow>
          last (last_windows (nat (ra_stable_windows (last as))) as) = last as"
        by (simp add: last_windows_def)
      then have "stable_run (last_windows (nat (ra_stable_windows (last as))) as @ [a])"
        using IH(3) True sat by (auto simp: stable_run_snoc)
      then show ?thesis using IH n m by (simp add: last_windows_snoc)
    next
      case False
      then have "ra_stable_windows a = 1" using link sat
        by (auto simp: window_link_def expected_stable_windows_def last_option_def split: if_splits)
      then show ?thesis using sat by (simp add: last_windows_def)
    qed
  qed
qed simp

lemma stable_run_satisfied: "stable_run as \<Longrightarrow> a \<in> set as \<Longrightarrow> ra_criteria_satisfied a"
  by (induction as rule: stable_run.induct) auto

lemma stable_run_drop: "stable_run as \<Longrightarrow> stable_run (drop n as)"
proof (induction n arbitrary: as)
  case (Suc n)
  then show ?case by (cases as rule: stable_run.cases) auto
qed simp

lemma last_windows_le: "n \<le> m \<Longrightarrow> m \<le> length as \<Longrightarrow> last_windows n as = drop (m - n) (last_windows m as)"
  by (simp add: last_windows_def)

section \<open>Resolution\<close>

definition is_recovery :: "store_op \<Rightarrow> bool" where
  "is_recovery op \<longleftrightarrow> (case op of Record_Recovery _ _ _ \<Rightarrow> True | _ \<Rightarrow> False)"

lemma resolved_only_by_recovery:
  assumes "run_method i op s = (Inr r', s')" "store_get s i = Some r"
    and "inc_lifecycle (ir_incident r') = RESOLVED" "no_replacement op" "\<not> is_recovery op"
  shows "inc_lifecycle (ir_incident r) = RESOLVED"
proof (cases op)
  case (Update_Intervention v e)
  then show ?thesis using assms(1,2,3)
    by (cases "iv_state v") (auto simp: update_intervention_def store_update_Inr
        update_intervention_record_def guarded_Inr bind_result_Inr validate_record_Inr
        transition_incident_Inr split: option.splits)
qed (use assms in \<open>auto simp: store_method_defs store_update_Inr record_operation_defs guarded_Inr
    bind_result_Inr validate_record_Inr transition_incident_Inr is_recovery_def no_replacement_def
    split: if_splits\<close>)

definition required_windows :: "investigation_record \<Rightarrow> nat" where
  "required_windows r =
     nat (rc_required_stable_windows (ap_recovery_criteria (ir_application_profile r)))"

definition successful_intervention :: "string \<Rightarrow> investigation_record \<Rightarrow> bool" where
  "successful_intervention iid r \<longleftrightarrow>
     list_ex (\<lambda>v. iv_intervention_id v = iid \<and> iv_state v = IV_SUCCEEDED) (ir_interventions r)"

lemma record_recovery_resolves:
  assumes inv: "record_inv r" and "inc_lifecycle (ir_incident r) \<noteq> RESOLVED"
    and op: "record_recovery_record i n a e r = Inr r'" and "inc_lifecycle (ir_incident r') = RESOLVED"
  shows "inc_lifecycle (ir_incident r) = MONITORING
    \<and> successful_intervention (ra_intervention_id a) r
    \<and> ir_recovery_assessments r' = ir_recovery_assessments r @ [a]
    \<and> int (required_windows r) \<le> ra_stable_windows a"
proof -
  have crit: "2 \<le> rc_required_stable_windows (ap_recovery_criteria (ir_application_profile r))"
    if "ra_required_stable_windows a
      = rc_required_stable_windows (ap_recovery_criteria (ir_application_profile r))"
      "wf_recovery_assessment a"
    using that by (simp add: wf_recovery_assessment_def recovery_assessment_fields_def)
  show ?thesis using assms crit
    unfolding record_recovery_record_def Let_def guarded_Inr bind_result_Inr validate_record_Inr
      first_problem_None_Cons wf_record_def nested_entries_wf_def
    by (auto simp: successful_intervention_def required_windows_def list_ex_iff
        dest!: find_in_set split: if_splits option.splits)
qed

lemma resolution_windows:
  assumes inv: "store_inv s" and get: "store_get s i = Some r" and ok: "op_ok i op s"
    and no: "no_replacement op" and run: "run_method i op s = (Inr r', s')"
    and fresh: "inc_lifecycle (ir_incident r) \<noteq> RESOLVED"
    and res: "inc_lifecycle (ir_incident r') = RESOLVED"
  shows "\<exists>iid. successful_intervention iid r
    \<and> inc_lifecycle (ir_incident r) = MONITORING
    \<and> required_windows r \<le> length (assessments_of iid r')
    \<and> stable_run (last_windows (required_windows r) (assessments_of iid r'))
    \<and> list_all (\<lambda>a. ra_window_ended_at a - ra_window_started_at a = window_length r)
        (assessments_of iid r')"
proof -
  have "is_recovery op" using resolved_only_by_recovery [OF run get res no] fresh by blast
  then obtain n a e where op: "op = Record_Recovery n a e"
    by (auto simp: is_recovery_def split: store_op.splits)
  then have rec: "record_recovery_record i n a e r = Inr r'"
    using run get by (auto simp: record_recovery_assessment_def store_update_Inr)
  have id: "inc_incident_id (ir_incident r) = i" and rinv: "record_inv r"
    using store_inv_get [OF inv get] by auto
  have facts: "inc_lifecycle (ir_incident r) = MONITORING"
    "successful_intervention (ra_intervention_id a) r"
    "ir_recovery_assessments r' = ir_recovery_assessments r @ [a]"
    "int (required_windows r) \<le> ra_stable_windows a"
    using record_recovery_resolves [OF rinv fresh rec res] by auto
  let ?as = "assessments_of (ra_intervention_id a) r'"
  have step: "record_inv r'" "record_extends r r'"
    using record_recovery_step [OF rinv rec] by (auto simp: record_step_def)
  have as: "?as = assessments_of (ra_intervention_id a) r @ [a]"
    by (simp add: assessments_of_def facts(3))
  have "recovery_ok r'" and wl: "window_length r' = window_length r"
    using step by (simp_all add: record_inv_def record_extends_def window_length_def)
  then have ok: "windows_ok [] ?as"
    and len: "list_all (\<lambda>a. ra_window_ended_at a - ra_window_started_at a = window_length r) ?as"
    using facts(3) by (auto simp: recovery_ok_def assessments_of_def list_all_iff)
  have "last ?as = a" "?as \<noteq> []" using as by simp_all
  with stable_run_last_windows [OF ok] have sw: "nat (ra_stable_windows a) \<le> length ?as"
    "stable_run (last_windows (nat (ra_stable_windows a)) ?as)" by auto
  have "required_windows r \<le> nat (ra_stable_windows a)" using facts(4) by simp
  with sw have "stable_run (last_windows (required_windows r) ?as)"
    "required_windows r \<le> length ?as"
    using last_windows_le [of "required_windows r" "nat (ra_stable_windows a)" ?as]
      stable_run_drop by auto
  with facts len show ?thesis by blast
qed

section \<open>The timeline\<close>

lemma filter_cursor_drop:
  assumes "map ae_cursor es = map int [b..<b + length es]"
  shows "filter (\<lambda>e. ae_cursor e > int n) es = drop (Suc n - b) es"
  using assms
proof (induction es arbitrary: b)
  case (Cons e es)
  have "[b..<b + length (e # es)] = b # [Suc b..<Suc b + length es]"
    by (simp add: upt_conv_Cons del: upt_Suc)
  with Cons.prems have "map ae_cursor (e # es) = map int (b # [Suc b..<Suc b + length es])"
    by (simp only:)
  then have "ae_cursor e = int b"
    and es: "map ae_cursor es = map int [Suc b..<Suc b + length es]" by simp_all
  then show ?case using Cons.IH [OF es] by (cases "Suc n - b") (auto simp: filter_id_conv not_less Suc_diff_le)
qed simp

lemma timeline_pages:
  assumes "store_inv s" "store_get s i = Some r"
  shows "timeline i (int n) s = Inr (drop n (ir_audit_events r))"
proof -
  have "audit_ok r" using store_inv_get [OF assms] by (simp add: record_inv_def)
  then have "filter (\<lambda>e. ae_cursor e > int n) (ir_audit_events r) = drop n (ir_audit_events r)"
    using filter_cursor_drop [of "ir_audit_events r" 1 n] by (simp add: audit_ok_def add.commute)
  then show ?thesis using assms(2) by (simp add: timeline_def required_record_def)
qed

section \<open>Who may act\<close>

lemma store_authority:
  assumes "store_inv s" "store_get s i = Some r"
  shows "length (ir_approvals r) \<le> 1 \<and> running_count (ir_interventions r) \<le> 1
    \<and> (\<forall>v\<in>set (ir_interventions r). \<exists>a\<in>set (ir_approvals r).
         apr_approval_id a = iv_approval_id v \<and> apr_decision a = APPROVED
         \<and> (\<exists>d. ir_policy_decision r = Some d \<and> pd_status d = POLICY_PASSED))"
proof -
  have inv: "record_inv r" using store_inv_get [OF assms] by simp
  then have "decisions_consistent r"
    by (simp add: record_inv_def wf_record_def record_problem_None)
  then have "length (ir_approvals r) \<le> 1"
    "ir_approvals r \<noteq> [] \<Longrightarrow> \<exists>d. ir_policy_decision r = Some d \<and> pd_status d = POLICY_PASSED"
    by (auto simp: decisions_consistent_def)
  moreover have "running_count (ir_interventions r) \<le> 1"
    "list_all (approved_by (ir_approvals r)) (ir_interventions r)"
    using inv by (simp_all add: record_inv_def authority_ok_def)
  ultimately show ?thesis
    by (fastforce simp: approved_by_def list_all_iff list_ex_iff)
qed

section \<open>The properties\<close>

text \<open>C1. Every run of store calls keeps the invariant of the store: all records validate, their
  audit cursors are 1, 2, 3, ..., append-only entries have unique identities, at most one
  Intervention runs, every Intervention has an approved Approval, and recovery windows of an
  Intervention never overlap and count their stability correctly.\<close>

theorem store_runs_keep_the_invariant:
  assumes "store_inv s" and "calls_ok cs s"
  shows "store_inv (run_calls cs s)"
  using assms by (rule run_calls_inv)

theorem store_runs_keep_the_invariant_witness: "store_inv (run_calls sample_investigation [])"
  by (rule store_runs_keep_the_invariant [OF store_inv_Nil sample_investigation_ok])

text \<open>C5. History is append-only: after any run of store calls, every record that was in the
  store is still there, with the same identity, profile and evidence window, with all its
  evidence, findings, decisions, Approvals, assessments and audit events as a prefix, and with
  Interventions of which at most the state of a running one has changed.\<close>

theorem store_history_is_append_only:
  assumes "store_inv s" and "calls_ok cs s" and "store_get s i = Some r"
  shows "\<exists>r'. store_get (run_calls cs s) i = Some r' \<and> record_extends r r'"
  using assms by (rule run_calls_extends)

theorem store_history_is_append_only_witness:
  "\<exists>r'. store_get (run_calls [sample_note] sample_closed) ''inc-1'' = Some r'
     \<and> record_extends (snd (hd sample_closed)) r'"
proof (rule store_history_is_append_only [OF sample_closed_inv])
  show "calls_ok [sample_note] sample_closed" by code_simp
  show "store_get sample_closed ''inc-1'' = Some (snd (hd sample_closed))"
    by (simp add: sample_closed_def store_get_def)
qed

text \<open>C6. As long as no caller replaces the incident by \<open>compare_and_set\<close>, the lifecycle of an
  incident only moves along the transition table, so a closed incident is closed after any run
  of store calls.\<close>

theorem closed_incidents_stay_closed:
  assumes "store_inv s" and "calls_ok cs s" and "list_all call_no_replacement cs"
    and "store_get s i = Some r" and "inc_lifecycle (ir_incident r) = CLOSED"
  shows "\<exists>r'. store_get (run_calls cs s) i = Some r' \<and> inc_lifecycle (ir_incident r') = CLOSED"
  using run_calls_moves [OF assms(1-4)] moves_closed assms(5) by blast

theorem closed_incidents_stay_closed_witness:
  "\<exists>r'. store_get (run_calls [sample_note] sample_closed) ''inc-1'' = Some r'
     \<and> inc_lifecycle (ir_incident r') = CLOSED"
proof (rule closed_incidents_stay_closed [OF sample_closed_inv])
  show "calls_ok [sample_note] sample_closed" by code_simp
  show "list_all call_no_replacement [sample_note]" by code_simp
  show "store_get sample_closed ''inc-1'' = Some (snd (hd sample_closed))"
    by (simp add: sample_closed_def store_get_def)
  show "inc_lifecycle (ir_incident (snd (hd sample_closed))) = CLOSED"
    by (simp add: sample_closed_def)
qed

text \<open>C3. Optimistic concurrency: of two calls that expect the same version of an incident, only
  one succeeds. After a versioned call succeeded, every versioned call that was prepared on the
  same version fails with its staleness message and leaves the store as it is.\<close>

theorem stale_writers_are_refused:
  assumes "store_inv s" and "run_method i op s = (Inr r, s')"
    and "expected_version op = Some n" and "expected_version op' = Some n"
  shows "run_method i op' s' = (Inl (ValueError (stale_message op')), s')"
  using versioned_success [OF assms(3,2,1)] versioned_stale [OF assms(4)] by simp

theorem stale_writers_are_refused_witness:
  "run_method ''inc-1'' sample_resolution (snd (run_method ''inc-1'' sample_resolution sample_store))
     = (Inl (ValueError ''recovery verification context is stale''),
        snd (run_method ''inc-1'' sample_resolution sample_store))"
proof -
  have "isl (fst (run_method ''inc-1'' sample_resolution sample_store)) = False" by code_simp
  then obtain r s' where run: "run_method ''inc-1'' sample_resolution sample_store = (Inr r, s')"
    by (metis isl_def sum.exhaust_sel prod.collapse)
  have v: "expected_version sample_resolution = Some 6" by (simp add: sample_resolution_def)
  show ?thesis using stale_writers_are_refused [OF sample_store_inv run v v]
    by (simp add: run) (simp add: sample_resolution_def)
qed





text \<open>C4. Human authority: in every store that a run of calls reaches, an incident has at most one
  Approval decision and at most one running Intervention, and every Intervention refers to a
  recorded Approval that approved it, under a policy decision that passed.\<close>

theorem interventions_need_approval:
  assumes "calls_ok cs []" and "store_get (run_calls cs []) i = Some r"
  shows "length (ir_approvals r) \<le> 1 \<and> running_count (ir_interventions r) \<le> 1
    \<and> (\<forall>v\<in>set (ir_interventions r). \<exists>a\<in>set (ir_approvals r).
         apr_approval_id a = iv_approval_id v \<and> apr_decision a = APPROVED
         \<and> (\<exists>d. ir_policy_decision r = Some d \<and> pd_status d = POLICY_PASSED))"
  using store_authority [OF run_calls_inv [OF store_inv_Nil assms(1)] assms(2)] .

theorem interventions_need_approval_witness:
  "\<exists>r. store_get (run_calls sample_investigation []) ''inc-1'' = Some r
     \<and> length (ir_approvals r) \<le> 1"
proof -
  have "store_get (run_calls sample_investigation []) ''inc-1'' \<noteq> None" by code_simp
  then show ?thesis using interventions_need_approval [OF sample_investigation_ok] by blast
qed

end
