(* ===== verification/Fakes.thy ===== *)
theory Fakes
  imports Profile
begin

text \<open>
  The profile the local deployment enrolls, \<open>fake_application_profile\<close> of
  \<open>domain/incident_fakes.py\<close>. It validates, and it is the concrete profile of the witnesses.
\<close>

definition boutique_workload :: "string \<Rightarrow> workload_reference" where
  "boutique_workload n = deployment_reference ''online-boutique'' n"

definition fake_application_profile :: application_profile where
  "fake_application_profile =
    \<lparr>ap_application_id = ''online-boutique'', ap_display_name = ''Online Boutique'',
     ap_version = ''v1'', ap_namespace = ''online-boutique'',
     ap_namespaces = [''online-boutique''],
     ap_investigator_identity = ''serviceaccount:kubecouncil:investigator'',
     ap_investigator_role = ''investigator-read'',
     ap_executor_identity = ''serviceaccount:kubecouncil:executor'',
     ap_executor_role = ''executor-write'',
     ap_workloads =
      [\<lparr>mw_reference = boutique_workload ''recommendationservice'',
        mw_criticality = IMPORTANT,
        mw_replica_bounds = \<lparr>rb_minimum = 1, rb_maximum = 5\<rparr>,
        mw_executable = True, mw_protected_dependency = False,
        mw_allowed_actions = [Rollback_Deployment, Scale_Deployment, Restart_Deployment],
        mw_dependencies = []\<rparr>,
       \<lparr>mw_reference = boutique_workload ''redis-cart'',
        mw_criticality = CRITICAL,
        mw_replica_bounds = \<lparr>rb_minimum = 1, rb_maximum = 1\<rparr>,
        mw_executable = False, mw_protected_dependency = True,
        mw_allowed_actions = [], mw_dependencies = []\<rparr>],
     ap_critical_journeys =
      [\<lparr>cj_name = ''checkout'', cj_success_rate_minimum = 99 / 100,
        cj_p95_latency_ms_maximum = 1500, cj_minimum_request_count = 100,
        cj_synthetic_probe = Some \<lparr>sp_name = ''checkout-probe'',
          sp_target = ''http://frontend/checkout'', sp_repetitions = 3\<rparr>\<rparr>],
     ap_alert_mappings = [],
     ap_evidence_mappings =
      [\<lparr>em_source = KUBERNETES, em_kind = WORKLOAD_STATE,
        em_scope = boutique_workload ''recommendationservice'',
        em_identifier = ''recommendationservice-rollout'', em_query_template = None\<rparr>,
       \<lparr>em_source = KUBERNETES, em_kind = POD_EVENTS,
        em_scope = boutique_workload ''recommendationservice'',
        em_identifier = ''recommendationservice-events'', em_query_template = None\<rparr>,
       \<lparr>em_source = CLOUD_LOGGING, em_kind = POD_LOGS,
        em_scope = boutique_workload ''recommendationservice'',
        em_identifier = ''recommendationservice-logs'', em_query_template = None\<rparr>,
       \<lparr>em_source = CLOUD_MONITORING, em_kind = METRICS,
        em_scope = boutique_workload ''recommendationservice'',
        em_identifier = ''checkout-success-rate'',
        em_query_template = Some ''sum(rate(checkout_requests_total[5m]))''\<rparr>,
       \<lparr>em_source = KUBERNETES, em_kind = CHANGE_HISTORY,
        em_scope = boutique_workload ''recommendationservice'',
        em_identifier = ''recommendationservice-revisions'', em_query_template = None\<rparr>,
       \<lparr>em_source = KUBERNETES, em_kind = WORKLOAD_STATE,
        em_scope = boutique_workload ''redis-cart'',
        em_identifier = ''redis-cart-workload-state'', em_query_template = None\<rparr>,
       \<lparr>em_source = KUBERNETES, em_kind = POD_EVENTS,
        em_scope = boutique_workload ''redis-cart'',
        em_identifier = ''redis-cart-events'', em_query_template = None\<rparr>,
       \<lparr>em_source = CLOUD_LOGGING, em_kind = POD_LOGS,
        em_scope = boutique_workload ''redis-cart'',
        em_identifier = ''redis-cart-logs'', em_query_template = None\<rparr>,
       \<lparr>em_source = CLOUD_MONITORING, em_kind = METRICS,
        em_scope = boutique_workload ''redis-cart'',
        em_identifier = ''redis-cart-availability'',
        em_query_template = Some (''kube_deployment_status_replicas_available''
          @ ''{namespace='' @ [CHR 0x22] @ ''online-boutique'' @ [CHR 0x22] @ '',deployment=''
          @ [CHR 0x22] @ ''redis-cart'' @ [CHR 0x22] @ ''}'')\<rparr>,
       \<lparr>em_source = KUBERNETES, em_kind = CHANGE_HISTORY,
        em_scope = boutique_workload ''redis-cart'',
        em_identifier = ''redis-cart-revisions'', em_query_template = None\<rparr>],
     ap_observability_links =
      [\<lparr>ol_label = ''Online Boutique logs'', ol_source = CLOUD_LOGGING,
        ol_url = ''https://console.cloud.google.com/logs/query;query=''
          @ ''resource.type%3D%22k8s_container%22''\<rparr>,
       \<lparr>ol_label = ''Online Boutique metrics'', ol_source = CLOUD_MONITORING,
        ol_url = ''https://console.cloud.google.com/monitoring/metrics-explorer''\<rparr>],
     ap_evidence_budget = \<lparr>eb_maximum_queries_per_specialist = 2, eb_maximum_log_lines = 100,
       eb_maximum_metric_series = 20, eb_maximum_window_minutes = 30\<rparr>,
     ap_recovery_criteria = \<lparr>rc_critical_journey_name = ''checkout'',
       rc_required_stable_windows = 2, rc_stabilization_window_seconds = 60,
       rc_allow_synthetic_availability_fallback = True,
       rc_latency_requires_application_traffic = True\<rparr>\<rparr>"

lemma fake_profile_wf: "wf_application_profile fake_application_profile"
  by code_simp

end
