(* ===== verification/Enrollment.thy ===== *)
theory Enrollment
  imports Fakes
begin

text \<open>
  Enrollment: the read-only prerequisites that give KubeCouncil authority over an application
  (\<open>EnrollmentChecker\<close> and \<open>require_enrolled_target\<close> of \<open>services/enrollment.py\<close>, the snapshot
  types of \<open>domain/incidents.py\<close> and the snapshots of \<open>FakeEnrollmentProvider\<close>). The verdict of
  the checker is characterised by a declarative specification.
\<close>

section \<open>Snapshots\<close>

type_synonym labels = "(string \<times> string) list"

record namespace_enrollment_state =
  ns_namespace :: string
  ns_exists :: bool
  ns_labels :: labels

record workload_enrollment_state =
  ws_reference :: workload_reference
  ws_exists :: bool
  ws_labels :: labels

record role_binding_enrollment_state =
  rbs_namespace :: string
  rbs_subject :: string
  rbs_role :: string
  rbs_exists :: bool

record enrollment_snapshot =
  es_namespaces :: "namespace_enrollment_state list"
  es_workloads :: "workload_enrollment_state list"
  es_role_bindings :: "role_binding_enrollment_state list"
  es_admission_policy_binding :: bool

definition enrollment_snapshot_problem :: "enrollment_snapshot \<Rightarrow> string option" where
  "enrollment_snapshot_problem s = first_problem
    [(\<not> distinct (map ns_namespace (es_namespaces s)),
      ''enrollment snapshot namespaces must be unique''),
     (\<not> distinct (map ws_reference (es_workloads s)),
      ''enrollment snapshot workloads must be unique''),
     (\<not> distinct (map (\<lambda>b. (rbs_namespace b, rbs_subject b, rbs_role b)) (es_role_bindings s)),
      ''enrollment snapshot role bindings must be unique'')]"

definition wf_enrollment_snapshot :: "enrollment_snapshot \<Rightarrow> bool" where
  "wf_enrollment_snapshot s \<longleftrightarrow>
     list_all (\<lambda>n. ns_namespace n \<noteq> []) (es_namespaces s)
     \<and> list_all (\<lambda>w. workload_reference_fields (ws_reference w)) (es_workloads s)
     \<and> list_all (\<lambda>b. rbs_namespace b \<noteq> [] \<and> rbs_subject b \<noteq> [] \<and> rbs_role b \<noteq> [])
         (es_role_bindings s)
     \<and> enrollment_snapshot_problem s = None"

section \<open>Checks\<close>

record enrollment_check =
  ek_code :: enrollment_check_code
  ek_passed :: bool
  ek_message :: string
  ek_workload :: "workload_reference option"

record enrollment_readiness =
  er_application_id :: string
  er_profile_version :: string
  er_ready :: bool
  er_checks :: "enrollment_check list"

definition enrollment_readiness_problem :: "enrollment_readiness \<Rightarrow> string option" where
  "enrollment_readiness_problem r = first_problem
    [(er_ready r \<noteq> list_all ek_passed (er_checks r),
      ''enrollment readiness must equal the result of all checks'')]"

definition wf_enrollment_readiness :: "enrollment_readiness \<Rightarrow> bool" where
  "wf_enrollment_readiness r \<longleftrightarrow> er_application_id r \<noteq> [] \<and> er_profile_version r \<noteq> []
     \<and> er_checks r \<noteq> [] \<and> list_all (\<lambda>c. ek_message c \<noteq> []) (er_checks r)
     \<and> enrollment_readiness_problem r = None"

definition failed_checks :: "enrollment_readiness \<Rightarrow> enrollment_check list" where
  "failed_checks r = filter (\<lambda>c. \<not> ek_passed c) (er_checks r)"

definition enrolled_namespace_label :: string where
  "enrolled_namespace_label = ''kubecouncil.io/enrolled''"

definition managed_workload_label :: string where
  "managed_workload_label = ''kubecouncil.io/managed''"

text \<open>A check whose message depends on its verdict.\<close>

definition verdict :: "enrollment_check_code \<Rightarrow> bool \<Rightarrow> string \<Rightarrow> string
    \<Rightarrow> workload_reference option \<Rightarrow> enrollment_check" where
  "verdict code passed yes no workload =
     \<lparr>ek_code = code, ek_passed = passed, ek_message = (if passed then yes else no),
      ek_workload = workload\<rparr>"

text \<open>\<open>{state.namespace: state for state in ...}.get(namespace)\<close>: a later entry wins.\<close>

definition namespace_state ::
  "enrollment_snapshot \<Rightarrow> string \<Rightarrow> namespace_enrollment_state option" where
  "namespace_state s n = List.find (\<lambda>x. ns_namespace x = n) (rev (es_namespaces s))"

definition workload_state ::
  "enrollment_snapshot \<Rightarrow> workload_reference \<Rightarrow> workload_enrollment_state option" where
  "workload_state s w = List.find (\<lambda>x. ws_reference x = w) (rev (es_workloads s))"

definition has_binding :: "enrollment_snapshot \<Rightarrow> string \<Rightarrow> string \<Rightarrow> string \<Rightarrow> bool" where
  "has_binding s namespace subject role =
     list_ex (\<lambda>b. rbs_exists b \<and> rbs_namespace b = namespace \<and> rbs_subject b = subject
       \<and> rbs_role b = role) (es_role_bindings s)"

definition namespace_checks ::
  "application_profile \<Rightarrow> enrollment_snapshot \<Rightarrow> string \<Rightarrow> enrollment_check list" where
  "namespace_checks p s n =
    (let state = namespace_state s n;
         selected = pred_option ns_exists state \<and> state \<noteq> None;
         labelled = selected \<and> (case state of None \<Rightarrow> False
           | Some x \<Rightarrow> map_of (ns_labels x) enrolled_namespace_label = Some ''true'')
     in [verdict NAMESPACE_SELECTED selected
           (''Namespace '' @ n @ '' is selected by Enrollment.'')
           (''Namespace '' @ n @ '' is missing from Enrollment inspection.'') None,
         verdict NAMESPACE_ENROLLED_LABEL labelled
           (''Namespace '' @ n @ '' has '' @ enrolled_namespace_label @ '': true.'')
           (''Namespace '' @ n @ '' must have '' @ enrolled_namespace_label @ '': true.'') None,
         verdict INVESTIGATOR_ROLE_BINDING
           (has_binding s n (ap_investigator_identity p) (ap_investigator_role p))
           (''Investigator RoleBinding is active in '' @ n @ ''.'')
           (''Investigator RoleBinding is missing in '' @ n @ ''.'') None,
         verdict EXECUTOR_ROLE_BINDING
           (has_binding s n (ap_executor_identity p) (ap_executor_role p))
           (''Executor RoleBinding is active in '' @ n @ ''.'')
           (''Executor RoleBinding is missing in '' @ n @ ''.'') None])"

definition workload_checks ::
  "enrollment_snapshot \<Rightarrow> managed_workload \<Rightarrow> enrollment_check list" where
  "workload_checks s w =
    (let state = workload_state s (mw_reference w);
         selected = pred_option ws_exists state \<and> state \<noteq> None;
         managed = selected \<and> (case state of None \<Rightarrow> False
           | Some x \<Rightarrow> map_of (ws_labels x) managed_workload_label = Some ''true'');
         n = wr_name (mw_reference w)
     in verdict WORKLOAD_SELECTED selected
           (''Workload '' @ n @ '' is selected by Enrollment.'')
           (''Workload '' @ n @ '' is missing from Enrollment inspection.'')
           (Some (mw_reference w))
        # (if mw_executable w then
            [verdict MANAGED_WORKLOAD_LABEL managed
               (''Managed Workload '' @ n @ '' has '' @ managed_workload_label @ '': true.'')
               (''Managed Workload '' @ n @ '' must have '' @ managed_workload_label @ '': true.'')
               (Some (mw_reference w))]
           else []))"

text \<open>\<open>EnrollmentChecker.check\<close>.\<close>

definition check_enrollment ::
  "application_profile \<Rightarrow> enrollment_snapshot \<Rightarrow> enrollment_readiness" where
  "check_enrollment p s =
    (let checks =
       [verdict PROFILE_VALID True ''Application Profile passed typed validation.'' [] None]
       @ concat (map (namespace_checks p s) (ap_namespaces p))
       @ concat (map (workload_checks s) (ap_workloads p))
       @ [verdict ADMISSION_POLICY_BINDING (es_admission_policy_binding s)
            ''Admission-policy binding is active.'' ''Admission-policy binding is missing.'' None]
     in \<lparr>er_application_id = ap_application_id p, er_profile_version = ap_version p,
         er_ready = list_all ek_passed checks, er_checks = checks\<rparr>)"

definition require_enrolled_target ::
  "application_profile \<Rightarrow> enrollment_readiness \<Rightarrow> workload_reference \<Rightarrow> bool
     \<Rightarrow> pyexn + managed_workload" where
  "require_enrolled_target p r target require_executable = guarded
    [(er_application_id r \<noteq> ap_application_id p \<or> er_profile_version r \<noteq> ap_version p,
      ''enrollment readiness does not match the application profile''),
     (\<not> er_ready r, ''Enrollment is not ready; targets remain outside KubeCouncil authority'')]
    (case List.find (\<lambda>w. mw_reference w = target) (ap_workloads p) of
       None \<Rightarrow> Inl (ValueError ''target is outside the enrolled application profile'')
     | Some w \<Rightarrow> guarded
        [(require_executable \<and> mw_protected_dependency w,
          ''protected dependency is observable but is never executable''),
         (require_executable \<and> \<not> mw_executable w,
          ''target is not an executable Managed Workload'')]
        (Inr w))"

section \<open>What readiness means\<close>

definition enrolled_namespace :: "application_profile \<Rightarrow> enrollment_snapshot \<Rightarrow> string \<Rightarrow> bool" where
  "enrolled_namespace p s n \<longleftrightarrow>
     (\<exists>x. namespace_state s n = Some x \<and> ns_exists x
        \<and> map_of (ns_labels x) enrolled_namespace_label = Some ''true'')
     \<and> has_binding s n (ap_investigator_identity p) (ap_investigator_role p)
     \<and> has_binding s n (ap_executor_identity p) (ap_executor_role p)"

definition enrolled_workload :: "enrollment_snapshot \<Rightarrow> managed_workload \<Rightarrow> bool" where
  "enrolled_workload s w \<longleftrightarrow>
     (\<exists>x. workload_state s (mw_reference w) = Some x \<and> ws_exists x
        \<and> (mw_executable w \<longrightarrow> map_of (ws_labels x) managed_workload_label = Some ''true''))"

definition enrolled :: "application_profile \<Rightarrow> enrollment_snapshot \<Rightarrow> bool" where
  "enrolled p s \<longleftrightarrow> es_admission_policy_binding s
     \<and> (\<forall>n\<in>set (ap_namespaces p). enrolled_namespace p s n)
     \<and> (\<forall>w\<in>set (ap_workloads p). enrolled_workload s w)"

lemma verdict_simps [simp]:
  "ek_passed (verdict c b y n w) = b" "ek_code (verdict c b y n w) = c"
  "ek_message (verdict c b y n w) = (if b then y else n)"
  by (simp_all add: verdict_def)

lemma namespace_checks_passed:
  "list_all ek_passed (namespace_checks p s n) \<longleftrightarrow> enrolled_namespace p s n"
  by (cases "namespace_state s n") (simp_all add: namespace_checks_def enrolled_namespace_def)

lemma workload_checks_passed:
  "list_all ek_passed (workload_checks s w) \<longleftrightarrow> enrolled_workload s w"
  by (cases "workload_state s (mw_reference w)")
     (auto simp: workload_checks_def enrolled_workload_def Let_def)

lemma list_all_concat: "list_all P (concat xss) \<longleftrightarrow> (\<forall>xs\<in>set xss. list_all P xs)"
  by (auto simp: list_all_iff)

lemma check_enrollment_ready: "er_ready (check_enrollment p s) \<longleftrightarrow> enrolled p s"
  by (auto simp: check_enrollment_def list_all_concat namespace_checks_passed
      workload_checks_passed enrolled_def)

lemma check_messages:
  "list_all (\<lambda>c. ek_message c \<noteq> []) (namespace_checks p s n)"
  "list_all (\<lambda>c. ek_message c \<noteq> []) (workload_checks s w)"
  by (auto simp: namespace_checks_def workload_checks_def Let_def)

lemma check_enrollment_wf:
  assumes "ap_application_id p \<noteq> []" and "ap_version p \<noteq> []"
  shows "wf_enrollment_readiness (check_enrollment p s)"
  using assms check_messages
  by (auto simp: check_enrollment_def wf_enrollment_readiness_def enrollment_readiness_problem_def
      list_all_concat)

section \<open>The snapshots of the fake provider\<close>

definition ready_for :: "application_profile \<Rightarrow> enrollment_snapshot" where
  "ready_for p =
    \<lparr>es_namespaces = map (\<lambda>n. \<lparr>ns_namespace = n, ns_exists = True,
        ns_labels = [(''kubecouncil.io/enrolled'', ''true'')]\<rparr>) (ap_namespaces p),
     es_workloads = map (\<lambda>w. \<lparr>ws_reference = mw_reference w, ws_exists = True,
        ws_labels = (if mw_executable w then [(''kubecouncil.io/managed'', ''true'')] else [])\<rparr>)
        (ap_workloads p),
     es_role_bindings = concat (map (\<lambda>n.
        [\<lparr>rbs_namespace = n, rbs_subject = ap_investigator_identity p,
          rbs_role = ap_investigator_role p, rbs_exists = True\<rparr>,
         \<lparr>rbs_namespace = n, rbs_subject = ap_executor_identity p,
          rbs_role = ap_executor_role p, rbs_exists = True\<rparr>]) (ap_namespaces p)),
     es_admission_policy_binding = True\<rparr>"

definition unready_for :: "application_profile \<Rightarrow> enrollment_snapshot" where
  "unready_for p =
    \<lparr>es_namespaces = map (\<lambda>n. \<lparr>ns_namespace = n, ns_exists = True, ns_labels = []\<rparr>)
        (ap_namespaces p),
     es_workloads = map (\<lambda>w. \<lparr>ws_reference = mw_reference w, ws_exists = True, ws_labels = []\<rparr>)
        (ap_workloads p),
     es_role_bindings = [], es_admission_policy_binding = False\<rparr>"

definition empty_snapshot :: enrollment_snapshot where
  "empty_snapshot = \<lparr>es_namespaces = [], es_workloads = [], es_role_bindings = [],
     es_admission_policy_binding = False\<rparr>"

lemma find_map_key:
  assumes "x \<in> set xs" and "distinct (map k xs)" and "\<And>y. k' (f y) = k y"
  shows "List.find (\<lambda>z. k' z = k x) (rev (map f xs)) = Some (f x)"
  using assms(1,2)
proof (induction xs rule: rev_induct)
  case (snoc y ys)
  then show ?case
    by (cases "k y = k x") (auto simp: assms(3) rev_map dest: distinct_map [THEN iffD1] inj_onD)
qed simp

lemma wf_profile_distinct:
  assumes "wf_application_profile p"
  shows "distinct (ap_namespaces p)" "distinct (enrolled_references p)"
proof -
  have prob: "application_profile_problem p = None"
    using assms by (simp add: wf_application_profile_def)
  then show "distinct (ap_namespaces p)" by (simp add: application_profile_problem_def Let_def)
  have "distinct (map (wr_name \<circ> mw_reference) (ap_workloads p))"
    using prob by (simp add: application_profile_problem_def Let_def)
  then have "distinct (map wr_name (enrolled_references p))" by (simp add: enrolled_references_def)
  then show "distinct (enrolled_references p)" by (simp only: distinct_map)
qed

lemma ready_for_enrolled:
  assumes "wf_application_profile p"
  shows "enrolled p (ready_for p)"
  unfolding enrolled_def
proof (intro conjI ballI)
  show "es_admission_policy_binding (ready_for p)" by (simp add: ready_for_def)
next
  fix n assume n: "n \<in> set (ap_namespaces p)"
  have "namespace_state (ready_for p) n = Some \<lparr>ns_namespace = n, ns_exists = True,
      ns_labels = [(''kubecouncil.io/enrolled'', ''true'')]\<rparr>"
    using find_map_key [of n "ap_namespaces p" id ns_namespace "\<lambda>n. \<lparr>ns_namespace = n,
        ns_exists = True, ns_labels = [(''kubecouncil.io/enrolled'', ''true'')]\<rparr>"] n wf_profile_distinct [OF assms]
    by (simp add: namespace_state_def ready_for_def)
  then show "enrolled_namespace p (ready_for p) n" using n
    by (auto simp: enrolled_namespace_def enrolled_namespace_label_def has_binding_def
        ready_for_def list_ex_iff)
next
  fix w assume w: "w \<in> set (ap_workloads p)"
  have "workload_state (ready_for p) (mw_reference w) = Some \<lparr>ws_reference = mw_reference w,
      ws_exists = True,
      ws_labels = (if mw_executable w then [(''kubecouncil.io/managed'', ''true'')] else [])\<rparr>"
    using find_map_key [of w "ap_workloads p" mw_reference ws_reference "\<lambda>w. \<lparr>ws_reference =
        mw_reference w, ws_exists = True, ws_labels = (if mw_executable w
          then [(''kubecouncil.io/managed'', ''true'')] else [])\<rparr>"] w
      wf_profile_distinct [OF assms]
    by (simp add: workload_state_def ready_for_def enrolled_references_def)
  then show "enrolled_workload (ready_for p) w"
    by (simp add: enrolled_workload_def managed_workload_label_def)
qed

section \<open>Properties\<close>

text \<open>C22. The verdict of the Enrollment checker is exactly its specification: an application is
  ready if and only if the admission policy is bound, every enrolled namespace exists with its
  label and both RoleBindings, and every workload exists, with the managed label when it is
  executable. The readiness document the checker builds is valid, and it is not ready for the
  unready and the empty snapshot.\<close>

theorem enrollment_verdict:
  "(er_ready (check_enrollment p s) \<longleftrightarrow> enrolled p s)
   \<and> enrollment_readiness_problem (check_enrollment p s) = None
   \<and> \<not> er_ready (check_enrollment p (unready_for p))
   \<and> \<not> er_ready (check_enrollment p empty_snapshot)"
  by (simp add: check_enrollment_ready)
     (simp add: check_enrollment_def enrollment_readiness_problem_def enrolled_def unready_for_def
       empty_snapshot_def)

text \<open>A ready Enrollment grants authority to declared executable workloads only: when a target
  is returned with \<open>require_executable\<close>, the snapshot satisfies the Enrollment specification,
  the target is the reference of a workload of the profile, the workload is executable and not a
  protected dependency, and it carries the managed label in the snapshot.\<close>

lemma executable_target_is_enrolled:
  assumes "wf_application_profile p"
    and "require_enrolled_target p (check_enrollment p s) target True = Inr w"
  shows "enrolled p s \<and> w \<in> set (ap_workloads p) \<and> mw_reference w = target
    \<and> mw_executable w \<and> \<not> mw_protected_dependency w \<and> mw_allowed_actions w \<noteq> []
    \<and> (\<exists>x. workload_state s target = Some x \<and> ws_exists x
         \<and> map_of (ws_labels x) managed_workload_label = Some ''true'')"
proof -
  from assms(2) have w: "List.find (\<lambda>w. mw_reference w = target) (ap_workloads p) = Some w"
    and "er_ready (check_enrollment p s)" "mw_executable w" "\<not> mw_protected_dependency w"
    by (auto simp: require_enrolled_target_def guarded_Inr split: option.splits)
  then have "enrolled p s" by (simp add: check_enrollment_ready)
  moreover have "w \<in> set (ap_workloads p)" "mw_reference w = target"
    using find_in_set [OF w] by auto
  moreover from this have "managed_workload_problem w = None"
    using assms(1) by (auto simp: wf_application_profile_def list_all_iff wf_managed_workload_def)
  ultimately show ?thesis
    using \<open>mw_executable w\<close> \<open>\<not> mw_protected_dependency w\<close> managed_workload_actions
    by (auto simp: enrolled_def enrolled_workload_def)
qed

lemma executable_target_is_enrolled_witness:
  "enrolled fake_application_profile (ready_for fake_application_profile)
   \<and> mw_executable (hd (ap_workloads fake_application_profile))"
proof -
  have "require_enrolled_target fake_application_profile
      (check_enrollment fake_application_profile (ready_for fake_application_profile))
      (boutique_workload ''recommendationservice'') True
    = Inr (hd (ap_workloads fake_application_profile))" by code_simp
  from executable_target_is_enrolled [OF fake_profile_wf this] show ?thesis by blast
qed

end
