(* ===== verification/Lease.thy ===== *)
theory Lease
  imports Profile
begin

text \<open>
  Workload leases (\<open>services/workload_lease.py\<close>): one document per workload, changed by atomic
  transactions. A transaction runs a callback on the current document; the callback's
  \<open>nonlocal\<close> variables are the state of the action it is. The database is an interface with the
  documented laws of a transaction (locale \<open>lease_database\<close>), interpreted on the in-memory
  database. The live adapter may run the callback several times before it commits; that is
  modelled too, and shows what a callback must not do.
\<close>

section \<open>Leases\<close>

record workload_lease =
  wl_lease_key :: string
  wl_target :: workload_reference
  wl_intervention_id :: string
  wl_owner :: string
  wl_token :: string
  wl_acquired_at :: datetime
  wl_expires_at :: datetime

definition workload_lease_problem :: "workload_lease \<Rightarrow> string option" where
  "workload_lease_problem l = first_problem
    [(wl_expires_at l \<le> wl_acquired_at l, ''workload lease expiry must follow acquisition'')]"

definition wf_workload_lease :: "workload_lease \<Rightarrow> bool" where
  "wf_workload_lease l \<longleftrightarrow> wl_lease_key l \<noteq> [] \<and> workload_reference_fields (wl_target l)
     \<and> wl_intervention_id l \<noteq> [] \<and> wl_owner l \<noteq> [] \<and> 8 \<le> length (wl_token l)
     \<and> workload_lease_problem l = None"

definition validate_lease :: "workload_lease \<Rightarrow> pyexn + workload_lease" where
  "validate_lease l =
     (if wf_workload_lease l then Inr l
      else Inl (ValidationError ''WorkloadLease''
        (case workload_lease_problem l of None \<Rightarrow> ''invalid field'' | Some m \<Rightarrow> m)))"

text \<open>\<open>str.lower\<close> on ASCII letters; the only kind is \<open>Deployment\<close>.\<close>

definition lower_char :: "char \<Rightarrow> char" where
  "lower_char c = (if CHR ''A'' \<le> c \<and> c \<le> CHR ''Z''
     then char_of (of_char c + (32 :: nat)) else c)"

definition lease_key :: "workload_reference \<Rightarrow> string" where
  "lease_key t = wr_namespace t @ ''--'' @ map lower_char (wr_kind t) @ ''--'' @ wr_name t"

section \<open>Transactions\<close>

text \<open>
  The \<open>nonlocal\<close> variables of the callbacks: \<open>acquired\<close> and \<open>renewed\<close>. A document is the lease
  itself: dumping a valid lease to JSON and validating it again gives the lease.
\<close>

record lease_closure =
  lc_acquired :: bool
  lc_renewed :: "workload_lease option"

definition initial_closure :: lease_closure where
  "initial_closure = \<lparr>lc_acquired = False, lc_renewed = None\<rparr>"

type_synonym lease_callback =
  "workload_lease option \<Rightarrow> (lease_closure, workload_lease option) act"

type_synonym 's lease_transaction =
  "string \<Rightarrow> lease_callback \<Rightarrow> ('s, workload_lease option \<times> lease_closure) act"

type_synonym lease_documents = "(string \<times> workload_lease) list"

text \<open>\<open>InMemoryLeaseDatabase.transaction\<close>: the callback runs once, under the lock.\<close>

definition memory_transaction :: "lease_documents lease_transaction" where
  "memory_transaction k update d =
    (case update (dict_get d k) initial_closure of
       (Inl e, c) \<Rightarrow> (Inl e, d)
     | (Inr None, c) \<Rightarrow> (Inr (None, c), AList.delete k d)
     | (Inr (Some l), c) \<Rightarrow> (Inr (Some l, c), dict_set k l d))"

section \<open>The lease store\<close>

definition live_at :: "datetime \<Rightarrow> workload_lease option \<Rightarrow> bool" where
  "live_at now x \<longleftrightarrow> (case x of None \<Rightarrow> False | Some l \<Rightarrow> wl_expires_at l > now)"

definition new_lease ::
  "timedelta \<Rightarrow> workload_reference \<Rightarrow> string \<Rightarrow> string \<Rightarrow> string \<Rightarrow> datetime \<Rightarrow> workload_lease" where
  "new_lease ttl target intervention_id owner token now =
     \<lparr>wl_lease_key = lease_key target, wl_target = target,
      wl_intervention_id = intervention_id, wl_owner = owner, wl_token = token,
      wl_acquired_at = now, wl_expires_at = now + ttl\<rparr>"

definition acquire_update ::
  "timedelta \<Rightarrow> workload_reference \<Rightarrow> string \<Rightarrow> string \<Rightarrow> string \<Rightarrow> datetime \<Rightarrow> lease_callback" where
  "acquire_update ttl target intervention_id owner token now current c =
    (if live_at now current then (Inr current, c)
     else (map_sum id Some (validate_lease (new_lease ttl target intervention_id owner token now)),
           c\<lparr>lc_acquired := True\<rparr>))"

text \<open>\<open>acquire\<close>; \<open>token\<close> is \<open>uuid4().hex\<close>.\<close>

definition acquire ::
  "'s lease_transaction \<Rightarrow> timedelta \<Rightarrow> workload_reference \<Rightarrow> string \<Rightarrow> string \<Rightarrow> string
     \<Rightarrow> datetime \<Rightarrow> ('s, workload_lease option) act" where
  "acquire transact ttl target intervention_id owner token now =
     seq (transact (lease_key target)
           (acquire_update ttl target intervention_id owner token now))
       (\<lambda>(document, c). ret (if \<not> lc_acquired c then None else document))"

definition renew_update :: "timedelta \<Rightarrow> workload_lease \<Rightarrow> datetime \<Rightarrow> lease_callback" where
  "renew_update ttl lease now current c =
    (case current of
       None \<Rightarrow> (Inl (ValueError ''workload lease was lost before renewal''), c)
     | Some existing \<Rightarrow>
         if wl_token existing \<noteq> wl_token lease \<or> wl_owner existing \<noteq> wl_owner lease
         then (Inl (ValueError ''workload lease ownership changed before renewal''), c)
         else if wl_expires_at existing \<le> now
         then (Inl (ValueError ''workload lease expired before renewal''), c)
         else (let renewed = existing\<lparr>wl_expires_at := now + ttl\<rparr>
               in (Inr (Some renewed), c\<lparr>lc_renewed := Some renewed\<rparr>)))"

definition renew ::
  "'s lease_transaction \<Rightarrow> timedelta \<Rightarrow> workload_lease \<Rightarrow> datetime
     \<Rightarrow> ('s, workload_lease) act" where
  "renew transact ttl lease now =
     seq (transact (wl_lease_key lease) (renew_update ttl lease now))
       (\<lambda>(document, c). case lc_renewed c of
          None \<Rightarrow> raise (RuntimeError ''workload lease renewal completed without a result'')
        | Some l \<Rightarrow> ret l)"

definition release_update :: "workload_lease \<Rightarrow> lease_callback" where
  "release_update lease current c =
    (case current of
       None \<Rightarrow> (Inr None, c)
     | Some existing \<Rightarrow>
         if wl_token existing \<noteq> wl_token lease \<or> wl_owner existing \<noteq> wl_owner lease
         then (Inl (ValueError ''cannot release a workload lease owned by another Executor''), c)
         else (Inr None, c))"

definition release :: "'s lease_transaction \<Rightarrow> workload_lease \<Rightarrow> ('s, unit) act" where
  "release transact lease =
     seq (transact (wl_lease_key lease) (release_update lease)) (\<lambda>_. ret ())"

section \<open>The contract of the database\<close>

locale lease_database =
  fixes transact :: "'s lease_transaction"
    and documents :: "'s \<Rightarrow> string \<Rightarrow> workload_lease option"
  assumes commit: "update (documents s k) initial_closure = (Inr d, c) \<Longrightarrow>
      \<exists>s'. transact k update s = (Inr (d, c), s') \<and> documents s' = (documents s)(k := d)"
    and abort: "update (documents s k) initial_closure = (Inl e, c) \<Longrightarrow>
      transact k update s = (Inl e, s)"
begin

lemma acquire_held:
  assumes "live_at now (documents s (lease_key t))"
  shows "\<exists>s'. acquire transact ttl t i ow tk now s = (Inr None, s') \<and> documents s' = documents s"
  using commit [of "acquire_update ttl t i ow tk now" s "lease_key t"
      "documents s (lease_key t)" initial_closure] assms
  by (auto simp: acquire_def acquire_update_def seq_def ret_def initial_closure_def)

lemma acquire_free:
  assumes "\<not> live_at now (documents s (lease_key t))"
    and "wf_workload_lease (new_lease ttl t i ow tk now)"
  shows "\<exists>s'. acquire transact ttl t i ow tk now s = (Inr (Some (new_lease ttl t i ow tk now)), s')
    \<and> documents s' = (documents s)(lease_key t \<mapsto> new_lease ttl t i ow tk now)"
  using commit [of "acquire_update ttl t i ow tk now" s "lease_key t"
      "Some (new_lease ttl t i ow tk now)" "initial_closure\<lparr>lc_acquired := True\<rparr>"] assms
  by (auto simp: acquire_def acquire_update_def seq_def ret_def validate_lease_def)

lemma acquire_invalid:
  assumes "\<not> live_at now (documents s (lease_key t))"
    and "\<not> wf_workload_lease (new_lease ttl t i ow tk now)"
  shows "\<exists>e. acquire transact ttl t i ow tk now s = (Inl e, s)"
  using abort [of "acquire_update ttl t i ow tk now" s "lease_key t" _
      "initial_closure\<lparr>lc_acquired := True\<rparr>"] assms
  by (auto simp: acquire_def acquire_update_def seq_def validate_lease_def)

definition holds :: "workload_lease \<Rightarrow> datetime \<Rightarrow> 's \<Rightarrow> bool" where
  "holds l now s \<longleftrightarrow> documents s (wl_lease_key l) = Some l \<and> wl_expires_at l > now"

lemma renew_owner:
  assumes "documents s (wl_lease_key l) = Some x" "wl_token x = wl_token l"
    and "wl_owner x = wl_owner l" "wl_expires_at x > now"
  shows "\<exists>s'. renew transact ttl l now s = (Inr (x\<lparr>wl_expires_at := now + ttl\<rparr>), s')
    \<and> documents s' = (documents s)(wl_lease_key l \<mapsto> x\<lparr>wl_expires_at := now + ttl\<rparr>)"
  using commit [of "renew_update ttl l now" s "wl_lease_key l"
      "Some (x\<lparr>wl_expires_at := now + ttl\<rparr>)"
      "initial_closure\<lparr>lc_renewed := Some (x\<lparr>wl_expires_at := now + ttl\<rparr>)\<rparr>"] assms
  by (auto simp: renew_def renew_update_def seq_def ret_def Let_def)

lemma renew_error:
  assumes "documents s (wl_lease_key l) = None
      \<or> (\<exists>x. documents s (wl_lease_key l) = Some x \<and> (wl_token x \<noteq> wl_token l
          \<or> wl_owner x \<noteq> wl_owner l \<or> wl_expires_at x \<le> now))"
  shows "\<exists>m. renew transact ttl l now s = (Inl (ValueError m), s)"
proof -
  have "\<exists>m. renew_update ttl l now (documents s (wl_lease_key l)) initial_closure
      = (Inl (ValueError m), initial_closure)"
    using assms by (auto simp: renew_update_def)
  then show ?thesis using abort by (fastforce simp: renew_def seq_def)
qed

lemma release_absent:
  assumes "documents s (wl_lease_key l) = None"
  shows "\<exists>s'. release transact l s = (Inr (), s') \<and> documents s' = documents s"
  using commit [of "release_update l" s "wl_lease_key l" None initial_closure] assms
  by (auto simp: release_def release_update_def seq_def ret_def fun_upd_idem)

lemma release_owner:
  assumes "documents s (wl_lease_key l) = Some x" "wl_token x = wl_token l" "wl_owner x = wl_owner l"
  shows "\<exists>s'. release transact l s = (Inr (), s')
    \<and> documents s' = (documents s)(wl_lease_key l := None)"
  using commit [of "release_update l" s "wl_lease_key l" None initial_closure] assms
  by (auto simp: release_def release_update_def seq_def ret_def)

lemma release_other:
  assumes "documents s (wl_lease_key l) = Some x" "wl_token x \<noteq> wl_token l \<or> wl_owner x \<noteq> wl_owner l"
  shows "release transact l s
    = (Inl (ValueError ''cannot release a workload lease owned by another Executor''), s)"
  using abort [of "release_update l" s "wl_lease_key l" _ initial_closure] assms
  by (simp add: release_def release_update_def seq_def)

text \<open>
  What a call of another process does to a held lease: nothing. Another process presents
  another token.
\<close>

lemma others_keep:
  assumes "documents s (wl_lease_key l) = Some l" "wl_expires_at l > now"
  shows "documents (snd (acquire transact ttl t i ow tk now s)) (wl_lease_key l) = Some l"
    and "wl_token m \<noteq> wl_token l \<Longrightarrow>
      documents (snd (renew transact ttl m now' s)) (wl_lease_key l) = Some l"
    and "wl_token m \<noteq> wl_token l \<Longrightarrow>
      documents (snd (release transact m s)) (wl_lease_key l) = Some l"
proof -
  show "documents (snd (acquire transact ttl t i ow tk now s)) (wl_lease_key l) = Some l"
  proof (cases "live_at now (documents s (lease_key t))")
    case True
    then show ?thesis using acquire_held assms(1) by (metis snd_conv)
  next
    case False
    then have "lease_key t \<noteq> wl_lease_key l" using assms by (auto simp: live_at_def)
    then show ?thesis
      using acquire_free [OF False] acquire_invalid [OF False] assms(1)
      by (metis fun_upd_other snd_conv)
  qed
  assume other: "wl_token m \<noteq> wl_token l"
  show "documents (snd (renew transact ttl m now' s)) (wl_lease_key l) = Some l"
  proof (cases "\<exists>x. documents s (wl_lease_key m) = Some x \<and> wl_token x = wl_token m
      \<and> wl_owner x = wl_owner m \<and> wl_expires_at x > now'")
    case True
    then obtain x where x: "documents s (wl_lease_key m) = Some x" "wl_token x = wl_token m"
      "wl_owner x = wl_owner m" "wl_expires_at x > now'" by blast
    then have "wl_lease_key m \<noteq> wl_lease_key l" using other assms(1) by auto
    then show ?thesis using renew_owner [OF x, of ttl] assms(1) by (metis fun_upd_other snd_conv)
  next
    case False
    then have "\<exists>e. renew transact ttl m now' s = (Inl (ValueError e), s)"
      by (intro renew_error) (metis not_le_imp_less option.exhaust)
    then show ?thesis using assms(1) by auto
  qed
  show "documents (snd (release transact m s)) (wl_lease_key l) = Some l"
  proof (cases "documents s (wl_lease_key m)")
    case None
    then show ?thesis using release_absent assms(1) by (metis snd_conv)
  next
    case (Some x)
    show ?thesis
    proof (cases "wl_token x = wl_token m \<and> wl_owner x = wl_owner m")
      case True
      then have "wl_lease_key m \<noteq> wl_lease_key l" using Some other assms(1) by auto
      then show ?thesis using release_owner [OF Some] True assms(1) by (metis fun_upd_other snd_conv)
    next
      case False
      then show ?thesis using release_other [OF Some] assms(1) by auto
    qed
  qed
qed

end

interpretation memory_leases: lease_database memory_transaction map_of
proof unfold_locales
  fix update :: lease_callback and s :: lease_documents and k d c
  assume "update (map_of s k) initial_closure = (Inr d, c)"
  then show "\<exists>s'. memory_transaction k update s = (Inr (d, c), s') \<and> map_of s' = (map_of s)(k := d)"
    by (cases d) (auto simp: memory_transaction_def update_conv delete_conv' restrict_map_def)
next
  fix update :: lease_callback and s :: lease_documents and k e c
  assume "update (map_of s k) initial_closure = (Inl e, c)"
  then show "memory_transaction k update s = (Inl e, s)" by (simp add: memory_transaction_def)
qed

section \<open>Runs of the lease store\<close>

text \<open>Calls that any process makes, each at the time its own clock shows.\<close>

datatype lease_call =
    Acquire timedelta workload_reference string string string datetime
  | Renew timedelta workload_lease datetime
  | Release workload_lease

fun run_lease_call :: "'s lease_transaction \<Rightarrow> lease_call \<Rightarrow> 's \<Rightarrow> 's" where
  "run_lease_call f (Acquire ttl t i ow tk now) s = snd (acquire f ttl t i ow tk now s)"
| "run_lease_call f (Renew ttl l now) s = snd (renew f ttl l now s)"
| "run_lease_call f (Release l) s = snd (release f l s)"

fun run_lease_calls :: "'s lease_transaction \<Rightarrow> lease_call list \<Rightarrow> 's \<Rightarrow> 's" where
  "run_lease_calls f [] s = s"
| "run_lease_calls f (c # cs) s = run_lease_calls f cs (run_lease_call f c s)"

text \<open>A call of another process while the lease \<open>l\<close> is valid.\<close>

fun foreign_call :: "workload_lease \<Rightarrow> lease_call \<Rightarrow> bool" where
  "foreign_call l (Acquire ttl t i ow tk now) \<longleftrightarrow> now < wl_expires_at l"
| "foreign_call l (Renew ttl m now) \<longleftrightarrow> wl_token m \<noteq> wl_token l"
| "foreign_call l (Release m) \<longleftrightarrow> wl_token m \<noteq> wl_token l"

context lease_database
begin

lemma foreign_calls_keep:
  assumes "documents s (wl_lease_key l) = Some l" "list_all (foreign_call l) cs"
  shows "documents (run_lease_calls transact cs s) (wl_lease_key l) = Some l"
  using assms
proof (induction cs arbitrary: s)
  case (Cons c cs)
  have "documents (run_lease_call transact c s) (wl_lease_key l) = Some l"
  proof (cases c)
    case (Acquire ttl t i ow tk now)
    with Cons.prems others_keep(1) show ?thesis by simp
  next
    case (Renew ttl m now)
    with Cons.prems others_keep(2) [of s l "wl_expires_at l - 1" m ttl now] show ?thesis by simp
  next
    case (Release m)
    with Cons.prems others_keep(3) [of s l "wl_expires_at l - 1" m] show ?thesis by simp
  qed
  with Cons show ?case by simp
qed simp

lemma exclusive:
  assumes got: "acquire transact ttl t i ow tk now s = (Inr (Some l), s1)"
    and foreign: "list_all (foreign_call l) cs"
    and later: "now' < wl_expires_at l"
  shows "wl_target l = t \<and> wl_owner l = ow \<and> wl_token l = tk \<and> wl_expires_at l = now + ttl
    \<and> fst (acquire transact ttl' t i' ow' tk' now' (run_lease_calls transact cs s1)) = Inr None
    \<and> documents (run_lease_calls transact cs s1) (lease_key t) = Some l"
proof -
  have free: "\<not> live_at now (documents s (lease_key t))"
    using got acquire_held [of now s t ttl i ow tk] by auto
  have wf: "wf_workload_lease (new_lease ttl t i ow tk now)"
    using got acquire_invalid [OF free, of ttl i ow tk] by auto
  from acquire_free [OF free wf] got have l: "l = new_lease ttl t i ow tk now"
    and doc: "documents s1 (lease_key t) = Some l" by auto
  have key: "wl_lease_key l = lease_key t" by (simp add: l new_lease_def)
  then have held: "documents (run_lease_calls transact cs s1) (lease_key t) = Some l"
    using foreign_calls_keep [of s1 l cs] doc foreign by simp
  then have "live_at now' (documents (run_lease_calls transact cs s1) (lease_key t))"
    using later by (simp add: live_at_def)
  from acquire_held [OF this, of ttl' i' ow' tk'] held show ?thesis
    by (auto simp: l new_lease_def)
qed

end

section \<open>A database that retries\<close>

text \<open>
  The live adapter runs the callback inside \<open>firestore.transactional\<close>, which runs it again, on
  the document as it then is, when the commit loses a race. The \<open>nonlocal\<close> variables keep what
  the aborted attempts assigned. The documents the aborted attempts saw are a parameter.
\<close>

fun aborted_attempts ::
  "lease_callback \<Rightarrow> workload_lease option list \<Rightarrow> lease_closure \<Rightarrow> lease_closure" where
  "aborted_attempts update [] c = c"
| "aborted_attempts update (x # xs) c = aborted_attempts update xs (snd (update x c))"

definition retrying_transaction ::
  "workload_lease option list \<Rightarrow> lease_documents lease_transaction" where
  "retrying_transaction seen k update d =
    (case update (dict_get d k) (aborted_attempts update seen initial_closure) of
       (Inl e, c) \<Rightarrow> (Inl e, d)
     | (Inr None, c) \<Rightarrow> (Inr (None, c), AList.delete k d)
     | (Inr (Some l), c) \<Rightarrow> (Inr (Some l, c), dict_set k l d))"

lemma retrying_once: "retrying_transaction [] = memory_transaction"
  by (intro ext) (simp add: retrying_transaction_def memory_transaction_def)

lemma retried_acquire:
  assumes "dict_get d (lease_key t) = Some l" and "wl_expires_at l > now"
  shows "\<exists>d'. acquire (retrying_transaction [None]) ttl t i ow tk now d = (Inr (Some l), d')
    \<and> dict_get d' (lease_key t) = Some l"
  using assms
  by (auto simp: acquire_def retrying_transaction_def acquire_update_def live_at_def seq_def ret_def
      dict_get_set)

section \<open>Properties\<close>


definition sample_lease :: workload_lease where
  "sample_lease = new_lease (seconds 30) (deployment_reference ''shop'' ''web'') ''i1'' ''e1''
     ''token-01'' (seconds 5)"


text \<open>The lease callback is not safe to run twice: when the database retries \<open>acquire\<close> after
  an attempt that saw no lease, and another process has acquired the workload in between, then
  \<open>acquire\<close> returns the lease of the other process as if it were its own.\<close>

lemma retried_acquire_returns_foreign_lease:
  "\<exists>d l d'. dict_get d (lease_key t) = Some l \<and> wl_owner l = other \<and> wl_token l = tk'
     \<and> wl_expires_at l > now
     \<and> acquire (retrying_transaction [None]) ttl t i ow tk now d = (Inr (Some l), d')"
proof -
  let ?l = "\<lparr>wl_lease_key = lease_key t, wl_target = t, wl_intervention_id = i, wl_owner = other,
    wl_token = tk', wl_acquired_at = now, wl_expires_at = now + 1\<rparr>"
  have get: "dict_get [(lease_key t, ?l)] (lease_key t) = Some ?l" by simp
  have "wl_expires_at ?l > now" by simp
  from retried_acquire [OF get this, of ttl i ow tk] get show ?thesis
    by (metis (no_types, lifting) workload_lease.select_convs(4,5) \<open>wl_expires_at ?l > now\<close>)
qed

end
