(* ===== verification/World.thy ===== *)
theory World
  imports Store_Contract Enrollment Lease
begin

text \<open>
  The state the services share and what they call. A service method is an action on a \<open>world\<close>:
  the incident store, the lease documents, the published Intervention requests, the state \<open>'k\<close>
  of the cluster (with whatever the Kubernetes provider keeps), and how many clock readings and
  UUIDs were taken. The \<open>environment\<close> holds what is not this program's code: the successive
  clock readings and UUIDs, SHA-256, and the methods of the Kubernetes and Enrollment providers
  (\<open>ExecutorKubernetesProvider\<close>, \<open>EnrollmentProvider\<close>), each an action on the cluster state.
\<close>

record 'k world =
  w_store :: store
  w_leases :: lease_documents
  w_queue :: "(string \<times> intervention_request) list"
  w_kube :: 'k
  w_readings :: nat
  w_uuids :: nat

record 'k environment =
  en_clock :: "nat \<Rightarrow> datetime"
  en_uuid :: "nat \<Rightarrow> string"
  en_digest :: digest
  en_inspect :: "workload_reference \<Rightarrow> ('k, deployment_policy_state option) act"
  en_dry_run :: "deployment_patch \<Rightarrow> ('k, dry_run_result) act"
  en_apply :: "deployment_patch \<Rightarrow> ('k, deployment_policy_state) act"
  en_verify :: "deployment_patch \<Rightarrow> deployment_policy_state
                  \<Rightarrow> ('k, deployment_convergence_result) act"
  en_enrollment :: "application_profile \<Rightarrow> ('k, enrollment_snapshot) act"

definition now_act :: "'k environment \<Rightarrow> ('k world, datetime) act" where
  "now_act en w = (Inr (en_clock en (w_readings w)), w\<lparr>w_readings := Suc (w_readings w)\<rparr>)"

definition uuid4 :: "'k environment \<Rightarrow> ('k world, string) act" where
  "uuid4 en w = (Inr (en_uuid en (w_uuids w)), w\<lparr>w_uuids := Suc (w_uuids w)\<rparr>)"

definition on_store :: "(store, 'a) act \<Rightarrow> ('k world, 'a) act" where
  "on_store = on_part w_store w_store_update"

definition on_leases :: "(lease_documents, 'a) act \<Rightarrow> ('k world, 'a) act" where
  "on_leases = on_part w_leases w_leases_update"

definition on_kube :: "('k, 'a) act \<Rightarrow> ('k world, 'a) act" where
  "on_kube = on_part w_kube w_kube_update"

definition on_queue ::
  "((string \<times> intervention_request) list, 'a) act \<Rightarrow> ('k world, 'a) act" where
  "on_queue = on_part w_queue w_queue_update"

lemma wp_now [wp_simps]:
  "wp (now_act en) Q E w \<longleftrightarrow> Q (en_clock en (w_readings w)) (w\<lparr>w_readings := Suc (w_readings w)\<rparr>)"
  by (simp add: wp_def now_act_def)

lemma wp_uuid4 [wp_simps]:
  "wp (uuid4 en) Q E w \<longleftrightarrow> Q (en_uuid en (w_uuids w)) (w\<lparr>w_uuids := Suc (w_uuids w)\<rparr>)"
  by (simp add: wp_def uuid4_def)

lemma wp_on_store [wp_simps]:
  "wp (on_store m) Q E w \<longleftrightarrow>
     wp m (\<lambda>a s. Q a (w\<lparr>w_store := s\<rparr>)) (\<lambda>e s. E e (w\<lparr>w_store := s\<rparr>)) (w_store w)"
  by (simp add: wp_def on_store_def on_part_def split: prod.splits sum.splits)

lemma wp_on_leases [wp_simps]:
  "wp (on_leases m) Q E w \<longleftrightarrow>
     wp m (\<lambda>a s. Q a (w\<lparr>w_leases := s\<rparr>)) (\<lambda>e s. E e (w\<lparr>w_leases := s\<rparr>)) (w_leases w)"
  by (simp add: wp_def on_leases_def on_part_def split: prod.splits sum.splits)

lemma wp_on_kube [wp_simps]:
  "wp (on_kube m) Q E w \<longleftrightarrow>
     wp m (\<lambda>a s. Q a (w\<lparr>w_kube := s\<rparr>)) (\<lambda>e s. E e (w\<lparr>w_kube := s\<rparr>)) (w_kube w)"
  by (simp add: wp_def on_kube_def on_part_def split: prod.splits sum.splits)

lemma wp_on_queue [wp_simps]:
  "wp (on_queue m) Q E w \<longleftrightarrow>
     wp m (\<lambda>a s. Q a (w\<lparr>w_queue := s\<rparr>)) (\<lambda>e s. E e (w\<lparr>w_queue := s\<rparr>)) (w_queue w)"
  by (simp add: wp_def on_queue_def on_part_def split: prod.splits sum.splits)

text \<open>Invariants of one part of the world.\<close>

lemma keeps_now [keeps_intros]: "(\<And>w n. I (w\<lparr>w_readings := n\<rparr>) = I w) \<Longrightarrow> keeps I (now_act en)"
  by (simp add: keeps_def now_act_def)

lemma keeps_uuid4 [keeps_intros]: "(\<And>w n. I (w\<lparr>w_uuids := n\<rparr>) = I w) \<Longrightarrow> keeps I (uuid4 en)"
  by (simp add: keeps_def uuid4_def)

lemma keeps_on_store:
  "(\<And>w. I w \<Longrightarrow> I (w\<lparr>w_store := snd (m (w_store w))\<rparr>)) \<Longrightarrow> keeps I (on_store m)"
  by (auto simp: keeps_def on_store_def on_part_def split: prod.splits) (metis snd_conv)

lemma keeps_on_leases:
  "(\<And>w. I w \<Longrightarrow> I (w\<lparr>w_leases := snd (m (w_leases w))\<rparr>)) \<Longrightarrow> keeps I (on_leases m)"
  by (auto simp: keeps_def on_leases_def on_part_def split: prod.splits) (metis snd_conv)

lemma keeps_on_kube:
  "(\<And>w. I w \<Longrightarrow> I (w\<lparr>w_kube := snd (m (w_kube w))\<rparr>)) \<Longrightarrow> keeps I (on_kube m)"
  by (auto simp: keeps_def on_kube_def on_part_def split: prod.splits) (metis snd_conv)

text \<open>Python's \<open>x or default\<close> for an optional string: \<open>None\<close> and the empty string are false.\<close>

definition str_or :: "string option \<Rightarrow> string \<Rightarrow> string" where
  "str_or x d = (case x of None \<Rightarrow> d | Some s \<Rightarrow> if s = [] then d else s)"

text \<open>\<open>store.get\<close> on the world, and an audit event with a fresh identity.\<close>

definition get_record :: "string \<Rightarrow> ('k world, investigation_record option) act" where
  "get_record i = gets (\<lambda>w. store_get (w_store w) i)"

definition new_event ::
  "'k environment \<Rightarrow> string \<Rightarrow> string \<Rightarrow> datetime \<Rightarrow> string \<Rightarrow> (string \<times> string) list
     \<Rightarrow> ('k world, audit_event) act" where
  "new_event en incident_id event_type t actor details =
     seq (uuid4 en) (\<lambda>u. ret \<lparr>ae_event_id = ''audit-'' @ u, ae_incident_id = incident_id,
       ae_event_type = event_type, ae_occurred_at = t, ae_actor = actor, ae_details = details,
       ae_cursor = 0\<rparr>)"

lemma wp_get_record [wp_simps]: "wp (get_record i) Q E w = Q (store_get (w_store w) i) w"
  by (simp add: get_record_def wp_simps)

lemma wp_new_event [wp_simps]:
  "wp (new_event en i k t a d) Q E w \<longleftrightarrow>
     Q \<lparr>ae_event_id = ''audit-'' @ en_uuid en (w_uuids w), ae_incident_id = i,
        ae_event_type = k, ae_occurred_at = t, ae_actor = a, ae_details = d, ae_cursor = 0\<rparr>
       (w\<lparr>w_uuids := Suc (w_uuids w)\<rparr>)"
  by (simp add: new_event_def wp_simps)

lemma keeps_get_record [keeps_intros]: "keeps I (get_record i)"
  by (simp add: get_record_def keeps_intros)

lemma keeps_new_event [keeps_intros]:
  "(\<And>w n. I (w\<lparr>w_uuids := n\<rparr>) = I w) \<Longrightarrow> keeps I (new_event en i k t a d)"
  by (simp add: new_event_def keeps_intros)

text \<open>When a combined action returns.\<close>

lemma on_kube_Inr: "on_kube m w = (Inr x, w') \<longleftrightarrow> (\<exists>k. m (w_kube w) = (Inr x, k) \<and> w' = w\<lparr>w_kube := k\<rparr>)"
  by (auto simp: on_kube_def on_part_def split: prod.splits)

lemma on_store_Inr:
  "on_store m w = (Inr x, w') \<longleftrightarrow> (\<exists>s. m (w_store w) = (Inr x, s) \<and> w' = w\<lparr>w_store := s\<rparr>)"
  by (auto simp: on_store_def on_part_def split: prod.splits)

lemma on_queue_Inr:
  "on_queue m w = (Inr x, w') \<longleftrightarrow> (\<exists>s. m (w_queue w) = (Inr x, s) \<and> w' = w\<lparr>w_queue := s\<rparr>)"
  by (auto simp: on_queue_def on_part_def split: prod.splits)

lemma now_act_Inr:
  "now_act en w = (Inr t, w') \<longleftrightarrow>
     t = en_clock en (w_readings w) \<and> w' = w\<lparr>w_readings := Suc (w_readings w)\<rparr>"
  by (auto simp: now_act_def)

lemma uuid4_Inr:
  "uuid4 en w = (Inr u, w') \<longleftrightarrow> u = en_uuid en (w_uuids w) \<and> w' = w\<lparr>w_uuids := Suc (w_uuids w)\<rparr>"
  by (auto simp: uuid4_def)

lemma get_record_Inr: "get_record i w = (Inr x, w') \<longleftrightarrow> x = store_get (w_store w) i \<and> w' = w"
  by (auto simp: get_record_def gets_def)

lemma new_event_Inr:
  "new_event en i k t a d w = (Inr e, w') \<longleftrightarrow>
     e = \<lparr>ae_event_id = ''audit-'' @ en_uuid en (w_uuids w), ae_incident_id = i,
        ae_event_type = k, ae_occurred_at = t, ae_actor = a, ae_details = d, ae_cursor = 0\<rparr>
     \<and> w' = w\<lparr>w_uuids := Suc (w_uuids w)\<rparr>"
  by (auto simp: new_event_def seq_Inr uuid4_Inr ret_def)

end
