(* ===== verification/Intervention_Queue.thy ===== *)
theory Intervention_Queue
  imports World
begin

text \<open>
  The message that crosses the privilege boundary (\<open>services/intervention_queue.py\<close>): building the
  request an Approval authorizes, hashing it, and the idempotent in-memory queue. The Pub/Sub
  adapter only serializes a request and is not modelled.
\<close>

section \<open>Building a request\<close>

definition idempotency_material ::
  "string \<Rightarrow> string \<Rightarrow> string \<Rightarrow> workload_reference \<Rightarrow> json" where
  "idempotency_material incident_id proposal_id approval_id target = JObj
     [(''incident_id'', JStr incident_id), (''proposal_id'', JStr proposal_id),
      (''approval_id'', JStr approval_id), (''target'', dump_reference target)]"

text \<open>\<open>request.model_dump(mode="json", exclude={"payload_hash"})\<close>.\<close>

definition dump_request :: "digest \<Rightarrow> intervention_request \<Rightarrow> json" where
  "dump_request g q = JObj
     [(''request_id'', JStr (iq_request_id q)), (''incident_id'', JStr (iq_incident_id q)),
      (''proposal_id'', JStr (iq_proposal_id q)), (''approval_id'', JStr (iq_approval_id q)),
      (''target'', dump_reference (iq_target q)), (''patch'', dump_patch (iq_patch q)),
      (''requested_at'', JStr (dg_isoformat g (iq_requested_at q))),
      (''idempotency_key'', JStr (iq_idempotency_key q))]"

definition intervention_request_hash :: "digest \<Rightarrow> intervention_request \<Rightarrow> string" where
  "intervention_request_hash g q = canonical_hash g (dump_request g q)"

definition draft_request ::
  "digest \<Rightarrow> investigation_record \<Rightarrow> remediation_proposal \<Rightarrow> approval \<Rightarrow> deployment_patch
     \<Rightarrow> datetime \<Rightarrow> intervention_request" where
  "draft_request g record proposal approval patch requested_at =
    (let target = action_target (rp_action proposal);
         key = canonical_hash g (idempotency_material (inc_incident_id (ir_incident record))
                 (rp_proposal_id proposal) (apr_approval_id approval) target)
     in \<lparr>iq_request_id = ''request-'' @ take 24 key,
         iq_incident_id = inc_incident_id (ir_incident record),
         iq_proposal_id = rp_proposal_id proposal, iq_approval_id = apr_approval_id approval,
         iq_target = target, iq_patch = patch, iq_requested_at = requested_at,
         iq_idempotency_key = key, iq_payload_hash = ''00000000''\<rparr>)"

definition publish_error :: "string \<Rightarrow> pyexn + 'a" where
  "publish_error m = Inl (InterventionPublishError m)"

definition build_intervention_request ::
  "digest \<Rightarrow> investigation_record \<Rightarrow> approval \<Rightarrow> datetime \<Rightarrow> pyexn + intervention_request" where
  "build_intervention_request g record approval requested_at =
    (if apr_decision approval \<noteq> APPROVED
     then publish_error ''only an approved proposal may publish an Intervention''
     else (case (ir_proposal record, ir_policy_decision record) of
       (Some proposal, Some policy) \<Rightarrow>
         if pd_status policy \<noteq> POLICY_PASSED
         then publish_error ''Intervention publishing requires passed policy''
         else (case pd_patch policy of
           None \<Rightarrow> publish_error ''Intervention publishing requires the reviewed patch''
         | Some patch \<Rightarrow>
             if apr_proposal_id approval \<noteq> rp_proposal_id proposal
             then publish_error ''Approval does not authorize the recorded proposal''
             else if apr_expires_at approval \<le> requested_at
                  \<or> \<not> approval_matches_record g record approval
             then publish_error ''Approval is stale and cannot publish an Intervention''
             else (let draft = draft_request g record proposal approval patch requested_at
               in if wf_intervention_request draft
                  then Inr (draft\<lparr>iq_payload_hash := intervention_request_hash g draft\<rparr>)
                  else Inl (ValidationError ''InterventionRequest''
                    (case intervention_request_problem draft of
                       None \<Rightarrow> ''invalid field'' | Some m \<Rightarrow> m))))
     | _ \<Rightarrow> publish_error ''Intervention publishing requires passed policy''))"

section \<open>The queue\<close>

type_synonym request_queue = "(string \<times> intervention_request) list"

definition publish :: "intervention_request \<Rightarrow> (request_queue, unit) act" where
  "publish q d = (case dict_get d (iq_idempotency_key q) of
     Some existing \<Rightarrow>
       if existing \<noteq> q
       then (Inl (InterventionPublishError ''idempotency key was reused for another payload''), d)
       else (Inr (), dict_set (iq_idempotency_key q) q d)
   | None \<Rightarrow> (Inr (), dict_set (iq_idempotency_key q) q d))"

definition pending :: "request_queue \<Rightarrow> intervention_request list" where
  "pending d = map snd d"

section \<open>Lemmas\<close>

lemma dump_request_payload [simp]: "dump_request g (q\<lparr>iq_payload_hash := h\<rparr>) = dump_request g q"
  by (simp add: dump_request_def)

lemma request_hash_payload [simp]:
  "intervention_request_hash g (q\<lparr>iq_payload_hash := h\<rparr>) = intervention_request_hash g q"
  by (simp add: intervention_request_hash_def)

lemma build_intervention_requestE:
  assumes "build_intervention_request g r a t = Inr q"
  obtains p d pt where "ir_proposal r = Some p" "ir_policy_decision r = Some d"
    "pd_status d = POLICY_PASSED" "pd_patch d = Some pt" "apr_decision a = APPROVED"
    "apr_proposal_id a = rp_proposal_id p" "t < apr_expires_at a" "approval_matches_record g r a"
    "q = (draft_request g r p a pt t)\<lparr>iq_payload_hash :=
           intervention_request_hash g (draft_request g r p a pt t)\<rparr>"
    "wf_intervention_request (draft_request g r p a pt t)"
  using assms
  by (auto simp: build_intervention_request_def publish_error_def Let_def
      split: option.splits if_splits)

text \<open>What a request that was built carries.\<close>

lemma build_intervention_request_bound:
  assumes "build_intervention_request g r a t = Inr q"
  shows "\<exists>p d. ir_proposal r = Some p \<and> ir_policy_decision r = Some d
    \<and> pd_status d = POLICY_PASSED \<and> pd_patch d = Some (iq_patch q)
    \<and> dp_target (iq_patch q) = iq_target q \<and> iq_target q = action_target (rp_action p)
    \<and> iq_incident_id q = inc_incident_id (ir_incident r) \<and> iq_proposal_id q = rp_proposal_id p
    \<and> iq_approval_id q = apr_approval_id a \<and> iq_requested_at q = t
    \<and> iq_payload_hash q = intervention_request_hash g q
    \<and> apr_decision a = APPROVED \<and> t < apr_expires_at a \<and> approval_matches_record g r a"
proof (rule build_intervention_requestE [OF assms])
  fix p d pt
  let ?d = "draft_request g r p a pt t"
  assume h: "ir_proposal r = Some p" "ir_policy_decision r = Some d" "pd_status d = POLICY_PASSED"
    "pd_patch d = Some pt" "apr_decision a = APPROVED" "apr_proposal_id a = rp_proposal_id p"
    "t < apr_expires_at a" "approval_matches_record g r a"
    and q: "q = ?d\<lparr>iq_payload_hash := intervention_request_hash g ?d\<rparr>"
    and wf: "wf_intervention_request ?d"
  have d: "iq_patch ?d = pt" "iq_target ?d = action_target (rp_action p)"
    "iq_incident_id ?d = inc_incident_id (ir_incident r)" "iq_proposal_id ?d = rp_proposal_id p"
    "iq_approval_id ?d = apr_approval_id a" "iq_requested_at ?d = t"
    by (simp_all add: draft_request_def Let_def)
  moreover have "dp_target (iq_patch ?d) = iq_target ?d"
    using wf by (simp add: wf_intervention_request_def intervention_request_problem_def)
  ultimately show ?thesis using h unfolding q by simp
qed

lemma dump_request_inj:
  assumes "inj (dg_isoformat g)"
  shows "sort_keys (dump_request g a) = sort_keys (dump_request g b) \<longleftrightarrow>
    iq_request_id a = iq_request_id b \<and> iq_incident_id a = iq_incident_id b
    \<and> iq_proposal_id a = iq_proposal_id b \<and> iq_approval_id a = iq_approval_id b
    \<and> iq_target a = iq_target b \<and> normal_patch (iq_patch a) = normal_patch (iq_patch b)
    \<and> iq_requested_at a = iq_requested_at b \<and> iq_idempotency_key a = iq_idempotency_key b"
  by (simp add: dump_request_def sort_keys_same_keys dump_reference_inj dump_patch_inj
      inj_eq [OF assms] del: sort_keys.simps(1))

lemma publish_error_frame: "publish q d = (Inl e, d') \<Longrightarrow> d' = d"
  by (auto simp: publish_def split: option.splits if_splits)

lemma dict_set_same: "dict_get d k = Some v \<Longrightarrow> dict_set k v d = d"
  by (induction d) (auto split: if_splits)

end
