(* ===== verification/Approval_Service.thy ===== *)
theory Approval_Service
  imports Intervention_Queue
begin

text \<open>
  The human Approval workflow (\<open>ApprovalService\<close> of \<open>services/approval.py\<close>): a Responder reviews
  a binding of everything the decision depends on, and decides it only while nothing of it has
  changed. The optional publisher is an action on the queue.
\<close>

datatype operator_role = VIEWER | RESPONDER

record operator_identity =
  oi_principal :: string
  oi_subject :: string
  oi_role :: operator_role

definition wf_operator_identity :: "operator_identity \<Rightarrow> bool" where
  "wf_operator_identity i \<longleftrightarrow> oi_principal i \<noteq> [] \<and> oi_subject i \<noteq> []"

definition require_responder :: "operator_identity \<Rightarrow> ('w, unit) act" where
  "require_responder identity =
     raise_when (oi_role identity \<noteq> RESPONDER) (ApprovalError ''Responder role is required'')"

text \<open>\<open>except ValueError as error: raise ApprovalError(str(error))\<close>.\<close>

definition as_approval_error :: "pyexn \<Rightarrow> pyexn" where
  "as_approval_error e = (if is_value_error e then ApprovalError (exn_str e) else e)"

definition undecided_proposal ::
  "string \<Rightarrow> string \<Rightarrow> ('k world, investigation_record \<times> remediation_proposal) act" where
  "undecided_proposal incident_id missing =
    seq (get_record incident_id) (\<lambda>found. case found of
      None \<Rightarrow> raise (ApprovalError ''incident does not exist'')
    | Some record \<Rightarrow>
        if ir_approvals record \<noteq> [] then raise (ApprovalError ''proposal is already decided'')
        else (case ir_proposal record of
          None \<Rightarrow> raise (ApprovalError missing)
        | Some proposal \<Rightarrow> ret (record, proposal)))"

definition live_state ::
  "'k environment \<Rightarrow> remediation_proposal \<Rightarrow> ('k world, deployment_policy_state) act" where
  "live_state en proposal =
    seq (on_kube (en_inspect en (action_target (rp_action proposal)))) (\<lambda>found. case found of
      None \<Rightarrow> raise (ApprovalError ''current Deployment state is unavailable'')
    | Some state \<Rightarrow> ret state)"

definition binding_now ::
  "'k environment \<Rightarrow> investigation_record \<Rightarrow> deployment_policy_state \<Rightarrow> datetime
     \<Rightarrow> ('k world, approval_binding) act" where
  "binding_now en record state expires_at =
     lift_result (map_sum as_approval_error id
       (build_approval_binding (en_digest en) record state expires_at))"

definition review ::
  "'k environment \<Rightarrow> timedelta \<Rightarrow> string \<Rightarrow> operator_identity
     \<Rightarrow> ('k world, approval_review) act" where
  "review en ttl incident_id identity =
    seq (require_responder identity) (\<lambda>_.
    seq (undecided_proposal incident_id ''incident has no Remediation Proposal to review'')
      (\<lambda>(record, proposal).
    seq (live_state en proposal) (\<lambda>state.
    seq (now_act en) (\<lambda>now.
    seq (binding_now en record state (now + ttl)) (\<lambda>binding.
      ret \<lparr>ar_incident_id = incident_id, ar_proposal_id = rp_proposal_id proposal,
           ar_responder_principal = oi_principal identity, ar_binding = binding\<rparr>)))))"

definition approval_of ::
  "string \<Rightarrow> string \<Rightarrow> remediation_proposal \<Rightarrow> operator_identity \<Rightarrow> approval_decision
     \<Rightarrow> datetime \<Rightarrow> datetime \<Rightarrow> approval_binding \<Rightarrow> approval" where
  "approval_of approval_id incident_id proposal identity choice now expires_at current =
    \<lparr>apr_approval_id = approval_id, apr_incident_id = incident_id,
     apr_proposal_id = rp_proposal_id proposal,
     apr_responder_principal = oi_principal identity, apr_decision = choice,
     apr_decided_at = now, apr_expires_at = expires_at,
     apr_proposal_hash = ab_proposal_hash current, apr_evidence_hash = ab_evidence_hash current,
     apr_workload_resource_version = ab_workload_resource_version current,
     apr_workload_generation = ab_workload_generation current,
     apr_workload_revision = ab_workload_revision current,
     apr_policy_hash = ab_policy_hash current, apr_dry_run_hash = ab_dry_run_hash current,
     apr_recovery_criteria_hash = ab_recovery_criteria_hash current,
     apr_failure_strategy_hash = ab_failure_strategy_hash current\<rparr>"

definition validate_approval :: "approval \<Rightarrow> pyexn + approval" where
  "validate_approval a =
    (if wf_approval a then Inr a
     else Inl (ValidationError ''Approval''
       (case approval_problem a of None \<Rightarrow> ''invalid field'' | Some m \<Rightarrow> m)))"

text \<open>Publishing the request of a recorded Approval and its audit event.\<close>

definition publish_request ::
  "'k environment \<Rightarrow> (intervention_request \<Rightarrow> (request_queue, unit) act) \<Rightarrow> string
     \<Rightarrow> investigation_record \<Rightarrow> approval \<Rightarrow> datetime \<Rightarrow> ('k world, investigation_record) act" where
  "publish_request en publisher incident_id recorded approval now =
    seq (lift_result (build_intervention_request (en_digest en) recorded approval now))
      (\<lambda>request.
    seq (on_queue (publisher request)) (\<lambda>_.
    seq (new_event en incident_id ''intervention_requested'' now ''investigator''
          [(''request_id'', iq_request_id request), (''approval_id'', iq_approval_id request),
           (''idempotency_key'', iq_idempotency_key request),
           (''payload_hash'', iq_payload_hash request)]) (\<lambda>event.
      on_store (append_audit_event incident_id event))))"

text \<open>The first half of \<open>decide\<close>: everything that is checked before the Approval is made.\<close>

definition fresh_context ::
  "'k environment \<Rightarrow> string \<Rightarrow> operator_identity \<Rightarrow> approval_binding
     \<Rightarrow> ('k world, datetime \<times> remediation_proposal) act" where
  "fresh_context en incident_id identity reviewed =
    seq (require_responder identity) (\<lambda>_.
    seq (now_act en) (\<lambda>now.
    seq (raise_when (ab_expires_at reviewed \<le> now)
          (ApprovalError ''approval review context expired'')) (\<lambda>_.
    seq (undecided_proposal incident_id ''incident has no Remediation Proposal to decide'')
      (\<lambda>(record, proposal).
    seq (live_state en proposal) (\<lambda>state.
    seq (binding_now en record state (ab_expires_at reviewed)) (\<lambda>current.
    seq (raise_when (current \<noteq> reviewed)
          (ApprovalError ''approval review context is stale'')) (\<lambda>_.
      ret (now, proposal))))))))"

text \<open>The second half: making and recording the Approval; \<open>current\<close> equals \<open>reviewed\<close> here.\<close>

definition record_decision ::
  "'k environment \<Rightarrow> string \<Rightarrow> operator_identity \<Rightarrow> approval_decision \<Rightarrow> approval_binding
     \<Rightarrow> datetime \<Rightarrow> remediation_proposal
     \<Rightarrow> ('k world, approval \<times> investigation_record) act" where
  "record_decision en incident_id identity choice reviewed now proposal =
    seq (uuid4 en) (\<lambda>u.
    seq (lift_result (validate_approval (approval_of (''approval-'' @ u) incident_id proposal
          identity choice now (ab_expires_at reviewed) reviewed))) (\<lambda>approval.
    seq (new_event en incident_id (''proposal_'' @ approval_decision_value choice) now
          (oi_principal identity)
          [(''approval_id'', apr_approval_id approval), (''proposal_id'', apr_proposal_id approval),
           (''decision'', approval_decision_value choice), (''subject'', oi_subject identity),
           (''proposal_hash'', apr_proposal_hash approval)]) (\<lambda>event.
    seq (now_act en) (\<lambda>store_now.
    seq (try_except (on_store (record_approval_decision (en_digest en) store_now incident_id
          (ab_incident_version reviewed) approval event))
          (\<lambda>e. raise (as_approval_error e))) (\<lambda>recorded.
      ret (approval, recorded))))))"

definition decide ::
  "'k environment \<Rightarrow> (intervention_request \<Rightarrow> (request_queue, unit) act) option \<Rightarrow> string
     \<Rightarrow> operator_identity \<Rightarrow> approval_decision \<Rightarrow> approval_binding
     \<Rightarrow> ('k world, investigation_record) act" where
  "decide en publisher incident_id identity choice reviewed =
    seq (fresh_context en incident_id identity reviewed) (\<lambda>(now, proposal).
    seq (record_decision en incident_id identity choice reviewed now proposal)
      (\<lambda>(approval, recorded).
    (case publisher of
       None \<Rightarrow> ret recorded
     | Some p \<Rightarrow>
         if choice = APPROVED then publish_request en p incident_id recorded approval now
         else ret recorded)))"

section \<open>What a decision establishes\<close>

lemma wp_undecided [wp_simps]:
  "wp (undecided_proposal i m) Q E w =
    (case store_get (w_store w) i of
       None \<Rightarrow> E (ApprovalError ''incident does not exist'') w
     | Some r \<Rightarrow> if ir_approvals r \<noteq> [] then E (ApprovalError ''proposal is already decided'') w
         else (case ir_proposal r of None \<Rightarrow> E (ApprovalError m) w | Some p \<Rightarrow> Q (r, p) w))"
  by (auto simp: undecided_proposal_def wp_simps split: option.splits)

lemma require_responder_Inr:
  "require_responder i w = (Inr x, w') \<longleftrightarrow> oi_role i = RESPONDER \<and> w' = w"
  by (auto simp: require_responder_def raise_when_def raise_def ret_def)

lemma raise_when_Inr: "raise_when b e w = (Inr x, w') \<longleftrightarrow> \<not> b \<and> w' = w"
  by (auto simp: raise_when_def raise_def ret_def)

lemma undecided_Inr:
  "undecided_proposal i m w = (Inr rp, w') \<longleftrightarrow>
     store_get (w_store w) i = Some (fst rp) \<and> ir_approvals (fst rp) = []
     \<and> ir_proposal (fst rp) = Some (snd rp) \<and> w' = w"
  by (cases rp) (auto simp: undecided_proposal_def seq_def get_record_def gets_def raise_def ret_def
      split: option.splits)

lemma live_state_Inr:
  "live_state en p w = (Inr s, w') \<longleftrightarrow>
     (\<exists>k. en_inspect en (action_target (rp_action p)) (w_kube w) = (Inr (Some s), k)
        \<and> w' = w\<lparr>w_kube := k\<rparr>)"
  by (auto simp: live_state_def seq_def on_kube_def on_part_def raise_def ret_def
      split: prod.splits sum.splits option.splits)

lemma binding_now_Inr:
  "binding_now en r s t w = (Inr b, w') \<longleftrightarrow>
     build_approval_binding (en_digest en) r s t = Inr b \<and> w' = w"
  by (cases "build_approval_binding (en_digest en) r s t") (auto simp: binding_now_def lift_result_def)

text \<open>An Approval made from a binding that was built on a record matches that record.\<close>

lemma approval_of_matches:
  assumes b: "build_approval_binding g r s t = Inr b" and p: "ir_proposal r = Some p"
  shows "approval_matches_record g r (approval_of aid i p who choice now t b)"
proof (rule build_approval_bindingE [OF b])
  fix q d diff
  assume "ir_proposal r = Some q" "ir_policy_decision r = Some d" "pd_status d = POLICY_PASSED"
    "pd_dry_run_diff d = Some diff"
    "pd_workload_resource_version d = Some (ds_resource_version s)"
    "pd_workload_generation d = Some (ds_generation s)"
    "pd_workload_revision d = Some (ds_current_revision s)"
    "b = \<lparr>ab_incident_version = inc_version (ir_incident r),
          ab_proposal_hash = proposal_hash g q, ab_evidence_hash = evidence_context_hash g r,
          ab_workload_resource_version = ds_resource_version s,
          ab_workload_generation = ds_generation s,
          ab_workload_revision = ds_current_revision s, ab_policy_hash = policy_hash g d,
          ab_dry_run_hash = text_hash g diff,
          ab_recovery_criteria_hash = recovery_criteria_hash g (rp_recovery_criteria q),
          ab_failure_strategy_hash = text_hash g (rp_rollback_strategy q), ab_expires_at = t\<rparr>"
  with p show ?thesis by (simp add: approval_matches_record_def approval_of_def)
qed

lemma record_approval_Inr:
  assumes "record_approval_decision g now i v a e s = (Inr r', s')"
  shows "\<exists>r. store_get s i = Some r \<and> s' = store_replace r' s
    \<and> record_approval_record g now i v a e r = Inr r'"
  using assms by (auto simp: record_approval_decision_def store_update_Inr)

lemma record_approval_record_effect:
  assumes "record_approval_record g now i v a e r = Inr r'"
  shows "inc_version (ir_incident r) = v \<and> ir_approvals r = [] \<and> ir_approvals r' = [a]
    \<and> now < apr_expires_at a \<and> approval_matches_record g r' a
    \<and> ir_proposal r' = ir_proposal r \<and> ir_policy_decision r' = ir_policy_decision r
    \<and> inc_incident_id (ir_incident r') = inc_incident_id (ir_incident r)
    \<and> ir_evidence r' = ir_evidence r \<and> ir_evidence_window r' = ir_evidence_window r"
proof -
  have r': "r' = with_event e (r\<lparr>ir_incident := bump_version (ir_incident r) (inc_version (ir_incident r)),
         ir_approvals := [a]\<rparr>)" and ok: "inc_version (ir_incident r) = v" "ir_approvals r = []"
    "now < apr_expires_at a" "approval_matches_record g r a"
    using assms by (auto simp: record_approval_record_def guarded_Inr validate_record_Inr)
  have "approval_matches_record g r' a"
    using ok(4) approval_matches_record_cong [of r' r g a] by (simp add: r')
  with ok show ?thesis by (simp add: r')
qed

lemma append_audit_event_Inr:
  assumes "append_audit_event i e s = (Inr r', s')" "store_get s i = Some r"
    "inc_incident_id (ir_incident r) = i"
  shows "r' = with_event e r \<and> store_get s' i = Some r'"
  using assms by (auto simp: append_audit_event_def store_update_Inr append_audit_event_record_def
      guarded_Inr store_get_replace)

lemma fresh_context_Inr:
  assumes "fresh_context en i who reviewed w = (Inr (now, p), w1)"
  obtains r s k where "oi_role who = RESPONDER" "now = en_clock en (w_readings w)"
    "now < ab_expires_at reviewed" "store_get (w_store w) i = Some r" "ir_approvals r = []"
    "ir_proposal r = Some p"
    "en_inspect en (action_target (rp_action p)) (w_kube w) = (Inr (Some s), k)"
    "build_approval_binding (en_digest en) r s (ab_expires_at reviewed) = Inr reviewed"
    "w_store w1 = w_store w" "w_queue w1 = w_queue w"
  using assms unfolding fresh_context_def
  by (auto simp: seq_Inr require_responder_Inr now_act_Inr raise_when_Inr undecided_Inr
      live_state_Inr binding_now_Inr ret_def)

lemma record_decision_Inr:
  assumes "record_decision en i who choice reviewed now p w1 = (Inr (a, rec), w2)"
  obtains aid st store_now e where
    "a = approval_of aid i p who choice now (ab_expires_at reviewed) reviewed"
    "record_approval_decision (en_digest en) store_now i (ab_incident_version reviewed) a e
        (w_store w1) = (Inr rec, w_store w2)"
    "w_queue w2 = w_queue w1"
  using assms unfolding record_decision_def
  by (auto simp: seq_Inr uuid4_Inr lift_result_Inr new_event_Inr now_act_Inr try_except_Inr
      on_store_Inr raise_def ret_def validate_approval_def split: if_splits)

text \<open>The run of \<open>decide\<close> up to the recorded Approval.\<close>

lemma decide_recorded:
  assumes inv: "store_inv (w_store w)"
    and run: "decide en publisher i who choice reviewed w = (Inr r', w')"
  obtains r p s k a rec w1 now where
    "oi_role who = RESPONDER" "store_get (w_store w) i = Some r" "ir_approvals r = []"
    "ir_proposal r = Some p" "inc_version (ir_incident r) = ab_incident_version reviewed"
    "en_inspect en (action_target (rp_action p)) (w_kube w) = (Inr (Some s), k)"
    "build_approval_binding (en_digest en) r s (ab_expires_at reviewed) = Inr reviewed"
    "now = en_clock en (w_readings w)" "now < ab_expires_at reviewed"
    "apr_decision a = choice" "apr_responder_principal a = oi_principal who"
    "ir_approvals rec = [a]" "approval_matches_record (en_digest en) rec a"
    "ir_proposal rec = Some p" "ir_policy_decision rec = ir_policy_decision r"
    "store_get (w_store w1) i = Some rec" "inc_incident_id (ir_incident rec) = i"
    "w_queue w1 = w_queue w"
    "(case publisher of None \<Rightarrow> ret rec
     | Some p \<Rightarrow> if choice = APPROVED then publish_request en p i rec a now else ret rec) w1
       = (Inr r', w')"
proof -
  obtain now p w0 a rec w1 where
    fc: "fresh_context en i who reviewed w = (Inr (now, p), w0)"
    and rd: "record_decision en i who choice reviewed now p w0 = (Inr (a, rec), w1)"
    and fin: "(case publisher of None \<Rightarrow> ret rec
     | Some pb \<Rightarrow> if choice = APPROVED then publish_request en pb i rec a now else ret rec) w1
       = (Inr r', w')"
    using run unfolding decide_def by (auto simp: seq_Inr)
  from fc obtain r s k where ctx: "oi_role who = RESPONDER" "now = en_clock en (w_readings w)"
    "now < ab_expires_at reviewed" and r: "store_get (w_store w) i = Some r" "ir_approvals r = []"
    "ir_proposal r = Some p"
    and s: "en_inspect en (action_target (rp_action p)) (w_kube w) = (Inr (Some s), k)"
      "build_approval_binding (en_digest en) r s (ab_expires_at reviewed) = Inr reviewed"
    and w0: "w_store w0 = w_store w" "w_queue w0 = w_queue w" by (rule fresh_context_Inr)
  from rd obtain aid store_now e where
    a: "a = approval_of aid i p who choice now (ab_expires_at reviewed) reviewed"
    and rec: "record_approval_decision (en_digest en) store_now i (ab_incident_version reviewed) a e
        (w_store w0) = (Inr rec, w_store w1)" and q: "w_queue w1 = w_queue w0"
    by (rule record_decision_Inr)
  from record_approval_Inr [OF rec] r(1) w0
  have st: "w_store w1 = store_replace rec (w_store w)"
    and op: "record_approval_record (en_digest en) store_now i (ab_incident_version reviewed) a e r
      = Inr rec" by auto
  note eff = record_approval_record_effect [OF op]
  have id: "inc_incident_id (ir_incident rec) = i"
    using eff store_inv_get [OF inv r(1)] by simp
  then have get: "store_get (w_store w1) i = Some rec" by (simp add: st store_get_replace)
  have who: "apr_decision a = choice" "apr_responder_principal a = oi_principal who"
    by (simp_all add: a approval_of_def)
  have v: "inc_version (ir_incident r) = ab_incident_version reviewed" "ir_approvals rec = [a]"
    "approval_matches_record (en_digest en) rec a" "ir_proposal rec = Some p"
    "ir_policy_decision rec = ir_policy_decision r" using eff r(3) by simp_all
  have "w_queue w1 = w_queue w" using q w0 by simp
  from that [OF ctx(1) r v(1) s ctx(2,3) who v(2-5) get id this fin] show thesis .
qed

lemma publish_request_Inr:
  assumes "publish_request en pb i rec a now w1 = (Inr r', w')"
    and "store_get (w_store w1) i = Some rec" "inc_incident_id (ir_incident rec) = i"
  shows "\<exists>q e qs. build_intervention_request (en_digest en) rec a now = Inr q
    \<and> pb q (w_queue w1) = (Inr (), qs) \<and> w_queue w' = qs
    \<and> r' = with_event e rec \<and> store_get (w_store w') i = Some r'"
proof -
  from assms(1) obtain q qs e st where
    q: "build_intervention_request (en_digest en) rec a now = Inr q"
    and p: "pb q (w_queue w1) = (Inr (), qs)"
    and ev: "append_audit_event i e (w_store w1) = (Inr r', st)"
    and w': "w_queue w' = qs" "w_store w' = st"
    unfolding publish_request_def
    by (auto simp: seq_Inr lift_result_Inr on_queue_Inr new_event_Inr on_store_Inr)
  from append_audit_event_Inr [OF ev assms(2,3)] q p w' show ?thesis by auto
qed

section \<open>Properties\<close>



end
