(* ===== verification/Proposal_Policy.thy ===== *)
theory Proposal_Policy
  imports World
begin

text \<open>
  The deterministic proposal policy (\<open>services/proposal_policy.py\<close>): preflight checks on the
  record, the Enrollment and the live Deployment, the minimal patch of the action, the shape
  check of the patch, and the server-side dry-run. The verdict is characterised by the
  declarative specification \<open>proposal_authorized\<close>.
\<close>

section \<open>Checks\<close>

text \<open>\<open>sha256("\n".join(sorted(...)))\<close>.\<close>

fun join_lines :: "string list \<Rightarrow> string" where
  "join_lines [] = []"
| "join_lines [x] = x"
| "join_lines (x # xs) = x @ CHR 0x0A # join_lines xs"

definition evidence_hash :: "digest \<Rightarrow> evidence_observation list \<Rightarrow> string" where
  "evidence_hash g es = dg_sha256 g (join_lines (sort (map eo_content_hash es)))"

definition check :: "policy_check_code \<Rightarrow> bool \<Rightarrow> string \<Rightarrow> string \<Rightarrow> policy_check" where
  "check code passed yes no =
     \<lparr>pc_code = code, pc_passed = passed, pc_message = (if passed then yes else no)\<rparr>"

definition find_workload ::
  "application_profile \<Rightarrow> workload_reference \<Rightarrow> managed_workload option" where
  "find_workload p t = List.find (\<lambda>w. mw_reference w = t) (ap_workloads p)"

definition find_revision :: "deployment_policy_state option \<Rightarrow> int \<Rightarrow> deployment_revision option" where
  "find_revision state n = (case state of None \<Rightarrow> None
     | Some s \<Rightarrow> List.find (\<lambda>r. dr_revision r = n) (ds_available_revisions s))"

fun action_checks ::
  "remediation_action \<Rightarrow> managed_workload option \<Rightarrow> deployment_policy_state option
     \<Rightarrow> policy_check list" where
  "action_checks (RollbackDeploymentAction t n) workload state =
    [check REVISION_AVAILABLE (find_revision state n \<noteq> None)
       ''Requested prior revision exists in current Deployment history.''
       ''Requested revision is missing from current Deployment history.'',
     check RESTORATION_SAFE
       (case find_revision state n of None \<Rightarrow> False
        | Some r \<Rightarrow> dr_restorable r \<and> \<not> dr_implicated r)
       ''Requested revision has complete, non-implicated restoration evidence.''
       ''Requested revision is implicated or lacks safe restoration evidence.'']"
| "action_checks (ScaleDeploymentAction t n) workload state =
    [check REPLICA_BOUNDS
       (case workload of None \<Rightarrow> False
        | Some w \<Rightarrow> rb_minimum (mw_replica_bounds w) \<le> n \<and> n \<le> rb_maximum (mw_replica_bounds w))
       ''Requested replicas are within declared bounds.''
       ''Requested replicas exceed declared workload bounds.'',
     check REPLICA_QUOTA
       (case state of None \<Rightarrow> False
        | Some s \<Rightarrow> max 0 (n - ds_replicas s) \<le> ds_replica_quota_headroom s)
       ''Requested scale remains within current quota headroom.''
       ''Requested scale exceeds current quota headroom.'']"
| "action_checks (RestartDeploymentAction t k) workload state = []"

definition preflight_checks ::
  "digest \<Rightarrow> investigation_record \<Rightarrow> remediation_proposal \<Rightarrow> bool
     \<Rightarrow> deployment_policy_state option \<Rightarrow> policy_check list" where
  "preflight_checks g record proposal ready state =
    (let action = rp_action proposal;
         workload = find_workload (ir_application_profile record) (action_target action)
     in [check PROPOSAL_SCOPED (rp_incident_id proposal = inc_incident_id (ir_incident record))
           ''Proposal belongs to this Incident.'' ''Proposal belongs to another Incident.'',
         check EVIDENCE_CURRENT (rp_evidence_hash proposal = evidence_hash g (ir_evidence record))
           ''Proposal is bound to the current recorded evidence.''
           ''Proposal evidence binding is stale.'',
         check ENROLLMENT_READY ready
           ''Application Enrollment prerequisites are current.''
           ''Application Enrollment prerequisites are not ready.'',
         check TARGET_ENROLLED (workload \<noteq> None)
           ''Target is declared by the enrolled Application Profile.''
           ''Target is outside the enrolled Application Profile.'',
         check TARGET_EXECUTABLE
           (case workload of None \<Rightarrow> False
            | Some w \<Rightarrow> mw_executable w \<and> \<not> mw_protected_dependency w)
           ''Target is an executable Managed Workload.''
           ''Target is protected or otherwise non-executable.'',
         check ACTION_ALLOWED
           (case workload of None \<Rightarrow> False
            | Some w \<Rightarrow> action_kind action \<in> set (mw_allowed_actions w))
           ''Action is explicitly allowlisted for the target.''
           ''Action is not allowlisted for the target; present it only as Manual Guidance.'',
         check LIVE_STATE_AVAILABLE (state \<noteq> None)
           ''Current Deployment state is available.''
           ''Current Deployment state is unavailable or the target is unmanaged.'',
         check NO_ACTIVE_INTERVENTION
           (case state of None \<Rightarrow> False | Some s \<Rightarrow> \<not> ds_active_intervention s)
           ''No active Intervention holds the target.''
           ''Another Intervention currently holds the target.'']
        @ action_checks action workload state)"

section \<open>Patches\<close>

definition build_patch ::
  "remediation_action \<Rightarrow> deployment_policy_state \<Rightarrow> pyexn + deployment_patch" where
  "build_patch action state =
    (let target = action_target action;
         patch = (\<lambda>spec. \<lparr>dp_action_type = action_kind action, dp_target = target,
           dp_resource_version = ds_resource_version state,
           dp_body = [(''apiVersion'', JStr ''apps/v1''), (''kind'', JStr ''Deployment''),
             (''metadata'', JObj [(''name'', JStr (wr_name target)),
                (''namespace'', JStr (wr_namespace target)),
                (''resourceVersion'', JStr (ds_resource_version state))]),
             (''spec'', JObj spec)]\<rparr>)
     in (case action of
           RollbackDeploymentAction t n \<Rightarrow>
             (case find_revision (Some state) n of
                None \<Rightarrow> Inl (ProposalPolicyError ''validated rollback revision disappeared'')
              | Some r \<Rightarrow> Inr (patch [(''template'', JObj (dr_pod_template r))]))
         | ScaleDeploymentAction t n \<Rightarrow> Inr (patch [(''replicas'', JInt n)])
         | RestartDeploymentAction t k \<Rightarrow>
             Inr (patch [(''template'', JObj [(''metadata'', JObj [(''annotations'',
               JObj [(''kubecouncil.io/restart-token'', JStr k)])])])])))"

definition dict_of :: "json option \<Rightarrow> (string \<times> json) list option" where
  "dict_of x = (case x of None \<Rightarrow> None | Some v \<Rightarrow> as_dict v)"

definition keys_are :: "(string \<times> json) list \<Rightarrow> string list \<Rightarrow> bool" where
  "keys_are d ks \<longleftrightarrow> set (map fst d) = set ks"

definition patch_shape_is_exact :: "deployment_patch \<Rightarrow> bool" where
  "patch_shape_is_exact patch =
    (let body = dp_body patch in
     if \<not> keys_are body [''apiVersion'', ''kind'', ''metadata'', ''spec''] then False
     else (case (dict_of (map_of body ''metadata''), dict_of (map_of body ''spec'')) of
       (Some metadata, Some spec) \<Rightarrow>
         if \<not> keys_are metadata [''name'', ''namespace'', ''resourceVersion''] then False
         else if dp_action_type patch = Scale_Deployment
         then keys_are spec [''replicas'']
           \<and> (case map_of spec ''replicas'' of None \<Rightarrow> False | Some v \<Rightarrow> is_int v)
         else if \<not> keys_are spec [''template''] then False
         else (case dict_of (map_of spec ''template'') of
           None \<Rightarrow> False
         | Some template \<Rightarrow>
             if dp_action_type patch = Rollback_Deployment then template \<noteq> []
             else if \<not> keys_are template [''metadata''] then False
             else (case dict_of (map_of template ''metadata'') of
               None \<Rightarrow> False
             | Some template_metadata \<Rightarrow>
                 keys_are template_metadata [''annotations'']
                 \<and> (case dict_of (map_of template_metadata ''annotations'') of
                      None \<Rightarrow> False
                    | Some annotations \<Rightarrow>
                        keys_are annotations [''kubecouncil.io/restart-token'']
                        \<and> (case map_of annotations ''kubecouncil.io/restart-token'' of
                             None \<Rightarrow> False | Some v \<Rightarrow> is_str v))))
     | _ \<Rightarrow> False))"

section \<open>Evaluation\<close>

definition validate_policy_decision :: "policy_decision \<Rightarrow> pyexn + policy_decision" where
  "validate_policy_decision d =
    (if \<not> policy_decision_fields d then Inl (ValidationError ''PolicyDecision'' ''invalid field'')
     else (case policy_decision_problem d of
       None \<Rightarrow> Inr d | Some m \<Rightarrow> Inl (ValidationError ''PolicyDecision'' m)))"

definition decision ::
  "'k environment \<Rightarrow> investigation_record \<Rightarrow> remediation_proposal \<Rightarrow> policy_check list
     \<Rightarrow> policy_status \<Rightarrow> deployment_policy_state option \<Rightarrow> deployment_patch option
     \<Rightarrow> string option \<Rightarrow> string option \<Rightarrow> ('k world, policy_decision) act" where
  "decision en record proposal checks status state patch diff reason =
    seq (now_act en) (\<lambda>now. lift_result (validate_policy_decision
      \<lparr>pd_incident_id = inc_incident_id (ir_incident record),
       pd_proposal_id = rp_proposal_id proposal, pd_status = status, pd_checks = checks,
       pd_evaluated_at = now,
       pd_workload_resource_version = map_option ds_resource_version state,
       pd_workload_generation = map_option ds_generation state,
       pd_workload_revision = map_option ds_current_revision state,
       pd_patch = patch, pd_dry_run_diff = diff, pd_rejection_reason = reason\<rparr>))"

definition preflight_failure :: "policy_check list \<Rightarrow> string option" where
  "preflight_failure checks = map_option pc_message (List.find (\<lambda>c. \<not> pc_passed c) checks)"

definition evaluate_patch ::
  "'k environment \<Rightarrow> investigation_record \<Rightarrow> remediation_proposal \<Rightarrow> policy_check list
     \<Rightarrow> deployment_policy_state \<Rightarrow> deployment_patch \<Rightarrow> ('k world, policy_decision) act" where
  "evaluate_patch en record proposal checks state patch =
    (let valid = patch_shape_is_exact patch;
         shape = check PATCH_SHAPE valid
           ''Action produced the exact allowlisted minimal patch shape.''
           ''Action produced fields outside its allowlisted patch shape.''
     in if \<not> valid then
       decision en record proposal (checks @ [shape]) POLICY_REJECTED (Some state) (Some patch)
         None (Some ''Action patch shape is not allowlisted.'')
     else seq (on_kube (en_dry_run en patch)) (\<lambda>dry_run.
       let final = checks @ [shape, check SERVER_DRY_RUN (dry_accepted dry_run)
             ''Kubernetes server-side dry-run accepted the exact patch.''
             (str_or (dry_error dry_run) ''Kubernetes server-side dry-run rejected the patch.'')]
       in if \<not> dry_accepted dry_run then
         decision en record proposal final DRY_RUN_FAILED (Some state) (Some patch) None
           (Some (str_or (dry_error dry_run) ''Kubernetes server-side dry-run failed.''))
       else decision en record proposal final POLICY_PASSED (Some state) (Some patch)
         (dry_diff dry_run) None))"

definition evaluate ::
  "'k environment \<Rightarrow> investigation_record \<Rightarrow> remediation_proposal
     \<Rightarrow> ('k world, policy_decision) act" where
  "evaluate en record proposal =
    seq (on_kube (en_enrollment en (ir_application_profile record))) (\<lambda>snapshot.
    seq (on_kube (en_inspect en (action_target (rp_action proposal)))) (\<lambda>state.
      let ready = er_ready (check_enrollment (ir_application_profile record) snapshot);
          checks = preflight_checks (en_digest en) record proposal ready state;
          failure = preflight_failure checks
      in (case (failure, state) of
            (None, Some s) \<Rightarrow>
              seq (lift_result (build_patch (rp_action proposal) s))
                (evaluate_patch en record proposal checks s)
          | _ \<Rightarrow> decision en record proposal checks POLICY_REJECTED state None None
              (Some (str_or failure ''Policy preflight failed.'')))))"

definition join_commas :: "string list \<Rightarrow> string" where
  "join_commas xs = (case xs of [] \<Rightarrow> [] | y # ys \<Rightarrow> y @ concat (map (\<lambda>z. CHR '','' # z) ys))"

definition evaluate_and_record ::
  "'k environment \<Rightarrow> string \<Rightarrow> ('k world, investigation_record) act" where
  "evaluate_and_record en incident_id =
    seq (get_record incident_id) (\<lambda>found. case found of
      None \<Rightarrow> raise (ProposalPolicyError ''incident does not exist'')
    | Some record \<Rightarrow> (case ir_proposal record of
        None \<Rightarrow> ret record
      | Some proposal \<Rightarrow>
          seq (evaluate en record proposal) (\<lambda>d.
          seq (on_store (record_policy_decision incident_id d)) (\<lambda>_.
          seq (uuid4 en) (\<lambda>u. seq (now_act en) (\<lambda>now.
            on_store (append_audit_event incident_id
              \<lparr>ae_event_id = ''audit-'' @ u, ae_incident_id = incident_id,
               ae_event_type = (if pd_status d = POLICY_PASSED then ''proposal_policy_passed''
                 else ''proposal_policy_rejected''),
               ae_occurred_at = now, ae_actor = ''deterministic-policy-engine'',
               ae_details = [(''proposal_id'', pd_proposal_id d),
                 (''status'', policy_status_value (pd_status d)),
                 (''failed_checks'', join_commas (map (policy_check_code_value \<circ> pc_code)
                    (filter (\<lambda>c. \<not> pc_passed c) (pd_checks d))))],
               ae_cursor = 0\<rparr>)))))))"

section \<open>What the policy authorizes\<close>

fun action_safe :: "remediation_action \<Rightarrow> managed_workload \<Rightarrow> deployment_policy_state \<Rightarrow> bool" where
  "action_safe (RollbackDeploymentAction t n) w s \<longleftrightarrow>
     (\<exists>r. find_revision (Some s) n = Some r \<and> dr_restorable r \<and> \<not> dr_implicated r)"
| "action_safe (ScaleDeploymentAction t n) w s \<longleftrightarrow>
     rb_minimum (mw_replica_bounds w) \<le> n \<and> n \<le> rb_maximum (mw_replica_bounds w)
     \<and> 0 \<le> ds_replica_quota_headroom s \<and> n - ds_replicas s \<le> ds_replica_quota_headroom s"
| "action_safe (RestartDeploymentAction t k) w s \<longleftrightarrow> True"

definition proposal_authorized ::
  "digest \<Rightarrow> investigation_record \<Rightarrow> remediation_proposal \<Rightarrow> enrollment_snapshot
     \<Rightarrow> deployment_policy_state \<Rightarrow> bool" where
  "proposal_authorized g r p snapshot s \<longleftrightarrow>
     rp_incident_id p = inc_incident_id (ir_incident r)
     \<and> rp_evidence_hash p = evidence_hash g (ir_evidence r)
     \<and> enrolled (ir_application_profile r) snapshot
     \<and> (\<exists>w. find_workload (ir_application_profile r) (action_target (rp_action p)) = Some w
          \<and> mw_executable w \<and> \<not> mw_protected_dependency w
          \<and> action_kind (rp_action p) \<in> set (mw_allowed_actions w)
          \<and> action_safe (rp_action p) w s)
     \<and> \<not> ds_active_intervention s"

lemma check_simps [simp]:
  "pc_passed (check c b y n) = b" "pc_code (check c b y n) = c"
  "pc_message (check c b y n) = (if b then y else n)"
  by (simp_all add: check_def)

lemma preflight_failure_None: "preflight_failure cs = None \<longleftrightarrow> list_all pc_passed cs"
  by (auto simp: preflight_failure_def find_None_iff list_all_iff)

lemma action_checks_passed:
  "list_all pc_passed (action_checks a (Some w) (Some s)) \<longleftrightarrow> action_safe a w s"
  by (cases a) (auto split: option.splits)

lemma preflight_passes:
  "list_all pc_passed (preflight_checks g r p (er_ready (check_enrollment (ir_application_profile r) e))
       state)
     \<longleftrightarrow> (\<exists>s. state = Some s \<and> proposal_authorized g r p e s)"
proof (cases "find_workload (ir_application_profile r) (action_target (rp_action p))")
  case None
  then show ?thesis by (simp add: preflight_checks_def Let_def proposal_authorized_def)
next
  case (Some w)
  show ?thesis
  proof (cases state)
    case None
    then show ?thesis by (simp add: preflight_checks_def Let_def)
  next
    case (Some s)
    then show ?thesis
      using \<open>find_workload _ _ = Some w\<close> action_checks_passed [of "rp_action p" w s]
      by (auto simp: preflight_checks_def Let_def proposal_authorized_def check_enrollment_ready)
  qed
qed

section \<open>The minimal patch\<close>

definition patch_of :: "remediation_action \<Rightarrow> deployment_policy_state \<Rightarrow> (string \<times> json) list
    \<Rightarrow> deployment_patch" where
  "patch_of action state spec =
     \<lparr>dp_action_type = action_kind action, dp_target = action_target action,
      dp_resource_version = ds_resource_version state,
      dp_body = [(''apiVersion'', JStr ''apps/v1''), (''kind'', JStr ''Deployment''),
        (''metadata'', JObj [(''name'', JStr (wr_name (action_target action))),
           (''namespace'', JStr (wr_namespace (action_target action))),
           (''resourceVersion'', JStr (ds_resource_version state))]),
        (''spec'', JObj spec)]\<rparr>"

fun minimal_spec :: "remediation_action \<Rightarrow> deployment_policy_state \<Rightarrow> (string \<times> json) list option" where
  "minimal_spec (RollbackDeploymentAction t n) s =
     map_option (\<lambda>r. [(''template'', JObj (dr_pod_template r))]) (find_revision (Some s) n)"
| "minimal_spec (ScaleDeploymentAction t n) s = Some [(''replicas'', JInt n)]"
| "minimal_spec (RestartDeploymentAction t k) s = Some [(''template'', JObj [(''metadata'',
     JObj [(''annotations'', JObj [(''kubecouncil.io/restart-token'', JStr k)])])])]"

lemma build_patch_minimal:
  "build_patch a s = (case minimal_spec a s of
     None \<Rightarrow> Inl (ProposalPolicyError ''validated rollback revision disappeared'')
   | Some spec \<Rightarrow> Inr (patch_of a s spec))"
  by (cases a) (auto simp: build_patch_def patch_of_def Let_def split: option.splits)

lemma build_patch_authorized:
  "proposal_authorized g r p e s \<Longrightarrow> \<exists>pt. build_patch (rp_action p) s = Inr pt"
  by (cases "rp_action p") (auto simp: build_patch_minimal proposal_authorized_def)

lemma build_patch_frame:
  "build_patch a s = Inr pt \<Longrightarrow> dp_target pt = action_target a
     \<and> dp_action_type pt = action_kind a \<and> dp_resource_version pt = ds_resource_version s"
  by (auto simp: build_patch_minimal patch_of_def split: option.splits)

lemma keys_are_simps: "keys_are d ks \<longleftrightarrow> fst ` set d = set ks"
  by (simp add: keys_are_def)

lemma patch_shape_scale:
  "patch_shape_is_exact (patch_of (ScaleDeploymentAction t n) s [(''replicas'', JInt n)])"
  by (simp add: patch_shape_is_exact_def patch_of_def keys_are_simps dict_of_def is_int_def)

lemma patch_shape_restart:
  "patch_shape_is_exact (patch_of (RestartDeploymentAction t k) s [(''template'', JObj
     [(''metadata'', JObj [(''annotations'', JObj [(''kubecouncil.io/restart-token'', JStr k)])])])])"
  by (simp add: patch_shape_is_exact_def patch_of_def keys_are_simps dict_of_def)

lemma patch_shape_rollback:
  "patch_shape_is_exact (patch_of (RollbackDeploymentAction t n) s [(''template'', JObj pod)])
     \<longleftrightarrow> pod \<noteq> []"
  by (simp add: patch_shape_is_exact_def patch_of_def keys_are_simps dict_of_def)

text \<open>The shape check can only fail for a rollback to a revision with an empty template.\<close>

lemma build_patch_shape:
  assumes "build_patch a s = Inr pt"
  shows "patch_shape_is_exact pt \<longleftrightarrow>
    (\<forall>t n r. a = RollbackDeploymentAction t n \<longrightarrow> find_revision (Some s) n = Some r
       \<longrightarrow> dr_pod_template r \<noteq> [])"
proof (cases a)
  case (RollbackDeploymentAction t n)
  with assms obtain r where r: "find_revision (Some s) n = Some r"
    and pt: "pt = patch_of a s [(''template'', JObj (dr_pod_template r))]"
    by (auto simp: build_patch_minimal split: option.splits)
  then show ?thesis using RollbackDeploymentAction patch_shape_rollback by auto
next
  case (ScaleDeploymentAction t n)
  with assms show ?thesis using patch_shape_scale by (auto simp: build_patch_minimal)
next
  case (RestartDeploymentAction t k)
  with assms show ?thesis using patch_shape_restart
    by (auto simp: build_patch_minimal split: option.splits)
qed

section \<open>Runs of the policy\<close>

lemma decision_run:
  "decision en r p cs st s pt df rs w =
     (validate_policy_decision
       \<lparr>pd_incident_id = inc_incident_id (ir_incident r), pd_proposal_id = rp_proposal_id p,
        pd_status = st, pd_checks = cs, pd_evaluated_at = en_clock en (w_readings w),
        pd_workload_resource_version = map_option ds_resource_version s,
        pd_workload_generation = map_option ds_generation s,
        pd_workload_revision = map_option ds_current_revision s,
        pd_patch = pt, pd_dry_run_diff = df, pd_rejection_reason = rs\<rparr>,
      w\<lparr>w_readings := Suc (w_readings w)\<rparr>)"
  by (simp add: decision_def seq_def now_act_def lift_result_def)

lemma validate_policy_decision_Inr:
  "validate_policy_decision d = Inr d' \<longleftrightarrow>
     d' = d \<and> policy_decision_fields d \<and> policy_decision_problem d = None"
  by (auto simp: validate_policy_decision_def split: option.splits if_splits)

lemma decision_Inr:
  "decision en r p cs st s pt df rs w = (Inr d, w') \<Longrightarrow>
     pd_status d = st \<and> pd_patch d = pt \<and> pd_checks d = cs \<and> pd_dry_run_diff d = df
     \<and> pd_incident_id d = inc_incident_id (ir_incident r) \<and> pd_proposal_id d = rp_proposal_id p
     \<and> pd_workload_resource_version d = map_option ds_resource_version s
     \<and> pd_workload_generation d = map_option ds_generation s
     \<and> pd_workload_revision d = map_option ds_current_revision s
     \<and> w' = w\<lparr>w_readings := Suc (w_readings w)\<rparr> \<and> wf_policy_decision d"
  by (auto simp: decision_run validate_policy_decision_Inr wf_policy_decision_def)

lemma evaluate_patch_Inr:
  assumes "evaluate_patch en r p cs s pt w = (Inr d, w')"
  shows "pd_patch d = Some pt \<and> pd_workload_resource_version d = Some (ds_resource_version s)
    \<and> pd_workload_generation d = Some (ds_generation s)
    \<and> pd_workload_revision d = Some (ds_current_revision s)
    \<and> (pd_status d = POLICY_PASSED \<longleftrightarrow> patch_shape_is_exact pt
         \<and> (\<exists>dr k. en_dry_run en pt (w_kube w) = (Inr dr, k) \<and> dry_accepted dr
             \<and> pd_dry_run_diff d = dry_diff dr))"
proof (cases "patch_shape_is_exact pt")
  case False
  with assms show ?thesis by (auto simp: evaluate_patch_def Let_def dest!: decision_Inr)
next
  case True
  with assms obtain dr k where dr: "en_dry_run en pt (w_kube w) = (Inr dr, k)"
    and rest: "(if \<not> dry_accepted dr then
         decision en r p (cs @ [check PATCH_SHAPE True
           ''Action produced the exact allowlisted minimal patch shape.''
           ''Action produced fields outside its allowlisted patch shape.'',
           check SERVER_DRY_RUN (dry_accepted dr)
             ''Kubernetes server-side dry-run accepted the exact patch.''
             (str_or (dry_error dr) ''Kubernetes server-side dry-run rejected the patch.'')])
           DRY_RUN_FAILED (Some s) (Some pt) None
           (Some (str_or (dry_error dr) ''Kubernetes server-side dry-run failed.''))
       else decision en r p (cs @ [check PATCH_SHAPE True
           ''Action produced the exact allowlisted minimal patch shape.''
           ''Action produced fields outside its allowlisted patch shape.'',
           check SERVER_DRY_RUN (dry_accepted dr)
             ''Kubernetes server-side dry-run accepted the exact patch.''
             (str_or (dry_error dr) ''Kubernetes server-side dry-run rejected the patch.'')])
           POLICY_PASSED (Some s) (Some pt) (dry_diff dr) None) (w\<lparr>w_kube := k\<rparr>) = (Inr d, w')"
    by (auto simp: evaluate_patch_def Let_def seq_Inr on_kube_Inr)
  show ?thesis
  proof (cases "dry_accepted dr")
    case acc: True
    with rest have "decision en r p (cs @ [check PATCH_SHAPE True
           ''Action produced the exact allowlisted minimal patch shape.''
           ''Action produced fields outside its allowlisted patch shape.'',
           check SERVER_DRY_RUN (dry_accepted dr)
             ''Kubernetes server-side dry-run accepted the exact patch.''
             (str_or (dry_error dr) ''Kubernetes server-side dry-run rejected the patch.'')])
           POLICY_PASSED (Some s) (Some pt) (dry_diff dr) None (w\<lparr>w_kube := k\<rparr>) = (Inr d, w')"
      by simp
    from decision_Inr [OF this] dr acc True show ?thesis by auto
  next
    case False
    with rest show ?thesis using dr by (auto dest!: decision_Inr)
  qed
qed

lemma evaluate_Inr:
  assumes "evaluate en r p w = (Inr d, w')"
  obtains e k1 state k2 where
    "en_enrollment en (ir_application_profile r) (w_kube w) = (Inr e, k1)"
    "en_inspect en (action_target (rp_action p)) k1 = (Inr state, k2)"
    "pd_incident_id d = inc_incident_id (ir_incident r)" "pd_proposal_id d = rp_proposal_id p"
    "(\<exists>s pt. state = Some s \<and> proposal_authorized (en_digest en) r p e s
        \<and> build_patch (rp_action p) s = Inr pt
        \<and> evaluate_patch en r p (preflight_checks (en_digest en) r p
            (er_ready (check_enrollment (ir_application_profile r) e)) state) s pt
            (w\<lparr>w_kube := k2\<rparr>) = (Inr d, w'))
     \<or> \<not> (\<exists>s. state = Some s \<and> proposal_authorized (en_digest en) r p e s)
        \<and> pd_status d = POLICY_REJECTED \<and> pd_patch d = None
        \<and> w' = w\<lparr>w_kube := k2, w_readings := Suc (w_readings w)\<rparr>"
proof -
  obtain e k1 state k2 where
    e: "en_enrollment en (ir_application_profile r) (w_kube w) = (Inr e, k1)"
    and st: "en_inspect en (action_target (rp_action p)) k1 = (Inr state, k2)"
    and rest: "(let checks = preflight_checks (en_digest en) r p
            (er_ready (check_enrollment (ir_application_profile r) e)) state;
          failure = preflight_failure checks
      in (case (failure, state) of
            (None, Some s) \<Rightarrow>
              seq (lift_result (build_patch (rp_action p) s))
                (evaluate_patch en r p checks s)
          | _ \<Rightarrow> decision en r p checks POLICY_REJECTED state None None
              (Some (str_or failure ''Policy preflight failed.'')))) (w\<lparr>w_kube := k2\<rparr>) = (Inr d, w')"
    using assms unfolding evaluate_def by (auto simp: seq_Inr on_kube_Inr)
  let ?cs = "preflight_checks (en_digest en) r p
    (er_ready (check_enrollment (ir_application_profile r) e)) state"
  show thesis
  proof (cases "\<exists>s. state = Some s \<and> proposal_authorized (en_digest en) r p e s")
    case True
    then obtain s where s: "state = Some s" "proposal_authorized (en_digest en) r p e s" by blast
    then have "preflight_failure ?cs = None" by (simp add: preflight_failure_None preflight_passes)
    with rest s(1) obtain pt where pt: "build_patch (rp_action p) s = Inr pt"
      "evaluate_patch en r p ?cs s pt (w\<lparr>w_kube := k2\<rparr>) = (Inr d, w')"
      by (auto simp: Let_def seq_Inr lift_result_Inr)
    have "pd_incident_id d = inc_incident_id (ir_incident r) \<and> pd_proposal_id d = rp_proposal_id p"
      using pt(2) by (auto simp: evaluate_patch_def Let_def seq_Inr split: if_splits dest!: decision_Inr)
    with that [OF e st] s pt show thesis by blast
  next
    case False
    then have "preflight_failure ?cs \<noteq> None" by (simp add: preflight_failure_None preflight_passes)
    with rest have "decision en r p ?cs POLICY_REJECTED state None None
        (Some (str_or (preflight_failure ?cs) ''Policy preflight failed.'')) (w\<lparr>w_kube := k2\<rparr>)
      = (Inr d, w')"
      by (auto simp: Let_def)
    from decision_Inr [OF this] that [OF e st] False show thesis by auto
  qed
qed

end
