(* ===== verification/Fake_Cluster.thy ===== *)
theory Fake_Cluster
  imports Proposal_Policy
begin

text \<open>
  The Kubernetes provider of the local deployment and of the tests:
  \<open>FakePolicyKubernetesProvider\<close> (\<open>services/proposal_policy.py\<close>) and its mutable extension
  \<open>FakeExecutorKubernetesProvider\<close> (\<open>services/intervention_executor.py\<close>). Both keep their
  Deployment states in a dict; the second also applies patches under optimistic concurrency.
  \<open>rp\<close> stands for Python's \<open>repr\<close> of a value, which only appears in messages.
\<close>

record fake_cluster =
  fk_states :: "(workload_reference \<times> deployment_policy_state) list"
  fk_dry_run_error :: "string option"
  fk_dry_run_patches :: "deployment_patch list"
  fk_applied_patches :: "deployment_patch list"
  fk_external_resource_version :: "string option"
  fk_convergence_results :: "action_convergence_status list"
  fk_quota_after_next_apply :: "int option"

type_synonym python_repr = "json \<Rightarrow> string"

section \<open>Inspection and dry-run\<close>

definition fake_inspect ::
  "workload_reference \<Rightarrow> (fake_cluster, deployment_policy_state option) act" where
  "fake_inspect target = gets (\<lambda>k. dict_get (fk_states k) target)"

text \<open>\<open>f"{value}"\<close> of an optional JSON value.\<close>

definition format_value :: "python_repr \<Rightarrow> json option \<Rightarrow> string" where
  "format_value rp x = (case x of None \<Rightarrow> ''None'' | Some v \<Rightarrow>
     (case v of JStr s \<Rightarrow> s | JInt i \<Rightarrow> int_str i | _ \<Rightarrow> rp v))"

text \<open>\<open>x.get(key) if isinstance(x, dict) else None\<close>.\<close>

definition get_in :: "json option \<Rightarrow> string \<Rightarrow> json option" where
  "get_in x key = (case dict_of x of None \<Rightarrow> None | Some d \<Rightarrow> map_of d key)"

definition rollback_revision :: "(string \<times> json) list \<Rightarrow> json option" where
  "rollback_revision spec =
     get_in (get_in (get_in (map_of spec ''template'') ''metadata'') ''labels'') ''revision''"

definition dry_run_diff ::
  "python_repr \<Rightarrow> deployment_patch \<Rightarrow> deployment_policy_state \<Rightarrow> (string \<times> json) list \<Rightarrow> string" where
  "dry_run_diff rp patch state spec =
    (let name = wr_name (dp_target patch) in
     case dp_action_type patch of
       Rollback_Deployment \<Rightarrow> ''Deployment/'' @ name @ '': revision ''
         @ int_str (ds_current_revision state) @ '' -> '' @ format_value rp (rollback_revision spec)
     | Scale_Deployment \<Rightarrow> ''Deployment/'' @ name @ '': replicas ''
         @ int_str (ds_replicas state) @ '' -> '' @ format_value rp (map_of spec ''replicas'')
     | Restart_Deployment \<Rightarrow> ''Deployment/'' @ name @ '': controlled restart token added'')"

definition fake_dry_run ::
  "python_repr \<Rightarrow> deployment_patch \<Rightarrow> (fake_cluster, dry_run_result) act" where
  "fake_dry_run rp patch k0 =
    (let k = k0\<lparr>fk_dry_run_patches := fk_dry_run_patches k0 @ [patch]\<rparr>
     in case fk_dry_run_error k of
       Some e \<Rightarrow> (Inr \<lparr>dry_accepted = False, dry_diff = None, dry_error = Some e\<rparr>, k)
     | None \<Rightarrow> (case dict_get (fk_states k) (dp_target patch) of
         None \<Rightarrow> (Inl (KeyError (wr_name (dp_target patch))), k)
       | Some state \<Rightarrow> (case dict_of (map_of (dp_body patch) ''spec'') of
           None \<Rightarrow> (Inl (ValueError ''fake dry-run received a malformed Deployment spec''), k)
         | Some spec \<Rightarrow> (Inr \<lparr>dry_accepted = True,
             dry_diff = Some (dry_run_diff rp patch state spec), dry_error = None\<rparr>, k))))"

section \<open>Applying a patch\<close>

text \<open>\<open>int(text)\<close>: surrounding whitespace, a sign, digits with single underscores between.\<close>

definition is_space :: "char \<Rightarrow> bool" where
  "is_space c \<longleftrightarrow> (of_char c :: nat) \<in> {9, 10, 11, 12, 13, 28, 29, 30, 31, 32, 133, 160}"

definition strip :: "string \<Rightarrow> string" where
  "strip s = rev (dropWhile is_space (rev (dropWhile is_space s)))"

fun int_digits :: "bool \<Rightarrow> string \<Rightarrow> bool" where
  "int_digits after_digit [] = after_digit"
| "int_digits after_digit (c # cs) =
     (if is_digit c then int_digits True cs
      else if c = CHR ''_'' \<and> after_digit then cs \<noteq> [] \<and> is_digit (hd cs) \<and> int_digits False cs
      else False)"

definition parse_int :: "string \<Rightarrow> int option" where
  "parse_int s =
    (let t = strip s;
         negative = (t \<noteq> [] \<and> hd t = CHR ''-'');
         body = (if t \<noteq> [] \<and> hd t \<in> {CHR ''-'', CHR ''+''} then tl t else t)
     in if int_digits False body
        then Some ((if negative then -1 else 1) * int (num_val (filter is_digit body)))
        else None)"

definition with_rollback ::
  "python_repr \<Rightarrow> (string \<times> json) list \<Rightarrow> deployment_policy_state
     \<Rightarrow> pyexn + deployment_policy_state" where
  "with_rollback rp spec state = (case rollback_revision spec of
     Some (JStr r) \<Rightarrow> (case parse_int r of
         Some n \<Rightarrow> Inr (state\<lparr>ds_current_revision := n\<rparr>)
       | None \<Rightarrow> Inl (ValueError (''invalid literal for int() with base 10: '' @ rp (JStr r))))
   | _ \<Rightarrow> Inl (ValueError ''rollback patch has no exact revision template''))"

definition with_scale ::
  "(string \<times> json) list \<Rightarrow> deployment_policy_state \<Rightarrow> pyexn + deployment_policy_state" where
  "with_scale spec state = (case map_of spec ''replicas'' of
     Some v \<Rightarrow> (case as_int v of
         Some n \<Rightarrow> Inr (state\<lparr>ds_replicas := n\<rparr>)
       | None \<Rightarrow> Inl (ValueError ''scale patch has no exact replica count''))
   | None \<Rightarrow> Inl (ValueError ''scale patch has no exact replica count''))"

definition with_restart ::
  "(string \<times> json) list \<Rightarrow> deployment_policy_state \<Rightarrow> pyexn + deployment_policy_state" where
  "with_restart spec state =
    (case get_in (get_in (get_in (map_of spec ''template'') ''metadata'') ''annotations'')
        ''kubecouncil.io/restart-token'' of
       Some (JStr token) \<Rightarrow>
         (let n = ds_current_revision state + 1
          in Inr (state\<lparr>ds_current_revision := n,
               ds_available_revisions := ds_available_revisions state @
                 [\<lparr>dr_revision = n, dr_pod_template = [(''metadata'', JObj [(''annotations'',
                     JObj [(''restart-token'', JStr token)])])],
                   dr_restorable = True, dr_implicated = False\<rparr>]\<rparr>))
     | _ \<Rightarrow> Inl (ValueError ''restart patch has no exact restart token''))"

definition applied_state ::
  "python_repr \<Rightarrow> deployment_patch \<Rightarrow> (string \<times> json) list \<Rightarrow> deployment_policy_state
     \<Rightarrow> pyexn + deployment_policy_state" where
  "applied_state rp patch spec state =
    (let next = state\<lparr>ds_resource_version := ds_resource_version state @ ''-''
           @ action_type_value (dp_action_type patch), ds_generation := ds_generation state + 1\<rparr>
     in case dp_action_type patch of
       Rollback_Deployment \<Rightarrow> with_rollback rp spec next
     | Scale_Deployment \<Rightarrow> with_scale spec next
     | Restart_Deployment \<Rightarrow> with_restart spec next)"

text \<open>The scheduled concurrent writer of \<open>mutate_before_next_apply\<close>.\<close>

definition external_write ::
  "workload_reference \<Rightarrow> deployment_policy_state \<Rightarrow> fake_cluster
     \<Rightarrow> deployment_policy_state \<times> fake_cluster" where
  "external_write target state k =
    (case fk_external_resource_version k of
       None \<Rightarrow> (state, k)
     | Some rv \<Rightarrow> (let s = state\<lparr>ds_resource_version := rv\<rparr>
         in (s, k\<lparr>fk_states := dict_set target s (fk_states k),
                  fk_external_resource_version := None\<rparr>)))"

definition commit_apply ::
  "deployment_patch \<Rightarrow> deployment_policy_state \<Rightarrow> (fake_cluster, deployment_policy_state) act" where
  "commit_apply patch updated k =
    (let final = (case fk_quota_after_next_apply k of None \<Rightarrow> updated
           | Some h \<Rightarrow> updated\<lparr>ds_replica_quota_headroom := h\<rparr>)
     in (Inr final, k\<lparr>fk_quota_after_next_apply := None,
          fk_states := dict_set (dp_target patch) final (fk_states k),
          fk_applied_patches := fk_applied_patches k @ [patch]\<rparr>))"

definition fake_apply ::
  "python_repr \<Rightarrow> deployment_patch \<Rightarrow> (fake_cluster, deployment_policy_state) act" where
  "fake_apply rp patch =
    seq (fake_inspect (dp_target patch)) (\<lambda>found. case found of
      None \<Rightarrow> raise (ValueError ''Deployment disappeared before mutation'')
    | Some found_state \<Rightarrow>
        seq (\<lambda>k. apfst Inr (external_write (dp_target patch) found_state k)) (\<lambda>state.
        seq (raise_when (dp_resource_version patch \<noteq> ds_resource_version state)
               (ValueError ''optimistic concurrency resourceVersion mismatch'')) (\<lambda>_.
        seq (fake_dry_run rp patch) (\<lambda>dry_run.
        seq (raise_when (\<not> dry_accepted dry_run)
               (ValueError (str_or (dry_error dry_run)
                  ''server-side dry-run rejected the patch''))) (\<lambda>_.
        (case dict_of (map_of (dp_body patch) ''spec'') of
           None \<Rightarrow> raise (ValueError ''Executor received a malformed Deployment patch'')
         | Some spec \<Rightarrow>
             seq (lift_result (applied_state rp patch spec state)) (commit_apply patch)))))))"

section \<open>Convergence\<close>

fun convergence_reason :: "action_convergence_status \<Rightarrow> string" where
  "convergence_reason CONVERGENCE_SUCCEEDED = ''Deployment reached the action-specific state.''"
| "convergence_reason CONVERGENCE_FAILED = ''Deployment reported a definitive action failure.''"
| "convergence_reason CONVERGENCE_AMBIGUOUS =
     ''Deployment convergence could not be established deterministically.''"

definition next_convergence :: "(fake_cluster, action_convergence_status) act" where
  "next_convergence k = (case fk_convergence_results k of
     [] \<Rightarrow> (Inr CONVERGENCE_SUCCEEDED, k)
   | c # cs \<Rightarrow> (Inr c, k\<lparr>fk_convergence_results := cs\<rparr>))"

definition fake_verify ::
  "deployment_patch \<Rightarrow> deployment_policy_state
     \<Rightarrow> (fake_cluster, deployment_convergence_result) act" where
  "fake_verify patch applied =
    seq (fake_inspect (dp_target patch)) (\<lambda>current.
    seq next_convergence (\<lambda>status.
      let result = \<lparr>cr_status = status, cr_reason = convergence_reason status,
            cr_observed_state = current\<rparr>
      in (case deployment_convergence_result_problem result of
            None \<Rightarrow> ret result
          | Some m \<Rightarrow> raise (ValidationError ''DeploymentConvergenceResult'' m))))"

section \<open>Laws of the fake\<close>

lemma fake_inspect_run: "fake_inspect t k = (Inr (dict_get (fk_states k) t), k)"
  by (simp add: fake_inspect_def gets_def)

lemma fake_dry_run_states:
  "fk_states (snd (fake_dry_run rp p k)) = fk_states k
   \<and> fk_applied_patches (snd (fake_dry_run rp p k)) = fk_applied_patches k"
  by (auto simp: fake_dry_run_def Let_def split: option.splits)

lemma fake_dry_run_valid:
  "fake_dry_run rp p k = (Inr d, k') \<Longrightarrow> dry_run_result_problem d = None"
  by (auto simp: fake_dry_run_def Let_def dry_run_result_problem_def split: option.splits)

lemma fake_verify_states:
  "fk_states (snd (fake_verify p s k)) = fk_states k
   \<and> fk_applied_patches (snd (fake_verify p s k)) = fk_applied_patches k"
  by (auto simp: fake_verify_def seq_def fake_inspect_run next_convergence_def Let_def ret_def
      raise_def split: list.splits option.splits)

text \<open>
  A patch is applied at most once per call, only on the resource version it names, and an
  error leaves the list of applied patches as it was.
\<close>

lemma fake_apply_Inr:
  assumes "fake_apply rp patch k = (Inr s, k')"
  shows "fk_applied_patches k' = fk_applied_patches k @ [patch]
    \<and> dict_get (fk_states k') (dp_target patch) = Some s
    \<and> (\<forall>t. t \<noteq> dp_target patch \<longrightarrow> dict_get (fk_states k') t = dict_get (fk_states k) t)
    \<and> (\<exists>s0. dict_get (fk_states k) (dp_target patch) = Some s0
         \<and> dp_resource_version patch
             = case_option (ds_resource_version s0) id (fk_external_resource_version k)
         \<and> ds_generation s = ds_generation s0 + 1)"
proof -
  obtain s0 where s0: "dict_get (fk_states k) (dp_target patch) = Some s0"
    using assms by (auto simp: fake_apply_def seq_Inr fake_inspect_run raise_def split: option.splits)
  obtain st k1 where ext: "external_write (dp_target patch) s0 k = (st, k1)" by fastforce
  have gen: "ds_generation st = ds_generation s0"
    "ds_resource_version st = case_option (ds_resource_version s0) id (fk_external_resource_version k)"
    "fk_applied_patches k1 = fk_applied_patches k"
    "\<forall>t. t \<noteq> dp_target patch \<longrightarrow> dict_get (fk_states k1) t = dict_get (fk_states k) t"
    using ext by (auto simp: external_write_def Let_def dict_get_set split: option.splits)
  obtain spec upd k2 where
    rv: "dp_resource_version patch = ds_resource_version st"
    and k2: "k2 = snd (fake_dry_run rp patch k1)"
    and upd: "applied_state rp patch spec st = Inr upd"
    and fin: "commit_apply patch upd k2 = (Inr s, k')"
    using assms s0 ext
    by (auto simp: fake_apply_def seq_Inr fake_inspect_run raise_when_def raise_def ret_def
        lift_result_def split: option.splits if_splits)
  have "ds_generation upd = ds_generation st + 1"
    using upd by (auto simp: applied_state_def with_rollback_def with_scale_def with_restart_def
        Let_def split: action_type.splits option.splits json.splits)
  moreover have "fk_applied_patches k2 = fk_applied_patches k1" "fk_states k2 = fk_states k1"
    using fake_dry_run_states [of rp patch k1] by (simp_all add: k2)
  ultimately show ?thesis using s0 gen rv fin
    by (auto simp: commit_apply_def Let_def dict_get_set split: option.splits)
qed

lemma fake_dry_run_applied:
  "fake_dry_run rp p k = (r, k') \<Longrightarrow> fk_applied_patches k' = fk_applied_patches k"
  using fake_dry_run_states [of rp p k] by simp

lemma fake_apply_Inl:
  "fake_apply rp patch k = (Inl e, k') \<Longrightarrow> fk_applied_patches k' = fk_applied_patches k"
  by (auto simp: fake_apply_def seq_def fake_inspect_run raise_when_def raise_def ret_def
      lift_result_def external_write_def commit_apply_def Let_def
      split: option.splits if_splits prod.splits sum.splits dest!: fake_dry_run_applied)

end
