(* ===== verification/Policy_Guarantees.thy ===== *)
theory Policy_Guarantees
  imports Fake_Cluster Sample_Run
begin

text \<open>
  The guarantees of the proposal policy over any Kubernetes and Enrollment provider, and the
  environment of the fake providers on which the witnesses run.
\<close>

section \<open>A concrete environment\<close>

definition sample_state :: deployment_policy_state where
  "sample_state = \<lparr>ds_target = sample_target, ds_resource_version = ''rv1'', ds_generation = 1,
     ds_replicas = 2, ds_current_revision = 1,
     ds_available_revisions = [\<lparr>dr_revision = 1, dr_pod_template = [(''metadata'', JObj [])],
       dr_restorable = True, dr_implicated = True\<rparr>],
     ds_active_intervention = False, ds_replica_quota_headroom = 3\<rparr>"

definition sample_cluster :: fake_cluster where
  "sample_cluster = \<lparr>fk_states = [(sample_target, sample_state)], fk_dry_run_error = None,
     fk_dry_run_patches = [], fk_applied_patches = [], fk_external_resource_version = None,
     fk_convergence_results = [], fk_quota_after_next_apply = None\<rparr>"

definition sample_environment :: "fake_cluster environment" where
  "sample_environment = \<lparr>en_clock = (\<lambda>n. minutes 63 + seconds (int n)),
     en_uuid = (\<lambda>n. ''uuid-000'' @ nat_str n), en_digest = sample_digest,
     en_inspect = fake_inspect, en_dry_run = fake_dry_run (\<lambda>_. ''object''),
     en_apply = fake_apply (\<lambda>_. ''object''), en_verify = fake_verify,
     en_enrollment = (\<lambda>p. ret (ready_for p))\<rparr>"

definition sample_world :: "store \<Rightarrow> fake_cluster world" where
  "sample_world s = \<lparr>w_store = s, w_leases = [], w_queue = [], w_kube = sample_cluster,
     w_readings = 0, w_uuids = 0\<rparr>"

text \<open>The record when the proposal is ready and not yet evaluated.\<close>

definition sample_proposed :: investigation_record where
  "sample_proposed = sample_monitoring\<lparr>ir_incident := (ir_incident sample_monitoring)
      \<lparr>inc_lifecycle := INVESTIGATING, inc_intervention_outcome := OUT_NOT_STARTED,
       inc_version := 1\<rparr>,
     ir_policy_decision := None, ir_approvals := [], ir_interventions := [],
     ir_recovery_assessments := [], ir_audit_events := []\<rparr>"

definition sample_evaluation :: "(pyexn + policy_decision) \<times> fake_cluster world" where
  "sample_evaluation = evaluate sample_environment sample_proposed sample_proposal (sample_world [])"

definition status_of :: "pyexn + policy_decision \<Rightarrow> policy_status option" where
  "status_of x = (case x of Inl e \<Rightarrow> None | Inr d \<Rightarrow> Some (pd_status d))"

lemma sample_evaluation_passes: "status_of (fst sample_evaluation) = Some POLICY_PASSED"
  by code_simp

section \<open>Validity of the decision\<close>

lemma action_checks_messages: "list_all (\<lambda>c. pc_message c \<noteq> []) (action_checks a w s)"
  by (cases a) auto

lemma preflight_checks_messages:
  "list_all (\<lambda>c. pc_message c \<noteq> []) (preflight_checks g r p b s)"
  by (simp add: preflight_checks_def Let_def action_checks_messages)

lemma preflight_checks_nonempty [simp]: "preflight_checks g r p b s \<noteq> []"
  by (simp add: preflight_checks_def Let_def)

lemma str_or_nonempty: "d \<noteq> [] \<Longrightarrow> str_or x d \<noteq> []"
  by (simp add: str_or_def split: option.split)

definition sane_inputs :: "investigation_record \<Rightarrow> remediation_proposal \<Rightarrow> bool" where
  "sane_inputs r p \<longleftrightarrow> inc_incident_id (ir_incident r) \<noteq> [] \<and> wf_remediation_proposal p"

lemma decision_succeeds:
  assumes "sane_inputs r p" "cs \<noteq> []" "list_all (\<lambda>c. pc_message c \<noteq> []) cs"
    and "pred_option wf_deployment_policy_state s" "pred_option wf_deployment_patch pt"
    and "if st = POLICY_PASSED then list_all pc_passed cs \<and> pt \<noteq> None \<and> df \<noteq> None \<and> rs = None
         else \<not> list_all pc_passed cs \<and> rs \<noteq> None \<and> df = None"
  shows "\<exists>d. decision en r p cs st s pt df rs w = (Inr d, w\<lparr>w_readings := Suc (w_readings w)\<rparr>)"
proof -
  have "policy_decision_fields \<lparr>pd_incident_id = inc_incident_id (ir_incident r),
      pd_proposal_id = rp_proposal_id p, pd_status = st, pd_checks = cs,
      pd_evaluated_at = en_clock en (w_readings w),
      pd_workload_resource_version = map_option ds_resource_version s,
      pd_workload_generation = map_option ds_generation s,
      pd_workload_revision = map_option ds_current_revision s,
      pd_patch = pt, pd_dry_run_diff = df, pd_rejection_reason = rs\<rparr>"
    using assms(1-5) by (cases s) (auto simp: policy_decision_fields_def sane_inputs_def
        wf_remediation_proposal_def wf_deployment_policy_state_def)
  moreover have "policy_decision_problem \<lparr>pd_incident_id = inc_incident_id (ir_incident r),
      pd_proposal_id = rp_proposal_id p, pd_status = st, pd_checks = cs,
      pd_evaluated_at = en_clock en (w_readings w),
      pd_workload_resource_version = map_option ds_resource_version s,
      pd_workload_generation = map_option ds_generation s,
      pd_workload_revision = map_option ds_current_revision s,
      pd_patch = pt, pd_dry_run_diff = df, pd_rejection_reason = rs\<rparr> = None"
    using assms(6) by (auto simp: policy_decision_problem_def list_ex_iff list_all_iff split: if_splits)
  ultimately show ?thesis by (simp add: decision_run validate_policy_decision_def)
qed

lemma wf_built_patch:
  assumes "sane_inputs r p" "wf_deployment_policy_state s" "build_patch (rp_action p) s = Inr pt"
  shows "wf_deployment_patch pt"
proof -
  have "wf_remediation_action (rp_action p)"
    using assms(1) by (simp add: sane_inputs_def wf_remediation_proposal_def)
  then have "workload_reference_fields (action_target (rp_action p))"
    by (cases "rp_action p") auto
  with build_patch_frame [OF assms(3)] assms(2) show ?thesis
    by (simp add: wf_deployment_patch_def wf_deployment_policy_state_def)
qed

lemma evaluate_patch_succeeds:
  assumes sane: "sane_inputs r p" and s: "wf_deployment_policy_state s" and pt: "wf_deployment_patch pt"
    and cs: "cs \<noteq> []" "list_all (\<lambda>c. pc_message c \<noteq> []) cs" "list_all pc_passed cs"
    and dry: "\<exists>dr k. en_dry_run en pt (w_kube w) = (Inr dr, k) \<and> dry_run_result_problem dr = None"
  shows "\<exists>d w'. evaluate_patch en r p cs s pt w = (Inr d, w')"
proof (cases "patch_shape_is_exact pt")
  case False
  with sane s pt cs show ?thesis unfolding evaluate_patch_def Let_def
    using decision_succeeds [OF sane, of "cs @ [check PATCH_SHAPE False
        ''Action produced the exact allowlisted minimal patch shape.''
        ''Action produced fields outside its allowlisted patch shape.'']" "Some s" "Some pt"
        POLICY_REJECTED None "Some ''Action patch shape is not allowlisted.''" en w]
    by fastforce
next
  case True
  obtain dr k where dr: "en_dry_run en pt (w_kube w) = (Inr dr, k)" "dry_run_result_problem dr = None"
    using dry by blast
  let ?cs = "cs @ [check PATCH_SHAPE True
      ''Action produced the exact allowlisted minimal patch shape.''
      ''Action produced fields outside its allowlisted patch shape.'',
    check SERVER_DRY_RUN (dry_accepted dr)
      ''Kubernetes server-side dry-run accepted the exact patch.''
      (str_or (dry_error dr) ''Kubernetes server-side dry-run rejected the patch.'')]"
  have msgs: "list_all (\<lambda>c. pc_message c \<noteq> []) ?cs" using cs str_or_nonempty by simp
  have "evaluate_patch en r p cs s pt w =
    (if \<not> dry_accepted dr then decision en r p ?cs DRY_RUN_FAILED (Some s) (Some pt) None
        (Some (str_or (dry_error dr) ''Kubernetes server-side dry-run failed.''))
     else decision en r p ?cs POLICY_PASSED (Some s) (Some pt) (dry_diff dr) None)
      (w\<lparr>w_kube := k\<rparr>)"
    using True dr(1) by (simp add: evaluate_patch_def Let_def seq_def on_kube_def on_part_def)
  moreover have "\<exists>d. decision en r p ?cs DRY_RUN_FAILED (Some s) (Some pt) None
      (Some (str_or (dry_error dr) ''Kubernetes server-side dry-run failed.'')) (w\<lparr>w_kube := k\<rparr>)
    = (Inr d, w\<lparr>w_kube := k, w_readings := Suc (w_readings w)\<rparr>)" if "\<not> dry_accepted dr"
    using decision_succeeds [OF sane _ msgs, of "Some s" "Some pt" DRY_RUN_FAILED None
        "Some (str_or (dry_error dr) ''Kubernetes server-side dry-run failed.'')" en
        "w\<lparr>w_kube := k\<rparr>"] s pt that by simp
  moreover have "\<exists>d. decision en r p ?cs POLICY_PASSED (Some s) (Some pt) (dry_diff dr) None
      (w\<lparr>w_kube := k\<rparr>) = (Inr d, w\<lparr>w_kube := k, w_readings := Suc (w_readings w)\<rparr>)"
    if "dry_accepted dr"
    using decision_succeeds [OF sane _ msgs, of "Some s" "Some pt" POLICY_PASSED "dry_diff dr" None en
        "w\<lparr>w_kube := k\<rparr>"] s pt cs that dr(2) by (auto simp: dry_run_result_problem_def)
  ultimately show ?thesis by (cases "dry_accepted dr") auto
qed

section \<open>Properties\<close>

text \<open>C20. The policy passes exactly what its specification authorizes. Whatever the providers
  return, a decision has status passed if and only if the Enrollment snapshot and the live
  Deployment state they returned authorize the proposal (its Incident, current evidence, ready
  Enrollment, an executable unprotected workload that allows the action, safe revision or
  replica bounds and quota, no active Intervention), the minimal patch of the action has the
  exact allowlisted shape, and the server accepted exactly that patch in a dry-run; and then the
  decision binds that patch and the version, generation and revision of that state.\<close>

theorem policy_passes_iff_authorized:
  assumes "evaluate en r p w = (Inr d, w')"
  shows "pd_status d = POLICY_PASSED \<longleftrightarrow>
    (\<exists>e k1 s k2 pt dr k3.
       en_enrollment en (ir_application_profile r) (w_kube w) = (Inr e, k1)
       \<and> en_inspect en (action_target (rp_action p)) k1 = (Inr (Some s), k2)
       \<and> proposal_authorized (en_digest en) r p e s
       \<and> build_patch (rp_action p) s = Inr pt \<and> patch_shape_is_exact pt
       \<and> en_dry_run en pt k2 = (Inr dr, k3) \<and> dry_accepted dr
       \<and> pd_patch d = Some pt \<and> pd_dry_run_diff d = dry_diff dr
       \<and> pd_workload_resource_version d = Some (ds_resource_version s)
       \<and> pd_workload_generation d = Some (ds_generation s)
       \<and> pd_workload_revision d = Some (ds_current_revision s))"
  using assms
proof (rule evaluate_Inr)
  fix e k1 state k2
  assume e: "en_enrollment en (ir_application_profile r) (w_kube w) = (Inr e, k1)"
    and st: "en_inspect en (action_target (rp_action p)) k1 = (Inr state, k2)"
    and disj: "(\<exists>s pt. state = Some s \<and> proposal_authorized (en_digest en) r p e s
        \<and> build_patch (rp_action p) s = Inr pt
        \<and> evaluate_patch en r p (preflight_checks (en_digest en) r p
            (er_ready (check_enrollment (ir_application_profile r) e)) state) s pt
            (w\<lparr>w_kube := k2\<rparr>) = (Inr d, w'))
     \<or> \<not> (\<exists>s. state = Some s \<and> proposal_authorized (en_digest en) r p e s)
        \<and> pd_status d = POLICY_REJECTED \<and> pd_patch d = None
        \<and> w' = w\<lparr>w_kube := k2, w_readings := Suc (w_readings w)\<rparr>"
  from disj show ?thesis
  proof (elim disjE exE conjE)
    fix s pt
    assume s: "state = Some s" "proposal_authorized (en_digest en) r p e s"
      "build_patch (rp_action p) s = Inr pt" and ev: "evaluate_patch en r p
        (preflight_checks (en_digest en) r p
            (er_ready (check_enrollment (ir_application_profile r) e)) state) s pt
        (w\<lparr>w_kube := k2\<rparr>) = (Inr d, w')"
    from evaluate_patch_Inr [OF ev] e st s show ?thesis by auto
  next
    assume "\<not> (\<exists>s. state = Some s \<and> proposal_authorized (en_digest en) r p e s)"
      "pd_status d = POLICY_REJECTED"
    with e st show ?thesis by auto
  qed
qed

theorem policy_passes_iff_authorized_witness:
  "\<exists>d. fst sample_evaluation = Inr d \<and> pd_patch d \<noteq> None
     \<and> pd_workload_resource_version d = Some ''rv1''"
proof -
  obtain d where d: "fst sample_evaluation = Inr d" and passed: "pd_status d = POLICY_PASSED"
    using sample_evaluation_passes by (auto simp: status_of_def split: sum.splits)
  then have run: "evaluate sample_environment sample_proposed sample_proposal (sample_world [])
      = (Inr d, snd sample_evaluation)" by (simp add: sample_evaluation_def prod_eq_iff)
  show ?thesis
    using policy_passes_iff_authorized [OF run] passed d
    by (auto simp: sample_proposal_def sample_environment_def ret_def sample_world_def
        sample_cluster_def sample_state_def fake_inspect_run)
qed

text \<open>C21. The policy always decides: for a validated proposal, and providers that return a snapshot,
  a valid Deployment state or none, and valid dry-run results, evaluation returns a decision that
  satisfies the decision's validator and names the incident and the proposal; and when the
  proposal is not authorized the decision is a rejection, no patch is built, and the cluster is
  left as the two inspections left it: no dry-run is sent.\<close>

theorem policy_always_decides:
  assumes "sane_inputs r p"
    and "en_enrollment en (ir_application_profile r) (w_kube w) = (Inr e, k1)"
    and "en_inspect en (action_target (rp_action p)) k1 = (Inr state, k2)"
    and "pred_option wf_deployment_policy_state state"
    and "\<And>s pt. state = Some s \<Longrightarrow> build_patch (rp_action p) s = Inr pt \<Longrightarrow>
      \<exists>dr k. en_dry_run en pt k2 = (Inr dr, k) \<and> dry_run_result_problem dr = None"
  shows "\<exists>d w'. evaluate en r p w = (Inr d, w') \<and> wf_policy_decision d
    \<and> pd_incident_id d = inc_incident_id (ir_incident r) \<and> pd_proposal_id d = rp_proposal_id p
    \<and> (\<not> (\<exists>s. state = Some s \<and> proposal_authorized (en_digest en) r p e s)
        \<longrightarrow> pd_status d = POLICY_REJECTED \<and> pd_patch d = None \<and> w_kube w' = k2)"
proof -
  let ?cs = "preflight_checks (en_digest en) r p
    (er_ready (check_enrollment (ir_application_profile r) e)) state"
  have "\<exists>d w'. evaluate en r p w = (Inr d, w') \<and> wf_policy_decision d"
  proof (cases "\<exists>s. state = Some s \<and> proposal_authorized (en_digest en) r p e s")
    case True
    then obtain s where s: "state = Some s" "proposal_authorized (en_digest en) r p e s" by blast
    then obtain pt where pt: "build_patch (rp_action p) s = Inr pt"
      using build_patch_authorized by blast
    have pass: "list_all pc_passed ?cs" using s by (simp add: preflight_passes)
    have swf: "wf_deployment_policy_state s" using assms(4) s(1) by simp
    have dry: "\<exists>dr k. en_dry_run en pt (w_kube (w\<lparr>w_kube := k2\<rparr>)) = (Inr dr, k)
        \<and> dry_run_result_problem dr = None" using assms(5) [OF s(1) pt] by simp
    obtain d w' where ev: "evaluate_patch en r p ?cs s pt (w\<lparr>w_kube := k2\<rparr>) = (Inr d, w')"
      using evaluate_patch_succeeds [OF assms(1) swf wf_built_patch [OF assms(1) swf pt]
          preflight_checks_nonempty preflight_checks_messages pass dry] by blast
    then have run: "evaluate en r p w = (Inr d, w')" using assms(2,3) s(1) pt pass
      by (simp add: evaluate_def seq_def on_kube_def on_part_def Let_def lift_result_def
          preflight_failure_None [THEN iffD2])
    have "wf_policy_decision d" using ev
      by (auto simp: evaluate_patch_def Let_def seq_Inr split: if_splits dest!: decision_Inr)
    with run show ?thesis by blast
  next
    case False
    then have fail: "\<not> list_all pc_passed ?cs" by (simp add: preflight_passes)
    then obtain m where m: "preflight_failure ?cs = Some m"
      using preflight_failure_None by (metis option.exhaust)
    obtain d where d: "decision en r p ?cs POLICY_REJECTED state None None
        (Some (str_or (Some m) ''Policy preflight failed.'')) (w\<lparr>w_kube := k2\<rparr>)
      = (Inr d, w\<lparr>w_kube := k2, w_readings := Suc (w_readings w)\<rparr>)"
      using decision_succeeds [OF assms(1) preflight_checks_nonempty preflight_checks_messages
          assms(4), of None POLICY_REJECTED "en_digest en" r p _ state None
          "Some (str_or (Some m) ''Policy preflight failed.'')" en "w\<lparr>w_kube := k2\<rparr>"] fail
      by fastforce
    then have "evaluate en r p w = (Inr d, w\<lparr>w_kube := k2, w_readings := Suc (w_readings w)\<rparr>)"
      using assms(2,3) m by (simp add: evaluate_def seq_def on_kube_def on_part_def Let_def)
    then show ?thesis using decision_Inr [OF d] by blast
  qed
  then obtain d w' where run: "evaluate en r p w = (Inr d, w')" and "wf_policy_decision d" by blast
  then show ?thesis using assms(2,3)
    by (auto elim!: evaluate_Inr intro!: exI [of _ d] exI [of _ w'])
qed

theorem policy_always_decides_witness:
  "\<exists>d w'. evaluate sample_environment sample_proposed sample_proposal (sample_world []) = (Inr d, w')
    \<and> wf_policy_decision d"
proof -
  have sane: "sane_inputs sample_proposed sample_proposal" by code_simp
  have st: "pred_option wf_deployment_policy_state (Some sample_state)" by code_simp
  have patch: "fst (fake_dry_run rp pt sample_cluster)
      = Inr \<lparr>dry_accepted = True, dry_diff = Some (dry_run_diff rp pt sample_state spec), dry_error = None\<rparr>"
    if "pt = patch_of (ScaleDeploymentAction sample_target 3) sample_state spec" for pt spec rp
    using that by (simp add: fake_dry_run_def patch_of_def sample_cluster_def dict_of_def Let_def)
  have dry: "\<exists>dr k. en_dry_run sample_environment pt sample_cluster = (Inr dr, k)
      \<and> dry_run_result_problem dr = None"
    if "Some sample_state = Some s" "build_patch (rp_action sample_proposal) s = Inr pt" for s pt
  proof -
    have "pt = patch_of (ScaleDeploymentAction sample_target 3) sample_state [(''replicas'', JInt 3)]"
      using that by (simp add: sample_proposal_def build_patch_minimal)
    from patch [OF this] show ?thesis
      by (auto simp: sample_environment_def dry_run_result_problem_def prod_eq_iff)
  qed
  have e: "en_enrollment sample_environment (ir_application_profile sample_proposed)
      (w_kube (sample_world [])) = (Inr (ready_for (ir_application_profile sample_proposed)), sample_cluster)"
    by (simp add: sample_environment_def sample_world_def ret_def)
  have i: "en_inspect sample_environment (action_target (rp_action sample_proposal)) sample_cluster
      = (Inr (Some sample_state), sample_cluster)"
    by (simp add: sample_environment_def fake_inspect_run sample_proposal_def sample_cluster_def)
  have "\<exists>d w'. evaluate sample_environment sample_proposed sample_proposal (sample_world []) = (Inr d, w')
    \<and> wf_policy_decision d
    \<and> pd_incident_id d = inc_incident_id (ir_incident sample_proposed)
    \<and> pd_proposal_id d = rp_proposal_id sample_proposal
    \<and> (\<not> (\<exists>s. Some sample_state = Some s \<and> proposal_authorized (en_digest sample_environment)
            sample_proposed sample_proposal (ready_for (ir_application_profile sample_proposed)) s)
        \<longrightarrow> pd_status d = POLICY_REJECTED \<and> pd_patch d = None \<and> w_kube w' = sample_cluster)"
    by (rule policy_always_decides [OF sane e i st]) (rule dry)
  then show ?thesis by blast
qed

end
