(* ===== verification/Approval_Guarantees.thy ===== *)
theory Approval_Guarantees
  imports Approval_Service Policy_Guarantees
begin

text \<open>
  What an Approval and a published request bind, and the witnesses of the Approval workflow on
  the record \<open>sample_reviewed\<close>.
\<close>

section \<open>A reviewed record\<close>

definition sample_reviewed :: investigation_record where
  "sample_reviewed = sample_proposed\<lparr>ir_incident := (ir_incident sample_proposed)
      \<lparr>inc_lifecycle := AWAITING_APPROVAL, inc_version := 2\<rparr>,
     ir_policy_decision := Some sample_decision\<rparr>"

definition sample_binding :: approval_binding where
  "sample_binding = \<lparr>ab_incident_version = 2,
     ab_proposal_hash = proposal_hash sample_digest sample_proposal,
     ab_evidence_hash = evidence_context_hash sample_digest sample_reviewed,
     ab_workload_resource_version = ''rv1'', ab_workload_generation = 1,
     ab_workload_revision = 1, ab_policy_hash = policy_hash sample_digest sample_decision,
     ab_dry_run_hash = text_hash sample_digest ''diff'',
     ab_recovery_criteria_hash =
       recovery_criteria_hash sample_digest (rp_recovery_criteria sample_proposal),
     ab_failure_strategy_hash = text_hash sample_digest (rp_rollback_strategy sample_proposal),
     ab_expires_at = minutes 67\<rparr>"

definition sample_responder :: operator_identity where
  "sample_responder = \<lparr>oi_principal = ''alice'', oi_subject = ''alice'', oi_role = RESPONDER\<rparr>"

lemma sample_hash_length: "8 \<le> length (canonical_hash sample_digest j)"
  by (simp add: canonical_hash_def sample_digest_def)

lemmas sample_hash_lengths = sample_hash_length proposal_hash_def evidence_context_hash_def
  policy_hash_def text_hash_def recovery_criteria_hash_def

lemma sample_reviewed_simps:
  "ir_proposal sample_reviewed = Some sample_proposal"
  "ir_policy_decision sample_reviewed = Some sample_decision"
  "ir_approvals sample_reviewed = []" "inc_version (ir_incident sample_reviewed) = 2"
  "inc_incident_id (ir_incident sample_reviewed) = ''inc-1''"
  "ir_interventions sample_reviewed = []" "ir_audit_events sample_reviewed = []"
  by (simp_all add: sample_reviewed_def sample_proposed_def sample_monitoring_def)

lemma sample_binding_built:
  "build_approval_binding sample_digest sample_reviewed sample_state (minutes 67) = Inr sample_binding"
  by (simp add: build_approval_binding_def sample_reviewed_simps sample_decision_def
      sample_state_def approval_binding_fields_def Let_def sample_hash_lengths)
     (simp add: sample_binding_def sample_hash_lengths sample_decision_def)

text \<open>Which parts of an Approval the validity of a record with one Approval reads.\<close>

lemma wf_record_approval_cong:
  assumes "wf_record (r\<lparr>ir_approvals := [a]\<rparr>)" "wf_approval b"
    and "apr_incident_id b = apr_incident_id a" "apr_proposal_id b = apr_proposal_id a"
    and "ir_interventions r = []"
  shows "wf_record (r\<lparr>ir_approvals := [b]\<rparr>)"
proof -
  have n: "nested_entries_wf (r\<lparr>ir_approvals := [b]\<rparr>)"
    using assms(1,2) by (simp add: wf_record_def nested_entries_wf_def)
  have "scoped_entries (r\<lparr>ir_approvals := [b]\<rparr>) = scoped_entries (r\<lparr>ir_approvals := [a]\<rparr>)"
    "entry_incident_ids (r\<lparr>ir_approvals := [b]\<rparr>) = entry_incident_ids (r\<lparr>ir_approvals := [a]\<rparr>)"
    "record_citations (r\<lparr>ir_approvals := [b]\<rparr>) = record_citations (r\<lparr>ir_approvals := [a]\<rparr>)"
    using assms(3) by (simp_all add: scoped_entries_def entry_incident_ids_def record_citations_def)
  then have "investigation_record_problem (r\<lparr>ir_approvals := [b]\<rparr>)
      = investigation_record_problem (r\<lparr>ir_approvals := [a]\<rparr>)"
    using assms(4,5) by (simp add: investigation_record_problem_def Let_def cong: option.case_cong)
  with n assms(1) show ?thesis by (simp add: wf_record_def)
qed

section \<open>Properties\<close>

text \<open>C19. An Approval binds everything it was given for: if SHA-256 does not collide on the texts that
  are compared (and the ISO text of an instant determines it), an Approval that matches two
  records can only do so when both have the same proposal, the same evidence window, the same
  evidence in the same order, and the same policy decision (up to the order of keys in the
  patch body).\<close>

theorem approval_binds_its_context:
  assumes "approval_matches_record g r a" and "approval_matches_record g r' a"
    and "inj (dg_isoformat g)"
    and "ir_proposal r = Some p" and "ir_proposal r' = Some p'"
    and "ir_policy_decision r = Some d" and "ir_policy_decision r' = Some d'"
    and "collision_free g (dump_proposal p) (dump_proposal p')"
    and "collision_free g (evidence_material g r) (evidence_material g r')"
    and "collision_free g (dump_policy_decision g d) (dump_policy_decision g d')"
  shows "p = p' \<and> ir_evidence_window r = ir_evidence_window r' \<and> ir_evidence r = ir_evidence r'
    \<and> normal_decision d = normal_decision d'"
proof -
  have "apr_proposal_hash a = proposal_hash g p" "apr_evidence_hash a = evidence_context_hash g r"
    "apr_policy_hash a = policy_hash g d"
    using approval_matches_recordE [OF assms(1)] assms(4,6) by (metis option.inject)+
  moreover have "apr_proposal_hash a = proposal_hash g p'"
    "apr_evidence_hash a = evidence_context_hash g r'" "apr_policy_hash a = policy_hash g d'"
    using approval_matches_recordE [OF assms(2)] assms(5,7) by (metis option.inject)+
  ultimately have "proposal_hash g p = proposal_hash g p'"
    "evidence_context_hash g r = evidence_context_hash g r'" "policy_hash g d = policy_hash g d'"
    by simp_all
  then have "sort_keys (dump_proposal p) = sort_keys (dump_proposal p')"
    "sort_keys (evidence_material g r) = sort_keys (evidence_material g r')"
    "sort_keys (dump_policy_decision g d) = sort_keys (dump_policy_decision g d')"
    using canonical_hash_eq assms(8-10)
    by (simp_all add: proposal_hash_def evidence_context_hash_def policy_hash_def)
  then show ?thesis
    using dump_proposal_inj evidence_material_inj [OF assms(3)]
      dump_policy_decision_inj [OF assms(3)] by blast
qed

lemma sample_collision_free: "collision_free sample_digest a b"
  by (simp add: collision_free_def sample_digest_def)

lemma sample_isoformat_inj: "inj (dg_isoformat sample_digest)"
  by (simp add: sample_digest_def inj_def int_str_inj)

definition sample_real_approval :: approval where
  "sample_real_approval = approval_of ''approval-1'' ''inc-1'' sample_proposal sample_responder
     APPROVED (minutes 63) (minutes 67) sample_binding"

lemma sample_real_approval_matches:
  "approval_matches_record sample_digest sample_reviewed sample_real_approval"
  unfolding sample_real_approval_def
  by (rule approval_of_matches [OF sample_binding_built sample_reviewed_simps(1)])

theorem approval_binds_its_context_witness:
  "\<forall>e. ir_evidence sample_reviewed = ir_evidence (with_event e sample_reviewed)
   \<and> approval_matches_record sample_digest (with_event e sample_reviewed) sample_real_approval"
proof
  fix e
  have m: "approval_matches_record sample_digest (with_event e sample_reviewed) sample_real_approval"
    using sample_real_approval_matches
      approval_matches_record_cong [of "with_event e sample_reviewed" sample_reviewed] by simp
  from approval_binds_its_context [OF sample_real_approval_matches m sample_isoformat_inj
      sample_reviewed_simps(1) _ sample_reviewed_simps(2) _ sample_collision_free
      sample_collision_free sample_collision_free, of sample_proposal sample_decision] m
  show "ir_evidence sample_reviewed = ir_evidence (with_event e sample_reviewed)
   \<and> approval_matches_record sample_digest (with_event e sample_reviewed) sample_real_approval"
    by (simp add: sample_reviewed_simps)
qed

text \<open>A queue message is tamper-evident: if SHA-256 does not collide on the two texts, two
  messages with the same payload hash, each with a correct hash, agree in every field (the
  patch body up to the order of keys).\<close>

theorem request_hash_binds_message:
  assumes "iq_payload_hash q = intervention_request_hash g q"
    and "iq_payload_hash q' = intervention_request_hash g q'"
    and "iq_payload_hash q = iq_payload_hash q'" and "inj (dg_isoformat g)"
    and "collision_free g (dump_request g q) (dump_request g q')"
  shows "q\<lparr>iq_patch := normal_patch (iq_patch q)\<rparr> = q'\<lparr>iq_patch := normal_patch (iq_patch q')\<rparr>"
proof -
  have "canonical_hash g (dump_request g q) = canonical_hash g (dump_request g q')"
    using assms(1-3) by (simp add: intervention_request_hash_def)
  from canonical_hash_eq [OF assms(5) this]
  show ?thesis using assms(3) by (cases q; cases q') (simp add: dump_request_inj [OF assms(4)])
qed

definition sample_request :: intervention_request where
  "sample_request = (let draft = \<lparr>iq_request_id = ''request-1'', iq_incident_id = ''inc-1'',
      iq_proposal_id = ''p1'', iq_approval_id = ''a1'', iq_target = sample_target,
      iq_patch = sample_patch, iq_requested_at = minutes 63, iq_idempotency_key = ''12345678'',
      iq_payload_hash = []\<rparr>
    in draft\<lparr>iq_payload_hash := intervention_request_hash sample_digest draft\<rparr>)"

definition tampered_request :: intervention_request where
  "tampered_request = (let draft = sample_request\<lparr>iq_incident_id := ''inc-2''\<rparr>
    in draft\<lparr>iq_payload_hash := intervention_request_hash sample_digest draft\<rparr>)"

theorem request_hash_binds_message_witness:
  "iq_payload_hash tampered_request \<noteq> iq_payload_hash sample_request"
proof
  assume same: "iq_payload_hash tampered_request = iq_payload_hash sample_request"
  have "iq_payload_hash sample_request = intervention_request_hash sample_digest sample_request"
    by (simp add: sample_request_def Let_def intervention_request_hash_def dump_request_def)
  moreover have "iq_payload_hash tampered_request = intervention_request_hash sample_digest tampered_request"
    by (simp add: tampered_request_def Let_def intervention_request_hash_def dump_request_def)
  ultimately have "tampered_request\<lparr>iq_patch := normal_patch (iq_patch tampered_request)\<rparr>
      = sample_request\<lparr>iq_patch := normal_patch (iq_patch sample_request)\<rparr>"
    using request_hash_binds_message [of tampered_request sample_digest sample_request] same
      sample_isoformat_inj sample_collision_free by blast
  from arg_cong [OF this, of iq_incident_id] show False
    by (simp add: tampered_request_def sample_request_def Let_def)
qed

text \<open>The queue is idempotent: publishing a request that is already queued succeeds and changes
  nothing, publishing another payload under a used key fails and changes nothing, and no key is
  ever lost or overwritten.\<close>

theorem queue_is_idempotent:
  "publish q d = (r, d') \<Longrightarrow>
     (dict_get d (iq_idempotency_key q) = Some q \<longrightarrow> r = Inr () \<and> d' = d)
     \<and> (\<forall>x. dict_get d (iq_idempotency_key q) = Some x \<and> x \<noteq> q \<longrightarrow> \<not> (\<exists>u. r = Inr u) \<and> d' = d)
     \<and> (\<forall>k x. dict_get d k = Some x \<longrightarrow> dict_get d' k = Some x)
     \<and> (r = Inr () \<longrightarrow> dict_get d' (iq_idempotency_key q) = Some q)"
  by (auto simp: publish_def dict_get_set dict_set_same split: option.splits if_splits)

theorem queue_is_idempotent_witness:
  "snd (publish sample_request (snd (publish sample_request []))) = snd (publish sample_request [])"
proof -
  have "publish sample_request (snd (publish sample_request []))
      = (fst (publish sample_request (snd (publish sample_request []))),
         snd (publish sample_request (snd (publish sample_request []))))" by simp
  from queue_is_idempotent [OF this] show ?thesis by (simp add: publish_def)
qed

section \<open>A run of the workflow\<close>

definition sample_review_world :: "fake_cluster world" where
  "sample_review_world = sample_world [(''inc-1'', sample_reviewed)]"

lemma sample_review_inv: "store_inv (w_store sample_review_world)"
  by code_simp

definition sample_decided :: "approval \<Rightarrow> audit_event \<Rightarrow> investigation_record" where
  "sample_decided a e = with_event e (sample_reviewed
     \<lparr>ir_incident := bump_version (ir_incident sample_reviewed) 2, ir_approvals := [a]\<rparr>)"

lemma sample_fresh_context:
  "fresh_context sample_environment ''inc-1'' sample_responder sample_binding sample_review_world
     = (Inr (minutes 63, sample_proposal), sample_review_world\<lparr>w_readings := 1\<rparr>)"
  using sample_binding_built
  by (simp add: fresh_context_def require_responder_def raise_when_def seq_def ret_def now_act_def
      sample_responder_def sample_environment_def sample_review_world_def sample_world_def
      undecided_proposal_def get_record_def gets_def store_get_def sample_reviewed_simps
      live_state_def on_kube_def on_part_def fake_inspect_run sample_cluster_def
      binding_now_def lift_result_def sample_binding_def sample_proposal_def timedelta_defs)

lemma sample_decided_wf:
  assumes "wf_approval a" "apr_incident_id a = ''inc-1''"
    "apr_proposal_id a = ''p1''" "wf_audit_event e" "ae_incident_id e = ''inc-1''"
  shows "wf_record (sample_decided a e)"
proof -
  let ?b = "sample_reviewed\<lparr>ir_incident := bump_version (ir_incident sample_reviewed) 2\<rparr>"
  have "wf_record (?b\<lparr>ir_approvals := [sample_approval]\<rparr>)" by code_simp
  then have "wf_record (?b\<lparr>ir_approvals := [a]\<rparr>)"
    by (rule wf_record_approval_cong) (use assms in \<open>simp_all add: sample_approval_def sample_reviewed_simps\<close>)
  moreover have "audit_ok (?b\<lparr>ir_approvals := [a]\<rparr>)"
    by (simp add: audit_ok_def sample_reviewed_simps)
  moreover have "append_audit_event_record (inc_incident_id (ir_incident (?b\<lparr>ir_approvals := [a]\<rparr>))) e
      (?b\<lparr>ir_approvals := [a]\<rparr>) = Inr (sample_decided a e)"
    using assms(5) by (simp add: append_audit_event_record_def guarded_def first_problem.simps
        sample_reviewed_simps sample_decided_def)
  ultimately show ?thesis using wf_record_append_audit_event assms(4) by blast
qed

definition sample_approved :: approval where
  "sample_approved = approval_of ''approval-uuid-0000'' ''inc-1'' sample_proposal sample_responder
     APPROVED (minutes 63) (minutes 67) sample_binding"

lemma sample_proposal_simps:
  "rp_proposal_id sample_proposal = ''p1''" "rp_incident_id sample_proposal = ''inc-1''"
  "rp_action sample_proposal = ScaleDeploymentAction sample_target 3"
  by (simp_all add: sample_proposal_def)

lemma sample_approved_wf: "wf_approval sample_approved"
  by (simp add: wf_approval_def approval_fields_def approval_problem_def sample_approved_def
      approval_of_def sample_binding_def sample_responder_def sample_proposal_simps
      sample_hash_lengths timedelta_defs)

lemma sample_approved_matches:
  "ir_proposal r = ir_proposal sample_reviewed \<Longrightarrow>
   ir_policy_decision r = ir_policy_decision sample_reviewed \<Longrightarrow>
   ir_evidence_window r = ir_evidence_window sample_reviewed \<Longrightarrow>
   ir_evidence r = ir_evidence sample_reviewed \<Longrightarrow>
     approval_matches_record sample_digest r sample_approved"
  using approval_of_matches [OF sample_binding_built sample_reviewed_simps(1)]
    approval_matches_record_cong [of r sample_reviewed]
  by (simp add: sample_approved_def)

lemma sample_approved_simps:
  "apr_incident_id sample_approved = ''inc-1''" "apr_proposal_id sample_approved = ''p1''"
  "apr_expires_at sample_approved = minutes 67" "apr_decision sample_approved = APPROVED"
  "apr_approval_id sample_approved = ''approval-uuid-0000''"
  by (simp_all add: sample_approved_def approval_of_def sample_proposal_simps)

definition sample_review_event :: audit_event where
  "sample_review_event = \<lparr>ae_event_id = ''audit-uuid-0001'', ae_incident_id = ''inc-1'',
     ae_event_type = ''proposal_approved'', ae_occurred_at = minutes 63, ae_actor = ''alice'',
     ae_details = [(''approval_id'', ''approval-uuid-0000''), (''proposal_id'', ''p1''),
       (''decision'', ''approved''), (''subject'', ''alice''),
       (''proposal_hash'', apr_proposal_hash sample_approved)], ae_cursor = 0\<rparr>"

lemma sample_recorded:
  "record_approval_decision sample_digest (minutes 63 + seconds 1) ''inc-1'' 2 sample_approved
     sample_review_event [(''inc-1'', sample_reviewed)]
   = (Inr (sample_decided sample_approved sample_review_event),
      [(''inc-1'', sample_decided sample_approved sample_review_event)])"
proof -
  have "wf_record (sample_decided sample_approved sample_review_event)"
    by (rule sample_decided_wf [OF sample_approved_wf])
      (simp_all add: sample_approved_simps sample_review_event_def wf_audit_event_def)
  then have v: "validate_record (with_event sample_review_event (sample_reviewed
      \<lparr>ir_incident := bump_version (ir_incident sample_reviewed) 2, ir_approvals := [sample_approved]\<rparr>))
    = Inr (sample_decided sample_approved sample_review_event)"
    by (simp add: validate_record_Inr sample_decided_def)
  have "record_approval_record sample_digest (minutes 63 + seconds 1) ''inc-1'' 2 sample_approved
      sample_review_event sample_reviewed = Inr (sample_decided sample_approved sample_review_event)"
    using v sample_approved_matches [of sample_reviewed]
    by (simp add: record_approval_record_def guarded_def first_problem.simps sample_reviewed_simps
        sample_approved_simps timedelta_defs) (simp add: sample_review_event_def)
  then show ?thesis
    by (simp add: record_approval_decision_def store_update_def required_record_def store_get_def
        store_replace_def) (simp add: sample_decided_def sample_reviewed_simps)
qed

lemma nat_str_digits_eval:
  "nat_str 0 = ''0''" "nat_str (Suc 0) = ''1''" "nat_str 2 = ''2''"
  by code_simp+

lemma sample_record_decision:
  "record_decision sample_environment ''inc-1'' sample_responder APPROVED sample_binding (minutes 63)
     sample_proposal (sample_review_world\<lparr>w_readings := 1\<rparr>)
   = (Inr (sample_approved, sample_decided sample_approved sample_review_event),
      sample_review_world\<lparr>w_readings := 2, w_uuids := 2,
        w_store := [(''inc-1'', sample_decided sample_approved sample_review_event)]\<rparr>)"
proof -
  have exp: "ab_expires_at sample_binding = minutes 67" "ab_incident_version sample_binding = 2"
    by (simp_all add: sample_binding_def)
  have who: "oi_principal sample_responder = ''alice''" "oi_subject sample_responder = ''alice''"
    by (simp_all add: sample_responder_def)
  have a: "approval_of ''approval-uuid-0000'' ''inc-1'' sample_proposal
      sample_responder APPROVED (minutes 63) (minutes 67) sample_binding = sample_approved"
    by (simp add: sample_approved_def)
  show ?thesis
    using sample_recorded sample_approved_wf
    by (simp add: record_decision_def seq_def uuid4_def lift_result_def new_event_def now_act_def
        ret_def try_except_def on_store_def on_part_def validate_approval_def exp a
        sample_environment_def nat_str_digits_eval sample_review_world_def sample_world_def
        sample_review_event_def who sample_approved_simps numeral_2_eq_2)
qed

abbreviation sample_approved_record :: investigation_record where
  "sample_approved_record \<equiv> sample_decided sample_approved sample_review_event"

lemma sample_approved_record_simps:
  "ir_proposal sample_approved_record = Some sample_proposal"
  "ir_policy_decision sample_approved_record = Some sample_decision"
  "inc_incident_id (ir_incident sample_approved_record) = ''inc-1''"
  "ir_evidence sample_approved_record = ir_evidence sample_reviewed"
  "ir_evidence_window sample_approved_record = ir_evidence_window sample_reviewed"
  by (simp_all add: sample_decided_def sample_reviewed_simps)

lemma sample_request_built:
  "\<exists>q. build_intervention_request sample_digest sample_approved_record sample_approved (minutes 63)
     = Inr q"
proof -
  have match: "approval_matches_record sample_digest sample_approved_record sample_approved"
    by (rule sample_approved_matches) (simp_all add: sample_approved_record_simps sample_reviewed_simps)
  have len: "8 \<le> length (canonical_hash sample_digest j)" for j by (rule sample_hash_length)
  have t: "action_target (rp_action sample_proposal) = sample_target" by (simp add: sample_proposal_simps)
  have patch: "wf_deployment_patch sample_patch" by code_simp
  have target: "workload_reference_fields sample_target" by code_simp
  have same: "dp_target sample_patch = sample_target" by (simp add: sample_patch_def)
  have "wf_intervention_request (draft_request sample_digest sample_approved_record sample_proposal
      sample_approved sample_patch (minutes 63))"
    using len patch target by (simp add: wf_intervention_request_def intervention_request_fields_def
        intervention_request_problem_def draft_request_def Let_def t sample_approved_record_simps
        sample_proposal_simps sample_approved_simps same)
  then show ?thesis using match
    by (simp add: build_intervention_request_def sample_approved_record_simps sample_approved_simps
        sample_decision_def Let_def timedelta_defs sample_proposal_simps)
qed

lemma sample_decide_run:
  "\<exists>r' w'. decide sample_environment (Some publish) ''inc-1'' sample_responder APPROVED sample_binding
     sample_review_world = (Inr r', w')"
proof -
  obtain q where q: "build_intervention_request sample_digest sample_approved_record sample_approved
      (minutes 63) = Inr q" using sample_request_built by blast
  define e where "e = \<lparr>ae_event_id = ''audit-uuid-0002'', ae_incident_id = ''inc-1'',
    ae_event_type = ''intervention_requested'', ae_occurred_at = minutes 63,
    ae_actor = ''investigator'', ae_details = [(''request_id'', iq_request_id q),
      (''approval_id'', iq_approval_id q), (''idempotency_key'', iq_idempotency_key q),
      (''payload_hash'', iq_payload_hash q)], ae_cursor = 0\<rparr>"
  have "append_audit_event ''inc-1'' e [(''inc-1'', sample_approved_record)]
      = (Inr (with_event e sample_approved_record), [(''inc-1'', with_event e sample_approved_record)])"
    by (simp add: append_audit_event_def store_update_def required_record_def store_get_def
        append_audit_event_record_def guarded_def first_problem.simps e_def store_replace_def
        sample_approved_record_simps)
      (simp add: sample_decided_def sample_reviewed_simps sample_review_event_def)
  then have pub: "\<exists>w'. publish_request sample_environment publish ''inc-1'' sample_approved_record sample_approved
      (minutes 63) (sample_review_world\<lparr>w_readings := 2, w_uuids := 2,
        w_store := [(''inc-1'', sample_approved_record)]\<rparr>) = (Inr (with_event e sample_approved_record), w')"
    using q by (simp add: publish_request_def seq_def lift_result_def on_queue_def on_part_def publish_def
        new_event_def uuid4_def ret_def on_store_def sample_environment_def nat_str_digits_eval e_def
        sample_review_world_def sample_world_def)
  then show ?thesis
    using sample_record_decision
    by (auto simp: decide_def seq_def sample_fresh_context)
qed



end
