(* ===== verification/Executor.thy ===== *)
theory Executor
  imports Approval_Service Fake_Cluster
begin

text \<open>
  The Intervention Executor (\<open>DeterministicInterventionExecutor\<close> of
  \<open>services/intervention_executor.py\<close>): it consumes one approved request, revalidates it against
  the record and the live Deployment, applies exactly the approved patch under a workload lease,
  and records what happened. The two local variables the exception handlers read, \<open>claimed\<close> and
  \<open>lease\<close>, are part of the state of the \<open>try\<close> block (\<open>execution_locals\<close>).
\<close>

section \<open>The local variables of the try block\<close>

record execution_locals =
  el_claimed :: bool
  el_lease :: workload_lease

type_synonym 'k execution = "'k world \<times> execution_locals"

definition locally :: "('k world, 'a) act \<Rightarrow> ('k execution, 'a) act" where
  "locally m = (\<lambda>(w, l). case m w of (r, w') \<Rightarrow> (r, (w', l)))"

definition set_claimed :: "('k execution, unit) act" where
  "set_claimed = (\<lambda>(w, l). (Inr (), (w, l\<lparr>el_claimed := True\<rparr>)))"

definition set_lease :: "workload_lease \<Rightarrow> ('k execution, unit) act" where
  "set_lease x = (\<lambda>(w, l). (Inr (), (w, l\<lparr>el_lease := x\<rparr>)))"

definition with_locals :: "execution_locals \<Rightarrow> ('k execution, 'a) act \<Rightarrow> ('k world, 'a) act" where
  "with_locals l m = (\<lambda>w. case m (w, l) of (r, (w', _)) \<Rightarrow> (r, w'))"

section \<open>Audit events\<close>

definition executor_error :: "string \<Rightarrow> ('w, 'a) act" where
  "executor_error m = raise (InterventionExecutionError m)"

definition executor_event ::
  "'k environment \<Rightarrow> intervention_request \<Rightarrow> string \<Rightarrow> datetime \<Rightarrow> (string \<times> string) list
     \<Rightarrow> ('k world, audit_event) act" where
  "executor_event en request event_type occurred_at details =
     new_event en (iq_incident_id request) event_type occurred_at ''deterministic-executor''
       ([(''request_id'', iq_request_id request),
         (''idempotency_key'', iq_idempotency_key request)] @ details)"

definition audit ::
  "'k environment \<Rightarrow> intervention_request \<Rightarrow> string \<Rightarrow> datetime \<Rightarrow> (string \<times> string) list
     \<Rightarrow> ('k world, unit) act" where
  "audit en request event_type occurred_at details =
    seq (executor_event en request event_type occurred_at details) (\<lambda>event.
    seq (on_store (append_audit_event (iq_incident_id request) event)) (\<lambda>_. ret ()))"

text \<open>The same with \<open>self._clock()\<close> as its time.\<close>

definition audit_now ::
  "'k environment \<Rightarrow> intervention_request \<Rightarrow> string \<Rightarrow> (string \<times> string) list
     \<Rightarrow> ('k world, unit) act" where
  "audit_now en request event_type details =
    seq (now_act en) (\<lambda>t. audit en request event_type t details)"

text \<open>\<open>store.update_intervention\<close> with the event of the new state.\<close>

definition close_intervention ::
  "'k environment \<Rightarrow> intervention_request \<Rightarrow> intervention \<Rightarrow> string \<Rightarrow> (string \<times> string) list
     \<Rightarrow> ('k world, unit) act" where
  "close_intervention en request updated event_type details =
    seq (now_act en) (\<lambda>t.
    seq (executor_event en request event_type t details) (\<lambda>event.
    seq (on_store (update_intervention (iq_incident_id request) updated event)) (\<lambda>_. ret ())))"

definition record_safe_halt ::
  "'k environment \<Rightarrow> intervention \<Rightarrow> intervention_request \<Rightarrow> string \<Rightarrow> ('k world, unit) act" where
  "record_safe_halt en intervention request reason =
    seq (get_record (iq_incident_id request)) (\<lambda>found. case found of
      None \<Rightarrow> ret ()
    | Some current \<Rightarrow>
        (case List.find (\<lambda>v. iv_intervention_id v = iv_intervention_id intervention)
            (ir_interventions current) of
           None \<Rightarrow> ret ()
         | Some stored \<Rightarrow>
             if iv_state stored \<noteq> RUNNING then ret ()
             else close_intervention en request (intervention\<lparr>iv_state := IV_SAFE_HALTED\<rparr>)
               ''intervention_safe_halted'' [(''reason'', reason)]))"

definition record_refusal ::
  "'k environment \<Rightarrow> intervention_request \<Rightarrow> string \<Rightarrow> ('k world, unit) act" where
  "record_refusal en request reason =
     audit_now en request ''intervention_refused'' [(''reason'', reason)]"

section \<open>Authority and claim\<close>

text \<open>The checks of the request against the record, before anything is claimed.\<close>

definition request_authority ::
  "digest \<Rightarrow> intervention_request \<Rightarrow> datetime \<Rightarrow> investigation_record
     \<Rightarrow> pyexn + (approval \<times> remediation_proposal)" where
  "request_authority g request now record =
    (let refuse = (\<lambda>m. Inl (InterventionExecutionError m)) in
     if intervention_request_hash g request \<noteq> iq_payload_hash request
     then refuse ''Intervention request payload hash is invalid''
     else (case List.find (\<lambda>a. apr_approval_id a = iq_approval_id request) (ir_approvals record) of
       None \<Rightarrow> refuse ''Intervention lacks current approved authority''
     | Some approval \<Rightarrow>
         if apr_decision approval \<noteq> APPROVED
         then refuse ''Intervention lacks current approved authority''
         else if apr_expires_at approval \<le> now \<or> \<not> approval_matches_record g record approval
         then refuse ''Intervention Approval is stale''
         else (case (ir_proposal record, ir_policy_decision record) of
           (Some proposal, Some policy) \<Rightarrow>
             if pd_status policy \<noteq> POLICY_PASSED
             then refuse ''Intervention policy authority is invalid''
             else if rp_proposal_id proposal \<noteq> iq_proposal_id request
               \<or> action_target (rp_action proposal) \<noteq> iq_target request
               \<or> pd_patch policy \<noteq> Some (iq_patch request)
             then refuse ''Intervention request differs from reviewed policy''
             else Inr (approval, proposal)
         | _ \<Rightarrow> refuse ''Intervention policy authority is invalid'')))"

definition authorize ::
  "'k environment \<Rightarrow> intervention_request \<Rightarrow> datetime
     \<Rightarrow> ('k world, investigation_record \<times> approval \<times> remediation_proposal) act" where
  "authorize en request now =
    seq (get_record (iq_incident_id request)) (\<lambda>found. case found of
      None \<Rightarrow> executor_error ''Intervention Incident disappeared''
    | Some record \<Rightarrow>
        seq (lift_result (request_authority (en_digest en) request now record))
          (\<lambda>(approval, proposal). ret (record, approval, proposal)))"

definition action_type_detail :: "remediation_proposal \<Rightarrow> string \<times> string" where
  "action_type_detail proposal = (''action_type'', action_type_value (action_kind (rp_action proposal)))"

definition claim ::
  "'k environment \<Rightarrow> intervention_request \<Rightarrow> intervention \<Rightarrow> datetime \<Rightarrow> investigation_record
     \<Rightarrow> remediation_proposal \<Rightarrow> ('k execution, unit) act" where
  "claim en request intervention now record proposal =
    seq (gets (\<lambda>(w, l). el_claimed l)) (\<lambda>claimed.
      if claimed
      then locally (audit en request ''intervention_resumed'' now [action_type_detail proposal])
      else seq (locally (seq (executor_event en request ''intervention_claimed'' now
               [action_type_detail proposal]) (\<lambda>event.
             on_store (record_intervention (iq_incident_id request)
               (inc_version (ir_incident record)) intervention event))))
           (\<lambda>_. set_claimed))"

section \<open>Revalidation\<close>

definition inspect_approved ::
  "'k environment \<Rightarrow> intervention_request \<Rightarrow> approval
     \<Rightarrow> ('k world, deployment_policy_state) act" where
  "inspect_approved en request approval =
    seq (on_kube (en_inspect en (iq_target request))) (\<lambda>found. case found of
      None \<Rightarrow> executor_error ''current Deployment state is unavailable''
    | Some state \<Rightarrow>
        if (ds_resource_version state, ds_generation state, ds_current_revision state)
             \<noteq> (apr_workload_resource_version approval, apr_workload_generation approval,
                apr_workload_revision approval)
        then executor_error ''Deployment changed after Approval''
        else ret state)"

definition revalidate ::
  "'k environment \<Rightarrow> intervention_request \<Rightarrow> datetime \<Rightarrow> investigation_record
     \<Rightarrow> remediation_proposal \<Rightarrow> ('k world, unit) act" where
  "revalidate en request now record proposal =
    seq (evaluate en record proposal) (\<lambda>revalidated.
    seq (raise_when (pd_status revalidated \<noteq> POLICY_PASSED
             \<or> pd_patch revalidated \<noteq> Some (iq_patch request))
          (InterventionExecutionError ''Executor policy revalidation rejected the request''))
      (\<lambda>_.
    seq (audit_now en request ''intervention_validated'' [action_type_detail proposal]) (\<lambda>_.
      audit en request ''intervention_dry_run_passed'' now
        [(''diff'', str_or (pd_dry_run_diff revalidated) [])])))"

section \<open>Mutation and convergence\<close>

fun action_converged ::
  "remediation_action \<Rightarrow> deployment_policy_state \<Rightarrow> deployment_policy_state \<Rightarrow> bool" where
  "action_converged action previous observed =
    (if ds_target observed \<noteq> action_target action
        \<or> ds_resource_version observed = ds_resource_version previous
        \<or> ds_generation observed \<le> ds_generation previous
     then False
     else (case action of
       RollbackDeploymentAction t n \<Rightarrow> ds_current_revision observed = n
     | ScaleDeploymentAction t n \<Rightarrow>
         ds_replicas observed = n \<and> ds_current_revision observed = ds_current_revision previous
     | RestartDeploymentAction t k \<Rightarrow>
         ds_current_revision observed > ds_current_revision previous))"

definition validate_scale ::
  "workload_reference \<Rightarrow> int \<Rightarrow> pyexn + remediation_action" where
  "validate_scale target replicas =
    (let a = ScaleDeploymentAction target replicas in
     if wf_remediation_action a then Inr a
     else Inl (ValidationError ''ScaleDeploymentAction'' ''invalid field''))"

text \<open>\<open>_restore_failed_scale\<close>: one inverse write after a definitively failed scale.\<close>

definition restoration_confirmed ::
  "remediation_action \<Rightarrow> deployment_policy_state \<Rightarrow> deployment_convergence_result \<Rightarrow> bool" where
  "restoration_confirmed action current result \<longleftrightarrow>
     cr_status result = CONVERGENCE_SUCCEEDED
     \<and> (case cr_observed_state result of None \<Rightarrow> False
          | Some observed \<Rightarrow> action_converged action current observed)"

definition finish_restoration ::
  "'k environment \<Rightarrow> intervention \<Rightarrow> intervention_request \<Rightarrow> deployment_convergence_result
     \<Rightarrow> int \<Rightarrow> ('k world, intervention) act" where
  "finish_restoration en intervention request convergence replicas =
    (let rolled_back = intervention\<lparr>iv_state := IV_ROLLED_BACK\<rparr> in
     seq (close_intervention en request rolled_back ''intervention_restored''
            [(''replicas'', int_str replicas), (''reason'', cr_reason convergence)])
       (\<lambda>_. ret rolled_back))"

definition apply_restoration ::
  "'k environment \<Rightarrow> timedelta \<Rightarrow> intervention \<Rightarrow> intervention_request \<Rightarrow> remediation_action
     \<Rightarrow> deployment_policy_state \<Rightarrow> deployment_patch \<Rightarrow> int \<Rightarrow> workload_lease
     \<Rightarrow> ('k world, unit) act" where
  "apply_restoration en ttl intervention request action current patch replicas lease =
    seq (now_act en) (\<lambda>t.
    seq (on_leases (renew memory_transaction ttl lease t)) (\<lambda>_.
    seq (on_kube (en_apply en patch)) (\<lambda>restored.
    seq (audit_now en request ''intervention_restoration_mutated''
          [(''replicas'', int_str replicas),
           (''resource_version'', ds_resource_version restored)]) (\<lambda>_.
    seq (on_kube (en_verify en patch restored)) (\<lambda>result.
      raise_when (\<not> restoration_confirmed action current result)
        (InterventionExecutionError
          ''scale restoration convergence is ambiguous; no further writes are allowed''))))))"

definition restoration_proposal ::
  "remediation_proposal \<Rightarrow> intervention \<Rightarrow> remediation_action \<Rightarrow> remediation_proposal" where
  "restoration_proposal proposal intervention action =
     proposal\<lparr>rp_proposal_id := rp_proposal_id proposal @ ''-restore-''
        @ iv_intervention_id intervention, rp_action := action\<rparr>"

text \<open>What follows the evaluation of the restoration proposal.\<close>

definition restore_by ::
  "'k environment \<Rightarrow> timedelta \<Rightarrow> intervention \<Rightarrow> intervention_request
     \<Rightarrow> deployment_convergence_result \<Rightarrow> workload_lease \<Rightarrow> remediation_action
     \<Rightarrow> deployment_policy_state \<Rightarrow> int \<Rightarrow> policy_decision \<Rightarrow> ('k world, intervention) act" where
  "restore_by en ttl intervention request convergence lease action current replicas authorized =
    (case (pd_status authorized, pd_patch authorized) of
       (POLICY_PASSED, Some patch) \<Rightarrow>
         seq (audit_now en request ''intervention_restoration_validated''
           [(''replicas'', int_str replicas),
            (''dry_run_diff'', str_or (pd_dry_run_diff authorized) [])]) (\<lambda>_.
         seq (apply_restoration en ttl intervention request action current patch replicas lease)
           (\<lambda>_. finish_restoration en intervention request convergence replicas))
     | _ \<Rightarrow> executor_error ''scale restoration policy rejected the inverse patch'')"

definition restore_failed_scale ::
  "'k environment \<Rightarrow> timedelta \<Rightarrow> intervention \<Rightarrow> intervention_request \<Rightarrow> investigation_record
     \<Rightarrow> remediation_proposal \<Rightarrow> deployment_policy_state \<Rightarrow> deployment_convergence_result
     \<Rightarrow> workload_lease \<Rightarrow> ('k world, intervention) act" where
  "restore_failed_scale en ttl intervention request record proposal previous convergence lease =
    seq (on_kube (en_inspect en (iq_target request))) (\<lambda>current.
    (case cr_observed_state convergence of
       Some observed \<Rightarrow>
         if current \<noteq> Some observed
         then executor_error ''scale restoration stopped because current Deployment state is ambiguous''
         else
           seq (lift_result (validate_scale (action_target (rp_action proposal)) (ds_replicas previous)))
             (\<lambda>action.
           seq (evaluate en record (restoration_proposal proposal intervention action))
             (restore_by en ttl intervention request convergence lease action observed
                (ds_replicas previous)))
     | None \<Rightarrow>
         executor_error ''scale restoration stopped because current Deployment state is ambiguous''))"

definition handle_action_failure ::
  "'k environment \<Rightarrow> timedelta \<Rightarrow> intervention \<Rightarrow> intervention_request \<Rightarrow> investigation_record
     \<Rightarrow> remediation_proposal \<Rightarrow> deployment_policy_state \<Rightarrow> deployment_convergence_result
     \<Rightarrow> workload_lease \<Rightarrow> ('k world, intervention) act" where
  "handle_action_failure en ttl intervention request record proposal previous convergence lease =
    seq (audit_now en request ''intervention_action_failed''
          [action_type_detail proposal, (''reason'', cr_reason convergence)]) (\<lambda>_.
    (case rp_action proposal of
       ScaleDeploymentAction t n \<Rightarrow>
         restore_failed_scale en ttl intervention request record proposal previous convergence lease
     | _ \<Rightarrow>
         (let restoration = (if action_kind (rp_action proposal) = Rollback_Deployment
                then ''forbidden: the prior revision is implicated in this Incident''
                else ''unavailable: controlled restart has no inverse mutation'');
              failed = intervention\<lparr>iv_state := IV_FAILED\<rparr>
          in seq (close_intervention en request failed ''intervention_escalated''
               [action_type_detail proposal, (''reason'', cr_reason convergence),
                (''restoration'', restoration)]) (\<lambda>_. ret failed))))"

section \<open>Consuming a request\<close>

definition claimed_intervention :: "intervention_request \<Rightarrow> intervention" where
  "claimed_intervention request =
    \<lparr>iv_intervention_id = ''intervention-'' @ take 24 (iq_idempotency_key request),
     iv_incident_id = iq_incident_id request, iv_proposal_id = iq_proposal_id request,
     iv_approval_id = iq_approval_id request, iv_target = iq_target request,
     iv_state = RUNNING, iv_requested_at = iq_requested_at request,
     iv_idempotency_key = iq_idempotency_key request\<rparr>"

definition validate_intervention :: "intervention \<Rightarrow> pyexn + intervention" where
  "validate_intervention v =
    (if wf_intervention v then Inr v else Inl (ValidationError ''Intervention'' ''invalid field''))"

text \<open>\<open>leases.acquire\<close>; the token is drawn only when the lease is free.\<close>

definition acquire_lease ::
  "'k environment \<Rightarrow> timedelta \<Rightarrow> string \<Rightarrow> workload_reference \<Rightarrow> string \<Rightarrow> datetime
     \<Rightarrow> ('k world, workload_lease option) act" where
  "acquire_lease en ttl owner target intervention_id now =
    (\<lambda>w. if live_at now (dict_get (w_leases w) (lease_key target)) then (Inr None, w)
      else seq (uuid4 en) (\<lambda>token.
        on_leases (acquire memory_transaction ttl target intervention_id owner token now)) w)"

text \<open>The tail of the block: after the write, what was observed decides the state.\<close>

definition conclude ::
  "'k environment \<Rightarrow> timedelta \<Rightarrow> intervention_request \<Rightarrow> intervention \<Rightarrow> investigation_record
     \<Rightarrow> remediation_proposal \<Rightarrow> deployment_policy_state \<Rightarrow> deployment_convergence_result
     \<Rightarrow> workload_lease \<Rightarrow> ('k world, intervention) act" where
  "conclude en ttl request intervention record proposal state convergence lease =
    (case cr_status convergence of
       CONVERGENCE_AMBIGUOUS \<Rightarrow>
         executor_error (''Deployment convergence is ambiguous: '' @ cr_reason convergence)
     | CONVERGENCE_FAILED \<Rightarrow>
         handle_action_failure en ttl intervention request record proposal state convergence lease
     | CONVERGENCE_SUCCEEDED \<Rightarrow>
         (let ambiguous = executor_error (''Deployment convergence is ambiguous: ''
                @ ''observed state does not match the approved action'')
          in case cr_observed_state convergence of
            None \<Rightarrow> ambiguous
          | Some observed \<Rightarrow>
              if \<not> action_converged (rp_action proposal) state observed then ambiguous
              else
                let completed = intervention\<lparr>iv_state := IV_SUCCEEDED\<rparr>
                in seq (close_intervention en request completed ''intervention_converged''
                     [action_type_detail proposal,
                      (''revision'', int_str (ds_current_revision observed)),
                      (''replicas'', int_str (ds_replicas observed))]) (\<lambda>_. ret completed)))"

definition mutate ::
  "'k environment \<Rightarrow> intervention_request \<Rightarrow> remediation_proposal
     \<Rightarrow> ('k world, deployment_convergence_result) act" where
  "mutate en request proposal =
    seq (on_kube (en_apply en (iq_patch request))) (\<lambda>applied.
    seq (audit_now en request ''intervention_mutated''
          [(''resource_version'', ds_resource_version applied),
           (''generation'', int_str (ds_generation applied)), action_type_detail proposal]) (\<lambda>_.
      on_kube (en_verify en (iq_patch request) applied)))"

text \<open>The block after the claim, and the whole block.\<close>

definition execute_claimed ::
  "'k environment \<Rightarrow> timedelta \<Rightarrow> intervention_request \<Rightarrow> intervention \<Rightarrow> datetime
     \<Rightarrow> investigation_record \<Rightarrow> approval \<Rightarrow> remediation_proposal
     \<Rightarrow> ('k execution, intervention) act" where
  "execute_claimed en ttl request intervention now record approval proposal =
    seq (locally (inspect_approved en request approval)) (\<lambda>state.
    seq (locally (revalidate en request now record proposal)) (\<lambda>_.
    seq (gets (\<lambda>(w, l). el_lease l)) (\<lambda>lease.
    seq (locally (seq (now_act en) (\<lambda>t. on_leases (renew memory_transaction ttl lease t))))
      (\<lambda>renewed.
    seq (set_lease renewed) (\<lambda>_.
    seq (locally (mutate en request proposal)) (\<lambda>convergence.
      locally (conclude en ttl request intervention record proposal state convergence renewed)))))))"

definition execute ::
  "'k environment \<Rightarrow> timedelta \<Rightarrow> intervention_request \<Rightarrow> intervention \<Rightarrow> datetime
     \<Rightarrow> ('k execution, intervention) act" where
  "execute en ttl request intervention now =
    seq (locally (authorize en request now)) (\<lambda>(record, approval, proposal).
    seq (claim en request intervention now record proposal) (\<lambda>_.
      execute_claimed en ttl request intervention now record approval proposal))"

text \<open>
  The three \<open>except\<close> clauses: \<open>ValueError\<close> and \<open>KeyError\<close>, the Executor's own error, and any
  other exception. Each records a safe halt or a refusal and raises the Executor's error.
\<close>

definition failure_reason :: "pyexn \<Rightarrow> string" where
  "failure_reason e = (case e of
     InterventionExecutionError m \<Rightarrow> m
   | _ \<Rightarrow> if is_value_error e \<or> is_key_error e then exn_str e
         else exn_type e @ '': '' @ exn_str e)"

definition failure_error :: "pyexn \<Rightarrow> pyexn" where
  "failure_error e = (case e of
     InterventionExecutionError m \<Rightarrow> e
   | _ \<Rightarrow> if is_value_error e \<or> is_key_error e then InterventionExecutionError (exn_str e)
         else InterventionExecutionError (''unexpected Executor failure: '' @ failure_reason e))"

definition on_failure ::
  "'k environment \<Rightarrow> intervention_request \<Rightarrow> intervention \<Rightarrow> pyexn \<Rightarrow> ('k execution, 'a) act" where
  "on_failure en request intervention e =
    seq (gets (\<lambda>(w, l). el_claimed l)) (\<lambda>claimed.
    seq (locally (if claimed then record_safe_halt en intervention request (failure_reason e)
          else record_refusal en request (failure_reason e))) (\<lambda>_.
      raise (failure_error e)))"

text \<open>The \<open>finally\<close> clause.\<close>

definition release_lease ::
  "'k environment \<Rightarrow> intervention_request \<Rightarrow> ('k execution, unit) act" where
  "release_lease en request =
    seq (gets (\<lambda>(w, l). el_lease l)) (\<lambda>lease.
      locally (try_except (on_leases (release memory_transaction lease)) (\<lambda>e.
        if is_value_error e
        then audit_now en request ''intervention_lease_release_skipped'' [(''reason'', exn_str e)]
        else raise e)))"

definition run_leased ::
  "'k environment \<Rightarrow> timedelta \<Rightarrow> intervention_request \<Rightarrow> intervention \<Rightarrow> datetime \<Rightarrow> bool
     \<Rightarrow> workload_lease \<Rightarrow> ('k world, intervention) act" where
  "run_leased en ttl request intervention now resuming lease =
    with_locals \<lparr>el_claimed = resuming, el_lease = lease\<rparr>
      (try_finally
        (try_except (execute en ttl request intervention now) (on_failure en request intervention))
        (release_lease en request))"

text \<open>What follows the lookup of an earlier Intervention; \<open>earlier\<close> is one that still runs.\<close>

definition receive ::
  "'k environment \<Rightarrow> timedelta \<Rightarrow> string \<Rightarrow> intervention_request \<Rightarrow> datetime
     \<Rightarrow> intervention option \<Rightarrow> ('k world, intervention) act" where
  "receive en ttl owner request now earlier =
    seq (audit en request ''intervention_received'' now
          [(''payload_hash'', iq_payload_hash request)]) (\<lambda>_.
    seq (lift_result (case earlier of Some v \<Rightarrow> Inr v
          | None \<Rightarrow> validate_intervention (claimed_intervention request))) (\<lambda>intervention.
    seq (acquire_lease en ttl owner (iq_target request) (iv_intervention_id intervention) now)
      (\<lambda>found. case found of
        None \<Rightarrow>
          seq (audit en request ''intervention_refused'' now
                [(''reason'', ''another Intervention holds the Managed Workload'')])
            (\<lambda>_. executor_error ''another Intervention holds the Managed Workload'')
      | Some lease \<Rightarrow> run_leased en ttl request intervention now (earlier \<noteq> None) lease)))"

definition consume ::
  "'k environment \<Rightarrow> timedelta \<Rightarrow> string \<Rightarrow> intervention_request
     \<Rightarrow> ('k world, intervention) act" where
  "consume en ttl owner request =
    seq (now_act en) (\<lambda>now.
    seq (get_record (iq_incident_id request)) (\<lambda>found. case found of
      None \<Rightarrow> executor_error ''Intervention Incident does not exist''
    | Some record \<Rightarrow>
        (case List.find (\<lambda>v. iv_idempotency_key v = iq_idempotency_key request)
            (ir_interventions record) of
           None \<Rightarrow> receive en ttl owner request now None
         | Some earlier \<Rightarrow>
             if iv_state earlier = RUNNING then receive en ttl owner request now (Some earlier)
             else seq (audit en request ''intervention_duplicate_rejected'' now [])
               (\<lambda>_. ret earlier))))"

end
