(* ===== verification/Executor_Log.thy ===== *)
theory Executor_Log
  imports Executor
begin

text \<open>
  What the Executor writes to the cluster. A provider that keeps a log of the patches it applied
  (\<open>write_log\<close>: only a successful \<open>apply_deployment_patch\<close> extends it) shows every write of a run;
  the lemmas prove that a run appends nothing, or the approved patch, or the approved patch and one
  inverse patch. The contract is interpreted on the provider of the local deployment.
\<close>

section \<open>Keeping an invariant in the try block\<close>

definition on_world :: "('k world \<Rightarrow> bool) \<Rightarrow> 'k execution \<Rightarrow> bool" where
  "on_world P x = P (fst x)"

lemma keeps_locally [keeps_intros]: "keeps P m \<Longrightarrow> keeps (on_world P) (locally m)"
  by (auto simp: keeps_def on_world_def locally_def split: prod.splits)

lemma keeps_set_claimed [keeps_intros]: "keeps (on_world P) set_claimed"
  by (simp add: keeps_def on_world_def set_claimed_def split: prod.splits)

lemma keeps_set_lease [keeps_intros]: "keeps (on_world P) (set_lease l)"
  by (simp add: keeps_def on_world_def set_lease_def split: prod.splits)

lemma keeps_prod [keeps_intros]: "(\<And>a b. keeps P (f a b)) \<Longrightarrow> keeps P (case x of (a, b) \<Rightarrow> f a b)"
  by (cases x) simp

lemma keeps_let [keeps_intros]: "(\<And>x. x = a \<Longrightarrow> keeps P (f x)) \<Longrightarrow> keeps P (let x = a in f x)"
  by simp

lemma keeps_action [keeps_intros]:
  "(\<And>t n. keeps P (f t n)) \<Longrightarrow> (\<And>t n. keeps P (g t n)) \<Longrightarrow> (\<And>t k. keeps P (h t k)) \<Longrightarrow>
     keeps P (case a of RollbackDeploymentAction t n \<Rightarrow> f t n | ScaleDeploymentAction t n \<Rightarrow> g t n
       | RestartDeploymentAction t k \<Rightarrow> h t k)"
  by (cases a) simp_all

lemma keeps_status [keeps_intros]:
  "keeps P a \<Longrightarrow> keeps P b \<Longrightarrow> keeps P c \<Longrightarrow>
     keeps P (case s of CONVERGENCE_SUCCEEDED \<Rightarrow> a | CONVERGENCE_FAILED \<Rightarrow> b
       | CONVERGENCE_AMBIGUOUS \<Rightarrow> c)"
  by (cases s) simp_all

lemma keeps_policy_status [keeps_intros]:
  "keeps P a \<Longrightarrow> keeps P b \<Longrightarrow> keeps P c \<Longrightarrow>
     keeps P (case s of POLICY_PASSED \<Rightarrow> a | POLICY_REJECTED \<Rightarrow> b | DRY_RUN_FAILED \<Rightarrow> c)"
  by (cases s) simp_all

lemma seq_cases:
  assumes "seq m f w = (res, w')"
  obtains (raised) e where "m w = (Inl e, w')" "res = Inl e"
    | (returned) a w1 where "m w = (Inr a, w1)" "f a w1 = (res, w')"
  using assms by (auto simp: seq_def split: prod.splits sum.splits)

lemma keeps_run: "keeps P m \<Longrightarrow> m w = (r, w') \<Longrightarrow> P w \<Longrightarrow> P w'"
  by (metis keepsD snd_conv)

text \<open>A predicate that does not look at the cluster, the counters or the store.\<close>

lemma keeps_audit:
  assumes "\<And>w n. P (w\<lparr>w_uuids := n\<rparr>) = P w" "\<And>w s. P (w\<lparr>w_store := s\<rparr>) = P w"
  shows "keeps P (audit en q k t d)"
  unfolding audit_def executor_event_def
  by (intro keeps_intros keeps_on_store) (simp_all add: assms)

lemma keeps_audit_now:
  assumes "\<And>w n. P (w\<lparr>w_uuids := n\<rparr>) = P w" "\<And>w s. P (w\<lparr>w_store := s\<rparr>) = P w"
    "\<And>w n. P (w\<lparr>w_readings := n\<rparr>) = P w"
  shows "keeps P (audit_now en q k d)"
  unfolding audit_now_def by (intro keeps_intros keeps_audit) (simp_all add: assms)

lemma keeps_close:
  assumes "\<And>w n. P (w\<lparr>w_uuids := n\<rparr>) = P w" "\<And>w s. P (w\<lparr>w_store := s\<rparr>) = P w"
    "\<And>w n. P (w\<lparr>w_readings := n\<rparr>) = P w"
  shows "keeps P (close_intervention en q v k d)"
  unfolding close_intervention_def executor_event_def
  by (intro keeps_intros keeps_on_store) (simp_all add: assms)

lemma keeps_safe_halt:
  assumes "\<And>w n. P (w\<lparr>w_uuids := n\<rparr>) = P w" "\<And>w s. P (w\<lparr>w_store := s\<rparr>) = P w"
    "\<And>w n. P (w\<lparr>w_readings := n\<rparr>) = P w"
  shows "keeps P (record_safe_halt en v q m)"
  unfolding record_safe_halt_def by (intro keeps_intros keeps_close) (simp_all add: assms)

lemma leased_end:
  assumes run: "run_leased en ttl q v now resuming l w = (res, w')"
    and ex: "execute en ttl q v now (w, \<lparr>el_claimed = resuming, el_lease = l\<rparr>) = (r1, (w1, x1))"
    and "P w1" and h: "\<And>e. keeps (on_world P) (on_failure en q v e :: ('k execution, intervention) act)"
    and f: "keeps (on_world P) (release_lease en q)"
  shows "P (w' :: 'k world)"
proof -
  obtain r2 y2 where two: "try_except (execute en ttl q v now) (on_failure en q v)
      (w, \<lparr>el_claimed = resuming, el_lease = l\<rparr>) = (r2, y2)" by (metis surj_pair)
  have "on_world P y2"
  proof (cases r1)
    case (Inl e)
    with two ex have "on_failure en q v e (w1, x1) = (r2, y2)" by (simp add: try_except_def)
    then show ?thesis using keepsD [OF h, of "(w1, x1)" e] \<open>P w1\<close> by (simp add: on_world_def)
  next
    case (Inr a)
    with two ex \<open>P w1\<close> show ?thesis by (auto simp: try_except_def on_world_def)
  qed
  then have "on_world P (snd (release_lease en q y2))" using keepsD [OF f] by blast
  then show ?thesis using run two
    by (auto simp: run_leased_def with_locals_def try_finally_def on_world_def
        split: prod.splits sum.splits)
qed

lemma audit_Inr:
  assumes "audit en q k t d w = (Inr u, w')" "store_get (w_store w) (iq_incident_id q) = Some r"
    and "store_inv (w_store w)"
  shows "\<exists>e. store_get (w_store w') (iq_incident_id q) = Some (with_event e r)
    \<and> w_leases w' = w_leases w \<and> w_kube w' = w_kube w \<and> w_queue w' = w_queue w"
proof -
  have id: "inc_incident_id (ir_incident r) = iq_incident_id q"
    using store_inv_get [OF assms(3,2)] by simp
  show ?thesis using assms(1,2) id
    by (auto simp: audit_def executor_event_def seq_Inr new_event_Inr on_store_Inr ret_def
        dest!: append_audit_event_Inr)
qed

lemma request_authority_Inr:
  "request_authority g q now r = Inr (a, p) \<longleftrightarrow>
     intervention_request_hash g q = iq_payload_hash q
     \<and> List.find (\<lambda>a. apr_approval_id a = iq_approval_id q) (ir_approvals r) = Some a
     \<and> apr_decision a = APPROVED \<and> now < apr_expires_at a \<and> approval_matches_record g r a
     \<and> ir_proposal r = Some p
     \<and> (\<exists>d. ir_policy_decision r = Some d \<and> pd_status d = POLICY_PASSED
          \<and> pd_patch d = Some (iq_patch q))
     \<and> rp_proposal_id p = iq_proposal_id q \<and> action_target (rp_action p) = iq_target q"
  by (auto simp: request_authority_def Let_def split: option.splits if_splits)

lemma request_authority_event:
  "request_authority g q now (with_event e r) = request_authority g q now r"
proof -
  have "approval_matches_record g (with_event e r) = approval_matches_record g r"
    by (rule ext, rule approval_matches_record_cong) simp_all
  then show ?thesis unfolding request_authority_def by (simp only: with_event_simps)
qed

lemma acquire_lease_Inr:
  assumes "acquire_lease en ttl ow t i now w = (Inr found, w')"
  shows "w_store w' = w_store w \<and> w_kube w' = w_kube w
    \<and> (found = None \<longleftrightarrow> live_at now (dict_get (w_leases w) (lease_key t)))"
  using assms
  by (auto simp: acquire_lease_def seq_Inr uuid4_Inr on_leases_def on_part_def acquire_def
      memory_transaction_def acquire_update_def ret_def validate_lease_def
      split: if_splits prod.splits sum.splits option.splits)

lemma authorize_Inr:
  "authorize en q now w = (Inr (r, a, p), w') \<longleftrightarrow>
     store_get (w_store w) (iq_incident_id q) = Some r
     \<and> request_authority (en_digest en) q now r = Inr (a, p) \<and> w' = w"
  by (auto simp: authorize_def seq_Inr get_record_Inr lift_result_Inr executor_error_def raise_def
      ret_def split: option.splits)

lemma inspected_Inr:
  assumes "inspect_approved en q a w = (Inr s, w')"
  shows "\<exists>k1. en_inspect en (iq_target q) (w_kube w) = (Inr (Some s), k1)
     \<and> ds_resource_version s = apr_workload_resource_version a
     \<and> ds_generation s = apr_workload_generation a
     \<and> ds_current_revision s = apr_workload_revision a"
proof -
  obtain found k where f: "en_inspect en (iq_target q) (w_kube w) = (Inr found, k)"
    and rest: "(case found of None \<Rightarrow> executor_error ''current Deployment state is unavailable''
      | Some state \<Rightarrow>
        if (ds_resource_version state, ds_generation state, ds_current_revision state)
             \<noteq> (apr_workload_resource_version a, apr_workload_generation a, apr_workload_revision a)
        then executor_error ''Deployment changed after Approval'' else ret state) (w\<lparr>w_kube := k\<rparr>)
      = (Inr s, w')"
    using assms by (auto simp: inspect_approved_def seq_Inr on_kube_Inr)
  from rest have "found = Some s" "(ds_resource_version s, ds_generation s, ds_current_revision s)
      = (apr_workload_resource_version a, apr_workload_generation a, apr_workload_revision a)"
    by (cases found; auto simp: executor_error_def raise_def ret_def split: if_splits)+
  then show ?thesis using f by blast
qed

section \<open>The contract of a provider that logs its writes\<close>

locale write_log =
  fixes en :: "'k environment" and log :: "'k \<Rightarrow> deployment_patch list"
  assumes inspect_reads: "log (snd (en_inspect en t k)) = log k"
    and dry_run_reads: "log (snd (en_dry_run en p k)) = log k"
    and verify_reads: "log (snd (en_verify en p s k)) = log k"
    and enrollment_reads: "log (snd (en_enrollment en a k)) = log k"
    and apply_writes: "log (snd (en_apply en p k)) =
      (case fst (en_apply en p k) of Inl e \<Rightarrow> log k | Inr s \<Rightarrow> log k @ [p])"
begin

definition logged :: "deployment_patch list \<Rightarrow> 'k world \<Rightarrow> bool" where
  "logged ps w \<longleftrightarrow> log (w_kube w) = ps"

lemma logged_frame [simp]:
  "logged ps (w\<lparr>w_uuids := n\<rparr>) = logged ps w" "logged ps (w\<lparr>w_readings := n\<rparr>) = logged ps w"
  "logged ps (w\<lparr>w_store := s\<rparr>) = logged ps w" "logged ps (w\<lparr>w_leases := d\<rparr>) = logged ps w"
  by (simp_all add: logged_def)

lemma quiet_reads [keeps_intros]:
  "keeps (logged ps) (on_kube (en_inspect en t))"
  "keeps (logged ps) (on_kube (en_dry_run en p))"
  "keeps (logged ps) (on_kube (en_verify en p s))"
  "keeps (logged ps) (on_kube (en_enrollment en a))"
  by (rule keeps_on_kube,
      simp add: logged_def inspect_reads dry_run_reads verify_reads enrollment_reads)+

lemma quiet_world [keeps_intros]:
  "keeps (logged ps) (now_act en)" "keeps (logged ps) (uuid4 en)"
  "keeps (logged ps) (on_store m)" "keeps (logged ps) (on_leases m')"
  "keeps (logged ps) (new_event en i k t a d)" "keeps (logged ps) (executor_error e)"
  "keeps (logged ps) (audit en q k t d)" "keeps (logged ps) (audit_now en q k d)"
  "keeps (logged ps) (close_intervention en q v k d)"
  "keeps (logged ps) (record_safe_halt en v q e)"
  "keeps (logged ps) (record_refusal en q e)"
  by (auto intro!: keeps_intros keeps_on_store keeps_on_leases keeps_audit keeps_audit_now
      keeps_close keeps_safe_halt simp: executor_error_def record_refusal_def)

lemma quiet_decision [keeps_intros]: "keeps (logged ps) (decision en r p cs st s pt d m)"
  unfolding decision_def by (intro keeps_intros)

lemma quiet_evaluate [keeps_intros]: "keeps (logged ps) (evaluate en r p)"
  unfolding evaluate_def evaluate_patch_def Let_def by (intro keeps_intros)

lemma quiet_steps [keeps_intros]:
  "keeps (logged ps) (authorize en q t)"
  "keeps (on_world (logged ps)) (claim en q v t r p)"
  "keeps (logged ps) (inspect_approved en q a)"
  "keeps (logged ps) (revalidate en q t r p)"
  "keeps (on_world (logged ps)) (on_failure en q v e)"
  "keeps (on_world (logged ps)) (release_lease en q)"
  unfolding authorize_def claim_def inspect_approved_def revalidate_def on_failure_def
    release_lease_def executor_event_def
  by (intro keeps_intros)+

text \<open>An apply writes its patch or nothing; a restoration writes the inverse of the scale or nothing.\<close>

lemma apply_logged:
  assumes "on_kube (en_apply en p) w = (res, w')" "logged ps w"
  shows "case res of Inl e \<Rightarrow> logged ps w' | Inr s \<Rightarrow> logged (ps @ [p]) w'"
  using assms apply_writes [of p "w_kube w"]
  by (auto simp: on_kube_def on_part_def logged_def split: prod.splits sum.splits)

definition writes_one :: "deployment_patch \<Rightarrow> deployment_patch list \<Rightarrow> 'k world \<Rightarrow> bool" where
  "writes_one p ps w \<longleftrightarrow> logged ps w \<or> logged (ps @ [p]) w"

lemma apply_then_quiet:
  assumes run: "seq (on_kube (en_apply en p)) f w = (res, w')" and "logged ps w"
    and quiet: "\<And>s. keeps (logged (ps @ [p])) (f s)"
  shows "(case res of Inl e \<Rightarrow> writes_one p ps w' | Inr x \<Rightarrow> logged (ps @ [p]) w')"
  using run
proof (cases rule: seq_cases)
  case (raised e)
  with apply_logged [OF raised(1) assms(2)] show ?thesis by (simp add: writes_one_def)
next
  case (returned s w1)
  with apply_logged [OF returned(1) assms(2)] have "logged (ps @ [p]) w1" by simp
  then have "logged (ps @ [p]) w'" using keeps_run [OF quiet returned(2)] by simp
  then show ?thesis by (simp add: writes_one_def split: sum.split)
qed

lemma mutate_logged:
  assumes "mutate en q p w = (res, w')" "logged ps w"
  shows "case res of Inl e \<Rightarrow> writes_one (iq_patch q) ps w' | Inr c \<Rightarrow> logged (ps @ [iq_patch q]) w'"
  using assms unfolding mutate_def by (rule apply_then_quiet) (intro keeps_intros)

lemma apply_restoration_logged:
  assumes "apply_restoration en ttl v q a s p n l w = (res, w')" "logged ps w"
  shows "writes_one p ps w'"
  using assms(1) unfolding apply_restoration_def
proof (cases rule: seq_cases)
  case (raised e)
  then show ?thesis using keeps_run [OF quiet_world(1) raised(1)] assms(2)
    by (simp add: writes_one_def)
next
  case (returned t w1)
  then have w1: "logged ps w1" using keeps_run [OF quiet_world(1) returned(1)] assms(2) by simp
  from returned(2) show ?thesis
  proof (cases rule: seq_cases)
    case (raised e)
    then show ?thesis using keeps_run [OF quiet_world(4) raised(1) w1]
      by (simp add: writes_one_def)
  next
    case r: (returned l' w2)
    have w2: "logged ps w2" by (rule keeps_run [OF quiet_world(4) r(1) w1])
    have "case res of Inl e \<Rightarrow> writes_one p ps w' | Inr c \<Rightarrow> logged (ps @ [p]) w'"
      by (rule apply_then_quiet [OF r(2) w2]) (intro keeps_intros)
    then show ?thesis by (auto simp: writes_one_def split: sum.splits)
  qed
qed

lemma quiet_finish [keeps_intros]: "keeps (logged ps) (finish_restoration en v q c n)"
  unfolding finish_restoration_def Let_def by (intro keeps_intros)

lemma restore_by_logged:
  assumes "restore_by en ttl v q c l a s n d w = (res, w')" "logged ps w"
  shows "logged ps w' \<or> (\<exists>p. pd_patch d = Some p \<and> logged (ps @ [p]) w')"
proof (cases "pd_status d = POLICY_PASSED \<and> pd_patch d \<noteq> None")
  case False
  with assms show ?thesis
    by (auto simp: restore_by_def executor_error_def raise_def
        split: policy_status.splits option.splits)
next
  case True
  then obtain p where p: "pd_patch d = Some p" "pd_status d = POLICY_PASSED" by blast
  from assms(1) p have "seq (audit_now en q ''intervention_restoration_validated''
      [(''replicas'', int_str n), (''dry_run_diff'', str_or (pd_dry_run_diff d) [])])
      (\<lambda>_. seq (apply_restoration en ttl v q a s p n l) (\<lambda>_. finish_restoration en v q c n)) w
    = (res, w')" by (simp add: restore_by_def)
  then show ?thesis
  proof (cases rule: seq_cases)
    case (raised e)
    then show ?thesis using keeps_run [OF quiet_world(8) raised(1) assms(2)] by blast
  next
    case (returned x w1)
    have w1: "logged ps w1" by (rule keeps_run [OF quiet_world(8) returned(1) assms(2)])
    from returned(2) show ?thesis
    proof (cases rule: seq_cases)
      case (raised e)
      then show ?thesis using apply_restoration_logged [OF raised(1) w1] p
        by (auto simp: writes_one_def)
    next
      case r: (returned y w2)
      from apply_restoration_logged [OF r(1) w1] show ?thesis
        using keeps_run [OF quiet_finish r(2)] p by (auto simp: writes_one_def)
    qed
  qed
qed

text \<open>The inverse patch: it sets the replicas of the state the Executor had inspected.\<close>

definition inverse_patch :: "remediation_proposal \<Rightarrow> int \<Rightarrow> deployment_patch \<Rightarrow> bool" where
  "inverse_patch p n pt \<longleftrightarrow> action_kind (rp_action p) = Scale_Deployment
     \<and> (\<exists>s. build_patch (ScaleDeploymentAction (action_target (rp_action p)) n) s = Inr pt)"

definition restores :: "remediation_proposal \<Rightarrow> int \<Rightarrow> deployment_patch list \<Rightarrow> 'k world \<Rightarrow> bool" where
  "restores p n ps w \<longleftrightarrow> logged ps w \<or> (\<exists>pt. inverse_patch p n pt \<and> logged (ps @ [pt]) w)"

lemma evaluated_patch:
  assumes "evaluate en r p w = (Inr d, w')" "pd_patch d = Some pt"
  shows "\<exists>s. build_patch (rp_action p) s = Inr pt"
  using assms(1)
proof (rule evaluate_Inr)
  fix e k1 state k2
  assume "(\<exists>s pt. state = Some s \<and> proposal_authorized (en_digest en) r p e s
        \<and> build_patch (rp_action p) s = Inr pt
        \<and> evaluate_patch en r p (preflight_checks (en_digest en) r p
            (er_ready (check_enrollment (ir_application_profile r) e)) state) s pt
            (w\<lparr>w_kube := k2\<rparr>) = (Inr d, w'))
     \<or> \<not> (\<exists>s. state = Some s \<and> proposal_authorized (en_digest en) r p e s)
        \<and> pd_status d = POLICY_REJECTED \<and> pd_patch d = None
        \<and> w' = w\<lparr>w_kube := k2, w_readings := Suc (w_readings w)\<rparr>"
  then obtain s pt' where "build_patch (rp_action p) s = Inr pt'" "pd_patch d = Some pt'"
    using assms(2) evaluate_patch_Inr by fastforce
  then show ?thesis using assms(2) by auto
qed

lemma restoration_logged:
  assumes act: "rp_action p = ScaleDeploymentAction t m"
    and run: "restore_failed_scale en ttl v q r p s0 c l w = (res, w')" and start: "logged ps w"
  shows "restores p (ds_replicas s0) ps w'"
proof -
  have quiet: "restores p (ds_replicas s0) ps x" if "logged ps x" for x
    using that by (simp add: restores_def)
  from run [unfolded restore_failed_scale_def] show ?thesis
  proof (cases rule: seq_cases)
    case (raised e)
    then show ?thesis using quiet keeps_run [OF quiet_reads(1) raised(1) start] by blast
  next
    case (returned current w1)
    have w1: "logged ps w1" by (rule keeps_run [OF quiet_reads(1) returned(1) start])
    show ?thesis
    proof (cases "cr_observed_state c = None \<or> current \<noteq> cr_observed_state c")
      case True
      with returned(2) have "w' = w1" by (auto simp: executor_error_def raise_def split: option.splits)
      then show ?thesis using quiet w1 by simp
    next
      case False
      then obtain o' where o': "cr_observed_state c = Some o'" "current = Some o'" by auto
      let ?a = "ScaleDeploymentAction (action_target (rp_action p)) (ds_replicas s0)"
      have kind: "action_kind (rp_action p) = Scale_Deployment" using act by simp
      show ?thesis
      proof (cases "wf_remediation_action ?a")
        case False
        with returned(2) o' have "w' = w1"
          by (auto simp: validate_scale_def lift_result_def seq_def Let_def)
        then show ?thesis using quiet w1 by simp
      next
        case True
        have "seq (evaluate en r (restoration_proposal p v ?a))
            (restore_by en ttl v q c l ?a o' (ds_replicas s0)) w1 = (res, w')"
          using returned(2) o' True by (simp add: validate_scale_def lift_result_def seq_def Let_def)
        then show ?thesis
        proof (cases rule: seq_cases)
          case (raised e)
          then show ?thesis using quiet keeps_run [OF quiet_evaluate raised(1) w1] by blast
        next
          case ev: (returned d w2)
          have w2: "logged ps w2" by (rule keeps_run [OF quiet_evaluate ev(1) w1])
          have "inverse_patch p (ds_replicas s0) pt" if "pd_patch d = Some pt" for pt
            using evaluated_patch [OF ev(1) that] kind
            by (auto simp: inverse_patch_def restoration_proposal_def)
          with restore_by_logged [OF ev(2) w2] show ?thesis by (auto simp: restores_def)
        qed
      qed
    qed
  qed
qed

lemma conclude_logged:
  assumes run: "conclude en ttl q v r p s0 c l w = (res, w')" and start: "logged ps w"
  shows "restores p (ds_replicas s0) ps w'"
proof (cases "\<exists>t m. cr_status c = CONVERGENCE_FAILED \<and> rp_action p = ScaleDeploymentAction t m")
  case True
  then obtain t m where act: "rp_action p = ScaleDeploymentAction t m"
    and f: "cr_status c = CONVERGENCE_FAILED" by blast
  from run [unfolded conclude_def handle_action_failure_def] f act
  have "seq (audit_now en q ''intervention_action_failed'' [action_type_detail p,
      (''reason'', cr_reason c)]) (\<lambda>_. restore_failed_scale en ttl v q r p s0 c l) w = (res, w')"
    by simp
  then show ?thesis
  proof (cases rule: seq_cases)
    case (raised e)
    then show ?thesis using keeps_run [OF quiet_world(8) raised(1) start] by (simp add: restores_def)
  next
    case (returned x w1)
    have "logged ps w1" by (rule keeps_run [OF quiet_world(8) returned(1) start])
    then show ?thesis using restoration_logged [OF act returned(2)] by blast
  qed
next
  case False
  have "keeps (logged ps) (conclude en ttl q v r p s0 c l)"
  proof (cases "cr_status c")
    case CONVERGENCE_FAILED
    have "\<not> (\<exists>t m. rp_action p = ScaleDeploymentAction t m)" using False CONVERGENCE_FAILED by blast
    then show ?thesis using CONVERGENCE_FAILED
      by (cases "rp_action p") (auto simp: conclude_def handle_action_failure_def Let_def intro!: keeps_intros)
  next
    case CONVERGENCE_SUCCEEDED
    then show ?thesis unfolding conclude_def Let_def by (simp, intro keeps_intros)
  next
    case CONVERGENCE_AMBIGUOUS
    then show ?thesis unfolding conclude_def by (simp add: keeps_intros)
  qed
  then show ?thesis using keeps_run [where P = "logged ps" and m = "conclude en ttl q v r p s0 c l", OF _ run start] by (simp add: restores_def)
qed

text \<open>What one run of the \<open>try\<close> block writes.\<close>

definition inspected_state :: "intervention_request \<Rightarrow> approval \<Rightarrow> deployment_policy_state \<Rightarrow> bool" where
  "inspected_state q a s \<longleftrightarrow> ds_resource_version s = apr_workload_resource_version a
     \<and> ds_generation s = apr_workload_generation a
     \<and> ds_current_revision s = apr_workload_revision a
     \<and> (\<exists>k k'. en_inspect en (iq_target q) k = (Inr (Some s), k'))"

definition written ::
  "intervention_request \<Rightarrow> approval \<Rightarrow> remediation_proposal \<Rightarrow> deployment_patch list
     \<Rightarrow> 'k world \<Rightarrow> bool" where
  "written q a p ps w \<longleftrightarrow> logged (ps @ [iq_patch q]) w
     \<or> (\<exists>s pt. inspected_state q a s \<and> inverse_patch p (ds_replicas s) pt
          \<and> logged (ps @ [iq_patch q, pt]) w)"

lemma mutate_conclude_logged:
  assumes "seq (locally (mutate en q p)) (\<lambda>c. locally (conclude en ttl q v r p s0 c l)) (w, x)
      = (res, (w', x'))"
    and "logged ps w" "inspected_state q a s0"
  shows "logged ps w' \<or> written q a p ps w'"
  using assms(1)
proof (cases rule: seq_cases)
  case (raised e)
  then have "mutate en q p w = (Inl e, w')" by (auto simp: locally_def split: prod.splits)
  from mutate_logged [OF this assms(2)] show ?thesis by (auto simp: writes_one_def written_def)
next
  case (returned c y)
  then obtain w1 where m: "mutate en q p w = (Inr c, w1)" "y = (w1, x)"
    by (auto simp: locally_def split: prod.splits)
  with returned(2) have "conclude en ttl q v r p s0 c l w1 = (res, w')"
    by (auto simp: locally_def split: prod.splits)
  moreover have "logged (ps @ [iq_patch q]) w1" using mutate_logged [OF m(1) assms(2)] by simp
  ultimately have "restores p (ds_replicas s0) (ps @ [iq_patch q]) w'" by (rule conclude_logged)
  then show ?thesis using assms(3) by (auto simp: restores_def written_def)
qed

lemma inspect_approved_Inr:
  "inspect_approved en q a w = (Inr s, w') \<Longrightarrow> inspected_state q a s"
  using inspected_Inr unfolding inspected_state_def by blast

lemma revalidated:
  assumes run: "seq (locally (revalidate en q now r p)) (\<lambda>_.
    seq (gets (\<lambda>(w, l). el_lease l)) (\<lambda>lease.
    seq (locally (seq (now_act en) (\<lambda>t. on_leases (renew memory_transaction ttl lease t))))
      (\<lambda>renewed.
    seq (set_lease renewed) (\<lambda>_.
    seq (locally (mutate en q p)) (\<lambda>c. locally (conclude en ttl q v r p s0 c renewed)))))) y
      = (res, (w', x'))"
    and start: "on_world (logged ps) y" and s0: "inspected_state q a s0"
  shows "logged ps w' \<or> written q a p ps w'"
proof -
  note step = keeps_run [where P = "on_world (logged ps)"]
  have quiet_renew: "keeps (on_world (logged ps))
      (locally (seq (now_act en) (\<lambda>t. on_leases (renew memory_transaction ttl l t))))" for l
    by (intro keeps_intros)
  from run show ?thesis
  proof (cases rule: seq_cases)
    case (raised e)
    then show ?thesis using step [OF keeps_locally [OF quiet_steps(4)] raised(1) start]
      by (simp add: on_world_def)
  next
    case (returned u z)
    have z: "on_world (logged ps) z"
      by (rule step [OF keeps_locally [OF quiet_steps(4)] returned(1) start])
    from returned(2) obtain l where "seq (locally (seq (now_act en) (\<lambda>t.
        on_leases (renew memory_transaction ttl l t)))) (\<lambda>renewed. seq (set_lease renewed) (\<lambda>_.
      seq (locally (mutate en q p)) (\<lambda>c. locally (conclude en ttl q v r p s0 c renewed)))) z
      = (res, (w', x'))"
      by (auto simp: seq_def gets_def)
    then show ?thesis
    proof (cases rule: seq_cases)
      case (raised e)
      then show ?thesis using step [OF quiet_renew raised(1) z] by (simp add: on_world_def)
    next
      case ren: (returned l' z1)
      have z1: "on_world (logged ps) z1" by (rule step [OF quiet_renew ren(1) z])
      obtain w1 x1 where "z1 = (w1, x1)" by fastforce
      with ren(2) have "seq (locally (mutate en q p))
          (\<lambda>c. locally (conclude en ttl q v r p s0 c l')) (w1, x1\<lparr>el_lease := l'\<rparr>) = (res, (w', x'))"
        "logged ps w1"
        using z1 by (simp_all add: seq_def set_lease_def on_world_def)
      then show ?thesis using mutate_conclude_logged s0 by blast
    qed
  qed
qed

lemma execute_logged:
  assumes run: "execute en ttl q v now (w, x) = (res, (w', x'))" and start: "logged ps w"
  shows "logged ps w' \<or> (\<exists>r a p. store_get (w_store w) (iq_incident_id q) = Some r
    \<and> request_authority (en_digest en) q now r = Inr (a, p) \<and> written q a p ps w')"
proof -
  note step = keeps_run [where P = "on_world (logged ps)"]
  have start': "on_world (logged ps) (w, x)" using start by (simp add: on_world_def)
  from run [unfolded execute_def] show ?thesis
  proof (cases rule: seq_cases)
    case (raised e)
    then show ?thesis using step [OF keeps_locally [OF quiet_steps(1)] raised(1) start']
      by (simp add: on_world_def)
  next
    case (returned t y)
    obtain r a p where t: "t = (r, a, p)" by (metis prod_cases3)
    from returned(1) t have auth: "store_get (w_store w) (iq_incident_id q) = Some r"
      "request_authority (en_digest en) q now r = Inr (a, p)" and y: "y = (w, x)"
      by (auto simp: locally_def authorize_Inr split: prod.splits)
    from returned(2) [unfolded t y prod.case] show ?thesis
    proof (cases rule: seq_cases)
      case (raised e)
      then show ?thesis using step [OF quiet_steps(2) raised(1) start'] by (simp add: on_world_def)
    next
      case claimed: (returned u z)
      have z: "on_world (logged ps) z" by (rule step [OF quiet_steps(2) claimed(1) start'])
      from claimed(2) [unfolded execute_claimed_def] show ?thesis
      proof (cases rule: seq_cases)
        case (raised e)
        then show ?thesis using step [OF keeps_locally [OF quiet_steps(3)] raised(1) z]
          by (simp add: on_world_def)
      next
        case ins: (returned s0 z1)
        have z1: "on_world (logged ps) z1"
          by (rule step [OF keeps_locally [OF quiet_steps(3)] ins(1) z])
        from ins(1) have s0: "inspected_state q a s0"
          by (auto simp: locally_def split: prod.splits dest: inspect_approved_Inr)
        have "logged ps w' \<or> written q a p ps w'" by (rule revalidated [OF ins(2) z1 s0])
        then show ?thesis using auth by blast
      qed
    qed
  qed
qed

lemma run_leased_logged:
  assumes run: "run_leased en ttl q v now resuming l w = (res, w')" and start: "logged ps w"
  shows "logged ps w' \<or> (\<exists>r a p. store_get (w_store w) (iq_incident_id q) = Some r
    \<and> request_authority (en_digest en) q now r = Inr (a, p) \<and> written q a p ps w')"
proof -
  obtain r1 w1 x1 where ex: "execute en ttl q v now (w, \<lparr>el_claimed = resuming, el_lease = l\<rparr>)
      = (r1, (w1, x1))" by (metis prod_cases3)
  have final: "logged qs w'" if "logged qs w1" for qs
    by (rule leased_end [OF run ex that quiet_steps(5) quiet_steps(6)])
  from execute_logged [OF ex start] show ?thesis using final unfolding written_def by blast
qed

lemma quiet_acquire: "keeps (logged ps) (acquire_lease en ttl ow t i now)"
  unfolding acquire_lease_def
proof (rule keepsI)
  fix w assume w: "logged ps w"
  have "keeps (logged ps) (seq (uuid4 en) (\<lambda>token.
      on_leases (acquire memory_transaction ttl t i ow token now)))" by (intro keeps_intros)
  from keepsD [OF this w] w
  show "logged ps (snd (if live_at now (dict_get (w_leases w) (lease_key t)) then (Inr None, w)
      else seq (uuid4 en) (\<lambda>token.
        on_leases (acquire memory_transaction ttl t i ow token now)) w))" by simp
qed

lemma receive_logged:
  assumes run: "receive en ttl ow q now earlier w = (res, w')" and start: "logged ps w"
    and rec: "store_get (w_store w) (iq_incident_id q) = Some r"
    and inv: "store_inv (w_store w)"
  shows "logged ps w' \<or> \<not> live_at now (dict_get (w_leases w) (lease_key (iq_target q)))
    \<and> (\<exists>a p. request_authority (en_digest en) q now r = Inr (a, p) \<and> written q a p ps w')"
  using run [unfolded receive_def]
proof (cases rule: seq_cases)
  case (raised e)
  then show ?thesis using keeps_run [OF quiet_world(7) raised(1) start] by blast
next
  case (returned u w1)
  have w1: "logged ps w1" by (rule keeps_run [OF quiet_world(7) returned(1) start])
  obtain e where e: "store_get (w_store w1) (iq_incident_id q) = Some (with_event e r)"
    and leases: "w_leases w1 = w_leases w"
    using audit_Inr [OF returned(1) rec inv] by blast
  have same: "request_authority (en_digest en) q now (with_event e r)
      = request_authority (en_digest en) q now r" by (rule request_authority_event)
  from returned(2) show ?thesis
  proof (cases rule: seq_cases)
    case (raised x)
    then show ?thesis using w1 by (simp add: lift_result_def)
  next
    case v: (returned v w2)
    then have w2: "w2 = w1" by (simp add: lift_result_def)
    from v(2) show ?thesis
    proof (cases rule: seq_cases)
      case (raised x)
      then show ?thesis using keeps_run [OF quiet_acquire raised(1)] w1 w2 by blast
    next
      case acq: (returned found w3)
      have w3: "logged ps w3" using keeps_run [OF quiet_acquire acq(1)] w1 w2 by simp
      show ?thesis
      proof (cases found)
        case None
        have "keeps (logged ps) (seq (audit en q ''intervention_refused'' now
            [(''reason'', ''another Intervention holds the Managed Workload'')])
            (\<lambda>_. executor_error ''another Intervention holds the Managed Workload'')
              :: ('k world, intervention) act)"
          by (intro keeps_intros)
        from keeps_run [OF this _ w3] acq(2) None show ?thesis by simp
      next
        case (Some l)
        with acq(2) have "run_leased en ttl q v now (earlier \<noteq> None) l w3 = (res, w')" by simp
        moreover have "w_store w3 = w_store w1"
          "\<not> live_at now (dict_get (w_leases w) (lease_key (iq_target q)))"
          using acquire_lease_Inr [OF acq(1)] Some w2 leases by simp_all
        ultimately show ?thesis using run_leased_logged [of ttl q v now "earlier \<noteq> None" l w3 res w' ps]
            w3 e same by auto
      qed
    qed
  qed
qed

lemma consume_logged:
  assumes run: "consume en ttl ow q w = (res, w')" and start: "logged ps w"
    and inv: "store_inv (w_store w)"
  shows "logged ps w' \<or>
    \<not> live_at (en_clock en (w_readings w)) (dict_get (w_leases w) (lease_key (iq_target q)))
    \<and> (\<exists>r a p. store_get (w_store w) (iq_incident_id q) = Some r
         \<and> request_authority (en_digest en) q (en_clock en (w_readings w)) r = Inr (a, p)
         \<and> written q a p ps w')"
proof -
  let ?now = "en_clock en (w_readings w)" and ?w = "w\<lparr>w_readings := Suc (w_readings w)\<rparr>"
  have w: "logged ps ?w" using start by simp
  show ?thesis
  proof (cases "store_get (w_store w) (iq_incident_id q)")
    case None
    with run have "w' = ?w"
      by (auto simp: consume_def seq_def now_act_def get_record_def gets_def executor_error_def raise_def)
    then show ?thesis using w by simp
  next
    case (Some r)
    define d where "d = List.find (\<lambda>v. iv_idempotency_key v = iq_idempotency_key q) (ir_interventions r)"
    from run Some have eq: "(case d of None \<Rightarrow> receive en ttl ow q ?now None
        | Some earlier \<Rightarrow> if iv_state earlier = RUNNING then receive en ttl ow q ?now (Some earlier)
            else seq (audit en q ''intervention_duplicate_rejected'' ?now []) (\<lambda>_. ret earlier)) ?w
      = (res, w')"
      by (simp add: consume_def seq_def now_act_def get_record_def gets_def d_def)
    show ?thesis
    proof (cases "\<exists>earlier. d = Some earlier \<and> iv_state earlier \<noteq> RUNNING")
      case True
      then obtain earlier where "d = Some earlier" "iv_state earlier \<noteq> RUNNING" by blast
      with eq have dup: "seq (audit en q ''intervention_duplicate_rejected'' ?now [])
        (\<lambda>_. ret earlier) ?w = (res, w')" by simp
      have "keeps (logged ps) (seq (audit en q ''intervention_duplicate_rejected'' ?now [])
          (\<lambda>_. ret earlier))" by (intro keeps_intros)
      from keeps_run [OF this dup w] show ?thesis by simp
    next
      case False
      then obtain earlier where "receive en ttl ow q ?now earlier ?w = (res, w')"
        using eq by (auto split: option.splits if_splits)
      from receive_logged [OF this w] Some inv show ?thesis by auto
    qed
  qed
qed

end

section \<open>The provider of the local deployment keeps such a log\<close>

definition local_environment ::
  "(nat \<Rightarrow> datetime) \<Rightarrow> (nat \<Rightarrow> string) \<Rightarrow> digest \<Rightarrow> python_repr
     \<Rightarrow> (application_profile \<Rightarrow> enrollment_snapshot) \<Rightarrow> fake_cluster environment" where
  "local_environment clock uuid g rp snapshot =
     \<lparr>en_clock = clock, en_uuid = uuid, en_digest = g, en_inspect = fake_inspect,
      en_dry_run = fake_dry_run rp, en_apply = fake_apply rp, en_verify = fake_verify,
      en_enrollment = (\<lambda>p. ret (snapshot p))\<rparr>"

interpretation local_log: write_log "local_environment clock uuid g rp snapshot" fk_applied_patches
  for clock uuid g rp snapshot
proof unfold_locales
  fix t k p s a
  show "fk_applied_patches (snd (en_inspect (local_environment clock uuid g rp snapshot) t k))
      = fk_applied_patches k" by (simp add: local_environment_def fake_inspect_run)
  show "fk_applied_patches (snd (en_dry_run (local_environment clock uuid g rp snapshot) p k))
      = fk_applied_patches k" by (simp add: local_environment_def fake_dry_run_states)
  show "fk_applied_patches (snd (en_verify (local_environment clock uuid g rp snapshot) p s k))
      = fk_applied_patches k" by (simp add: local_environment_def fake_verify_states)
  show "fk_applied_patches (snd (en_enrollment (local_environment clock uuid g rp snapshot) a k))
      = fk_applied_patches k" by (simp add: local_environment_def ret_def)
  show "fk_applied_patches (snd (en_apply (local_environment clock uuid g rp snapshot) p k))
      = (case fst (en_apply (local_environment clock uuid g rp snapshot) p k) of
          Inl e \<Rightarrow> fk_applied_patches k | Inr s \<Rightarrow> fk_applied_patches k @ [p])"
    using fake_apply_Inr [of rp p k] fake_apply_Inl [of rp p k]
    by (cases "fake_apply rp p k") (auto simp: local_environment_def split: sum.split)
qed

end
