(* ===== verification/Sample_Execution.thy ===== *)
theory Sample_Execution
  imports Policy_Guarantees Executor
begin

text \<open>
  One request that is executed to the end on the providers of the local deployment, as the input of
  the witnesses. Its digest maps every text to the same hash, so that the run evaluates without
  serialising the record at every step; the approval side has witnesses with an injective digest.
\<close>

definition flat_digest :: digest where
  "flat_digest = \<lparr>dg_sha256 = (\<lambda>_. ''12345678''), dg_isoformat = int_str\<rparr>"

definition flat_environment :: "fake_cluster environment" where
  "flat_environment = sample_environment\<lparr>en_digest := flat_digest\<rparr>"

definition flat_proposal :: remediation_proposal where
  "flat_proposal = sample_proposal\<lparr>rp_evidence_hash := ''12345678''\<rparr>"

definition flat_patch :: deployment_patch where
  "flat_patch = patch_of (ScaleDeploymentAction sample_target 3) sample_state [(''replicas'', JInt 3)]"

definition flat_record :: investigation_record where
  "flat_record = sample_monitoring\<lparr>
     ir_incident := (ir_incident sample_monitoring)
       \<lparr>inc_lifecycle := AWAITING_APPROVAL, inc_intervention_outcome := OUT_NOT_STARTED, inc_version := 3\<rparr>,
     ir_proposal := Some flat_proposal,
     ir_policy_decision := Some (sample_decision\<lparr>pd_patch := Some flat_patch\<rparr>),
     ir_approvals := [sample_approval], ir_interventions := [],
     ir_recovery_assessments := []\<rparr>"

definition flat_world :: "fake_cluster world" where
  "flat_world = sample_world [(''inc-1'', flat_record)]"

definition flat_request :: intervention_request where
  "flat_request = \<lparr>iq_request_id = ''request-1'', iq_incident_id = ''inc-1'',
      iq_proposal_id = ''p1'', iq_approval_id = ''a1'', iq_target = sample_target,
      iq_patch = flat_patch, iq_requested_at = minutes 63, iq_idempotency_key = ''12345678'',
      iq_payload_hash = ''12345678''\<rparr>"

lemma flat_hash [simp]: "canonical_hash flat_digest j = ''12345678''"
  by (simp add: canonical_hash_def flat_digest_def)

lemma flat_text_hash [simp]: "text_hash flat_digest t = ''12345678''"
  by (simp add: text_hash_def)

lemma flat_world_inv: "store_inv (w_store flat_world)"
  by code_simp

lemma flat_request_wf: "wf_intervention_request flat_request"
  by code_simp

text \<open>The run, in stages: the receipt and the lease, the authority, and the rest of the block.\<close>

definition flat_leased :: "(pyexn + workload_lease option) \<times> fake_cluster world" where
  "flat_leased = seq (audit flat_environment flat_request ''intervention_received'' (minutes 63)
       [(''payload_hash'', iq_payload_hash flat_request)])
     (\<lambda>_. acquire_lease flat_environment (seconds 30) ''executor-1'' sample_target
       ''intervention-12345678'' (minutes 63)) (flat_world\<lparr>w_readings := 1\<rparr>)"

definition flat_lease :: workload_lease where
  "flat_lease = (case fst flat_leased of Inr (Some l) \<Rightarrow> l | _ \<Rightarrow> undefined)"

definition flat_seen :: investigation_record where
  "flat_seen = the (store_get (w_store (snd flat_leased)) ''inc-1'')"

definition flat_executed :: "(pyexn + intervention) \<times> fake_cluster execution" where
  "flat_executed = seq (claim flat_environment flat_request (claimed_intervention flat_request) (minutes 63)
       flat_seen flat_proposal)
     (\<lambda>_. execute_claimed flat_environment (seconds 30) flat_request (claimed_intervention flat_request)
       (minutes 63) flat_seen sample_approval flat_proposal)
     (snd flat_leased, \<lparr>el_claimed = False, el_lease = flat_lease\<rparr>)"

lemma flat_leased_ok: "fst flat_leased = Inr (Some flat_lease)"
  by code_simp

lemma flat_executed_ok: "fst flat_executed
    = Inr ((claimed_intervention flat_request)\<lparr>iv_state := IV_SUCCEEDED\<rparr>)"
  by code_simp

lemma flat_released_ok: "fst (release_lease flat_environment flat_request (snd flat_executed)) = Inr ()"
  by code_simp

lemma flat_seen_fields:
  "store_get (w_store (snd flat_leased)) ''inc-1'' = Some flat_seen
   \<and> ir_proposal flat_seen = Some flat_proposal
   \<and> ir_policy_decision flat_seen = Some (sample_decision\<lparr>pd_patch := Some flat_patch\<rparr>)
   \<and> ir_approvals flat_seen = [sample_approval]"
  by code_simp

lemma flat_start:
  "validate_intervention (claimed_intervention flat_request) = Inr (claimed_intervention flat_request)"
  "live_at (minutes 63) (dict_get (w_leases flat_world) (lease_key sample_target)) = False"
  by code_simp+

lemma flat_authorized:
  "authorize flat_environment flat_request (minutes 63) (snd flat_leased)
     = (Inr (flat_seen, sample_approval, flat_proposal), snd flat_leased)"
proof -
  have g: "en_digest flat_environment = flat_digest" by (simp add: flat_environment_def)
  have q: "iq_incident_id flat_request = ''inc-1''" "iq_payload_hash flat_request = ''12345678''"
    "iq_approval_id flat_request = ''a1''" "iq_proposal_id flat_request = ''p1''"
    "iq_target flat_request = sample_target" "iq_patch flat_request = flat_patch"
    by (simp_all add: flat_request_def)
  have p: "rp_proposal_id flat_proposal = ''p1''" "rp_action flat_proposal = ScaleDeploymentAction sample_target 3"
    by (simp_all add: flat_proposal_def sample_proposal_def)
  show ?thesis
    using flat_seen_fields
    by (simp add: authorize_def seq_def get_record_def gets_def lift_result_def ret_def g q p
        request_authority_def Let_def intervention_request_hash_def approval_matches_record_def
        sample_approval_def sample_decision_def timedelta_defs proposal_hash_def
        evidence_context_hash_def policy_hash_def recovery_criteria_hash_def)
qed

lemma flat_consumed:
  "\<exists>w'. consume flat_environment (seconds 30) ''executor-1'' flat_request flat_world
     = (Inr ((claimed_intervention flat_request)\<lparr>iv_state := IV_SUCCEEDED\<rparr>), w')"
proof -
  let ?en = flat_environment and ?q = flat_request and ?v = "claimed_intervention flat_request"
  let ?x = "(snd flat_leased, \<lparr>el_claimed = False, el_lease = flat_lease\<rparr>)"
  have clock: "en_clock ?en 0 = minutes 63"
    by (simp add: flat_environment_def sample_environment_def timedelta_defs)
  have world: "w_readings flat_world = 0" "store_get (w_store flat_world) (iq_incident_id ?q) = Some flat_record"
    "ir_interventions flat_record = []" "iq_target ?q = sample_target"
    "iv_intervention_id ?v = ''intervention-12345678''"
    by (simp_all add: flat_world_def sample_world_def store_get_def flat_request_def flat_record_def
        claimed_intervention_def)
  have "flat_leased = (Inr (Some flat_lease), snd flat_leased)"
    using flat_leased_ok by (simp add: prod_eq_iff)
  then obtain w1 where
    aud: "audit ?en ?q ''intervention_received'' (minutes 63) [(''payload_hash'', iq_payload_hash ?q)]
        (flat_world\<lparr>w_readings := 1\<rparr>) = (Inr (), w1)"
    and acq: "acquire_lease ?en (seconds 30) ''executor-1'' sample_target ''intervention-12345678''
        (minutes 63) w1 = (Inr (Some flat_lease), snd flat_leased)"
    by (subst (asm) flat_leased_def) (auto simp: seq_Inr)
  have "execute ?en (seconds 30) ?q ?v (minutes 63) ?x = flat_executed"
    unfolding execute_def by (subst seq_def) (simp add: locally_def flat_authorized flat_executed_def)
  then have "execute ?en (seconds 30) ?q ?v (minutes 63) ?x
      = (Inr (?v\<lparr>iv_state := IV_SUCCEEDED\<rparr>), snd flat_executed)"
    using flat_executed_ok by (simp add: prod_eq_iff)
  moreover obtain y l' where "release_lease ?en ?q (snd flat_executed) = (Inr (), (y, l'))"
    using flat_released_ok by (metis prod.exhaust_sel)
  ultimately have "\<exists>w'. run_leased ?en (seconds 30) ?q ?v (minutes 63) False flat_lease (snd flat_leased)
      = (Inr (?v\<lparr>iv_state := IV_SUCCEEDED\<rparr>), w')"
    by (simp add: run_leased_def with_locals_def try_finally_def try_except_def split: prod.splits sum.splits)
  then show ?thesis
    using aud acq flat_start(1) world
    by (simp add: consume_def receive_def seq_def now_act_def get_record_def gets_def lift_result_def clock)
qed

end
