(* ===== verification/Executor_Guarantees.thy ===== *)
theory Executor_Guarantees
  imports Executor_Log Sample_Execution
begin

text \<open>
  The guarantees of the Intervention Executor that hold for every Kubernetes and Enrollment
  provider: what it writes, what success means, and that finished requests are idempotent.
\<close>

section \<open>Writes\<close>

text \<open>C8. The Executor writes only what a Responder approved. Against any provider that logs the
  patches it applies, consuming a request appends nothing to the log, or exactly the patch of the
  request, or that patch and one inverse patch of a scale (to the replicas of the inspected state
  that the Approval names). Anything is appended only when no lease was held on the workload, the
  payload hash is the hash of the request, the recorded Approval approved it, has not expired and
  matches the record in every bound hash, and the policy decision passed with the same patch.\<close>

theorem executor_writes_only_approved:
  assumes "write_log en applied" and "store_inv (w_store w)"
    and "consume en ttl owner q w = (res, w')"
  shows "applied (w_kube w') = applied (w_kube w) \<or>
    \<not> live_at (en_clock en (w_readings w)) (dict_get (w_leases w) (lease_key (iq_target q)))
    \<and> (\<exists>r a p d. store_get (w_store w) (iq_incident_id q) = Some r
        \<and> intervention_request_hash (en_digest en) q = iq_payload_hash q
        \<and> a \<in> set (ir_approvals r) \<and> apr_approval_id a = iq_approval_id q
        \<and> apr_decision a = APPROVED \<and> en_clock en (w_readings w) < apr_expires_at a
        \<and> approval_matches_record (en_digest en) r a
        \<and> ir_proposal r = Some p \<and> rp_proposal_id p = iq_proposal_id q
        \<and> action_target (rp_action p) = iq_target q
        \<and> ir_policy_decision r = Some d \<and> pd_status d = POLICY_PASSED
        \<and> pd_patch d = Some (iq_patch q)
        \<and> (applied (w_kube w') = applied (w_kube w) @ [iq_patch q]
           \<or> (\<exists>s s' k k' pt. action_kind (rp_action p) = Scale_Deployment
               \<and> en_inspect en (iq_target q) k = (Inr (Some s), k')
               \<and> ds_resource_version s = apr_workload_resource_version a
               \<and> ds_generation s = apr_workload_generation a
               \<and> ds_current_revision s = apr_workload_revision a
               \<and> build_patch (ScaleDeploymentAction (iq_target q) (ds_replicas s)) s' = Inr pt
               \<and> applied (w_kube w') = applied (w_kube w) @ [iq_patch q, pt])))"
proof -
  note logged = write_log.logged_def [OF assms(1)] and written = write_log.written_def [OF assms(1)]
    and inspected = write_log.inspected_state_def [OF assms(1)]
    and inverse = write_log.inverse_patch_def [OF assms(1)]
  from write_log.consume_logged [OF assms(1,3) _ assms(2), of "applied (w_kube w)"] show ?thesis
    unfolding logged written inspected inverse request_authority_Inr
    by (auto dest!: find_in_set) blast+
qed

lemma flat_write_log: "write_log flat_environment fk_applied_patches"
proof -
  have "flat_environment = local_environment (\<lambda>n. minutes 63 + seconds (int n)) (\<lambda>n. ''uuid-000'' @ nat_str n)
      flat_digest (\<lambda>_. ''object'') ready_for"
    by (simp add: flat_environment_def sample_environment_def local_environment_def)
  then show ?thesis using local_log.write_log_axioms by metis
qed

theorem executor_writes_only_approved_witness:
  "\<exists>w'. consume flat_environment (seconds 30) ''executor-1'' flat_request flat_world
       = (Inr ((claimed_intervention flat_request)\<lparr>iv_state := IV_SUCCEEDED\<rparr>), w')
     \<and> (fk_applied_patches (w_kube w') = []
        \<or> (\<exists>r a. store_get (w_store flat_world) ''inc-1'' = Some r \<and> a \<in> set (ir_approvals r)
             \<and> apr_approval_id a = ''a1'' \<and> apr_decision a = APPROVED))"
proof -
  obtain w' where run: "consume flat_environment (seconds 30) ''executor-1'' flat_request flat_world
      = (Inr ((claimed_intervention flat_request)\<lparr>iv_state := IV_SUCCEEDED\<rparr>), w')"
    using flat_consumed by blast
  have "fk_applied_patches (w_kube flat_world) = []" "iq_incident_id flat_request = ''inc-1''"
    "iq_approval_id flat_request = ''a1''"
    by (simp_all add: flat_world_def sample_world_def sample_cluster_def flat_request_def)
  with executor_writes_only_approved [OF flat_write_log flat_world_inv run] run show ?thesis by auto
qed

section \<open>Success\<close>

lemma locally_Inr: "locally m (w, x) = (Inr a, y) \<longleftrightarrow> (\<exists>w'. m w = (Inr a, w') \<and> y = (w', x))"
  by (auto simp: locally_def split: prod.splits)

lemma claim_Inr: "claim en q v now r p (w, x) = (Inr u, y) \<Longrightarrow> \<exists>w' x'. y = (w', x')"
  by (cases y) simp

text \<open>What a successful update of the Intervention leaves in the record.\<close>

definition recorded_as :: "string \<Rightarrow> intervention \<Rightarrow> incident_lifecycle \<Rightarrow> 'k world \<Rightarrow> bool" where
  "recorded_as i v l w \<longleftrightarrow> (\<exists>r. store_get (w_store w) i = Some r
     \<and> inc_incident_id (ir_incident r) = i \<and> v \<in> set (ir_interventions r)
     \<and> inc_lifecycle (ir_incident r) = l)"

lemma recorded_as_frame [simp]:
  "recorded_as i v l (w\<lparr>w_uuids := n\<rparr>) = recorded_as i v l w"
  "recorded_as i v l (w\<lparr>w_readings := n\<rparr>) = recorded_as i v l w"
  "recorded_as i v l (w\<lparr>w_leases := d\<rparr>) = recorded_as i v l w"
  "recorded_as i v l (w\<lparr>w_kube := k\<rparr>) = recorded_as i v l w"
  by (simp_all add: recorded_as_def)

lemma update_intervention_records:
  assumes "update_intervention i v e s = (Inr r', s')" "iv_state v = IV_SUCCEEDED"
    and "\<And>r. store_get s i = Some r \<Longrightarrow> inc_incident_id (ir_incident r) = i"
  shows "store_get s' i = Some r' \<and> inc_incident_id (ir_incident r') = i
    \<and> v \<in> set (ir_interventions r') \<and> inc_lifecycle (ir_incident r') = MONITORING"
proof -
  from assms(1) obtain r where r: "store_get s i = Some r" "update_intervention_record i v e r = Inr r'"
    and s': "s' = store_replace r' s"
    by (auto simp: update_intervention_def store_update_Inr)
  from r(2) obtain c j where
    c: "List.find (\<lambda>w. iv_intervention_id w = iv_intervention_id v) (ir_interventions r) = Some c"
    and j: "transition_incident (ir_incident r) (Some MONITORING) None (Some OUT_MONITORING) = Inr j"
    and r': "r' = with_event e (r\<lparr>ir_incident := bump_version j (inc_version (ir_incident r)),
         ir_interventions := map (\<lambda>w. if iv_intervention_id w = iv_intervention_id v
                      then v else w) (ir_interventions r)\<rparr>)"
    using assms(2) by (auto simp: update_intervention_record_def guarded_Inr bind_result_Inr
        validate_record_Inr split: option.splits prod.splits)
  have "v \<in> set (ir_interventions r')"
    using find_in_set [OF c] by (force simp: r')
  moreover have "inc_incident_id (ir_incident r') = i"
    using transition_incident_frame [OF j] assms(3) [OF r(1)] by (simp add: r')
  ultimately show ?thesis using j by (auto simp: s' store_get_replace r' transition_incident_Inr)
qed

lemma keeps_recorded_audit: "i = iq_incident_id q \<Longrightarrow> keeps (recorded_as i v l) (audit en q k t d)"
  unfolding audit_def executor_event_def
proof (intro keeps_intros keeps_on_store)
  fix a :: audit_event and w :: "'a world"
  assume i: "i = iq_incident_id q" and "recorded_as i v l w"
  then obtain r where r: "store_get (w_store w) i = Some r" "inc_incident_id (ir_incident r) = i"
    "v \<in> set (ir_interventions r)" "inc_lifecycle (ir_incident r) = l"
    by (auto simp: recorded_as_def)
  obtain res s' where run: "append_audit_event (iq_incident_id q) a (w_store w) = (res, s')"
    by (metis surj_pair)
  have "\<exists>r. store_get s' i = Some r \<and> inc_incident_id (ir_incident r) = i
     \<and> v \<in> set (ir_interventions r) \<and> inc_lifecycle (ir_incident r) = l"
  proof (cases res)
    case (Inl e)
    then show ?thesis using run r by (auto simp: append_audit_event_def dest!: store_update_Inl)
  next
    case (Inr r')
    with run obtain r0 where "store_get (w_store w) (iq_incident_id q) = Some r0"
      "r' = with_event a r0" "s' = store_replace r' (w_store w)"
      by (auto simp: append_audit_event_def store_update_Inr append_audit_event_record_def guarded_Inr)
    then show ?thesis using r i by (auto simp: store_get_replace)
  qed
  then show "recorded_as i v l (w\<lparr>w_store := snd (append_audit_event (iq_incident_id q) a (w_store w))\<rparr>)"
    using run by (simp add: recorded_as_def)
qed simp

lemma keeps_recorded_release: "i = iq_incident_id q \<Longrightarrow> keeps (on_world (recorded_as i v l)) (release_lease en q)"
  unfolding release_lease_def audit_now_def
  by (intro keeps_intros keeps_recorded_audit keeps_on_leases) simp_all

text \<open>Every record is stored under its own identity, whatever the store is asked.\<close>

definition filed :: "'k world \<Rightarrow> bool" where
  "filed w \<longleftrightarrow> (\<forall>i r. store_get (w_store w) i = Some r \<longrightarrow> inc_incident_id (ir_incident r) = i)"

lemma filed_frame [simp]:
  "filed (w\<lparr>w_uuids := n\<rparr>) = filed w" "filed (w\<lparr>w_readings := n\<rparr>) = filed w"
  "filed (w\<lparr>w_leases := d\<rparr>) = filed w" "filed (w\<lparr>w_kube := k\<rparr>) = filed w"
  by (simp_all add: filed_def)

lemma keeps_filed_update: "keeps filed (on_store (store_update i f))"
proof (rule keeps_on_store)
  fix w :: "'a world"
  assume w: "filed w"
  show "filed (w\<lparr>w_store := snd (store_update i f (w_store w))\<rparr>)"
  proof (cases "fst (store_update i f (w_store w))")
    case (Inl e)
    then have "snd (store_update i f (w_store w)) = w_store w"
      using store_update_Inl [of i f "w_store w" e] by (metis prod.collapse)
    with w show ?thesis by simp
  next
    case (Inr r')
    then have "snd (store_update i f (w_store w)) = store_replace r' (w_store w)"
      using store_update_Inr [of i f "w_store w" r' "snd (store_update i f (w_store w))"]
      by (metis prod.collapse)
    with w show ?thesis by (auto simp: filed_def store_get_replace)
  qed
qed

lemma keeps_filed [keeps_intros]:
  "keeps filed (on_store (append_audit_event i e))"
  "keeps filed (on_store (update_intervention i v e))"
  "keeps filed (on_store (record_intervention i n v e))"
  "keeps filed (on_kube m)" "keeps filed (on_leases m')"
  by (simp_all add: append_audit_event_def update_intervention_def record_intervention_def
      keeps_filed_update keeps_on_kube keeps_on_leases)

lemma keeps_filed_audit [keeps_intros]:
  "keeps filed (audit en q k t d)" "keeps filed (audit_now en q k d)"
  unfolding audit_now_def audit_def executor_event_def by (intro keeps_intros; simp)+

lemma keeps_filed_steps:
  "keeps filed (revalidate en q t r p)" "keeps filed (inspect_approved en q a)"
  "keeps (on_world filed) (claim en q v t r p)" "keeps filed (mutate en q p)"
  unfolding revalidate_def inspect_approved_def claim_def mutate_def evaluate_def evaluate_patch_def
    decision_def Let_def executor_event_def executor_error_def
  by (intro keeps_intros; simp)+

lemma close_Inr:
  assumes "close_intervention en q v k d w = (Inr u, w')" "iv_state v = IV_SUCCEEDED" "filed w"
  shows "recorded_as (iq_incident_id q) v MONITORING w' \<and> w_kube w' = w_kube w"
proof -
  from assms(1) obtain e r s where "update_intervention (iq_incident_id q) v e (w_store w) = (Inr r, s)"
    "w_store w' = s" "w_kube w' = w_kube w"
    by (auto simp: close_intervention_def executor_event_def seq_Inr now_act_Inr new_event_Inr
        on_store_Inr ret_def)
  then show ?thesis using update_intervention_records [OF _ assms(2)] assms(3)
    by (fastforce simp: recorded_as_def filed_def)
qed

lemma handled_state:
  assumes "handle_action_failure en ttl v0 q r p s c l w = (Inr v, w')"
  shows "iv_state v \<in> {IV_FAILED, IV_ROLLED_BACK}"
proof -
  have "iv_state v = IV_ROLLED_BACK" if "finish_restoration en v0 q c n w1 = (Inr v, w')" for n w1
    using that by (auto simp: finish_restoration_def Let_def seq_Inr ret_def)
  then have restored: "iv_state v = IV_ROLLED_BACK"
    if "restore_by en ttl v0 q c l a o' n d w1 = (Inr v, w')" for a o' n d w1
    using that by (auto simp: restore_by_def seq_Inr executor_error_def raise_def
        split: policy_status.splits option.splits)
  then have "iv_state v = IV_ROLLED_BACK" if "restore_failed_scale en ttl v0 q r p s c l w1 = (Inr v, w')" for w1
    using that by (auto simp: restore_failed_scale_def seq_Inr executor_error_def raise_def
        split: option.splits if_splits)
  then show ?thesis using assms
    by (auto simp: handle_action_failure_def Let_def seq_Inr ret_def split: remediation_action.splits)
qed

lemma conclude_success:
  assumes "conclude en ttl q v0 r p s c l w = (Inr v, w')" "iv_state v = IV_SUCCEEDED" "filed w"
  shows "cr_status c = CONVERGENCE_SUCCEEDED \<and> (\<exists>seen. cr_observed_state c = Some seen
      \<and> action_converged (rp_action p) s seen)
    \<and> recorded_as (iq_incident_id q) v MONITORING w' \<and> w_kube w' = w_kube w"
proof (cases "cr_status c")
  case CONVERGENCE_SUCCEEDED
  with assms(1) obtain seen u where seen: "cr_observed_state c = Some seen"
    "action_converged (rp_action p) s seen" and v: "v = v0\<lparr>iv_state := IV_SUCCEEDED\<rparr>"
    and close: "\<exists>k d. close_intervention en q v k d w = (Inr u, w')"
    by (auto simp: conclude_def Let_def executor_error_def raise_def seq_Inr ret_def
        simp del: action_converged.simps split: option.splits if_splits)
  then show ?thesis using CONVERGENCE_SUCCEEDED close_Inr assms(2,3) by blast
next
  case CONVERGENCE_AMBIGUOUS
  with assms(1) show ?thesis by (simp add: conclude_def executor_error_def raise_def)
next
  case CONVERGENCE_FAILED
  with assms(1) have "handle_action_failure en ttl v0 q r p s c l w = (Inr v, w')"
    by (simp add: conclude_def)
  then have "iv_state v \<in> {IV_FAILED, IV_ROLLED_BACK}" by (rule handled_state)
  with assms(2) show ?thesis by simp
qed

text \<open>What a completed run has seen, from the authority to the final state of the cluster.\<close>

definition verified_write ::
  "'k environment \<Rightarrow> intervention_request \<Rightarrow> approval \<Rightarrow> remediation_proposal \<Rightarrow> 'k \<Rightarrow> bool" where
  "verified_write en q a p final \<longleftrightarrow> (\<exists>k0 k1 k2 k3 s new c seen.
     en_inspect en (iq_target q) k0 = (Inr (Some s), k1)
     \<and> ds_resource_version s = apr_workload_resource_version a
     \<and> ds_generation s = apr_workload_generation a
     \<and> ds_current_revision s = apr_workload_revision a
     \<and> en_apply en (iq_patch q) k2 = (Inr new, k3)
     \<and> en_verify en (iq_patch q) new k3 = (Inr c, final)
     \<and> cr_status c = CONVERGENCE_SUCCEEDED \<and> cr_observed_state c = Some seen
     \<and> action_converged (rp_action p) s seen)"

lemma mutate_Inr:
  assumes "mutate en q p w = (Inr c, w')"
  shows "\<exists>new k3. en_apply en (iq_patch q) (w_kube w) = (Inr new, k3)
     \<and> en_verify en (iq_patch q) new k3 = (Inr c, w_kube w')"
proof -
  obtain new w1 w2 u where a: "on_kube (en_apply en (iq_patch q)) w = (Inr new, w1)"
    and b: "audit_now en q ''intervention_mutated''
          [(''resource_version'', ds_resource_version new),
           (''generation'', int_str (ds_generation new)), action_type_detail p] w1 = (Inr u, w2)"
    and c: "on_kube (en_verify en (iq_patch q) new) w2 = (Inr c, w')"
    using assms unfolding mutate_def by (auto simp: seq_Inr)
  have "w_kube w2 = w_kube w1"
    using b by (auto simp: audit_now_def audit_def executor_event_def seq_Inr now_act_Inr
        new_event_Inr on_store_Inr ret_def)
  with a c show ?thesis by (auto simp: on_kube_Inr)
qed

lemma execute_success:
  assumes run: "execute en ttl q v0 now (w, x) = (Inr v, (w', x'))"
    and "iv_state v = IV_SUCCEEDED" "filed w"
  shows "\<exists>r a p. store_get (w_store w) (iq_incident_id q) = Some r
    \<and> request_authority (en_digest en) q now r = Inr (a, p)
    \<and> verified_write en q a p (w_kube w') \<and> recorded_as (iq_incident_id q) v MONITORING w'"
proof -
  obtain r a p u1 y1 s w2 w3 w4 l' c w5 u2 x1 where
    auth: "authorize en q now w = (Inr (r, a, p), w)"
    and claim: "claim en q v0 now r p (w, x) = (Inr u1, (y1, x1))"
    and ins: "inspect_approved en q a y1 = (Inr s, w2)"
    and rev: "revalidate en q now r p w2 = (Inr u2, w3)"
    and ren: "seq (now_act en) (\<lambda>t. on_leases (renew memory_transaction ttl (el_lease x1) t)) w3
        = (Inr l', w4)"
    and mut: "mutate en q p w4 = (Inr c, w5)"
    and con: "conclude en ttl q v0 r p s c l' w5 = (Inr v, w')"
  proof -
    from run [unfolded execute_def] obtain t y where t: "locally (authorize en q now) (w, x) = (Inr t, y)"
      and rest: "(case t of (record, approval, proposal) \<Rightarrow>
        seq (claim en q v0 now record proposal) (\<lambda>_.
          execute_claimed en ttl q v0 now record approval proposal)) y = (Inr v, (w', x'))"
      by (rule seq_cases) auto
    obtain r a p where trip: "t = (r, a, p)" by (metis prod_cases3)
    with t have "authorize en q now w = (Inr (r, a, p), w)" "y = (w, x)"
      by (auto simp: locally_Inr authorize_Inr)
    with rest trip show thesis
      by (auto simp: execute_claimed_def seq_Inr locally_Inr gets_def set_lease_def intro!: that)
  qed
  have filed: "filed y1" "filed w2" "filed w3" "filed w4" "filed w5"
  proof -
    show f1: "filed y1" using keeps_run [OF keeps_filed_steps(3) claim] \<open>filed w\<close>
      by (simp add: on_world_def)
    show f2: "filed w2" by (rule keeps_run [OF keeps_filed_steps(2) ins f1])
    show f3: "filed w3" by (rule keeps_run [OF keeps_filed_steps(1) rev f2])
    have "keeps filed (seq (now_act en) (\<lambda>t. on_leases (renew memory_transaction ttl (el_lease x1) t)))"
      by (intro keeps_intros) simp
    from keeps_run [OF this ren f3] show f4: "filed w4" .
    show "filed w5" by (rule keeps_run [OF keeps_filed_steps(4) mut f4])
  qed
  have "verified_write en q a p (w_kube w5)"
    using inspected_Inr [OF ins] mutate_Inr [OF mut] conclude_success [OF con assms(2) filed(5)]
    unfolding verified_write_def by blast
  then show ?thesis
    using auth conclude_success [OF con assms(2) filed(5)] by (auto simp: authorize_Inr)
qed

lemma leased_success:
  assumes run: "run_leased en ttl q v0 now resuming l w = (Inr v, w')"
    and "iv_state v = IV_SUCCEEDED" "filed w"
  shows "\<exists>r a p. store_get (w_store w) (iq_incident_id q) = Some r
    \<and> request_authority (en_digest en) q now r = Inr (a, p)
    \<and> verified_write en q a p (w_kube w') \<and> recorded_as (iq_incident_id q) v MONITORING w'"
proof -
  obtain r1 w1 x1 where ex: "execute en ttl q v0 now (w, \<lparr>el_claimed = resuming, el_lease = l\<rparr>)
      = (r1, (w1, x1))" by (metis prod_cases3)
  have "r1 = Inr v"
  proof (cases r1)
    case (Inl e)
    have "\<not> (\<exists>(y :: intervention) w2. on_failure en q v0 e (w1, x1) = (Inr y, w2))"
      by (auto simp: on_failure_def seq_Inr raise_def)
    with run ex Inl show ?thesis
      by (auto simp: run_leased_def with_locals_def try_finally_def try_except_def
          split: prod.splits sum.splits)
  next
    case (Inr a)
    with run ex show ?thesis
      by (auto simp: run_leased_def with_locals_def try_finally_def try_except_def
          split: prod.splits sum.splits)
  qed
  with execute_success [OF _ assms(2,3)] ex obtain r a p where
    auth: "store_get (w_store w) (iq_incident_id q) = Some r"
      "request_authority (en_digest en) q now r = Inr (a, p)"
    and ver: "verified_write en q a p (w_kube w1)" and rec: "recorded_as (iq_incident_id q) v MONITORING w1"
    by blast
  let ?P = "\<lambda>y. recorded_as (iq_incident_id q) v MONITORING y \<and> w_kube y = w_kube w1"
  have kube: "keeps (on_world (\<lambda>y. w_kube y = w_kube w1)) (release_lease en q)"
    unfolding release_lease_def
    by (intro keeps_intros keeps_audit_now keeps_on_leases) simp_all
  obtain y2 where rel: "release_lease en q (w1, x1) = y2" by blast
  have "w' = fst (snd y2)"
    using run ex \<open>r1 = Inr v\<close> rel
    by (auto simp: run_leased_def with_locals_def try_finally_def try_except_def
        split: prod.splits sum.splits)
  moreover have "recorded_as (iq_incident_id q) v MONITORING (fst (snd y2))"
    using keeps_run [OF keeps_recorded_release [OF refl, of q v MONITORING en], of "(w1, x1)"] rec rel
    by (cases y2) (simp add: on_world_def)
  moreover have "w_kube (fst (snd y2)) = w_kube w1"
    using keepsD [OF kube, of "(w1, x1)"] rel by (simp add: on_world_def)
  ultimately show ?thesis using auth ver by auto
qed

text \<open>C10. Success is verified, not assumed. When the Executor returns a succeeded Intervention for
  a request that no finished Intervention has answered, then the Deployment it inspected had the
  version, generation and revision of the Approval, applying the approved patch returned, the
  provider confirmed convergence with an observed state that shows the approved action (the exact
  replicas, revision or a newer revision, at a new version and a higher generation), nothing
  touched the cluster afterwards, and the incident is being monitored with the Intervention
  recorded.\<close>

theorem executor_success_is_verified:
  assumes "store_inv (w_store w)" and "consume en ttl owner q w = (Inr v, w')"
    and "iv_state v = IV_SUCCEEDED"
    and "store_get (w_store w) (iq_incident_id q) = Some r"
    and "\<forall>x\<in>set (ir_interventions r). iv_idempotency_key x = iq_idempotency_key q \<longrightarrow>
      iv_state x = RUNNING"
  shows "\<exists>a p. a \<in> set (ir_approvals r) \<and> apr_decision a = APPROVED
    \<and> ir_proposal r = Some p \<and> action_target (rp_action p) = iq_target q
    \<and> verified_write en q a p (w_kube w')
    \<and> recorded_as (iq_incident_id q) v MONITORING w'"
proof -
  let ?now = "en_clock en (w_readings w)" and ?w = "w\<lparr>w_readings := Suc (w_readings w)\<rparr>"
  have "\<not> (\<exists>e. List.find (\<lambda>v. iv_idempotency_key v = iq_idempotency_key q) (ir_interventions r) = Some e
      \<and> iv_state e \<noteq> RUNNING)"
    using assms(5) by (auto dest: find_in_set)
  with assms(2,4) obtain earlier where rcv: "receive en ttl owner q ?now earlier ?w = (Inr v, w')"
    by (auto simp: consume_def seq_def now_act_def get_record_def gets_def
        split: option.splits if_splits)
  obtain u w1 v0 w3 l where aud: "audit en q ''intervention_received'' ?now
      [(''payload_hash'', iq_payload_hash q)] ?w = (Inr u, w1)"
    and acq: "acquire_lease en ttl owner (iq_target q) (iv_intervention_id v0) ?now w1 = (Inr (Some l), w3)"
    and run: "run_leased en ttl q v0 ?now (earlier \<noteq> None) l w3 = (Inr v, w')"
    using rcv unfolding receive_def
    by (auto simp: seq_Inr lift_result_Inr executor_error_def raise_def split: option.splits)
  obtain e where e: "store_get (w_store w1) (iq_incident_id q) = Some (with_event e r)"
    using audit_Inr [OF aud] assms(1,4) by auto
  have store: "w_store w3 = w_store w1" using acquire_lease_Inr [OF acq] by simp
  have "filed ?w" using assms(1) store_inv_get by (fastforce simp: filed_def)
  then have "filed w3"
    using keeps_run [OF keeps_filed_audit(1) aud] store by (simp add: filed_def)
  from leased_success [OF run assms(3) this] e store obtain a p where
    auth: "request_authority (en_digest en) q ?now r = Inr (a, p)"
    and "verified_write en q a p (w_kube w')" "recorded_as (iq_incident_id q) v MONITORING w'"
    by (auto simp: request_authority_event)
  moreover from auth have "a \<in> set (ir_approvals r) \<and> apr_decision a = APPROVED
    \<and> ir_proposal r = Some p \<and> action_target (rp_action p) = iq_target q"
    by (auto simp: request_authority_Inr dest: find_in_set)
  ultimately show ?thesis by blast
qed

theorem executor_success_is_verified_witness:
  "\<exists>v a p w'. consume flat_environment (seconds 30) ''executor-1'' flat_request flat_world = (Inr v, w')
     \<and> iv_state v = IV_SUCCEEDED \<and> apr_decision a = APPROVED
     \<and> verified_write flat_environment flat_request a p (w_kube w')"
proof -
  obtain w' where run: "consume flat_environment (seconds 30) ''executor-1'' flat_request flat_world
      = (Inr ((claimed_intervention flat_request)\<lparr>iv_state := IV_SUCCEEDED\<rparr>), w')"
    using flat_consumed by blast
  have r: "store_get (w_store flat_world) (iq_incident_id flat_request) = Some flat_record"
    by (simp add: flat_world_def sample_world_def store_get_def flat_request_def)
  have none: "\<forall>x\<in>set (ir_interventions flat_record). iv_idempotency_key x = iq_idempotency_key flat_request
      \<longrightarrow> iv_state x = RUNNING" by (simp add: flat_record_def)
  from executor_success_is_verified [OF flat_world_inv run _ r none] run show ?thesis
    by (intro exI [of _ "(claimed_intervention flat_request)\<lparr>iv_state := IV_SUCCEEDED\<rparr>"]) auto
qed

section \<open>Requests that are not executed\<close>

text \<open>Nothing but audit events of the incident \<open>i\<close> was added.\<close>

definition only_audited :: "string \<Rightarrow> investigation_record \<Rightarrow> 'k world \<Rightarrow> 'k world \<Rightarrow> bool" where
  "only_audited i r w w' \<longleftrightarrow> w_kube w' = w_kube w \<and> w_leases w' = w_leases w
     \<and> w_queue w' = w_queue w
     \<and> (\<exists>es. store_get (w_store w') i = Some (fold with_event es r))"

lemma fold_with_event_id [simp]:
  "ir_incident (fold with_event es r) = ir_incident r"
  "ir_interventions (fold with_event es r) = ir_interventions r"
  by (induction es arbitrary: r) simp_all

lemma keeps_only_audited:
  assumes "inc_incident_id (ir_incident r) = iq_incident_id q"
  shows "keeps (only_audited (iq_incident_id q) r w0) (audit en q k t d)"
  unfolding audit_def executor_event_def
proof (intro keeps_intros keeps_on_store)
  fix a :: audit_event and w :: "'a world"
  assume "only_audited (iq_incident_id q) r w0 w"
  then obtain es where es: "store_get (w_store w) (iq_incident_id q) = Some (fold with_event es r)"
    and w: "w_kube w = w_kube w0" "w_leases w = w_leases w0" "w_queue w = w_queue w0"
    by (auto simp: only_audited_def)
  obtain res s' where run: "append_audit_event (iq_incident_id q) a (w_store w) = (res, s')"
    by (metis surj_pair)
  have "\<exists>es. store_get s' (iq_incident_id q) = Some (fold with_event es r)"
  proof (cases res)
    case (Inl e)
    then show ?thesis using run es by (auto simp: append_audit_event_def dest!: store_update_Inl)
  next
    case (Inr r')
    then have "store_get s' (iq_incident_id q) = Some (with_event a (fold with_event es r))"
      using append_audit_event_Inr [OF _ es] run assms by simp
    then have "store_get s' (iq_incident_id q) = Some (fold with_event (es @ [a]) r)" by simp
    then show ?thesis by blast
  qed
  then show "only_audited (iq_incident_id q) r w0
      (w\<lparr>w_store := snd (append_audit_event (iq_incident_id q) a (w_store w))\<rparr>)"
    using run w by (simp add: only_audited_def)
qed (simp_all add: only_audited_def)

text \<open>C11. Requests that are finished or must wait are harmless. A request whose key a finished
  Intervention carries can only return that Intervention, and a request for a workload whose lease
  another run holds can only be refused (or answered by a finished Intervention); in both cases the
  cluster, the leases and the queue stay as they were and the record gains nothing but audit
  events. A request for an incident that does not exist raises and only reads the clock.\<close>

theorem unexecuted_requests_are_harmless:
  assumes "store_inv (w_store w)" and "consume en ttl owner q w = (res, w')"
  shows "(store_get (w_store w) (iq_incident_id q) = None \<longrightarrow>
       res = Inl (InterventionExecutionError ''Intervention Incident does not exist'')
       \<and> w' = w\<lparr>w_readings := Suc (w_readings w)\<rparr>)
    \<and> (\<forall>r v. store_get (w_store w) (iq_incident_id q) = Some r
        \<and> List.find (\<lambda>v. iv_idempotency_key v = iq_idempotency_key q) (ir_interventions r) = Some v
        \<and> iv_state v \<noteq> RUNNING \<longrightarrow>
       (\<forall>x. res = Inr x \<longrightarrow> x = v) \<and> only_audited (iq_incident_id q) r w w')
    \<and> (\<forall>r. store_get (w_store w) (iq_incident_id q) = Some r
        \<and> live_at (en_clock en (w_readings w)) (dict_get (w_leases w) (lease_key (iq_target q))) \<longrightarrow>
       only_audited (iq_incident_id q) r w w'
       \<and> (\<forall>x. res = Inr x \<longrightarrow> x \<in> set (ir_interventions r) \<and> iv_state x \<noteq> RUNNING))"
proof (cases "store_get (w_store w) (iq_incident_id q)")
  case None
  with assms(2) show ?thesis
    by (auto simp: consume_def seq_def now_act_def get_record_def gets_def executor_error_def raise_def)
next
  case (Some r)
  let ?now = "en_clock en (w_readings w)" and ?w = "w\<lparr>w_readings := Suc (w_readings w)\<rparr>"
  have id: "inc_incident_id (ir_incident r) = iq_incident_id q"
    using store_inv_get [OF assms(1) Some] by simp
  have "fold with_event [] r = r" by simp
  then have start: "only_audited (iq_incident_id q) r w ?w"
    using Some by (simp add: only_audited_def) (metis fold.simps(1) id_apply)
  note quiet = keeps_only_audited [OF id, of w]
  have dup: "(\<forall>x. res = Inr x \<longrightarrow> x = v) \<and> only_audited (iq_incident_id q) r w w'"
    if v: "List.find (\<lambda>v. iv_idempotency_key v = iq_idempotency_key q) (ir_interventions r) = Some v"
      "iv_state v \<noteq> RUNNING" for v
  proof -
    have run: "seq (audit en q ''intervention_duplicate_rejected'' ?now []) (\<lambda>_. ret v) ?w = (res, w')"
      using assms(2) Some v by (simp add: consume_def seq_def now_act_def get_record_def gets_def)
    have "keeps (only_audited (iq_incident_id q) r w)
        (seq (audit en q ''intervention_duplicate_rejected'' ?now []) (\<lambda>_. ret v))"
      by (intro keeps_intros quiet)
    from keeps_run [OF this run start] run show ?thesis by (auto simp: seq_Inr ret_def)
  qed
  moreover have "only_audited (iq_incident_id q) r w w' \<and> (\<forall>x. res = Inr x \<longrightarrow> False)"
    if live: "live_at ?now (dict_get (w_leases w) (lease_key (iq_target q)))"
      and rcv: "receive en ttl owner q ?now earlier ?w = (res, w')" for earlier
    using rcv unfolding receive_def
  proof (cases rule: seq_cases)
    case (raised e)
    then show ?thesis using keeps_run [OF quiet raised(1) start] by simp
  next
    case (returned u w1)
    have w1: "only_audited (iq_incident_id q) r w w1" by (rule keeps_run [OF quiet returned(1) start])
    then have live1: "live_at ?now (dict_get (w_leases w1) (lease_key (iq_target q)))"
      using live by (simp add: only_audited_def)
    let ?refuse = "seq (audit en q ''intervention_refused'' ?now
        [(''reason'', ''another Intervention holds the Managed Workload'')])
      (\<lambda>_. executor_error ''another Intervention holds the Managed Workload'')
        :: ('a world, intervention) act"
    have "(\<exists>e. res = Inl e) \<and> w' = w1 \<or> ?refuse w1 = (res, w')"
      using returned(2)
    proof (cases rule: seq_cases)
      case (returned v w2)
      have held: "acquire_lease en ttl owner (iq_target q) j ?now w1 = (Inr None, w1)" for j
        using live1 by (simp add: acquire_lease_def)
      from returned have "w2 = w1" by (simp add: lift_result_def)
      with returned(2) show ?thesis by (simp add: seq_def [of "acquire_lease _ _ _ _ _ _"] held)
    qed (simp add: lift_result_def)
    moreover have "keeps (only_audited (iq_incident_id q) r w) ?refuse"
      unfolding executor_error_def by (intro keeps_intros quiet)
    moreover have "\<not> (\<exists>x y. ?refuse w1 = (Inr x, y))"
      by (auto simp: seq_Inr executor_error_def raise_def)
    ultimately show ?thesis using w1 by (auto dest!: keeps_run)
  qed
  moreover have "(\<exists>v. List.find (\<lambda>v. iv_idempotency_key v = iq_idempotency_key q) (ir_interventions r) = Some v
      \<and> iv_state v \<noteq> RUNNING) \<or> (\<exists>earlier. receive en ttl owner q ?now earlier ?w = (res, w'))"
    using assms(2) Some by (auto simp: consume_def seq_def now_act_def get_record_def gets_def
        split: option.splits if_splits)
  ultimately show ?thesis using Some by (auto dest: find_in_set)
qed

theorem unexecuted_requests_are_harmless_witness:
  "consume flat_environment (seconds 30) ''executor-1'' flat_request (sample_world [])
     = (Inl (InterventionExecutionError ''Intervention Incident does not exist''),
        (sample_world [])\<lparr>w_readings := 1\<rparr>)"
proof -
  let ?run = "consume flat_environment (seconds 30) ''executor-1'' flat_request (sample_world [])"
  have "store_inv (w_store (sample_world []))" by (simp add: sample_world_def)
  from unexecuted_requests_are_harmless [OF this surjective_pairing [of ?run]]
  show ?thesis by (simp add: sample_world_def store_get_def prod_eq_iff)
qed

end
