(* ===== verification/Executor_Halts.thy ===== *)
theory Executor_Halts
  imports Executor_Guarantees
begin

text \<open>
  The Executor fails closed: once it holds the lease, whatever the providers return or raise, the
  Intervention of its request is not left running. The invariant \<open>steady\<close> says that the record can
  always still be moved to a safe halt; every step keeps it, and a safe halt uses it.
\<close>

section \<open>A running Intervention can always be safe-halted\<close>

lemma same_except_state:
  assumes "(f v)\<lparr>iv_state := iv_state v\<rparr> = (v :: intervention)"
  shows "iv_intervention_id (f v) = iv_intervention_id v" "iv_incident_id (f v) = iv_incident_id v"
    "iv_proposal_id (f v) = iv_proposal_id v" "iv_approval_id (f v) = iv_approval_id v"
    "iv_target (f v) = iv_target v" "wf_intervention (f v) = wf_intervention v"
    "iv_idempotency_key (f v) = iv_idempotency_key v"
  using arg_cong [OF assms, of iv_intervention_id] arg_cong [OF assms, of iv_incident_id]
    arg_cong [OF assms, of iv_proposal_id] arg_cong [OF assms, of iv_approval_id]
    arg_cong [OF assms, of iv_target] arg_cong [OF assms, of iv_idempotency_key]
  by (simp_all add: wf_intervention_def)

lemma wf_record_new_states:
  assumes "wf_record r" and same: "\<And>v. v \<in> set (ir_interventions r) \<Longrightarrow> (f v)\<lparr>iv_state := iv_state v\<rparr> = v"
    and "incident_fields j" "inc_incident_id j = inc_incident_id (ir_incident r)"
    and "inc_application_id j = inc_application_id (ir_incident r)"
  shows "wf_record (r\<lparr>ir_incident := j, ir_interventions := map f (ir_interventions r)\<rparr>)"
proof -
  note eqs = same_except_state [where f = f, OF same]
  have maps: "map (iv_incident_id \<circ> f) (ir_interventions r) = map iv_incident_id (ir_interventions r)"
    "map (iv_target \<circ> f) (ir_interventions r) = map iv_target (ir_interventions r)"
    using eqs(2,5) by simp_all
  have ids: "(\<lambda>v. iv_intervention_id (f v)) ` set (ir_interventions r) = iv_intervention_id ` set (ir_interventions r)"
    "(\<lambda>v. iv_approval_id (f v)) ` set (ir_interventions r) = iv_approval_id ` set (ir_interventions r)"
    using eqs(1,4) by simp_all
  have "list_all (wf_intervention \<circ> f) (ir_interventions r) = list_all wf_intervention (ir_interventions r)"
    using eqs(6) by (simp add: list_all_iff)
  moreover have "decisions_consistent (r\<lparr>ir_incident := j, ir_interventions := map f (ir_interventions r)\<rparr>)
      = decisions_consistent r"
    using assms(4) eqs(3) ids
    by (simp add: decisions_consistent_def image_image cong: option.case_cong)
  ultimately show ?thesis using assms(1,3-5) maps
    by (simp add: wf_record_def wf_append_simps list.pred_map)
qed

definition outcome_open :: "investigation_record \<Rightarrow> bool" where
  "outcome_open r \<longleftrightarrow> inc_intervention_outcome (ir_incident r) \<in> {OUT_NOT_STARTED, OUT_MONITORING}"

lemma safe_halt_succeeds:
  assumes inv: "record_inv r" and c: "c \<in> set (ir_interventions r)" "iv_state c = RUNNING"
    and v: "v\<lparr>iv_state := RUNNING\<rparr> = c" "iv_state v = IV_SAFE_HALTED"
    and id: "inc_incident_id (ir_incident r) = i" "ae_incident_id e = i" and e: "wf_audit_event e"
    and new: "\<not> list_ex (\<lambda>x. ae_event_id x = ae_event_id e) (ir_audit_events r)"
    and out: "outcome_open r"
  shows "\<exists>r'. update_intervention_record i v e r = Inr r'"
proof -
  have vid: "iv_intervention_id v = iv_intervention_id c" using arg_cong [OF v(1), of iv_intervention_id] by simp
  have dist: "distinct (map iv_intervention_id (ir_interventions r))"
    using inv by (simp add: record_inv_def unique_entries_def)
  then have same: "x = c" if "x \<in> set (ir_interventions r)" "iv_intervention_id x = iv_intervention_id c" for x
    using that c(1) by (simp add: distinct_map inj_on_def)
  have find: "List.find (\<lambda>w. iv_intervention_id w = iv_intervention_id v) (ir_interventions r) = Some c"
  proof (cases "List.find (\<lambda>w. iv_intervention_id w = iv_intervention_id v) (ir_interventions r)")
    case None
    then show ?thesis using c(1) vid by (auto simp: find_None_iff)
  next
    case (Some x)
    then show ?thesis using find_in_set [OF Some] same vid by simp
  qed
  let ?f = "\<lambda>w. if iv_intervention_id w = iv_intervention_id v then v else w"
  obtain j where j: "transition_incident (ir_incident r) (Some (inc_lifecycle (ir_incident r))) None
      (Some OUT_SAFE_HALTED) = Inr j"
    using out by (auto simp: transition_incident_Inr outcome_open_def intervention_ok_def lifecycle_ok_def
        investigation_ok_def)
  let ?j = "bump_version j (inc_version (ir_incident r))"
  have "(?f w)\<lparr>iv_state := iv_state w\<rparr> = w" if "w \<in> set (ir_interventions r)" for w
  proof (cases "iv_intervention_id w = iv_intervention_id v")
    case True
    then have w: "w = c" using same [OF that] vid by simp
    show ?thesis unfolding if_P [OF True] unfolding w by (simp only: c(2) v(1))
  qed simp
  moreover have "incident_fields ?j"
    using transition_incident_fields [OF j] inv
    by (simp add: record_inv_def wf_record_def nested_entries_wf_def incident_fields_def bump_version_def)
  ultimately have "wf_record (r\<lparr>ir_incident := ?j, ir_interventions := map ?f (ir_interventions r)\<rparr>)"
    using wf_record_new_states [of r ?f ?j] inv transition_incident_frame [OF j]
    by (simp add: record_inv_def bump_version_def)
  moreover have "audit_ok (r\<lparr>ir_incident := ?j, ir_interventions := map ?f (ir_interventions r)\<rparr>)"
    using inv by (simp add: record_inv_def audit_ok_def)
  ultimately have "wf_record (with_event e (r\<lparr>ir_incident := ?j,
      ir_interventions := map ?f (ir_interventions r)\<rparr>))"
    using wf_record_append_audit_event [OF _ _ e] id new transition_incident_frame [OF j]
    by (simp add: append_audit_event_record_def guarded_Inr bump_version_def)
  then show ?thesis using find j id new c(2) v
    by (simp add: update_intervention_record_def guarded_pass first_problem.simps Let_def
        validate_record_def wf_record_def)
qed

section \<open>The invariant\<close>

text \<open>
  \<open>v\<close> is the Intervention of the request in its running state, \<open>r0\<close> the record the run started
  from, \<open>n\<close> the number of UUIDs drawn so far.
\<close>

definition steady ::
  "'k environment \<Rightarrow> string \<Rightarrow> intervention \<Rightarrow> investigation_record \<Rightarrow> nat
     \<Rightarrow> investigation_record \<Rightarrow> bool" where
  "steady en i v r0 n r \<longleftrightarrow> record_inv r \<and> inc_incident_id (ir_incident r) = i \<and> record_extends r0 r
     \<and> (\<forall>m\<ge>n. ''audit-'' @ en_uuid en m \<notin> set (map ae_event_id (ir_audit_events r)))
     \<and> (\<forall>x\<in>set (ir_interventions r). iv_idempotency_key x = iv_idempotency_key v \<longrightarrow>
          x\<lparr>iv_state := RUNNING\<rparr> = v)
     \<and> ((\<forall>x\<in>set (ir_interventions r). iv_idempotency_key x = iv_idempotency_key v \<longrightarrow>
          iv_state x = RUNNING) \<longrightarrow> outcome_open r)"

definition at_rest ::
  "'k environment \<Rightarrow> string \<Rightarrow> intervention \<Rightarrow> investigation_record \<Rightarrow> (intervention list \<Rightarrow> bool)
     \<Rightarrow> 'k world \<Rightarrow> bool" where
  "at_rest en i v r0 Q w \<longleftrightarrow> (\<exists>r. store_get (w_store w) i = Some r
     \<and> steady en i v r0 (w_uuids w) r \<and> Q (ir_interventions r))"

definition stopped_in :: "intervention \<Rightarrow> intervention list \<Rightarrow> bool" where
  "stopped_in v xs \<longleftrightarrow>
     (\<forall>x\<in>set xs. iv_idempotency_key x = iv_idempotency_key v \<longrightarrow> iv_state x \<noteq> RUNNING)"

definition absent_in :: "intervention \<Rightarrow> intervention list \<Rightarrow> bool" where
  "absent_in v xs \<longleftrightarrow> (\<forall>x\<in>set xs. iv_idempotency_key x \<noteq> iv_idempotency_key v)"

abbreviation anyhow :: "intervention list \<Rightarrow> bool" where
  "anyhow \<equiv> \<lambda>_. True"

lemma at_rest_frame [simp]:
  "at_rest en i v r0 Q (w\<lparr>w_readings := n\<rparr>) = at_rest en i v r0 Q w"
  "at_rest en i v r0 Q (w\<lparr>w_leases := d\<rparr>) = at_rest en i v r0 Q w"
  "at_rest en i v r0 Q (w\<lparr>w_kube := k\<rparr>) = at_rest en i v r0 Q w"
  by (simp_all add: at_rest_def)

lemma at_rest_mono: "at_rest en i v r0 Q w \<Longrightarrow> (\<And>xs. Q xs \<Longrightarrow> R xs) \<Longrightarrow> at_rest en i v r0 R w"
  by (auto simp: at_rest_def)

lemma steady_Suc: "steady en i v r0 n r \<Longrightarrow> steady en i v r0 (Suc n) r"
  by (auto simp: steady_def)

lemma steady_named: "steady en i v r0 n r \<Longrightarrow> i \<noteq> []"
  by (auto simp: steady_def record_inv_def wf_record_def nested_entries_wf_def incident_fields_def)

lemma steady_later:
  assumes "steady en i v r0 n r" "inj (en_uuid en)"
    and step: "record_step r r'"
    and "map ae_event_id (ir_audit_events r')
      = map ae_event_id (ir_audit_events r) @ [''audit-'' @ en_uuid en n]"
    and "\<And>x. x \<in> set (ir_interventions r') \<Longrightarrow> iv_idempotency_key x = iv_idempotency_key v \<Longrightarrow>
      x\<lparr>iv_state := RUNNING\<rparr> = v"
    and "(\<forall>x\<in>set (ir_interventions r'). iv_idempotency_key x = iv_idempotency_key v \<longrightarrow>
          iv_state x = RUNNING) \<Longrightarrow> outcome_open r'"
  shows "steady en i v r0 (Suc n) r'"
proof -
  have "record_extends r r'" "record_inv r'" using step by (simp_all add: record_step_def)
  moreover have "record_extends r0 r'"
    using record_extends_trans \<open>record_extends r r'\<close> assms(1) by (auto simp: steady_def)
  moreover have "''audit-'' @ en_uuid en m \<notin> set (map ae_event_id (ir_audit_events r'))"
    if "Suc n \<le> m" for m
  proof -
    have "en_uuid en n \<noteq> en_uuid en m" using inj_eq [OF assms(2)] that by auto
    then show ?thesis using assms(1) that unfolding assms(4) by (simp add: steady_def)
  qed
  moreover have "inc_incident_id (ir_incident r') = i"
    using \<open>record_extends r r'\<close> assms(1) by (simp add: record_extends_def steady_def)
  ultimately show ?thesis using assms(5,6) by (simp add: steady_def)
qed

lemma steady_audited:
  assumes "steady en i v r0 n r" "inj (en_uuid en)"
    and "append_audit_event_record i e r = Inr r'" "wf_audit_event e"
    and "ae_event_id e = ''audit-'' @ en_uuid en n"
  shows "steady en i v r0 (Suc n) r' \<and> ir_interventions r' = ir_interventions r"
proof -
  have r': "r' = with_event e r" using assms(3) by (simp add: append_audit_event_record_def guarded_Inr)
  have "record_step r r'"
    using append_audit_event_step [OF _ assms(4) _ assms(3)] assms(1) by (simp add: steady_def)
  then have "steady en i v r0 (Suc n) r'"
    by (rule steady_later [OF assms(1,2)])
      (use assms(1,5) in \<open>simp_all add: steady_def outcome_open_def r'\<close>)
  then show ?thesis by (simp add: r')
qed

lemma steady_closed:
  assumes "steady en i v r0 n r" "inj (en_uuid en)" "iv_state v = RUNNING" "st \<noteq> RUNNING"
    and up: "update_intervention_record i (v\<lparr>iv_state := st\<rparr>) e r = Inr r'"
    and "ae_event_id e = ''audit-'' @ en_uuid en n"
  shows "steady en i v r0 (Suc n) r' \<and> stopped_in v (ir_interventions r')"
proof -
  from up obtain c j where
    c: "List.find (\<lambda>w. iv_intervention_id w = iv_intervention_id v) (ir_interventions r) = Some c"
    and r': "r' = with_event e (r\<lparr>ir_incident := j, ir_interventions :=
      map (\<lambda>w. if iv_intervention_id w = iv_intervention_id v then v\<lparr>iv_state := st\<rparr> else w)
        (ir_interventions r)\<rparr>)"
    by (auto simp: update_intervention_record_def guarded_Inr bind_result_Inr validate_record_Inr
        split: option.splits prod.splits)
  have step: "record_step r r'" using update_intervention_step [OF _ up] assms(1) by (simp add: steady_def)
  have new: "x = v\<lparr>iv_state := st\<rparr> \<or> x \<in> set (ir_interventions r) \<and> iv_intervention_id x \<noteq> iv_intervention_id v"
    if "x \<in> set (ir_interventions r')" for x
    using that by (auto simp: r')
  have stopped: "stopped_in v (ir_interventions r')"
    unfolding stopped_in_def
  proof (intro ballI impI)
    fix x assume "x \<in> set (ir_interventions r')" and key: "iv_idempotency_key x = iv_idempotency_key v"
    from new [OF this(1)] show "iv_state x \<noteq> RUNNING"
    proof
      assume "x = v\<lparr>iv_state := st\<rparr>"
      then show ?thesis using assms(4) by simp
    next
      assume x: "x \<in> set (ir_interventions r) \<and> iv_intervention_id x \<noteq> iv_intervention_id v"
      with assms(1) key have "x\<lparr>iv_state := RUNNING\<rparr> = v" by (simp add: steady_def)
      from arg_cong [OF this, of iv_intervention_id] x show ?thesis by simp
    qed
  qed
  have "v\<lparr>iv_state := st\<rparr> \<in> set (ir_interventions r')"
    using find_in_set [OF c] by (force simp: r')
  then have "\<not> (\<forall>x\<in>set (ir_interventions r'). iv_idempotency_key x = iv_idempotency_key v \<longrightarrow>
      iv_state x = RUNNING)" using assms(4) by force
  moreover have "x\<lparr>iv_state := RUNNING\<rparr> = v" if x: "x \<in> set (ir_interventions r')"
    "iv_idempotency_key x = iv_idempotency_key v" for x
    using new [OF x(1)]
  proof
    assume x: "x = v\<lparr>iv_state := st\<rparr>"
    show ?thesis unfolding x using assms(3) by (cases v) simp
  next
    assume "x \<in> set (ir_interventions r) \<and> iv_intervention_id x \<noteq> iv_intervention_id v"
    then show ?thesis using assms(1) x(2) by (simp add: steady_def)
  qed
  moreover have "map ae_event_id (ir_audit_events r')
      = map ae_event_id (ir_audit_events r) @ [''audit-'' @ en_uuid en n]"
    using assms(6) by (simp add: r')
  ultimately have "steady en i v r0 (Suc n) r'"
    using steady_later [OF assms(1,2) step] by blast
  with stopped show ?thesis by blast
qed

section \<open>What every step of a run keeps\<close>

definition ends :: "('w \<Rightarrow> bool) \<Rightarrow> ('w \<Rightarrow> bool) \<Rightarrow> ('w, 'a) act \<Rightarrow> bool" where
  "ends P Q m \<longleftrightarrow> (\<forall>w. P w \<longrightarrow> wp m (\<lambda>_. Q) (\<lambda>_. P) w)"

named_theorems ends_intros \<open>actions that keep an invariant and return only in a final state\<close>

lemma ends_seq [ends_intros]:
  assumes "keeps P m" and "\<And>a. ends P Q (f a)"
  shows "ends P Q (seq m f)"
  unfolding ends_def wp_seq
proof (intro allI impI)
  fix w assume w: "P w"
  show "wp m (\<lambda>a w'. wp (f a) (\<lambda>_. Q) (\<lambda>_. P) w') (\<lambda>_. P) w"
  proof (cases "m w")
    case (Pair res x)
    then have x: "P x" using keepsD [OF assms(1) w] by simp
    then have "wp (f a) (\<lambda>_. Q) (\<lambda>_. P) x" for a using assms(2) by (simp add: ends_def)
    with x Pair show ?thesis by (simp add: wp_def [of m] split: sum.split)
  qed
qed

lemma ends_raise [ends_intros]: "ends P Q (raise e)" "ends P Q (executor_error m)"
  by (simp_all add: ends_def wp_simps executor_error_def)

lemma ends_if [ends_intros]: "ends P Q m \<Longrightarrow> ends P Q n \<Longrightarrow> ends P Q (if b then m else n)"
  by simp

lemma ends_option [ends_intros]:
  "ends P Q m \<Longrightarrow> (\<And>a. ends P Q (f a)) \<Longrightarrow> ends P Q (case x of None \<Rightarrow> m | Some a \<Rightarrow> f a)"
  by (cases x) simp_all

lemma ends_policy_status [ends_intros]:
  "ends P Q a \<Longrightarrow> ends P Q b \<Longrightarrow> ends P Q c \<Longrightarrow>
     ends P Q (case s of POLICY_PASSED \<Rightarrow> a | POLICY_REJECTED \<Rightarrow> b | DRY_RUN_FAILED \<Rightarrow> c)"
  by (cases s) simp_all

lemma ends_status [ends_intros]:
  "ends P Q a \<Longrightarrow> ends P Q b \<Longrightarrow> ends P Q c \<Longrightarrow>
     ends P Q (case s of CONVERGENCE_SUCCEEDED \<Rightarrow> a | CONVERGENCE_FAILED \<Rightarrow> b
       | CONVERGENCE_AMBIGUOUS \<Rightarrow> c)"
  by (cases s) simp_all

lemma ends_action [ends_intros]:
  "(\<And>t n. ends P Q (f t n)) \<Longrightarrow> (\<And>t n. ends P Q (g t n)) \<Longrightarrow> (\<And>t k. ends P Q (h t k)) \<Longrightarrow>
     ends P Q (case a of RollbackDeploymentAction t n \<Rightarrow> f t n | ScaleDeploymentAction t n \<Rightarrow> g t n
       | RestartDeploymentAction t k \<Rightarrow> h t k)"
  by (cases a) simp_all

lemma ends_let [ends_intros]: "(\<And>x. ends P Q (f x)) \<Longrightarrow> ends P Q (let x = a in f x)"
  by simp

locale safe_run =
  fixes en :: "'k environment" and q :: intervention_request and v :: intervention
    and r0 :: investigation_record
  assumes inj_uuid: "inj (en_uuid en)" and running: "iv_state v = RUNNING"
begin

abbreviation resting :: "(intervention list \<Rightarrow> bool) \<Rightarrow> 'k world \<Rightarrow> bool" where
  "resting \<equiv> at_rest en (iq_incident_id q) v r0"

lemma keeps_audit_rest:
  assumes "k \<noteq> []"
  shows "keeps (resting Q) (audit en q k t d)"
proof (rule keepsI)
  fix w assume "resting Q w"
  then obtain r where r: "store_get (w_store w) (iq_incident_id q) = Some r"
    "steady en (iq_incident_id q) v r0 (w_uuids w) r" "Q (ir_interventions r)"
    by (auto simp: at_rest_def)
  define e where "e = \<lparr>ae_event_id = ''audit-'' @ en_uuid en (w_uuids w),
    ae_incident_id = iq_incident_id q, ae_event_type = k, ae_occurred_at = t,
    ae_actor = ''deterministic-executor'', ae_details = [(''request_id'', iq_request_id q),
         (''idempotency_key'', iq_idempotency_key q)] @ d, ae_cursor = 0\<rparr>"
  have "iq_incident_id q \<noteq> []" using r(2) by (rule steady_named)
  then have wfe: "wf_audit_event e" using assms by (simp add: wf_audit_event_def e_def)
  have id: "ae_event_id e = ''audit-'' @ en_uuid en (w_uuids w)" "ae_incident_id e = iq_incident_id q"
    by (simp_all add: e_def)
  show "resting Q (snd (audit en q k t d w))"
  proof (cases "append_audit_event_record (iq_incident_id q) e r")
    case (Inl x)
    then have "append_audit_event (iq_incident_id q) e (w_store w) = (Inl x, w_store w)"
      using r(1) by (simp add: append_audit_event_def store_update_def required_record_def)
    then have "snd (audit en q k t d w) = w\<lparr>w_uuids := Suc (w_uuids w)\<rparr>"
      by (simp add: audit_def executor_event_def new_event_def seq_def uuid4_def ret_def on_store_def
          on_part_def e_def)
    then show ?thesis using r steady_Suc [OF r(2)] by (auto simp: at_rest_def)
  next
    case (Inr r')
    note st = steady_audited [OF r(2) inj_uuid Inr wfe id(1)]
    then have st': "inc_incident_id (ir_incident r') = iq_incident_id q" by (simp add: steady_def)
    have "append_audit_event (iq_incident_id q) e (w_store w) = (Inr r', store_replace r' (w_store w))"
      using r(1) Inr by (simp add: append_audit_event_def store_update_def required_record_def)
    then have "snd (audit en q k t d w)
        = w\<lparr>w_uuids := Suc (w_uuids w), w_store := store_replace r' (w_store w)\<rparr>"
      by (simp add: audit_def executor_event_def new_event_def seq_def uuid4_def ret_def on_store_def
          on_part_def e_def)
    then show ?thesis using st st' r(3) by (auto simp: at_rest_def store_get_replace)
  qed
qed

lemma keeps_audit_now_rest [keeps_intros]: "k \<noteq> [] \<Longrightarrow> keeps (resting Q) (audit_now en q k d)"
  unfolding audit_now_def by (intro keeps_intros keeps_audit_rest) simp_all

lemmas [keeps_intros] = keeps_audit_rest

text \<open>Closing the Intervention either leaves it as it was or stops it.\<close>

lemma close_wp:
  assumes "st \<noteq> RUNNING" "resting Q w"
  shows "wp (close_intervention en q (v\<lparr>iv_state := st\<rparr>) k d)
    (\<lambda>_. resting (stopped_in v)) (\<lambda>_. resting Q) w"
proof -
  from assms(2) obtain r where r: "store_get (w_store w) (iq_incident_id q) = Some r"
    "steady en (iq_incident_id q) v r0 (w_uuids w) r" "Q (ir_interventions r)"
    by (auto simp: at_rest_def)
  define e where "e = \<lparr>ae_event_id = ''audit-'' @ en_uuid en (w_uuids w),
    ae_incident_id = iq_incident_id q, ae_event_type = k,
    ae_occurred_at = en_clock en (w_readings w),
    ae_actor = ''deterministic-executor'', ae_details = [(''request_id'', iq_request_id q),
         (''idempotency_key'', iq_idempotency_key q)] @ d, ae_cursor = 0\<rparr>"
  have id: "ae_event_id e = ''audit-'' @ en_uuid en (w_uuids w)" by (simp add: e_def)
  let ?up = "update_intervention_record (iq_incident_id q) (v\<lparr>iv_state := st\<rparr>) e r"
  let ?w = "w\<lparr>w_readings := Suc (w_readings w), w_uuids := Suc (w_uuids w)\<rparr>"
  show ?thesis
  proof (cases ?up)
    case (Inl x)
    then have "close_intervention en q (v\<lparr>iv_state := st\<rparr>) k d w = (Inl x, ?w)"
      using r(1) by (simp add: close_intervention_def executor_event_def new_event_def seq_def
          now_act_def uuid4_def ret_def on_store_def on_part_def e_def update_intervention_def
          store_update_def required_record_def)
    moreover have "resting Q ?w" using r steady_Suc [OF r(2)] by (auto simp: at_rest_def)
    ultimately show ?thesis by (simp add: wp_def)
  next
    case (Inr r')
    note st = steady_closed [OF r(2) inj_uuid running assms(1) Inr id]
    then have st': "inc_incident_id (ir_incident r') = iq_incident_id q" by (simp add: steady_def)
    have "close_intervention en q (v\<lparr>iv_state := st\<rparr>) k d w
        = (Inr (), ?w\<lparr>w_store := store_replace r' (w_store w)\<rparr>)"
      using r(1) Inr by (simp add: close_intervention_def executor_event_def new_event_def seq_def
          now_act_def uuid4_def ret_def on_store_def on_part_def e_def update_intervention_def
          store_update_def required_record_def)
    moreover have "resting (stopped_in v) (?w\<lparr>w_store := store_replace r' (w_store w)\<rparr>)"
      using st st' by (auto simp: at_rest_def store_get_replace)
    ultimately show ?thesis by (simp add: wp_def)
  qed
qed

lemma ends_close [ends_intros]:
  assumes "st \<noteq> RUNNING"
  shows "ends (resting anyhow) (resting (stopped_in v))
    (seq (close_intervention en q (v\<lparr>iv_state := st\<rparr>) k d) (\<lambda>_. ret x))"
  unfolding ends_def wp_seq wp_ret using close_wp [OF assms] by blast

lemma keeps_part_rest [keeps_intros]:
  "keeps (resting Q) (now_act en)" "keeps (resting Q) (on_kube m)" "keeps (resting Q) (on_leases m')"
  by (intro keeps_intros keeps_on_kube keeps_on_leases; simp)+

lemma keeps_evaluate_rest [keeps_intros]: "keeps (resting Q) (evaluate en r p)"
  unfolding evaluate_def evaluate_patch_def decision_def Let_def by (intro keeps_intros)

lemma keeps_error_rest [keeps_intros]: "keeps P (executor_error m)"
  unfolding executor_error_def by (rule keeps_raise)

lemma keeps_steps_rest [keeps_intros]:
  "keeps (resting Q) (inspect_approved en q a)" "keeps (resting Q) (revalidate en q t r p)"
  "keeps (resting Q) (mutate en q p)" "keeps (resting Q) (record_refusal en q m)"
  "keeps (resting Q) (apply_restoration en ttl w q x s pt n l)"
  unfolding inspect_approved_def revalidate_def mutate_def record_refusal_def apply_restoration_def
  by (intro keeps_intros; simp)+

lemma ends_restore [ends_intros]:
  "ends (resting anyhow) (resting (stopped_in v)) (restore_failed_scale en ttl v q r p s c l)"
  unfolding restore_failed_scale_def restore_by_def finish_restoration_def Let_def prod.case
  by (intro ends_intros keeps_intros; simp)

lemma ends_conclude [ends_intros]:
  "ends (resting anyhow) (resting (stopped_in v)) (conclude en ttl q v r p s c l)"
  unfolding conclude_def handle_action_failure_def Let_def
  by (intro ends_intros keeps_intros; simp)

text \<open>With the Intervention claimed, the rest of the block keeps it stoppable or stops it.\<close>

definition claimed :: "'k execution \<Rightarrow> bool" where
  "claimed x \<longleftrightarrow> resting anyhow (fst x) \<and> el_claimed (snd x)"

lemma keeps_claimed [keeps_intros]:
  "keeps (resting anyhow) m \<Longrightarrow> keeps claimed (locally m)"
  "keeps claimed (set_lease l)"
  by (auto simp: keeps_def claimed_def locally_def set_lease_def split: prod.splits)

lemma ends_locally [ends_intros]:
  assumes "ends (resting anyhow) Q m"
  shows "ends claimed (on_world Q) (locally m)"
  unfolding ends_def
proof (intro allI impI)
  fix x assume x: "claimed x"
  then have "wp m (\<lambda>_. Q) (\<lambda>_. resting anyhow) (fst x)" using assms by (simp add: claimed_def ends_def)
  with x show "wp (locally m) (\<lambda>_. on_world Q) (\<lambda>_. claimed) x"
    by (cases x) (auto simp: wp_def locally_def claimed_def on_world_def split: prod.splits sum.splits)
qed

lemma ends_after_claim:
  "ends claimed (on_world (resting (stopped_in v))) (execute_claimed en ttl q v now r a p)"
  unfolding execute_claimed_def by (intro ends_intros keeps_intros)

text \<open>Before the claim the record has no Intervention of this request.\<close>

definition claimable :: "'k execution \<Rightarrow> bool" where
  "claimable x \<longleftrightarrow> (if el_claimed (snd x) then resting anyhow (fst x) else resting (absent_in v) (fst x))"

lemma claimed_claimable: "claimed x \<Longrightarrow> claimable x"
  by (simp add: claimed_def claimable_def)

lemma record_intervention_wp:
  assumes "resting (absent_in v) w" and "store_get (w_store w) (iq_incident_id q) = Some r"
    and fresh: "fresh_intervention v r"
  shows "wp (seq (executor_event en q k t d) (\<lambda>e. on_store (record_intervention (iq_incident_id q) n v e)))
    (\<lambda>_. resting anyhow) (\<lambda>_. resting (absent_in v)) w"
proof -
  from assms(1,2) have r: "steady en (iq_incident_id q) v r0 (w_uuids w) r"
    "absent_in v (ir_interventions r)" by (auto simp: at_rest_def)
  define e where "e = \<lparr>ae_event_id = ''audit-'' @ en_uuid en (w_uuids w),
    ae_incident_id = iq_incident_id q, ae_event_type = k, ae_occurred_at = t,
    ae_actor = ''deterministic-executor'', ae_details = [(''request_id'', iq_request_id q),
         (''idempotency_key'', iq_idempotency_key q)] @ d, ae_cursor = 0\<rparr>"
  let ?up = "record_intervention_record (iq_incident_id q) n v e r"
    and ?w = "w\<lparr>w_uuids := Suc (w_uuids w)\<rparr>"
  let ?m = "seq (executor_event en q k t d) (\<lambda>e. on_store (record_intervention (iq_incident_id q) n v e))"
  show ?thesis
  proof (cases ?up)
    case (Inl x)
    then have "?m w = (Inl x, ?w)" using assms(2)
      by (simp add: executor_event_def new_event_def seq_def uuid4_def ret_def on_store_def
          on_part_def e_def record_intervention_def store_update_def required_record_def)
    moreover have "resting (absent_in v) ?w" using r assms(2) steady_Suc [OF r(1)] by (auto simp: at_rest_def)
    ultimately show ?thesis by (simp add: wp_def)
  next
    case (Inr r')
    then obtain j where j: "transition_incident (ir_incident r) (Some MITIGATING) None None = Inr j"
      and r': "r' = with_event e (r\<lparr>ir_incident := bump_version j (inc_version (ir_incident r)),
           ir_interventions := ir_interventions r @ [v]\<rparr>)"
      by (auto simp: record_intervention_record_def guarded_Inr bind_result_Inr validate_record_Inr)
    have step: "record_step r r'"
      using record_intervention_step [OF _ fresh Inr] r(1) by (simp add: steady_def)
    have open': "outcome_open r'"
      using r j by (auto simp: r' outcome_open_def steady_def absent_in_def transition_incident_Inr)
    have v: "v\<lparr>iv_state := RUNNING\<rparr> = v" using running by (cases v) simp
    have old: "iv_idempotency_key x \<noteq> iv_idempotency_key v" if "x \<in> set (ir_interventions r)" for x
      using r(2) that by (simp add: absent_in_def)
    have keys: "x\<lparr>iv_state := RUNNING\<rparr> = v"
      if "x \<in> set (ir_interventions r')" "iv_idempotency_key x = iv_idempotency_key v" for x
    proof -
      have "x = v" using that old by (auto simp: r')
      then show ?thesis using v by simp
    qed
    have "map ae_event_id (ir_audit_events r')
      = map ae_event_id (ir_audit_events r) @ [''audit-'' @ en_uuid en (w_uuids w)]"
      by (simp add: r' e_def)
    from steady_later [OF r(1) inj_uuid step this keys open']
    have st: "steady en (iq_incident_id q) v r0 (Suc (w_uuids w)) r'" .
    then have "inc_incident_id (ir_incident r') = iq_incident_id q" by (simp add: steady_def)
    moreover have "?m w = (Inr r', ?w\<lparr>w_store := store_replace r' (w_store w)\<rparr>)"
      using assms(2) Inr
      by (simp add: executor_event_def new_event_def seq_def uuid4_def ret_def on_store_def
          on_part_def e_def record_intervention_def store_update_def required_record_def)
    ultimately show ?thesis using st by (auto simp: wp_def at_rest_def store_get_replace)
  qed
qed

lemma claim_wp:
  assumes "claimable x" and "store_get (w_store (fst x)) (iq_incident_id q) = Some r"
    and "\<not> el_claimed (snd x) \<Longrightarrow> fresh_intervention v r"
  shows "wp (claim en q v now r p) (\<lambda>_. claimed) (\<lambda>_. claimable) x"
proof (cases "el_claimed (snd x)")
  case True
  then have c: "claimed x" using assms(1) by (simp add: claimable_def claimed_def)
  have eq: "claim en q v now r p x
      = locally (audit en q ''intervention_resumed'' now [action_type_detail p]) x"
    using True by (cases x) (simp add: claim_def seq_def gets_def)
  have "keeps claimed (locally (audit en q ''intervention_resumed'' now [action_type_detail p]))"
    by (intro keeps_intros) simp
  from keeps_wp [OF this c] show ?thesis
    unfolding wp_cong [where w = x and m = "claim en q v now r p" and m' =
      "locally (audit en q ''intervention_resumed'' now [action_type_detail p])", OF eq]
    by (rule wp_mono) (auto intro: claimed_claimable)
next
  case False
  obtain w l where x: "x = (w, l)" by fastforce
  let ?m = "seq (executor_event en q ''intervention_claimed'' now [action_type_detail p]) (\<lambda>event.
             on_store (record_intervention (iq_incident_id q)
               (inc_version (ir_incident r)) v event))"
  have "claim en q v now r p x = seq (locally ?m) (\<lambda>_. set_claimed) x"
    using False by (simp add: claim_def seq_def gets_def x)
  moreover have "wp ?m (\<lambda>_. resting anyhow) (\<lambda>_. resting (absent_in v)) w"
    using record_intervention_wp [of w r] assms(1-3) False by (simp add: x claimable_def)
  ultimately show ?thesis using False
    by (auto simp: wp_def x seq_def locally_def set_claimed_def claimed_def claimable_def
        split: prod.splits sum.splits)
qed

lemma execute_wp:
  assumes "claimable x"
    and "\<And>r. store_get (w_store (fst x)) (iq_incident_id q) = Some r \<Longrightarrow> \<not> el_claimed (snd x) \<Longrightarrow>
      fresh_intervention v r"
  shows "wp (execute en ttl q v now) (\<lambda>_. on_world (resting (stopped_in v))) (\<lambda>_. claimable) x"
proof -
  obtain w l where x: "x = (w, l)" by fastforce
  show ?thesis
  proof (cases "authorize en q now w")
    case (Pair res w')
    have w': "w' = w"
      using Pair by (auto simp: authorize_def seq_def get_record_def gets_def executor_error_def
          raise_def lift_result_def ret_def split: option.splits sum.splits prod.splits)
    show ?thesis
    proof (cases res)
      case (Inl e)
      then have "execute en ttl q v now x = (Inl e, x)"
        using Pair w' by (simp add: execute_def seq_def locally_def x)
      then show ?thesis using assms(1) by (simp add: wp_def)
    next
      case (Inr t)
      obtain r a p where t: "t = (r, a, p)" by (metis prod_cases3)
      with Inr Pair have r: "store_get (w_store w) (iq_incident_id q) = Some r"
        by (auto simp: authorize_Inr)
      have au: "locally (authorize en q now) (w, l) = (Inr (r, a, p), (w, l))"
        using Pair Inr t w' by (simp add: locally_def)
      have eq: "execute en ttl q v now x = seq (claim en q v now r p)
          (\<lambda>_. execute_claimed en ttl q v now r a p) x"
        by (simp only: execute_def x prod.case
            seq_run [where m = "locally (authorize en q now)" and w = "(w, l)", OF au])
      have wp_eq: "wp (execute en ttl q v now) Q E x
        = wp (claim en q v now r p) (\<lambda>_ y. wp (execute_claimed en ttl q v now r a p) Q E y) E x" for Q E
        by (simp add: wp_def [of "execute _ _ _ _ _"] eq flip: wp_seq) (simp add: wp_def)
      have "wp (claim en q v now r p) (\<lambda>_. claimed) (\<lambda>_. claimable) x"
        by (rule claim_wp [OF assms(1)]) (use r assms(2) x in auto)
      then show ?thesis
        unfolding wp_eq
      proof (rule wp_mono)
        fix y assume "claimed y"
        then have "wp (execute_claimed en ttl q v now r a p) (\<lambda>_. on_world (resting (stopped_in v)))
            (\<lambda>_. claimed) y"
          using ends_after_claim [unfolded ends_def] by blast
        then show "wp (execute_claimed en ttl q v now r a p) (\<lambda>_. on_world (resting (stopped_in v)))
            (\<lambda>_. claimable) y"
          by (rule wp_mono) (blast intro: claimed_claimable)+
      qed
    qed
  qed
qed

text \<open>The handlers leave the Intervention stopped, and so does the whole block.\<close>

lemma same_key:
  assumes "steady en i v r0 n r" "x \<in> set (ir_interventions r)" "iv_idempotency_key x = iv_idempotency_key v"
  shows "iv_intervention_id x = iv_intervention_id v"
proof -
  have "x\<lparr>iv_state := RUNNING\<rparr> = v" using assms by (simp add: steady_def)
  from arg_cong [OF this, of iv_intervention_id] show ?thesis by simp
qed

lemma only_stored:
  assumes "steady en i v r0 n r" "x \<in> set (ir_interventions r)" "iv_idempotency_key x = iv_idempotency_key v"
    and c: "List.find (\<lambda>w. iv_intervention_id w = iv_intervention_id v) (ir_interventions r) = Some c"
  shows "x = c"
proof -
  have "distinct (map iv_intervention_id (ir_interventions r))"
    using assms(1) by (simp add: steady_def record_inv_def unique_entries_def)
  moreover have "iv_intervention_id x = iv_intervention_id c"
    using same_key [OF assms(1-3)] find_in_set [OF c] by simp
  ultimately show ?thesis using assms(2) find_in_set [OF c] by (auto simp: distinct_map inj_on_def)
qed

lemma halt_closes:
  assumes "store_get (w_store w) (iq_incident_id q) = Some r"
    and st: "steady en (iq_incident_id q) v r0 (w_uuids w) r"
    and c: "List.find (\<lambda>w. iv_intervention_id w = iv_intervention_id v) (ir_interventions r) = Some c"
    and run: "iv_state c = RUNNING" "iv_idempotency_key c = iv_idempotency_key v"
  shows "\<exists>w'. close_intervention en q (v\<lparr>iv_state := IV_SAFE_HALTED\<rparr>) ''intervention_safe_halted'' d w
    = (Inr (), w')"
proof -
  define e where "e = \<lparr>ae_event_id = ''audit-'' @ en_uuid en (w_uuids w),
    ae_incident_id = iq_incident_id q, ae_event_type = ''intervention_safe_halted'',
    ae_occurred_at = en_clock en (w_readings w),
    ae_actor = ''deterministic-executor'', ae_details = [(''request_id'', iq_request_id q),
         (''idempotency_key'', iq_idempotency_key q)] @ d, ae_cursor = 0\<rparr>"
  have mem: "c \<in> set (ir_interventions r)" using find_in_set [OF c] by simp
  have "c\<lparr>iv_state := RUNNING\<rparr> = v" using st mem run(2) by (simp add: steady_def)
  moreover have "c\<lparr>iv_state := RUNNING\<rparr> = c" using run(1) by (cases c) simp
  ultimately have v: "c = v" by simp
  have "iv_state x = RUNNING" if "x \<in> set (ir_interventions r)" "iv_idempotency_key x = iv_idempotency_key v" for x
    using only_stored [OF st that c] run(1) by simp
  then have "outcome_open r" using st by (simp add: steady_def)
  moreover have "''audit-'' @ en_uuid en (w_uuids w) \<notin> set (map ae_event_id (ir_audit_events r))"
    using st by (simp add: steady_def)
  moreover have "v\<lparr>iv_state := IV_SAFE_HALTED\<rparr>\<lparr>iv_state := RUNNING\<rparr> = c"
    unfolding v using running by (cases v) simp
  moreover have "iq_incident_id q \<noteq> []" using st by (rule steady_named)
  moreover have "record_inv r" "inc_incident_id (ir_incident r) = iq_incident_id q"
    using st by (simp_all add: steady_def)
  ultimately have "\<exists>r'. update_intervention_record (iq_incident_id q)
      (v\<lparr>iv_state := IV_SAFE_HALTED\<rparr>) e r = Inr r'"
    by (intro safe_halt_succeeds [where c = c])
      (use mem run(1) in \<open>simp_all add: e_def wf_audit_event_def list_ex_iff image_iff eq_commute [of _ "_ # _"]\<close>)
  then obtain r' where r': "update_intervention_record (iq_incident_id q)
      (v\<lparr>iv_state := IV_SAFE_HALTED\<rparr>) e r = Inr r'" by blast
  show ?thesis
    using assms(1) r'
    by (simp add: close_intervention_def executor_event_def new_event_def seq_def
        now_act_def uuid4_def ret_def on_store_def on_part_def e_def update_intervention_def
        store_update_def required_record_def)
qed

lemma stopped_mono: "resting (stopped_in v) w \<Longrightarrow> resting anyhow w"
  by (erule at_rest_mono) simp

lemma safe_halt_wp:
  assumes "resting anyhow w"
  shows "wp (record_safe_halt en v q m) (\<lambda>_. resting (stopped_in v)) (\<lambda>_. resting (stopped_in v)) w"
proof -
  from assms obtain r where r: "store_get (w_store w) (iq_incident_id q) = Some r"
    "steady en (iq_incident_id q) v r0 (w_uuids w) r"
    by (auto simp: at_rest_def)
  show ?thesis
  proof (cases "List.find (\<lambda>w. iv_intervention_id w = iv_intervention_id v) (ir_interventions r)")
    case None
    then have "absent_in v (ir_interventions r)"
      using same_key [OF r(2)] by (auto simp: absent_in_def find_None_iff)
    then have "resting (stopped_in v) w" using r by (auto simp: at_rest_def absent_in_def stopped_in_def)
    then show ?thesis using r(1) None
      by (simp add: record_safe_halt_def wp_def seq_def get_record_def gets_def ret_def)
  next
    case (Some c)
    note only = only_stored [OF r(2) _ _ Some]
    let ?m = "close_intervention en q (v\<lparr>iv_state := IV_SAFE_HALTED\<rparr>) ''intervention_safe_halted''
      [(''reason'', m)]"
    have eq: "record_safe_halt en v q m w = (if iv_state c \<noteq> RUNNING then (Inr (), w) else ?m w)"
      using r(1) Some by (simp add: record_safe_halt_def seq_def get_record_def gets_def ret_def)
    show ?thesis
    proof (cases "iv_state c = RUNNING")
      case False
      then have "stopped_in v (ir_interventions r)" using only by (auto simp: stopped_in_def)
      then show ?thesis using False eq r by (auto simp: wp_def at_rest_def)
    next
      case run: True
      have cw: "wp ?m (\<lambda>_. resting (stopped_in v)) (\<lambda>_. resting anyhow) w"
        by (rule close_wp) (use assms in simp_all)
      show ?thesis
      proof (cases "iv_idempotency_key c = iv_idempotency_key v")
        case True
        then show ?thesis using halt_closes [OF r Some run True, of "[(''reason'', m)]"] cw eq run
          by (auto simp: wp_def)
      next
        case False
        then have abs: "absent_in v (ir_interventions r)"
          using only by (auto simp: absent_in_def)
        then have "resting (absent_in v) w" using r by (auto simp: at_rest_def)
        then have "wp ?m (\<lambda>_. resting (stopped_in v)) (\<lambda>_. resting (absent_in v)) w"
          by (rule close_wp [rotated]) simp
        then have "wp ?m (\<lambda>_. resting (stopped_in v)) (\<lambda>_. resting (stopped_in v)) w"
          by (rule wp_mono) (auto elim!: at_rest_mono simp: absent_in_def stopped_in_def)
        then show ?thesis using eq run by (simp add: wp_def)
      qed
    qed
  qed
qed

text \<open>The block around it: the handler and the release of the lease.\<close>

lemma refusal_wp:
  "resting Q w \<Longrightarrow> wp (record_refusal en q m) (\<lambda>_. resting Q) (\<lambda>_. resting Q) w"
  by (rule keeps_wp) (intro keeps_intros)

lemma on_failure_wp:
  assumes "claimable x"
  shows "wp (on_failure en q v e) (\<lambda>_. on_world (resting (stopped_in v)))
    (\<lambda>_. on_world (resting (stopped_in v))) x"
proof -
  obtain w l where x: "x = (w, l)" by fastforce
  let ?S = "resting (stopped_in v)"
  let ?h = "if el_claimed l then record_safe_halt en v q (failure_reason e)
    else record_refusal en q (failure_reason e)"
  have "wp ?h (\<lambda>_. ?S) (\<lambda>_. ?S) w"
  proof (cases "el_claimed l")
    case True
    then show ?thesis using safe_halt_wp assms by (simp add: claimable_def x)
  next
    case False
    then have "resting (absent_in v) w" using assms by (simp add: claimable_def x)
    then have "?S w" by (rule at_rest_mono) (auto simp: absent_in_def stopped_in_def)
    then show ?thesis using refusal_wp False by simp
  qed
  then show ?thesis
    by (simp add: on_failure_def wp_seq wp_gets x)
      (auto simp: wp_def locally_def on_world_def raise_def split: prod.splits sum.splits)
qed

lemma keeps_release_rest [keeps_intros]: "keeps (on_world (resting Q)) (release_lease en q)"
  unfolding release_lease_def by (intro keeps_intros keeps_try_except; simp)

lemma run_leased_stops:
  assumes "if b then resting anyhow w else resting (absent_in v) w"
    and "\<And>r. store_get (w_store w) (iq_incident_id q) = Some r \<Longrightarrow> \<not> b \<Longrightarrow> fresh_intervention v r"
    and run: "run_leased en ttl q v now b l w = (res, w')"
  shows "resting (stopped_in v) w'"
proof -
  let ?S = "on_world (resting (stopped_in v))"
  let ?x = "(w, \<lparr>el_claimed = b, el_lease = l\<rparr>)"
  have "wp (execute en ttl q v now) (\<lambda>_. ?S) (\<lambda>_. claimable) ?x"
    by (rule execute_wp) (use assms(1,2) in \<open>auto simp: claimable_def\<close>)
  then have "wp (try_except (execute en ttl q v now) (on_failure en q v)) (\<lambda>_. ?S) (\<lambda>_. ?S) ?x"
    unfolding wp_try_except by (rule wp_mono) (simp_all add: on_failure_wp)
  then have "?S (snd (try_except (execute en ttl q v now) (on_failure en q v) ?x))"
    by (simp add: wp_def split: prod.splits sum.splits)
  then have "?S (snd (try_finally (try_except (execute en ttl q v now) (on_failure en q v))
      (release_lease en q) ?x))"
    using keeps_release_rest by (rule finally_keeps)
  then show ?thesis using run
    by (simp add: run_leased_def with_locals_def on_world_def split: prod.splits)
qed

text \<open>A fresh audit event can always be appended.\<close>

lemma audit_succeeds:
  assumes "resting Q w" "k \<noteq> []"
  shows "\<exists>w'. audit en q k t d w = (Inr (), w') \<and> resting Q w' \<and> w_leases w' = w_leases w"
proof -
  from assms(1) obtain r where r: "store_get (w_store w) (iq_incident_id q) = Some r"
    "steady en (iq_incident_id q) v r0 (w_uuids w) r" by (auto simp: at_rest_def)
  then have "''audit-'' @ en_uuid en (w_uuids w) \<notin> set (map ae_event_id (ir_audit_events r))"
    by (simp add: steady_def)
  then have fresh: "\<not> list_ex (\<lambda>e. ae_event_id e = ''audit-'' @ en_uuid en (w_uuids w)) (ir_audit_events r)"
    by (rule not_list_ex)
  define e where "e = \<lparr>ae_event_id = ''audit-'' @ en_uuid en (w_uuids w),
    ae_incident_id = iq_incident_id q, ae_event_type = k, ae_occurred_at = t,
    ae_actor = ''deterministic-executor'', ae_details = [(''request_id'', iq_request_id q),
         (''idempotency_key'', iq_idempotency_key q)] @ d, ae_cursor = 0\<rparr>"
  have "ae_event_id e = ''audit-'' @ en_uuid en (w_uuids w)" "ae_incident_id e = iq_incident_id q"
    by (simp_all add: e_def)
  with fresh have "append_audit_event_record (iq_incident_id q) e r = Inr (with_event e r)"
    by (simp add: append_audit_event_record_def guarded_pass first_problem.simps)
  then have "append_audit_event (iq_incident_id q) e (w_store w)
      = (Inr (with_event e r), store_replace (with_event e r) (w_store w))"
    using r(1) by (simp add: append_audit_event_def store_update_def required_record_def)
  then have "\<exists>w'. audit en q k t d w = (Inr (), w') \<and> w_leases w' = w_leases w"
    by (simp add: audit_def executor_event_def new_event_def seq_def uuid4_def ret_def on_store_def
        on_part_def e_def)
  then show ?thesis using keepsD [OF keeps_audit_rest [OF assms(2)] assms(1), of t d] by auto
qed

end

text \<open>A free workload and a lease that validates: \<open>acquire\<close> gives the lease.\<close>

lemma acquire_lease_free:
  assumes "\<not> live_at now (dict_get (w_leases w) (lease_key t))"
    and "wf_workload_lease (new_lease ttl t i ow (en_uuid en (w_uuids w)) now)"
  shows "\<exists>l d. acquire_lease en ttl ow t i now w
    = (Inr (Some l), w\<lparr>w_uuids := Suc (w_uuids w), w_leases := d\<rparr>)"
  using memory_leases.acquire_free [of now "w_leases w" t ttl i ow "en_uuid en (w_uuids w)"] assms
  by (auto simp: acquire_lease_def seq_def uuid4_def on_leases_def on_part_def)

end
