(* ===== verification/Recovery.thy ===== *)
theory Recovery
  imports World
begin

text \<open>
  The recovery verifier (\<open>DeterministicRecoveryVerifier\<close> of \<open>services/recovery_verifier.py\<close>) with
  its observations (\<open>domain/incidents.py\<close>) and the two sequence fakes. One call reads one evidence
  window, judges it and records the assessment; the state \<open>'k\<close> of the world is here the state of
  the evidence provider and the probe runner.
\<close>

section \<open>Observations\<close>

record deployment_recovery_observation =
  do_target :: workload_reference
  do_generation :: int
  do_observed_generation :: int
  do_active_revision :: int
  do_desired_replicas :: int
  do_updated_replicas :: int
  do_available_replicas :: int
  do_unavailable_replicas :: int
  do_oom_terminations :: int
  do_restart_delta :: int

definition wf_deployment_observation :: "deployment_recovery_observation \<Rightarrow> bool" where
  "wf_deployment_observation d \<longleftrightarrow> workload_reference_fields (do_target d)
     \<and> 1 \<le> do_generation d \<and> 0 \<le> do_observed_generation d \<and> 1 \<le> do_active_revision d
     \<and> 0 \<le> do_desired_replicas d \<and> 0 \<le> do_updated_replicas d \<and> 0 \<le> do_available_replicas d
     \<and> 0 \<le> do_unavailable_replicas d \<and> 0 \<le> do_oom_terminations d \<and> 0 \<le> do_restart_delta d"

record critical_journey_observation =
  jo_journey_name :: string
  jo_request_count :: int
  jo_success_rate :: "rat option"
  jo_p95_latency_ms :: "int option"
  jo_healthy_baseline_success_rate :: rat
  jo_healthy_baseline_p95_latency_ms :: int

definition wf_journey_observation :: "critical_journey_observation \<Rightarrow> bool" where
  "wf_journey_observation m \<longleftrightarrow> jo_journey_name m \<noteq> [] \<and> 0 \<le> jo_request_count m
     \<and> pred_option (\<lambda>r. 0 \<le> r \<and> r \<le> 1) (jo_success_rate m)
     \<and> pred_option (\<lambda>l. 0 < l) (jo_p95_latency_ms m)
     \<and> 0 \<le> jo_healthy_baseline_success_rate m \<and> jo_healthy_baseline_success_rate m \<le> 1
     \<and> 0 < jo_healthy_baseline_p95_latency_ms m"

record recovery_observation =
  ob_deployment :: deployment_recovery_observation
  ob_journey :: critical_journey_observation

definition wf_recovery_observation :: "recovery_observation \<Rightarrow> bool" where
  "wf_recovery_observation x \<longleftrightarrow>
     wf_deployment_observation (ob_deployment x) \<and> wf_journey_observation (ob_journey x)"

record synthetic_probe_observation =
  po_probe_name :: string
  po_attempts :: int
  po_successes :: int

definition synthetic_probe_observation_problem :: "synthetic_probe_observation \<Rightarrow> string option" where
  "synthetic_probe_observation_problem x = first_problem
    [(po_successes x > po_attempts x, ''synthetic probe successes cannot exceed attempts'')]"

definition wf_probe_observation :: "synthetic_probe_observation \<Rightarrow> bool" where
  "wf_probe_observation x \<longleftrightarrow> po_probe_name x \<noteq> [] \<and> 1 \<le> po_attempts x \<and> 0 \<le> po_successes x
     \<and> synthetic_probe_observation_problem x = None"

text \<open>The providers the verifier calls: \<open>RecoveryEvidenceProvider\<close> and \<open>SyntheticProbeRunner\<close>.\<close>

record 'k recovery_providers =
  rs_observe :: "workload_reference \<Rightarrow> critical_journey \<Rightarrow> datetime \<Rightarrow> datetime
                   \<Rightarrow> ('k, recovery_observation) act"
  rs_probe :: "synthetic_probe \<Rightarrow> ('k, synthetic_probe_observation) act"

section \<open>The context of a window\<close>

record recovery_context =
  rx_record :: investigation_record
  rx_intervention :: intervention
  rx_proposal :: remediation_proposal
  rx_approval :: approval
  rx_journey :: critical_journey

definition recovery_context_of ::
  "investigation_record option \<Rightarrow> pyexn + recovery_context" where
  "recovery_context_of found =
    (let refuse = (\<lambda>m. Inl (RecoveryVerificationError m)) in
     case found of None \<Rightarrow> refuse ''recovery Incident does not exist''
     | Some record \<Rightarrow>
       if inc_lifecycle (ir_incident record) \<noteq> MONITORING
       then refuse ''recovery verification requires a monitoring Incident''
       else (case List.find (\<lambda>v. iv_state v = IV_SUCCEEDED) (rev (ir_interventions record)) of
         None \<Rightarrow> refuse ''recovery verification requires a successful Intervention''
       | Some intervention \<Rightarrow> (case ir_proposal record of
         None \<Rightarrow> refuse ''recovery requires its recorded proposal''
       | Some proposal \<Rightarrow>
         (case List.find (\<lambda>a. apr_approval_id a = iv_approval_id intervention) (ir_approvals record) of
         None \<Rightarrow> refuse ''recovery Intervention has no recorded Approval''
       | Some approval \<Rightarrow> (case declared_journey record of
         None \<Rightarrow> refuse ''recovery Critical Journey is not declared''
       | Some journey \<Rightarrow> Inr \<lparr>rx_record = record, rx_intervention = intervention,
           rx_proposal = proposal, rx_approval = approval, rx_journey = journey\<rparr>)))))"

definition context_criteria :: "recovery_context \<Rightarrow> recovery_criteria" where
  "context_criteria x = ap_recovery_criteria (ir_application_profile (rx_record x))"

definition context_assessments :: "recovery_context \<Rightarrow> recovery_assessment list" where
  "context_assessments x = assessments_of (iv_intervention_id (rx_intervention x)) (rx_record x)"

section \<open>Judging an observation\<close>

fun recovery_action_converged ::
  "remediation_action \<Rightarrow> approval \<Rightarrow> deployment_recovery_observation \<Rightarrow> bool" where
  "recovery_action_converged (RollbackDeploymentAction t n) a d \<longleftrightarrow> do_active_revision d = n"
| "recovery_action_converged (ScaleDeploymentAction t n) a d \<longleftrightarrow>
     do_active_revision d = apr_workload_revision a \<and> do_desired_replicas d = n"
| "recovery_action_converged (RestartDeploymentAction t k) a d \<longleftrightarrow>
     do_active_revision d > apr_workload_revision a"

definition recovery_kubernetes_converged ::
  "remediation_proposal \<Rightarrow> approval \<Rightarrow> deployment_recovery_observation \<Rightarrow> bool" where
  "recovery_kubernetes_converged p a d \<longleftrightarrow>
     do_generation d > apr_workload_generation a
     \<and> do_observed_generation d = do_generation d
     \<and> recovery_action_converged (rp_action p) a d
     \<and> do_updated_replicas d = do_desired_replicas d
     \<and> do_available_replicas d = do_desired_replicas d
     \<and> do_unavailable_replicas d = 0"

definition recovery_symptoms_cleared :: "deployment_recovery_observation \<Rightarrow> bool" where
  "recovery_symptoms_cleared d \<longleftrightarrow> do_oom_terminations d = 0 \<and> do_restart_delta d = 0"

record journey_verdict =
  jv_availability :: bool
  jv_latency :: bool
  jv_sufficient :: bool
  jv_probe_used :: bool
  jv_probe_successes :: "int option"

definition validate_probe_result ::
  "synthetic_probe \<Rightarrow> synthetic_probe_observation \<Rightarrow> ('w, unit) act" where
  "validate_probe_result probe result = raise_when
     (po_probe_name result \<noteq> sp_name probe \<or> po_attempts result \<noteq> sp_repetitions probe)
     (RecoveryVerificationError ''synthetic probe result changed the declared probe'')"

definition judge_metrics :: "critical_journey \<Rightarrow> critical_journey_observation \<Rightarrow> journey_verdict" where
  "judge_metrics journey metrics =
    \<lparr>jv_availability = (case jo_success_rate metrics of None \<Rightarrow> False
       | Some rate \<Rightarrow> rate \<ge> cj_success_rate_minimum journey
           \<and> rate \<ge> jo_healthy_baseline_success_rate metrics),
     jv_latency = (case jo_p95_latency_ms metrics of None \<Rightarrow> False
       | Some p95 \<Rightarrow> p95 \<le> cj_p95_latency_ms_maximum journey
           \<and> p95 \<le> jo_healthy_baseline_p95_latency_ms metrics),
     jv_sufficient = (jo_success_rate metrics \<noteq> None \<and> jo_p95_latency_ms metrics \<noteq> None),
     jv_probe_used = False, jv_probe_successes = None\<rparr>"

definition judge_journey ::
  "'k recovery_providers \<Rightarrow> recovery_criteria \<Rightarrow> critical_journey \<Rightarrow> critical_journey_observation
     \<Rightarrow> ('k world, journey_verdict) act" where
  "judge_journey rs criteria journey metrics =
    (let sparse = \<lparr>jv_availability = False, jv_latency = False, jv_sufficient = False,
           jv_probe_used = False, jv_probe_successes = None\<rparr>
     in if jo_request_count metrics \<ge> cj_minimum_request_count journey
        then ret (judge_metrics journey metrics)
        else (case cj_synthetic_probe journey of
          None \<Rightarrow> ret sparse
        | Some probe \<Rightarrow>
            if \<not> rc_allow_synthetic_availability_fallback criteria then ret sparse
            else seq (on_kube (rs_probe rs probe)) (\<lambda>result.
                 seq (validate_probe_result probe result) (\<lambda>_.
                   ret (sparse\<lparr>jv_probe_used := True,
                     jv_probe_successes := Some (po_successes result),
                     jv_availability := (po_successes result = po_attempts result)\<rparr>)))))"

section \<open>The assessment\<close>

definition explain :: "bool \<Rightarrow> bool \<Rightarrow> bool \<Rightarrow> journey_verdict \<Rightarrow> string" where
  "explain kubernetes symptoms traffic v =
    (let failures = map snd (filter (\<lambda>(ok, m). \<not> ok)
       [(kubernetes, ''Kubernetes generation, revision, or replicas have not converged''),
        (symptoms, ''OOM termination or restart growth is still present''),
        (traffic, ''application traffic is below the 100-request minimum''),
        (jv_availability v, ''Critical Journey availability is below its recovery threshold''),
        (jv_latency v, ''Critical Journey latency evidence is insufficient or regressed''),
        (jv_sufficient v, ''application-metric evidence is insufficient for recovery'')])
     in if failures \<noteq> [] then join ''; '' failures @
          (if jv_probe_used v then ''; synthetic probes established availability only'' else [])
        else ''Kubernetes, workload symptoms, and Critical Journey metrics satisfy recovery'')"

definition next_stable_windows ::
  "bool \<Rightarrow> recovery_assessment list \<Rightarrow> datetime \<Rightarrow> int" where
  "next_stable_windows satisfied previous started =
    (if satisfied then
       (case last_option previous of
          Some q \<Rightarrow> if ra_criteria_satisfied q \<and> ra_window_ended_at q = started
                    then ra_stable_windows q + 1 else 1
        | None \<Rightarrow> 1)
     else 0)"

definition assess ::
  "string \<Rightarrow> recovery_context \<Rightarrow> datetime \<Rightarrow> datetime \<Rightarrow> recovery_observation \<Rightarrow> journey_verdict
     \<Rightarrow> recovery_assessment" where
  "assess incident_id x started ended observation v =
    (let d = ob_deployment observation; m = ob_journey observation;
         kubernetes = recovery_kubernetes_converged (rx_proposal x) (rx_approval x) d;
         symptoms = recovery_symptoms_cleared d;
         traffic = (jo_request_count m \<ge> cj_minimum_request_count (rx_journey x));
         satisfied = (kubernetes \<and> symptoms \<and> traffic \<and> jv_availability v \<and> jv_latency v
           \<and> jv_sufficient v)
     in \<lparr>ra_incident_id = incident_id,
         ra_intervention_id = iv_intervention_id (rx_intervention x),
         ra_window_started_at = started, ra_window_ended_at = ended, ra_observed_at = ended,
         ra_generation = do_generation d, ra_observed_generation = do_observed_generation d,
         ra_active_revision = do_active_revision d, ra_desired_replicas = do_desired_replicas d,
         ra_updated_replicas = do_updated_replicas d,
         ra_available_replicas = do_available_replicas d,
         ra_unavailable_replicas = do_unavailable_replicas d,
         ra_oom_terminations = do_oom_terminations d, ra_restart_delta = do_restart_delta d,
         ra_kubernetes_converged = kubernetes, ra_symptoms_cleared = symptoms,
         ra_journey_name = cj_name (rx_journey x), ra_criteria_satisfied = satisfied,
         ra_request_count = jo_request_count m, ra_success_rate = jo_success_rate m,
         ra_p95_latency_ms = jo_p95_latency_ms m, ra_traffic_sufficient = traffic,
         ra_availability_satisfied = jv_availability v, ra_latency_satisfied = jv_latency v,
         ra_synthetic_probe_used = jv_probe_used v,
         ra_synthetic_probe_successes = jv_probe_successes v,
         ra_sufficient_evidence = jv_sufficient v,
         ra_stable_windows = next_stable_windows satisfied (context_assessments x) started,
         ra_required_stable_windows = rc_required_stable_windows (context_criteria x),
         ra_explanation = explain kubernetes symptoms traffic v\<rparr>)"

definition validate_assessment :: "recovery_assessment \<Rightarrow> pyexn + recovery_assessment" where
  "validate_assessment a = (if wf_recovery_assessment a then Inr a
     else Inl (ValidationError ''RecoveryAssessment''
       (case recovery_assessment_problem a of None \<Rightarrow> ''invalid field'' | Some m \<Rightarrow> m)))"

definition lower_bool :: "bool \<Rightarrow> string" where
  "lower_bool b = (if b then ''true'' else ''false'')"

definition recovery_event_type :: "recovery_assessment \<Rightarrow> string" where
  "recovery_event_type a =
    (if ra_criteria_satisfied a
     then (if ra_stable_windows a \<ge> ra_required_stable_windows a then ''recovery_stabilized''
           else ''recovery_window_satisfied'')
     else ''recovery_window_failed'')"

definition recovery_event ::
  "'k environment \<Rightarrow> string \<Rightarrow> recovery_assessment \<Rightarrow> ('k world, audit_event) act" where
  "recovery_event en incident_id a =
     new_event en incident_id (recovery_event_type a) (ra_window_ended_at a)
       ''deterministic-recovery-verifier''
       [(''intervention_id'', ra_intervention_id a),
        (''stable_windows'', int_str (ra_stable_windows a)),
        (''required_stable_windows'', int_str (ra_required_stable_windows a)),
        (''traffic_sufficient'', lower_bool (ra_traffic_sufficient a)),
        (''synthetic_probe_used'', lower_bool (ra_synthetic_probe_used a)),
        (''kubernetes_converged'', lower_bool (ra_kubernetes_converged a)),
        (''symptoms_cleared'', lower_bool (ra_symptoms_cleared a))]"

section \<open>Verifying a window\<close>

definition observe_window ::
  "'k recovery_providers \<Rightarrow> recovery_context \<Rightarrow> datetime \<Rightarrow> datetime
     \<Rightarrow> ('k world, recovery_observation) act" where
  "observe_window rs x started ended =
    seq (raise_when (case last_option (context_assessments x) of None \<Rightarrow> False
            | Some q \<Rightarrow> started < ra_window_ended_at q)
          (RecoveryVerificationError ''the next recovery window overlaps prior evidence'')) (\<lambda>_.
    seq (on_kube (rs_observe rs (iv_target (rx_intervention x)) (rx_journey x) started ended))
      (\<lambda>observation.
    seq (raise_when (do_target (ob_deployment observation) \<noteq> iv_target (rx_intervention x))
          (RecoveryVerificationError ''recovery evidence escaped the approved workload'')) (\<lambda>_.
    seq (raise_when (jo_journey_name (ob_journey observation) \<noteq> cj_name (rx_journey x))
          (RecoveryVerificationError ''recovery evidence escaped the declared journey'')) (\<lambda>_.
      ret observation))))"

definition record_assessment ::
  "'k environment \<Rightarrow> string \<Rightarrow> int \<Rightarrow> recovery_assessment \<Rightarrow> ('k world, recovery_assessment) act" where
  "record_assessment en incident_id version a =
    seq (recovery_event en incident_id a) (\<lambda>event.
    seq (try_except (on_store (record_recovery_assessment incident_id version a event))
          (\<lambda>e. raise (if is_value_error e then RecoveryVerificationError (exn_str e) else e)))
      (\<lambda>_. ret a))"

definition verify_next_window ::
  "'k environment \<Rightarrow> 'k recovery_providers \<Rightarrow> string \<Rightarrow> ('k world, recovery_assessment) act" where
  "verify_next_window en rs incident_id =
    seq (get_record incident_id) (\<lambda>found.
    seq (lift_result (recovery_context_of found)) (\<lambda>x.
    seq (now_act en) (\<lambda>ended.
    let started = ended - seconds (rc_stabilization_window_seconds (context_criteria x)) in
    seq (observe_window rs x started ended) (\<lambda>observation.
    seq (judge_journey rs (context_criteria x) (rx_journey x) (ob_journey observation)) (\<lambda>verdict.
    seq (lift_result (validate_assessment (assess incident_id x started ended observation verdict)))
      (\<lambda>a. record_assessment en incident_id (inc_version (ir_incident (rx_record x))) a))))))"

section \<open>The sequence fakes\<close>

record fake_recovery =
  fr_observations :: "recovery_observation list"
  fr_index :: nat
  fr_requests :: "(workload_reference \<times> string \<times> datetime \<times> datetime) list"
  fr_probe_observations :: "synthetic_probe_observation list"
  fr_probe_index :: nat
  fr_probes :: "synthetic_probe list"

definition fake_observe ::
  "workload_reference \<Rightarrow> critical_journey \<Rightarrow> datetime \<Rightarrow> datetime
     \<Rightarrow> (fake_recovery, recovery_observation) act" where
  "fake_observe target journey started ended k0 =
    (let k = k0\<lparr>fr_requests := fr_requests k0 @ [(target, cj_name journey, started, ended)]\<rparr>
     in if fr_index k \<ge> length (fr_observations k)
        then (Inl (RecoveryVerificationError ''fake recovery evidence sequence is exhausted''), k)
        else (Inr (fr_observations k ! fr_index k), k\<lparr>fr_index := fr_index k + 1\<rparr>))"

definition fake_probe :: "synthetic_probe \<Rightarrow> (fake_recovery, synthetic_probe_observation) act" where
  "fake_probe probe k0 =
    (let k = k0\<lparr>fr_probes := fr_probes k0 @ [probe]\<rparr>
     in if fr_probe_index k \<ge> length (fr_probe_observations k)
        then (Inl (RecoveryVerificationError ''synthetic probe result is unavailable''), k)
        else (Inr (fr_probe_observations k ! fr_probe_index k),
              k\<lparr>fr_probe_index := fr_probe_index k + 1\<rparr>))"

definition fake_recovery_providers :: "fake_recovery recovery_providers" where
  "fake_recovery_providers = \<lparr>rs_observe = fake_observe, rs_probe = fake_probe\<rparr>"

end
