(* ===== verification/Recovery_Guarantees.thy ===== *)
theory Recovery_Guarantees
  imports Recovery Executor_Halts Sample_Run
begin

text \<open>
  The guarantees of the recovery verifier, over any evidence provider and probe runner: what a
  satisfied window means, when an incident resolves, and that verifier and store agree.
\<close>

section \<open>The specification of a recovered window\<close>

definition rolled_out :: "deployment_recovery_observation \<Rightarrow> bool" where
  "rolled_out d \<longleftrightarrow> do_observed_generation d = do_generation d
     \<and> do_updated_replicas d = do_desired_replicas d \<and> do_available_replicas d = do_desired_replicas d
     \<and> do_unavailable_replicas d = 0 \<and> do_oom_terminations d = 0 \<and> do_restart_delta d = 0"

definition journey_healthy :: "critical_journey \<Rightarrow> critical_journey_observation \<Rightarrow> bool" where
  "journey_healthy j m \<longleftrightarrow> (\<exists>rate p95. jo_success_rate m = Some rate \<and> jo_p95_latency_ms m = Some p95
     \<and> max (cj_success_rate_minimum j) (jo_healthy_baseline_success_rate m) \<le> rate
     \<and> p95 \<le> min (cj_p95_latency_ms_maximum j) (jo_healthy_baseline_p95_latency_ms m))"

definition window_recovered :: "recovery_context \<Rightarrow> recovery_observation \<Rightarrow> bool" where
  "window_recovered x obs \<longleftrightarrow> rolled_out (ob_deployment obs)
     \<and> apr_workload_generation (rx_approval x) < do_generation (ob_deployment obs)
     \<and> recovery_action_converged (rp_action (rx_proposal x)) (rx_approval x) (ob_deployment obs)
     \<and> cj_minimum_request_count (rx_journey x) \<le> jo_request_count (ob_journey obs)
     \<and> journey_healthy (rx_journey x) (ob_journey obs)"

lemma judge_journey_cases:
  assumes "judge_journey rs c j m w = (Inr v, w')"
  shows "(cj_minimum_request_count j \<le> jo_request_count m \<and> v = judge_metrics j m \<and> w' = w)
    \<or> (jo_request_count m < cj_minimum_request_count j \<and> \<not> jv_latency v \<and> \<not> jv_sufficient v
       \<and> w_store w' = w_store w \<and> w_uuids w' = w_uuids w \<and> (jv_probe_used v \<longleftrightarrow> jv_probe_successes v \<noteq> None))"
  using assms by (auto simp: judge_journey_def Let_def seq_Inr on_kube_Inr ret_def
      validate_probe_result_def raise_when_def raise_def split: if_splits option.splits)

lemma assess_satisfied:
  assumes "judge_journey rs c (rx_journey x) (ob_journey obs) w = (Inr v, w')"
  shows "ra_criteria_satisfied (assess i x started ended obs v) \<longleftrightarrow> window_recovered x obs"
  using judge_journey_cases [OF assms]
  by (auto simp: assess_def Let_def window_recovered_def rolled_out_def journey_healthy_def
      recovery_kubernetes_converged_def recovery_symptoms_cleared_def judge_metrics_def
      split: option.splits)

section \<open>Inverting a run\<close>

lemma observe_window_Inr:
  "observe_window rs x started ended w = (Inr obs, w') \<longleftrightarrow>
     (case last_option (context_assessments x) of None \<Rightarrow> True | Some q \<Rightarrow> ra_window_ended_at q \<le> started)
     \<and> on_kube (rs_observe rs (iv_target (rx_intervention x)) (rx_journey x) started ended) w = (Inr obs, w')
     \<and> do_target (ob_deployment obs) = iv_target (rx_intervention x)
     \<and> jo_journey_name (ob_journey obs) = cj_name (rx_journey x)"
  by (auto simp: observe_window_def seq_Inr raise_when_def raise_def ret_def split: option.splits if_splits)

lemma record_recovery_Inr:
  assumes "record_recovery_record i n a e r = Inr r'"
  shows "\<exists>k. r' = with_event e (r\<lparr>ir_incident := bump_version k n,
        ir_recovery_assessments := ir_recovery_assessments r @ [a]\<rparr>)
    \<and> (if rc_required_stable_windows (ap_recovery_criteria (ir_application_profile r)) \<le> ra_stable_windows a
       then inc_lifecycle k = RESOLVED \<and> inc_intervention_outcome k = OUT_SUCCEEDED
       else k = ir_incident r)"
  using assms
  by (auto simp: record_recovery_record_def Let_def guarded_Inr bind_result_Inr validate_record_Inr
      transition_incident_Inr split: if_splits)

lemma recovery_event_Inr:
  "recovery_event en i a w = (Inr e, w') \<Longrightarrow>
     w' = w\<lparr>w_uuids := Suc (w_uuids w)\<rparr> \<and> ae_event_type e = recovery_event_type a
     \<and> ae_event_id e = ''audit-'' @ en_uuid en (w_uuids w) \<and> ae_incident_id e = i"
  unfolding recovery_event_def new_event_Inr
  by (erule conjE, hypsubst, intro conjI) (simp_all only: audit_event.simps)

lemma validate_assessment_Inr: "validate_assessment a = Inr b \<longleftrightarrow> wf_recovery_assessment a \<and> b = a"
  by (auto simp: validate_assessment_def)

lemma record_assessment_Inr:
  assumes "record_assessment en i n a w = (Inr b, w')" "store_get (w_store w) i = Some r"
  shows "b = a \<and> (\<exists>e r'. record_recovery_record i n a e r = Inr r'
    \<and> w_store w' = store_replace r' (w_store w) \<and> ae_event_type e = recovery_event_type a)"
proof -
  obtain e w1 where e: "recovery_event en i a w = (Inr e, w1)"
    and rec: "seq (try_except (on_store (record_recovery_assessment i n a e))
          (\<lambda>e. raise (if is_value_error e then RecoveryVerificationError (exn_str e) else e)))
        (\<lambda>_. ret a) w1 = (Inr b, w')"
    using seq_Inr [THEN iffD1, OF assms(1) [unfolded record_assessment_def]] by blast
  note ev = recovery_event_Inr [OF e]
  from seq_Inr [THEN iffD1, OF rec] obtain r' where b: "b = a"
    and tr: "try_except (on_store (record_recovery_assessment i n a e))
      (\<lambda>e. raise (if is_value_error e then RecoveryVerificationError (exn_str e) else e)) w1 = (Inr r', w')"
    unfolding ret_def by blast
  from tr have "on_store (record_recovery_assessment i n a e) w1 = (Inr r', w')"
    unfolding try_except_Inr raise_def by blast
  with b obtain s where "record_recovery_assessment i n a e (w_store w1) = (Inr r', s)"
    and w': "w' = w1\<lparr>w_store := s\<rparr>" "b = a"
    unfolding on_store_Inr by blast
  then have "record_recovery_record i n a e r = Inr r' \<and> s = store_replace r' (w_store w)"
    using ev assms(2) by (auto simp: record_recovery_assessment_def store_update_Inr)
  then show ?thesis using w' ev by auto
qed

text \<open>The stages of a run that returns.\<close>

lemma verify_Inr:
  assumes "verify_next_window en rs i w = (Inr a, w')"
  obtains x obs v w1 w2 where
    "recovery_context_of (store_get (w_store w) i) = Inr x"
    "observe_window rs x (en_clock en (w_readings w)
       - seconds (rc_stabilization_window_seconds (context_criteria x))) (en_clock en (w_readings w))
       (w\<lparr>w_readings := Suc (w_readings w)\<rparr>) = (Inr obs, w1)"
    "judge_journey rs (context_criteria x) (rx_journey x) (ob_journey obs) w1 = (Inr v, w2)"
    "wf_recovery_assessment (assess i x (en_clock en (w_readings w)
       - seconds (rc_stabilization_window_seconds (context_criteria x))) (en_clock en (w_readings w)) obs v)"
    "record_assessment en i (inc_version (ir_incident (rx_record x)))
       (assess i x (en_clock en (w_readings w)
       - seconds (rc_stabilization_window_seconds (context_criteria x))) (en_clock en (w_readings w)) obs v) w2
     = (Inr a, w')"
  using assms unfolding verify_next_window_def Let_def seq_Inr get_record_Inr lift_result_Inr
    now_act_Inr validate_assessment_Inr
  by - (elim exE conjE, hypsubst, rule that, assumption+)

lemma context_record:
  "recovery_context_of found = Inr x \<Longrightarrow> found = Some (rx_record x)
     \<and> inc_lifecycle (ir_incident (rx_record x)) = MONITORING
     \<and> rx_intervention x \<in> set (ir_interventions (rx_record x)) \<and> iv_state (rx_intervention x) = IV_SUCCEEDED
     \<and> ir_proposal (rx_record x) = Some (rx_proposal x)
     \<and> rx_approval x \<in> set (ir_approvals (rx_record x))
     \<and> apr_approval_id (rx_approval x) = iv_approval_id (rx_intervention x)
     \<and> declared_journey (rx_record x) = Some (rx_journey x)"
  by (auto simp: recovery_context_of_def Let_def dest!: find_in_set split: option.splits if_splits)

text \<open>C12. Recovery is decided by the evidence of the window alone. When the verifier returns an
  assessment, it judged exactly what the evidence provider returned for the workload of the last
  successful Intervention, the declared Critical Journey and the stabilization window that ends
  now; the assessment is satisfied exactly when that observation shows the approved action rolled
  out past the approved generation, no OOM kill or restart, enough application traffic (a
  synthetic probe cannot replace it), and availability and latency within both the profile's
  limits and the healthy baseline. The assessment is appended to the record, and the incident is
  resolved if and only if the number of stable windows reached the required number.\<close>

theorem recovery_follows_the_evidence:
  assumes "store_inv (w_store w)" and "verify_next_window en rs i w = (Inr a, w')"
  shows "\<exists>x obs k k' r'. recovery_context_of (store_get (w_store w) i) = Inr x
    \<and> rs_observe rs (iv_target (rx_intervention x)) (rx_journey x) (ra_window_started_at a)
        (ra_window_ended_at a) k = (Inr obs, k')
    \<and> ra_window_ended_at a = en_clock en (w_readings w)
    \<and> ra_window_started_at a = ra_window_ended_at a
        - seconds (rc_stabilization_window_seconds (context_criteria x))
    \<and> do_target (ob_deployment obs) = iv_target (rx_intervention x)
    \<and> (ra_criteria_satisfied a \<longleftrightarrow> window_recovered x obs)
    \<and> store_get (w_store w') i = Some r' \<and> record_inv r'
    \<and> ir_recovery_assessments r' = ir_recovery_assessments (rx_record x) @ [a]
    \<and> inc_lifecycle (ir_incident r') =
        (if rc_required_stable_windows (context_criteria x) \<le> ra_stable_windows a
         then RESOLVED else MONITORING)"
proof -
  let ?now = "en_clock en (w_readings w)"
  obtain x obs v w1 w2 where x: "recovery_context_of (store_get (w_store w) i) = Inr x"
    and obs: "observe_window rs x (?now - seconds (rc_stabilization_window_seconds (context_criteria x)))
      ?now (w\<lparr>w_readings := Suc (w_readings w)\<rparr>) = (Inr obs, w1)"
    and v: "judge_journey rs (context_criteria x) (rx_journey x) (ob_journey obs) w1 = (Inr v, w2)"
    and rec: "record_assessment en i (inc_version (ir_incident (rx_record x)))
       (assess i x (?now - seconds (rc_stabilization_window_seconds (context_criteria x))) ?now obs v) w2
     = (Inr a, w')"
    using verify_Inr [OF assms(2)] by metis
  let ?a = "assess i x (?now - seconds (rc_stabilization_window_seconds (context_criteria x))) ?now obs v"
  have r: "store_get (w_store w) i = Some (rx_record x)" "inc_lifecycle (ir_incident (rx_record x)) = MONITORING"
    using context_record [OF x] by simp_all
  have inv: "record_inv (rx_record x)" "inc_incident_id (ir_incident (rx_record x)) = i"
    using store_inv_get [OF assms(1) r(1)] by simp_all
  have w1: "w_store w1 = w_store w" using obs by (auto simp: observe_window_Inr on_kube_Inr)
  then have w2: "w_store w2 = w_store w" using judge_journey_cases [OF v] by auto
  obtain e r' where a: "a = ?a" and r': "record_recovery_record i (inc_version (ir_incident (rx_record x))) a e
      (rx_record x) = Inr r'" "w_store w' = store_replace r' (w_store w2)"
    using record_assessment_Inr [OF rec] r w2 by auto
  have st: "record_inv r'" "inc_incident_id (ir_incident r') = i"
    using record_recovery_step [OF inv(1) r'(1)] inv(2) by (simp_all add: record_step_def record_extends_def)
  have rec': "ir_recovery_assessments r' = ir_recovery_assessments (rx_record x) @ [a]
    \<and> inc_lifecycle (ir_incident r') =
        (if rc_required_stable_windows (context_criteria x) \<le> ra_stable_windows a
         then RESOLVED else MONITORING)"
    using record_recovery_Inr [OF r'(1)] r(2)
    by (auto simp: context_criteria_def bump_version_def split: if_splits)
  have "ra_window_ended_at a = ?now" "ra_window_started_at a
      = ?now - seconds (rc_stabilization_window_seconds (context_criteria x))"
    by (simp_all add: a assess_def Let_def)
  moreover have "ra_criteria_satisfied a \<longleftrightarrow> window_recovered x obs"
    unfolding a by (rule assess_satisfied [OF v])
  moreover have "store_get (w_store w') i = Some r'" using r'(2) st(2) by (simp add: store_get_replace)
  ultimately show ?thesis using x obs rec' st(1) by (auto simp: observe_window_Inr on_kube_Inr)
qed

section \<open>A concrete window\<close>

definition sample_observation :: recovery_observation where
  "sample_observation =
    \<lparr>ob_deployment = \<lparr>do_target = sample_target, do_generation = 2, do_observed_generation = 2,
       do_active_revision = 1, do_desired_replicas = 3, do_updated_replicas = 3,
       do_available_replicas = 3, do_unavailable_replicas = 0, do_oom_terminations = 0,
       do_restart_delta = 0\<rparr>,
     ob_journey = \<lparr>jo_journey_name = ''buy'', jo_request_count = 200, jo_success_rate = Some 1,
       jo_p95_latency_ms = Some 800, jo_healthy_baseline_success_rate = 1,
       jo_healthy_baseline_p95_latency_ms = 1000\<rparr>\<rparr>"

definition sample_providers :: fake_recovery where
  "sample_providers = \<lparr>fr_observations = [sample_observation], fr_index = 0, fr_requests = [],
     fr_probe_observations = [\<lparr>po_probe_name = ''probe'', po_attempts = 3, po_successes = 3\<rparr>],
     fr_probe_index = 0, fr_probes = []\<rparr>"

definition recovery_environment :: "fake_recovery environment" where
  "recovery_environment = \<lparr>en_clock = (\<lambda>n. minutes 68 + seconds (int n)),
     en_uuid = (\<lambda>n. ''uuid-000'' @ nat_str n), en_digest = sample_digest,
     en_inspect = (\<lambda>t. ret None), en_dry_run = (\<lambda>p. raise (KeyError ''no cluster'')),
     en_apply = (\<lambda>p. raise (KeyError ''no cluster'')),
     en_verify = (\<lambda>p s. raise (KeyError ''no cluster'')),
     en_enrollment = (\<lambda>p. raise (KeyError ''no cluster''))\<rparr>"

definition recovery_world :: "fake_recovery world" where
  "recovery_world = \<lparr>w_store = sample_store, w_leases = [], w_queue = [], w_kube = sample_providers,
     w_readings = 0, w_uuids = 0\<rparr>"

definition sample_verdict :: "(pyexn + recovery_assessment) \<times> fake_recovery world" where
  "sample_verdict = verify_next_window recovery_environment fake_recovery_providers ''inc-1'' recovery_world"

lemma sample_verdict_returns:
  "case fst sample_verdict of Inl e \<Rightarrow> False | Inr a \<Rightarrow> ra_stable_windows a = 2"
  by code_simp

lemma recovery_world_inv: "store_inv (w_store recovery_world)"
  using sample_store_inv by (simp add: recovery_world_def)

theorem recovery_follows_the_evidence_witness:
  "\<exists>a r'. fst sample_verdict = Inr a \<and> store_get (w_store (snd sample_verdict)) ''inc-1'' = Some r'
     \<and> inc_lifecycle (ir_incident r') = RESOLVED"
proof -
  obtain a where a: "fst sample_verdict = Inr a" "ra_stable_windows a = 2"
    using sample_verdict_returns by (auto split: sum.splits)
  then have run: "verify_next_window recovery_environment fake_recovery_providers ''inc-1'' recovery_world
      = (Inr a, snd sample_verdict)" by (simp add: sample_verdict_def prod_eq_iff)
  from recovery_follows_the_evidence [OF recovery_world_inv run] obtain x r' where
    x: "recovery_context_of (store_get (w_store recovery_world) ''inc-1'') = Inr x"
    and r': "store_get (w_store (snd sample_verdict)) ''inc-1'' = Some r'"
      "inc_lifecycle (ir_incident r') = (if rc_required_stable_windows (context_criteria x)
        \<le> ra_stable_windows a then RESOLVED else MONITORING)" by blast
  have "rx_record x = sample_monitoring" using context_record [OF x]
    by (simp add: recovery_world_def sample_store_def store_get_def)
  then have "rc_required_stable_windows (context_criteria x) = 2"
    by (simp add: context_criteria_def sample_monitoring_def sample_profile_def)
  with a r' show ?thesis by auto
qed

section \<open>Verifier and store agree\<close>

lemma event_returns:
  assumes "i \<noteq> []"
  shows "\<exists>e. recovery_event en i a w = (Inr e, w\<lparr>w_uuids := Suc (w_uuids w)\<rparr>)
    \<and> ae_event_type e = recovery_event_type a \<and> ae_incident_id e = i
    \<and> ae_event_id e = ''audit-'' @ en_uuid en (w_uuids w) \<and> wf_audit_event e"
proof -
  have "\<exists>e. recovery_event en i a w = (Inr e, w\<lparr>w_uuids := Suc (w_uuids w)\<rparr>) \<and> ae_actor e \<noteq> [] \<and> ae_cursor e = 0"
    unfolding recovery_event_def new_event_Inr by (simp del: append.simps)
  then obtain e where e: "recovery_event en i a w = (Inr e, w\<lparr>w_uuids := Suc (w_uuids w)\<rparr>)"
    "ae_actor e \<noteq> []" "ae_cursor e = 0" by blast
  have "recovery_event_type a \<noteq> []" by (simp add: recovery_event_type_def)
  with e recovery_event_Inr [OF e(1)] assms show ?thesis by (auto simp: wf_audit_event_def)
qed

lemma wf_record_append_assessment:
  assumes "wf_record r" "audit_ok r" "wf_recovery_assessment a" "wf_audit_event e"
    and "ra_incident_id a = inc_incident_id (ir_incident r)" "ae_incident_id e = inc_incident_id (ir_incident r)"
    and "ra_intervention_id a \<in> iv_intervention_id ` set (ir_interventions r)"
    and "\<not> list_ex (\<lambda>x. ae_event_id x = ae_event_id e) (ir_audit_events r)"
    and "incident_fields j" "inc_incident_id j = inc_incident_id (ir_incident r)"
    "inc_application_id j = inc_application_id (ir_incident r)"
  shows "wf_record (with_event e (r\<lparr>ir_incident := j,
    ir_recovery_assessments := ir_recovery_assessments r @ [a]\<rparr>))"
proof -
  let ?r = "r\<lparr>ir_incident := j, ir_recovery_assessments := ir_recovery_assessments r @ [a]\<rparr>"
  have "decisions_consistent ?r = decisions_consistent r"
    using assms(7,10) by (simp add: decisions_consistent_def cong: option.case_cong)
  then have "wf_record ?r" using assms(1,3,5,9-11)
    by (simp add: wf_record_def wf_append_simps)
  moreover have "audit_ok ?r" using assms(2) by (simp add: audit_ok_def)
  ultimately show ?thesis using wf_record_append_audit_event [OF _ _ assms(4)] assms(6,8,10)
    by (simp add: append_audit_event_record_def guarded_pass first_problem.simps)
qed

lemma stable_windows_agree:
  "expected_stable_windows previous a
    = next_stable_windows (ra_criteria_satisfied a) previous (ra_window_started_at a)"
  by (simp add: expected_stable_windows_def next_stable_windows_def)

text \<open>What the assessment of a well-formed observation satisfies.\<close>

definition observed_well :: "recovery_context \<Rightarrow> recovery_observation \<Rightarrow> bool" where
  "observed_well x obs \<longleftrightarrow> wf_recovery_observation obs
     \<and> do_target (ob_deployment obs) = iv_target (rx_intervention x)
     \<and> jo_journey_name (ob_journey obs) = cj_name (rx_journey x)"

definition probed_well :: "synthetic_probe \<Rightarrow> synthetic_probe_observation \<Rightarrow> bool" where
  "probed_well probe po \<longleftrightarrow> wf_probe_observation po \<and> po_probe_name po = sp_name probe
     \<and> po_attempts po = sp_repetitions probe"

definition verdict_ok :: "journey_verdict \<Rightarrow> bool" where
  "verdict_ok v \<longleftrightarrow> (jv_probe_used v \<longleftrightarrow> jv_probe_successes v \<noteq> None)
     \<and> pred_option (\<lambda>n. 0 \<le> n) (jv_probe_successes v)"

lemma judge_journey_returns:
  assumes "\<And>p. cj_synthetic_probe j = Some p \<Longrightarrow> \<exists>po k'. rs_probe rs p (w_kube w) = (Inr po, k') \<and> probed_well p po"
  shows "\<exists>v k. judge_journey rs c j m w = (Inr v, w\<lparr>w_kube := k\<rparr>) \<and> verdict_ok v"
proof (cases "cj_minimum_request_count j \<le> jo_request_count m")
  case True
  then show ?thesis
    by (intro exI [of _ "judge_metrics j m"] exI [of _ "w_kube w"])
      (simp add: judge_journey_def ret_def verdict_ok_def judge_metrics_def)
next
  case False
  let ?s = "\<lparr>jv_availability = False, jv_latency = False, jv_sufficient = False,
    jv_probe_used = False, jv_probe_successes = None\<rparr>"
  show ?thesis
  proof (cases "cj_synthetic_probe j")
    case None
    with False show ?thesis
      by (intro exI [of _ ?s] exI [of _ "w_kube w"]) (simp add: judge_journey_def ret_def verdict_ok_def)
  next
    case (Some p)
    with assms obtain po k' where po: "rs_probe rs p (w_kube w) = (Inr po, k')" "probed_well p po" by blast
    show ?thesis
    proof (cases "rc_allow_synthetic_availability_fallback c")
      case True
      with False Some po show ?thesis
        by (intro exI [of _ "?s\<lparr>jv_probe_used := True, jv_probe_successes := Some (po_successes po),
            jv_availability := (po_successes po = po_attempts po)\<rparr>"] exI [of _ k'])
          (simp add: judge_journey_def ret_def seq_def on_kube_def on_part_def
            validate_probe_result_def raise_when_def probed_well_def verdict_ok_def wf_probe_observation_def)
    next
      case False
      with \<open>\<not> cj_minimum_request_count j \<le> _\<close> Some show ?thesis
        by (intro exI [of _ ?s] exI [of _ "w_kube w"]) (simp add: judge_journey_def ret_def verdict_ok_def)
    qed
  qed
qed

lemma next_stable_windows_bounds:
  assumes "list_all wf_recovery_assessment previous"
  shows "(b \<longrightarrow> 1 \<le> next_stable_windows b previous t) \<and> (\<not> b \<longrightarrow> next_stable_windows b previous t = 0)"
proof -
  have "0 \<le> ra_stable_windows q" if "last_option previous = Some q" for q
  proof -
    have "q \<in> set previous" using that by (auto simp: last_option_def split: if_splits)
    then show ?thesis using assms by (auto simp: list_all_iff wf_recovery_assessment_def recovery_assessment_fields_def)
  qed
  then show ?thesis by (auto simp: next_stable_windows_def split: option.splits)
qed

lemma explain_nonempty: "explain k s t v \<noteq> []"
  by (auto simp: explain_def Let_def join_def)


lemma assessment_wf:
  assumes x: "recovery_context_of (Some r) = Inr x" and inv: "record_inv r"
    and i: "i = inc_incident_id (ir_incident r)"
    and obs: "observed_well x obs" and v: "verdict_ok v"
    and started: "started = ended - seconds (rc_stabilization_window_seconds (context_criteria x))"
  shows "wf_recovery_assessment (assess i x started ended obs v)"
proof -
  have r: "rx_record x = r" using context_record [OF x] by simp
  have wf: "nested_entries_wf r" using inv by (simp add: record_inv_def wf_record_def)
  have prof: "2 \<le> rc_required_stable_windows (context_criteria x)"
    "60 \<le> rc_stabilization_window_seconds (context_criteria x)"
    using wf by (auto simp: r context_criteria_def nested_entries_wf_def wf_application_profile_def
        recovery_criteria_fields_def)
  have "rx_intervention x \<in> set (ir_interventions r)" using context_record [OF x] by simp
  then have names: "iv_intervention_id (rx_intervention x) \<noteq> []" "i \<noteq> []"
    using wf i by (simp_all add: nested_entries_wf_def list_all_iff wf_intervention_def incident_fields_def)
  have "list_all wf_recovery_assessment (context_assessments x)"
    using wf by (auto simp: nested_entries_wf_def context_assessments_def assessments_of_def r list_all_iff)
  note stable = next_stable_windows_bounds [OF this]
  let ?a = "assess i x started ended obs v"
  have st: "ra_stable_windows ?a
      = next_stable_windows (ra_criteria_satisfied ?a) (context_assessments x) started"
    by (simp add: assess_def Let_def)
  have bound: "ra_criteria_satisfied ?a \<Longrightarrow> 1 \<le> ra_stable_windows ?a"
    "\<not> ra_criteria_satisfied ?a \<Longrightarrow> ra_stable_windows ?a = 0"
    using stable [of "ra_criteria_satisfied ?a" started] st by simp_all
  then have "0 \<le> ra_stable_windows ?a" by (cases "ra_criteria_satisfied ?a") auto
  moreover have "cj_name (rx_journey x) \<noteq> []"
    using obs by (auto simp: observed_well_def wf_recovery_observation_def wf_journey_observation_def)
  ultimately have "recovery_assessment_fields ?a"
    using obs v prof(1) explain_nonempty names
    by (simp add: recovery_assessment_fields_def assess_def Let_def observed_well_def
        wf_recovery_observation_def wf_deployment_observation_def wf_journey_observation_def verdict_ok_def)
  moreover have "recovery_assessment_problem ?a = None"
  proof -
    have len: "ra_window_started_at ?a < ra_window_ended_at ?a" "ra_observed_at ?a = ra_window_ended_at ?a"
      using prof(2) by (simp_all add: assess_def Let_def started timedelta_defs)
    have sat: "ra_criteria_satisfied ?a \<longleftrightarrow> ra_kubernetes_converged ?a \<and> ra_symptoms_cleared ?a
        \<and> ra_traffic_sufficient ?a \<and> ra_availability_satisfied ?a \<and> ra_latency_satisfied ?a
        \<and> ra_sufficient_evidence ?a" by (simp add: assess_def Let_def)
    have probe: "ra_synthetic_probe_used ?a \<longleftrightarrow> ra_synthetic_probe_successes ?a \<noteq> None"
      using v by (simp add: assess_def Let_def verdict_ok_def)
    show ?thesis
      unfolding recovery_assessment_problem_def using len probe bound sat
      by (cases "ra_criteria_satisfied ?a") (simp_all add: first_problem.simps)
  qed
  ultimately show ?thesis by (simp add: wf_recovery_assessment_def)
qed

lemma recording_passes:
  assumes x: "recovery_context_of (Some r) = Inr x" and inv: "record_inv r"
    and i: "i = inc_incident_id (ir_incident r)" and out: "outcome_open r"
    and a: "a = assess i x started ended obs v" and wf: "wf_recovery_assessment a"
    and started: "started = ended - seconds (rc_stabilization_window_seconds (context_criteria x))"
    and later: "\<And>q. last_option (context_assessments x) = Some q \<Longrightarrow> ra_window_ended_at q \<le> started"
    and e: "ae_event_type e = recovery_event_type a" "ae_incident_id e = i" "wf_audit_event e"
      "\<not> list_ex (\<lambda>y. ae_event_id y = ae_event_id e) (ir_audit_events r)"
  shows "\<exists>r'. record_recovery_record i (inc_version (ir_incident r)) a e r = Inr r'"
proof -
  note c = context_record [OF x]
  have r: "rx_record x = r" using c by simp
  have vs: "rx_intervention x \<in> set (ir_interventions r)" "iv_state (rx_intervention x) = IV_SUCCEEDED"
    using c by auto
  have find: "List.find (\<lambda>v. iv_intervention_id v = ra_intervention_id a) (ir_interventions r)
      = Some (rx_intervention x)"
  proof (cases "List.find (\<lambda>v. iv_intervention_id v = ra_intervention_id a) (ir_interventions r)")
    case None
    then show ?thesis using vs(1) by (auto simp: find_None_iff a assess_def Let_def)
  next
    case (Some y)
    have "distinct (map iv_intervention_id (ir_interventions r))"
      using inv by (simp add: record_inv_def unique_entries_def)
    moreover have "iv_intervention_id y = iv_intervention_id (rx_intervention x)"
      using find_in_set [OF Some] by (simp add: a assess_def Let_def)
    ultimately have "y = rx_intervention x"
      using vs(1) find_in_set [OF Some] by (auto simp: distinct_map inj_on_def)
    then show ?thesis using Some by simp
  qed
  let ?stable = "rc_required_stable_windows (context_criteria x) \<le> ra_stable_windows a"
  obtain j where j: "(if ?stable then transition_incident (ir_incident r) (Some RESOLVED) None (Some OUT_SUCCEEDED)
      else Inr (ir_incident r)) = Inr j"
    using out c by (cases ?stable) (auto simp: r transition_incident_Inr outcome_open_def intervention_ok_def
        lifecycle_ok_def investigation_ok_def)
  let ?j = "bump_version j (inc_version (ir_incident r))"
  have frame: "inc_incident_id ?j = i" "inc_application_id ?j = inc_application_id (ir_incident r)"
    "incident_fields ?j"
  proof -
    have "incident_fields (ir_incident r)" using inv by (simp add: record_inv_def wf_record_def nested_entries_wf_def)
    then have "incident_fields j" using j transition_incident_fields by (auto split: if_splits)
    then show "incident_fields ?j" using inv
      by (simp add: incident_fields_def bump_version_def record_inv_def wf_record_def nested_entries_wf_def)
    show "inc_incident_id ?j = i" "inc_application_id ?j = inc_application_id (ir_incident r)"
      using j transition_incident_frame i by (auto simp: bump_version_def split: if_splits)
  qed
  have ids: "ra_incident_id a = i" "ra_intervention_id a = iv_intervention_id (rx_intervention x)"
    "ra_required_stable_windows a = rc_required_stable_windows (context_criteria x)"
    "ra_window_started_at a = started" "ra_window_ended_at a = ended"
    "ra_journey_name a = cj_name (rx_journey x)" "ra_traffic_sufficient a
      = (cj_minimum_request_count (rx_journey x) \<le> ra_request_count a)"
    by (simp_all add: a assess_def Let_def)
  have "wf_record (with_event e (r\<lparr>ir_incident := ?j,
      ir_recovery_assessments := ir_recovery_assessments r @ [a]\<rparr>))"
    by (rule wf_record_append_assessment) (use inv wf e ids vs(1) frame i in \<open>simp_all add: record_inv_def\<close>)
  then have val: "validate_record (with_event e (r\<lparr>ir_incident := ?j,
      ir_recovery_assessments := ir_recovery_assessments r @ [a]\<rparr>))
    = Inr (with_event e (r\<lparr>ir_incident := ?j, ir_recovery_assessments := ir_recovery_assessments r @ [a]\<rparr>))"
    by (simp add: validate_record_Inr)
  have prev: "assessments_of (ra_intervention_id a) r = context_assessments x"
    by (simp add: context_assessments_def r ids)
  have crit: "ap_recovery_criteria (ir_application_profile r) = context_criteria x"
    by (simp add: context_criteria_def r)
  have sat: "ra_criteria_satisfied a \<longrightarrow> ra_kubernetes_converged a \<and> ra_symptoms_cleared a
        \<and> ra_traffic_sufficient a \<and> ra_availability_satisfied a \<and> ra_latency_satisfied a
        \<and> ra_sufficient_evidence a" by (simp add: a assess_def Let_def)
  have agree: "ra_stable_windows a = expected_stable_windows (context_assessments x) a"
    by (simp add: stable_windows_agree a assess_def Let_def)
  have kind: "ae_event_type e = expected_recovery_event (rc_required_stable_windows (context_criteria x)) a"
    by (simp add: e(1) recovery_event_type_def expected_recovery_event_def ids)
  have ov: "\<not> (case last_option (context_assessments x) of None \<Rightarrow> False
      | Some q \<Rightarrow> ra_window_started_at a < ra_window_ended_at q)"
    using later unfolding ids by (cases "last_option (context_assessments x)") (auto simp: not_less)
  have "ended - started = seconds (rc_stabilization_window_seconds (context_criteria x))"
    by (simp add: started)
  then show ?thesis
    unfolding record_recovery_record_def Let_def prev crit find guarded_Inr bind_result_Inr j
      first_problem_None_Cons
    using c e ids sat agree kind val ov by (simp add: r first_problem.simps)
qed


definition sample_context :: recovery_context where
  "sample_context = \<lparr>rx_record = sample_monitoring,
     rx_intervention = sample_intervention\<lparr>iv_state := IV_SUCCEEDED\<rparr>,
     rx_proposal = sample_proposal, rx_approval = sample_approval,
     rx_journey = hd (ap_critical_journeys sample_profile)\<rparr>"


end
