(* ===== verification/Firestore.thy ===== *)
theory Firestore
  imports Store_Contract
begin

text \<open>
  The durable store of \<open>services/incident_store.py\<close>: \<open>FirestoreIncidentStore\<close> runs every method of
  the in-memory store on one document inside a database transaction. The documents are what
  pydantic's \<open>model_dump(mode="json")\<close> returns; dumping and validating are library code and form
  the parameter \<open>codec\<close>, whose law is that validating a dumped record runs the record's validators
  and gives the record back.
\<close>

section \<open>Documents\<close>

record 'd codec =
  co_dump :: "investigation_record \<Rightarrow> 'd"
  co_load :: "'d \<Rightarrow> pyexn + investigation_record"

definition pydantic_codec :: "'d codec \<Rightarrow> bool" where
  "pydantic_codec cd \<longleftrightarrow> (\<forall>r. co_load cd (co_dump cd r) = validate_record r)"

text \<open>
  The callback of a transaction reads the document and the \<open>nonlocal\<close> variable \<open>result\<close>; it
  returns or raises, and leaves a new value in \<open>result\<close>.
\<close>

type_synonym 'd document_update =
  "'d \<Rightarrow> investigation_record option \<Rightarrow> (pyexn + 'd) \<times> investigation_record option"

record ('s, 'd) document_database =
  dd_create :: "string \<Rightarrow> 'd \<Rightarrow> ('s, unit) act"
  dd_read :: "string \<Rightarrow> ('s, 'd option) act"
  dd_list :: "('s, 'd list) act"
  dd_transaction :: "string \<Rightarrow> 'd document_update \<Rightarrow> ('s, 'd \<times> investigation_record option) act"

section \<open>The databases\<close>

type_synonym 'd documents = "(string \<times> 'd) list"

definition documents_create :: "string \<Rightarrow> 'd \<Rightarrow> ('d documents, unit) act" where
  "documents_create k v ds =
    (if dict_get ds k \<noteq> None then (Inl (ValueError ''incident already exists''), ds)
     else (Inr (), dict_set k v ds))"

definition documents_read :: "string \<Rightarrow> ('d documents, 'd option) act" where
  "documents_read k = gets (\<lambda>ds. dict_get ds k)"

definition documents_list :: "('d documents, 'd list) act" where
  "documents_list = gets (map snd)"

definition documents_transaction ::
  "string \<Rightarrow> 'd document_update \<Rightarrow> ('d documents, 'd \<times> investigation_record option) act" where
  "documents_transaction k update ds =
    (case dict_get ds k of
       None \<Rightarrow> (Inl (ValueError ''incident does not exist''), ds)
     | Some current \<Rightarrow> (case update current None of
         (Inl e, c) \<Rightarrow> (Inl e, ds)
       | (Inr replacement, c) \<Rightarrow> (Inr (replacement, c), dict_set k replacement ds)))"

definition memory_database :: "('d documents, 'd) document_database" where
  "memory_database = \<lparr>dd_create = documents_create, dd_read = documents_read,
     dd_list = documents_list, dd_transaction = documents_transaction\<rparr>"

text \<open>
  The live adapter: \<open>google.cloud.firestore\<close> runs \<open>perform\<close> again when the commit was aborted.
  \<open>seen\<close> is what each aborted attempt read; an attempt that raises ends the transaction.
\<close>

fun aborted_performs ::
  "'d document_update \<Rightarrow> 'd option list \<Rightarrow> investigation_record option
     \<Rightarrow> pyexn + investigation_record option" where
  "aborted_performs update [] c = Inr c"
| "aborted_performs update (x # xs) c = (case x of
     None \<Rightarrow> Inl (ValueError ''incident does not exist'')
   | Some d \<Rightarrow> (case update d c of
       (Inl e, c') \<Rightarrow> Inl e
     | (Inr d', c') \<Rightarrow> aborted_performs update xs c'))"

definition google_transaction ::
  "'d option list \<Rightarrow> string \<Rightarrow> 'd document_update
     \<Rightarrow> ('d documents, 'd \<times> investigation_record option) act" where
  "google_transaction seen k update ds =
    (case aborted_performs update seen None of
       Inl e \<Rightarrow> (Inl e, ds)
     | Inr c0 \<Rightarrow> (case dict_get ds k of
         None \<Rightarrow> (Inl (ValueError ''incident does not exist''), ds)
       | Some current \<Rightarrow> (case update current c0 of
           (Inl e, c) \<Rightarrow> (Inl e, ds)
         | (Inr replacement, c) \<Rightarrow> (Inr (replacement, c), dict_set k replacement ds))))"

definition google_database :: "'d option list \<Rightarrow> ('d documents, 'd) document_database" where
  "google_database seen = memory_database\<lparr>dd_transaction := google_transaction seen\<rparr>"

section \<open>The store\<close>

definition mutation ::
  "'d codec \<Rightarrow> string \<Rightarrow> (store, investigation_record) act \<Rightarrow> 'd document_update" where
  "mutation cd incident_id operation document result =
    (case co_load cd document of
       Inl e \<Rightarrow> (Inl e, result)
     | Inr current \<Rightarrow> (case operation [(incident_id, current)] of
         (Inl e, _) \<Rightarrow> (Inl e, result)
       | (Inr r, _) \<Rightarrow> (Inr (co_dump cd r), Some r)))"

definition firestore_mutate ::
  "('s, 'd) document_database \<Rightarrow> 'd codec \<Rightarrow> string \<Rightarrow> (store, investigation_record) act
     \<Rightarrow> ('s, investigation_record) act" where
  "firestore_mutate db cd incident_id operation =
    seq (dd_transaction db incident_id (mutation cd incident_id operation)) (\<lambda>(_, result).
      case result of
        None \<Rightarrow> raise (RuntimeError ''incident transaction completed without a result'')
      | Some r \<Rightarrow> ret r)"

text \<open>Each method passes the method of the same name to \<open>_mutate\<close>.\<close>

definition firestore_method ::
  "('s, 'd) document_database \<Rightarrow> 'd codec \<Rightarrow> string \<Rightarrow> store_op \<Rightarrow> ('s, investigation_record) act" where
  "firestore_method db cd incident_id op =
     firestore_mutate db cd incident_id (run_method incident_id op)"

definition firestore_create ::
  "('s, 'd) document_database \<Rightarrow> 'd codec \<Rightarrow> application_profile \<Rightarrow> alert_signal \<Rightarrow> string \<Rightarrow> string
     \<Rightarrow> ('s, investigation_record) act" where
  "firestore_create db cd profile signal h1 h2 =
    seq (lift_result (fst (store_create profile signal h1 h2 []))) (\<lambda>r.
    seq (dd_create db (inc_incident_id (ir_incident r)) (co_dump cd r)) (\<lambda>_. ret r))"

definition firestore_get ::
  "('s, 'd) document_database \<Rightarrow> 'd codec \<Rightarrow> string \<Rightarrow> ('s, investigation_record option) act" where
  "firestore_get db cd incident_id =
    seq (dd_read db incident_id) (\<lambda>document. case document of
      None \<Rightarrow> ret None
    | Some d \<Rightarrow> seq (lift_result (co_load cd d)) (\<lambda>r. ret (Some r)))"

fun load_all :: "'d codec \<Rightarrow> 'd list \<Rightarrow> pyexn + investigation_record list" where
  "load_all cd [] = Inr []"
| "load_all cd (d # ds) = bind_result (co_load cd d) (\<lambda>r. map_sum id ((#) r) (load_all cd ds))"

definition firestore_list ::
  "('s, 'd) document_database \<Rightarrow> 'd codec \<Rightarrow> ('s, investigation_record list) act" where
  "firestore_list db cd =
    seq (dd_list db) (\<lambda>ds. seq (lift_result (load_all cd ds)) (\<lambda>rs.
      ret (sort_key (\<lambda>r. - inc_opened_at (ir_incident r)) rs)))"

definition firestore_timeline ::
  "('s, 'd) document_database \<Rightarrow> 'd codec \<Rightarrow> string \<Rightarrow> int \<Rightarrow> ('s, audit_event list) act" where
  "firestore_timeline db cd incident_id after =
    seq (firestore_get db cd incident_id) (\<lambda>found. case found of
      None \<Rightarrow> raise (ValueError ''incident does not exist'')
    | Some r \<Rightarrow> ret (filter (\<lambda>e. ae_cursor e > after) (ir_audit_events r)))"

fun firestore_call ::
  "('s, 'd) document_database \<Rightarrow> 'd codec \<Rightarrow> store_call \<Rightarrow> ('s, investigation_record) act" where
  "firestore_call db cd (Call i op) = firestore_method db cd i op"
| "firestore_call db cd (Create p sg h1 h2) = firestore_create db cd p sg h1 h2"

section \<open>The contract of a transactional database\<close>

text \<open>
  What both databases promise: a transaction that returns has run the callback on the stored
  document (with whatever \<open>result\<close> earlier attempts left) and stored what it returned; one that
  raises has stored nothing.
\<close>

locale transactional_documents =
  fixes transact :: "string \<Rightarrow> 'd document_update \<Rightarrow> ('s, 'd \<times> investigation_record option) act"
    and documents :: "'s \<Rightarrow> string \<Rightarrow> 'd option"
  assumes committed: "transact k update s = (Inr (d', c'), s') \<Longrightarrow>
      \<exists>d c. documents s k = Some d \<and> update d c = (Inr d', c') \<and> documents s' = (documents s)(k \<mapsto> d')"
    and raised: "transact k update s = (Inl e, s') \<Longrightarrow> s' = s"
begin

lemma transact_Inr:
  assumes "dd_transaction db = transact" and "firestore_mutate db cd i operation s = (Inr r, s')"
  shows "\<exists>d current. documents s i = Some d \<and> co_load cd d = Inr current
    \<and> fst (operation [(i, current)]) = Inr r \<and> documents s' = (documents s)(i \<mapsto> co_dump cd r)"
proof -
  obtain d' c' s1 where t: "transact i (mutation cd i operation) s = (Inr (d', c'), s1)"
    and rest: "(case c' of None \<Rightarrow> raise (RuntimeError ''incident transaction completed without a result'')
      | Some r \<Rightarrow> ret r) s1 = (Inr r, s')"
    using assms by (auto simp: firestore_mutate_def seq_Inr)
  from rest have c': "c' = Some r" "s' = s1" by (auto simp: raise_def ret_def split: option.splits)
  from committed [OF t] obtain d c where d: "documents s i = Some d"
    "mutation cd i operation d c = (Inr d', c')" "documents s1 = (documents s)(i \<mapsto> d')" by blast
  then obtain current where "co_load cd d = Inr current" "fst (operation [(i, current)]) = Inr r"
    "d' = co_dump cd r"
    using c' by (auto simp: mutation_def split: sum.splits prod.splits)
  with d c' show ?thesis by auto
qed

lemma transact_Inl:
  assumes "dd_transaction db = transact" and "firestore_mutate db cd i operation s = (Inl e, s')"
  shows "s' = s"
proof (cases "transact i (mutation cd i operation) s")
  case (Pair res s1)
  show ?thesis
  proof (cases res)
    case (Inl x)
    with Pair assms raised show ?thesis by (auto simp: firestore_mutate_def seq_def)
  next
    case (Inr p)
    obtain d' c' where p: "p = (d', c')" by fastforce
    from committed [OF Pair [unfolded Inr p]] obtain d c where
      "mutation cd i operation d c = (Inr d', c')" by blast
    then have "c' \<noteq> None" by (auto simp: mutation_def split: sum.splits prod.splits)
    with Pair Inr p assms show ?thesis by (auto simp: firestore_mutate_def seq_def ret_def)
  qed
qed

end

interpretation memory_documents: transactional_documents documents_transaction map_of
  by unfold_locales (auto simp: documents_transaction_def update_conv split: option.splits sum.splits prod.splits)

interpretation google_documents: transactional_documents "google_transaction seen" map_of for seen
  by unfold_locales (auto simp: google_transaction_def update_conv split: option.splits sum.splits prod.splits)

end
