(* ===== verification/Firestore_Guarantees.thy ===== *)
theory Firestore_Guarantees
  imports Firestore Store_Guarantees
begin

text \<open>
  The durable store is the in-memory store: over the transactional fake the two agree call by call
  (a functional refinement along the dumping of records), and over the live adapter, whose
  transactions may be retried, every call that returns is one call of the in-memory store on
  the stored document.
\<close>

section \<open>The abstraction\<close>

definition docs_of :: "'d codec \<Rightarrow> store \<Rightarrow> 'd documents" where
  "docs_of cd s = map (apsnd (co_dump cd)) s"

lemma docs_of_get [simp]: "dict_get (docs_of cd s) i = map_option (co_dump cd) (store_get s i)"
  by (induction s) (auto simp: docs_of_def store_get_def)

lemma docs_of_set: "docs_of cd (dict_set i r s) = dict_set i (co_dump cd r) (docs_of cd s)"
  by (induction s) (auto simp: docs_of_def)

lemma load_stored:
  assumes "pydantic_codec cd" "store_inv s" "store_get s i = Some r"
  shows "co_load cd (co_dump cd r) = Inr r"
  using store_inv_get [OF assms(2,3)] assms(1)
  by (simp add: pydantic_codec_def validate_record_Inr record_inv_def)

section \<open>A method looks only at its record\<close>

lemma run_method_on_record:
  assumes "store_get s i = Some r"
  shows "run_method i op s = (case fst (run_method i op [(i, r)]) of
      Inl e \<Rightarrow> (Inl e, s) | Inr r' \<Rightarrow> (Inr r', store_replace r' s))"
proof -
  obtain f where "run_method i op = store_update i f" using run_method_update by blast
  then show ?thesis using assms
    by (auto simp: store_update_def required_record_def store_get_def split: sum.splits)
qed

lemma run_method_id:
  assumes "run_method i op s = (Inr r', s')" "store_inv s"
  shows "inc_incident_id (ir_incident r') = i"
proof -
  obtain f where f: "run_method i op = store_update i f" using run_method_update by blast
  with assms(1) obtain r where r: "store_get s i = Some r" by (auto simp: store_update_Inr)
  with store_inv_get [OF assms(2) r] assms(1) show ?thesis
    by (cases op) (auto simp: store_method_defs store_update_Inr record_operation_defs guarded_Inr
        bind_result_Inr validate_record_Inr transition_incident_Inr Let_def split: if_splits option.splits prod.splits)
qed

lemma firestore_method_run:
  assumes "pydantic_codec cd" "store_inv s" "op_ok i op s"
  shows "firestore_method memory_database cd i op (docs_of cd s)
    = apsnd (docs_of cd) (run_method i op s)"
proof (cases "store_get s i")
  case None
  then show ?thesis
    by (simp add: run_method_missing firestore_method_def firestore_mutate_def
        seq_def memory_database_def documents_transaction_def)
next
  case (Some r)
  note load = load_stored [OF assms(1,2) Some]
  show ?thesis
  proof (cases "fst (run_method i op [(i, r)])")
    case (Inl e)
    then have "mutation cd i (run_method i op) (co_dump cd r) None = (Inl e, None)"
      by (cases "run_method i op [(i, r)]") (simp add: mutation_def load)
    then show ?thesis using Some Inl
      by (simp add: run_method_on_record [OF Some] firestore_method_def
          firestore_mutate_def seq_def memory_database_def documents_transaction_def)
  next
    case (Inr r')
    then have m: "mutation cd i (run_method i op) (co_dump cd r) None = (Inr (co_dump cd r'), Some r')"
      by (cases "run_method i op [(i, r)]") (simp add: mutation_def load)
    have run: "run_method i op s = (Inr r', store_replace r' s)"
      using run_method_on_record [OF Some, of op] Inr by simp
    have "inc_incident_id (ir_incident r') = i" by (rule run_method_id [OF run assms(2)])
    then show ?thesis using Some m run
      by (simp add: firestore_method_def firestore_mutate_def seq_def memory_database_def
          documents_transaction_def ret_def store_replace_def docs_of_set)
  qed
qed

lemma firestore_create_run:
  assumes "store_get s (''inc-'' @ h1) = None"
  shows "firestore_create memory_database cd p sg h1 h2 (docs_of cd s)
    = apsnd (docs_of cd) (store_create p sg h1 h2 s)"
proof (cases "create_record p sg h1 h2")
  case (Inl e)
  then show ?thesis by (simp add: firestore_create_def store_create_def seq_def lift_result_def)
next
  case (Inr r)
  then show ?thesis using create_record_id [OF Inr] assms
    by (simp add: firestore_create_def store_create_def seq_def lift_result_def memory_database_def
        documents_create_def ret_def store_replace_def docs_of_set)
qed

lemma firestore_call_run:
  assumes "pydantic_codec cd" "store_inv s" "call_ok c s"
  shows "firestore_call memory_database cd c (docs_of cd s) = apsnd (docs_of cd) (run_call c s)"
  using assms by (cases c) (simp_all add: firestore_method_run firestore_create_run)

section \<open>Refinement\<close>

text \<open>The results of a list of calls, and the state they leave.\<close>

fun trace :: "('c \<Rightarrow> ('s, 'a) act) \<Rightarrow> 'c list \<Rightarrow> 's \<Rightarrow> (pyexn + 'a) list \<times> 's" where
  "trace run [] s = ([], s)"
| "trace run (c # cs) s = (let (r, s1) = run c s; (rs, s2) = trace run cs s1 in (r # rs, s2))"

text \<open>C14. The durable store refines the in-memory store. Over the transactional document fake,
  any sequence of calls of any methods (with valid arguments, new incidents getting new ids)
  returns or raises, call by call, exactly what the in-memory store does, and leaves exactly the
  dumped documents of its records in the same order.\<close>

theorem firestore_refines_the_memory_store:
  assumes "pydantic_codec cd" and "store_inv s" and "calls_ok cs s"
  shows "trace (firestore_call memory_database cd) cs (docs_of cd s)
    = apsnd (docs_of cd) (trace run_call cs s)"
  using assms(2,3)
proof (induction cs arbitrary: s)
  case (Cons c cs)
  obtain r s1 where run: "run_call c s = (r, s1)" by fastforce
  have "store_inv s1" using call_step [OF Cons.prems(1) _ run] Cons.prems(2) by simp
  moreover have "firestore_call memory_database cd c (docs_of cd s) = (r, docs_of cd s1)"
    using firestore_call_run [OF assms(1) Cons.prems(1)] Cons.prems(2) run by simp
  ultimately show ?case using Cons.IH [of s1] Cons.prems(2) run
    by (simp add: split_def Let_def)
qed simp

definition identity_codec :: "investigation_record codec" where
  "identity_codec = \<lparr>co_dump = id, co_load = validate_record\<rparr>"

lemma identity_codec_ok: "pydantic_codec identity_codec"
  by (simp add: pydantic_codec_def identity_codec_def)

theorem firestore_refines_the_memory_store_witness:
  "trace (firestore_call memory_database identity_codec) sample_investigation []
    = apsnd (docs_of identity_codec) (trace run_call sample_investigation [])"
  using firestore_refines_the_memory_store [OF identity_codec_ok store_inv_Nil sample_investigation_ok]
  by (simp add: docs_of_def)

text \<open>C15. Retries leave no trace. On the live adapter, whatever documents the aborted attempts of
  a transaction have read, a method that returns has run exactly once on the document stored at
  the commit: its result is the result of the in-memory method on that record, and that document
  alone is replaced, by the dumped result. A method that raises has changed nothing.\<close>

theorem retried_transactions_are_atomic:
  assumes "firestore_method (google_database seen) cd i op ds = (res, ds')"
  shows "(\<forall>r. res = Inr r \<longrightarrow> (\<exists>d current. dict_get ds i = Some d \<and> co_load cd d = Inr current
        \<and> fst (run_method i op [(i, current)]) = Inr r
        \<and> (\<forall>j. dict_get ds' j = (if j = i then Some (co_dump cd r) else dict_get ds j))))
    \<and> (\<forall>e. res = Inl e \<longrightarrow> ds' = ds)"
proof -
  have db: "dd_transaction (google_database seen) = google_transaction seen"
    by (simp add: google_database_def)
  show ?thesis
    using google_documents.transact_Inr [OF db] google_documents.transact_Inl [OF db] assms
    unfolding firestore_method_def by (cases res) fastforce+
qed

text \<open>An attempt that read the record before the store's last write, and a second one.\<close>

theorem retried_transactions_are_atomic_witness:
  "\<exists>r ds'. firestore_method (google_database [Some sample_monitoring, Some sample_monitoring])
       identity_codec ''inc-1'' sample_resolution (docs_of identity_codec sample_store) = (Inr r, ds')
     \<and> dict_get ds' ''inc-1'' = Some r \<and> inc_lifecycle (ir_incident r) = RESOLVED"
proof -
  let ?run = "firestore_method (google_database [Some sample_monitoring, Some sample_monitoring])
       identity_codec ''inc-1'' sample_resolution (docs_of identity_codec sample_store)"
  have "case fst ?run of Inl e \<Rightarrow> False | Inr r \<Rightarrow> inc_lifecycle (ir_incident r) = RESOLVED"
    by code_simp
  then obtain r where r: "fst ?run = Inr r" "inc_lifecycle (ir_incident r) = RESOLVED"
    by (auto split: sum.splits)
  from retried_transactions_are_atomic [OF surjective_pairing [of ?run]] r
  have "dict_get (snd ?run) ''inc-1'' = Some (co_dump identity_codec r)" by auto
  then show ?thesis using r
    by (intro exI [of _ r] exI [of _ "snd ?run"]) (simp add: prod_eq_iff identity_codec_def)
qed

text \<open>C16. What the durable store reads back. Over the fake, \<open>get\<close> returns the record the in-memory
  store holds, \<open>list\<close> returns the same records in the same order, and \<open>timeline\<close> the same events or
  the same error; none of them changes a document.\<close>

theorem durable_reads_round_trip:
  assumes "pydantic_codec cd" and "store_inv s"
  shows "firestore_get memory_database cd i (docs_of cd s) = (Inr (store_get s i), docs_of cd s)
    \<and> firestore_list memory_database cd (docs_of cd s) = (Inr (store_list s), docs_of cd s)
    \<and> firestore_timeline memory_database cd i n (docs_of cd s) = (timeline i n s, docs_of cd s)"
proof -
  have get: "firestore_get memory_database cd i (docs_of cd s) = (Inr (store_get s i), docs_of cd s)"
    using load_stored [OF assms] by (auto simp: firestore_get_def memory_database_def documents_read_def
        gets_def seq_def lift_result_def ret_def split: option.splits)
  have "load_all cd (map snd (docs_of cd s')) = Inr (map snd s')" if "set s' \<subseteq> set s" for s'
    using that
  proof (induction s')
    case (Cons x xs)
    then have "store_get s (fst x) = Some (snd x)" using assms(2)
      by (simp add: store_get_def store_inv_def)
    from load_stored [OF assms this] Cons show ?case by (simp add: docs_of_def)
  qed (simp add: docs_of_def)
  then have list: "firestore_list memory_database cd (docs_of cd s) = (Inr (store_list s), docs_of cd s)"
    by (simp add: firestore_list_def memory_database_def documents_list_def gets_def seq_def
        lift_result_def ret_def store_list_def)
  have "firestore_timeline memory_database cd i n (docs_of cd s) = (timeline i n s, docs_of cd s)"
    using get by (simp add: firestore_timeline_def seq_def timeline_def required_record_def raise_def
        ret_def split: option.splits)
  with get list show ?thesis by blast
qed

theorem durable_reads_round_trip_witness:
  "firestore_get memory_database identity_codec ''inc-1'' (docs_of identity_codec sample_store)
     = (Inr (Some sample_monitoring), docs_of identity_codec sample_store)"
  using durable_reads_round_trip [OF identity_codec_ok sample_store_inv, of "''inc-1''" 0]
  by (simp add: sample_store_def store_get_def)

end
