(* ===== verification/Store_Client.thy ===== *)
theory Store_Client
  imports World
begin

text \<open>
  How a service may use the incident store. A service reaches the store only through its methods,
  so whatever the methods keep, the service keeps: the locale \<open>store_client\<close> takes a property of
  the store that every allowed method call keeps and lifts it to the actions services are built
  from. Its first interpretation is growth: the store stays valid and every record is extended.
\<close>

lemma keeps_on_kube_part [keeps_intros]:
  "(\<And>w k. I (w\<lparr>w_kube := k\<rparr>) = I w) \<Longrightarrow> keeps I (on_kube m)"
  by (rule keeps_on_kube) simp

lemma keeps_sum:
  "(\<And>e. x = Inl e \<Longrightarrow> keeps I (f e)) \<Longrightarrow> (\<And>a. x = Inr a \<Longrightarrow> keeps I (g a)) \<Longrightarrow>
     keeps I (case x of Inl e \<Rightarrow> f e | Inr a \<Rightarrow> g a)"
  by (cases x) simp_all

lemma wp_store_update:
  assumes "\<And>e. E e w"
    and "\<And>r r'. store_get (w_store w) i = Some r \<Longrightarrow> f r = Inr r' \<Longrightarrow>
      Q r' (w\<lparr>w_store := store_replace r' (w_store w)\<rparr>)"
  shows "wp (on_store (store_update i f)) Q E w"
  using assms by (auto simp: wp_def on_store_def on_part_def store_update_def required_record_def
    split: sum.splits option.splits prod.splits)

lemma wp_store_record:
  assumes "store_get (w_store w) i = Some r"
  shows "wp (on_store (store_update i f)) Q E w \<longleftrightarrow> (case f r of Inl e \<Rightarrow> E e w
    | Inr r' \<Rightarrow> Q r' (w\<lparr>w_store := store_replace r' (w_store w)\<rparr>))"
  using assms by (simp add: wp_def on_store_def on_part_def store_update_def required_record_def
    split: sum.split)

locale store_client =
  fixes P :: "store \<Rightarrow> bool" and allowed :: "string \<Rightarrow> store_op \<Rightarrow> bool"
  assumes method_keeps: "P s \<Longrightarrow> allowed i op \<Longrightarrow> P (snd (run_method i op s))"
begin

lemma on_store_part: "P (snd (m (w_store w))) \<Longrightarrow> P (w_store (snd (on_store m w)))"
  by (cases "m (w_store w)") (simp add: on_store_def on_part_def)

lemma call: "allowed i op \<Longrightarrow> keeps (\<lambda>w. P (w_store w)) (on_store (run_method i op))"
  by (rule keepsI, rule on_store_part, rule method_keeps)

lemma calls:
  "allowed i (Append_Evidence e) \<Longrightarrow> keeps (\<lambda>w. P (w_store w)) (on_store (append_evidence i e))"
  "allowed i (Append_Alert_Signal g) \<Longrightarrow> keeps (\<lambda>w. P (w_store w)) (on_store (append_alert_signal i g))"
  "allowed i (Append_Failure f) \<Longrightarrow>
     keeps (\<lambda>w. P (w_store w)) (on_store (append_evidence_retrieval_failure i f))"
  "allowed i (Append_Query q) \<Longrightarrow> keeps (\<lambda>w. P (w_store w)) (on_store (append_evidence_query i q))"
  "allowed i (Append_Finding d) \<Longrightarrow> keeps (\<lambda>w. P (w_store w)) (on_store (append_finding i d))"
  "allowed i (Append_Model_Invocation m) \<Longrightarrow>
     keeps (\<lambda>w. P (w_store w)) (on_store (append_model_invocation i m))"
  "allowed i (Complete_Investigation c) \<Longrightarrow>
     keeps (\<lambda>w. P (w_store w)) (on_store (complete_investigation i c))"
  "allowed i (Append_Audit_Event a) \<Longrightarrow> keeps (\<lambda>w. P (w_store w)) (on_store (append_audit_event i a))"
  "allowed i (Compare_And_Set n b) \<Longrightarrow> keeps (\<lambda>w. P (w_store w)) (on_store (compare_and_set i n b))"
  using call [of i "Append_Evidence e"] call [of i "Append_Alert_Signal g"]
    call [of i "Append_Failure f"] call [of i "Append_Query q"] call [of i "Append_Finding d"]
    call [of i "Append_Model_Invocation m"] call [of i "Complete_Investigation c"]
    call [of i "Append_Audit_Event a"] call [of i "Compare_And_Set n b"] by simp_all

lemma providers:
  "keeps (\<lambda>w. P (w_store w)) (on_kube m)"
  "keeps (\<lambda>w. P (w_store w)) (now_act en)"
  "keeps (\<lambda>w. P (w_store w)) (uuid4 en)"
  by (auto intro: keeps_intros)

end

section \<open>Growth\<close>

definition wf_op :: "store_op \<Rightarrow> bool" where
  "wf_op op \<longleftrightarrow> (case op of
     Append_Evidence e \<Rightarrow> wf_evidence_observation e
   | Append_Alert_Signal e \<Rightarrow> wf_alert_signal_evidence e
   | Append_Failure e \<Rightarrow> wf_evidence_retrieval_failure e
   | Append_Query q \<Rightarrow> wf_evidence_query q
   | Append_Audit_Event e \<Rightarrow> wf_audit_event e
   | Record_Intervention n v e \<Rightarrow> False
   | _ \<Rightarrow> True)"

lemmas wf_op_simps [simp] = wf_op_def [of "Append_Evidence e" for e, simplified]
  wf_op_def [of "Append_Alert_Signal e" for e, simplified]
  wf_op_def [of "Append_Failure e" for e, simplified]
  wf_op_def [of "Append_Query e" for e, simplified]
  wf_op_def [of "Append_Audit_Event e" for e, simplified]
  wf_op_def [of "Append_Finding e" for e, simplified]
  wf_op_def [of "Append_Model_Invocation e" for e, simplified]
  wf_op_def [of "Complete_Investigation e" for e, simplified]
  wf_op_def [of "Compare_And_Set n e" for n e, simplified]

lemma wf_op_ok: "wf_op op \<Longrightarrow> op_ok i op s"
  by (cases op) (auto simp: wf_op_def)

definition grown :: "store \<Rightarrow> store \<Rightarrow> bool" where
  "grown s0 s \<longleftrightarrow> store_inv s \<and> (\<forall>i r. store_get s0 i = Some r \<longrightarrow>
     (\<exists>r'. store_get s i = Some r' \<and> record_extends r r'))"

lemma grown_refl: "store_inv s \<Longrightarrow> grown s s"
  by (auto simp: grown_def)

lemma grown_get: "grown s0 s \<Longrightarrow> store_get s0 i = Some r \<Longrightarrow>
    \<exists>r'. store_get s i = Some r' \<and> record_extends r r'"
  by (auto simp: grown_def)

lemma grown_trans: "grown s0 s1 \<Longrightarrow> grown s1 s2 \<Longrightarrow> grown s0 s2"
  unfolding grown_def by (metis record_extends_trans)

lemma grown_inv: "grown s0 s \<Longrightarrow> store_inv s"
  by (simp add: grown_def)

lemma grown_method:
  assumes "grown s0 s" "wf_op op"
  shows "grown s0 (snd (run_method i op s))"
proof (rule grown_trans [OF assms(1)])
  show "grown s (snd (run_method i op s))"
    using method_step [of s i op "fst (run_method i op s)" "snd (run_method i op s)"]
      grown_inv [OF assms(1)] wf_op_ok [OF assms(2)] unfolding grown_def
    by (metis prod.collapse)
qed

interpretation growing: store_client "grown s0" "\<lambda>i op. wf_op op" for s0
  by unfold_locales (rule grown_method)

end
