(* ===== verification/Alerts.thy ===== *)
theory Alerts
  imports Store_Client
begin

text \<open>
  Alert ingestion (\<open>services/alerts.py\<close>). \<open>AlertIngestionService.consume\<close> is an action on the world
  and the state \<open>'m\<close> behind the message: the \<open>acknowledged\<close> flag of an \<open>InMemoryAlertMessage\<close>, or the
  subscription of a pulled message. The profile provider and the enrollment provider act on the
  cluster state; parsing the JSON of a delivery is pydantic's and a parameter.
\<close>

section \<open>Profiles\<close>

record profile_load_result =
  lr_source :: string
  lr_application_id :: "string option"
  lr_profile :: "application_profile option"
  lr_errors :: "(string \<times> string) list"

definition profile_load_problem :: "profile_load_result \<Rightarrow> string option" where
  "profile_load_problem r = first_problem
    [(lr_profile r = None \<and> lr_errors r = [],
      ''invalid application profile loads must include exact validation errors''),
     (lr_profile r \<noteq> None \<and> lr_errors r \<noteq> [],
      ''valid application profile loads cannot include validation errors''),
     (pred_option (\<lambda>p. lr_application_id r \<noteq> Some (ap_application_id p)) (lr_profile r)
        \<and> lr_profile r \<noteq> None,
      ''profile load application identity must match the loaded profile'')]"

definition required_profile ::
  "profile_load_result list \<Rightarrow> string \<Rightarrow> pyexn + application_profile" where
  "required_profile results application_id =
    (case List.find (\<lambda>r. lr_application_id r = Some application_id) results of
       None \<Rightarrow> Inl (ValueError ''alert application is not valid and enrolled'')
     | Some r \<Rightarrow> (case lr_profile r of
         None \<Rightarrow> Inl (ValueError ''alert application is not valid and enrolled'')
       | Some p \<Rightarrow> Inr p))"

section \<open>Notifications\<close>

record alert_notification =
  an_notification_id :: string
  an_application_id :: string
  an_namespace :: string
  an_workload_name :: string
  an_summary :: string
  an_observed_at :: datetime
  an_state :: provider_state
  an_provider_incident_id :: "string option"
  an_window_start :: "datetime option"
  an_window_end :: "datetime option"

definition wf_alert_notification :: "alert_notification \<Rightarrow> bool" where
  "wf_alert_notification n \<longleftrightarrow> an_notification_id n \<noteq> [] \<and> an_application_id n \<noteq> []
     \<and> an_namespace n \<noteq> [] \<and> an_workload_name n \<noteq> []
     \<and> an_summary n \<noteq> [] \<and> int (length (an_summary n)) \<le> 1000"

definition notification_from_signal :: "alert_signal \<Rightarrow> provider_state \<Rightarrow> alert_notification" where
  "notification_from_signal g state =
    \<lparr>an_notification_id = sg_signal_id g, an_application_id = sg_application_id g,
     an_namespace = sg_namespace g, an_workload_name = sg_workload_name g,
     an_summary = sg_summary g, an_observed_at = sg_observed_at g, an_state = state,
     an_provider_incident_id = sg_provider_incident_id g,
     an_window_start = sg_window_start g, an_window_end = sg_window_end g\<rparr>"

definition signal_of :: "alert_notification \<Rightarrow> alert_signal" where
  "signal_of n =
    \<lparr>sg_signal_id = an_notification_id n, sg_application_id = an_application_id n,
     sg_namespace = an_namespace n, sg_workload_name = an_workload_name n,
     sg_workload_namespace = an_namespace n, sg_summary = an_summary n,
     sg_observed_at = an_observed_at n, sg_window_start = an_window_start n,
     sg_window_end = an_window_end n, sg_provider_incident_id = an_provider_incident_id n\<rparr>"

definition normalize :: "alert_notification \<Rightarrow> pyexn + alert_signal" where
  "normalize n =
    (if \<not> alert_signal_fields (signal_of n) then Inl (ValidationError ''AlertSignal'' ''invalid field'')
     else (case alert_signal_problem (signal_of n) of
         Some m \<Rightarrow> Inl (ValidationError ''AlertSignal'' m)
       | None \<Rightarrow> Inr (signal_of n)))"

section \<open>Deduplication and correlation\<close>

definition has_notification :: "string \<Rightarrow> investigation_record \<Rightarrow> bool" where
  "has_notification n r \<longleftrightarrow> list_ex (\<lambda>e. se_notification_id e = n) (ir_alert_signals r)"

definition find_by_notification :: "string \<Rightarrow> store \<Rightarrow> investigation_record option" where
  "find_by_notification n s = List.find (has_notification n) (store_list s)"

text \<open>\<open>workloads\<close> is a dict by name, in which the last workload of a name stays.\<close>

definition workload_named :: "application_profile \<Rightarrow> string \<Rightarrow> managed_workload option" where
  "workload_named p n = List.find (\<lambda>w. wr_name (mw_reference w) = n) (rev (ap_workloads p))"

definition workloads_related :: "application_profile \<Rightarrow> string \<Rightarrow> string \<Rightarrow> bool" where
  "workloads_related p left right \<longleftrightarrow> left = right \<or>
    (case (workload_named p left, workload_named p right) of
       (Some l, Some r) \<Rightarrow> right \<in> set (mw_dependencies l) \<or> left \<in> set (mw_dependencies r)
     | _ \<Rightarrow> False)"

definition correlation_candidate ::
  "timedelta \<Rightarrow> alert_notification \<Rightarrow> investigation_record \<Rightarrow> bool" where
  "correlation_candidate correlation_window n r \<longleftrightarrow>
     inc_application_id (ir_incident r) = an_application_id n
     \<and> inc_lifecycle (ir_incident r) \<notin> {RESOLVED, CLOSED}
     \<and> \<bar>an_observed_at n - inc_opened_at (ir_incident r)\<bar> \<le> correlation_window"

definition correlates ::
  "application_profile \<Rightarrow> alert_notification \<Rightarrow> investigation_record \<Rightarrow> bool" where
  "correlates p n r \<longleftrightarrow>
     (case an_provider_incident_id n of
        None \<Rightarrow> False
      | Some q \<Rightarrow> q \<noteq> [] \<and> list_ex (\<lambda>e. sg_provider_incident_id (se_signal e) = Some q) (ir_alert_signals r))
     \<or> list_ex (\<lambda>e. sg_workload_name (se_signal e) \<noteq> []
          \<and> workloads_related p (an_workload_name n) (sg_workload_name (se_signal e))) (ir_alert_signals r)"

definition find_correlated ::
  "timedelta \<Rightarrow> application_profile \<Rightarrow> alert_notification \<Rightarrow> store \<Rightarrow> investigation_record option" where
  "find_correlated correlation_window p n s = List.find (correlates p n)
     (filter (correlation_candidate correlation_window n) (store_list s))"

section \<open>Consuming one message\<close>

definition alert_event_type :: "alert_notification \<Rightarrow> string" where
  "alert_event_type n = (if an_state n = State_Closed then ''provider_alert_closed''
     else ''alert_signal_received'')"

definition alert_details :: "alert_notification \<Rightarrow> (string \<times> string) list" where
  "alert_details n =
    [(''notification_id'', an_notification_id n),
     (''provider_incident_id'', str_or (an_provider_incident_id n) []),
     (''namespace'', an_namespace n), (''workload_name'', an_workload_name n),
     (''provider_state'', provider_state_value (an_state n))]"

definition alert_audited :: "string \<Rightarrow> investigation_record \<Rightarrow> bool" where
  "alert_audited n r \<longleftrightarrow>
     list_ex (\<lambda>e. dict_get (ae_details e) ''notification_id'' = Some n) (ir_audit_events r)"

definition ensure_alert_audit ::
  "'k environment \<Rightarrow> investigation_record \<Rightarrow> alert_notification \<Rightarrow> ('k world, investigation_record) act" where
  "ensure_alert_audit en r n =
    (if alert_audited (an_notification_id n) r then ret r
     else seq (uuid4 en) (\<lambda>u. seq (now_act en) (\<lambda>t.
       on_store (append_audit_event (inc_incident_id (ir_incident r))
         \<lparr>ae_event_id = ''audit-'' @ u, ae_incident_id = inc_incident_id (ir_incident r),
          ae_event_type = alert_event_type n, ae_occurred_at = t, ae_actor = ''alert-consumer'',
          ae_details = alert_details n, ae_cursor = 0\<rparr>))))"

definition create_incident ::
  "'k environment \<Rightarrow> application_profile \<Rightarrow> alert_signal \<Rightarrow> ('k world, investigation_record) act" where
  "create_incident en p g = seq (uuid4 en) (\<lambda>h1. seq (uuid4 en) (\<lambda>h2. on_store (store_create p g h1 h2)))"

record 'k alert_services =
  al_profiles :: "('k, profile_load_result list) act"
  al_correlation_window :: timedelta

definition authorize_alert ::
  "'k environment \<Rightarrow> 'k alert_services \<Rightarrow> alert_notification
     \<Rightarrow> ('k world, alert_signal \<times> application_profile) act" where
  "authorize_alert en al n =
    seq (lift_result (normalize n)) (\<lambda>g.
    seq (on_kube (al_profiles al)) (\<lambda>results.
    seq (lift_result (required_profile results (sg_application_id g))) (\<lambda>p.
    let target = deployment_reference (sg_namespace g) (sg_workload_name g) in
    seq (raise_when (\<not> workload_reference_fields target)
      (ValidationError ''WorkloadReference'' ''invalid field'')) (\<lambda>_.
    seq (on_kube (en_enrollment en p)) (\<lambda>snapshot.
    seq (lift_result (require_enrolled_target p (check_enrollment p snapshot) target False)) (\<lambda>_.
      ret (g, p)))))))"

definition correlate_alert ::
  "'k environment \<Rightarrow> 'k alert_services \<Rightarrow> alert_notification \<Rightarrow> alert_signal \<Rightarrow> application_profile
     \<Rightarrow> ('k world, investigation_record) act" where
  "correlate_alert en al n g p =
    seq (gets (\<lambda>w. find_correlated (al_correlation_window al) p n (w_store w))) (\<lambda>found.
      case found of
        Some r \<Rightarrow> ret r
      | None \<Rightarrow> seq (raise_when (an_state n = State_Closed)
            (ValueError ''provider closure cannot create or resolve an Incident'')) (\<lambda>_.
          create_incident en p g))"

definition record_signal ::
  "'k environment \<Rightarrow> alert_notification \<Rightarrow> alert_signal \<Rightarrow> investigation_record
     \<Rightarrow> ('k world, investigation_record) act" where
  "record_signal en n g r = seq (now_act en) (\<lambda>t.
     on_store (append_alert_signal (inc_incident_id (ir_incident r))
       \<lparr>se_notification_id = an_notification_id n, se_incident_id = inc_incident_id (ir_incident r),
        se_signal = g, se_provider_state = an_state n, se_received_at = t\<rparr>))"

definition persist_alert ::
  "'k environment \<Rightarrow> 'k alert_services \<Rightarrow> alert_notification \<Rightarrow> ('k world, investigation_record) act" where
  "persist_alert en al n =
    seq (authorize_alert en al n) (\<lambda>(g, p).
    seq (gets (\<lambda>w. find_by_notification (an_notification_id n) (w_store w))) (\<lambda>duplicate.
      case duplicate of
        Some r \<Rightarrow> ensure_alert_audit en r n
      | None \<Rightarrow>
          seq (correlate_alert en al n g p) (\<lambda>r.
          seq (record_signal en n g r) (\<lambda>r'. ensure_alert_audit en r' n))))"

text \<open>Both branches of \<open>consume\<close> end with the acknowledgement, after everything is stored.\<close>

definition consume_alert ::
  "'k environment \<Rightarrow> 'k alert_services \<Rightarrow> ('m, unit) act \<Rightarrow> alert_notification
     \<Rightarrow> ('k world \<times> 'm, investigation_record) act" where
  "consume_alert en al acknowledge n =
    seq (on_part fst apfst (persist_alert en al n)) (\<lambda>r.
    seq (on_part snd apsnd acknowledge) (\<lambda>_. ret r))"

text \<open>\<open>InMemoryAlertMessage.acknowledge\<close>.\<close>

definition flag_acknowledged :: "(bool, unit) act" where
  "flag_acknowledged acknowledged = (Inr (), True)"

text \<open>One delivery in the worker's loop: an exception is logged and the delivery stays unacknowledged.\<close>

definition deliver_alert ::
  "'k environment \<Rightarrow> 'k alert_services \<Rightarrow> alert_notification \<Rightarrow> 'k world \<Rightarrow> 'k world" where
  "deliver_alert en al n w = fst (snd (consume_alert en al flag_acknowledged n (w, False)))"

section \<open>Pulling from a subscription\<close>

record 'm subscription =
  ps_pull :: "int \<Rightarrow> ('m, (string \<times> string) list) act"
  ps_acknowledge :: "string \<Rightarrow> ('m, unit) act"

text \<open>
  \<open>GooglePubSubSubscription.pull\<close> over the client's pull: a deadline is an empty batch, and a
  delivery needs an acknowledgement id and data.
\<close>

fun deliveries_of :: "(string \<times> string) list \<Rightarrow> pyexn + (string \<times> string) list" where
  "deliveries_of [] = Inr []"
| "deliveries_of ((ack_id, payload) # rest) =
    (if ack_id = [] \<or> payload = [] then Inl (ValidationError ''PubSubDelivery'' ''invalid field'')
     else bind_result (deliveries_of rest) (\<lambda>ds. Inr ((ack_id, payload) # ds)))"

definition google_pull ::
  "(int \<Rightarrow> ('m, (string \<times> string) list) act) \<Rightarrow> int \<Rightarrow> ('m, (string \<times> string) list) act" where
  "google_pull client_pull maximum_messages =
    seq (try_except (client_pull maximum_messages)
      (\<lambda>e. if exn_type e = ''DeadlineExceeded'' then ret [] else raise e)) (\<lambda>items.
      lift_result (deliveries_of items))"

fun poll_deliveries ::
  "'k environment \<Rightarrow> 'k alert_services \<Rightarrow> 'm subscription \<Rightarrow> (string \<Rightarrow> pyexn + alert_notification)
     \<Rightarrow> (string \<times> string) list \<Rightarrow> ('k world \<times> 'm, investigation_record list) act" where
  "poll_deliveries en al sub parse [] = ret []"
| "poll_deliveries en al sub parse ((ack_id, payload) # rest) =
    seq (lift_result (parse payload)) (\<lambda>n.
    seq (consume_alert en al (ps_acknowledge sub ack_id) n) (\<lambda>r.
    seq (poll_deliveries en al sub parse rest) (\<lambda>rs. ret (r # rs))))"

definition poll_once ::
  "'k environment \<Rightarrow> 'k alert_services \<Rightarrow> 'm subscription \<Rightarrow> (string \<Rightarrow> pyexn + alert_notification)
     \<Rightarrow> int \<Rightarrow> ('k world \<times> 'm, investigation_record list) act" where
  "poll_once en al sub parse maximum_messages =
    seq (on_part snd apsnd (ps_pull sub maximum_messages)) (\<lambda>deliveries.
      poll_deliveries en al sub parse deliveries)"

end
