(* ===== verification/Alert_Guarantees.thy ===== *)
theory Alert_Guarantees
  imports Alerts Sample_Run
begin

text \<open>
  What the alert consumer promises: redelivery never records a notification twice, an
  acknowledged notification is durable, and no alert moves an incident. All three follow from one
  description of \<open>persist_alert\<close> by weakest preconditions (\<open>persist_wp\<close>) over the state \<open>alert_state\<close>.
\<close>

section \<open>The state alerts keep\<close>

definition recorded :: "string \<Rightarrow> store \<Rightarrow> string \<Rightarrow> bool" where
  "recorded n s i = (case store_get s i of None \<Rightarrow> False | Some r \<Rightarrow> has_notification n r)"

definition alerts_once :: "store \<Rightarrow> bool" where
  "alerts_once s \<longleftrightarrow> (\<forall>n i j. recorded n s i \<longrightarrow> recorded n s j \<longrightarrow> i = j)"

definition unused_ids :: "'k environment \<Rightarrow> 'k world \<Rightarrow> bool" where
  "unused_ids en w \<longleftrightarrow> inj (en_uuid en)
     \<and> (\<forall>k\<ge>w_uuids w. store_get (w_store w) (''inc-'' @ en_uuid en k) = None)"

definition same_incidents :: "store \<Rightarrow> store \<Rightarrow> bool" where
  "same_incidents s0 s \<longleftrightarrow> (\<forall>i r. store_get s0 i = Some r \<longrightarrow>
     (\<exists>r'. store_get s i = Some r' \<and> record_extends r r' \<and> ir_incident r' = ir_incident r))"

definition no_new_incident :: "store \<Rightarrow> store \<Rightarrow> bool" where
  "no_new_incident s0 s \<longleftrightarrow> (\<forall>i. store_get s i \<noteq> None \<longrightarrow> store_get s0 i \<noteq> None)"

definition alert_state :: "'k environment \<Rightarrow> bool \<Rightarrow> store \<Rightarrow> 'k world \<Rightarrow> bool" where
  "alert_state en closure s0 w \<longleftrightarrow> store_inv (w_store w) \<and> same_incidents s0 (w_store w)
     \<and> alerts_once (w_store w) \<and> unused_ids en w
     \<and> (closure \<longrightarrow> no_new_incident s0 (w_store w))"

text \<open>The profile provider returns validated profiles.\<close>

definition valid_profiles :: "'k alert_services \<Rightarrow> bool" where
  "valid_profiles al \<longleftrightarrow> (\<forall>k. case fst (al_profiles al k) of
      Inl e \<Rightarrow> True
    | Inr results \<Rightarrow> list_all (\<lambda>l. pred_option wf_application_profile (lr_profile l)) results)"

lemma alert_state_start:
  "store_inv (w_store w) \<Longrightarrow> alerts_once (w_store w) \<Longrightarrow> unused_ids en w \<Longrightarrow>
     alert_state en c (w_store w) w"
  by (auto simp: alert_state_def same_incidents_def no_new_incident_def)

lemma alert_state_counters:
  assumes "alert_state en c s0 w" "w_store w' = w_store w" "w_uuids w \<le> w_uuids w'"
  shows "alert_state en c s0 w'"
  using assms by (auto simp: alert_state_def unused_ids_def)

lemma same_incidents_trans:
  "same_incidents s0 s1 \<Longrightarrow> same_incidents s1 s2 \<Longrightarrow> same_incidents s0 s2"
  unfolding same_incidents_def by (fastforce intro: record_extends_trans)

lemma alert_state_replace:
  assumes st: "alert_state en c s0 w" and r: "store_get (w_store w) i = Some r"
    and step: "record_step r r'" "ir_incident r' = ir_incident r"
    and new: "\<And>n. has_notification n r' \<Longrightarrow> has_notification n r \<or> (\<forall>j. \<not> recorded n (w_store w) j)"
  shows "alert_state en c s0 (w\<lparr>w_store := store_replace r' (w_store w)\<rparr>)"
proof -
  have i: "inc_incident_id (ir_incident r') = i" "inc_incident_id (ir_incident r) = i"
    using store_inv_get [OF _ r] st step(2) by (simp_all add: alert_state_def)
  have "store_inv (store_replace r' (w_store w))"
    using st step(1) by (intro store_inv_replace) (simp_all add: alert_state_def record_step_def)
  moreover have "same_incidents (w_store w) (store_replace r' (w_store w))"
    using r step i by (auto simp: same_incidents_def store_get_replace record_step_def)
  moreover have "alerts_once (store_replace r' (w_store w))"
  proof -
    have old: "recorded n (w_store w) j \<or> (j = i \<and> (\<forall>k. \<not> recorded n (w_store w) k))"
      if "recorded n (store_replace r' (w_store w)) j" for n j
      using that new [of n] r by (auto simp: recorded_def store_get_replace i split: if_splits)
    show ?thesis using st old unfolding alerts_once_def alert_state_def by metis
  qed
  ultimately show ?thesis
    using st r same_incidents_trans
    by (auto simp: alert_state_def unused_ids_def no_new_incident_def store_get_replace i)
qed

section \<open>The steps\<close>

lemma find_by_notification_None:
  assumes "find_by_notification n s = None"
  shows "\<not> recorded n s i"
proof
  assume "recorded n s i"
  then obtain r where r: "store_get s i = Some r" "has_notification n r"
    by (auto simp: recorded_def split: option.splits)
  then have "r \<in> set (store_list s)"
    by (force simp: store_list_def store_get_def dest: map_of_SomeD)
  then show False using assms r(2) by (auto simp: find_by_notification_def find_None_iff)
qed

lemma listed_get:
  assumes "store_inv s" "r \<in> set (store_list s)"
  shows "store_get s (inc_incident_id (ir_incident r)) = Some r"
  using assms by (auto simp: store_inv_def store_list_def store_get_def intro!: map_of_is_SomeI)

lemma record_inv_id: "record_inv r \<Longrightarrow> inc_incident_id (ir_incident r) \<noteq> []"
  by (auto simp: record_inv_def wf_record_def nested_entries_wf_def incident_fields_def)

lemma authorize_keeps:
  "keeps (\<lambda>w. w_store w = s \<and> w_uuids w = u) (authorize_alert en al n)"
  unfolding authorize_alert_def Let_def by (intro keeps_intros) simp_all

lemma authorize_alert_Inr:
  assumes "authorize_alert en al n w = (Inr (g, p), w')" "valid_profiles al"
  shows "wf_alert_signal g" "wf_application_profile p"
proof -
  obtain results k x y where g: "normalize n = Inr g" and l: "al_profiles al (w_kube w) = (Inr results, k)"
    and p: "required_profile results x = Inr p"
    using assms(1) unfolding authorize_alert_def Let_def seq_Inr on_kube_Inr lift_result_Inr
    by (auto simp: ret_def)
  show "wf_alert_signal g" using g
    by (auto simp: normalize_def wf_alert_signal_def split: if_splits option.splits)
  have "list_all (\<lambda>l. pred_option wf_application_profile (lr_profile l)) results"
    using assms(2) l unfolding valid_profiles_def by (metis fst_conv old.sum.simps(6))
  with p show "wf_application_profile p"
    by (auto simp: required_profile_def list_all_iff split: option.splits dest!: find_in_set)
qed

definition alert_stored :: "string \<Rightarrow> investigation_record \<Rightarrow> 'k world \<Rightarrow> bool" where
  "alert_stored n r w \<longleftrightarrow> store_get (w_store w) (inc_incident_id (ir_incident r)) = Some r
     \<and> has_notification n r"

lemma audit_wp:
  assumes st: "alert_state en c s0 w" and r: "alert_stored (an_notification_id n) r w"
  shows "wp (ensure_alert_audit en r n)
    (\<lambda>r' w'. alert_state en c s0 w' \<and> alert_stored (an_notification_id n) r' w'
       \<and> alert_audited (an_notification_id n) r')
    (\<lambda>e w'. alert_state en c s0 w') w"
proof (cases "alert_audited (an_notification_id n) r")
  case True
  with assms show ?thesis by (simp add: ensure_alert_audit_def wp_simps)
next
  case False
  let ?i = "inc_incident_id (ir_incident r)"
  define w1 where "w1 = w\<lparr>w_uuids := Suc (w_uuids w), w_readings := Suc (w_readings w)\<rparr>"
  define e where "e = \<lparr>ae_event_id = ''audit-'' @ en_uuid en (w_uuids w), ae_incident_id = ?i,
    ae_event_type = alert_event_type n, ae_occurred_at = en_clock en (w_readings w),
    ae_actor = ''alert-consumer'', ae_details = alert_details n, ae_cursor = 0\<rparr>"
  have run: "wp (ensure_alert_audit en r n) Q E w = wp (on_store (append_audit_event ?i e)) Q E w1" for Q E
    using False by (simp add: ensure_alert_audit_def wp_seq wp_uuid4 wp_now e_def w1_def)
  have st1: "alert_state en c s0 w1"
    by (rule alert_state_counters [OF st]) (simp_all add: w1_def)
  have get: "store_get (w_store w1) ?i = Some r"
    using r by (simp add: alert_stored_def w1_def)
  have inv: "record_inv r" using store_inv_get [OF _ get] st1 by (simp add: alert_state_def)
  have wf: "wf_audit_event e" using record_inv_id [OF inv]
    by (simp add: wf_audit_event_def e_def alert_event_type_def)
  show ?thesis unfolding run append_audit_event_def
  proof (rule wp_store_update)
    fix q r' assume "store_get (w_store w1) ?i = Some q" "append_audit_event_record ?i e q = Inr r'"
    then have op: "append_audit_event_record ?i e r = Inr r'" using get by simp
    then have r': "r' = with_event e r"
      by (simp add: append_audit_event_record_def guarded_Inr)
    have "record_step r r'" using append_audit_event_step [OF inv wf refl op] by simp
    then have "alert_state en c s0 (w1\<lparr>w_store := store_replace r' (w_store w1)\<rparr>)"
      by (rule alert_state_replace [OF st1 get]) (simp_all add: r' with_event_def has_notification_def)
    then show "alert_state en c s0 (w1\<lparr>w_store := store_replace r' (w_store w1)\<rparr>)
        \<and> alert_stored (an_notification_id n) r' (w1\<lparr>w_store := store_replace r' (w_store w1)\<rparr>)
        \<and> alert_audited (an_notification_id n) r'"
      using r by (simp add: alert_stored_def store_get_replace alert_audited_def r' with_event_def
        has_notification_def e_def alert_details_def)
  qed (rule st1)
qed

definition unrecorded :: "string \<Rightarrow> 'k world \<Rightarrow> bool" where
  "unrecorded n w \<longleftrightarrow> (\<forall>i. \<not> recorded n (w_store w) i)"

lemma append_signal_wp:
  assumes st: "alert_state en c s0 w" and new: "unrecorded (se_notification_id e) w"
    and wf: "wf_alert_signal_evidence e"
  shows "wp (on_store (append_alert_signal i e))
    (\<lambda>r w'. alert_state en c s0 w' \<and> alert_stored (se_notification_id e) r w')
    (\<lambda>x w'. alert_state en c s0 w') w"
  unfolding append_alert_signal_def
proof (rule wp_store_update)
  fix r r' assume r: "store_get (w_store w) i = Some r" "append_alert_signal_record i e r = Inr r'"
  have inv: "record_inv r" "inc_incident_id (ir_incident r) = i"
    using store_inv_get [OF _ r(1)] st by (simp_all add: alert_state_def)
  have r': "r' = r\<lparr>ir_alert_signals := ir_alert_signals r @ [e]\<rparr>"
    using r(2) by (simp add: append_alert_signal_record_def guarded_Inr)
  have step: "record_step r r'" using append_alert_signal_step [OF inv(1) wf inv(2) r(2)] by simp
  have "alert_state en c s0 (w\<lparr>w_store := store_replace r' (w_store w)\<rparr>)"
    by (rule alert_state_replace [OF st r(1) step])
      (use new in \<open>auto simp: r' has_notification_def unrecorded_def\<close>)
  then show "alert_state en c s0 (w\<lparr>w_store := store_replace r' (w_store w)\<rparr>)
      \<and> alert_stored (se_notification_id e) r' (w\<lparr>w_store := store_replace r' (w_store w)\<rparr>)"
    by (simp add: alert_stored_def store_get_replace r' has_notification_def)
qed (rule st)

lemma create_wp:
  assumes st: "alert_state en False s0 w" and p: "wf_application_profile p" and new: "unrecorded n w"
  shows "wp (create_incident en p g)
    (\<lambda>r w'. alert_state en False s0 w' \<and> unrecorded n w'
       \<and> store_get (w_store w') (inc_incident_id (ir_incident r)) = Some r)
    (\<lambda>x w'. alert_state en False s0 w') w"
proof -
  let ?h = "\<lambda>k. en_uuid en k"
  define w1 where "w1 = w\<lparr>w_uuids := Suc (Suc (w_uuids w))\<rparr>"
  let ?k = "w_uuids w"
  have run: "wp (create_incident en p g) Q E w =
      wp (on_store (store_create p g (?h ?k) (?h (Suc ?k)))) Q E w1" for Q E
    by (simp add: create_incident_def wp_seq wp_uuid4 w1_def)
  have st1: "alert_state en False s0 w1" by (rule alert_state_counters [OF st]) (simp_all add: w1_def)
  have new1: "unrecorded n w1" using new by (simp add: unrecorded_def w1_def)
  show ?thesis
  proof (cases "create_record p g (?h ?k) (?h (Suc ?k))")
    case (Inl x)
    then show ?thesis unfolding run using st1
      by (simp add: wp_on_store) (simp add: wp_def store_create_def)
  next
    case (Inr r)
    let ?i = "''inc-'' @ ?h ?k"
    define w2 where "w2 = w1\<lparr>w_store := store_replace r (w_store w1)\<rparr>"
    have id: "inc_incident_id (ir_incident r) = ?i" by (rule create_record_id [OF Inr])
    have none: "store_get (w_store w1) ?i = None" using st
      by (simp add: alert_state_def unused_ids_def w1_def)
    have sig: "ir_alert_signals r = []" using Inr unfolding create_record_def Let_def
      by (auto simp: guarded_Inr new_record_def split: if_splits option.splits)
    have other: "''inc-'' @ ?h m \<noteq> ?i" if "Suc (Suc ?k) \<le> m" for m
      using st that by (auto simp: alert_state_def unused_ids_def inj_eq)
    have rec: "recorded m (w_store w2) j \<longleftrightarrow> recorded m (w_store w1) j" for m j
      using none by (simp add: recorded_def w2_def store_get_replace id sig has_notification_def)
    have "same_incidents s0 (w_store w2)" unfolding same_incidents_def
    proof (intro allI impI)
      fix j q assume "store_get s0 j = Some q"
      then obtain q' where "store_get (w_store w1) j = Some q'" "record_extends q q'"
        "ir_incident q' = ir_incident q" using st1 by (auto simp: alert_state_def same_incidents_def)
      then show "\<exists>q'. store_get (w_store w2) j = Some q' \<and> record_extends q q'
          \<and> ir_incident q' = ir_incident q"
        using none by (auto simp: w2_def store_get_replace id)
    qed
    moreover have "unused_ids en w2"
      using st1 other by (auto simp: alert_state_def unused_ids_def w2_def w1_def store_get_replace id)
    moreover have "store_inv (w_store w2)" "alerts_once (w_store w2)"
      using st1 store_inv_replace create_record_inv [OF p Inr]
      by (auto simp: alert_state_def alerts_once_def rec) (simp add: w2_def store_inv_replace)
    ultimately have "alert_state en False s0 w2" by (simp add: alert_state_def)
    moreover have "unrecorded n w2" using new1 by (simp add: unrecorded_def rec)
    moreover have "on_store (store_create p g (?h ?k) (?h (Suc ?k))) w1 = (Inr r, w2)"
      by (simp add: on_store_Inr store_create_def Inr w2_def)
    ultimately show ?thesis unfolding run by (simp add: wp_def w2_def store_get_replace)
  qed
qed

lemma correlate_wp:
  assumes st: "alert_state en (an_state n = State_Closed) s0 w" and p: "wf_application_profile p"
    and new: "unrecorded m w"
  shows "wp (correlate_alert en al n g p)
    (\<lambda>r w'. alert_state en (an_state n = State_Closed) s0 w' \<and> unrecorded m w'
       \<and> store_get (w_store w') (inc_incident_id (ir_incident r)) = Some r)
    (\<lambda>x w'. alert_state en (an_state n = State_Closed) s0 w') w"
proof (cases "find_correlated (al_correlation_window al) p n (w_store w)")
  case (Some r)
  then have "r \<in> set (store_list (w_store w))"
    by (auto simp: find_correlated_def dest!: find_in_set)
  then have "store_get (w_store w) (inc_incident_id (ir_incident r)) = Some r"
    using listed_get st by (auto simp: alert_state_def)
  with Some st new show ?thesis by (simp add: correlate_alert_def wp_simps)
next
  case None
  then show ?thesis using st new create_wp [OF _ p new, of en s0 g]
    by (cases "an_state n = State_Closed") (simp_all add: correlate_alert_def wp_simps)
qed

lemma wp_run: "m w = (r, w') \<Longrightarrow> wp m Q E w \<longleftrightarrow> (case r of Inl e \<Rightarrow> E e w' | Inr a \<Rightarrow> Q a w')"
  by (simp add: wp_def)

lemma found_by_notification:
  assumes "find_by_notification n s = Some r" "store_inv s"
  shows "store_get s (inc_incident_id (ir_incident r)) = Some r" "has_notification n r"
  using assms listed_get by (auto simp: find_by_notification_def dest!: find_in_set)

lemma persist_wp:
  assumes st: "alert_state en (an_state n = State_Closed) s0 w" and al: "valid_profiles al"
  shows "wp (persist_alert en al n)
    (\<lambda>r w'. alert_state en (an_state n = State_Closed) s0 w'
       \<and> alert_stored (an_notification_id n) r w' \<and> alert_audited (an_notification_id n) r)
    (\<lambda>x w'. alert_state en (an_state n = State_Closed) s0 w') w"
    (is "wp _ ?Q ?E w")
proof (cases "authorize_alert en al n w")
  case (Pair res w1)
  have "w_store w1 = w_store w \<and> w_uuids w1 = w_uuids w"
    using keepsD [OF authorize_keeps [of "w_store w" "w_uuids w" en al n], of w] Pair by simp
  then have st1: "alert_state en (an_state n = State_Closed) s0 w1"
    using alert_state_counters [OF st] by simp
  show ?thesis
  proof (cases res)
    case (Inl x)
    then show ?thesis using Pair st1 by (simp add: persist_alert_def wp_seq wp_run)
  next
    case (Inr gp)
    obtain g p where gp: "gp = (g, p)" by fastforce
    note auth = authorize_alert_Inr [OF Pair [unfolded Inr gp] al]
    have "wp (persist_alert en al n) ?Q ?E w =
      (case find_by_notification (an_notification_id n) (w_store w1) of
         Some r \<Rightarrow> wp (ensure_alert_audit en r n) ?Q ?E w1
       | None \<Rightarrow> wp (correlate_alert en al n g p)
           (\<lambda>r. wp (record_signal en n g r) (\<lambda>r'. wp (ensure_alert_audit en r' n) ?Q ?E) ?E) ?E w1)"
      using Pair Inr gp by (simp add: persist_alert_def wp_seq wp_run wp_gets split: option.split)
    moreover have "wp (ensure_alert_audit en r n) ?Q ?E w1"
      if "find_by_notification (an_notification_id n) (w_store w1) = Some r" for r
      by (rule audit_wp [OF st1]) (use found_by_notification [OF that] st1 in
        \<open>simp add: alert_stored_def alert_state_def\<close>)
    moreover have "wp (correlate_alert en al n g p)
           (\<lambda>r. wp (record_signal en n g r) (\<lambda>r'. wp (ensure_alert_audit en r' n) ?Q ?E) ?E) ?E w1"
      if none: "find_by_notification (an_notification_id n) (w_store w1) = None"
    proof (rule wp_mono [OF correlate_wp [OF st1 auth(2), where m = "an_notification_id n"]])
      show "unrecorded (an_notification_id n) w1"
        using find_by_notification_None [OF none] by (simp add: unrecorded_def)
      fix r w2 assume r: "alert_state en (an_state n = State_Closed) s0 w2
        \<and> unrecorded (an_notification_id n) w2
        \<and> store_get (w_store w2) (inc_incident_id (ir_incident r)) = Some r"
      define w3 where "w3 = w2\<lparr>w_readings := Suc (w_readings w2)\<rparr>"
      define e where "e = \<lparr>se_notification_id = an_notification_id n,
        se_incident_id = inc_incident_id (ir_incident r), se_signal = g,
        se_provider_state = an_state n, se_received_at = en_clock en (w_readings w2)\<rparr>"
      have st3: "alert_state en (an_state n = State_Closed) s0 w3"
        by (rule alert_state_counters [of en _ s0 w2]) (use r in \<open>simp_all add: w3_def\<close>)
      have "record_inv r" using store_inv_get r by (fastforce simp: alert_state_def)
      then have wf: "wf_alert_signal_evidence e" using auth(1) record_inv_id Pair Inr gp
        by (auto simp: wf_alert_signal_evidence_def e_def authorize_alert_def seq_Inr lift_result_Inr
          normalize_def alert_signal_fields_def signal_of_def split: if_splits)
      have "wp (record_signal en n g r) (\<lambda>r'. wp (ensure_alert_audit en r' n) ?Q ?E) ?E w2 = wp (on_store (append_alert_signal (inc_incident_id (ir_incident r)) e))
          (\<lambda>r'. wp (ensure_alert_audit en r' n) ?Q ?E) ?E w3"
        by (simp add: record_signal_def wp_seq wp_now w3_def e_def)
      moreover have "\<dots>"
      proof (rule wp_mono [OF append_signal_wp [OF st3 _ wf]])
        show "unrecorded (se_notification_id e) w3" using r by (simp add: unrecorded_def w3_def e_def)
        fix r' w4 assume "alert_state en (an_state n = State_Closed) s0 w4
          \<and> alert_stored (se_notification_id e) r' w4"
        then show "wp (ensure_alert_audit en r' n) ?Q ?E w4"
          by (intro audit_wp) (simp_all add: e_def)
      qed
      ultimately show "wp (record_signal en n g r) (\<lambda>r'. wp (ensure_alert_audit en r' n) ?Q ?E) ?E w2" by simp
    qed
    ultimately show ?thesis by (simp split: option.split)
  qed
qed

lemma consume_cases:
  assumes "consume_alert en al acknowledge n (w, m) = (res, (w', m'))"
  obtains (raised) x where "persist_alert en al n w = (Inl x, w')" "res = Inl x" "m' = m"
  | (stored) r a where "persist_alert en al n w = (Inr r, w')" "acknowledge m = (a, m')"
      "res = (case a of Inl x \<Rightarrow> Inl x | Inr _ \<Rightarrow> Inr r)"
proof (cases "persist_alert en al n w")
  case (Pair p w1)
  then show ?thesis using assms raised stored
    by (cases p; cases "acknowledge m")
      (auto simp: consume_alert_def seq_def on_part_def ret_def split: sum.splits)
qed

lemma consume_state:
  assumes "alert_state en (an_state n = State_Closed) s0 w" "valid_profiles al"
    and "consume_alert en al acknowledge n (w, m) = (res, (w', m'))"
  shows "alert_state en (an_state n = State_Closed) s0 w'"
  using assms(3)
proof (cases rule: consume_cases)
  case (raised x)
  with persist_wp [OF assms(1,2)] show ?thesis by (simp add: wp_run)
next
  case (stored r a)
  with persist_wp [OF assms(1,2)] show ?thesis by (simp add: wp_run)
qed

lemma alert_state_then:
  assumes "alert_state en c s0 w" "alert_state en d (w_store w) w'"
  shows "alert_state en (c \<and> d) s0 w'"
  using assms same_incidents_trans [of s0 "w_store w" "w_store w'"]
  by (auto simp: alert_state_def no_new_incident_def)

lemma deliver_state:
  assumes "alert_state en c s0 w" "valid_profiles al"
  shows "alert_state en (c \<and> an_state n = State_Closed) s0 (deliver_alert en al n w)"
proof (rule alert_state_then [OF assms(1)])
  have "alert_state en (an_state n = State_Closed) (w_store w) w"
    using assms(1) by (intro alert_state_start) (simp_all add: alert_state_def)
  then show "alert_state en (an_state n = State_Closed) (w_store w) (deliver_alert en al n w)"
    unfolding deliver_alert_def using consume_state [OF _ assms(2)] by (metis prod.collapse)
qed

text \<open>
  An incident that was created without its signal (the process stopped between \<open>create\<close> and
  \<open>append_alert_signal\<close>) is never found again, so a redelivery opens a second one.
\<close>

lemma orphaned_incident_is_never_correlated:
  assumes "list_all (\<lambda>(i, r). ir_alert_signals r = []) s"
  shows "find_by_notification n s = None \<and> find_correlated d p m s = None"
  using assms by (auto simp: find_by_notification_def find_correlated_def find_None_iff store_list_def
    list_all_iff has_notification_def correlates_def split: option.splits)

section \<open>The properties\<close>

text \<open>C25. Alerts are recorded once, however often they are delivered. Any sequence of deliveries,
  redeliveries included and each of them accepted or refused, leaves the store valid and every
  notification in at most one incident; it keeps every record as an extension of what it was and
  never changes the state of an incident; and provider closures alone create no incident.\<close>

theorem alerts_are_recorded_once:
  assumes "store_inv (w_store w)" "alerts_once (w_store w)" "unused_ids en w" "valid_profiles al"
  shows "store_inv (w_store (fold (deliver_alert en al) ns w))
    \<and> alerts_once (w_store (fold (deliver_alert en al) ns w))
    \<and> same_incidents (w_store w) (w_store (fold (deliver_alert en al) ns w))
    \<and> (list_all (\<lambda>n. an_state n = State_Closed) ns \<longrightarrow>
         no_new_incident (w_store w) (w_store (fold (deliver_alert en al) ns w)))"
proof -
  have "alert_state en (c \<and> list_all (\<lambda>n. an_state n = State_Closed) ns) s0
      (fold (deliver_alert en al) ns v)" if "alert_state en c s0 v" for c s0 v
    using that
  proof (induction ns arbitrary: v c)
    case (Cons n ns)
    from Cons.IH [OF deliver_state [OF Cons.prems assms(4)]] show ?case by (simp add: conj_assoc)
  qed simp
  from this [OF alert_state_start [OF assms(1-3), of True]] show ?thesis
    by (auto simp: alert_state_def)
qed

definition alert_environment :: "unit environment" where
  "alert_environment = \<lparr>en_clock = (\<lambda>n. minutes (61 + int n)), en_uuid = (\<lambda>n. ''u'' @ nat_str n),
     en_digest = sample_digest, en_inspect = (\<lambda>_. ret None),
     en_dry_run = (\<lambda>_. raise (RuntimeError ''no cluster'')),
     en_apply = (\<lambda>_. raise (RuntimeError ''no cluster'')),
     en_verify = (\<lambda>_ _. raise (RuntimeError ''no cluster'')),
     en_enrollment = (\<lambda>p. ret (ready_for p))\<rparr>"

definition sample_alerts :: "unit alert_services" where
  "sample_alerts = \<lparr>al_profiles = ret [\<lparr>lr_source = ''configmap'', lr_application_id = Some ''shop'',
     lr_profile = Some sample_profile, lr_errors = []\<rparr>], al_correlation_window = minutes 15\<rparr>"

definition quiet_world :: "unit world" where
  "quiet_world = \<lparr>w_store = [], w_leases = [], w_queue = [], w_kube = (), w_readings = 0, w_uuids = 0\<rparr>"

definition sample_notification :: "string \<Rightarrow> provider_state \<Rightarrow> alert_notification" where
  "sample_notification n state = (notification_from_signal sample_signal state)\<lparr>an_notification_id := n\<rparr>"

definition sample_deliveries :: "alert_notification list" where
  "sample_deliveries = [sample_notification ''n0'' State_Closed, sample_notification ''n1'' State_Open,
     sample_notification ''n1'' State_Open, sample_notification ''n2'' State_Closed]"

lemma quiet_world_start:
  "store_inv (w_store quiet_world)" "alerts_once (w_store quiet_world)"
  "unused_ids alert_environment quiet_world" "valid_profiles sample_alerts"
  by (simp_all add: quiet_world_def alerts_once_def recorded_def store_get_def unused_ids_def inj_def
    alert_environment_def nat_str_inj valid_profiles_def sample_alerts_def ret_def sample_profile_wf)

definition delivered_world :: "unit world" where
  "delivered_world = fold (deliver_alert alert_environment sample_alerts) sample_deliveries quiet_world"

lemma delivered_one_incident:
  "map (\<lambda>(i, r). (i, map se_notification_id (ir_alert_signals r))) (w_store delivered_world)
     = [(''inc-u0'', [''n1'', ''n2''])]"
  by code_simp

theorem alerts_are_recorded_once_witness:
  "alerts_once (w_store delivered_world) \<and> store_inv (w_store delivered_world)
   \<and> map (\<lambda>(i, r). (i, map se_notification_id (ir_alert_signals r))) (w_store delivered_world)
       = [(''inc-u0'', [''n1'', ''n2''])]"
  using alerts_are_recorded_once [OF quiet_world_start, of sample_deliveries] delivered_one_incident
  by (simp add: delivered_world_def)

text \<open>An alert is acknowledged only after it is durable. When the consumer returned, or the state
  behind the message changed (so \<open>acknowledge\<close> ran, whether it raised or not), the store holds a
  record with the notification's signal and an audit event that names it; the record returned is
  that one.\<close>

lemma acknowledged_alerts_are_durable:
  assumes "store_inv (w_store w)" "alerts_once (w_store w)" "unused_ids en w" "valid_profiles al"
    and "consume_alert en al acknowledge n (w, m) = (res, (w', m'))"
    and "m' \<noteq> m \<or> \<not> is_error res"
  shows "\<exists>r. store_get (w_store w') (inc_incident_id (ir_incident r)) = Some r
    \<and> has_notification (an_notification_id n) r \<and> alert_audited (an_notification_id n) r
    \<and> (is_error res \<or> res = Inr r)"
  using assms(5)
proof (cases rule: consume_cases)
  case (raised x)
  with assms(6) show ?thesis by simp
next
  case (stored r a)
  with persist_wp [OF alert_state_start [OF assms(1-3)] assms(4), of n] show ?thesis
    by (cases a) (auto simp: wp_run alert_stored_def)
qed

lemma acknowledged_alerts_are_durable_witness:
  "\<exists>r. store_get (w_store (fst (snd (consume_alert alert_environment sample_alerts flag_acknowledged
      (sample_notification ''n1'' State_Open) (quiet_world, False))))) (inc_incident_id (ir_incident r)) = Some r
    \<and> has_notification ''n1'' r \<and> alert_audited ''n1'' r"
proof -
  let ?run = "consume_alert alert_environment sample_alerts flag_acknowledged
      (sample_notification ''n1'' State_Open) (quiet_world, False)"
  have "?run = (fst ?run, (fst (snd ?run), snd (snd ?run)))" by simp
  moreover have "snd (snd ?run) \<noteq> False \<or> \<not> is_error (fst ?run)" by code_simp
  ultimately show ?thesis
    using acknowledged_alerts_are_durable [OF quiet_world_start, of flag_acknowledged
      "sample_notification ''n1'' State_Open" False "fst ?run" "fst (snd ?run)" "snd (snd ?run)"]
    by (auto simp: sample_notification_def)
qed

text \<open>Redelivery is idempotent. Once the consumer returned a record for a notification, consuming
  the same notification again on the same store, by any process with any providers, does not
  change the store, and it can only return that same record.\<close>

theorem redelivered_alerts_change_nothing:
  assumes "store_inv (w_store w)" "alerts_once (w_store w)" "unused_ids en w" "valid_profiles al"
    and first: "consume_alert en al acknowledge n (w, m) = (Inr r, (w1, m1))"
    and store: "w_store w2 = w_store w1"
    and again: "consume_alert en' al' acknowledge' n (w2, m2) = (res, (w3, m3))"
  shows "w_store w3 = w_store w1 \<and> (is_error res \<or> res = Inr r)"
proof -
  have "persist_alert en al n w = (Inr r, w1)" using first
    by (cases rule: consume_cases) (auto split: sum.splits)
  with persist_wp [OF alert_state_start [OF assms(1-3)] assms(4), of n]
  have r: "alert_state en (an_state n = State_Closed) (w_store w) w1"
    "alert_stored (an_notification_id n) r w1" "alert_audited (an_notification_id n) r"
    by (simp_all add: wp_run)
  have found: "find_by_notification (an_notification_id n) (w_store w1) = Some r"
  proof (cases "find_by_notification (an_notification_id n) (w_store w1)")
    case None
    then show ?thesis using find_by_notification_None [OF None, of "inc_incident_id (ir_incident r)"] r(2)
      by (simp add: alert_stored_def recorded_def)
  next
    case (Some q)
    then have q: "alert_stored (an_notification_id n) q w1"
      using found_by_notification r(1) by (simp add: alert_stored_def alert_state_def)
    then have "inc_incident_id (ir_incident q) = inc_incident_id (ir_incident r)"
      using r(1,2) by (force simp: alert_state_def alerts_once_def alert_stored_def recorded_def)
    with q r(2) Some show ?thesis by (simp add: alert_stored_def)
  qed
  have run: "w_store v = w_store w1 \<and> (is_error p \<or> p = Inr r)"
    if "persist_alert en' al' n w2 = (p, v)" for p v
  proof (cases "authorize_alert en' al' n w2")
    case (Pair x u)
    then have "w_store u = w_store w1"
      using keepsD [OF authorize_keeps [of "w_store w2" "w_uuids w2" en' al' n], of w2] store by simp
    with Pair that found r(3) show ?thesis
      by (cases x) (auto simp: persist_alert_def seq_def gets_def ensure_alert_audit_def ret_def)
  qed
  from again show ?thesis
  proof (cases rule: consume_cases)
    case (raised x)
    with run show ?thesis by blast
  next
    case (stored q a)
    with run [OF stored(1)] show ?thesis by (cases a) auto
  qed
qed

theorem redelivered_alerts_change_nothing_witness:
  "w_store (deliver_alert alert_environment sample_alerts (sample_notification ''n1'' State_Open)
       (deliver_alert alert_environment sample_alerts (sample_notification ''n1'' State_Open) quiet_world))
   = w_store (deliver_alert alert_environment sample_alerts (sample_notification ''n1'' State_Open) quiet_world)"
proof -
  let ?n = "sample_notification ''n1'' State_Open"
  let ?run = "consume_alert alert_environment sample_alerts flag_acknowledged ?n (quiet_world, False)"
  let ?w = "deliver_alert alert_environment sample_alerts ?n quiet_world"
  let ?again = "consume_alert alert_environment sample_alerts flag_acknowledged ?n (?w, False)"
  have "\<not> is_error (fst ?run)" by code_simp
  then obtain r where "fst ?run = Inr r" by (auto simp: not_error)
  then have first: "?run = (Inr r, (?w, snd (snd ?run)))" by (simp add: deliver_alert_def prod_eq_iff)
  have again: "?again = (fst ?again, (fst (snd ?again), snd (snd ?again)))" by simp
  from redelivered_alerts_change_nothing [OF quiet_world_start first refl again]
  show ?thesis by (simp add: deliver_alert_def)
qed

end
