(* ===== verification/Redaction.thy ===== *)
theory Redaction
  imports Prelude
begin

text \<open>
  \<open>DeterministicEvidenceRedactor\<close> of \<open>services/evidence.py\<close>. Its regular expression is written as a
  scanner: \<open>sensitive s\<close> is what is left of \<open>s\<close> after a match at its start. Every quantifier of the
  expression is greedy and followed by something its class excludes, so the greedy choice is the
  only one that can match, with one exception that \<open>authorization_value\<close> handles: when only white
  space is left before a delimiter, the engine gives the last space back to the value.
  \<open>redact_text\<close> is \<open>re.sub\<close>: leftmost, non-overlapping. Strings hold characters up to U+00FF.
\<close>

section \<open>Characters\<close>

definition white_space :: "char \<Rightarrow> bool" where
  "white_space c \<longleftrightarrow> c \<in> {CHR '' '', CHR 0x09, CHR 0x0A, CHR 0x0B, CHR 0x0C, CHR 0x0D,
     CHR 0x1C, CHR 0x1D, CHR 0x1E, CHR 0x1F, CHR 0x85, CHR 0xA0}"

definition double_quote :: char where "double_quote = CHR 0x22"
definition single_quote :: char where "single_quote = CHR 0x27"

definition is_quote :: "char \<Rightarrow> bool" where
  "is_quote c \<longleftrightarrow> c = double_quote \<or> c = single_quote"

definition delimiter :: "char \<Rightarrow> bool" where
  "delimiter c \<longleftrightarrow> c \<in> {CHR '','', CHR '';'', CHR ''}'', CHR '']''}"

text \<open>ASCII upper case folded to lower case, for the flag \<open>i\<close>.\<close>

definition fold_case :: "char \<Rightarrow> char" where
  "fold_case c = (if of_char c \<in> {65 .. 90 :: nat} then char_of (of_char c + 32 :: nat) else c)"

section \<open>The expression\<close>

fun strip_word :: "string \<Rightarrow> string \<Rightarrow> string option" where
  "strip_word [] s = Some s"
| "strip_word (k # ks) [] = None"
| "strip_word (k # ks) (c # s) = (if fold_case c = k then strip_word ks s else None)"

fun strip_any :: "string list \<Rightarrow> string \<Rightarrow> string option" where
  "strip_any [] s = None"
| "strip_any (k # ks) s = (case strip_word k s of Some r \<Rightarrow> Some r | None \<Rightarrow> strip_any ks s)"

fun skip_quote :: "string \<Rightarrow> string" where
  "skip_quote [] = []"
| "skip_quote (c # s) = (if is_quote c then s else c # s)"

text \<open>\<open>["']?keyword["']?\s*[seps]\s*\<close>\<close>

fun after_separator :: "char list \<Rightarrow> string \<Rightarrow> string option" where
  "after_separator seps [] = None"
| "after_separator seps (c # s) = (if c \<in> set seps then Some s else None)"

definition header :: "string list \<Rightarrow> char list \<Rightarrow> string \<Rightarrow> string option" where
  "header keywords seps s =
    (case strip_any keywords (skip_quote s) of
       None \<Rightarrow> None
     | Some r \<Rightarrow> after_separator seps (dropWhile white_space (skip_quote r)))"

text \<open>\<open>"[^"]*"|'[^']*'\<close>\<close>

definition quoted :: "string \<Rightarrow> string option" where
  "quoted s = (case s of [] \<Rightarrow> None
     | c # r \<Rightarrow> if is_quote c \<and> c \<in> set r then Some (tl (dropWhile (\<lambda>d. d \<noteq> c) r)) else None)"

definition plain :: "(char \<Rightarrow> bool) \<Rightarrow> string \<Rightarrow> string option" where
  "plain stop s = (case s of [] \<Rightarrow> None
     | c # r \<Rightarrow> if stop c then None else Some (dropWhile (\<lambda>d. \<not> stop d) s))"

definition value_end :: "(char \<Rightarrow> bool) \<Rightarrow> string \<Rightarrow> string option" where
  "value_end stop s = (case quoted s of Some r \<Rightarrow> Some r | None \<Rightarrow> plain stop s)"

definition secret_value :: "string \<Rightarrow> string option" where
  "secret_value s = value_end (\<lambda>c. white_space c \<or> delimiter c) (dropWhile white_space s)"

definition authorization_value :: "string \<Rightarrow> string option" where
  "authorization_value s =
    (let r = dropWhile white_space s in
     case value_end delimiter r of
       Some t \<Rightarrow> Some t
     | None \<Rightarrow> if length r < length s then Some r else None)"

definition secret_keywords :: "string list" where
  "secret_keywords = [''token'', ''password'', ''secret'', ''api_key'', ''api-key'', ''apikey'']"

definition sensitive :: "string \<Rightarrow> string option" where
  "sensitive s =
    (case (case header secret_keywords [CHR '':'', CHR ''=''] s of
             None \<Rightarrow> None | Some r \<Rightarrow> secret_value r) of
       Some t \<Rightarrow> Some t
     | None \<Rightarrow> (case header [''authorization''] [CHR '':''] s of
           None \<Rightarrow> None | Some r \<Rightarrow> authorization_value r))"

section \<open>A match consumes input\<close>

lemma strip_word_length: "strip_word k s = Some r \<Longrightarrow> length r + length k = length s"
  by (induction k s rule: strip_word.induct) (auto split: if_splits)

lemma strip_any_length: "strip_any ks s = Some r \<Longrightarrow> length r \<le> length s"
  by (induction ks s rule: strip_any.induct) (auto dest: strip_word_length split: option.splits)

lemma skip_quote_length: "length (skip_quote s) \<le> length s"
  by (cases s) auto

lemma dropWhile_length: "length (dropWhile P s) \<le> length s"
  by (induction s) auto

lemma after_separator_length: "after_separator seps s = Some r \<Longrightarrow> length r < length s"
  by (cases s) (auto split: if_splits)

lemma header_length: "header ks seps s = Some r \<Longrightarrow> length r < length s"
  unfolding header_def
  by (auto split: option.splits dest!: after_separator_length strip_any_length)
    (meson dropWhile_length le_less_trans less_le_trans skip_quote_length)

lemma quoted_length: "quoted s = Some r \<Longrightarrow> length r \<le> length s"
  using dropWhile_length [of _ "tl s"]
  by (auto simp: quoted_def split: list.splits if_splits) (meson diff_le_self le_SucI le_trans)

lemma plain_length: "plain stop s = Some r \<Longrightarrow> length r \<le> length s"
  by (cases s) (auto simp: plain_def dropWhile_length le_SucI split: if_splits)

lemma value_end_length: "value_end stop s = Some r \<Longrightarrow> length r \<le> length s"
  using quoted_length [of s r] plain_length [of stop s r]
  by (auto simp: value_end_def split: option.splits)

lemma sensitive_length: "sensitive s = Some r \<Longrightarrow> length r < length s"
proof -
  have secret: "length t < length s" if "header ks seps s = Some u" "secret_value u = Some t" for ks seps u t
    using header_length [OF that(1)] value_end_length that(2) dropWhile_length [of white_space u]
    by (fastforce simp: secret_value_def)
  have auth: "length t < length s"
    if "header ks seps s = Some u" "authorization_value u = Some t" for ks seps u t
    using header_length [OF that(1)] value_end_length that(2) dropWhile_length [of white_space u]
    by (fastforce simp: authorization_value_def Let_def split: option.splits if_splits)
  assume "sensitive s = Some r"
  then show ?thesis by (auto simp: sensitive_def split: option.splits intro: secret auth)
qed

section \<open>Substitution\<close>

function redact_text :: "string \<Rightarrow> string" where
  "redact_text s = (case s of
     [] \<Rightarrow> []
   | c # cs \<Rightarrow> (case sensitive s of
       Some rest \<Rightarrow> ''<redacted>'' @ redact_text rest
     | None \<Rightarrow> c # redact_text cs))"
  by pat_completeness auto
termination by (relation "measure length") (auto dest: sensitive_length)

declare redact_text.simps [simp del]

lemma redact_text_Nil [simp]: "redact_text [] = []"
  by (simp add: redact_text.simps)

lemma redact_text_Cons:
  "redact_text (c # cs) = (case sensitive (c # cs) of
     Some rest \<Rightarrow> ''<redacted>'' @ redact_text rest | None \<Rightarrow> c # redact_text cs)"
  by (simp add: redact_text.simps)

text \<open>\<open>redact\<close>, with the marker that makes the fake fail.\<close>

definition contains :: "string \<Rightarrow> string \<Rightarrow> bool" where
  "contains needle s \<longleftrightarrow> list_ex (\<lambda>n. take (length needle) (drop n s) = needle) [0 ..< Suc (length s)]"

definition redact :: "string option \<Rightarrow> string \<Rightarrow> pyexn + string" where
  "redact fail_for content =
    (if pred_option (\<lambda>m. contains m content) fail_for \<and> fail_for \<noteq> None
     then Inl (EvidenceRedactionError ''redaction could not safely process provider content'')
     else Inr (redact_text content))"

end
