(* ===== verification/Evidence.thy ===== *)
theory Evidence
  imports Store_Client Redaction
begin

text \<open>
  The deterministic collection of the initial evidence window
  (\<open>InitialEvidenceWindowCollector\<close> of \<open>services/evidence.py\<close>). The evidence provider acts on the
  cluster state and may return or raise anything; the redactor is a function that may raise.
  Observations it returns are validated \<open>RawEvidenceObservation\<close>s (\<open>wf_raw_evidence\<close>).
\<close>

section \<open>Raw observations\<close>

record raw_evidence =
  re_source :: evidence_source
  re_kind :: evidence_query_kind
  re_scope :: workload_reference
  re_content :: string
  re_provider_reference :: string
  re_observed_at :: "datetime option"
  re_item_count :: int
  re_metric_series :: "string list"

definition raw_evidence_fields :: "raw_evidence \<Rightarrow> bool" where
  "raw_evidence_fields o' \<longleftrightarrow> workload_reference_fields (re_scope o')
     \<and> int (length (re_content o')) \<le> 100000 \<and> re_provider_reference o' \<noteq> []
     \<and> 1 \<le> re_item_count o'"

definition raw_evidence_problem :: "raw_evidence \<Rightarrow> string option" where
  "raw_evidence_problem o' =
    (if re_kind o' = METRICS then first_problem
      [(re_metric_series o' = [], ''metric evidence must provide structured metric series''),
       (re_content o' \<noteq> [], ''metric evidence cannot include an unstructured content payload''),
       (re_item_count o' \<noteq> int (length (re_metric_series o')),
        ''metric evidence item count must match its structured metric series'')]
     else first_problem
      [(re_content o' = [], ''non-metric evidence requires content''),
       (re_metric_series o' \<noteq> [], ''only metric evidence can include metric series'')])"

definition wf_raw_evidence :: "raw_evidence \<Rightarrow> bool" where
  "wf_raw_evidence o' \<longleftrightarrow> raw_evidence_fields o' \<and> raw_evidence_problem o' = None"

definition validate_raw_evidence :: "raw_evidence \<Rightarrow> pyexn + raw_evidence" where
  "validate_raw_evidence o' =
    (if \<not> raw_evidence_fields o' then Inl (ValidationError ''RawEvidenceObservation'' ''invalid field'')
     else (case raw_evidence_problem o' of
         Some m \<Rightarrow> Inl (ValidationError ''RawEvidenceObservation'' m)
       | None \<Rightarrow> Inr o'))"

section \<open>Bounding the content\<close>

definition line_end :: "char \<Rightarrow> bool" where
  "line_end c \<longleftrightarrow> c \<in> {CHR 0x0A, CHR 0x0B, CHR 0x0C, CHR 0x0D, CHR 0x1C, CHR 0x1D, CHR 0x1E, CHR 0x85}"

text \<open>\<open>str.splitlines\<close>: \<open>cr\<close> says that the last character ended a line with a carriage return.\<close>

fun split_from :: "string \<Rightarrow> bool \<Rightarrow> string \<Rightarrow> string list" where
  "split_from acc cr [] = (if acc = [] then [] else [rev acc])"
| "split_from acc cr (c # s) =
    (if cr \<and> c = CHR 0x0A then split_from acc False s
     else if line_end c then rev acc # split_from [] (c = CHR 0x0D) s
     else split_from (c # acc) False s)"

definition splitlines :: "string \<Rightarrow> string list" where
  "splitlines s = split_from [] False s"

definition newline :: string where
  "newline = [CHR 0x0A]"

definition maximum_evidence_excerpt_characters :: nat where
  "maximum_evidence_excerpt_characters = 10000"

definition cut_excerpt :: "string \<Rightarrow> bool \<Rightarrow> string \<times> bool" where
  "cut_excerpt content truncated =
    (if length content > maximum_evidence_excerpt_characters
     then (take maximum_evidence_excerpt_characters content, True) else (content, truncated))"

definition bound_content :: "evidence_budget \<Rightarrow> raw_evidence \<Rightarrow> string \<times> bool" where
  "bound_content b o' =
    (if re_kind o' = POD_LOGS then
       (let lines = splitlines (re_content o'); bounded = take (nat (eb_maximum_log_lines b)) lines
        in cut_excerpt (join newline bounded) (length lines > length bounded))
     else if re_kind o' = METRICS then
       (let bounded = take (nat (eb_maximum_metric_series b)) (re_metric_series o')
        in cut_excerpt (join newline bounded) (length (re_metric_series o') > length bounded))
     else cut_excerpt (re_content o') False)"

section \<open>Scope and mapping\<close>

definition observed_at :: "evidence_window \<Rightarrow> raw_evidence \<Rightarrow> datetime" where
  "observed_at window o' = case_option (ew_ended_at window) id (re_observed_at o')"

definition in_window :: "evidence_window \<Rightarrow> datetime \<Rightarrow> bool" where
  "in_window window t \<longleftrightarrow> ew_started_at window \<le> t \<and> t \<le> ew_ended_at window"

definition validate_scope_and_mapping ::
  "application_profile \<Rightarrow> evidence_window \<Rightarrow> workload_reference \<Rightarrow> raw_evidence
     \<Rightarrow> pyexn + evidence_mapping" where
  "validate_scope_and_mapping profile window expected_scope o' = guarded
    [(re_scope o' \<noteq> expected_scope, ''evidence scope does not match the Incident target''),
     (\<not> in_window window (observed_at window o'),
      ''evidence observation falls outside the immutable evidence window'')]
    (case List.find (\<lambda>m. em_source m = re_source o' \<and> em_kind m = re_kind o'
            \<and> em_scope m = expected_scope) (ap_evidence_mappings profile) of
       None \<Rightarrow> Inl (ValueError ''evidence query is not allowlisted by the application profile'')
     | Some m \<Rightarrow> Inr m)"

section \<open>Recording\<close>

definition validate_observation :: "evidence_observation \<Rightarrow> pyexn + evidence_observation" where
  "validate_observation e = (if wf_evidence_observation e then Inr e
     else Inl (ValidationError ''EvidenceObservation'' ''invalid field''))"

definition append_provider_failure ::
  "'k environment \<Rightarrow> string \<Rightarrow> string \<Rightarrow> ('k world, unit) act" where
  "append_provider_failure en incident_id message =
    seq (uuid4 en) (\<lambda>u. seq (now_act en) (\<lambda>t.
    seq (on_store (append_evidence_retrieval_failure incident_id
      \<lparr>ef_failure_id = ''evidence-failure-'' @ u, ef_incident_id = incident_id, ef_source = None,
       ef_query = None, ef_scope = None, ef_occurred_at = t, ef_message = message\<rparr>)) (\<lambda>_. ret ())))"

definition append_failure ::
  "'k environment \<Rightarrow> string \<Rightarrow> raw_evidence \<Rightarrow> string \<Rightarrow> ('k world, unit) act" where
  "append_failure en incident_id o' message =
    seq (uuid4 en) (\<lambda>u. seq (now_act en) (\<lambda>t.
    seq (on_store (append_evidence_retrieval_failure incident_id
      \<lparr>ef_failure_id = ''evidence-failure-'' @ u, ef_incident_id = incident_id,
       ef_source = Some (re_source o'), ef_query = Some (re_kind o'), ef_scope = Some (re_scope o'),
       ef_occurred_at = t, ef_message = message\<rparr>)) (\<lambda>_. ret ())))"

definition observation_of ::
  "digest \<Rightarrow> string \<Rightarrow> string \<Rightarrow> evidence_window \<Rightarrow> evidence_mapping \<Rightarrow> raw_evidence
     \<Rightarrow> string \<times> bool \<Rightarrow> string \<Rightarrow> string \<Rightarrow> evidence_observation" where
  "observation_of g evidence_id incident_id window m o' bounded excerpt reference =
    \<lparr>eo_evidence_id = evidence_id, eo_incident_id = incident_id, eo_source = re_source o',
     eo_query = re_kind o', eo_query_reference = em_identifier m, eo_evidence_query_id = None,
     eo_evidence_window_id = ew_window_id window, eo_observed_at = observed_at window o',
     eo_scope = re_scope o', eo_redacted_excerpt = excerpt,
     eo_content_hash = dg_sha256 g (fst bounded), eo_truncated = snd bounded,
     eo_provider_reference = reference\<rparr>"

definition store_evidence ::
  "'k environment \<Rightarrow> string \<Rightarrow> evidence_window \<Rightarrow> evidence_mapping \<Rightarrow> raw_evidence
     \<Rightarrow> string \<times> bool \<Rightarrow> string \<Rightarrow> string \<Rightarrow> ('k world, unit) act" where
  "store_evidence en incident_id window m o' bounded excerpt reference =
    try_except
      (seq (uuid4 en) (\<lambda>u.
       seq (lift_result (validate_observation (observation_of (en_digest en) (''evidence-'' @ u)
         incident_id window m o' bounded excerpt reference))) (\<lambda>e.
       seq (on_store (append_evidence incident_id e)) (\<lambda>_. ret ()))))
      (\<lambda>x. if is_value_error x
        then append_failure en incident_id o' ''evidence validation failed; evidence was not retained''
        else raise x)"

definition collect_one ::
  "'k environment \<Rightarrow> (string \<Rightarrow> pyexn + string) \<Rightarrow> string \<Rightarrow> application_profile \<Rightarrow> evidence_window
     \<Rightarrow> workload_reference \<Rightarrow> raw_evidence \<Rightarrow> ('k world, unit) act" where
  "collect_one en redactor incident_id profile window expected_scope o' =
    (case validate_scope_and_mapping profile window expected_scope o' of
       Inl x \<Rightarrow> append_failure en incident_id o' (exn_str x)
     | Inr m \<Rightarrow>
        (let bounded = bound_content (ap_evidence_budget profile) o' in
         case bind_result (redactor (fst bounded)) (\<lambda>excerpt.
              bind_result (redactor (re_provider_reference o')) (\<lambda>reference. Inr (excerpt, reference))) of
           Inl x \<Rightarrow> append_failure en incident_id o' ''redaction failed; evidence was not retained''
         | Inr (excerpt, reference) \<Rightarrow>
             store_evidence en incident_id window m o' bounded excerpt reference))"

fun collect_each ::
  "('o \<Rightarrow> ('w, unit) act) \<Rightarrow> 'o list \<Rightarrow> ('w, unit) act" where
  "collect_each one [] = ret ()"
| "collect_each one (o' # os) = seq (one o') (\<lambda>_. collect_each one os)"

type_synonym 'k evidence_provider =
  "application_profile \<Rightarrow> alert_signal \<Rightarrow> evidence_window \<Rightarrow> ('k, raw_evidence list) act"

definition collect ::
  "'k environment \<Rightarrow> 'k evidence_provider \<Rightarrow> (string \<Rightarrow> pyexn + string) \<Rightarrow> string
     \<Rightarrow> application_profile \<Rightarrow> alert_signal \<Rightarrow> evidence_window \<Rightarrow> ('k world, unit) act" where
  "collect en provider redactor incident_id profile signal window w =
    (case on_kube (provider profile signal window) w of
       (Inl x, w1) \<Rightarrow> append_provider_failure en incident_id
          ''evidence provider failed; no evidence was retained'' w1
     | (Inr observations, w1) \<Rightarrow>
        (let maximum = length (ap_evidence_mappings profile);
             target = deployment_reference (sg_namespace signal) (sg_workload_name signal)
         in seq (raise_when (\<not> workload_reference_fields target \<and> take maximum observations \<noteq> [])
                  (ValidationError ''WorkloadReference'' ''invalid field'')) (\<lambda>_.
            seq (collect_each (collect_one en redactor incident_id profile window target)
                  (take maximum observations)) (\<lambda>_.
            if length observations > maximum
            then append_provider_failure en incident_id
              ''evidence budget exceeded; additional observations were not retained''
            else ret ())) w1))"

section \<open>The fake provider\<close>

definition fake_observation ::
  "evidence_source \<Rightarrow> evidence_query_kind \<Rightarrow> workload_reference \<Rightarrow> string \<Rightarrow> string \<Rightarrow> datetime \<Rightarrow> raw_evidence" where
  "fake_observation source kind target content reference t =
    \<lparr>re_source = source, re_kind = kind, re_scope = target, re_content = content,
     re_provider_reference = reference, re_observed_at = Some t, re_item_count = 1,
     re_metric_series = []\<rparr>"

definition fake_observations :: "workload_reference \<Rightarrow> datetime \<Rightarrow> raw_evidence list" where
  "fake_observations target t =
    [fake_observation KUBERNETES WORKLOAD_STATE target
       ''Deployment generation 8 is available; rollout revision 8 is active.''
       ''fake://kubernetes/deployments/recommendationservice'' t,
     fake_observation KUBERNETES POD_EVENTS target
       ''Pod recommendationservice-7d9f restarted after an OOMKilled termination.''
       ''fake://kubernetes/events/recommendationservice'' t,
     fake_observation CLOUD_LOGGING POD_LOGS target
       ''recommendationservice process terminated: OOMKilled''
       ''fake://logging/recommendationservice'' t,
     (fake_observation CLOUD_MONITORING METRICS target []
       ''fake://monitoring/checkout-success-rate'' t)
       \<lparr>re_item_count := 2, re_metric_series := [''checkout success rate fell to 91%.'',
          ''p95 latency rose to 2400ms.'']\<rparr>,
     fake_observation KUBERNETES CHANGE_HISTORY target
       ''ReplicaSet revision 8 introduced a lower memory limit than revision 7.''
       ''fake://kubernetes/replicasets/recommendationservice'' t]"

definition fake_evidence_provider :: "raw_evidence list option \<Rightarrow> 'k evidence_provider" where
  "fake_evidence_provider observations p g window =
    ret (case observations of Some os \<Rightarrow> os
      | None \<Rightarrow> fake_observations (deployment_reference (sg_namespace g) (sg_workload_name g))
          (ew_ended_at window))"

end
