(* ===== verification/Evidence_Gateway.thy ===== *)
theory Evidence_Gateway
  imports Evidence
begin

text \<open>
  The typed evidence query gateway (\<open>services/evidence_gateway.py\<close>): adapters over narrow readers,
  and \<open>EvidenceQueryGateway.execute\<close>, which resolves a Specialist's request against the incident's
  profile, enforces the query budget, asks one adapter at most twice and stores the bounded,
  redacted result. Readers, the monotonic clock and the redactor are parameters.
\<close>

section \<open>Requests\<close>

record evidence_request =
  pq_query_id :: string
  pq_incident_id :: string
  pq_source :: evidence_source
  pq_kind :: evidence_query_kind
  pq_scope :: workload_reference
  pq_mapping_identifier :: string
  pq_query_template :: "string option"
  pq_started_at :: datetime
  pq_ended_at :: datetime
  pq_maximum_items :: int
  pq_deadline_seconds :: rat

definition evidence_request_fields :: "evidence_request \<Rightarrow> bool" where
  "evidence_request_fields q \<longleftrightarrow> pq_query_id q \<noteq> [] \<and> pq_incident_id q \<noteq> []
     \<and> workload_reference_fields (pq_scope q)
     \<and> pq_mapping_identifier q \<noteq> [] \<and> int (length (pq_mapping_identifier q)) \<le> 500
     \<and> pred_option (\<lambda>t. t \<noteq> [] \<and> int (length t) \<le> 2000) (pq_query_template q)
     \<and> 1 \<le> pq_maximum_items q \<and> pq_maximum_items q \<le> 500
     \<and> 0 < pq_deadline_seconds q \<and> pq_deadline_seconds q \<le> 30"

definition evidence_request_problem :: "evidence_request \<Rightarrow> string option" where
  "evidence_request_problem q = first_problem
    [(pq_ended_at q \<le> pq_started_at q, ''provider evidence request end must be after start''),
     (pq_ended_at q - pq_started_at q > hours 2, ''provider evidence request cannot exceed two hours''),
     (pq_kind q = METRICS \<and> pq_query_template q = None,
      ''metric provider requests require a profile-owned query template'')]"

definition validate_evidence_request :: "evidence_request \<Rightarrow> pyexn + evidence_request" where
  "validate_evidence_request q =
    (if \<not> evidence_request_fields q then Inl (ValidationError ''EvidenceProviderRequest'' ''invalid field'')
     else (case evidence_request_problem q of
         Some m \<Rightarrow> Inl (ValidationError ''EvidenceProviderRequest'' m)
       | None \<Rightarrow> Inr q))"

section \<open>Adapters\<close>

type_synonym 'k evidence_adapter = "evidence_request \<Rightarrow> ('k, raw_evidence) act"

record 'k kubernetes_reader =
  kr_workload_state :: "string \<Rightarrow> string \<Rightarrow> int \<Rightarrow> rat \<Rightarrow> ('k, string) act"
  kr_pod_events :: "string \<Rightarrow> string \<Rightarrow> int \<Rightarrow> rat \<Rightarrow> ('k, string) act"
  kr_pod_logs :: "string \<Rightarrow> string \<Rightarrow> int \<Rightarrow> datetime \<Rightarrow> datetime \<Rightarrow> rat \<Rightarrow> ('k, string) act"
  kr_change_history :: "string \<Rightarrow> string \<Rightarrow> int \<Rightarrow> rat \<Rightarrow> ('k, string) act"

definition kubernetes_content ::
  "'k kubernetes_reader \<Rightarrow> evidence_request \<Rightarrow> ('k, string) act" where
  "kubernetes_content rd q =
    (let ns = wr_namespace (pq_scope q); n = wr_name (pq_scope q); m = pq_maximum_items q;
         d = pq_deadline_seconds q
     in case pq_kind q of
       WORKLOAD_STATE \<Rightarrow> kr_workload_state rd ns n m d
     | POD_EVENTS \<Rightarrow> kr_pod_events rd ns n m d
     | POD_LOGS \<Rightarrow> kr_pod_logs rd ns n m (pq_started_at q) (pq_ended_at q) d
     | CHANGE_HISTORY \<Rightarrow> kr_change_history rd ns n m d
     | k \<Rightarrow> raise (EvidenceGatewayError
         (''unsupported Kubernetes evidence operation: '' @ evidence_query_kind_value k)))"

definition kubernetes_query :: "'k kubernetes_reader \<Rightarrow> 'k evidence_adapter" where
  "kubernetes_query rd q =
    seq (raise_when (pq_source q \<noteq> KUBERNETES)
      (EvidenceGatewayError ''Kubernetes adapter received a non-Kubernetes request'')) (\<lambda>_.
    seq (kubernetes_content rd q) (\<lambda>content.
    lift_result (validate_raw_evidence
      \<lparr>re_source = KUBERNETES, re_kind = pq_kind q, re_scope = pq_scope q, re_content = content,
       re_provider_reference = ''kubernetes://'' @ wr_namespace (pq_scope q) @ ''/deployments/''
         @ wr_name (pq_scope q) @ ''/'' @ evidence_query_kind_value (pq_kind q),
       re_observed_at = Some (pq_ended_at q), re_item_count = 1, re_metric_series = []\<rparr>)))"

type_synonym 'k logging_reader =
  "string \<Rightarrow> string \<Rightarrow> int \<Rightarrow> datetime \<Rightarrow> datetime \<Rightarrow> rat \<Rightarrow> ('k, string list) act"

definition cloud_logging_query :: "'k logging_reader \<Rightarrow> 'k evidence_adapter" where
  "cloud_logging_query rd q =
    seq (raise_when (pq_source q \<noteq> CLOUD_LOGGING \<or> pq_kind q \<noteq> POD_LOGS)
      (EvidenceGatewayError (''unsupported Cloud Logging evidence operation: ''
         @ evidence_query_kind_value (pq_kind q)))) (\<lambda>_.
    seq (rd (wr_namespace (pq_scope q)) (wr_name (pq_scope q)) (pq_maximum_items q)
      (pq_started_at q) (pq_ended_at q) (pq_deadline_seconds q)) (\<lambda>found.
    let lines = take (nat (pq_maximum_items q)) found in
    lift_result (validate_raw_evidence
      \<lparr>re_source = CLOUD_LOGGING, re_kind = pq_kind q, re_scope = pq_scope q,
       re_content = join newline lines,
       re_provider_reference = ''cloud-logging://'' @ wr_namespace (pq_scope q) @ ''/'' @ wr_name (pq_scope q),
       re_observed_at = Some (pq_ended_at q), re_item_count = int (length lines),
       re_metric_series = []\<rparr>)))"

record 'k monitoring_reader =
  mr_time_series :: "string \<Rightarrow> string \<Rightarrow> string \<Rightarrow> int \<Rightarrow> datetime \<Rightarrow> datetime \<Rightarrow> rat \<Rightarrow> ('k, string list) act"
  mr_alert_policy :: "string \<Rightarrow> rat \<Rightarrow> ('k, string) act"

definition metric_query :: "'k monitoring_reader \<Rightarrow> 'k evidence_adapter" where
  "metric_query rd q =
    (case pq_query_template q of
       None \<Rightarrow> raise (EvidenceGatewayError ''metric query is missing its profile-owned template'')
     | Some template \<Rightarrow>
         seq (mr_time_series rd template (wr_namespace (pq_scope q)) (wr_name (pq_scope q))
           (pq_maximum_items q) (pq_started_at q) (pq_ended_at q) (pq_deadline_seconds q)) (\<lambda>found.
         let series = take (nat (pq_maximum_items q)) found in
         lift_result (validate_raw_evidence
           \<lparr>re_source = CLOUD_MONITORING, re_kind = pq_kind q, re_scope = pq_scope q, re_content = [],
            re_provider_reference = ''cloud-monitoring://'' @ wr_namespace (pq_scope q) @ ''/''
              @ pq_mapping_identifier q,
            re_observed_at = Some (pq_ended_at q), re_item_count = int (length series),
            re_metric_series = series\<rparr>)))"

definition alert_policy_query :: "'k monitoring_reader \<Rightarrow> 'k evidence_adapter" where
  "alert_policy_query rd q =
    seq (mr_alert_policy rd (pq_mapping_identifier q) (pq_deadline_seconds q)) (\<lambda>content.
    lift_result (validate_raw_evidence
      \<lparr>re_source = CLOUD_MONITORING, re_kind = pq_kind q, re_scope = pq_scope q, re_content = content,
       re_provider_reference = ''cloud-monitoring://alert-policies/'' @ pq_mapping_identifier q,
       re_observed_at = Some (pq_ended_at q), re_item_count = 1, re_metric_series = []\<rparr>))"

definition cloud_monitoring_query :: "'k monitoring_reader \<Rightarrow> 'k evidence_adapter" where
  "cloud_monitoring_query rd q =
    (let unsupported = EvidenceGatewayError (''unsupported Cloud Monitoring evidence operation: ''
       @ evidence_query_kind_value (pq_kind q))
     in if pq_source q \<noteq> CLOUD_MONITORING then raise unsupported
        else (case pq_kind q of
          METRICS \<Rightarrow> metric_query rd q
        | ALERT_POLICY \<Rightarrow> alert_policy_query rd q
        | _ \<Rightarrow> raise unsupported))"

definition fake_query :: "'k evidence_adapter" where
  "fake_query q =
    (let o' = \<lparr>re_source = pq_source q, re_kind = pq_kind q, re_scope = pq_scope q, re_content = [],
       re_provider_reference = ''fake://'' @ evidence_source_value (pq_source q) @ ''/''
         @ pq_mapping_identifier q,
       re_observed_at = Some (pq_ended_at q), re_item_count = 1, re_metric_series = []\<rparr>
     in lift_result (validate_raw_evidence
       (if pq_kind q = METRICS
        then o'\<lparr>re_item_count := 2,
               re_metric_series := [''request success rate 91%'', ''p95 latency 2400ms'']\<rparr>
        else o'\<lparr>re_content := ''Bounded follow-up evidence for '' @ pq_mapping_identifier q @ ''.''\<rparr>)))"

section \<open>The gateway\<close>

record 'k gateway =
  gw_adapters :: "evidence_source \<Rightarrow> 'k evidence_adapter option"
  gw_redactor :: "string \<Rightarrow> pyexn + string"
  gw_deadline_seconds :: rat
  gw_maximum_attempts :: nat
  gw_monotonic :: "('k, rat) act"

definition gateway_problem :: "'k gateway \<Rightarrow> string option" where
  "gateway_problem gw = first_problem
    [(\<not> (0 < gw_deadline_seconds gw \<and> gw_deadline_seconds gw \<le> 30),
      ''evidence provider deadline must be between 0 and 30 seconds''),
     (\<not> (1 \<le> gw_maximum_attempts gw \<and> gw_maximum_attempts gw \<le> 2),
      ''evidence queries allow one attempt and at most one safe retry'')]"

definition resolve_mapping ::
  "investigation_record \<Rightarrow> string \<Rightarrow> pyexn + evidence_mapping" where
  "resolve_mapping r mapping_identifier =
    (case List.find (\<lambda>m. em_identifier m = mapping_identifier)
        (ap_evidence_mappings (ir_application_profile r)) of
       None \<Rightarrow> Inl (EvidenceGatewayError
         ''evidence query is not allowlisted by the Incident Application Profile'')
     | Some m \<Rightarrow> Inr m)"

definition prior_queries :: "specialist_role \<Rightarrow> investigation_record \<Rightarrow> evidence_query list" where
  "prior_queries role r = filter (\<lambda>q. qy_specialist q = role) (ir_evidence_queries r)"

definition query_budget :: "investigation_record \<Rightarrow> int" where
  "query_budget r = eb_maximum_queries_per_specialist (ap_evidence_budget (ir_application_profile r))"

definition validate_query_budget ::
  "investigation_record \<Rightarrow> specialist_role \<Rightarrow> int \<Rightarrow> pyexn + unit" where
  "validate_query_budget r role query_round =
    (let maximum = query_budget r; prior = prior_queries role r in
     if query_round < 1 \<or> query_round > maximum \<or> int (length prior) \<ge> maximum
     then Inl (EvidenceGatewayError ''specialist evidence query budget is exhausted'')
     else if prior \<noteq> [] \<and> query_round < fold max (map qy_query_round (tl prior)) (qy_query_round (hd prior))
     then Inl (EvidenceGatewayError ''specialist evidence query rounds cannot move backwards'')
     else Inr ())"

definition provider_request ::
  "'k gateway \<Rightarrow> investigation_record \<Rightarrow> evidence_mapping \<Rightarrow> string \<Rightarrow> pyexn + evidence_request" where
  "provider_request gw r m query_id =
    (let b = ap_evidence_budget (ir_application_profile r) in
     validate_evidence_request
      \<lparr>pq_query_id = query_id, pq_incident_id = inc_incident_id (ir_incident r),
       pq_source = em_source m, pq_kind = em_kind m, pq_scope = em_scope m,
       pq_mapping_identifier = em_identifier m, pq_query_template = em_query_template m,
       pq_started_at = ew_started_at (ir_evidence_window r),
       pq_ended_at = ew_ended_at (ir_evidence_window r),
       pq_maximum_items =
        (if em_kind m = POD_LOGS then eb_maximum_log_lines b
         else if em_kind m = METRICS then eb_maximum_metric_series b
         else min 100 (eb_maximum_log_lines b)),
       pq_deadline_seconds = gw_deadline_seconds gw\<rparr>)"

text \<open>One attempt, and the loop with \<open>n\<close> attempts left, of which the next has number \<open>attempt\<close>.\<close>

definition query_once ::
  "'k gateway \<Rightarrow> 'k evidence_adapter \<Rightarrow> evidence_request \<Rightarrow> rat \<Rightarrow> ('k, raw_evidence) act" where
  "query_once gw adapter q started =
    seq (adapter q) (\<lambda>o'. seq (gw_monotonic gw) (\<lambda>t.
      if t - started > pq_deadline_seconds q
      then raise (EvidenceGatewayError ''evidence provider deadline exceeded'') else ret o'))"

fun retryable :: "pyexn \<Rightarrow> bool" where
  "retryable (RetryableEvidenceProviderError m) = True"
| "retryable e = False"

fun query_attempts ::
  "'k gateway \<Rightarrow> 'k evidence_adapter \<Rightarrow> evidence_request \<Rightarrow> rat \<Rightarrow> nat \<Rightarrow> nat
     \<Rightarrow> ('k, raw_evidence \<times> nat) act" where
  "query_attempts gw adapter q started attempt 0 =
     raise (RuntimeError ''evidence query exhausted without a provider result'')"
| "query_attempts gw adapter q started attempt (Suc n) =
     try_except (seq (query_once gw adapter q started) (\<lambda>o'. ret (o', attempt)))
       (\<lambda>e. if retryable e \<and> attempt \<noteq> gw_maximum_attempts gw
         then query_attempts gw adapter q started (Suc attempt) n else raise e)"

definition query_provider ::
  "'k gateway \<Rightarrow> 'k evidence_adapter \<Rightarrow> evidence_request \<Rightarrow> ('k, raw_evidence \<times> nat) act" where
  "query_provider gw adapter q =
    seq (gw_monotonic gw) (\<lambda>started.
      query_attempts gw adapter q started 1 (gw_maximum_attempts gw))"

definition gateway_content :: "evidence_budget \<Rightarrow> raw_evidence \<Rightarrow> pyexn + string \<times> bool" where
  "gateway_content b o' =
    (if re_kind o' = METRICS then
       (let bounded = take (nat (eb_maximum_metric_series b)) (re_metric_series o')
        in Inr (cut_excerpt (join newline bounded) (length (re_metric_series o') > length bounded)))
     else if re_kind o' = POD_LOGS then
       (let lines = splitlines (re_content o'); bounded = take (nat (eb_maximum_log_lines b)) lines
        in Inr (cut_excerpt (join newline bounded) (length lines > length bounded)))
     else if re_item_count o' > min 100 (eb_maximum_log_lines b)
     then Inl (EvidenceGatewayError ''provider returned more resources than requested'')
     else Inr (cut_excerpt (re_content o') False))"

definition safe_observation ::
  "'k environment \<Rightarrow> 'k gateway \<Rightarrow> investigation_record \<Rightarrow> evidence_mapping \<Rightarrow> raw_evidence
     \<Rightarrow> string \<Rightarrow> ('k world, evidence_observation) act" where
  "safe_observation en gw r m o' query_id =
    (let window = ir_evidence_window r in
     seq (raise_when ((re_source o', re_kind o', re_scope o') \<noteq> (em_source m, em_kind m, em_scope m))
       (EvidenceGatewayError ''provider response escaped its resolved evidence scope'')) (\<lambda>_.
     seq (raise_when (\<not> in_window window (observed_at window o'))
       (EvidenceGatewayError ''provider response falls outside the Evidence Window'')) (\<lambda>_.
     seq (lift_result (gateway_content (ap_evidence_budget (ir_application_profile r)) o')) (\<lambda>bounded.
     seq (lift_result (gw_redactor gw (fst bounded))) (\<lambda>excerpt.
     seq (lift_result (gw_redactor gw (re_provider_reference o'))) (\<lambda>reference.
     seq (uuid4 en) (\<lambda>u.
       lift_result (validate_observation
         ((observation_of (en_digest en) (''evidence-'' @ u) (inc_incident_id (ir_incident r)) window m
            o' bounded excerpt reference)\<lparr>eo_evidence_query_id := Some query_id\<rparr>)))))))))"

definition gateway_audit ::
  "'k environment \<Rightarrow> string \<Rightarrow> string \<Rightarrow> string \<Rightarrow> (string \<times> string) list
     \<Rightarrow> ('k world, investigation_record) act" where
  "gateway_audit en incident_id event_type actor details =
    seq (uuid4 en) (\<lambda>u. seq (now_act en) (\<lambda>t.
      on_store (append_audit_event incident_id
        \<lparr>ae_event_id = ''audit-'' @ u, ae_incident_id = incident_id, ae_event_type = event_type,
         ae_occurred_at = t, ae_actor = actor, ae_details = details, ae_cursor = 0\<rparr>)))"

definition record_query_failure ::
  "'k environment \<Rightarrow> evidence_query \<Rightarrow> evidence_mapping \<Rightarrow> ('k world, unit) act" where
  "record_query_failure en query m =
    seq (uuid4 en) (\<lambda>u. seq (now_act en) (\<lambda>t.
    seq (on_store (append_evidence_retrieval_failure (qy_incident_id query)
      \<lparr>ef_failure_id = ''evidence-failure-'' @ u, ef_incident_id = qy_incident_id query,
       ef_source = Some (em_source m), ef_query = Some (em_kind m), ef_scope = Some (em_scope m),
       ef_occurred_at = t,
       ef_message = ''evidence query provider failed; no evidence was retained''\<rparr>)) (\<lambda>_.
    seq (gateway_audit en (qy_incident_id query) ''evidence_query_failed'' ''evidence-gateway''
      [(''query_id'', qy_query_id query)]) (\<lambda>_. ret ()))))"

definition validate_query :: "evidence_query \<Rightarrow> pyexn + evidence_query" where
  "validate_query q = (if wf_evidence_query q then Inr q
     else Inl (ValidationError ''EvidenceQuery'' ''invalid field''))"

definition authorize_query ::
  "'k gateway \<Rightarrow> string \<Rightarrow> specialist_role \<Rightarrow> string \<Rightarrow> int
     \<Rightarrow> ('k world, investigation_record \<times> evidence_mapping \<times> 'k evidence_adapter) act" where
  "authorize_query gw incident_id role mapping_identifier query_round =
    seq (get_record incident_id) (\<lambda>found.
    seq (lift_result (case found of None \<Rightarrow> Inl (EvidenceGatewayError ''incident does not exist'')
      | Some r \<Rightarrow> Inr r)) (\<lambda>r.
    seq (lift_result (resolve_mapping r mapping_identifier)) (\<lambda>m.
    seq (lift_result (validate_query_budget r role query_round)) (\<lambda>_.
    seq (lift_result (case gw_adapters gw (em_source m) of
        None \<Rightarrow> Inl (EvidenceGatewayError ''allowlisted evidence provider is unavailable'')
      | Some a \<Rightarrow> Inr a)) (\<lambda>adapter. ret (r, m, adapter))))))"

definition record_query ::
  "'k environment \<Rightarrow> string \<Rightarrow> specialist_role \<Rightarrow> evidence_mapping \<Rightarrow> int \<Rightarrow> ('k world, evidence_query) act" where
  "record_query en incident_id role m query_round =
    seq (uuid4 en) (\<lambda>u. seq (now_act en) (\<lambda>t.
    seq (lift_result (validate_query
      \<lparr>qy_query_id = ''query-'' @ u, qy_incident_id = incident_id, qy_specialist = role,
       qy_kind = em_kind m, qy_target = em_scope m, qy_requested_at = t,
       qy_query_round = query_round\<rparr>)) (\<lambda>query.
    seq (on_store (append_evidence_query incident_id query)) (\<lambda>_.
    seq (gateway_audit en incident_id ''evidence_query_requested''
      (''specialist:'' @ specialist_role_value role)
      [(''query_id'', qy_query_id query), (''mapping_identifier'', em_identifier m),
       (''source'', evidence_source_value (em_source m))]) (\<lambda>_. ret query)))))"

definition answer_query ::
  "'k environment \<Rightarrow> 'k gateway \<Rightarrow> string \<Rightarrow> investigation_record \<Rightarrow> evidence_mapping \<Rightarrow> 'k evidence_adapter
     \<Rightarrow> evidence_query \<Rightarrow> ('k world, evidence_observation \<times> nat) act" where
  "answer_query en gw incident_id r m adapter query =
    seq (lift_result (provider_request gw r m (qy_query_id query))) (\<lambda>request.
    try_except
      (seq (on_kube (query_provider gw adapter request)) (\<lambda>(o', attempts).
       seq (safe_observation en gw r m o' (qy_query_id query)) (\<lambda>e.
       seq (on_store (append_evidence incident_id e)) (\<lambda>_. ret (e, attempts)))))
      (\<lambda>_. seq (record_query_failure en query m) (\<lambda>_.
         raise (EvidenceGatewayError ''evidence query provider failed; no evidence was retained''))))"

definition execute_query ::
  "'k environment \<Rightarrow> 'k gateway \<Rightarrow> string \<Rightarrow> specialist_role \<Rightarrow> string \<Rightarrow> int
     \<Rightarrow> ('k world, investigation_record) act" where
  "execute_query en gw incident_id role mapping_identifier query_round =
    seq (authorize_query gw incident_id role mapping_identifier query_round) (\<lambda>(r, m, adapter).
    seq (record_query en incident_id role m query_round) (\<lambda>query.
    seq (answer_query en gw incident_id r m adapter query) (\<lambda>(e, attempts).
      gateway_audit en incident_id ''evidence_query_completed'' ''evidence-gateway''
        [(''query_id'', qy_query_id query), (''evidence_id'', eo_evidence_id e),
         (''attempts'', nat_str attempts)])))"

end
