(* ===== verification/Council.thy ===== *)
theory Council
  imports Evidence_Gateway
begin

text \<open>
  The Council (\<open>services/council.py\<close>): four Specialists that run as asyncio tasks and then a
  Coordinator. A task only gives up control where it awaits the model, so a Specialist is its state
  at that point (\<open>specialist_state\<close>) and one step per answer; the event loop is a list of events in
  any order. An answer is a response of the model or an exception: what the model raises, or the
  \<open>TimeoutError\<close> of the deadline, which asyncio delivers at the same place. The \<open>dict\<close> a model
  returns is given by the fields it holds (\<open>model_output\<close>). Wall-clock time and Python's text of a
  float are parameters.
\<close>

section \<open>Documents\<close>

record specialist_query_request =
  sq_mapping_identifier :: string
  sq_reason :: string

definition wf_specialist_query_request :: "specialist_query_request \<Rightarrow> bool" where
  "wf_specialist_query_request q \<longleftrightarrow> sq_mapping_identifier q \<noteq> []
     \<and> int (length (sq_mapping_identifier q)) \<le> 500
     \<and> sq_reason q \<noteq> [] \<and> int (length (sq_reason q)) \<le> 1000"

record specialist_model_output =
  so_finding :: "specialist_finding option"
  so_evidence_query :: "specialist_query_request option"

definition specialist_model_output_problem :: "specialist_model_output \<Rightarrow> string option" where
  "specialist_model_output_problem o' = first_problem
    [((so_finding o' = None) = (so_evidence_query o' = None),
      ''specialist output must contain exactly one finding or evidence query'')]"

definition wf_specialist_model_output :: "specialist_model_output \<Rightarrow> bool" where
  "wf_specialist_model_output o' \<longleftrightarrow> pred_option wf_specialist_finding (so_finding o')
     \<and> pred_option wf_specialist_query_request (so_evidence_query o')
     \<and> specialist_model_output_problem o' = None"

datatype model_output =
  Specialist_Fields specialist_model_output
| Coordinator_Fields coordinator_output
| Other_Fields

record model_response =
  mr_output :: model_output
  mr_model_id :: string
  mr_prompt_version :: string
  mr_thinking_level :: thinking_level
  mr_input_tokens :: int
  mr_output_tokens :: int

definition wf_model_response :: "model_response \<Rightarrow> bool" where
  "wf_model_response m \<longleftrightarrow> mr_model_id m \<noteq> [] \<and> mr_prompt_version m \<noteq> []
     \<and> 0 \<le> mr_input_tokens m \<and> 0 \<le> mr_output_tokens m"

text \<open>\<open>SpecialistModelOutput.model_validate\<close> and \<open>CoordinatorOutput.model_validate\<close>.\<close>

definition validate_specialist_output :: "model_output \<Rightarrow> pyexn + specialist_model_output" where
  "validate_specialist_output m = (case m of
     Specialist_Fields o' \<Rightarrow> if wf_specialist_model_output o' then Inr o'
       else Inl (ValidationError ''SpecialistModelOutput'' ''invalid field'')
   | _ \<Rightarrow> Inl (ValidationError ''SpecialistModelOutput'' ''invalid field''))"

definition validate_coordinator_output :: "model_output \<Rightarrow> pyexn + coordinator_output" where
  "validate_coordinator_output m = (case m of
     Coordinator_Fields c \<Rightarrow> if wf_coordinator_output c then Inr c
       else Inl (ValidationError ''CoordinatorOutput'' ''invalid field'')
   | _ \<Rightarrow> Inl (ValidationError ''CoordinatorOutput'' ''invalid field''))"

record specialist_request =
  sr_incident_id :: string
  sr_role :: specialist_role
  sr_evidence :: "evidence_observation list"
  sr_allowed_mapping_identifiers :: "string list"
  sr_completed_query_rounds :: int

definition wf_specialist_request :: "specialist_request \<Rightarrow> bool" where
  "wf_specialist_request q \<longleftrightarrow> sr_incident_id q \<noteq> [] \<and> sr_evidence q \<noteq> []
     \<and> list_all wf_evidence_observation (sr_evidence q)
     \<and> 0 \<le> sr_completed_query_rounds q \<and> sr_completed_query_rounds q \<le> 2"

definition validate_specialist_request :: "specialist_request \<Rightarrow> pyexn + specialist_request" where
  "validate_specialist_request q = (if wf_specialist_request q then Inr q
     else Inl (ValidationError ''SpecialistRequest'' ''invalid field''))"

datatype specialist_run_status = RUN_SUCCEEDED | RUN_FAILED | RUN_TIMED_OUT

record specialist_result =
  st_role :: specialist_role
  st_status :: specialist_run_status
  st_finding :: "specialist_finding option"
  st_failure_reason :: "string option"

definition specialist_result_problem :: "specialist_result \<Rightarrow> string option" where
  "specialist_result_problem s =
    (if st_status s = RUN_SUCCEEDED then first_problem
       [(st_finding s = None \<or> st_failure_reason s \<noteq> None,
         ''successful Specialist result requires only a finding'')]
     else first_problem
       [(st_finding s \<noteq> None \<or> st_failure_reason s = None,
         ''failed or timed-out Specialist result requires only a reason'')])"

definition wf_specialist_result :: "specialist_result \<Rightarrow> bool" where
  "wf_specialist_result s \<longleftrightarrow> pred_option wf_specialist_finding (st_finding s)
     \<and> pred_option (\<lambda>m. int (length m) \<le> 1000) (st_failure_reason s)
     \<and> specialist_result_problem s = None"

definition validate_specialist_result :: "specialist_result \<Rightarrow> pyexn + specialist_result" where
  "validate_specialist_result s = (if wf_specialist_result s then Inr s
     else Inl (ValidationError ''SpecialistResult'' ''invalid field''))"

record coordinator_request =
  cr_incident_id :: string
  cr_incident_summary :: string
  cr_application_profile :: application_profile
  cr_evidence_hash :: string
  cr_specialists :: "specialist_result list"

definition all_roles :: "specialist_role list" where
  "all_roles = [HEALTH, LOGS, METRICS_ROLE, CHANGE]"

definition coordinator_request_problem :: "coordinator_request \<Rightarrow> string option" where
  "coordinator_request_problem q = first_problem
    [(set (map st_role (cr_specialists q)) \<noteq> set all_roles,
      ''Coordinator input must include every Specialist exactly once'')]"

definition wf_coordinator_request :: "coordinator_request \<Rightarrow> bool" where
  "wf_coordinator_request q \<longleftrightarrow> cr_incident_id q \<noteq> [] \<and> cr_incident_summary q \<noteq> []
     \<and> wf_application_profile (cr_application_profile q) \<and> 8 \<le> length (cr_evidence_hash q)
     \<and> length (cr_specialists q) = 4 \<and> list_all wf_specialist_result (cr_specialists q)
     \<and> coordinator_request_problem q = None"

definition validate_coordinator_request :: "coordinator_request \<Rightarrow> pyexn + coordinator_request" where
  "validate_coordinator_request q = (if wf_coordinator_request q then Inr q
     else Inl (ValidationError ''CoordinatorRequest'' ''invalid field''))"

definition validate_invocation :: "model_invocation \<Rightarrow> pyexn + model_invocation" where
  "validate_invocation m = (if wf_model_invocation m then Inr m
     else Inl (ValidationError ''ModelInvocation'' ''invalid field''))"

section \<open>Helpers\<close>

fun specialist_kinds :: "specialist_role \<Rightarrow> evidence_query_kind list" where
  "specialist_kinds HEALTH = [WORKLOAD_STATE, POD_EVENTS]"
| "specialist_kinds LOGS = [POD_LOGS]"
| "specialist_kinds METRICS_ROLE = [METRICS, ALERT_POLICY]"
| "specialist_kinds CHANGE = [CHANGE_HISTORY]"

definition role_evidence ::
  "evidence_observation list \<Rightarrow> specialist_role \<Rightarrow> evidence_observation list" where
  "role_evidence es role = filter (\<lambda>e. eo_query e \<in> set (specialist_kinds role)) es"

definition evidence_hash_of :: "digest \<Rightarrow> evidence_observation list \<Rightarrow> string" where
  "evidence_hash_of g es = dg_sha256 g (join newline (sort (map eo_content_hash es)))"

text \<open>\<open>round\<close> of a number: to the nearest integer, ties to the even one.\<close>

definition py_round :: "rat \<Rightarrow> int" where
  "py_round x = (let n = floor x; d = x - of_int n in
     if d < 1 / 2 then n else if d > 1 / 2 then n + 1 else if even n then n else n + 1)"

definition latency_ms :: "rat \<Rightarrow> rat \<Rightarrow> int" where
  "latency_ms started now = max 0 (py_round ((now - started) * 1000))"

record 'k council =
  cn_model_id :: string
  cn_gateway :: "'k gateway option"
  cn_monotonic :: "'k \<Rightarrow> rat \<times> 'k"
  cn_float_str :: "rat \<Rightarrow> string"

definition read_monotonic :: "'k council \<Rightarrow> ('k world, rat) act" where
  "read_monotonic cn = on_kube (\<lambda>k. case cn_monotonic cn k of (t, k') \<Rightarrow> (Inr t, k'))"

fun invocation_role_value :: "invocation_role \<Rightarrow> string" where
  "invocation_role_value (Specialist role) = specialist_role_value role"
| "invocation_role_value Coordinator = ''coordinator''"

definition invocation_of ::
  "string \<Rightarrow> string \<Rightarrow> invocation_role \<Rightarrow> model_response option \<Rightarrow> int \<Rightarrow> bool \<Rightarrow> int
     \<Rightarrow> string option \<Rightarrow> string \<Rightarrow> model_invocation" where
  "invocation_of u incident_id role response latency output_valid tool_count failure_reason fallback =
    \<lparr>mi_invocation_id = ''model-'' @ u, mi_incident_id = incident_id, mi_role = role,
     mi_model_id = (case response of Some r \<Rightarrow> mr_model_id r | None \<Rightarrow> fallback),
     mi_prompt_version = (case response of Some r \<Rightarrow> mr_prompt_version r
       | None \<Rightarrow> invocation_role_value role @ ''-v1''),
     mi_thinking_level = (case response of Some r \<Rightarrow> mr_thinking_level r | None \<Rightarrow> Medium),
     mi_latency_ms = latency,
     mi_input_tokens = (case response of Some r \<Rightarrow> mr_input_tokens r | None \<Rightarrow> 0),
     mi_output_tokens = (case response of Some r \<Rightarrow> mr_output_tokens r | None \<Rightarrow> 0),
     mi_tool_count = tool_count, mi_output_valid = output_valid, mi_failure_reason = failure_reason\<rparr>"

text \<open>\<open>store.append_model_invocation(incident_id, _invocation(...))\<close>, of a valid and of a failed output.\<close>

definition note_invocation ::
  "'k environment \<Rightarrow> 'k council \<Rightarrow> string \<Rightarrow> invocation_role \<Rightarrow> model_response option \<Rightarrow> rat
     \<Rightarrow> int \<Rightarrow> string option \<Rightarrow> ('k world, unit) act" where
  "note_invocation en cn incident_id role response started tool_count failure_reason =
    seq (read_monotonic cn) (\<lambda>t. seq (uuid4 en) (\<lambda>u.
    seq (lift_result (validate_invocation (invocation_of u incident_id role response
      (latency_ms started t) (failure_reason = None) tool_count failure_reason
      (if failure_reason = None then ''gemini-3.5-flash'' else cn_model_id cn)))) (\<lambda>m.
    seq (on_store (append_model_invocation incident_id m)) (\<lambda>_. ret ()))))"

definition council_audit ::
  "'k environment \<Rightarrow> string \<Rightarrow> string \<Rightarrow> (string \<times> string) list \<Rightarrow> ('k world, unit) act" where
  "council_audit en incident_id event_type details =
    seq (gateway_audit en incident_id event_type ''incident-council'' details) (\<lambda>_. ret ())"

definition council_record :: "string \<Rightarrow> ('k world, investigation_record) act" where
  "council_record incident_id = seq (get_record incident_id) (\<lambda>found.
     lift_result (case found of
       None \<Rightarrow> Inl (CouncilError ''incident disappeared during Council execution'')
     | Some r \<Rightarrow> Inr r))"

section \<open>A Specialist\<close>

text \<open>
  Before its first step, waiting for the model (with the request, the time it was sent and the
  response to the previous request), or done.
\<close>

datatype specialist_state =
  Created
| Awaiting specialist_request rat "model_response option"
| Finished specialist_result

definition specialist_failed ::
  "'k environment \<Rightarrow> string \<Rightarrow> specialist_role \<Rightarrow> string \<Rightarrow> ('k world, specialist_result) act" where
  "specialist_failed en incident_id role reason =
    seq (council_audit en incident_id ''specialist_failed''
      [(''specialist'', specialist_role_value role), (''reason'', reason)]) (\<lambda>_.
    lift_result (validate_specialist_result
      \<lparr>st_role = role, st_status = RUN_FAILED, st_finding = None, st_failure_reason = Some reason\<rparr>))"

definition record_specialist_failure ::
  "'k environment \<Rightarrow> 'k council \<Rightarrow> string \<Rightarrow> specialist_role \<Rightarrow> specialist_run_status \<Rightarrow> string \<Rightarrow> rat
     \<Rightarrow> model_response option \<Rightarrow> ('k world, specialist_result) act" where
  "record_specialist_failure en cn incident_id role status reason started response =
    seq (note_invocation en cn incident_id (Specialist role) response started 0 (Some reason)) (\<lambda>_.
    seq (council_audit en incident_id
      (if status = RUN_TIMED_OUT then ''specialist_timed_out'' else ''specialist_failed'')
      [(''specialist'', specialist_role_value role), (''reason'', reason)]) (\<lambda>_.
    lift_result (validate_specialist_result
      \<lparr>st_role = role, st_status = status, st_finding = None, st_failure_reason = Some reason\<rparr>)))"

text \<open>Up to the first \<open>await\<close>.\<close>

definition begin_specialist ::
  "'k environment \<Rightarrow> 'k council \<Rightarrow> string \<Rightarrow> specialist_role \<Rightarrow> ('k world, specialist_state) act" where
  "begin_specialist en cn incident_id role =
    seq (council_audit en incident_id ''specialist_started''
      [(''specialist'', specialist_role_value role)]) (\<lambda>_.
    seq (council_record incident_id) (\<lambda>r.
    let evidence = role_evidence (ir_evidence r) role in
    if evidence = [] then
      seq (specialist_failed en incident_id role ''no role-relevant redacted evidence was available'')
        (\<lambda>s. ret (Finished s))
    else
      seq (lift_result (validate_specialist_request
        \<lparr>sr_incident_id = incident_id, sr_role = role, sr_evidence = evidence,
         sr_allowed_mapping_identifiers = map em_identifier
           (filter (\<lambda>m. em_kind m \<in> set (specialist_kinds role))
             (ap_evidence_mappings (ir_application_profile r))),
         sr_completed_query_rounds = 0\<rparr>)) (\<lambda>q.
      seq (read_monotonic cn) (\<lambda>_. seq (read_monotonic cn) (\<lambda>t. ret (Awaiting q t None))))))"

text \<open>What a turn of the loop ends with: the finding, a failure already recorded, or another request.\<close>

datatype turn_result =
  Reported specialist_finding
| Stopped specialist_result
| Asking specialist_request

fun is_gateway_error :: "pyexn \<Rightarrow> bool" where
  "is_gateway_error (EvidenceGatewayError m) = True"
| "is_gateway_error e = False"

definition stop_turn ::
  "'k environment \<Rightarrow> 'k council \<Rightarrow> specialist_request \<Rightarrow> model_response \<Rightarrow> rat \<Rightarrow> string
     \<Rightarrow> ('k world, turn_result) act" where
  "stop_turn en cn q response started reason =
    seq (note_invocation en cn (sr_incident_id q) (Specialist (sr_role q)) (Some response) started 0 None) (\<lambda>_.
    seq (specialist_failed en (sr_incident_id q) (sr_role q) reason) (\<lambda>s. ret (Stopped s)))"

definition run_evidence_query ::
  "'k environment \<Rightarrow> 'k council \<Rightarrow> 'k gateway \<Rightarrow> specialist_request \<Rightarrow> model_response \<Rightarrow> rat \<Rightarrow> string
     \<Rightarrow> ('k world, turn_result) act" where
  "run_evidence_query en cn gw q response started mapping_identifier =
    seq (try_except
          (seq (execute_query en gw (sr_incident_id q) (sr_role q) mapping_identifier
            (sr_completed_query_rounds q + 1)) (\<lambda>_. ret True))
          (\<lambda>e. if is_gateway_error e then ret False else raise e)) (\<lambda>answered.
    if \<not> answered then stop_turn en cn q response started
      ''Specialist Evidence Query was rejected by the deterministic gateway''
    else
      seq (note_invocation en cn (sr_incident_id q) (Specialist (sr_role q)) (Some response) started 1 None) (\<lambda>_.
      seq (council_record (sr_incident_id q)) (\<lambda>r.
      ret (Asking (q\<lparr>sr_evidence := role_evidence (ir_evidence r) (sr_role q),
        sr_completed_query_rounds := sr_completed_query_rounds q + 1\<rparr>)))))"

definition specialist_turn ::
  "'k environment \<Rightarrow> 'k council \<Rightarrow> specialist_request \<Rightarrow> model_response \<Rightarrow> rat
     \<Rightarrow> ('k world, turn_result) act" where
  "specialist_turn en cn q response started =
    seq (lift_result (validate_specialist_output (mr_output response))) (\<lambda>output.
    case so_finding output of
      Some f \<Rightarrow>
        seq (raise_when (sf_incident_id f \<noteq> sr_incident_id q \<or> sf_specialist f \<noteq> sr_role q)
          (ValueError ''Specialist Finding does not match its assigned Incident and role'')) (\<lambda>_.
        ret (Reported f))
    | None \<Rightarrow> (case so_evidence_query output of
        None \<Rightarrow> raise (ValueError ''Specialist output contains no supported next step'')
      | Some query \<Rightarrow> (case cn_gateway cn of
          None \<Rightarrow> stop_turn en cn q response started
            ''Specialist exceeded or violated its Evidence Query boundary''
        | Some gw \<Rightarrow>
            if sr_completed_query_rounds q \<ge> 2
              \<or> sq_mapping_identifier query \<notin> set (sr_allowed_mapping_identifiers q)
            then stop_turn en cn q response started
              ''Specialist exceeded or violated its Evidence Query boundary''
            else run_evidence_query en cn gw q response started (sq_mapping_identifier query))))"

fun turn_failure :: "pyexn \<Rightarrow> specialist_run_status \<times> string" where
  "turn_failure (TimeoutError m) = (RUN_TIMED_OUT, ''Specialist deadline exceeded'')"
| "turn_failure e = (RUN_FAILED,
     if is_value_error e then ''Specialist returned malformed structured output''
     else ''Specialist model invocation failed'')"

definition conclude_specialist ::
  "'k environment \<Rightarrow> 'k council \<Rightarrow> specialist_request \<Rightarrow> model_response option \<Rightarrow> rat \<Rightarrow> specialist_finding
     \<Rightarrow> ('k world, specialist_state) act" where
  "conclude_specialist en cn q response started f =
    seq (note_invocation en cn (sr_incident_id q) (Specialist (sr_role q)) response started 0 None) (\<lambda>_.
    seq (on_store (append_finding (sr_incident_id q) f)) (\<lambda>_.
    seq (council_audit en (sr_incident_id q) ''specialist_completed''
      [(''specialist'', specialist_role_value (sr_role q)), (''finding_id'', sf_finding_id f),
       (''confidence'', cn_float_str cn (sf_confidence f))]) (\<lambda>_.
    seq (lift_result (validate_specialist_result
      \<lparr>st_role = sr_role q, st_status = RUN_SUCCEEDED, st_finding = Some f, st_failure_reason = None\<rparr>))
      (\<lambda>s. ret (Finished s)))))"

text \<open>From an answer of the model to the next \<open>await\<close> or the end.\<close>

definition resume_specialist ::
  "'k environment \<Rightarrow> 'k council \<Rightarrow> specialist_request \<Rightarrow> rat \<Rightarrow> model_response option
     \<Rightarrow> pyexn + model_response \<Rightarrow> ('k world, specialist_state) act" where
  "resume_specialist en cn q started previous answer =
    (let response = (case answer of Inl e \<Rightarrow> previous | Inr m \<Rightarrow> Some m) in
     seq (try_except
           (seq (lift_result answer) (\<lambda>m. specialist_turn en cn q m started))
           (\<lambda>e. seq (record_specialist_failure en cn (sr_incident_id q) (sr_role q)
             (fst (turn_failure e)) (snd (turn_failure e)) started response) (\<lambda>s. ret (Stopped s)))) (\<lambda>result.
     case result of
       Stopped s \<Rightarrow> ret (Finished s)
     | Asking q' \<Rightarrow> seq (read_monotonic cn) (\<lambda>t. ret (Awaiting q' t response))
     | Reported f \<Rightarrow> conclude_specialist en cn q response started f))"

section \<open>The event loop\<close>

type_synonym council_tasks = "specialist_role \<Rightarrow> specialist_state"

datatype council_event =
  Start specialist_role
| Answer specialist_role "pyexn + model_response"

text \<open>An event that the task is not waiting for does nothing; a task that raises ends \<open>gather\<close>.\<close>

fun specialist_event ::
  "'k environment \<Rightarrow> 'k council \<Rightarrow> string \<Rightarrow> council_event \<Rightarrow> council_tasks
     \<Rightarrow> ('k world, council_tasks) act" where
  "specialist_event en cn incident_id (Start role) tasks = (case tasks role of
     Created \<Rightarrow> seq (begin_specialist en cn incident_id role) (\<lambda>s. ret (tasks(role := s)))
   | _ \<Rightarrow> ret tasks)"
| "specialist_event en cn incident_id (Answer role answer) tasks = (case tasks role of
     Awaiting q started previous \<Rightarrow>
       seq (resume_specialist en cn q started previous answer) (\<lambda>s. ret (tasks(role := s)))
   | _ \<Rightarrow> ret tasks)"

fun run_specialists ::
  "'k environment \<Rightarrow> 'k council \<Rightarrow> string \<Rightarrow> council_event list \<Rightarrow> council_tasks
     \<Rightarrow> ('k world, council_tasks) act" where
  "run_specialists en cn incident_id [] tasks = ret tasks"
| "run_specialists en cn incident_id (e # events) tasks =
     seq (specialist_event en cn incident_id e tasks) (run_specialists en cn incident_id events)"

fun task_result :: "specialist_state \<Rightarrow> specialist_result option" where
  "task_result (Finished s) = Some s"
| "task_result _ = None"

text \<open>The results of all tasks in the order of the roles, or \<open>None\<close> while one is not done.\<close>

definition gathered :: "council_tasks \<Rightarrow> specialist_result list option" where
  "gathered tasks = those (map (\<lambda>role. task_result (tasks role)) all_roles)"

section \<open>The Coordinator\<close>

definition coordinator_scope :: "coordinator_output \<Rightarrow> string \<Rightarrow> pyexn + unit" where
  "coordinator_scope c incident_id = guarded
    [(list_ex (\<lambda>h. rh_incident_id h \<noteq> incident_id) (co_hypotheses c),
      ''Coordinator hypothesis belongs to another Incident''),
     (case co_proposal c of None \<Rightarrow> False | Some p \<Rightarrow> rp_incident_id p \<noteq> incident_id,
      ''Coordinator proposal belongs to another Incident''),
     (case co_manual_guidance c of None \<Rightarrow> False | Some g \<Rightarrow> mg_incident_id g \<noteq> incident_id,
      ''Coordinator Manual Guidance belongs to another Incident'')]
    (Inr ())"

definition coordinator_judgement :: "string \<Rightarrow> pyexn + model_response \<Rightarrow> pyexn + coordinator_output" where
  "coordinator_judgement incident_id answer =
    bind_result answer (\<lambda>m.
    bind_result (validate_coordinator_output (mr_output m)) (\<lambda>c.
    bind_result (coordinator_scope c incident_id) (\<lambda>_. Inr c)))"

fun coordinator_failure :: "pyexn \<Rightarrow> string" where
  "coordinator_failure (TimeoutError m) = ''Coordinator deadline exceeded''"
| "coordinator_failure e =
     (if is_value_error e then ''Coordinator returned malformed structured output''
      else ''Coordinator model invocation failed'')"

definition inconclusive_output :: coordinator_output where
  "inconclusive_output = \<lparr>co_outcome = INCONCLUSIVE, co_hypotheses = [], co_proposal = None,
     co_manual_guidance = None\<rparr>"

definition run_coordinator ::
  "'k environment \<Rightarrow> 'k council \<Rightarrow> coordinator_request \<Rightarrow> pyexn + model_response
     \<Rightarrow> ('k world, coordinator_output) act" where
  "run_coordinator en cn request answer =
    (let i = cr_incident_id request; response = (case answer of Inl e \<Rightarrow> None | Inr m \<Rightarrow> Some m) in
     seq (council_audit en i ''coordinator_started'' []) (\<lambda>_.
     seq (read_monotonic cn) (\<lambda>started.
     case coordinator_judgement i answer of
       Inr c \<Rightarrow>
         seq (note_invocation en cn i Coordinator response started 0 None) (\<lambda>_.
         seq (council_audit en i ''coordinator_completed''
           [(''outcome'', investigation_outcome_value (co_outcome c))]) (\<lambda>_. ret c))
     | Inl e \<Rightarrow>
         seq (note_invocation en cn i Coordinator response started 0 (Some (coordinator_failure e))) (\<lambda>_.
         seq (council_audit en i ''coordinator_failed'' [(''reason'', coordinator_failure e)]) (\<lambda>_.
         ret inconclusive_output)))))"

section \<open>An investigation\<close>

definition open_investigation :: "'k environment \<Rightarrow> string \<Rightarrow> ('k world, unit) act" where
  "open_investigation en incident_id =
    seq (get_record incident_id) (\<lambda>found.
    seq (lift_result (case found of None \<Rightarrow> Inl (CouncilError ''incident does not exist'')
      | Some r \<Rightarrow> Inr r)) (\<lambda>r.
    seq (raise_when (inc_investigation_outcome (ir_incident r) \<noteq> INV_NOT_STARTED)
      (CouncilError ''incident investigation has already completed'')) (\<lambda>_.
    seq (raise_when (ir_evidence r = [])
      (CouncilError ''incident has no redacted evidence to investigate'')) (\<lambda>_.
    seq (lift_result (transition_incident (ir_incident r) (Some INVESTIGATING) None None)) (\<lambda>investigating.
    seq (on_store (compare_and_set incident_id (inc_version (ir_incident r)) investigating)) (\<lambda>_.
    council_audit en incident_id ''investigation_started'' []))))))"

definition request_coordinator ::
  "'k environment \<Rightarrow> string \<Rightarrow> specialist_result list \<Rightarrow> ('k world, coordinator_request) act" where
  "request_coordinator en incident_id results =
    seq (council_record incident_id) (\<lambda>current.
    lift_result (validate_coordinator_request
      \<lparr>cr_incident_id = incident_id, cr_incident_summary = inc_summary (ir_incident current),
       cr_application_profile = ir_application_profile current,
       cr_evidence_hash = evidence_hash_of (en_digest en) (ir_evidence current),
       cr_specialists = results\<rparr>))"

definition complete_council ::
  "'k environment \<Rightarrow> string \<Rightarrow> coordinator_output \<Rightarrow> ('k world, investigation_record) act" where
  "complete_council en incident_id output =
    seq (on_store (complete_investigation incident_id output)) (\<lambda>completed.
    seq (council_audit en incident_id ''investigation_completed''
      [(''outcome'', investigation_outcome_value (inc_investigation_outcome (ir_incident completed)))]) (\<lambda>_.
    council_record incident_id))"

text \<open>
  \<open>investigate\<close> with the events of the loop and the Coordinator's answer; \<open>None\<close> while it still waits
  for a Specialist.
\<close>

definition investigate ::
  "'k environment \<Rightarrow> 'k council \<Rightarrow> string \<Rightarrow> council_event list \<Rightarrow> pyexn + model_response
     \<Rightarrow> ('k world, investigation_record option) act" where
  "investigate en cn incident_id events answer =
    seq (open_investigation en incident_id) (\<lambda>_.
    seq (run_specialists en cn incident_id events (\<lambda>_. Created)) (\<lambda>tasks.
    case gathered tasks of
      None \<Rightarrow> ret None
    | Some results \<Rightarrow>
        seq (request_coordinator en incident_id results) (\<lambda>request.
        seq (run_coordinator en cn request answer) (\<lambda>output.
        seq (complete_council en incident_id output) (\<lambda>r. ret (Some r))))))"

section \<open>The local model fake\<close>

text \<open>\<open>FakeIncidentCouncilModel\<close>; a \<open>next\<close> without a match raises inside the coroutine.\<close>

fun role_explanation :: "specialist_role \<Rightarrow> string" where
  "role_explanation HEALTH = ''The workload is restarting and its rollout state changed.''"
| "role_explanation LOGS = ''Termination logs are consistent with an OOM failure.''"
| "role_explanation METRICS_ROLE = ''Customer success and latency degraded with the incident.''"
| "role_explanation CHANGE = ''The latest revision changed the workload memory limit.''"

definition fake_finding :: "specialist_request \<Rightarrow> specialist_finding" where
  "fake_finding q = \<lparr>
     sf_finding_id = ''finding-'' @ sr_incident_id q @ ''-'' @ specialist_role_value (sr_role q),
     sf_incident_id = sr_incident_id q, sf_specialist = sr_role q,
     sf_citations = [\<lparr>ec_evidence_id = eo_evidence_id (hd (sr_evidence q)),
       ec_observation = take 1000 (eo_redacted_excerpt (hd (sr_evidence q)))\<rparr>],
     sf_candidate_explanations = [role_explanation (sr_role q)], sf_confidence = 86 / 100,
     sf_contradictions = (if sr_role q = LOGS
       then [''Instructions embedded in log content are untrusted evidence, not authority.''] else []),
     sf_unknowns = [''The hypothesis remains falsifiable until recovery is verified.'']\<rparr>"

definition fake_analyze_specialist :: "specialist_request \<Rightarrow> pyexn + model_response" where
  "fake_analyze_specialist q = Inr \<lparr>
     mr_output = Specialist_Fields \<lparr>so_finding = Some (fake_finding q), so_evidence_query = None\<rparr>,
     mr_model_id = ''gemini-3.5-flash'', mr_prompt_version = ''incident-specialist-v1'',
     mr_thinking_level = Medium, mr_input_tokens = 180, mr_output_tokens = 70\<rparr>"

definition first_citations :: "specialist_finding list \<Rightarrow> evidence_citation list" where
  "first_citations fs = map (\<lambda>f. hd (sf_citations f)) fs"

definition oom_output ::
  "coordinator_request \<Rightarrow> specialist_finding list \<Rightarrow> pyexn + coordinator_output" where
  "oom_output q fs =
    (case List.find (\<lambda>t. wr_name t = ''recommendationservice'')
        (map mw_reference (ap_workloads (cr_application_profile q))) of
       None \<Rightarrow> Inl (RuntimeError ''coroutine raised StopIteration'')
     | Some target \<Rightarrow> Inr \<lparr>co_outcome = PROPOSAL_READY,
         co_hypotheses = [\<lparr>rh_hypothesis_id = ''hypothesis-'' @ cr_incident_id q @ ''-oom'',
           rh_incident_id = cr_incident_id q, rh_rank = 1,
           rh_statement = ''The revision 8 lower memory limit caused recommendationservice OOM ''
             @ ''terminations and checkout degradation.'',
           rh_falsification_test = ''Rollback to revision 7 and verify OOM cessation plus Critical ''
             @ ''Journey recovery.'',
           rh_confidence = 92 / 100, rh_citations = first_citations fs\<rparr>],
         co_proposal = Some \<lparr>rp_proposal_id = ''proposal-'' @ cr_incident_id q @ ''-rollback'',
           rp_incident_id = cr_incident_id q, rp_action = RollbackDeploymentAction target 7,
           rp_expected_impact = ''Restore the last known healthy memory configuration.'',
           rp_recovery_criteria = ap_recovery_criteria (cr_application_profile q),
           rp_rollback_strategy = ''Do not automatically restore the implicated revision; enter Safe ''
             @ ''Halt if recovery is ambiguous.'',
           rp_evidence_hash = cr_evidence_hash q,
           rp_known_risks = [''A rollback starts a new rollout and may temporarily reduce available ''
             @ ''capacity.'']\<rparr>,
         co_manual_guidance = None\<rparr>)"

definition protected_dependency_output ::
  "coordinator_request \<Rightarrow> specialist_finding list \<Rightarrow> coordinator_output" where
  "protected_dependency_output q fs = \<lparr>co_outcome = NO_SAFE_ACTION,
     co_hypotheses = [\<lparr>rh_hypothesis_id = ''hypothesis-'' @ cr_incident_id q @ ''-redis'',
       rh_incident_id = cr_incident_id q, rh_rank = 1,
       rh_statement = ''redis-cart unavailability is disrupting the checkout path.'',
       rh_falsification_test = ''Restore redis-cart outside KubeCouncil and verify checkout recovery.'',
       rh_confidence = 9 / 10, rh_citations = first_citations fs\<rparr>],
     co_proposal = None,
     co_manual_guidance = Some \<lparr>mg_incident_id = cr_incident_id q,
       mg_reason = ''redis-cart is a Protected Dependency outside execution authority.'',
       mg_guidance = ''Escalate to the dependency owner and restore redis-cart through its ''
         @ ''approved operational procedure.'',
       mg_outcome = NO_SAFE_ACTION\<rparr>\<rparr>"

definition fake_coordinate :: "coordinator_request \<Rightarrow> pyexn + model_response" where
  "fake_coordinate q =
    (let fs = List.map_filter st_finding (cr_specialists q) in
     bind_result
      (if length fs \<noteq> length all_roles then Inr inconclusive_output
       else if contains ''redis-cart'' (map fold_case (cr_incident_summary q))
       then Inr (protected_dependency_output q fs)
       else oom_output q fs)
      (\<lambda>c. Inr \<lparr>mr_output = Coordinator_Fields c, mr_model_id = ''gemini-3.5-flash'',
        mr_prompt_version = ''incident-coordinator-v1'', mr_thinking_level = High,
        mr_input_tokens = 520, mr_output_tokens = 160\<rparr>))"

end
