(* ===== verification/Workers.thy ===== *)
theory Workers
  imports Alerts Council Executor
begin

text \<open>
  The workers (\<open>runtime/workers.py\<close>): the Executor's loop over Intervention requests and the
  Investigator's loop over alerts, which composes ingestion, evidence collection, the Council and
  the proposal policy. The loops run over the deliveries pulled, in order; a delivery holds what
  \<open>model_validate_json\<close> makes of its data. Parsing, the subscription's acknowledgement and the process
  wiring above the loops are parameters.
\<close>

section \<open>The Executor's loop\<close>

fun is_execution_error :: "pyexn \<Rightarrow> bool" where
  "is_execution_error (InterventionExecutionError m) = True"
| "is_execution_error e = False"

text \<open>One request: acknowledged after a return and after a deterministic refusal or halt.\<close>

definition handle_request ::
  "'k environment \<Rightarrow> timedelta \<Rightarrow> (string \<Rightarrow> ('m, unit) act) \<Rightarrow> string \<Rightarrow> pyexn + intervention_request
     \<Rightarrow> ('k world \<times> 'm, unit) act" where
  "handle_request en ttl acknowledge ack_id request s =
    (case seq (lift_result request) (\<lambda>q. on_part fst apfst (consume en ttl ''gke-executor'' q)) s of
       (Inr _, s') \<Rightarrow> on_part snd apsnd (acknowledge ack_id) s'
     | (Inl e, s') \<Rightarrow> if is_execution_error e then on_part snd apsnd (acknowledge ack_id) s' else (Inr (), s'))"

fun run_executor_worker ::
  "'k environment \<Rightarrow> timedelta \<Rightarrow> (string \<Rightarrow> ('m, unit) act) \<Rightarrow> (string \<times> (pyexn + intervention_request)) list
     \<Rightarrow> ('k world \<times> 'm, unit) act" where
  "run_executor_worker en ttl acknowledge [] = ret ()"
| "run_executor_worker en ttl acknowledge ((ack_id, request) # deliveries) =
     seq (handle_request en ttl acknowledge ack_id request) (\<lambda>_.
     run_executor_worker en ttl acknowledge deliveries)"

section \<open>The Investigator's loop\<close>

record 'k investigator =
  wk_alerts :: "'k alert_services"
  wk_provider :: "'k evidence_provider"
  wk_redactor :: "string \<Rightarrow> pyexn + string"
  wk_council :: "'k council"

text \<open>A delivery, with the events and the answer of the investigation it may start.\<close>

record alert_delivery =
  dv_ack_id :: string
  dv_notification :: "pyexn + alert_notification"
  dv_events :: "council_event list"
  dv_answer :: "pyexn + model_response"

text \<open>\<open>ingestion.consume\<close> on a message in memory, with its \<open>acknowledged\<close> flag.\<close>

definition ingest_alert ::
  "'k environment \<Rightarrow> 'k alert_services \<Rightarrow> alert_notification \<Rightarrow> ('k world, investigation_record \<times> bool) act" where
  "ingest_alert en al n w = (case consume_alert en al flag_acknowledged n (w, False) of
     (Inl e, (w', acknowledged)) \<Rightarrow> (Inl e, w')
   | (Inr r, (w', acknowledged)) \<Rightarrow> (Inr (r, acknowledged), w'))"

definition collect_initial ::
  "'k environment \<Rightarrow> 'k investigator \<Rightarrow> alert_notification \<Rightarrow> investigation_record \<Rightarrow> ('k world, unit) act" where
  "collect_initial en wk n r =
    (if ir_evidence r = [] then
       seq (lift_result (normalize n)) (\<lambda>g.
       collect en (wk_provider wk) (wk_redactor wk) (inc_incident_id (ir_incident r))
         (ir_application_profile r) g (ir_evidence_window r))
     else ret ())"

text \<open>The Council and the policy; \<open>False\<close> while the worker waits for the Council.\<close>

definition investigate_alert ::
  "'k environment \<Rightarrow> 'k investigator \<Rightarrow> string \<Rightarrow> council_event list \<Rightarrow> pyexn + model_response
     \<Rightarrow> ('k world, bool) act" where
  "investigate_alert en wk incident_id events answer =
    seq (get_record incident_id) (\<lambda>current. case current of
      None \<Rightarrow> ret True
    | Some c \<Rightarrow>
        if ir_evidence c \<noteq> [] \<and> inc_investigation_outcome (ir_incident c) = INV_NOT_STARTED then
          seq (investigate en (wk_council wk) incident_id events answer) (\<lambda>investigated.
          case investigated of
            None \<Rightarrow> ret False
          | Some r \<Rightarrow> if ir_proposal r = None then ret True
              else seq (evaluate_and_record en incident_id) (\<lambda>_. ret True))
        else ret True)"

definition handle_alert ::
  "'k environment \<Rightarrow> 'k investigator \<Rightarrow> (string \<Rightarrow> ('m, unit) act) \<Rightarrow> alert_delivery
     \<Rightarrow> ('k world \<times> 'm, bool) act" where
  "handle_alert en wk acknowledge d =
    try_except
      (seq (lift_result (dv_notification d)) (\<lambda>n.
       seq (on_part fst apfst (ingest_alert en (wk_alerts wk) n)) (\<lambda>(r, acknowledged).
       seq (raise_when (\<not> acknowledged)
         (RuntimeError ''alert persistence completed without acknowledgement'')) (\<lambda>_.
       seq (on_part snd apsnd (acknowledge (dv_ack_id d))) (\<lambda>_.
       seq (on_part fst apfst (collect_initial en wk n r)) (\<lambda>_.
       on_part fst apfst (investigate_alert en wk (inc_incident_id (ir_incident r))
         (dv_events d) (dv_answer d))))))))
      (\<lambda>_. ret True)"

fun run_alert_worker ::
  "'k environment \<Rightarrow> 'k investigator \<Rightarrow> (string \<Rightarrow> ('m, unit) act) \<Rightarrow> alert_delivery list
     \<Rightarrow> ('k world \<times> 'm, bool) act" where
  "run_alert_worker en wk acknowledge [] = ret True"
| "run_alert_worker en wk acknowledge (d # deliveries) =
     seq (handle_alert en wk acknowledge d) (\<lambda>done'.
     if done' then run_alert_worker en wk acknowledge deliveries else ret False)"

end
