(* ===== verification/Redaction_Guarantees.thy ===== *)
theory Redaction_Guarantees
  imports Redaction
begin

text \<open>
  Redaction is complete: nothing the expression matches is left, not even a match that spans
  retained text and the marker. A match is a \<open>header\<close> without a marker character followed by a
  value, and redacting the rest of a text neither changes such a header nor what can follow it.
\<close>

section \<open>Headers\<close>

definition plain_words :: "string list \<Rightarrow> bool" where
  "plain_words ks \<longleftrightarrow> list_all (\<lambda>k. k \<noteq> [] \<and> list_all (\<lambda>c. c \<in> set ''abcdefghijklmnopqrstuvwxyz-_'') k) ks"

lemma keywords_plain: "plain_words secret_keywords" "plain_words [''authorization'']"
  by code_simp+

lemma fold_case_special:
  "fold_case c = k \<Longrightarrow> k \<in> set ''abcdefghijklmnopqrstuvwxyz-_'' \<Longrightarrow>
     c \<noteq> CHR ''<'' \<and> \<not> white_space c \<and> \<not> is_quote c \<and> \<not> delimiter c"
  by (auto simp: fold_case_def white_space_def is_quote_def double_quote_def single_quote_def
      delimiter_def)

lemma strip_word_alt:
  "strip_word k s = (if map fold_case (take (length k) s) = k then Some (drop (length k) s) else None)"
  by (induction k s rule: strip_word.induct) auto

definition prefix_free :: "string list \<Rightarrow> bool" where
  "prefix_free ks \<longleftrightarrow> list_all (\<lambda>k. list_all (\<lambda>k'. take (length k) k' = k \<longrightarrow> k = k') ks) ks"

lemma keywords_prefix_free: "prefix_free secret_keywords" "prefix_free [''authorization'']"
  by code_simp+

lemma same_word:
  assumes "map fold_case (take (length k) s) = k" "map fold_case (take (length l) s) = l"
    and "k \<in> set ks" "l \<in> set ks" "prefix_free ks"
  shows "k = l"
proof -
  have sub: "take (length a) b = a" if "length a \<le> length b"
    "map fold_case (take (length a) s) = a" "map fold_case (take (length b) s) = b" for a b
    using that by (metis min.absorb1 take_map take_take)
  have pf: "a = b" if "take (length a) b = a" "a \<in> set ks" "b \<in> set ks" for a b
    by (rule mp [OF bspec [OF bspec [OF assms(5) [unfolded prefix_free_def list_all_iff] that(2)] that(3)] that(1)])
  show ?thesis
  proof (cases "length k \<le> length l")
    case True
    then show ?thesis by (rule pf [OF sub [OF _ assms(1,2)] assms(3,4)])
  next
    case False
    then have "length l \<le> length k" by simp
    then show ?thesis using pf [OF sub [OF _ assms(2,1)] assms(4,3)] by simp
  qed
qed

lemma strip_any_iff:
  assumes "prefix_free ks" "set js \<subseteq> set ks"
  shows "strip_any js s = Some r \<longleftrightarrow>
    (\<exists>k\<in>set js. map fold_case (take (length k) s) = k \<and> r = drop (length k) s)"
  using assms(2)
proof (induction js)
  case (Cons j js)
  show ?case
  proof (cases "strip_word j s")
    case None
    then show ?thesis using Cons by (auto simp: strip_word_alt split: if_splits)
  next
    case (Some q)
    then have j: "map fold_case (take (length j) s) = j" "q = drop (length j) s"
      by (auto simp: strip_word_alt split: if_splits)
    have k: "k = j" if "k \<in> set (j # js)" "map fold_case (take (length k) s) = k" for k
      by (rule same_word [OF that(2) j(1) _ _ assms(1)]) (use that(1) Cons.prems in auto)
    have "strip_any (j # js) s = Some q" using Some by simp
    then have "strip_any (j # js) s = Some r \<longleftrightarrow> r = drop (length j) s" using j(2) by auto
    then show ?thesis using k j(1) by (metis list.set_intros(1))
  qed
qed simp

lemma strip_any_word:
  assumes "prefix_free ks" "k \<in> set ks" "map fold_case word = k"
  shows "strip_any ks (word @ x) = Some x"
  by (rule iffD2 [OF strip_any_iff [OF assms(1) subset_refl]], rule bexI [OF _ assms(2)])
    (simp add: assms(3) [symmetric])

definition bare :: "char \<Rightarrow> bool" where
  "bare c \<longleftrightarrow> c \<noteq> CHR ''<''"

lemma word_split:
  assumes "plain_words ks" "k \<in> set ks" "map fold_case (take (length k) s) = k"
  shows "list_all bare (take (length k) s)" "k \<noteq> []"
    "s = take (length k) s @ drop (length k) s" "length (take (length k) s) = length k"
proof -
  show "length (take (length k) s) = length k" using arg_cong [OF assms(3), of length] by simp
  show "k \<noteq> []" using assms(1,2) by (auto simp: plain_words_def list_all_iff)
  show "list_all bare (take (length k) s)"
  proof (unfold list_all_iff bare_def, intro ballI)
    fix c assume "c \<in> set (take (length k) s)"
    then have "fold_case c \<in> set k" using assms(3) by (metis image_eqI list.set_map)
    then have "fold_case c \<in> set ''abcdefghijklmnopqrstuvwxyz-_''"
      using assms(1,2) by (auto simp: plain_words_def list_all_iff)
    then show "c \<noteq> CHR ''<''" using fold_case_special [OF refl] by blast
  qed
qed simp

text \<open>A header is a marker-free prefix, and it is one in front of any text.\<close>

definition any_header :: "string list \<Rightarrow> char list \<Rightarrow> string \<Rightarrow> bool" where
  "any_header ks seps p \<longleftrightarrow> p \<noteq> [] \<and> list_all bare p \<and> (\<forall>u. header ks seps (p @ u) = Some u)"

lemma skip_quote_split: "\<exists>q. s = q @ skip_quote s \<and> list_all bare q \<and> (\<forall>c u. \<not> is_quote c \<longrightarrow>
    skip_quote (q @ c # u) = c # u)"
  by (cases s) (auto simp: bare_def is_quote_def double_quote_def single_quote_def intro: exI [of _ "[]"])

lemma white_split: "list_all bare (takeWhile white_space s)"
  by (induction s) (auto simp: bare_def white_space_def)

lemma white_not_quote: "white_space c \<Longrightarrow> \<not> is_quote c"
  by (auto simp: white_space_def is_quote_def double_quote_def single_quote_def)

lemma header_split:
  assumes "header ks seps s = Some r" "plain_words ks" "prefix_free ks"
    and seps: "list_all (\<lambda>c. c = CHR '':'' \<or> c = CHR ''='') seps"
  shows "\<exists>p. s = p @ r \<and> any_header ks seps p"
proof -
  obtain r1 where r1: "strip_any ks (skip_quote s) = Some r1"
    and sep: "after_separator seps (dropWhile white_space (skip_quote r1)) = Some r"
    using assms(1) by (auto simp: header_def split: option.splits)
  obtain q where q: "s = q @ skip_quote s" "list_all bare q"
    "\<And>c u. \<not> is_quote c \<Longrightarrow> skip_quote (q @ c # u) = c # u" using skip_quote_split [of s] by blast
  obtain q2 where q2: "r1 = q2 @ skip_quote r1" "list_all bare q2"
    "\<And>c u. \<not> is_quote c \<Longrightarrow> skip_quote (q2 @ c # u) = c # u" using skip_quote_split [of r1] by blast
  obtain k where k: "k \<in> set ks" "map fold_case (take (length k) (skip_quote s)) = k"
    "r1 = drop (length k) (skip_quote s)"
    using r1 strip_any_iff [OF assms(3) subset_refl] by blast
  define word where "word = take (length k) (skip_quote s)"
  note w = word_split [OF assms(2) k(1,2), folded word_def]
  obtain c w' where cw: "word = c # w'" using w(2,4) by (cases word) auto
  have "fold_case c \<in> set k" using k(2) cw by (metis list.set_intros(1) list.simps(9) word_def)
  then have c: "\<not> is_quote c" using assms(2) k(1) fold_case_special [OF refl, of c]
    by (auto simp: plain_words_def list_all_iff)
  let ?W = "takeWhile white_space (skip_quote r1)"
  obtain d where d: "dropWhile white_space (skip_quote r1) = d # r" "d \<in> set seps"
    using sep by (cases "dropWhile white_space (skip_quote r1)") (auto split: if_splits)
  have d': "d = CHR '':'' \<or> d = CHR ''=''" using seps d(2) by (auto simp: list_all_iff)
  then have dn: "\<not> white_space d" "\<not> is_quote d" "bare d"
    by (auto simp: white_space_def is_quote_def double_quote_def single_quote_def bare_def)
  have W: "skip_quote r1 = ?W @ d # r" using d(1) by (metis takeWhile_dropWhile_id)
  let ?p = "q @ word @ q2 @ ?W @ [d]"
  have "s = ?p @ r" using q(1) q2(1) W w(3) k(3) word_def by (metis append.assoc append_Cons append_Nil)
  moreover have "header ks seps (?p @ u) = Some u" for u
  proof -
    have 1: "skip_quote (?p @ u) = word @ q2 @ ?W @ d # u"
      using q(3) [OF c, of "w' @ q2 @ ?W @ d # u"] cw by simp
    have 2: "strip_any ks (word @ q2 @ ?W @ d # u) = Some (q2 @ ?W @ d # u)"
      by (rule strip_any_word [OF assms(3) k(1)]) (use k(2) word_def in simp)
    have 3: "skip_quote (q2 @ ?W @ d # u) = ?W @ d # u"
    proof (cases ?W)
      case Nil
      then show ?thesis using q2(3) [OF dn(2)] by simp
    next
      case (Cons x xs)
      then have "white_space x" by (metis list.set_intros(1) set_takeWhileD)
      then show ?thesis using q2(3) [of x] white_not_quote Cons by simp
    qed
    have 4: "dropWhile white_space (?W @ d # u) = d # u"
      using dn(1) by (subst dropWhile_append2) (auto dest: set_takeWhileD)
    show ?thesis unfolding header_def 1 2 option.case 3 4 using d(2) by simp
  qed
  moreover have "list_all bare ?p" using q(2) w(1) q2(2) white_split dn(3) by simp
  ultimately show ?thesis unfolding any_header_def by (intro exI [of _ ?p]) simp
qed

section \<open>Where a match can start and what must follow\<close>

lemma header_start:
  assumes "header ks seps (c # s) = Some r" "plain_words ks" "prefix_free ks"
  shows "\<not> white_space c \<and> \<not> delimiter c"
proof (cases "is_quote c")
  case True
  then show ?thesis by (auto simp: is_quote_def double_quote_def single_quote_def white_space_def delimiter_def)
next
  case False
  then obtain t where "strip_any ks (c # s) = Some t" using assms(1)
    by (auto simp: header_def split: option.splits)
  then obtain k where k: "k \<in> set ks" "map fold_case (take (length k) (c # s)) = k"
    using strip_any_iff [OF assms(3) subset_refl] by blast
  obtain d ds where "k = d # ds" using word_split(2) [OF assms(2) k] by (cases k) auto
  with k(2) have "fold_case c \<in> set k" by simp
  then show ?thesis using k(1) assms(2) fold_case_special [OF refl, of c]
    by (auto simp: plain_words_def list_all_iff)
qed

lemma sensitive_start: "sensitive (c # s) \<noteq> None \<Longrightarrow> \<not> white_space c \<and> \<not> delimiter c"
  using header_start keywords_plain keywords_prefix_free by (fastforce simp: sensitive_def split: option.splits)

lemma value_end_iff: "value_end stop s \<noteq> None \<longleftrightarrow> (\<exists>c r. s = c # r \<and> (\<not> stop c \<or> is_quote c \<and> c \<in> set r))"
  by (cases s) (auto simp: value_end_def quoted_def plain_def split: option.splits)

lemma quote_not_delimiter: "is_quote c \<Longrightarrow> \<not> delimiter c"
  by (auto simp: is_quote_def double_quote_def single_quote_def delimiter_def)

lemma dropWhile_Cons_not: "dropWhile P s = c # r \<Longrightarrow> \<not> P c"
  by (simp add: dropWhile_eq_Cons_conv)

lemma secret_value_iff:
  "secret_value s \<noteq> None \<longleftrightarrow> (\<exists>c r. dropWhile white_space s = c # r \<and> \<not> delimiter c)"
  unfolding secret_value_def value_end_iff
  using dropWhile_Cons_not [of white_space s] quote_not_delimiter by blast

lemma authorization_value_iff:
  "authorization_value s \<noteq> None \<longleftrightarrow>
     (\<exists>c r. dropWhile white_space s = c # r \<and> \<not> delimiter c) \<or> (\<exists>c r. s = c # r \<and> white_space c)"
proof -
  have "length (dropWhile white_space s) < length s \<longleftrightarrow> (\<exists>c r. s = c # r \<and> white_space c)"
    using dropWhile_length [of white_space "tl s"] by (cases s) auto
  moreover have "value_end delimiter (dropWhile white_space s) \<noteq> None \<longleftrightarrow>
      (\<exists>c r. dropWhile white_space s = c # r \<and> \<not> delimiter c)"
    unfolding value_end_iff using quote_not_delimiter by blast
  moreover have "authorization_value s \<noteq> None \<longleftrightarrow> value_end delimiter (dropWhile white_space s) \<noteq> None
      \<or> length (dropWhile white_space s) < length s"
    by (simp add: authorization_value_def Let_def split: option.splits)
  ultimately show ?thesis by blast
qed

lemma first_or_second:
  "(case (case h of None \<Rightarrow> None | Some r \<Rightarrow> f r) of Some t \<Rightarrow> Some t
     | None \<Rightarrow> (case h' of None \<Rightarrow> None | Some r \<Rightarrow> g r)) \<noteq> None
   \<longleftrightarrow> (\<exists>r. h = Some r \<and> f r \<noteq> None) \<or> (\<exists>r. h' = Some r \<and> g r \<noteq> None)"
  by (cases h; cases h') (auto split: option.split)

lemma sensitive_cases:
  "sensitive s \<noteq> None \<longleftrightarrow>
     (\<exists>r. header secret_keywords [CHR '':'', CHR ''=''] s = Some r \<and> secret_value r \<noteq> None)
   \<or> (\<exists>r. header [''authorization''] [CHR '':''] s = Some r \<and> authorization_value r \<noteq> None)"
  unfolding sensitive_def by (rule first_or_second)

lemma sensitive_iff:
  "sensitive s \<noteq> None \<longleftrightarrow>
     (\<exists>p u. s = p @ u \<and> any_header secret_keywords [CHR '':'', CHR ''=''] p \<and> secret_value u \<noteq> None)
   \<or> (\<exists>p u. s = p @ u \<and> any_header [''authorization''] [CHR '':''] p \<and> authorization_value u \<noteq> None)"
  (is "_ \<longleftrightarrow> ?secret \<or> ?auth")
proof
  have split1: "\<exists>p. s = p @ r \<and> any_header secret_keywords [CHR '':'', CHR ''=''] p"
    if "header secret_keywords [CHR '':'', CHR ''=''] s = Some r" for r
    by (rule header_split [OF that keywords_plain(1) keywords_prefix_free(1)]) simp
  have split2: "\<exists>p. s = p @ r \<and> any_header [''authorization''] [CHR '':''] p"
    if "header [''authorization''] [CHR '':''] s = Some r" for r
    by (rule header_split [OF that keywords_plain(2) keywords_prefix_free(2)]) simp
  assume "sensitive s \<noteq> None"
  then show "?secret \<or> ?auth" unfolding sensitive_cases
  proof (elim disjE exE conjE)
    fix r assume r: "header secret_keywords [CHR '':'', CHR ''=''] s = Some r" "secret_value r \<noteq> None"
    from split1 [OF r(1)] r(2) have ?secret by (elim exE conjE) (intro exI conjI)
    then show ?thesis by (rule disjI1)
  next
    fix r assume r: "header [''authorization''] [CHR '':''] s = Some r" "authorization_value r \<noteq> None"
    from split2 [OF r(1)] r(2) have ?auth by (elim exE conjE) (intro exI conjI)
    then show ?thesis by (rule disjI2)
  qed
next
  assume "?secret \<or> ?auth"
  then show "sensitive s \<noteq> None" unfolding sensitive_cases any_header_def
    by (elim disjE exE conjE) (intro disjI1 exI conjI, simp, assumption, intro disjI2 exI conjI, simp, assumption)
qed

section \<open>What redaction leaves\<close>

lemma redact_prefix:
  "redact_text s = p @ t \<Longrightarrow> list_all bare p \<Longrightarrow> \<exists>u. s = p @ u \<and> redact_text u = t"
proof (induction p arbitrary: s)
  case (Cons c p)
  show ?case
  proof (cases s)
    case Nil
    with Cons.prems show ?thesis by simp
  next
    case (Cons d s')
    show ?thesis
    proof (cases "sensitive s")
      case None
      then have "c = d" "redact_text s' = p @ t" using Cons Cons.prems(1) by (simp_all add: redact_text_Cons)
      then show ?thesis using Cons.IH [of s'] Cons.prems(2) Cons by auto
    next
      case (Some r)
      then have "c = CHR ''<''" using Cons Cons.prems(1) by (simp add: redact_text_Cons)
      then show ?thesis using Cons.prems(2) by (simp add: bare_def)
    qed
  qed
qed simp

lemma redact_head:
  "redact_text (c # s) = d # t \<Longrightarrow> d = c \<and> sensitive (c # s) = None
     \<or> d = CHR ''<'' \<and> sensitive (c # s) \<noteq> None"
  by (auto simp: redact_text_Cons split: option.splits)

lemma redact_nonempty: "redact_text (c # s) \<noteq> []"
  by (auto simp: redact_text_Cons split: option.splits)

lemma marker_not_white: "\<not> white_space (CHR ''<'')"
  by (simp add: white_space_def)

lemma dropWhile_redact: "dropWhile white_space (redact_text s) = redact_text (dropWhile white_space s)"
proof (induction s)
  case (Cons c s)
  obtain d t where r: "redact_text (c # s) = d # t" using redact_nonempty [of c s] by (cases "redact_text (c # s)") auto
  show ?case
  proof (cases "white_space c")
    case True
    then have "sensitive (c # s) = None" using sensitive_start [of c s] by blast
    then show ?thesis using True Cons by (simp add: redact_text_Cons)
  next
    case False
    then have "\<not> white_space d" using redact_head [OF r] marker_not_white by auto
    then show ?thesis using False r by simp
  qed
qed simp

lemma value_before:
  assumes "dropWhile white_space (redact_text u) = c # r" "\<not> delimiter c"
  shows "\<exists>c r. dropWhile white_space u = c # r \<and> \<not> delimiter c"
proof (cases "dropWhile white_space u")
  case Nil
  then show ?thesis using assms(1) unfolding dropWhile_redact Nil by simp
next
  case (Cons d s)
  then have "redact_text (d # s) = c # r" using assms(1) by (simp add: dropWhile_redact)
  then have "\<not> delimiter d" using redact_head [of d s c r] sensitive_start [of d s] assms(2) by auto
  with Cons show ?thesis by blast
qed

lemma retained_not_sensitive:
  assumes none: "sensitive (c # s) = None"
  shows "sensitive (c # redact_text s) = None"
proof (rule ccontr)
  have was: "\<exists>u. c # s = p @ u \<and> redact_text u = v"
    if "c # redact_text s = p @ v" "any_header ks seps p" for p v ks seps
    using that redact_prefix [of s "tl p" v] by (cases p) (auto simp: any_header_def)
  assume "sensitive (c # redact_text s) \<noteq> None"
  then consider p v where "c # redact_text s = p @ v"
      "any_header secret_keywords [CHR '':'', CHR ''=''] p" "secret_value v \<noteq> None"
    | p v where "c # redact_text s = p @ v"
      "any_header [''authorization''] [CHR '':''] p" "authorization_value v \<noteq> None"
    unfolding sensitive_iff by blast
  then show False
  proof cases
    case 1
    from was [OF 1(1,2)] obtain u where u: "c # s = p @ u" "redact_text u = v" by blast
    have "secret_value u \<noteq> None" using 1(3) value_before u(2) unfolding secret_value_iff by blast
    then show False using none u(1) 1(2) sensitive_iff by blast
  next
    case 2
    from was [OF 2(1,2)] obtain u where u: "c # s = p @ u" "redact_text u = v" by blast
    have "\<exists>d r. u = d # r \<and> white_space d" if "v = d # r" "white_space d" for d r
      using that u(2) redact_head [of "hd u" "tl u" d r] marker_not_white by (cases u) auto
    then have "authorization_value u \<noteq> None" using 2(3) value_before u(2)
      unfolding authorization_value_iff by blast
    then show False using none u(1) 2(2) sensitive_iff by blast
  qed
qed

lemma marker_not_sensitive:
  assumes "n < length ''<redacted>''"
  shows "sensitive (drop n ''<redacted>'' @ t) = None"
proof -
  have "n \<in> {0,1,2,3,4,5,6,7,8,9}" using assms by auto
  then show ?thesis
    by (auto simp: sensitive_def header_def secret_keywords_def is_quote_def double_quote_def
        single_quote_def fold_case_def)
qed

lemma sensitive_Nil: "sensitive [] = None"
  by code_simp

lemma redacted_not_sensitive: "sensitive (drop n (redact_text s)) = None"
proof (induction s arbitrary: n rule: redact_text.induct)
  case (1 s)
  show ?case
  proof (cases s)
    case Nil
    then show ?thesis by (simp add: sensitive_Nil)
  next
    case (Cons c cs)
    show ?thesis
    proof (cases "sensitive s")
      case None
      have "sensitive (drop n (redact_text s)) = sensitive (c # redact_text cs)" if "n = 0"
        using that None Cons by (simp add: redact_text_Cons)
      moreover have "sensitive (drop n (redact_text s)) = None" if "n = Suc m" for m
        using that None Cons 1(1) [OF Cons None] by (simp add: redact_text_Cons)
      ultimately show ?thesis using retained_not_sensitive None Cons by (cases n) auto
    next
      case (Some rest)
      have r: "redact_text s = ''<redacted>'' @ redact_text rest"
        using Some Cons by (simp add: redact_text_Cons)
      show ?thesis
      proof (cases "n < length ''<redacted>''")
        case True
        then have "n - length ''<redacted>'' = 0" by simp
        then show ?thesis unfolding r drop_append using marker_not_sensitive [OF True, of "redact_text rest"]
          by (simp only: drop_0)
      next
        case False
        then have "drop n ''<redacted>'' = []" by simp
        then show ?thesis unfolding r drop_append using 1(2) [OF Cons Some] by (simp only: append_Nil)
      qed
    qed
  qed
qed

lemma nothing_to_redact: "(\<And>n. sensitive (drop n s) = None) \<Longrightarrow> redact_text s = s"
proof (induction s)
  case (Cons c s)
  from Cons.prems [of 0] have "sensitive (c # s) = None" by simp
  moreover have "redact_text s = s" by (rule Cons.IH) (use Cons.prems [of "Suc n" for n] in simp)
  ultimately show ?case by (simp add: redact_text_Cons)
qed simp

lemma assignment_sensitive:
  assumes "k \<in> set secret_keywords" "d = CHR '':'' \<or> d = CHR ''=''" "\<not> white_space x" "\<not> delimiter x"
  shows "sensitive (k @ d # x # t) \<noteq> None"
proof -
  have k: "map fold_case k = k" "skip_quote (k @ u) = k @ u" for u
    using assms(1) by (auto simp: secret_keywords_def fold_case_def is_quote_def double_quote_def single_quote_def)
  have d: "\<not> white_space d" "\<not> is_quote d" using assms(2)
    by (auto simp: white_space_def is_quote_def double_quote_def single_quote_def)
  have "strip_any secret_keywords (k @ d # x # t) = Some (d # x # t)"
    by (rule strip_any_word [OF keywords_prefix_free(1) assms(1) k(1)])
  then have "header secret_keywords [CHR '':'', CHR ''=''] (k @ d # x # t) = Some (x # t)"
    using k(2) [of "d # x # t"] d assms(2) by (simp add: header_def)
  moreover have "secret_value (x # t) \<noteq> None" unfolding secret_value_iff using assms(3,4) by simp
  ultimately show ?thesis unfolding sensitive_cases by blast
qed

text \<open>C27. Redaction is complete and stable. No match of the redactor's expression is left anywhere in
  a redacted text, not even one that spans retained characters and the inserted marker, so a
  second pass changes nothing; in particular no credential keyword followed by a colon or an
  equals sign and a value remains.\<close>

theorem redaction_leaves_no_secret:
  "sensitive (drop n (redact_text s)) = None
   \<and> redact_text (redact_text s) = redact_text s
   \<and> \<not> (\<exists>k d x before after. k \<in> set secret_keywords \<and> (d = CHR '':'' \<or> d = CHR ''='')
        \<and> \<not> white_space x \<and> \<not> delimiter x \<and> redact_text s = before @ k @ d # x # after)"
proof (intro conjI notI)
  show "sensitive (drop n (redact_text s)) = None" by (rule redacted_not_sensitive)
  show "redact_text (redact_text s) = redact_text s"
    by (rule nothing_to_redact) (rule redacted_not_sensitive)
  assume "\<exists>k d x before after. k \<in> set secret_keywords \<and> (d = CHR '':'' \<or> d = CHR ''='')
        \<and> \<not> white_space x \<and> \<not> delimiter x \<and> redact_text s = before @ k @ d # x # after"
  then obtain k d x before after where k: "k \<in> set secret_keywords" "d = CHR '':'' \<or> d = CHR ''=''"
    "\<not> white_space x" "\<not> delimiter x" "redact_text s = before @ k @ d # x # after" by blast
  from redacted_not_sensitive [of "length before" s] assignment_sensitive [OF k(1-4), of after]
  show False by (simp add: k(5))
qed

end
