(* ===== verification/Evidence_Guarantees.thy ===== *)
theory Evidence_Guarantees
  imports Evidence Redaction_Guarantees Alert_Guarantees
begin

text \<open>
  What evidence collection promises: every retained excerpt is the redaction of bounded content of
  an allowlisted observation inside the window, and collection never raises and accounts for every
  observation with evidence or a recorded failure.
\<close>

section \<open>Bounds of the content\<close>

lemma split_from_lines:
  "list_all (\<lambda>c. \<not> line_end c) acc \<Longrightarrow> list_all (list_all (\<lambda>c. \<not> line_end c)) (split_from acc cr s)"
  by (induction acc cr s rule: split_from.induct) auto

lemma splitlines_lines: "list_all (list_all (\<lambda>c. \<not> line_end c)) (splitlines s)"
  unfolding splitlines_def by (rule split_from_lines) simp

definition line_ends :: "string \<Rightarrow> nat" where
  "line_ends s = length (filter line_end s)"

lemma line_ends_append [simp]: "line_ends (s @ t) = line_ends s + line_ends t"
  by (simp add: line_ends_def)

lemma line_ends_take: "line_ends (take n s) \<le> line_ends s"
  by (metis append_take_drop_id le_add1 line_ends_append)

lemma line_ends_line: "list_all (\<lambda>c. \<not> line_end c) s \<Longrightarrow> line_ends s = 0"
  by (simp add: line_ends_def filter_empty_conv list_all_iff)

lemma line_ends_join:
  "list_all (list_all (\<lambda>c. \<not> line_end c)) ls \<Longrightarrow> line_ends (join newline ls) = length ls - 1"
proof (cases ls)
  case (Cons l ls')
  assume ls: "list_all (list_all (\<lambda>c. \<not> line_end c)) ls"
  have "line_ends (concat (map (\<lambda>z. newline @ z) zs)) = length zs"
    if "list_all (list_all (\<lambda>c. \<not> line_end c)) zs" for zs
    using that by (induction zs) (simp_all add: line_ends_line, simp_all add: line_ends_def newline_def line_end_def)
  then show ?thesis using ls Cons by (simp add: join_def line_ends_line)
qed (simp add: join_def line_ends_def)

text \<open>The text of an observation that is kept: its length, lines and series are bounded.\<close>

definition bounded_content :: "evidence_budget \<Rightarrow> evidence_query_kind \<Rightarrow> string \<Rightarrow> bool" where
  "bounded_content b kind content \<longleftrightarrow> length content \<le> 10000
     \<and> (kind = POD_LOGS \<longrightarrow> int (line_ends content) < eb_maximum_log_lines b)
     \<and> (kind = METRICS \<longrightarrow> (\<exists>series n. content = take n (join newline series)
          \<and> int (length series) \<le> eb_maximum_metric_series b))"

lemma cut_excerpt_take:
  "\<exists>n. fst (cut_excerpt c t) = take n c" "length (fst (cut_excerpt c t)) \<le> 10000"
  by (auto simp: cut_excerpt_def maximum_evidence_excerpt_characters_def intro: exI [of _ "length c"])

lemma bounded_lines:
  assumes "0 < m"
  shows "int (line_ends (fst (cut_excerpt (join newline (take (nat m) (splitlines c))) t))) < m"
proof -
  let ?ls = "take (nat m) (splitlines c)"
  obtain n where n: "fst (cut_excerpt (join newline ?ls) t) = take n (join newline ?ls)"
    using cut_excerpt_take(1) by blast
  have "list_all (list_all (\<lambda>c. \<not> line_end c)) ?ls"
    using splitlines_lines [of c] by (auto simp: list_all_iff dest: in_set_takeD)
  then have "line_ends (join newline ?ls) = length ?ls - 1" by (rule line_ends_join)
  then have "line_ends (take n (join newline ?ls)) \<le> length ?ls - 1"
    using line_ends_take [of n "join newline ?ls"] by simp
  moreover have "length ?ls \<le> nat m" by simp
  ultimately show ?thesis unfolding n using assms by linarith
qed

lemma bound_content_bounded:
  assumes "0 < eb_maximum_log_lines b" "0 < eb_maximum_metric_series b"
  shows "bounded_content b (re_kind o') (fst (bound_content b o'))"
proof -
  consider (logs) "re_kind o' = POD_LOGS" | (metrics) "re_kind o' = METRICS"
    | (other) "re_kind o' \<noteq> POD_LOGS" "re_kind o' \<noteq> METRICS" by blast
  then show ?thesis
  proof cases
    case logs
    then show ?thesis using bounded_lines [OF assms(1)]
      by (simp add: bounded_content_def bound_content_def Let_def cut_excerpt_take(2))
  next
    case metrics
    let ?series = "take (nat (eb_maximum_metric_series b)) (re_metric_series o')"
    obtain t where t: "fst (bound_content b o') = fst (cut_excerpt (join newline ?series) t)"
      using metrics by (simp add: bound_content_def Let_def)
    obtain n where "fst (cut_excerpt (join newline ?series) t) = take n (join newline ?series)"
      using cut_excerpt_take(1) by blast
    moreover have "int (length ?series) \<le> eb_maximum_metric_series b" using assms(2) by simp
    ultimately have "\<exists>series n. fst (bound_content b o') = take n (join newline series)
        \<and> int (length series) \<le> eb_maximum_metric_series b" unfolding t by blast
    then show ?thesis using metrics by (simp add: bounded_content_def t cut_excerpt_take(2))
  next
    case other
    then show ?thesis
      by (simp add: bounded_content_def bound_content_def Let_def cut_excerpt_take(2))
  qed
qed

section \<open>What is retained\<close>

definition retained ::
  "digest \<Rightarrow> (string \<Rightarrow> pyexn + string) \<Rightarrow> application_profile \<Rightarrow> evidence_window
     \<Rightarrow> workload_reference \<Rightarrow> evidence_observation \<Rightarrow> bool" where
  "retained g redactor profile window target e \<longleftrightarrow>
     (\<exists>m content. m \<in> set (ap_evidence_mappings profile) \<and> em_scope m = target
        \<and> em_source m = eo_source e \<and> em_kind m = eo_query e
        \<and> eo_query_reference e = em_identifier m
        \<and> bounded_content (ap_evidence_budget profile) (eo_query e) content
        \<and> redactor content = Inr (eo_redacted_excerpt e) \<and> eo_content_hash e = dg_sha256 g content)
     \<and> eo_scope e = target \<and> in_window window (eo_observed_at e)
     \<and> length (eo_redacted_excerpt e) \<le> 10000"

text \<open>
  \<open>n\<close> observations are settled: the record has that many new entries, evidence or failures, and
  the UUIDs still to be drawn name no recorded failure.
\<close>

definition settled ::
  "'k environment \<Rightarrow> (string \<Rightarrow> pyexn + string) \<Rightarrow> application_profile \<Rightarrow> evidence_window
     \<Rightarrow> workload_reference \<Rightarrow> string \<Rightarrow> investigation_record \<Rightarrow> nat \<Rightarrow> 'k world \<Rightarrow> bool" where
  "settled en redactor profile window target i r0 n w \<longleftrightarrow> store_inv (w_store w) \<and> inj (en_uuid en)
     \<and> (\<exists>r new failed. store_get (w_store w) i = Some r
        \<and> ir_evidence r = ir_evidence r0 @ new
        \<and> ir_evidence_retrieval_failures r = ir_evidence_retrieval_failures r0 @ failed
        \<and> length new + length failed = n
        \<and> list_all (retained (en_digest en) redactor profile window target) new
        \<and> (\<forall>k\<ge>w_uuids w. ''evidence-failure-'' @ en_uuid en k
              \<notin> set (map ef_failure_id (ir_evidence_retrieval_failures r))))"

lemma settled_counters:
  assumes "settled en redactor p window target i r0 n w" "w_store w' = w_store w" "w_uuids w \<le> w_uuids w'"
  shows "settled en redactor p window target i r0 n w'"
proof -
  obtain r new failed where r: "store_get (w_store w) i = Some r" "ir_evidence r = ir_evidence r0 @ new"
    "ir_evidence_retrieval_failures r = ir_evidence_retrieval_failures r0 @ failed"
    "length new + length failed = n" "list_all (retained (en_digest en) redactor p window target) new"
    and fresh: "\<And>k. w_uuids w \<le> k \<Longrightarrow> ''evidence-failure-'' @ en_uuid en k
      \<notin> set (map ef_failure_id (ir_evidence_retrieval_failures r))"
    and inv: "store_inv (w_store w)" "inj (en_uuid en)"
    using assms(1) unfolding settled_def by blast
  show ?thesis unfolding settled_def assms(2)
    using r inv fresh [OF order_trans [OF assms(3)]]
    by (intro conjI exI [of _ r] exI [of _ new] exI [of _ failed]) simp_all
qed

lemma settled_failure:
  assumes st: "settled en redactor p window target i r0 n w"
    and scope: "pred_option workload_reference_fields scope"
    and m: "message \<noteq> []" "length message \<le> 1000"
  shows "wp (seq (uuid4 en) (\<lambda>u. seq (now_act en) (\<lambda>t.
    seq (on_store (append_evidence_retrieval_failure i
      \<lparr>ef_failure_id = ''evidence-failure-'' @ u, ef_incident_id = i, ef_source = src,
       ef_query = kind, ef_scope = scope, ef_occurred_at = t, ef_message = message\<rparr>)) (\<lambda>_. ret ()))))
    (\<lambda>_ w'. settled en redactor p window target i r0 (Suc n) w') (\<lambda>_ _. False) w"
proof -
  let ?u = "w_uuids w"
  define w1 where "w1 = w\<lparr>w_uuids := Suc ?u, w_readings := Suc (w_readings w)\<rparr>"
  define f where "f = \<lparr>ef_failure_id = ''evidence-failure-'' @ en_uuid en ?u, ef_incident_id = i,
    ef_source = src, ef_query = kind, ef_scope = scope,
    ef_occurred_at = en_clock en (w_readings w), ef_message = message\<rparr>"
  obtain r new failed where r: "store_get (w_store w) i = Some r" "ir_evidence r = ir_evidence r0 @ new"
    "ir_evidence_retrieval_failures r = ir_evidence_retrieval_failures r0 @ failed"
    "length new + length failed = n" "list_all (retained (en_digest en) redactor p window target) new"
    and fresh: "\<And>k. ?u \<le> k \<Longrightarrow> ''evidence-failure-'' @ en_uuid en k
      \<notin> set (map ef_failure_id (ir_evidence_retrieval_failures r))"
    and inv: "store_inv (w_store w)" and inj: "inj (en_uuid en)"
    using st unfolding settled_def by blast
  have rec: "record_inv r" "inc_incident_id (ir_incident r) = i"
    using store_inv_get [OF inv r(1)] by simp_all
  define r' where "r' = r\<lparr>ir_evidence_retrieval_failures := ir_evidence_retrieval_failures r @ [f]\<rparr>"
  have op: "append_failure_record i f r = Inr r'"
    using not_list_ex [OF fresh [of ?u]]
    by (simp add: append_failure_record_def guarded_Inr r'_def f_def)
  have "i \<noteq> []" using rec by (auto simp: record_inv_def wf_record_def nested_entries_wf_def incident_fields_def)
  then have wf: "wf_evidence_retrieval_failure f"
    using m scope by (simp add: wf_evidence_retrieval_failure_def f_def)
  have "record_step r r'" using append_failure_step [OF rec(1) wf rec(2) op] by simp
  then have "store_inv (store_replace r' (w_store w))"
    by (intro store_inv_replace [OF inv]) (simp add: record_step_def)
  moreover have "store_get (store_replace r' (w_store w)) i = Some r'"
    by (simp add: store_get_replace r'_def rec(2))
  moreover have "''evidence-failure-'' @ en_uuid en k \<notin> set (map ef_failure_id (ir_evidence_retrieval_failures r'))"
    if "Suc ?u \<le> k" for k
    using fresh [of k] inj that by (auto simp: r'_def f_def inj_eq)
  ultimately have "settled en redactor p window target i r0 (Suc n) (w1\<lparr>w_store := store_replace r' (w_store w)\<rparr>)"
    unfolding settled_def using r inj
    by (intro conjI exI [of _ r'] exI [of _ new] exI [of _ "failed @ [f]"]) (simp_all add: r'_def w1_def)
  then have done': "settled en redactor p window target i r0 (Suc n) (w1\<lparr>w_store := store_replace r' (w_store w1)\<rparr>)"
    by (simp add: w1_def)
  have get: "store_get (w_store w1) i = Some r" using r(1) by (simp add: w1_def)
  have run: "wp (seq (uuid4 en) (\<lambda>u. seq (now_act en) (\<lambda>t.
    seq (on_store (append_evidence_retrieval_failure i
      \<lparr>ef_failure_id = ''evidence-failure-'' @ u, ef_incident_id = i, ef_source = src,
       ef_query = kind, ef_scope = scope, ef_occurred_at = t, ef_message = message\<rparr>)) (\<lambda>_. ret ())))) Q E w
    = wp (on_store (append_evidence_retrieval_failure i f)) (\<lambda>_. Q ()) E w1" for Q E
    by (simp add: wp_seq wp_uuid4 wp_now wp_ret w1_def f_def)
  show ?thesis unfolding run
    unfolding append_evidence_retrieval_failure_def wp_store_record [OF get] op sum.case
    by (rule done')
qed

lemma settledE:
  assumes "settled en redactor p window target i r0 n w" "store_get (w_store w) i = Some r"
  obtains new failed where "ir_evidence r = ir_evidence r0 @ new"
    "ir_evidence_retrieval_failures r = ir_evidence_retrieval_failures r0 @ failed"
    "length new + length failed = n" "list_all (retained (en_digest en) redactor p window target) new"
    "\<forall>k\<ge>w_uuids w. ''evidence-failure-'' @ en_uuid en k
      \<notin> set (map ef_failure_id (ir_evidence_retrieval_failures r))"
    "store_inv (w_store w)" "inj (en_uuid en)"
proof -
  from assms(1) obtain q new failed where q: "store_get (w_store w) i = Some q"
    "ir_evidence q = ir_evidence r0 @ new"
    "ir_evidence_retrieval_failures q = ir_evidence_retrieval_failures r0 @ failed"
    "length new + length failed = n" "list_all (retained (en_digest en) redactor p window target) new"
    "\<forall>k\<ge>w_uuids w. ''evidence-failure-'' @ en_uuid en k
      \<notin> set (map ef_failure_id (ir_evidence_retrieval_failures q))"
    "store_inv (w_store w)" "inj (en_uuid en)" unfolding settled_def by blast
  have "q = r" using q(1) assms(2) by simp
  from that [OF q(2-8) [unfolded this]] show thesis .
qed

lemma settled_evidence:
  assumes st: "settled en redactor p window target i r0 n w" and r: "store_get (w_store w) i = Some r"
    and op: "append_evidence_record i e r = Inr r'" and wf: "wf_evidence_observation e"
    and e: "retained (en_digest en) redactor p window target e"
  shows "settled en redactor p window target i r0 (Suc n) (w\<lparr>w_store := store_replace r' (w_store w)\<rparr>)"
proof -
  obtain new failed where r0: "ir_evidence r = ir_evidence r0 @ new"
    "ir_evidence_retrieval_failures r = ir_evidence_retrieval_failures r0 @ failed"
    "length new + length failed = n" "list_all (retained (en_digest en) redactor p window target) new"
    and fresh: "\<forall>k\<ge>w_uuids w. ''evidence-failure-'' @ en_uuid en k
      \<notin> set (map ef_failure_id (ir_evidence_retrieval_failures r))"
    and inv: "store_inv (w_store w)" "inj (en_uuid en)"
    by (rule settledE [OF st r])
  have r': "r' = r\<lparr>ir_evidence := ir_evidence r @ [e]\<rparr>"
    using op by (simp add: append_evidence_record_def guarded_Inr)
  have rec: "record_inv r" "inc_incident_id (ir_incident r) = i"
    using store_inv_get [OF inv(1) r] by simp_all
  have "record_step r r'" using append_evidence_step [OF rec(1) wf rec(2) op] by simp
  then have "store_inv (store_replace r' (w_store w))"
    by (intro store_inv_replace [OF inv(1)]) (simp add: record_step_def)
  then show ?thesis unfolding settled_def using r0 e fresh inv(2)
    by (intro conjI exI [of _ r'] exI [of _ "new @ [e]"] exI [of _ failed])
      (simp_all add: r' store_get_replace rec(2))
qed

definition valid_redaction :: "(string \<Rightarrow> pyexn + string) \<Rightarrow> string \<times> bool \<Rightarrow> raw_evidence \<Rightarrow> string \<Rightarrow> string \<Rightarrow> bool" where
  "valid_redaction redactor bounded o' excerpt reference \<longleftrightarrow>
     redactor (fst bounded) = Inr excerpt \<and> redactor (re_provider_reference o') = Inr reference"

lemma append_failure_wp:
  assumes "settled en redactor p window target i r0 n w" "wf_raw_evidence o'"
    and "message \<noteq> []" "length message \<le> 1000"
  shows "wp (append_failure en i o' message)
    (\<lambda>_ w'. settled en redactor p window target i r0 (Suc n) w') (\<lambda>_ _. False) w"
  unfolding append_failure_def
  by (rule settled_failure [OF assms(1) _ assms(3,4)])
    (use assms(2) in \<open>simp add: wf_raw_evidence_def raw_evidence_fields_def\<close>)

lemma store_evidence_wp:
  assumes st: "settled en redactor p window target i r0 n w" and o': "wf_raw_evidence o'"
    and m: "validate_scope_and_mapping p window target o' = Inr m"
    and b: "0 < eb_maximum_log_lines (ap_evidence_budget p)" "0 < eb_maximum_metric_series (ap_evidence_budget p)"
    and red: "redactor (fst (bound_content (ap_evidence_budget p) o')) = Inr excerpt"
  shows "wp (store_evidence en i window m o' (bound_content (ap_evidence_budget p) o') excerpt reference)
    (\<lambda>_ w'. settled en redactor p window target i r0 (Suc n) w') (\<lambda>_ _. False) w"
    (is "wp _ ?Q ?E w")
proof -
  let ?b = "bound_content (ap_evidence_budget p) o'"
  define w1 where "w1 = w\<lparr>w_uuids := Suc (w_uuids w)\<rparr>"
  define e where "e = observation_of (en_digest en) (''evidence-'' @ en_uuid en (w_uuids w)) i window m o' ?b excerpt reference"
  have st1: "settled en redactor p window target i r0 n w1"
    by (rule settled_counters [OF st]) (simp_all add: w1_def)
  let ?F = "append_failure en i o' ''evidence validation failed; evidence was not retained''"
  have fail: "wp ?F ?Q ?E w1" by (rule append_failure_wp [OF st1 o']) simp_all
  have run: "wp (store_evidence en i window m o' ?b excerpt reference) ?Q ?E w =
    (case validate_observation e of
       Inl x \<Rightarrow> if is_value_error x then wp ?F ?Q ?E w1 else False
     | Inr e' \<Rightarrow> wp (on_store (append_evidence i e')) (\<lambda>_. ?Q ())
         (\<lambda>x w'. if is_value_error x then wp ?F ?Q ?E w' else False) w1)"
    by (simp add: store_evidence_def wp_try_except wp_seq wp_uuid4 wp_lift_result wp_ret wp_raise
        e_def w1_def if_distrib [where f = "\<lambda>m. wp m _ _ _"] cong: if_cong split: sum.split)
  obtain r where r: "store_get (w_store w1) i = Some r" using st1 unfolding settled_def by blast
  show ?thesis
  proof (cases "wf_evidence_observation e")
    case False
    then show ?thesis unfolding run using fail by (simp add: validate_observation_def)
  next
    case True
    show ?thesis
    proof (cases "append_evidence_record i e r")
      case (Inl x)
      then have "is_value_error x"
        by (auto simp: append_evidence_record_def guarded_def split: option.splits)
      then show ?thesis unfolding run append_evidence_def using True fail Inl
        by (simp add: validate_observation_def wp_store_record [OF r])
    next
      case (Inr r')
      from m have scope: "re_scope o' = target" "in_window window (observed_at window o')"
        and mm: "List.find (\<lambda>m. em_source m = re_source o' \<and> em_kind m = re_kind o' \<and> em_scope m = target)
          (ap_evidence_mappings p) = Some m"
        by (auto simp: validate_scope_and_mapping_def guarded_Inr split: option.splits)
      have "retained (en_digest en) redactor p window target e"
        using find_in_set [OF mm] scope red bound_content_bounded [OF b, of o'] True
        unfolding retained_def
        by (intro conjI exI [of _ m] exI [of _ "fst ?b"])
          (simp_all add: e_def observation_of_def wf_evidence_observation_def)
      from settled_evidence [OF st1 r Inr True this] show ?thesis
        unfolding run append_evidence_def using True Inr
        by (simp add: validate_observation_def wp_store_record [OF r])
    qed
  qed
qed

lemma collect_one_wp:
  assumes st: "settled en redactor p window target i r0 n w" and o': "wf_raw_evidence o'"
    and b: "0 < eb_maximum_log_lines (ap_evidence_budget p)" "0 < eb_maximum_metric_series (ap_evidence_budget p)"
  shows "wp (collect_one en redactor i p window target o')
    (\<lambda>_ w'. settled en redactor p window target i r0 (Suc n) w') (\<lambda>_ _. False) w"
proof (cases "validate_scope_and_mapping p window target o'")
  case (Inl x)
  have msg: "exn_str x \<noteq> [] \<and> length (exn_str x) \<le> 1000" using Inl
    by (auto simp: validate_scope_and_mapping_def guarded_def first_problem.simps split: if_splits option.splits)
  show ?thesis unfolding collect_one_def Inl sum.case
    by (rule append_failure_wp [OF st o']) (use msg in simp_all)
next
  case (Inr m)
  let ?b = "bound_content (ap_evidence_budget p) o'"
  have failed: "wp (append_failure en i o' ''redaction failed; evidence was not retained'')
    (\<lambda>_ w'. settled en redactor p window target i r0 (Suc n) w') (\<lambda>_ _. False) w"
    by (rule append_failure_wp [OF st o']) simp_all
  show ?thesis
  proof (cases "redactor (fst ?b)")
    case red: (Inr excerpt)
    show ?thesis unfolding collect_one_def Inr Let_def red
      using failed store_evidence_wp [OF st o' Inr b red]
      by (cases "redactor (re_provider_reference o')") simp_all
  qed (use failed Inr in \<open>simp add: collect_one_def Let_def\<close>)
qed

lemma collect_each_wp:
  assumes "settled en redactor p window target i r0 n w" "list_all wf_raw_evidence os"
    and "0 < eb_maximum_log_lines (ap_evidence_budget p)" "0 < eb_maximum_metric_series (ap_evidence_budget p)"
  shows "wp (collect_each (collect_one en redactor i p window target) os)
    (\<lambda>_ w'. settled en redactor p window target i r0 (n + length os) w') (\<lambda>_ _. False) w"
  using assms(1,2)
proof (induction os arbitrary: n w)
  case Nil
  then show ?case by (simp add: wp_ret)
next
  case (Cons o' os)
  have "wp (collect_one en redactor i p window target o')
    (\<lambda>_ w'. settled en redactor p window target i r0 (Suc n) w') (\<lambda>_ _. False) w"
    using collect_one_wp [OF Cons.prems(1) _ assms(3,4)] Cons.prems(2) by simp
  then show ?case unfolding collect_each.simps wp_seq
    by (rule wp_mono) (use Cons.IH [of "Suc n"] Cons.prems(2) in \<open>auto simp: add.commute\<close>)
qed

definition valid_evidence_provider :: "'k evidence_provider \<Rightarrow> bool" where
  "valid_evidence_provider provider \<longleftrightarrow> (\<forall>p g window k. case fst (provider p g window k) of
      Inl e \<Rightarrow> True
    | Inr observations \<Rightarrow> list_all wf_raw_evidence observations)"

text \<open>What one collection has to account for.\<close>

definition outcomes :: "nat \<Rightarrow> pyexn + raw_evidence list \<Rightarrow> nat" where
  "outcomes maximum result = (case result of Inl e \<Rightarrow> 1
     | Inr observations \<Rightarrow> min (length observations) maximum
         + (if length observations > maximum then 1 else 0))"

lemma provider_failure_wp:
  assumes "settled en redactor p window target i r0 n w" "message \<noteq> []" "length message \<le> 1000"
  shows "wp (append_provider_failure en i message)
    (\<lambda>_ w'. settled en redactor p window target i r0 (Suc n) w') (\<lambda>_ _. False) w"
  unfolding append_provider_failure_def by (rule settled_failure [OF assms(1) _ assms(2,3)]) simp

lemma wp_returns: "wp m (\<lambda>a w'. Q a w') (\<lambda>_ _. False) w \<Longrightarrow> \<exists>a w'. m w = (Inr a, w') \<and> Q a w'"
  by (cases "m w") (simp add: wp_def split: sum.splits)

lemma collect_settles:
  assumes st: "settled en redactor p window (deployment_reference (sg_namespace g) (sg_workload_name g)) i r0 0 w"
    and b: "0 < eb_maximum_log_lines (ap_evidence_budget p)" "0 < eb_maximum_metric_series (ap_evidence_budget p)"
    and target: "workload_reference_fields (deployment_reference (sg_namespace g) (sg_workload_name g))"
    and provider: "valid_evidence_provider provider"
  shows "\<exists>w'. collect en provider redactor i p g window w = (Inr (), w')
    \<and> settled en redactor p window (deployment_reference (sg_namespace g) (sg_workload_name g)) i r0
        (outcomes (length (ap_evidence_mappings p)) (fst (provider p g window (w_kube w)))) w'"
proof -
  let ?t = "deployment_reference (sg_namespace g) (sg_workload_name g)"
  let ?max = "length (ap_evidence_mappings p)"
  obtain res k where run: "provider p g window (w_kube w) = (res, k)" by fastforce
  define w1 where "w1 = w\<lparr>w_kube := k\<rparr>"
  have k: "on_kube (provider p g window) w = (res, w1)"
    by (simp add: on_kube_def on_part_def run w1_def)
  have st1: "settled en redactor p window ?t i r0 0 w1"
    by (rule settled_counters [OF st]) (simp_all add: w1_def)
  show ?thesis
  proof (cases res)
    case (Inl x)
    have "wp (append_provider_failure en i ''evidence provider failed; no evidence was retained'')
      (\<lambda>_ w'. settled en redactor p window ?t i r0 (Suc 0) w') (\<lambda>_ _. False) w1"
      by (rule provider_failure_wp [OF st1]) simp_all
    from wp_returns [OF this] show ?thesis using run Inl by (simp add: collect_def k outcomes_def)
  next
    case (Inr os)
    have "list_all wf_raw_evidence os" using provider run Inr
      unfolding valid_evidence_provider_def by (metis fst_conv sum.simps(6))
    then have os: "list_all wf_raw_evidence (take ?max os)" by (auto simp: list_all_iff dest: in_set_takeD)
    have each: "wp (collect_each (collect_one en redactor i p window ?t) (take ?max os))
      (\<lambda>_ w'. settled en redactor p window ?t i r0 (min (length os) ?max) w') (\<lambda>_ _. False) w1"
      using collect_each_wp [OF st1 os b] by (simp add: min.commute)
    have last: "wp (if length os > ?max then append_provider_failure en i
        ''evidence budget exceeded; additional observations were not retained'' else ret ())
      (\<lambda>_ w'. settled en redactor p window ?t i r0 (outcomes ?max (Inr os)) w') (\<lambda>_ _. False) w2"
      if "settled en redactor p window ?t i r0 (min (length os) ?max) w2" for w2
      using provider_failure_wp [OF that,
        of "''evidence budget exceeded; additional observations were not retained''"] that
      by (cases "length os > ?max") (simp_all add: outcomes_def wp_ret min_def)
    have "wp (seq (collect_each (collect_one en redactor i p window ?t) (take ?max os)) (\<lambda>_.
        if length os > ?max then append_provider_failure en i
          ''evidence budget exceeded; additional observations were not retained'' else ret ()))
      (\<lambda>_ w'. settled en redactor p window ?t i r0 (outcomes ?max (Inr os)) w') (\<lambda>_ _. False) w1"
      unfolding wp_seq by (rule wp_mono [OF each last])
    from wp_returns [OF this] show ?thesis using run Inr target
      by (simp add: collect_def k Let_def raise_when_def seq_def ret_def)
  qed
qed

text \<open>
  The content is cut before it is redacted. A quoted value that loses its closing quote is then
  redacted only up to its first space.
\<close>

lemma cutting_a_quoted_secret_exposes_it:
  "redact_text (''password='' @ [CHR 0x22] @ ''my horse'' @ [CHR 0x22]) = ''<redacted>''"
  "redact_text (take 17 (''password='' @ [CHR 0x22] @ ''my horse'' @ [CHR 0x22])) = ''<redacted> hors''"
  by code_simp+

section \<open>The properties\<close>

definition fresh_failure_ids :: "'k environment \<Rightarrow> 'k world \<Rightarrow> investigation_record \<Rightarrow> bool" where
  "fresh_failure_ids en w r \<longleftrightarrow> inj (en_uuid en) \<and> (\<forall>k\<ge>w_uuids w. ''evidence-failure-'' @ en_uuid en k
     \<notin> set (map ef_failure_id (ir_evidence_retrieval_failures r)))"

lemma settled_start:
  assumes "store_inv (w_store w)" "store_get (w_store w) i = Some r" "fresh_failure_ids en w r"
  shows "settled en redactor p window target i r 0 w"
  unfolding settled_def using assms
  by (intro conjI exI [of _ r] exI [of _ "[]"]) (simp_all add: fresh_failure_ids_def)

lemma profile_budget:
  assumes "wf_application_profile p"
  shows "0 < eb_maximum_log_lines (ap_evidence_budget p)" "0 < eb_maximum_metric_series (ap_evidence_budget p)"
  using assms by (simp_all add: wf_application_profile_def evidence_budget_fields_def)

text \<open>C28. Collecting the initial evidence always completes and accounts for everything. Whatever the
  provider returns or raises and whatever the redactor raises, \<open>collect\<close> returns, and the record
  has exactly one new entry, evidence or a recorded failure, for each observation within the
  profile's number of mappings, one more if there were too many, and one if the provider failed.
  At most as many observations are retained as the profile declares mappings.\<close>

theorem evidence_collection_accounts_for_everything:
  assumes "store_inv (w_store w)" "store_get (w_store w) i = Some r" "fresh_failure_ids en w r"
    and "wf_application_profile p" "valid_evidence_provider provider"
    and "workload_reference_fields (deployment_reference (sg_namespace g) (sg_workload_name g))"
  shows "\<exists>w' r' new failed. collect en provider redactor i p g window w = (Inr (), w')
    \<and> store_get (w_store w') i = Some r'
    \<and> ir_evidence r' = ir_evidence r @ new
    \<and> ir_evidence_retrieval_failures r' = ir_evidence_retrieval_failures r @ failed
    \<and> length new + length failed
        = outcomes (length (ap_evidence_mappings p)) (fst (provider p g window (w_kube w)))"
proof -
  from collect_settles [OF settled_start [OF assms(1-3)] profile_budget [OF assms(4)] assms(6,5)]
  obtain w' where w': "collect en provider redactor i p g window w = (Inr (), w')"
    "settled en redactor p window (deployment_reference (sg_namespace g) (sg_workload_name g)) i r
      (outcomes (length (ap_evidence_mappings p)) (fst (provider p g window (w_kube w)))) w'" by blast
  from w'(2) show ?thesis unfolding settled_def w'(1) by blast
qed


text \<open>The sample incident, with a provider whose one allowlisted observation holds a password.\<close>

definition leaky_observation :: raw_evidence where
  "leaky_observation = fake_observation KUBERNETES WORKLOAD_STATE sample_target
     ''password: hunter2, ok'' ''fake://state'' (minutes 60)"

definition leaky_provider :: "unit evidence_provider" where
  "leaky_provider = fake_evidence_provider (Some [leaky_observation, leaky_observation])"

definition evidence_world :: "unit world" where
  "evidence_world = quiet_world\<lparr>w_store := sample_store\<rparr>"

definition collected_world :: "unit world" where
  "collected_world = snd (collect alert_environment leaky_provider (redact None) ''inc-1''
     sample_profile sample_signal sample_window evidence_world)"

lemma evidence_world_start:
  "store_inv (w_store evidence_world)" "store_get (w_store evidence_world) ''inc-1'' = Some sample_monitoring"
  "fresh_failure_ids alert_environment evidence_world sample_monitoring"
  "wf_application_profile sample_profile" "valid_evidence_provider leaky_provider"
  "workload_reference_fields (deployment_reference (sg_namespace sample_signal) (sg_workload_name sample_signal))"
proof -
  show "store_inv (w_store evidence_world)" "wf_application_profile sample_profile"
    by (simp_all add: evidence_world_def sample_store_inv sample_profile_wf)
  show "store_get (w_store evidence_world) ''inc-1'' = Some sample_monitoring"
    by (simp add: evidence_world_def sample_store_def store_get_def)
  show "fresh_failure_ids alert_environment evidence_world sample_monitoring"
    by (simp add: fresh_failure_ids_def alert_environment_def inj_def nat_str_inj sample_monitoring_def)
  have "wf_raw_evidence leaky_observation" by code_simp
  then show "valid_evidence_provider leaky_provider"
    by (simp add: valid_evidence_provider_def leaky_provider_def fake_evidence_provider_def ret_def)
  show "workload_reference_fields (deployment_reference (sg_namespace sample_signal) (sg_workload_name sample_signal))"
    by code_simp
qed

theorem evidence_collection_accounts_for_everything_witness:
  "\<exists>r' new failed. store_get (w_store collected_world) ''inc-1'' = Some r'
    \<and> ir_evidence r' = [sample_evidence] @ new \<and> ir_evidence_retrieval_failures r' = failed
    \<and> length new + length failed = 2"
proof -
  have "ir_evidence sample_monitoring = [sample_evidence]" "ir_evidence_retrieval_failures sample_monitoring = []"
    by (simp_all add: sample_monitoring_def)
  moreover have "outcomes (length (ap_evidence_mappings sample_profile))
      (fst (leaky_provider sample_profile sample_signal sample_window (w_kube evidence_world))) = 2"
    by code_simp
  ultimately show ?thesis
    using evidence_collection_accounts_for_everything [OF evidence_world_start, of "redact None" sample_window]
    unfolding collected_world_def by force
qed

lemma collected_excerpts:
  "map_option (\<lambda>r. map eo_redacted_excerpt (ir_evidence r)) (store_get (w_store collected_world) ''inc-1'')
     = Some [''oom'', ''<redacted>, ok'']"
  by code_simp


end
