(* ===== verification/Gateway_Guarantees.thy ===== *)
theory Gateway_Guarantees
  imports Evidence_Gateway Evidence_Guarantees
begin

text \<open>
  What the evidence gateway promises: no Specialist ever exceeds its query budget, whatever is
  asked and whatever the providers do, and a query either adds one scoped, bounded, redacted
  observation that refers to it or adds none.
\<close>

section \<open>The budget as a store property\<close>

definition within_budget :: "store \<Rightarrow> bool" where
  "within_budget s \<longleftrightarrow> (\<forall>i r role. store_get s i = Some r \<longrightarrow>
     inc_incident_id (ir_incident r) = i \<and> int (length (prior_queries role r)) \<le> query_budget r)"

text \<open>The calls that record no query.\<close>

definition leaves_queries :: "string \<Rightarrow> store_op \<Rightarrow> bool" where
  "leaves_queries i op \<longleftrightarrow> (case op of Append_Evidence _ \<Rightarrow> True | Append_Failure _ \<Rightarrow> True
     | Append_Finding _ \<Rightarrow> True | Append_Model_Invocation _ \<Rightarrow> True | Append_Audit_Event _ \<Rightarrow> True
     | Complete_Investigation _ \<Rightarrow> True | Compare_And_Set _ _ \<Rightarrow> True
     | Append_Alert_Signal _ \<Rightarrow> True | Record_Policy_Decision _ \<Rightarrow> True
     | Record_Approval_Decision _ _ _ _ _ \<Rightarrow> True | _ \<Rightarrow> False)"

lemma within_budget_replace:
  assumes "within_budget s" "inc_incident_id (ir_incident r') = i"
    and "\<And>role. int (length (prior_queries role r')) \<le> query_budget r'"
  shows "within_budget (store_replace r' s)"
  using assms by (simp add: within_budget_def store_get_replace)

lemma query_frame:
  assumes "within_budget s" "leaves_queries i op" "run_method i op s = (Inr r', s')"
  shows "\<exists>r. store_get s i = Some r \<and> s' = store_replace r' s \<and> inc_incident_id (ir_incident r') = i
    \<and> ir_evidence_queries r' = ir_evidence_queries r \<and> ir_application_profile r' = ir_application_profile r"
proof -
  have "inc_incident_id (ir_incident r) = i" if "store_get s i = Some r" for r
    using assms(1) that by (simp add: within_budget_def)
  then show ?thesis using assms(2,3)
    by (cases op) (auto simp: bump_version_simps leaves_queries_def store_method_defs store_update_Inr
      guarded_Inr append_evidence_record_def append_failure_record_def append_finding_record_def
      append_model_invocation_record_def append_audit_event_record_def complete_investigation_record_def
      compare_and_set_record_def append_alert_signal_record_def record_policy_decision_record_def
      record_approval_record_def validate_record_Inr bind_result_Inr with_event_def
      dest: transition_incident_frame split: if_splits)
qed

lemma run_method_Inl: "run_method i op s = (Inl e, s') \<Longrightarrow> s' = s"
  by (cases op) (auto simp: store_method_defs dest: store_update_Inl)

lemma budget_method:
  assumes "within_budget s" "leaves_queries i op"
  shows "within_budget (snd (run_method i op s))"
proof (cases "run_method i op s")
  case (Pair res s')
  show ?thesis
  proof (cases res)
    case (Inl e)
    then show ?thesis using run_method_Inl [OF Pair [unfolded Inl]] Pair assms(1) by simp
  next
    case (Inr r')
    from query_frame [OF assms Pair [unfolded Inr]] obtain r where r: "store_get s i = Some r"
      "s' = store_replace r' s" "inc_incident_id (ir_incident r') = i"
      "ir_evidence_queries r' = ir_evidence_queries r"
      "ir_application_profile r' = ir_application_profile r" by blast
    have "int (length (prior_queries role r')) \<le> query_budget r'" for role
      using assms(1) r(1,4,5) by (simp add: within_budget_def prior_queries_def query_budget_def)
    then show ?thesis using within_budget_replace [OF assms(1) r(3)] r(2) Pair by simp
  qed
qed

interpretation budget: store_client within_budget leaves_queries
  by unfold_locales (rule budget_method)

lemma leaves_queries_simps [simp]:
  "leaves_queries i (Append_Evidence e)" "leaves_queries i (Append_Failure f)"
  "leaves_queries i (Append_Finding d)" "leaves_queries i (Append_Model_Invocation m)"
  "leaves_queries i (Append_Audit_Event a)" "leaves_queries i (Complete_Investigation c)"
  "leaves_queries i (Compare_And_Set n b)" "leaves_queries i (Append_Alert_Signal g)"
  "leaves_queries i (Record_Policy_Decision p)" "leaves_queries i (Record_Approval_Decision dg t n ap ev)"
  by (simp_all add: leaves_queries_def)

section \<open>The steps of a query\<close>

lemma authorize_query_Inr:
  assumes "authorize_query gw i role ident n w = (Inr (r, m, adapter), w')"
  shows "w' = w" "store_get (w_store w) i = Some r" "m \<in> set (ap_evidence_mappings (ir_application_profile r))"
    "em_identifier m = ident" "validate_query_budget r role n = Inr ()"
    "gw_adapters gw (em_source m) = Some adapter"
  using assms unfolding authorize_query_def seq_Inr get_record_Inr lift_result_Inr
  by (auto simp: resolve_mapping_def ret_def split: option.splits dest!: find_in_set)

lemma authorize_query_world: "snd (authorize_query gw i role ident n w) = w"
  by (auto simp: authorize_query_def seq_def get_record_def gets_def lift_result_def ret_def
    split: sum.splits prod.splits)

lemma keeps_gateway_audit: "keeps (\<lambda>w. within_budget (w_store w)) (gateway_audit en i k a d)"
  unfolding gateway_audit_def by (intro keeps_seq budget.providers budget.calls) simp_all

lemma keeps_query_failure: "keeps (\<lambda>w. within_budget (w_store w)) (record_query_failure en q m)"
  unfolding record_query_failure_def
  by (intro keeps_seq keeps_ret budget.providers budget.calls keeps_gateway_audit) simp_all

lemma keeps_safe_observation: "keeps (\<lambda>w. within_budget (w_store w)) (safe_observation en gw r m o' q)"
  unfolding safe_observation_def Let_def
  by (intro keeps_seq keeps_raise_when keeps_lift_result budget.providers)

lemma budget_allows:
  assumes "validate_query_budget r role n = Inr ()"
  shows "int (length (prior_queries role r)) < query_budget r" "1 \<le> n" "n \<le> query_budget r"
    "list_all (\<lambda>q. qy_query_round q \<le> n) (prior_queries role r)"
proof -
  have fold: "y \<le> fold max xs y \<and> (\<forall>x\<in>set xs. x \<le> fold max xs y)" for y :: int and xs
  proof (induction xs arbitrary: y)
    case (Cons a xs)
    from Cons [of "max a y"] show ?case by auto
  qed simp
  show "int (length (prior_queries role r)) < query_budget r" "1 \<le> n" "n \<le> query_budget r"
    using assms by (auto simp: validate_query_budget_def Let_def split: if_splits)
  show "list_all (\<lambda>q. qy_query_round q \<le> n) (prior_queries role r)"
  proof (cases "prior_queries role r")
    case (Cons q qs)
    then have "fold max (map qy_query_round qs) (qy_query_round q) \<le> n"
      using assms by (auto simp: validate_query_budget_def Let_def split: if_splits)
    then show ?thesis using Cons fold [where y = "qy_query_round q" and xs = "map qy_query_round qs"]
      by (auto simp: list_all_iff)
  qed simp
qed

lemma wp_seq_fun: "wp (seq m f) Q E = wp m (\<lambda>a. wp (f a) Q E) E"
  by (rule ext) (simp add: wp_seq)

definition new_query ::
  "'k environment \<Rightarrow> string \<Rightarrow> specialist_role \<Rightarrow> evidence_mapping \<Rightarrow> int \<Rightarrow> 'k world \<Rightarrow> evidence_query" where
  "new_query en i role m n w = \<lparr>qy_query_id = ''query-'' @ en_uuid en (w_uuids w), qy_incident_id = i,
    qy_specialist = role, qy_kind = em_kind m, qy_target = em_scope m,
    qy_requested_at = en_clock en (w_readings w), qy_query_round = n\<rparr>"

definition query_audit ::
  "'k environment \<Rightarrow> string \<Rightarrow> specialist_role \<Rightarrow> evidence_mapping \<Rightarrow> evidence_query
     \<Rightarrow> ('k world, evidence_query) act" where
  "query_audit en i role m query = seq (gateway_audit en i ''evidence_query_requested''
      (''specialist:'' @ specialist_role_value role)
      [(''query_id'', qy_query_id query), (''mapping_identifier'', em_identifier m),
       (''source'', evidence_source_value (em_source m))]) (\<lambda>_. ret query)"

lemma record_query_run:
  "wp (record_query en i role m n) Q E w =
    (let w1 = w\<lparr>w_uuids := Suc (w_uuids w), w_readings := Suc (w_readings w)\<rparr>
     in case validate_query (new_query en i role m n w) of Inl x \<Rightarrow> E x w1
       | Inr query \<Rightarrow> wp (on_store (append_evidence_query i query)) (\<lambda>_. wp (query_audit en i role m query) Q E) E w1)"
  by (simp add: record_query_def wp_seq_fun wp_uuid4 wp_now wp_lift_result new_query_def query_audit_def split: sum.split)

lemma record_query_wp:
  assumes b: "within_budget (w_store w)" and r: "store_get (w_store w) i = Some r"
    and ok: "validate_query_budget r role n = Inr ()"
  shows "wp (record_query en i role m n) (\<lambda>_ w'. within_budget (w_store w'))
    (\<lambda>_ w'. within_budget (w_store w')) w"
proof -
  define w1 where "w1 = w\<lparr>w_uuids := Suc (w_uuids w), w_readings := Suc (w_readings w)\<rparr>"
  define q where "q = new_query en i role m n w"
  note run = record_query_run [of en i role m n _ _ w, unfolded Let_def, folded w1_def q_def]
  have r1: "store_get (w_store w1) i = Some r" using r by (simp add: w1_def)
  have b1: "within_budget (w_store w1)" using b by (simp add: w1_def)
  have id: "inc_incident_id (ir_incident r) = i" using b r by (simp add: within_budget_def)
  have audit: "wp (query_audit en i role m query) (\<lambda>_ w'. within_budget (w_store w')) (\<lambda>_ w'. within_budget (w_store w')) w2"
    if "within_budget (w_store w2)" for query w2
    by (rule keeps_wp [where P = "\<lambda>w. within_budget (w_store w)", OF _ that], unfold query_audit_def, intro keeps_seq keeps_ret keeps_gateway_audit)
  show ?thesis
  proof (cases "validate_query q")
    case (Inl x)
    with b1 show ?thesis unfolding run by simp
  next
    case (Inr query)
    then have query: "query = q" by (simp add: validate_query_def split: if_splits)
    show ?thesis
    proof (cases "append_query_record i q r")
      case Inl2: (Inl x)
      then show ?thesis unfolding run using Inr query b1
        by (simp add: append_evidence_query_def wp_store_record [OF r1])
    next
      case Inr2: (Inr r')
      then have r': "r' = r\<lparr>ir_evidence_queries := ir_evidence_queries r @ [q]\<rparr>"
        by (simp add: append_query_record_def guarded_Inr)
      have old: "int (length (prior_queries k r)) \<le> query_budget r" for k
        using b r by (simp add: within_budget_def)
      have "int (length (prior_queries k r')) \<le> query_budget r'" for k
        using old [of k] budget_allows(1) [OF ok]
        by (cases "k = role") (simp_all add: r' prior_queries_def query_budget_def q_def new_query_def)
      then have "within_budget (w_store (w1\<lparr>w_store := store_replace r' (w_store w1)\<rparr>))"
        using within_budget_replace [OF b1, of r' i] id by (simp add: r')
      from audit [OF this] show ?thesis unfolding run using Inr query Inr2
        by (simp add: append_evidence_query_def wp_store_record [OF r1])
    qed
  qed
qed

lemma keeps_answer_query: "keeps (\<lambda>w. within_budget (w_store w)) (answer_query en gw i r m adapter query)"
  unfolding answer_query_def
  by (intro keeps_seq keeps_try_except keeps_ret keeps_raise keeps_lift_result budget.providers
      budget.calls keeps_safe_observation keeps_query_failure)
    (auto intro!: keeps_seq keeps_ret budget.calls keeps_safe_observation split: prod.split)

lemma keeps_ask_provider:
  "keeps (\<lambda>w. within_budget (w_store w)) (seq (answer_query en gw i r m adapter query) (\<lambda>(e, attempts).
     gateway_audit en i ''evidence_query_completed'' ''evidence-gateway''
        [(''query_id'', qy_query_id query), (''evidence_id'', eo_evidence_id e),
         (''attempts'', nat_str attempts)]))"
  by (intro keeps_seq keeps_answer_query) (auto intro: keeps_gateway_audit split: prod.split)

lemma execute_budget:
  assumes "within_budget (w_store w)"
  shows "within_budget (w_store (snd (execute_query en gw i role ident n w)))"
proof (cases "authorize_query gw i role ident n w")
  case (Pair res w1)
  then have w1: "w1 = w" using authorize_query_world [of gw i role ident n w] by simp
  show ?thesis
  proof (cases res)
    case (Inl e)
    then show ?thesis using Pair w1 assms by (simp add: execute_query_def seq_def)
  next
    case (Inr t)
    obtain r m adapter where t: "t = (r, m, adapter)" by (cases t)
    note a = authorize_query_Inr [OF Pair [unfolded Inr t]]
    show ?thesis
    proof (cases "record_query en i role m n w")
      case rec: (Pair res2 w2)
      have "within_budget (w_store w2)"
        using record_query_wp [OF assms a(2,5), of en m] rec by (simp add: wp_def split: sum.splits)
      then show ?thesis
        using Pair Inr t w1 rec keepsD [OF keeps_ask_provider]
        by (cases res2) (simp_all add: execute_query_def seq_def)
    qed
  qed
qed

section \<open>At most one answer\<close>

text \<open>
  The store agrees with \<open>s0\<close> on every other incident, and incident \<open>i\<close> has the given evidence and
  queries. Audit events and recorded failures leave this as it is.
\<close>

definition evidence_is ::
  "store \<Rightarrow> string \<Rightarrow> evidence_observation list \<Rightarrow> evidence_query list \<Rightarrow> store \<Rightarrow> bool" where
  "evidence_is s0 i evs qs s \<longleftrightarrow> (\<forall>j. j \<noteq> i \<longrightarrow> store_get s j = store_get s0 j)
     \<and> (\<exists>r. store_get s i = Some r \<and> inc_incident_id (ir_incident r) = i
        \<and> ir_evidence r = evs \<and> ir_evidence_queries r = qs)"

definition makes_note :: "store_op \<Rightarrow> bool" where
  "makes_note op \<longleftrightarrow> (case op of Append_Failure _ \<Rightarrow> True | Append_Audit_Event _ \<Rightarrow> True | _ \<Rightarrow> False)"

lemma makes_note_simps [simp]: "makes_note (Append_Failure f)" "makes_note (Append_Audit_Event a)"
  by (simp_all add: makes_note_def)

lemma evidence_is_replace:
  assumes "evidence_is s0 i evs qs s" "inc_incident_id (ir_incident r') = i"
  shows "evidence_is s0 i (ir_evidence r') (ir_evidence_queries r') (store_replace r' s)"
  using assms by (auto simp: evidence_is_def store_get_replace)

lemma evidence_is_method:
  assumes "evidence_is s0 i evs qs s" "j = i \<and> makes_note op"
  shows "evidence_is s0 i evs qs (snd (run_method j op s))"
proof (cases "run_method i op s")
  case (Pair res s')
  obtain r where r: "store_get s i = Some r" "inc_incident_id (ir_incident r) = i"
    "ir_evidence r = evs" "ir_evidence_queries r = qs" using assms(1) by (auto simp: evidence_is_def)
  show ?thesis
  proof (cases res)
    case (Inl e)
    then show ?thesis using run_method_Inl [OF Pair [unfolded Inl]] Pair assms by simp
  next
    case (Inr r')
    with Pair r assms(2) have "s' = store_replace r' s" "inc_incident_id (ir_incident r') = i"
      "ir_evidence r' = evs" "ir_evidence_queries r' = qs"
      by (cases op; auto simp: makes_note_def store_method_defs store_update_Inr guarded_Inr
        append_failure_record_def append_audit_event_record_def with_event_def)+
    then show ?thesis using evidence_is_replace [OF assms(1), of r'] Pair assms(2) by simp
  qed
qed

interpretation noting: store_client "evidence_is s0 i evs qs" "\<lambda>j op. j = i \<and> makes_note op" for s0 i evs qs
  by unfold_locales (rule evidence_is_method)

lemma evidence_is_gateway_audit: "keeps (\<lambda>w. evidence_is s0 i evs qs (w_store w)) (gateway_audit en i k a d)"
  unfolding gateway_audit_def by (intro keeps_seq noting.providers noting.calls) simp_all

lemma evidence_is_query_failure: "qy_incident_id q = i \<Longrightarrow>
    keeps (\<lambda>w. evidence_is s0 i evs qs (w_store w)) (record_query_failure en q m)"
  unfolding record_query_failure_def
  by (intro keeps_seq keeps_ret noting.providers noting.calls) (simp_all add: evidence_is_gateway_audit)

lemma wp_seq_run: "m w = (Inr a, w') \<Longrightarrow> wp (seq m f) Q E w = wp (f a) Q E w'"
  by (simp add: wp_def seq_def)

lemma wp_keeps:
  assumes "keeps P m" "P w" "\<And>a w'. P w' \<Longrightarrow> Q a w'" "\<And>e w'. P w' \<Longrightarrow> E e w'"
  shows "wp m Q E w"
  by (rule wp_mono [OF keeps_wp [OF assms(1,2)]]) (use assms(3,4) in auto)

lemma gateway_content_bounds: "gateway_content b o' = Inr c \<Longrightarrow> c = bound_content b o'"
  by (auto simp: gateway_content_def bound_content_def Let_def split: if_splits)

text \<open>The recorded query and the observation that answers it.\<close>

definition answers ::
  "'k environment \<Rightarrow> 'k gateway \<Rightarrow> investigation_record \<Rightarrow> evidence_mapping \<Rightarrow> evidence_query
     \<Rightarrow> evidence_observation \<Rightarrow> bool" where
  "answers en gw r m q e \<longleftrightarrow> eo_evidence_query_id e = Some (qy_query_id q)
     \<and> eo_query_reference e = em_identifier m
     \<and> retained (en_digest en) (gw_redactor gw) (ir_application_profile r) (ir_evidence_window r) (em_scope m) e"

lemma safe_observation_wp:
  assumes "m \<in> set (ap_evidence_mappings (ir_application_profile r))" "wf_application_profile (ir_application_profile r)"
    and "evidence_is s0 i evs qs (w_store w)"
  shows "wp (safe_observation en gw r m o' (qy_query_id q))
    (\<lambda>e w'. answers en gw r m q e \<and> evidence_is s0 i evs qs (w_store w'))
    (\<lambda>_ w'. evidence_is s0 i evs qs (w_store w')) w"
proof -
  let ?b = "ap_evidence_budget (ir_application_profile r)"
  have bounded: "bounded_content ?b (re_kind o') (fst (bound_content ?b o'))"
    by (rule bound_content_bounded [OF profile_budget [OF assms(2)]])
  have "answers en gw r m q e"
    if "(re_source o', re_kind o', re_scope o') = (em_source m, em_kind m, em_scope m)"
      "in_window (ir_evidence_window r) (observed_at (ir_evidence_window r) o')"
      "gateway_content ?b o' = Inr c" "gw_redactor gw (fst c) = Inr excerpt"
      "validate_observation ((observation_of (en_digest en) u (inc_incident_id (ir_incident r))
         (ir_evidence_window r) m o' c excerpt reference)\<lparr>eo_evidence_query_id := Some (qy_query_id q)\<rparr>) = Inr e"
    for c excerpt reference u e
  proof -
    have e: "e = (observation_of (en_digest en) u (inc_incident_id (ir_incident r))
         (ir_evidence_window r) m o' c excerpt reference)\<lparr>eo_evidence_query_id := Some (qy_query_id q)\<rparr>"
      and len: "length excerpt \<le> 10000"
      using that(5) by (auto simp: validate_observation_def wf_evidence_observation_def observation_of_def split: if_splits)
    have c: "c = bound_content ?b o'" by (rule gateway_content_bounds [OF that(3)])
    show ?thesis unfolding answers_def retained_def using that(1,2,4) assms(1) bounded len
      by (intro conjI exI [of _ m] exI [of _ "fst c"]) (simp_all add: e observation_of_def c)
  qed
  then show ?thesis using assms(3)
    by (auto simp: safe_observation_def Let_def wp_seq_fun wp_raise_when wp_lift_result wp_uuid4 split: sum.split)
qed

lemma record_query_answered:
  assumes "store_get (w_store w) i = Some r" "inc_incident_id (ir_incident r) = i"
  shows "wp (record_query en i role m n)
    (\<lambda>q w'. evidence_is (w_store w) i (ir_evidence r) (ir_evidence_queries r @ [q]) (w_store w')
      \<and> qy_incident_id q = i \<and> qy_specialist q = role \<and> qy_query_round q = n)
    (\<lambda>_ w'. \<exists>qs. evidence_is (w_store w) i (ir_evidence r) qs (w_store w')) w"
proof -
  define w1 where "w1 = w\<lparr>w_uuids := Suc (w_uuids w), w_readings := Suc (w_readings w)\<rparr>"
  have get: "store_get (w_store w1) i = Some r" using assms by (simp add: w1_def)
  have same: "evidence_is (w_store w) i (ir_evidence r) (ir_evidence_queries r) (w_store w1)"
    using assms by (simp add: evidence_is_def w1_def)
  note run = record_query_run [of en i role m n _ _ w, unfolded Let_def, folded w1_def]
  show ?thesis
  proof (cases "validate_query (new_query en i role m n w)")
    case (Inl x)
    with same show ?thesis unfolding run by auto
  next
    case (Inr q)
    then have q: "qy_incident_id q = i" "qy_specialist q = role" "qy_query_round q = n"
      by (auto simp: validate_query_def new_query_def split: if_splits)
    have noted: "wp (query_audit en i role m q)
        (\<lambda>q w'. evidence_is (w_store w) i (ir_evidence r) (ir_evidence_queries r @ [q]) (w_store w')
          \<and> qy_incident_id q = i \<and> qy_specialist q = role \<and> qy_query_round q = n)
        (\<lambda>_ w'. \<exists>qs. evidence_is (w_store w) i (ir_evidence r) qs (w_store w')) w2"
      if "evidence_is (w_store w) i (ir_evidence r) (ir_evidence_queries r @ [q]) (w_store w2)" for w2
      unfolding query_audit_def wp_seq
      by (rule wp_keeps [OF evidence_is_gateway_audit that]) (auto simp: wp_ret q)
    have done': "evidence_is (w_store w) i (ir_evidence r) (ir_evidence_queries r @ [q])
        (w_store (w1\<lparr>w_store := store_replace r' (w_store w1)\<rparr>))"
      if "append_query_record i q r = Inr r'" for r'
    proof -
      have "r' = r\<lparr>ir_evidence_queries := ir_evidence_queries r @ [q]\<rparr>"
        using that by (simp add: append_query_record_def guarded_Inr)
      then show ?thesis using evidence_is_replace [OF same, of r'] assms(2) by simp
    qed
    show ?thesis
      unfolding run Inr sum.case append_evidence_query_def wp_store_record [OF get]
      using same noted [OF done'] by (auto split: sum.split)
  qed
qed

lemma answer_query_wp:
  fixes w :: "'k world"
  assumes m: "m \<in> set (ap_evidence_mappings (ir_application_profile r))" "wf_application_profile (ir_application_profile r)"
    and st: "evidence_is s0 i evs qs (w_store w)" and q: "qy_incident_id q = i"
  shows "wp (answer_query en gw i r m adapter q)
    (\<lambda>(e, attempts) w'. answers en gw r m q e \<and> evidence_is s0 i (evs @ [e]) qs (w_store w'))
    (\<lambda>_ w'. evidence_is s0 i evs qs (w_store w')) w"
proof -
  let ?same = "\<lambda>w. evidence_is s0 i evs qs (w_store w)"
  let ?E = "\<lambda>_. ?same" and ?Q = "\<lambda>(e, attempts) w'. answers en gw r m q e \<and> evidence_is s0 i (evs @ [e]) qs (w_store w')"
  define h where "h = (\<lambda>_ :: pyexn. seq (record_query_failure en q m) (\<lambda>_.
         raise (EvidenceGatewayError ''evidence query provider failed; no evidence was retained'')
           :: ('k world, evidence_observation \<times> nat) act))"
  have failed: "wp (h x) ?Q ?E w'" if "?same w'" for x w'
    unfolding h_def wp_seq by (rule wp_keeps [OF evidence_is_query_failure [OF q] that]) (simp_all add: wp_raise)
  have kept: "?Q (e, k) (w'\<lparr>w_store := store_replace r' (w_store w')\<rparr>)"
    if "answers en gw r m q e" "?same w'" "store_get (w_store w') i = Some x" "append_evidence_record i e x = Inr r'"
    for e k w' x r'
  proof -
    have "r' = x\<lparr>ir_evidence := ir_evidence x @ [e]\<rparr>"
      using that(4) by (simp add: append_evidence_record_def guarded_Inr)
    then show ?thesis using evidence_is_replace [OF that(2), of r'] that(1-3) by (auto simp: evidence_is_def)
  qed
  have stored: "wp (on_store (append_evidence i e)) (\<lambda>_. ?Q (e, k)) (\<lambda>x w'. wp (h x) ?Q ?E w') w'"
    if "answers en gw r m q e" "?same w'" for e k w'
    unfolding append_evidence_def by (rule wp_store_update, rule failed [OF that(2)], rule kept [OF that])
  have bounded: "wp (safe_observation en gw r m o' (qy_query_id q))
      (\<lambda>e. wp (seq (on_store (append_evidence i e)) (\<lambda>_. ret (e, k))) ?Q (\<lambda>x w'. wp (h x) ?Q ?E w'))
      (\<lambda>x w'. wp (h x) ?Q ?E w') w'"
    if "?same w'" for o' k w'
    unfolding wp_seq [of "on_store a" "\<lambda>_. ret b" for a b] wp_ret
    by (rule wp_mono [OF safe_observation_wp [OF m that]], elim conjE, rule stored, assumption+, rule failed)
  have asked: "wp (on_kube (query_provider gw adapter p)) (\<lambda>(o', k) w'. ?same w') ?E w" for p
    by (rule wp_keeps [OF noting.providers(1) st]) auto
  have tried: "wp (seq (on_kube (query_provider gw adapter p)) (\<lambda>(o', attempts).
       seq (safe_observation en gw r m o' (qy_query_id q)) (\<lambda>e.
       seq (on_store (append_evidence i e)) (\<lambda>_. ret (e, attempts))))) ?Q (\<lambda>x w'. wp (h x) ?Q ?E w') w" for p
    unfolding wp_seq [of "on_kube a" for a]
  proof (rule wp_mono [OF asked], goal_cases)
    case (1 a w')
    obtain o' k where a: "a = (o', k)" by (cases a)
    then have "?same w'" using 1 by simp
    then show ?case unfolding a prod.case wp_seq [of "safe_observation en gw r m o' x" for x] by (rule bounded)
  next
    case (2 x w')
    then show ?case by (rule failed)
  qed
  show ?thesis unfolding answer_query_def h_def [symmetric] wp_seq [of "lift_result a" for a] wp_lift_result wp_try_except
    using st tried by (auto split: sum.split)
qed

text \<open>C30. A query retains at most one observation, and only a bounded answer to it. Whatever the
  mapping, role and round asked and whatever the adapter returns or raises, \<open>execute\<close> touches no other
  incident, and the incident's evidence either stays as it was, and then \<open>execute\<close> has raised, or
  gains exactly one observation: of an allowlisted mapping with the identifier asked for, its
  source, kind and scope, inside the evidence window, within the evidence budget, its excerpt the
  redactor's output, and referring to the one query recorded for this Specialist and round.\<close>

theorem query_retains_at_most_one_answer:
  assumes "store_inv (w_store w)" "store_get (w_store w) i = Some r"
    and "execute_query en gw i role ident n w = (res, w')"
  shows "(\<exists>x qs. res = Inl x \<and> evidence_is (w_store w) i (ir_evidence r) qs (w_store w'))
    \<or> (\<exists>m q e. m \<in> set (ap_evidence_mappings (ir_application_profile r)) \<and> em_identifier m = ident
        \<and> qy_specialist q = role \<and> qy_query_round q = n \<and> answers en gw r m q e
        \<and> evidence_is (w_store w) i (ir_evidence r @ [e]) (ir_evidence_queries r @ [q]) (w_store w'))"
    (is "?unchanged res w' \<or> ?answered w'")
proof -
  have r: "inc_incident_id (ir_incident r) = i" "wf_application_profile (ir_application_profile r)"
    using store_inv_get [OF assms(1,2)] by (simp_all add: record_inv_def wf_record_def nested_entries_wf_def)
  have same: "evidence_is (w_store w) i (ir_evidence r) (ir_evidence_queries r) (w_store w)"
    using assms(2) r by (simp add: evidence_is_def)
  let ?Q = "\<lambda>_. ?answered" and ?E = "\<lambda>x w'. ?unchanged (Inl x) w' \<or> ?answered w'"
  have asked: "wp (seq (answer_query en gw i r m adapter q) (\<lambda>(e, attempts).
      gateway_audit en i ''evidence_query_completed'' ''evidence-gateway''
        [(''query_id'', qy_query_id q), (''evidence_id'', eo_evidence_id e),
         (''attempts'', nat_str attempts)])) ?Q ?E w1"
    if m: "m \<in> set (ap_evidence_mappings (ir_application_profile r))" "em_identifier m = ident"
      and q: "qy_incident_id q = i" "qy_specialist q = role" "qy_query_round q = n"
      and st: "evidence_is (w_store w) i (ir_evidence r) (ir_evidence_queries r @ [q]) (w_store w1)"
    for m adapter q w1
    unfolding wp_seq
  proof (rule wp_mono [OF answer_query_wp [OF m(1) r(2) st q(1)]], goal_cases)
    case (1 a w2)
    then obtain e k where a: "a = (e, k)" "answers en gw r m q e"
      "evidence_is (w_store w) i (ir_evidence r @ [e]) (ir_evidence_queries r @ [q]) (w_store w2)"
      by (cases a) auto
    have "?answered w3" if "evidence_is (w_store w) i (ir_evidence r @ [e]) (ir_evidence_queries r @ [q]) (w_store w3)" for w3
      using m q a(2) that by blast
    then show ?case unfolding a(1) prod.case
      by (intro wp_keeps [OF evidence_is_gateway_audit a(3)]) blast+
  next
    case (2 x w2)
    then show ?case by blast
  qed
  have recorded: "wp (record_query en i role m n) (\<lambda>q. wp (seq (answer_query en gw i r m adapter q) (\<lambda>(e, attempts).
      gateway_audit en i ''evidence_query_completed'' ''evidence-gateway''
        [(''query_id'', qy_query_id q), (''evidence_id'', eo_evidence_id e),
         (''attempts'', nat_str attempts)])) ?Q ?E) ?E w"
    if "m \<in> set (ap_evidence_mappings (ir_application_profile r))" "em_identifier m = ident" for m adapter
    by (rule wp_mono [OF record_query_answered [OF assms(2) r(1)]]) (use asked [OF that] in blast)+
  have "wp (execute_query en gw i role ident n) ?Q ?E w"
  proof (cases "authorize_query gw i role ident n w")
    case (Pair a w1)
    then have w1: "w1 = w" using authorize_query_world [of gw i role ident n w] by simp
    show ?thesis
    proof (cases a)
      case (Inl x)
      then show ?thesis using same Pair w1 by (auto simp: execute_query_def wp_def seq_def)
    next
      case (Inr t)
      obtain r1 m adapter where t: "t = (r1, m, adapter)" by (cases t)
      note ok = authorize_query_Inr [OF Pair [unfolded Inr t]]
      then have "r1 = r" using assms(2) by simp
      show ?thesis unfolding execute_query_def
        unfolding wp_seq_run [where m = "authorize_query gw i role ident n", OF Pair [unfolded Inr t w1 \<open>r1 = r\<close>]] prod.case
        unfolding wp_seq [of "record_query a b c d e" for a b c d e]
        by (rule recorded [OF ok(3,4) [unfolded \<open>r1 = r\<close>]])
    qed
  qed
  then show ?thesis using assms(3) by (auto simp: wp_def split: sum.splits)
qed

section \<open>Never more queries than the budget\<close>

text \<open>What happens around an incident: a Specialist asks, or a service makes another store call.\<close>

datatype gateway_event =
  Ask string specialist_role string int
| Other_Call string store_op

fun happens :: "'k environment \<Rightarrow> 'k gateway \<Rightarrow> gateway_event \<Rightarrow> 'k world \<Rightarrow> 'k world" where
  "happens en gw (Ask i role ident n) w = snd (execute_query en gw i role ident n w)"
| "happens en gw (Other_Call i op) w = snd (on_store (run_method i op) w)"

fun event_leaves_queries :: "gateway_event \<Rightarrow> bool" where
  "event_leaves_queries (Ask i role ident n) = True"
| "event_leaves_queries (Other_Call i op) = leaves_queries i op"


definition sample_gateway :: "unit gateway" where
  "sample_gateway = \<lparr>gw_adapters = (\<lambda>_. Some fake_query), gw_redactor = Inr,
     gw_deadline_seconds = 5, gw_maximum_attempts = 2, gw_monotonic = ret 0\<rparr>"

definition asked_world :: "unit world" where
  "asked_world = fold (happens alert_environment sample_gateway)
     [Ask ''inc-1'' HEALTH ''web'' 1, Ask ''inc-1'' HEALTH ''web'' 2, Ask ''inc-1'' HEALTH ''web'' 2] evidence_world"

lemma asked_queries:
  "map_option (\<lambda>r. (length (ir_evidence_queries r), length (ir_evidence r))) (store_get (w_store asked_world) ''inc-1'')
     = Some (2, 3)"
  by code_simp


definition queried :: "(pyexn + investigation_record) \<times> unit world" where
  "queried = execute_query alert_environment sample_gateway ''inc-1'' HEALTH ''web'' 1 evidence_world"

lemma queried_returns: "\<not> is_error (fst queried)"
  by code_simp

theorem query_retains_at_most_one_answer_witness:
  "\<exists>q e. evidence_is (w_store evidence_world) ''inc-1'' [sample_evidence, e] [q] (w_store (snd queried))
    \<and> qy_specialist q = HEALTH \<and> qy_query_round q = 1 \<and> eo_query_reference e = ''web''
    \<and> eo_evidence_query_id e = Some (qy_query_id q)"
proof -
  have run: "execute_query alert_environment sample_gateway ''inc-1'' HEALTH ''web'' 1 evidence_world
      = (fst queried, snd queried)"
    by (simp add: queried_def)
  have "ir_evidence sample_monitoring = [sample_evidence]" "ir_evidence_queries sample_monitoring = []"
    by (simp_all add: sample_monitoring_def)
  then obtain m q e where "em_identifier m = ''web''" "qy_specialist q = HEALTH" "qy_query_round q = 1"
    "answers alert_environment sample_gateway sample_monitoring m q e"
    "evidence_is (w_store evidence_world) ''inc-1'' [sample_evidence, e] [q] (w_store (snd queried))"
    using query_retains_at_most_one_answer [OF evidence_world_start(1,2) run] queried_returns by auto
  then show ?thesis by (intro exI [of _ q] exI [of _ e] conjI) (simp_all add: answers_def)
qed

text \<open>
  A workload that logged nothing in the window has no observation the model accepts, so its empty
  result is handled like a failure of the provider.
\<close>

lemma empty_log_is_a_provider_failure:
  assumes "pq_source q = CLOUD_LOGGING" "pq_kind q = POD_LOGS"
  shows "fst (cloud_logging_query (\<lambda>_ _ _ _ _ _. ret []) q k)
    = Inl (ValidationError ''RawEvidenceObservation'' ''invalid field'')"
  using assms by (simp add: cloud_logging_query_def raise_when_def seq_def ret_def lift_result_def
      validate_raw_evidence_def raw_evidence_fields_def)

end
