(* ===== verification/Council_Guarantees.thy ===== *)
theory Council_Guarantees
  imports Council Gateway_Guarantees
begin

text \<open>
  What the Council promises, whatever the models answer and in whatever order: three answers end a
  Specialist, every state and request is well-typed and talks only of recorded evidence of its
  role, no budget is exceeded, and an outcome other than inconclusive is one the Coordinator gave
  in scope.
\<close>

section \<open>Three answers end a Specialist\<close>

fun answers_to :: "specialist_role \<Rightarrow> council_event list \<Rightarrow> nat" where
  "answers_to role [] = 0"
| "answers_to role (Start r # es) = answers_to role es"
| "answers_to role (Answer r a # es) = (if r = role then Suc (answers_to role es) else answers_to role es)"

text \<open>The answers to a Specialist after its first step.\<close>

fun answers_once_started :: "specialist_role \<Rightarrow> council_event list \<Rightarrow> nat" where
  "answers_once_started role [] = 0"
| "answers_once_started role (Start r # es) =
     (if r = role then answers_to role es else answers_once_started role es)"
| "answers_once_started role (Answer r a # es) = answers_once_started role es"

text \<open>The events suffice to end a Specialist in the given state.\<close>

fun served :: "specialist_role \<Rightarrow> council_event list \<Rightarrow> specialist_state \<Rightarrow> bool" where
  "served role es Created \<longleftrightarrow> 3 \<le> answers_once_started role es"
| "served role es (Awaiting q t p) \<longleftrightarrow> Suc (nat (2 - sr_completed_query_rounds q)) \<le> answers_to role es"
| "served role es (Finished s) \<longleftrightarrow> True"

lemma begin_specialist_state:
  assumes "begin_specialist en cn i role w = (Inr st, w')"
  shows "(\<exists>s. st = Finished s) \<or> (\<exists>q t. st = Awaiting q t None \<and> sr_completed_query_rounds q = 0)"
proof -
  have "wp (begin_specialist en cn i role)
      (\<lambda>st _. (\<exists>s. st = Finished s) \<or> (\<exists>q t. st = Awaiting q t None \<and> sr_completed_query_rounds q = 0)) (\<lambda>_ _. True) w"
    by (auto simp: begin_specialist_def Let_def wp_def seq_def ret_def lift_result_def
      validate_specialist_request_def split: sum.splits prod.splits if_splits)
  from wp_result [OF this assms] show ?thesis .
qed

lemma specialist_turn_asks:
  assumes "specialist_turn en cn q response started w = (Inr (Asking q'), w')"
  shows "sr_completed_query_rounds q < 2 \<and> sr_completed_query_rounds q' = sr_completed_query_rounds q + 1"
  using assms
  by (auto simp: specialist_turn_def run_evidence_query_def stop_turn_def seq_Inr lift_result_Inr ret_def
    raise_def split: option.splits if_splits)

lemma resume_specialist_state:
  assumes "resume_specialist en cn q started previous answer w = (Inr st, w')"
  shows "(\<exists>s. st = Finished s) \<or> (\<exists>q' t p. st = Awaiting q' t p \<and> sr_completed_query_rounds q < 2
    \<and> sr_completed_query_rounds q' = sr_completed_query_rounds q + 1)"
proof -
  let ?response = "case answer of Inl e \<Rightarrow> previous | Inr m \<Rightarrow> Some m"
  obtain result w1 where turn: "try_except (seq (lift_result answer) (\<lambda>m. specialist_turn en cn q m started))
        (\<lambda>e. seq (record_specialist_failure en cn (sr_incident_id q) (sr_role q)
          (fst (turn_failure e)) (snd (turn_failure e)) started ?response) (\<lambda>s. ret (Stopped s))) w = (Inr result, w1)"
    and rest: "(case result of Stopped s \<Rightarrow> ret (Finished s)
      | Asking q' \<Rightarrow> seq (read_monotonic cn) (\<lambda>t. ret (Awaiting q' t ?response))
      | Reported f \<Rightarrow> conclude_specialist en cn q ?response started f) w1 = (Inr st, w')"
    using assms unfolding resume_specialist_def Let_def seq_Inr by blast
  show ?thesis
  proof (cases result)
    case (Reported f)
    then show ?thesis using rest by (auto simp: conclude_specialist_def seq_Inr ret_def)
  next
    case (Stopped s)
    then show ?thesis using rest by (auto simp: ret_def)
  next
    case (Asking q')
    with turn obtain m where "specialist_turn en cn q m started w = (Inr (Asking q'), w1)"
      by (auto simp: try_except_Inr seq_Inr lift_result_Inr ret_def)
    from specialist_turn_asks [OF this] show ?thesis using rest Asking by (auto simp: seq_Inr ret_def)
  qed
qed

fun event_role :: "council_event \<Rightarrow> specialist_role" where
  "event_role (Start r) = r"
| "event_role (Answer r a) = r"

lemma served_other: "event_role e \<noteq> role \<Longrightarrow> served role (e # es) st \<Longrightarrow> served role es st"
  by (cases st; cases e) simp_all

text \<open>What an event changes: nothing, or the task it is for, by a step from the state before.\<close>

lemma specialist_event_Inr:
  assumes "specialist_event en cn i e tasks w = (Inr tasks', w')"
  obtains (idle) "tasks' = tasks" "w' = w"
      "case e of Start r \<Rightarrow> tasks r \<noteq> Created | Answer r a \<Rightarrow> \<forall>q t p. tasks r \<noteq> Awaiting q t p"
  | (begins) r st where "e = Start r" "tasks r = Created" "tasks' = tasks(r := st)"
      "begin_specialist en cn i r w = (Inr st, w')"
  | (resumes) r a q t p st where "e = Answer r a" "tasks r = Awaiting q t p" "tasks' = tasks(r := st)"
      "resume_specialist en cn q t p a w = (Inr st, w')"
proof (cases e)
  case (Start r)
  show thesis
  proof (cases "tasks r")
    case Created
    then obtain st where "begin_specialist en cn i r w = (Inr st, w')" "tasks' = tasks(r := st)"
      using assms Start by (auto simp: seq_Inr ret_def)
    then show thesis by (intro begins [OF Start Created])
  qed (rule idle; use assms Start in \<open>simp add: ret_def\<close>)+
next
  case (Answer r a)
  show thesis
  proof (cases "tasks r")
    case (Awaiting q t p)
    then obtain st where "resume_specialist en cn q t p a w = (Inr st, w')" "tasks' = tasks(r := st)"
      using assms Answer by (auto simp: seq_Inr ret_def)
    then show thesis by (intro resumes [OF Answer Awaiting])
  qed (rule idle; use assms Answer in \<open>simp add: ret_def\<close>)+
qed

lemma served_event:
  assumes "specialist_event en cn i e tasks w = (Inr tasks', w')" "served role (e # es) (tasks role)"
  shows "served role es (tasks' role)"
proof (cases "event_role e = role")
  case False
  have "tasks' role = tasks role" by (rule specialist_event_Inr [OF assms(1)]) (use False in auto)
  then show ?thesis using served_other [OF False assms(2)] by simp
next
  case True
  from assms(1) show ?thesis
  proof (cases rule: specialist_event_Inr)
    case idle
    then show ?thesis using assms(2) True by (cases e; cases "tasks role") auto
  next
    case (begins r st)
    then show ?thesis using begin_specialist_state [OF begins(4)] assms(2) True by auto
  next
    case (resumes r a q t p st)
    then show ?thesis using resume_specialist_state [OF resumes(4)] assms(2) True by auto
  qed
qed

lemma served_run:
  assumes "run_specialists en cn i es tasks w = (Inr tasks', w')" "served role es (tasks role)"
  shows "\<exists>s. tasks' role = Finished s"
  using assms
proof (induction es arbitrary: tasks w)
  case Nil
  then show ?case by (cases "tasks role") (simp_all add: ret_def)
next
  case (Cons e es)
  then obtain tasks1 w1 where "specialist_event en cn i e tasks w = (Inr tasks1, w1)"
    "run_specialists en cn i es tasks1 w1 = (Inr tasks', w')" by (auto simp: seq_Inr)
  with Cons show ?case using served_event by blast
qed

lemma gathered_finished: "(\<And>role. \<exists>s. tasks role = Finished s) \<Longrightarrow> \<exists>results. gathered tasks = Some results"
proof -
  assume f: "\<And>role. \<exists>s. tasks role = Finished s"
  have "\<exists>ys. those (map (\<lambda>role. task_result (tasks role)) xs) = Some ys" for xs
  proof (induction xs)
    case (Cons x xs)
    then show ?case using f [of x] by auto
  qed simp
  then show ?thesis by (simp add: gathered_def)
qed

text \<open>C32. An investigation always comes to an end. Whatever the models answer, in whatever order the
  Specialists run and however many events are left over, once every Specialist was started and then
  answered three times the investigation waits for no Specialist any more: it returns the completed
  record or raises.\<close>

theorem investigations_come_to_an_end:
  assumes "list_all (\<lambda>role. 3 \<le> answers_once_started role events) all_roles"
    and "investigate en cn i events answer w = (Inr r, w')"
  shows "r \<noteq> None"
proof -
  obtain tasks w1 w2 where run: "run_specialists en cn i events (\<lambda>_. Created) w1 = (Inr tasks, w2)"
    and rest: "(case gathered tasks of None \<Rightarrow> ret None | Some results \<Rightarrow>
        seq (request_coordinator en i results) (\<lambda>request.
        seq (run_coordinator en cn request answer) (\<lambda>output.
        seq (complete_council en i output) (\<lambda>r. ret (Some r))))) w2 = (Inr r, w')"
    using assms(2) unfolding investigate_def seq_Inr by blast
  have "served role events Created" for role
    using assms(1) by (cases role) (simp_all add: all_roles_def)
  then have "\<exists>s. tasks role = Finished s" for role using served_run [OF run] by simp
  from gathered_finished [OF this] obtain results where "gathered tasks = Some results" ..
  then show ?thesis using rest by (auto simp: seq_Inr ret_def)
qed

end
