(* ===== verification/Store_Growth.thy ===== *)
theory Store_Growth
  imports Store_Client
begin

text \<open>
  Triples over a growing store. \<open>grows F m Q\<close>: from a valid store with \<open>F\<close>, the action only extends
  the store, and when it returns \<open>a\<close> the store satisfies \<open>Q a\<close>. A fact that growing stores keep
  (\<open>lasting\<close>), such as an entry being recorded, is carried along a composition.
\<close>

definition lasting :: "(store \<Rightarrow> bool) \<Rightarrow> bool" where
  "lasting F \<longleftrightarrow> (\<forall>s s'. F s \<longrightarrow> grown s s' \<longrightarrow> F s')"

definition grows :: "(store \<Rightarrow> bool) \<Rightarrow> ('k world, 'a) act \<Rightarrow> ('a \<Rightarrow> store \<Rightarrow> bool) \<Rightarrow> bool" where
  "grows F m Q \<longleftrightarrow> (\<forall>w. store_inv (w_store w) \<and> F (w_store w) \<longrightarrow>
     wp m (\<lambda>a w'. grown (w_store w) (w_store w') \<and> Q a (w_store w'))
       (\<lambda>_ w'. grown (w_store w) (w_store w')) w)"

lemma growsI:
  "(\<And>w. store_inv (w_store w) \<Longrightarrow> F (w_store w) \<Longrightarrow>
      wp m (\<lambda>a w'. grown (w_store w) (w_store w') \<and> Q a (w_store w'))
        (\<lambda>_ w'. grown (w_store w) (w_store w')) w) \<Longrightarrow> grows F m Q"
  by (simp add: grows_def)

lemma growsD:
  "grows F m Q \<Longrightarrow> store_inv (w_store w) \<Longrightarrow> F (w_store w) \<Longrightarrow>
     wp m (\<lambda>a w'. grown (w_store w) (w_store w') \<and> Q a (w_store w'))
       (\<lambda>_ w'. grown (w_store w) (w_store w')) w"
  by (simp add: grows_def)

lemma grows_result:
  assumes "grows F m Q" "store_inv (w_store w)" "F (w_store w)" "m w = (Inr a, w')"
  shows "grown (w_store w) (w_store w')" "Q a (w_store w')"
  using wp_result [OF growsD [OF assms(1-3)] assms(4)] by simp_all

lemma grows_world:
  assumes "grows F m Q" "store_inv (w_store w)" "F (w_store w)"
  shows "grown (w_store w) (w_store (snd (m w)))"
  using growsD [OF assms] by (cases "m w") (simp add: wp_def split: sum.splits)

lemma grows_weaken:
  assumes "grows F m Q" "\<And>s. store_inv s \<Longrightarrow> G s \<Longrightarrow> F s" "\<And>a s. store_inv s \<Longrightarrow> Q a s \<Longrightarrow> R a s"
  shows "grows G m R"
  by (rule growsI, rule wp_mono [OF growsD [OF assms(1)]]) (use assms(2,3) in \<open>auto dest: grown_inv\<close>)

lemma grows_seq:
  fixes m :: "('k world, 'a) act"
  assumes m: "grows F m Q" and f: "\<And>a. grows (Q a) (f a) R"
  shows "grows F (seq m f) R"
proof (rule growsI, unfold wp_seq)
  fix w :: "'k world" assume w: "store_inv (w_store w)" "F (w_store w)"
  show "wp m (\<lambda>a. wp (f a) (\<lambda>b w'. grown (w_store w) (w_store w') \<and> R b (w_store w'))
      (\<lambda>_ w'. grown (w_store w) (w_store w'))) (\<lambda>_ w'. grown (w_store w) (w_store w')) w"
  proof (rule wp_mono [OF growsD [OF m w]])
    fix a and w1 :: "'k world" assume w1: "grown (w_store w) (w_store w1) \<and> Q a (w_store w1)"
    then have "wp (f a) (\<lambda>b w'. grown (w_store w1) (w_store w') \<and> R b (w_store w'))
        (\<lambda>_ w'. grown (w_store w1) (w_store w')) w1"
      by (intro growsD [OF f] grown_inv) blast+
    then show "wp (f a) (\<lambda>b w'. grown (w_store w) (w_store w') \<and> R b (w_store w'))
        (\<lambda>_ w'. grown (w_store w) (w_store w')) w1"
      by (rule wp_mono) (use w1 grown_trans in blast)+
  qed
qed

lemma grows_frame:
  assumes "grows F m Q" "lasting G"
  shows "grows (\<lambda>s. F s \<and> G s) m (\<lambda>a s. Q a s \<and> G s)"
  by (rule growsI, rule wp_mono [OF growsD [OF assms(1)]]) (use assms(2) in \<open>auto simp: lasting_def\<close>)

text \<open>The rule for a composition that keeps what held before.\<close>

lemma grows_bind:
  assumes "lasting F" "grows F m Q" "\<And>a. grows (\<lambda>s. F s \<and> Q a s) (f a) R"
  shows "grows F (seq m f) R"
proof (rule grows_seq [OF _ assms(3)])
  show "grows F m (\<lambda>a s. F s \<and> Q a s)"
    by (rule grows_weaken [OF grows_frame [OF assms(2,1)]]) auto
qed

text \<open>After a step of which only growth is needed, and after a validation.\<close>

lemma grows_then:
  assumes "lasting F" "grows F m (\<lambda>_ _. True)" "\<And>a. grows F (f a) R"
  shows "grows F (seq m f) R"
  by (rule grows_bind [OF assms(1,2)]) (rule grows_weaken [OF assms(3)], simp_all)

lemma grows_validated:
  assumes "\<And>a. r = Inr a \<Longrightarrow> grows F (f a) R"
  shows "grows F (seq (lift_result r) f) R"
  using assms
  by (cases r) (simp_all add: grows_def wp_seq wp_lift_result grown_refl)

lemma grows_guarded: "grows F (f ()) R \<Longrightarrow> grows F (seq (raise_when b e) f) R"
  by (cases b) (simp_all add: grows_def wp_seq wp_raise_when grown_refl)

lemma grows_ret: "(\<And>s. store_inv s \<Longrightarrow> F s \<Longrightarrow> Q a s) \<Longrightarrow> grows F (ret a) Q"
  by (rule growsI) (simp add: wp_ret grown_refl)

lemma grows_raise: "grows F (raise e) Q"
  by (rule growsI) (simp add: wp_raise grown_refl)

lemma grows_raise_when: "grows F (raise_when b e) (\<lambda>_ s. \<not> b)"
  by (rule growsI) (simp add: wp_raise_when grown_refl)

lemma grows_lift: "(\<And>a s. store_inv s \<Longrightarrow> F s \<Longrightarrow> r = Inr a \<Longrightarrow> Q a s) \<Longrightarrow> grows F (lift_result r) Q"
  by (rule growsI) (auto simp: wp_lift_result grown_refl split: sum.split)

lemma grows_try:
  fixes m :: "('k world, 'a) act"
  assumes "lasting F" "grows F m Q" "\<And>e. grows F (h e) Q"
  shows "grows F (try_except m h) Q"
proof (rule growsI, unfold wp_try_except)
  fix w :: "'k world" assume w: "store_inv (w_store w)" "F (w_store w)"
  show "wp m (\<lambda>a w'. grown (w_store w) (w_store w') \<and> Q a (w_store w'))
      (\<lambda>e. wp (h e) (\<lambda>a w'. grown (w_store w) (w_store w') \<and> Q a (w_store w'))
        (\<lambda>_ w'. grown (w_store w) (w_store w'))) w"
  proof (rule wp_mono [OF growsD [OF assms(2) w]])
    fix e and w1 :: "'k world" assume w1: "grown (w_store w) (w_store w1)"
    then have "F (w_store w1)" using w(2) assms(1) by (auto simp: lasting_def)
    from growsD [OF assms(3) grown_inv [OF w1] this]
    show "wp (h e) (\<lambda>a w'. grown (w_store w) (w_store w') \<and> Q a (w_store w'))
        (\<lambda>_ w'. grown (w_store w) (w_store w')) w1"
      by (rule wp_mono) (use w1 grown_trans in blast)+
  qed
qed

lemma grows_if: "(b \<Longrightarrow> grows F m Q) \<Longrightarrow> (\<not> b \<Longrightarrow> grows F n Q) \<Longrightarrow> grows F (if b then m else n) Q"
  by simp

lemma grows_option:
  "(x = None \<Longrightarrow> grows F m Q) \<Longrightarrow> (\<And>a. x = Some a \<Longrightarrow> grows F (f a) Q) \<Longrightarrow>
     grows F (case x of None \<Rightarrow> m | Some a \<Rightarrow> f a) Q"
  by (cases x) simp_all

lemma grows_pre: "(\<And>s. store_inv s \<Longrightarrow> F s \<Longrightarrow> c) \<Longrightarrow> (c \<Longrightarrow> grows F m Q) \<Longrightarrow> grows F m Q"
  by (auto simp: grows_def)

lemma grows_keeps:
  assumes "\<And>s0. keeps (\<lambda>w. grown s0 (w_store w)) m"
  shows "grows F m (\<lambda>_ _. True)"
  by (rule growsI) (use keepsD [OF assms] grown_refl in \<open>simp add: wp_def split: sum.splits prod.splits\<close>, metis snd_conv)

lemma grows_providers:
  "grows F (now_act en) (\<lambda>_ _. True)" "grows F (uuid4 en) (\<lambda>_ _. True)" "grows F (on_kube m) (\<lambda>_ _. True)"
  by (rule grows_keeps, rule growing.providers)+

text \<open>A call of a method: the entry has to be valid only if the incident is known.\<close>

lemma grows_call: "wf_op op \<Longrightarrow> grows F (on_store (run_method i op)) (\<lambda>_ _. True)"
  by (rule grows_keeps, rule growing.call)

section \<open>Stable facts\<close>

lemma lasting_conj: "lasting F \<Longrightarrow> lasting G \<Longrightarrow> lasting (\<lambda>s. F s \<and> G s)"
  by (auto simp: lasting_def)

lemma lasting_const: "lasting (\<lambda>_. b)"
  by (simp add: lasting_def)

lemma lasting_all: "(\<And>x. lasting (F x)) \<Longrightarrow> lasting (\<lambda>s. \<forall>x. F x s)"
  by (auto simp: lasting_def)

definition known :: "string \<Rightarrow> (investigation_record \<Rightarrow> bool) \<Rightarrow> store \<Rightarrow> bool" where
  "known i P s \<longleftrightarrow> (\<exists>r. store_get s i = Some r \<and> P r)"

lemma lasting_known: "(\<And>r r'. record_extends r r' \<Longrightarrow> P r \<Longrightarrow> P r') \<Longrightarrow> lasting (known i P)"
  unfolding lasting_def known_def using grown_get by blast

abbreviation exists_incident :: "string \<Rightarrow> store \<Rightarrow> bool" where
  "exists_incident i \<equiv> known i (\<lambda>_. True)"

lemma lasting_exists [simp]: "lasting (exists_incident i)"
  by (rule lasting_known)

lemma known_id: "store_inv s \<Longrightarrow> known i P s \<Longrightarrow> i \<noteq> []"
  using store_inv_get [of s i]
  by (auto simp: known_def record_inv_def wf_record_def nested_entries_wf_def incident_fields_def)

lemma known_exists: "known i P s \<Longrightarrow> exists_incident i s"
  by (auto simp: known_def)

lemma grows_get_record:
  "grows F (get_record i) (\<lambda>found s. F s \<and> found = store_get s i)"
  by (rule growsI) (simp add: wp_get_record grown_refl)

end
