(* ===== verification/Council_Types.thy ===== *)
theory Council_Types
  imports Council_Guarantees Store_Growth
begin

text \<open>
  The types of the Council's states: every request a Specialist is sent is valid and holds only
  recorded evidence of its role, every result is valid and every reported finding is recorded.
  Shown as triples over the growing store, from the gateway's steps up to the event loop.
\<close>

section \<open>The gateway's steps\<close>

lemma grows_gateway_audit:
  assumes "k \<noteq> []" "a \<noteq> []"
  shows "grows (exists_incident i) (gateway_audit en i k a d) (\<lambda>_ _. True)"
proof (rule grows_pre)
  show "i \<noteq> []" if "store_inv s" "exists_incident i s" for s using known_id [OF that] .
  show "grows (exists_incident i) (gateway_audit en i k a d) (\<lambda>_ _. True)" if "i \<noteq> []"
    unfolding gateway_audit_def using assms that
    by (intro grows_keeps keeps_seq growing.providers growing.calls) (simp add: wf_audit_event_def)
qed

lemma grows_council_audit: "k \<noteq> [] \<Longrightarrow> grows (exists_incident i) (council_audit en i k d) (\<lambda>_ _. True)"
  unfolding council_audit_def by (intro grows_seq [OF grows_gateway_audit] grows_ret) simp_all

lemma grows_note_invocation: "grows F (note_invocation en cn i role response started n reason) (\<lambda>_ _. True)"
  unfolding note_invocation_def read_monotonic_def
  by (intro grows_keeps keeps_seq keeps_ret keeps_lift_result growing.providers growing.calls) simp

lemma grows_council_record: "grows F (council_record i) (\<lambda>r s. F s \<and> store_get s i = Some r)"
  unfolding council_record_def by (rule grows_seq [OF grows_get_record], rule grows_lift) (simp split: option.splits)

definition mapping_of :: "evidence_mapping \<Rightarrow> investigation_record \<Rightarrow> bool" where
  "mapping_of m r \<longleftrightarrow> m \<in> set (ap_evidence_mappings (ir_application_profile r))"

lemma lasting_mapping [simp]: "lasting (known i (mapping_of m))"
  by (rule lasting_known) (simp add: mapping_of_def record_extends_def)

lemma mapping_scope: "store_inv s \<Longrightarrow> known i (mapping_of m) s \<Longrightarrow> workload_reference_fields (em_scope m)"
  using store_inv_get [of s i]
  by (auto simp: known_def mapping_of_def record_inv_def wf_record_def nested_entries_wf_def
    wf_application_profile_def list_all_iff wf_evidence_mapping_def)

lemma grows_authorize:
  fixes gw :: "'k gateway"
  shows "grows F (authorize_query gw i role ident n) (\<lambda>(r, m, adapter) s. F s \<and> known i (mapping_of m) s)"
proof (rule growsI)
  fix w :: "'k world" assume w: "store_inv (w_store w)" "F (w_store w)"
  show "wp (authorize_query gw i role ident n)
      (\<lambda>a w'. grown (w_store w) (w_store w')
         \<and> (case a of (r, m, adapter) \<Rightarrow> \<lambda>s. F s \<and> known i (mapping_of m) s) (w_store w'))
      (\<lambda>_ w'. grown (w_store w) (w_store w')) w"
  proof (cases "authorize_query gw i role ident n w")
    case (Pair res w')
    then have same: "w' = w" using authorize_query_world [of gw i role ident n w] by simp
    show ?thesis
    proof (cases res)
      case (Inl e)
      then show ?thesis using Pair same w by (simp add: wp_def grown_refl)
    next
      case (Inr t)
      obtain r m adapter where t: "t = (r, m, adapter)" by (cases t)
      have "known i (mapping_of m) (w_store w)"
        using authorize_query_Inr(2,3) [OF Pair [unfolded Inr t]] by (simp add: known_def mapping_of_def)
      then show ?thesis using Pair Inr t same w by (simp add: wp_def grown_refl)
    qed
  qed
qed

lemma grows_record_query:
  "grows (exists_incident i) (record_query en i role m n) (\<lambda>q s. exists_incident i s \<and> qy_incident_id q = i)"
  unfolding record_query_def
proof (rule grows_then [OF lasting_exists grows_providers(2)],
    rule grows_then [OF lasting_exists grows_providers(1)], rule grows_validated)
  fix u t q
  assume "validate_query \<lparr>qy_query_id = ''query-'' @ u, qy_incident_id = i, qy_specialist = role,
    qy_kind = em_kind m, qy_target = em_scope m, qy_requested_at = t, qy_query_round = n\<rparr> = Inr q"
  then have q: "wf_evidence_query q" "qy_incident_id q = i" by (auto simp: validate_query_def split: if_splits)
  then have call: "grows (exists_incident i) (on_store (append_evidence_query i q)) (\<lambda>_ _. True)"
    by (intro grows_keeps growing.calls) simp
  show "grows (exists_incident i) (seq (on_store (append_evidence_query i q)) (\<lambda>_.
      seq (gateway_audit en i ''evidence_query_requested'' (''specialist:'' @ specialist_role_value role)
        [(''query_id'', qy_query_id q), (''mapping_identifier'', em_identifier m),
         (''source'', evidence_source_value (em_source m))]) (\<lambda>_. ret q)))
      (\<lambda>q s. exists_incident i s \<and> qy_incident_id q = i)"
    by (intro grows_then [OF lasting_exists] call grows_gateway_audit grows_ret) (simp_all add: q)
qed

lemma grows_query_failure:
  assumes "qy_incident_id q = i" "workload_reference_fields (em_scope m)"
  shows "grows (exists_incident i) (record_query_failure en q m) (\<lambda>_ _. True)"
  unfolding record_query_failure_def assms(1)
proof (rule grows_then [OF lasting_exists grows_providers(2)],
    rule grows_then [OF lasting_exists grows_providers(1)])
  fix u t
  let ?f = "\<lparr>ef_failure_id = ''evidence-failure-'' @ u, ef_incident_id = i,
      ef_source = Some (em_source m), ef_query = Some (em_kind m), ef_scope = Some (em_scope m),
      ef_occurred_at = t, ef_message = ''evidence query provider failed; no evidence was retained''\<rparr>"
  have call: "grows (exists_incident i) (on_store (append_evidence_retrieval_failure i ?f)) (\<lambda>_ _. True)"
  proof (rule grows_pre)
    show "i \<noteq> []" if "store_inv s" "exists_incident i s" for s using known_id [OF that] .
  qed (intro grows_keeps growing.calls, simp add: wf_evidence_retrieval_failure_def assms(2))
  show "grows (exists_incident i) (seq (on_store (append_evidence_retrieval_failure i ?f)) (\<lambda>_.
      seq (gateway_audit en i ''evidence_query_failed'' ''evidence-gateway'' [(''query_id'', qy_query_id q)])
        (\<lambda>_. ret ()))) (\<lambda>_ _. True)"
    by (intro grows_then [OF lasting_exists] call grows_gateway_audit grows_ret) simp_all
qed

lemma grows_safe_observation:
  "grows F (safe_observation en gw r m o' n) (\<lambda>e s. wf_evidence_observation e)"
  unfolding safe_observation_def Let_def
  by (rule grows_guarded, rule grows_guarded, rule grows_validated, rule grows_validated, rule grows_validated,
      rule grows_seq [OF grows_providers(2)], rule grows_lift)
    (simp add: validate_observation_def split: if_splits)

lemma grows_answer_query:
  assumes "qy_incident_id q = i"
  shows "grows (\<lambda>s. exists_incident i s \<and> known i (mapping_of m) s) (answer_query en gw i r m adapter q)
    (\<lambda>_ s. exists_incident i s)"
proof -
  let ?F = "\<lambda>s. exists_incident i s \<and> known i (mapping_of m) s"
  have F: "lasting ?F" by (rule lasting_conj) simp_all
  have call: "grows ?F (on_store (append_evidence i e)) (\<lambda>_ _. True)" if "wf_evidence_observation e" for e
    using that by (intro grows_keeps growing.calls) simp
  have store: "grows (\<lambda>s. ?F s \<and> wf_evidence_observation e)
      (seq (on_store (append_evidence i e)) (\<lambda>_. ret (e, k :: nat))) (\<lambda>_ s. exists_incident i s)" for e k
  proof (rule grows_pre [where c = "wf_evidence_observation e"])
    show "grows (\<lambda>s. ?F s \<and> wf_evidence_observation e)
      (seq (on_store (append_evidence i e)) (\<lambda>_. ret (e, k))) (\<lambda>_ s. exists_incident i s)" if "wf_evidence_observation e"
      by (rule grows_weaken [OF grows_then [OF F call [OF that] grows_ret]]) simp_all
  qed simp
  have failed: "grows ?F (seq (record_query_failure en q m) (\<lambda>_. raise x)) Q"
    for x and Q :: "evidence_observation \<times> nat \<Rightarrow> store \<Rightarrow> bool"
  proof (rule grows_pre)
    show "workload_reference_fields (em_scope m)" if "store_inv s" "?F s" for s using mapping_scope that by blast
    show "grows ?F (seq (record_query_failure en q m) (\<lambda>_. raise x)) Q" if "workload_reference_fields (em_scope m)"
      by (rule grows_seq [OF grows_weaken [OF grows_query_failure [OF assms that]] grows_raise]) simp_all
  qed
  show ?thesis unfolding answer_query_def
  proof (intro grows_validated grows_try [OF F _ failed] grows_then [OF F grows_providers(3)])
    fix request and a :: "raw_evidence \<times> nat"
    show "grows ?F (case a of (o', attempts) \<Rightarrow> seq (safe_observation en gw r m o' (qy_query_id q)) (\<lambda>e.
        seq (on_store (append_evidence i e)) (\<lambda>_. ret (e, attempts)))) (\<lambda>_ s. exists_incident i s)"
      by (cases a) (simp add: grows_bind [OF F grows_safe_observation store])
  qed
qed

lemma grows_execute_query:
  "grows (exists_incident i) (execute_query en gw i role ident n) (\<lambda>_ s. exists_incident i s)"
proof -
  have rest: "grows (\<lambda>s. exists_incident i s \<and> known i (mapping_of m) s)
      (seq (record_query en i role m n) (\<lambda>query.
       seq (answer_query en gw i r m adapter query) (\<lambda>(e, attempts).
         gateway_audit en i ''evidence_query_completed'' ''evidence-gateway''
          [(''query_id'', qy_query_id query), (''evidence_id'', eo_evidence_id e),
           (''attempts'', nat_str attempts)]))) (\<lambda>_ s. True)"
    (is "grows ?F _ _") for r m adapter
  proof (rule grows_bind [OF lasting_conj [OF lasting_exists lasting_mapping]])
    show "grows ?F (record_query en i role m n) (\<lambda>q s. qy_incident_id q = i)"
      by (rule grows_weaken [OF grows_record_query]) simp_all
    fix q
    show "grows (\<lambda>s. ?F s \<and> qy_incident_id q = i) (seq (answer_query en gw i r m adapter q) (\<lambda>(e, attempts).
         gateway_audit en i ''evidence_query_completed'' ''evidence-gateway''
          [(''query_id'', qy_query_id q), (''evidence_id'', eo_evidence_id e),
           (''attempts'', nat_str attempts)])) (\<lambda>_ s. True)"
    proof (rule grows_pre [where c = "qy_incident_id q = i"])
      show "grows (\<lambda>s. ?F s \<and> qy_incident_id q = i) (seq (answer_query en gw i r m adapter q) (\<lambda>(e, attempts).
         gateway_audit en i ''evidence_query_completed'' ''evidence-gateway''
          [(''query_id'', qy_query_id q), (''evidence_id'', eo_evidence_id e),
           (''attempts'', nat_str attempts)])) (\<lambda>_ s. True)" if "qy_incident_id q = i"
        by (rule grows_seq [where Q = "\<lambda>_. exists_incident i"], rule grows_weaken [OF grows_answer_query [OF that]])
          (auto intro: grows_gateway_audit split: prod.split)
    qed simp
  qed
  have "grows (exists_incident i) (execute_query en gw i role ident n) (\<lambda>_ s. True)"
    unfolding execute_query_def
    by (rule grows_seq [OF grows_authorize]) (auto intro: rest split: prod.split)
  from grows_frame [OF this lasting_exists [of i]] show ?thesis by (rule grows_weaken) simp_all
qed

section \<open>Typed states\<close>

definition request_ok :: "string \<Rightarrow> specialist_role \<Rightarrow> specialist_request \<Rightarrow> store \<Rightarrow> bool" where
  "request_ok i role q s \<longleftrightarrow> wf_specialist_request q \<and> sr_incident_id q = i \<and> sr_role q = role
     \<and> known i (\<lambda>r. set (sr_evidence q) \<subseteq> set (role_evidence (ir_evidence r) role)
        \<and> set (sr_allowed_mapping_identifiers q) \<subseteq> em_identifier `
            {m \<in> set (ap_evidence_mappings (ir_application_profile r)). em_kind m \<in> set (specialist_kinds role)}) s"

definition result_ok :: "string \<Rightarrow> specialist_role \<Rightarrow> specialist_result \<Rightarrow> store \<Rightarrow> bool" where
  "result_ok i role x s \<longleftrightarrow> wf_specialist_result x \<and> st_role x = role
     \<and> (\<forall>f. st_finding x = Some f \<longrightarrow> sf_specialist f = role \<and> known i (\<lambda>r. f \<in> set (ir_findings r)) s)"

fun typed_state :: "string \<Rightarrow> specialist_role \<Rightarrow> specialist_state \<Rightarrow> store \<Rightarrow> bool" where
  "typed_state i role Created s = True"
| "typed_state i role (Awaiting q t p) s = request_ok i role q s"
| "typed_state i role (Finished x) s = result_ok i role x s"

lemma lasting_request [simp]: "lasting (request_ok i role q)"
  unfolding request_ok_def
  by (intro lasting_conj lasting_const lasting_known)
    (auto simp: record_extends_def role_evidence_def dest: set_mono_prefix)

lemma lasting_finding [simp]: "lasting (known i (\<lambda>r. f \<in> set (ir_findings r)))"
  by (rule lasting_known) (auto simp: record_extends_def dest: set_mono_prefix)

lemma lasting_result [simp]: "lasting (result_ok i role x)"
  unfolding result_ok_def
proof (intro lasting_conj lasting_const lasting_all)
  fix f
  show "lasting (\<lambda>s. st_finding x = Some f \<longrightarrow>
      sf_specialist f = role \<and> known i (\<lambda>r. f \<in> set (ir_findings r)) s)"
    using lasting_finding [of i f] unfolding lasting_def by blast
qed

lemma lasting_typed [simp]: "lasting (typed_state i role st)"
proof (cases st)
  case Created
  then have "typed_state i role st = (\<lambda>_. True)" by (simp add: fun_eq_iff)
  then show ?thesis by (simp add: lasting_const)
next
  case (Awaiting q t p)
  then have "typed_state i role st = request_ok i role q" by (simp add: fun_eq_iff)
  then show ?thesis by simp
next
  case (Finished x)
  then have "typed_state i role st = result_ok i role x" by (simp add: fun_eq_iff)
  then show ?thesis by simp
qed

lemma request_exists: "request_ok i role q s \<Longrightarrow> exists_incident i s"
  by (auto simp: request_ok_def intro: known_exists)

text \<open>A failure is a valid result without a finding.\<close>

lemma grows_failure_result:
  assumes "status \<noteq> RUN_SUCCEEDED" "length reason \<le> 1000"
  shows "grows F (lift_result (validate_specialist_result
      \<lparr>st_role = role, st_status = status, st_finding = None, st_failure_reason = Some reason\<rparr>))
    (\<lambda>x s. result_ok i role x s)"
  using assms by (intro grows_lift)
    (auto simp: validate_specialist_result_def result_ok_def wf_specialist_result_def split: if_splits)

lemma grows_specialist_failed:
  assumes "length reason \<le> 1000"
  shows "grows (exists_incident i) (specialist_failed en i role reason) (\<lambda>x s. result_ok i role x s)"
  unfolding specialist_failed_def
  by (intro grows_then [OF lasting_exists] grows_council_audit grows_failure_result) (simp_all add: assms)

lemma turn_failure_reason: "fst (turn_failure e) \<noteq> RUN_SUCCEEDED" "length (snd (turn_failure e)) \<le> 1000"
  by (cases e; simp)+

lemma grows_record_failure:
  assumes "status \<noteq> RUN_SUCCEEDED" "length reason \<le> 1000"
  shows "grows (exists_incident i) (record_specialist_failure en cn i role status reason started response)
    (\<lambda>x s. result_ok i role x s)"
  unfolding record_specialist_failure_def
  by (intro grows_then [OF lasting_exists] grows_note_invocation grows_council_audit grows_failure_result)
    (simp_all add: assms)

lemma grows_finished:
  "grows F m (\<lambda>x s. result_ok i role x s) \<Longrightarrow> grows F (seq m (\<lambda>x. ret (Finished x))) (typed_state i role)"
  by (rule grows_seq, assumption, rule grows_ret) simp

lemma recorded_evidence_wf: "store_inv s \<Longrightarrow> store_get s i = Some r \<Longrightarrow>
    list_all wf_evidence_observation (role_evidence (ir_evidence r) role)"
  using store_inv_get [of s i r]
  by (auto simp: record_inv_def wf_record_def nested_entries_wf_def role_evidence_def list_all_iff)

lemma grows_begin: "grows (exists_incident i) (begin_specialist en cn i role) (typed_state i role)"
proof -
  have "grows (\<lambda>s. store_get s i = Some r) (
      if role_evidence (ir_evidence r) role = [] then
        seq (specialist_failed en i role ''no role-relevant redacted evidence was available'') (\<lambda>s. ret (Finished s))
      else seq (lift_result (validate_specialist_request
        \<lparr>sr_incident_id = i, sr_role = role, sr_evidence = role_evidence (ir_evidence r) role,
         sr_allowed_mapping_identifiers = map em_identifier
           (filter (\<lambda>m. em_kind m \<in> set (specialist_kinds role))
             (ap_evidence_mappings (ir_application_profile r))),
         sr_completed_query_rounds = 0\<rparr>)) (\<lambda>q.
      seq (read_monotonic cn) (\<lambda>_. seq (read_monotonic cn) (\<lambda>t. ret (Awaiting q t None)))))
    (typed_state i role)" (is "grows _ (?body r) _") for r
  proof (rule grows_if)
    show "grows (\<lambda>s. store_get s i = Some r) (seq (specialist_failed en i role
        ''no role-relevant redacted evidence was available'') (\<lambda>s. ret (Finished s))) (typed_state i role)"
      by (rule grows_weaken [OF grows_finished [OF grows_specialist_failed]]) (simp_all add: known_def)
  next
    let ?q = "\<lparr>sr_incident_id = i, sr_role = role, sr_evidence = role_evidence (ir_evidence r) role,
         sr_allowed_mapping_identifiers = map em_identifier
           (filter (\<lambda>m. em_kind m \<in> set (specialist_kinds role))
             (ap_evidence_mappings (ir_application_profile r))),
         sr_completed_query_rounds = 0\<rparr>"
    have "grows (\<lambda>s. store_get s i = Some r) (lift_result (validate_specialist_request ?q)) (request_ok i role)"
      by (rule grows_lift) (auto simp: validate_specialist_request_def request_ok_def known_def split: if_splits)
    then show "grows (\<lambda>s. store_get s i = Some r) (seq (lift_result (validate_specialist_request ?q)) (\<lambda>q.
      seq (read_monotonic cn) (\<lambda>_. seq (read_monotonic cn) (\<lambda>t. ret (Awaiting q t None))))) (typed_state i role)"
      unfolding read_monotonic_def
      by (rule grows_seq, intro grows_then [OF lasting_request grows_providers(3)] grows_ret) simp
  qed
  then have "grows (\<lambda>s. exists_incident i s \<and> store_get s i = Some r) (?body r) (typed_state i role)" for r
    by (rule grows_weaken) simp_all
  then show ?thesis unfolding begin_specialist_def Let_def
    by (intro grows_then [OF lasting_exists] grows_council_audit grows_seq [OF grows_council_record]) simp_all
qed

section \<open>A turn\<close>

abbreviation valid_request :: "specialist_request \<Rightarrow> store \<Rightarrow> bool" where
  "valid_request q \<equiv> request_ok (sr_incident_id q) (sr_role q) q"

fun turn_ok :: "string \<Rightarrow> specialist_role \<Rightarrow> turn_result \<Rightarrow> store \<Rightarrow> bool" where
  "turn_ok i role (Reported f) s \<longleftrightarrow>
     wf_specialist_finding f \<and> sf_incident_id f = i \<and> sf_specialist f = role"
| "turn_ok i role (Stopped x) s = result_ok i role x s"
| "turn_ok i role (Asking q) s = request_ok i role q s"

lemma grows_request: "grows (exists_incident i) m Q \<Longrightarrow> grows (request_ok i role q) m Q"
  using request_exists by (rule_tac grows_weaken [where F = "exists_incident i" and Q = Q]) simp_all

lemma grows_stop_turn:
  assumes "length reason \<le> 1000"
  shows "grows (valid_request q) (stop_turn en cn q response started reason)
    (turn_ok (sr_incident_id q) (sr_role q))"
  unfolding stop_turn_def
  by (intro grows_then [OF lasting_request grows_note_invocation] grows_request
      grows_seq [OF grows_specialist_failed [OF assms]] grows_ret) simp

lemma next_request_ok:
  assumes "store_inv s" "valid_request q s" "store_get s (sr_incident_id q) = Some r"
    "sr_completed_query_rounds q < 2"
  shows "request_ok (sr_incident_id q) (sr_role q) (q\<lparr>sr_evidence := role_evidence (ir_evidence r) (sr_role q),
    sr_completed_query_rounds := sr_completed_query_rounds q + 1\<rparr>) s"
  using assms recorded_evidence_wf [OF assms(1,3), of "sr_role q"]
  by (auto simp: request_ok_def known_def wf_specialist_request_def)

lemma grows_run_evidence_query:
  assumes "sr_completed_query_rounds q < 2"
  shows "grows (valid_request q) (run_evidence_query en cn gw q response started ident)
    (turn_ok (sr_incident_id q) (sr_role q))"
proof -
  have asked: "grows (valid_request q) (try_except
      (seq (execute_query en gw (sr_incident_id q) (sr_role q) ident (sr_completed_query_rounds q + 1)) (\<lambda>_. ret True))
      (\<lambda>e. if is_gateway_error e then ret False else raise e)) (\<lambda>_ _. True)"
    by (intro grows_try lasting_request grows_request grows_seq [OF grows_execute_query] grows_ret grows_if grows_raise)
      simp_all
  have "grows (valid_request q) (
      seq (note_invocation en cn (sr_incident_id q) (Specialist (sr_role q)) (Some response) started 1 None) (\<lambda>_.
      seq (council_record (sr_incident_id q)) (\<lambda>r.
      ret (Asking (q\<lparr>sr_evidence := role_evidence (ir_evidence r) (sr_role q),
        sr_completed_query_rounds := sr_completed_query_rounds q + 1\<rparr>)))))
    (turn_ok (sr_incident_id q) (sr_role q))"
    by (intro grows_then [OF lasting_request grows_note_invocation] grows_seq [OF grows_council_record] grows_ret)
      (simp add: next_request_ok assms)
  then show ?thesis unfolding run_evidence_query_def
    by (intro grows_then [OF lasting_request asked] grows_if grows_stop_turn) simp_all
qed

lemma grows_turn:
  "grows (valid_request q) (specialist_turn en cn q response started) (turn_ok (sr_incident_id q) (sr_role q))"
  unfolding specialist_turn_def
proof (rule grows_validated)
  fix o' assume v: "validate_specialist_output (mr_output response) = Inr o'"
  have finding: "grows (valid_request q) (seq (raise_when (sf_incident_id f \<noteq> sr_incident_id q \<or> sf_specialist f \<noteq> sr_role q)
      (ValueError ''Specialist Finding does not match its assigned Incident and role'')) (\<lambda>_. ret (Reported f)))
    (turn_ok (sr_incident_id q) (sr_role q))" if "so_finding o' = Some f" for f
  proof -
    have "wf_specialist_finding f" using v that
      by (auto simp: validate_specialist_output_def wf_specialist_model_output_def split: model_output.splits if_splits)
    then show ?thesis
      by (cases "sf_incident_id f \<noteq> sr_incident_id q \<or> sf_specialist f \<noteq> sr_role q")
        (auto simp: grows_def wp_seq wp_raise_when wp_ret grown_refl)
  qed
  show "grows (valid_request q) (case so_finding o' of
      Some f \<Rightarrow> seq (raise_when (sf_incident_id f \<noteq> sr_incident_id q \<or> sf_specialist f \<noteq> sr_role q)
          (ValueError ''Specialist Finding does not match its assigned Incident and role'')) (\<lambda>_. ret (Reported f))
    | None \<Rightarrow> (case so_evidence_query o' of
        None \<Rightarrow> raise (ValueError ''Specialist output contains no supported next step'')
      | Some query \<Rightarrow> (case cn_gateway cn of
          None \<Rightarrow> stop_turn en cn q response started
            ''Specialist exceeded or violated its Evidence Query boundary''
        | Some gw \<Rightarrow>
            if sr_completed_query_rounds q \<ge> 2
              \<or> sq_mapping_identifier query \<notin> set (sr_allowed_mapping_identifiers q)
            then stop_turn en cn q response started
              ''Specialist exceeded or violated its Evidence Query boundary''
            else run_evidence_query en cn gw q response started (sq_mapping_identifier query))))
    (turn_ok (sr_incident_id q) (sr_role q))"
    by (intro grows_option grows_if grows_raise finding grows_stop_turn grows_run_evidence_query) simp_all
qed

lemma append_finding_records:
  "grows (exists_incident i) (on_store (append_finding i f)) (\<lambda>_. known i (\<lambda>r. f \<in> set (ir_findings r)))"
proof (rule growsI)
  fix w :: "'k world" assume w: "store_inv (w_store w)" "exists_incident i (w_store w)"
  have "wp (on_store (append_finding i f)) (\<lambda>_ w'. known i (\<lambda>r. f \<in> set (ir_findings r)) (w_store w')) (\<lambda>_ _. True) w"
    unfolding append_finding_def
  proof (rule wp_store_update)
    fix r r' assume r: "store_get (w_store w) i = Some r" "append_finding_record i f r = Inr r'"
    then have "r' = r\<lparr>ir_findings := ir_findings r @ [f]\<rparr>"
      by (simp add: append_finding_record_def guarded_Inr validate_record_Inr)
    then show "known i (\<lambda>r. f \<in> set (ir_findings r)) (w_store (w\<lparr>w_store := store_replace r' (w_store w)\<rparr>))"
      using store_inv_get [OF w(1) r(1)] by (simp add: known_def store_get_replace)
  qed simp
  moreover have "wp (on_store (append_finding i f)) (\<lambda>_ w'. grown (w_store w) (w_store w'))
      (\<lambda>_ w'. grown (w_store w) (w_store w')) w"
    by (rule keeps_wp [where P = "\<lambda>w'. grown (w_store w) (w_store w')", OF growing.calls(5) grown_refl [OF w(1)]]) simp
  ultimately show "wp (on_store (append_finding i f)) (\<lambda>_ w'. grown (w_store w) (w_store w')
      \<and> known i (\<lambda>r. f \<in> set (ir_findings r)) (w_store w')) (\<lambda>_ w'. grown (w_store w) (w_store w')) w"
    by (cases "fst (on_store (append_finding i f) w)") (auto simp: wp_def split: prod.splits)
qed

lemma grows_conclude:
  assumes "wf_specialist_finding f" "sf_specialist f = sr_role q"
  shows "grows (exists_incident (sr_incident_id q)) (conclude_specialist en cn q response started f)
    (typed_state (sr_incident_id q) (sr_role q))"
proof -
  let ?K = "known (sr_incident_id q) (\<lambda>r. f \<in> set (ir_findings r))"
  have K: "grows ?K m Q" if "grows (exists_incident (sr_incident_id q)) m Q" for m :: "('a world, 'b) act" and Q
    by (rule grows_weaken [OF that]) (auto intro: known_exists)
  have "grows ?K (lift_result (validate_specialist_result
      \<lparr>st_role = sr_role q, st_status = RUN_SUCCEEDED, st_finding = Some f, st_failure_reason = None\<rparr>))
      (\<lambda>x s. result_ok (sr_incident_id q) (sr_role q) x s)"
    using assms by (intro grows_lift)
      (auto simp: validate_specialist_result_def result_ok_def wf_specialist_result_def split: if_splits)
  then show ?thesis unfolding conclude_specialist_def
    by (intro grows_then [OF lasting_exists grows_note_invocation] grows_seq [OF append_finding_records]
        grows_then [OF lasting_finding K [OF grows_council_audit]] grows_finished) simp_all
qed

lemma grows_resume:
  "grows (valid_request q) (resume_specialist en cn q started previous answer)
    (typed_state (sr_incident_id q) (sr_role q))"
proof -
  let ?response = "case answer of Inl e \<Rightarrow> previous | Inr m \<Rightarrow> Some m"
  have failed: "grows (valid_request q) (seq (record_specialist_failure en cn (sr_incident_id q) (sr_role q)
      (fst (turn_failure e)) (snd (turn_failure e)) started ?response) (\<lambda>s. ret (Stopped s)))
    (turn_ok (sr_incident_id q) (sr_role q))" for e
    by (intro grows_request grows_seq [OF grows_record_failure] grows_ret) (simp_all add: turn_failure_reason)
  have turn: "grows (valid_request q) (try_except
      (seq (lift_result answer) (\<lambda>m. specialist_turn en cn q m started))
      (\<lambda>e. seq (record_specialist_failure en cn (sr_incident_id q) (sr_role q)
        (fst (turn_failure e)) (snd (turn_failure e)) started ?response) (\<lambda>s. ret (Stopped s))))
    (turn_ok (sr_incident_id q) (sr_role q))"
    by (intro grows_try lasting_request grows_validated grows_turn failed)
  have rest: "grows (\<lambda>s. valid_request q s \<and> turn_ok (sr_incident_id q) (sr_role q) result s) (case result of
       Stopped s \<Rightarrow> ret (Finished s)
     | Asking q' \<Rightarrow> seq (read_monotonic cn) (\<lambda>t. ret (Awaiting q' t ?response))
     | Reported f \<Rightarrow> conclude_specialist en cn q ?response started f)
    (typed_state (sr_incident_id q) (sr_role q))" for result
  proof (cases result)
    case (Reported f)
    show ?thesis
    proof (rule grows_pre [where c = "wf_specialist_finding f \<and> sf_specialist f = sr_role q"])
      assume f: "wf_specialist_finding f \<and> sf_specialist f = sr_role q"
      show ?thesis unfolding Reported turn_result.case
        by (rule grows_weaken [OF grows_conclude]) (use f in \<open>auto dest: request_exists\<close>)
    qed (simp add: Reported)
  next
    case (Stopped x)
    then show ?thesis by (auto intro: grows_ret)
  next
    case (Asking q')
    have "grows (request_ok (sr_incident_id q) (sr_role q) q') (seq (read_monotonic cn) (\<lambda>t. ret (Awaiting q' t ?response)))
      (typed_state (sr_incident_id q) (sr_role q))"
      unfolding read_monotonic_def by (intro grows_then [OF lasting_request grows_providers(3)] grows_ret) simp
    then show ?thesis unfolding Asking turn_result.case by (rule grows_weaken) simp_all
  qed
  show ?thesis unfolding resume_specialist_def Let_def by (rule grows_bind [OF lasting_request turn rest])
qed

section \<open>The event loop\<close>

definition typed_tasks :: "string \<Rightarrow> council_tasks \<Rightarrow> store \<Rightarrow> bool" where
  "typed_tasks i tasks s \<longleftrightarrow> exists_incident i s \<and> (\<forall>role. typed_state i role (tasks role) s)"

lemma lasting_tasks: "lasting (typed_tasks i tasks)"
  unfolding typed_tasks_def by (intro lasting_conj lasting_all lasting_exists lasting_typed)

lemma grows_task:
  assumes "grows F m (typed_state i r)" "\<And>s. typed_tasks i tasks s \<Longrightarrow> F s"
  shows "grows (typed_tasks i tasks) (seq m (\<lambda>st. ret (tasks(r := st)))) (typed_tasks i)"
proof (rule grows_bind [OF lasting_tasks])
  show "grows (typed_tasks i tasks) m (typed_state i r)" by (rule grows_weaken [OF assms(1)]) (simp_all add: assms(2))
qed (rule grows_ret, simp add: typed_tasks_def)

lemma grows_event: "grows (typed_tasks i tasks) (specialist_event en cn i e tasks) (typed_tasks i)"
proof (cases e)
  case (Start r)
  have "grows (typed_tasks i tasks) (seq (begin_specialist en cn i r) (\<lambda>st. ret (tasks(r := st)))) (typed_tasks i)"
    by (rule grows_task [OF grows_begin]) (simp add: typed_tasks_def)
  then show ?thesis using Start by (cases "tasks r") (simp_all add: grows_ret)
next
  case (Answer r a)
  show ?thesis
  proof (cases "tasks r")
    case (Awaiting q t p)
    then have q: "request_ok i r q s" if "typed_tasks i tasks s" for s
      using that by (auto simp: typed_tasks_def dest: spec [of _ r])
    show ?thesis
    proof (rule grows_pre [where c = "sr_incident_id q = i \<and> sr_role q = r"])
      show "sr_incident_id q = i \<and> sr_role q = r" if "typed_tasks i tasks s" for s
        using q [OF that] by (simp add: request_ok_def)
      assume qi: "sr_incident_id q = i \<and> sr_role q = r"
      have "grows (valid_request q) (resume_specialist en cn q t p a) (typed_state i r)"
        using grows_resume [of q en cn t p a] qi by simp
      from grows_task [OF this] show "grows (typed_tasks i tasks) (specialist_event en cn i e tasks) (typed_tasks i)"
        using Answer Awaiting q qi by simp
    qed
  qed (simp_all add: Answer grows_ret)
qed

lemma grows_run: "grows (typed_tasks i tasks) (run_specialists en cn i events tasks) (typed_tasks i)"
proof (induction events arbitrary: tasks)
  case (Cons e es)
  then show ?case by (simp add: grows_seq [OF grows_event])
qed (simp add: grows_ret)

lemma gathered_results:
  assumes "gathered tasks = Some results" and typed: "\<And>role. typed_state i role (tasks role) s"
  shows "map st_role results = all_roles \<and> list_all wf_specialist_result results"
proof -
  have "map st_role ys = xs \<and> list_all wf_specialist_result ys"
    if "those (map (\<lambda>role. task_result (tasks role)) xs) = Some ys" for xs ys
    using that
  proof (induction xs arbitrary: ys)
    case (Cons x xs)
    from typed [of x] Cons show ?case by (cases "tasks x") (auto simp: result_ok_def)
  qed simp
  with assms(1) show ?thesis by (simp add: gathered_def)
qed

lemma coordinator_request_ok:
  assumes "store_inv s" "typed_tasks i tasks s" "gathered tasks = Some results"
    and "\<And>x. 8 \<le> length (dg_sha256 (en_digest en) x)" "w_store w = s"
  shows "\<exists>q. request_coordinator en i results w = (Inr q, w) \<and> wf_coordinator_request q"
proof -
  obtain r where r: "store_get s i = Some r" using assms(2) by (auto simp: typed_tasks_def known_def)
  have inv: "inc_summary (ir_incident r) \<noteq> []" "wf_application_profile (ir_application_profile r)" "i \<noteq> []"
    using store_inv_get [OF assms(1) r] known_id [OF assms(1), of i "\<lambda>_. True"] r
    by (auto simp: record_inv_def wf_record_def nested_entries_wf_def incident_fields_def known_def)
  have "map st_role results = all_roles \<and> list_all wf_specialist_result results"
    by (rule gathered_results [OF assms(3)]) (use assms(2) in \<open>auto simp: typed_tasks_def\<close>)
  moreover then have "length results = 4" using length_map [of st_role results] by (simp add: all_roles_def)
  ultimately have "wf_coordinator_request
      \<lparr>cr_incident_id = i, cr_incident_summary = inc_summary (ir_incident r),
       cr_application_profile = ir_application_profile r,
       cr_evidence_hash = evidence_hash_of (en_digest en) (ir_evidence r), cr_specialists = results\<rparr>"
    using inv assms(4) by (simp add: wf_coordinator_request_def coordinator_request_problem_def evidence_hash_of_def
      first_problem.simps)
  then show ?thesis using r assms(5)
    by (simp add: request_coordinator_def council_record_def seq_def get_record_def gets_def lift_result_def
      validate_coordinator_request_def)
qed

text \<open>C31. The Council is well-typed. Whatever the models answer and in whatever order, at every moment
  each waiting Specialist has been sent a valid request for this incident and its own role, at most two
  query rounds, with nothing but recorded evidence of its role's kinds and the profile's mappings for
  them; each finished Specialist has a valid result for its role, and a reported finding is in the
  record. Once all have finished the Coordinator's request is valid and asks for every role once.\<close>

theorem council_states_are_well_typed:
  assumes "store_inv (w_store w)" "store_get (w_store w) i = Some r"
    and "run_specialists en cn i events (\<lambda>_. Created) w = (Inr tasks, w')"
    and "\<And>x. 8 \<le> length (dg_sha256 (en_digest en) x)"
  shows "(\<forall>role. typed_state i role (tasks role) (w_store w'))
    \<and> (\<forall>results. gathered tasks = Some results \<longrightarrow>
        (\<exists>q. request_coordinator en i results w' = (Inr q, w') \<and> wf_coordinator_request q))"
proof -
  have start: "typed_tasks i (\<lambda>_. Created) (w_store w)" using assms(2) by (simp add: typed_tasks_def known_def)
  note run = grows_result [OF grows_run assms(1) start assms(3)]
  show ?thesis
    using run(2) coordinator_request_ok [OF grown_inv [OF run(1)] run(2) _ assms(4) refl]
    by (auto simp: typed_tasks_def)
qed

end
