(* ===== verification/Council_Outcomes.thy ===== *)
theory Council_Outcomes
  imports Council_Types
begin

text \<open>
  What an investigation leaves behind: a completed record carries exactly what the Coordinator
  answered in scope or nothing but the outcome inconclusive; and an investigation, finished or not,
  only extends the store.
\<close>

section \<open>The outcome\<close>

lemma with_event_fields [simp]:
  "ir_incident (with_event e r) = ir_incident r" "ir_hypotheses (with_event e r) = ir_hypotheses r"
  "ir_proposal (with_event e r) = ir_proposal r" "ir_manual_guidance (with_event e r) = ir_manual_guidance r"
  by (simp_all add: with_event_def)

lemma council_audit_record:
  assumes "council_audit en i k d w = (Inr u, w')" "store_get (w_store w) i = Some r"
    "inc_incident_id (ir_incident r) = i"
  shows "\<exists>e. store_get (w_store w') i = Some (with_event e r)"
proof -
  have "wp (council_audit en i k d) (\<lambda>_ w'. \<exists>e. store_get (w_store w') i = Some (with_event e r)) (\<lambda>_ _. True) w"
    using assms(2,3)
    by (auto simp: council_audit_def gateway_audit_def wp_seq_fun wp_uuid4 wp_now wp_ret append_audit_event_def
      wp_store_record append_audit_event_record_def guarded_Inr store_get_replace split: sum.split)
  from wp_result [OF this assms(1)] show ?thesis .
qed

lemma complete_council_record:
  assumes "complete_council en i c w = (Inr r', w')" "store_inv (w_store w)"
  shows "store_get (w_store w') i = Some r' \<and> inc_investigation_outcome (ir_incident r') = co_outcome c
    \<and> ir_hypotheses r' = co_hypotheses c \<and> ir_proposal r' = co_proposal c
    \<and> ir_manual_guidance r' = co_manual_guidance c"
proof -
  obtain completed w1 w2 where c: "on_store (complete_investigation i c) w = (Inr completed, w1)"
    and a: "council_audit en i ''investigation_completed'' [(''outcome'',
      investigation_outcome_value (inc_investigation_outcome (ir_incident completed)))] w1 = (Inr (), w2)"
    and g: "council_record i w2 = (Inr r', w')"
    using assms(1) unfolding complete_council_def seq_Inr by auto
  have "wp (on_store (complete_investigation i c)) (\<lambda>r1 w1. store_get (w_store w1) i = Some r1
      \<and> inc_incident_id (ir_incident r1) = i \<and> inc_investigation_outcome (ir_incident r1) = co_outcome c
      \<and> ir_hypotheses r1 = co_hypotheses c \<and> ir_proposal r1 = co_proposal c
      \<and> ir_manual_guidance r1 = co_manual_guidance c) (\<lambda>_ _. True) w"
    unfolding complete_investigation_def
  proof (rule wp_store_update)
    fix r r1 assume r: "store_get (w_store w) i = Some r" "complete_investigation_record i c r = Inr r1"
    then obtain j where "transition_incident (ir_incident r) (Some INVESTIGATING) (Some (co_outcome c)) None = Inr j"
      and r1: "r1 = r\<lparr>ir_incident := bump_version j (inc_version (ir_incident r)),
           ir_hypotheses := co_hypotheses c, ir_proposal := co_proposal c, ir_manual_guidance := co_manual_guidance c\<rparr>"
      by (auto simp: complete_investigation_record_def guarded_Inr bind_result_Inr validate_record_Inr)
    then have "inc_incident_id j = i" "inc_investigation_outcome j = co_outcome c"
      using store_inv_get [OF assms(2) r(1)] by (auto simp: transition_incident_Inr)
    then show "store_get (w_store (w\<lparr>w_store := store_replace r1 (w_store w)\<rparr>)) i = Some r1
      \<and> inc_incident_id (ir_incident r1) = i \<and> inc_investigation_outcome (ir_incident r1) = co_outcome c
      \<and> ir_hypotheses r1 = co_hypotheses c \<and> ir_proposal r1 = co_proposal c
      \<and> ir_manual_guidance r1 = co_manual_guidance c"
      by (simp add: r1 bump_version_def store_get_replace)
  qed simp
  from wp_result [OF this c] have c1: "store_get (w_store w1) i = Some completed"
    "inc_incident_id (ir_incident completed) = i" "inc_investigation_outcome (ir_incident completed) = co_outcome c"
    "ir_hypotheses completed = co_hypotheses c" "ir_proposal completed = co_proposal c"
    "ir_manual_guidance completed = co_manual_guidance c" by simp_all
  from council_audit_record [OF a c1(1,2)] obtain e where
    "store_get (w_store w2) i = Some (with_event e completed)" ..
  moreover have "w' = w2" "store_get (w_store w2) i = Some r'"
    using g by (auto simp: council_record_def seq_def get_record_def gets_def lift_result_def split: option.splits)
  ultimately show ?thesis using c1 by auto
qed

lemma validate_coordinator_output_Inr: "validate_coordinator_output m = Inr c \<Longrightarrow> wf_coordinator_output c"
  by (cases m) (simp_all add: validate_coordinator_output_def split: if_splits)

lemma run_coordinator_output:
  assumes "run_coordinator en cn q answer w = (Inr c, w')"
  shows "c = (case coordinator_judgement (cr_incident_id q) answer of Inl e \<Rightarrow> inconclusive_output | Inr c \<Rightarrow> c)"
  using assms by (auto simp: run_coordinator_def Let_def seq_Inr ret_def split: sum.splits)

section \<open>Growth of the whole investigation\<close>

lemma grows_open: "grows (\<lambda>_. True) (open_investigation en i) (\<lambda>_. exists_incident i)"
  unfolding open_investigation_def
proof (rule grows_seq [OF grows_get_record])
  fix found
  have call: "grows (exists_incident i) (on_store (compare_and_set i n b)) (\<lambda>_ _. True)" for n b
    by (intro grows_keeps growing.calls) simp
  have "grows (exists_incident i) (council_audit en i ''investigation_started'' []) (\<lambda>_. exists_incident i)"
    by (rule grows_weaken [OF grows_frame [OF grows_council_audit lasting_exists]]) simp_all
  note rest = grows_guarded [OF grows_guarded [OF grows_validated [OF grows_then [OF lasting_exists call this]]]]
  show "grows (\<lambda>s. True \<and> found = store_get s i)
      (seq (lift_result (case found of None \<Rightarrow> Inl (CouncilError ''incident does not exist'') | Some r \<Rightarrow> Inr r)) (\<lambda>r.
       seq (raise_when (inc_investigation_outcome (ir_incident r) \<noteq> INV_NOT_STARTED)
         (CouncilError ''incident investigation has already completed'')) (\<lambda>_.
       seq (raise_when (ir_evidence r = [])
         (CouncilError ''incident has no redacted evidence to investigate'')) (\<lambda>_.
       seq (lift_result (transition_incident (ir_incident r) (Some INVESTIGATING) None None)) (\<lambda>investigating.
       seq (on_store (compare_and_set i (inc_version (ir_incident r)) investigating)) (\<lambda>_.
       council_audit en i ''investigation_started'' []))))))
    (\<lambda>_. exists_incident i)"
    by (rule grows_validated, rule grows_weaken [OF rest]) (auto simp: known_def split: option.splits)
qed

lemma grows_coordinator:
  "grows (exists_incident (cr_incident_id q)) (run_coordinator en cn q answer) (\<lambda>_. exists_incident (cr_incident_id q))"
proof -
  have "grows (exists_incident (cr_incident_id q)) (run_coordinator en cn q answer) (\<lambda>_ _. True)"
    unfolding run_coordinator_def Let_def read_monotonic_def
    by (intro grows_then [OF lasting_exists] grows_council_audit grows_providers)
      (auto split: sum.split intro!: grows_then [OF lasting_exists] grows_council_audit grows_note_invocation grows_ret)
  from grows_frame [OF this lasting_exists] show ?thesis by (rule grows_weaken) simp_all
qed

lemma grows_complete: "grows (exists_incident i) (complete_council en i c) (\<lambda>_ _. True)"
proof -
  have "grows (exists_incident i) (on_store (complete_investigation i c)) (\<lambda>_ _. True)"
    by (intro grows_keeps growing.calls) simp
  then show ?thesis unfolding complete_council_def
    by (intro grows_then [OF lasting_exists] grows_council_audit grows_weaken [OF grows_council_record]) simp_all
qed

lemma grows_request_coordinator:
  "grows (exists_incident i) (request_coordinator en i results) (\<lambda>q s. cr_incident_id q = i \<and> exists_incident i s)"
  unfolding request_coordinator_def
  by (rule grows_seq [OF grows_council_record], rule grows_lift)
    (auto simp: validate_coordinator_request_def split: if_splits)

lemma grows_investigate: "grows (\<lambda>_. True) (investigate en cn i events answer) (\<lambda>_ _. True)"
  unfolding investigate_def
proof (rule grows_seq [OF grows_open], rule grows_seq)
  show "grows (exists_incident i) (run_specialists en cn i events (\<lambda>_. Created)) (\<lambda>_. exists_incident i)"
    by (rule grows_weaken [OF grows_run [of i]]) (auto simp: typed_tasks_def)
  fix tasks
  have finish: "grows (exists_incident i) (seq (request_coordinator en i results) (\<lambda>request.
        seq (run_coordinator en cn request answer) (\<lambda>output.
        seq (complete_council en i output) (\<lambda>r. ret (Some r))))) (\<lambda>_ _. True)" for results
  proof (rule grows_seq [OF grows_request_coordinator])
    fix q
    show "grows (\<lambda>s. cr_incident_id q = i \<and> exists_incident i s) (seq (run_coordinator en cn q answer) (\<lambda>output.
        seq (complete_council en i output) (\<lambda>r. ret (Some r)))) (\<lambda>_ _. True)"
    proof (rule grows_pre [where c = "cr_incident_id q = i"])
      assume q: "cr_incident_id q = i"
      have "grows (exists_incident i) (seq (run_coordinator en cn q answer) (\<lambda>output.
        seq (complete_council en i output) (\<lambda>r. ret (Some r)))) (\<lambda>_ _. True)"
        by (intro grows_seq [OF grows_coordinator [of q, unfolded q]] grows_seq [OF grows_complete] grows_ret) simp
      then show "grows (\<lambda>s. cr_incident_id q = i \<and> exists_incident i s) (seq (run_coordinator en cn q answer) (\<lambda>output.
        seq (complete_council en i output) (\<lambda>r. ret (Some r)))) (\<lambda>_ _. True)"
        by (rule grows_weaken) simp_all
    qed simp
  qed
  show "grows (exists_incident i) (case gathered tasks of None \<Rightarrow> ret None
      | Some results \<Rightarrow> seq (request_coordinator en i results) (\<lambda>request.
        seq (run_coordinator en cn request answer) (\<lambda>output.
        seq (complete_council en i output) (\<lambda>r. ret (Some r))))) (\<lambda>_ _. True)"
    by (intro grows_option finish grows_ret) simp
qed

section \<open>The property\<close>

text \<open>
  Whether an investigation may start: the incident exists, was not investigated and has evidence.
\<close>

definition may_investigate :: "investigation_record \<Rightarrow> bool" where
  "may_investigate r \<longleftrightarrow> inc_investigation_outcome (ir_incident r) = INV_NOT_STARTED \<and> ir_evidence r \<noteq> []"

definition decided_by :: "coordinator_output \<Rightarrow> investigation_record \<Rightarrow> bool" where
  "decided_by c r \<longleftrightarrow> inc_investigation_outcome (ir_incident r) = co_outcome c
     \<and> ir_hypotheses r = co_hypotheses c \<and> ir_proposal r = co_proposal c
     \<and> ir_manual_guidance r = co_manual_guidance c"

text \<open>C33. An investigation concludes what its Coordinator answered, in scope, or nothing. When
  \<open>investigate\<close> returns a record, it is the stored one and valid (its citations are recorded evidence,
  its proposal's target is enrolled), it extends the record the investigation started from, which was
  not investigated before and had evidence; and its outcome, hypotheses, proposal and guidance are
  those of the Coordinator's valid output for this incident, or, if the Coordinator failed, was too
  late, malformed or out of scope, the outcome is inconclusive and there are none.\<close>

theorem outcome_is_the_coordinators:
  assumes "store_inv (w_store w)" "investigate en cn i events answer w = (Inr (Some r'), w')"
  shows "store_get (w_store w') i = Some r' \<and> record_inv r'
    \<and> (\<exists>r. store_get (w_store w) i = Some r \<and> may_investigate r \<and> record_extends r r')
    \<and> (case coordinator_judgement i answer of
         Inr c \<Rightarrow> wf_coordinator_output c \<and> coordinator_scope c i = Inr () \<and> decided_by c r'
       | Inl e \<Rightarrow> decided_by inconclusive_output r')"
proof -
  obtain w1 w2 tasks where o1: "open_investigation en i w = (Inr (), w1)"
    and r2: "run_specialists en cn i events (\<lambda>_. Created) w1 = (Inr tasks, w2)"
    and rest: "(case gathered tasks of None \<Rightarrow> ret None | Some results \<Rightarrow>
        seq (request_coordinator en i results) (\<lambda>request.
        seq (run_coordinator en cn request answer) (\<lambda>output.
        seq (complete_council en i output) (\<lambda>r. ret (Some r))))) w2 = (Inr (Some r'), w')"
    using assms(2) unfolding investigate_def seq_Inr by auto
  from rest obtain results q c w3 w4 where q: "request_coordinator en i results w2 = (Inr q, w3)"
    and c: "run_coordinator en cn q answer w3 = (Inr c, w4)" and l: "complete_council en i c w4 = (Inr r', w')"
    by (auto simp: seq_Inr ret_def split: option.splits)
  note g1 = grows_result [OF grows_open assms(1) TrueI o1]
  have t: "typed_tasks i (\<lambda>_. Created) (w_store w1)" using g1(2) by (simp add: typed_tasks_def)
  note g2 = grows_result [OF grows_run grown_inv [OF g1(1)] t r2]
  have e2: "exists_incident i (w_store w2)" using g2(2) by (simp add: typed_tasks_def)
  note g3 = grows_result [OF grows_request_coordinator grown_inv [OF g2(1)] e2 q]
  have qi: "cr_incident_id q = i" "exists_incident (cr_incident_id q) (w_store w3)" using g3(2) by simp_all
  note g4 = grows_result [OF grows_coordinator grown_inv [OF g3(1)] qi(2) c]
  have r': "store_get (w_store w') i = Some r'" "decided_by c r'"
    using complete_council_record [OF l grown_inv [OF g4(1)]] by (simp_all add: decided_by_def)
  have "exists_incident i (w_store w4)" using g4(2) qi(1) by simp
  note g5 = grows_result [OF grows_complete grown_inv [OF g4(1)] this l]
  have g: "grown (w_store w) (w_store w')"
    using g1(1) g2(1) g3(1) g4(1) g5(1) by (blast intro: grown_trans)
  obtain r where r: "store_get (w_store w) i = Some r" "may_investigate r"
    using o1 by (auto simp: open_investigation_def seq_Inr get_record_def gets_def lift_result_Inr
      raise_when_def raise_def ret_def may_investigate_def split: option.splits if_splits)
  have "record_extends r r'" using grown_get [OF g r(1)] r'(1) by auto
  moreover have "record_inv r'" using store_inv_get [OF grown_inv [OF g] r'(1)] by simp
  moreover have "wf_coordinator_output x \<and> coordinator_scope x i = Inr ()" if "coordinator_judgement i answer = Inr x" for x
    using that validate_coordinator_output_Inr by (auto simp: coordinator_judgement_def bind_result_Inr)
  ultimately show ?thesis using r r' run_coordinator_output [OF c] qi(1)
    by (auto split: sum.splits)
qed

end
