(* ===== verification/Council_Samples.thy ===== *)
theory Council_Samples
  imports Council_Outcomes Sample_Run
begin

text \<open>
  An investigation of the sample incident by the Council: the Health Specialist asks one follow-up
  query and reports a finding, the others have no evidence, and the Coordinator proposes to scale.
  The witnesses of the Council's properties, and two runs that show what the Council does not handle.
\<close>

definition council_world :: "unit world" where
  "council_world = quiet_world\<lparr>w_store := run_calls (take 2 sample_investigation) []\<rparr>"

definition sample_council :: "unit council" where
  "sample_council = \<lparr>cn_model_id = ''gemini-3.5-flash'', cn_gateway = Some sample_gateway,
     cn_monotonic = (\<lambda>k. (0, k)), cn_float_str = (\<lambda>_. ''1.0'')\<rparr>"

definition model_answer :: "model_output \<Rightarrow> pyexn + model_response" where
  "model_answer output = Inr \<lparr>mr_output = output, mr_model_id = ''m'', mr_prompt_version = ''v1'',
     mr_thinking_level = Medium, mr_input_tokens = 180, mr_output_tokens = 70\<rparr>"

definition health_query :: "pyexn + model_response" where
  "health_query = model_answer (Specialist_Fields \<lparr>so_finding = None,
     so_evidence_query = Some \<lparr>sq_mapping_identifier = ''web'', sq_reason = ''more''\<rparr>\<rparr>)"

definition health_finding :: "string \<Rightarrow> pyexn + model_response" where
  "health_finding cited = model_answer (Specialist_Fields \<lparr>so_finding = Some
     \<lparr>sf_finding_id = ''f1'', sf_incident_id = ''inc-1'', sf_specialist = HEALTH,
      sf_citations = [\<lparr>ec_evidence_id = cited, ec_observation = ''oom''\<rparr>],
      sf_candidate_explanations = [''oom''], sf_confidence = 1, sf_contradictions = [], sf_unknowns = []\<rparr>,
     so_evidence_query = None\<rparr>)"

definition silence :: "pyexn + model_response" where
  "silence = Inl (TimeoutError [])"

definition sample_events :: "council_event list" where
  "sample_events = [Start HEALTH, Answer HEALTH health_query, Start LOGS, Start METRICS_ROLE, Start CHANGE,
     Answer HEALTH (health_finding ''e1'')]
     @ concat (map (\<lambda>role. replicate 3 (Answer role silence)) all_roles)"

definition sample_investigated :: "(pyexn + investigation_record option) \<times> unit world" where
  "sample_investigated = investigate alert_environment sample_council ''inc-1'' sample_events
     (model_answer (Coordinator_Fields sample_output)) council_world"

lemma council_world_inv: "store_inv (w_store council_world)"
proof -
  have "calls_ok (take 2 sample_investigation) []" by code_simp
  from run_calls_inv [OF _ this] show ?thesis by (simp add: council_world_def)
qed

lemma sample_investigated_result:
  "(case fst sample_investigated of
      Inr (Some r) \<Rightarrow> Some (inc_investigation_outcome (ir_incident r), map sf_finding_id (ir_findings r),
        length (ir_evidence_queries r), length (ir_model_invocations r))
    | _ \<Rightarrow> None) = Some (PROPOSAL_READY, [''f1''], 1, 3)"
  by code_simp

lemma sample_investigated_Some:
  obtains r where "fst sample_investigated = Inr (Some r)" "ir_findings r \<noteq> []"
    "inc_investigation_outcome (ir_incident r) = PROPOSAL_READY"
  using sample_investigated_result by (auto split: sum.splits option.splits)

section \<open>Witnesses\<close>

theorem investigations_come_to_an_end_witness:
  "list_all (\<lambda>role. 3 \<le> answers_once_started role sample_events) all_roles
   \<and> (\<exists>r. fst sample_investigated = Inr r \<and> r \<noteq> None)"
proof -
  have served: "list_all (\<lambda>role. 3 \<le> answers_once_started role sample_events) all_roles" by code_simp
  obtain r where r: "fst sample_investigated = Inr (Some r)" by (rule sample_investigated_Some)
  have "investigate alert_environment sample_council ''inc-1'' sample_events
      (model_answer (Coordinator_Fields sample_output)) council_world = (Inr (Some r), snd sample_investigated)"
    using r by (metis prod.collapse sample_investigated_def)
  from investigations_come_to_an_end [OF served this] r served show ?thesis by blast
qed

theorem outcome_is_the_coordinators_witness:
  "\<exists>r. fst sample_investigated = Inr (Some r) \<and> record_inv r \<and> decided_by sample_output r
    \<and> store_get (w_store (snd sample_investigated)) ''inc-1'' = Some r"
proof -
  obtain r where r: "fst sample_investigated = Inr (Some r)" by (rule sample_investigated_Some)
  have run: "investigate alert_environment sample_council ''inc-1'' sample_events
      (model_answer (Coordinator_Fields sample_output)) council_world = (Inr (Some r), snd sample_investigated)"
    using r by (metis prod.collapse sample_investigated_def)
  have "coordinator_judgement ''inc-1'' (model_answer (Coordinator_Fields sample_output)) = Inr sample_output"
    by code_simp
  with outcome_is_the_coordinators [OF council_world_inv run] r show ?thesis by auto
qed

definition sample_started :: "(pyexn + council_tasks) \<times> unit world" where
  "sample_started = run_specialists alert_environment sample_council ''inc-1''
     [Start HEALTH, Answer HEALTH health_query] (\<lambda>_. Created) council_world"

lemma sample_started_task:
  "(case fst sample_started of
      Inr tasks \<Rightarrow> (case tasks HEALTH of Awaiting q t p \<Rightarrow> Some (length (sr_evidence q), sr_completed_query_rounds q) | _ \<Rightarrow> None)
    | Inl e \<Rightarrow> None) = Some (2, 1)"
  by code_simp

theorem council_states_are_well_typed_witness:
  "\<exists>tasks q t p. fst sample_started = Inr tasks \<and> tasks HEALTH = Awaiting q t p
    \<and> length (sr_evidence q) = 2 \<and> sr_completed_query_rounds q = 1
    \<and> request_ok ''inc-1'' HEALTH q (w_store (snd sample_started))"
proof -
  obtain tasks q t p where tasks: "fst sample_started = Inr tasks" "tasks HEALTH = Awaiting q t p"
    "length (sr_evidence q) = 2" "sr_completed_query_rounds q = 1"
    using sample_started_task by (auto split: sum.splits specialist_state.splits)
  have run: "run_specialists alert_environment sample_council ''inc-1''
      [Start HEALTH, Answer HEALTH health_query] (\<lambda>_. Created) council_world = (Inr tasks, snd sample_started)"
    using tasks(1) by (metis prod.collapse sample_started_def)
  have "store_get (w_store council_world) ''inc-1'' \<noteq> None" by code_simp
  then obtain r where r: "store_get (w_store council_world) ''inc-1'' = Some r" by blast
  have "8 \<le> length (dg_sha256 (en_digest alert_environment) x)" for x
    by (simp add: alert_environment_def sample_digest_def)
  from council_states_are_well_typed [OF council_world_inv r run this]
  have "typed_state ''inc-1'' HEALTH (tasks HEALTH) (w_store (snd sample_started))" by blast
  then show ?thesis using tasks by auto
qed

section \<open>What the Council does not handle\<close>

text \<open>
  A finding that cites unknown evidence: the invocation is recorded as valid, then the store refuses
  the finding outside of the handlers, and the exception leaves the incident under investigation.
\<close>

lemma unknown_citation_ends_the_investigation:
  "(case run_specialists alert_environment sample_council ''inc-1''
      [Start HEALTH, Answer HEALTH (health_finding ''e9'')] (\<lambda>_. Created) council_world of
      (Inl e, w) \<Rightarrow> Some (exn_str e, map_option (\<lambda>r. map mi_output_valid (ir_model_invocations r))
        (store_get (w_store w) ''inc-1''))
    | _ \<Rightarrow> None)
   = Some (''Specialist Finding must cite recorded evidence'', Some [True])"
  by code_simp

text \<open>
  A Specialist that times out after a follow-up query: the failed invocation is recorded with the
  tokens of the response before.
\<close>

lemma timeout_counts_tokens_again:
  "(case run_specialists alert_environment sample_council ''inc-1''
      [Start HEALTH, Answer HEALTH health_query, Answer HEALTH silence] (\<lambda>_. Created) council_world of
      (Inr tasks, w) \<Rightarrow> map_option (\<lambda>r. map (\<lambda>m. (mi_output_valid m, mi_input_tokens m)) (ir_model_invocations r))
        (store_get (w_store w) ''inc-1'')
    | _ \<Rightarrow> None)
   = Some [(True, 180), (False, 180)]"
  by code_simp

end
