(* ===== verification/Worker_Guarantees.thy ===== *)
theory Worker_Guarantees
  imports Workers Council_Outcomes Council_Samples
begin

text \<open>
  The composition of alert ingestion, evidence collection, the Council and the proposal policy in
  the Investigator's worker: whatever is delivered, answered and raised, the promises of the parts
  hold of the whole, and only durable notifications are acknowledged.
\<close>

section \<open>What an investigation is built from\<close>

text \<open>
  A property of the world that the calls of the collector, the Council and the policy keep is kept
  by their compositions.
\<close>

locale policy_client =
  fixes I :: "'k world \<Rightarrow> bool" and en :: "'k environment"
  assumes clock: "keeps I (now_act en)"
    and uuid: "keeps I (uuid4 en)"
    and cluster: "I (w\<lparr>w_kube := k'\<rparr>) = I w"
begin

lemma provider: "keeps I (on_kube m')"
  by (rule keeps_on_kube_part, rule cluster)

lemma monotonic: "keeps I (read_monotonic cn)"
  unfolding read_monotonic_def by (rule provider)

lemma policy: "keeps I (evaluate en r p')"
proof -
  have d: "keeps I (decision en r p' checks status state patch diff reason)" for checks status state patch diff reason
    unfolding decision_def by (intro keeps_seq keeps_lift_result clock)
  have e: "keeps I (evaluate_patch en r p' checks state patch)" for checks state patch
    unfolding evaluate_patch_def Let_def by (intro keeps_if keeps_seq d provider)
  show ?thesis unfolding evaluate_def Let_def
    by (intro keeps_seq provider) (auto intro!: keeps_seq keeps_lift_result d e split: option.split)
qed

end

text \<open>With the store's methods that the evidence gateway calls.\<close>

locale gateway_client = policy_client I en for I :: "'k world \<Rightarrow> bool" and en :: "'k environment" +
  assumes noted: "keeps I (on_store (append_audit_event i a'))"
    and retained: "keeps I (on_store (append_evidence i e))"
    and failed: "keeps I (on_store (append_evidence_retrieval_failure i x))"
    and asked: "keeps I (on_store (append_evidence_query i q))"
begin

lemma execute_query: "keeps I (execute_query en gw i role ident n)"
proof -
  note steps = noted retained failed asked clock uuid provider
  have audit: "keeps I (gateway_audit en i k a d)" for i k a d
    unfolding gateway_audit_def by (intro keeps_seq steps)
  have failure: "keeps I (record_query_failure en q m)" for q m
    unfolding record_query_failure_def by (intro keeps_seq keeps_ret steps audit)
  have safe: "keeps I (safe_observation en gw r m o' q)" for r m o' q
    unfolding safe_observation_def Let_def by (intro keeps_seq keeps_raise_when keeps_lift_result steps)
  have authorized: "keeps I (authorize_query gw i role ident n)"
    by (rule keepsI) (simp add: authorize_query_world)
  have query: "keeps I (record_query en i role m n)" for m
    unfolding record_query_def by (intro keeps_seq keeps_ret keeps_lift_result steps audit)
  have answer: "keeps I (answer_query en gw i r m adapter query)" for r m adapter query
    unfolding answer_query_def
    by (intro keeps_seq keeps_try_except keeps_ret keeps_raise keeps_lift_result steps safe failure)
      (auto intro!: keeps_seq keeps_ret steps safe split: prod.split)
  show ?thesis unfolding execute_query_def
    by (intro keeps_seq authorized)
      (auto intro!: keeps_seq query answer audit split: prod.split)
qed

end

text \<open>With the store's methods that the collector and the Council call.\<close>

locale investigation_client = policy_client I en for I :: "'k world \<Rightarrow> bool" and en :: "'k environment" +
  assumes event_added: "keeps I (on_store (append_audit_event i a'))"
    and invocation: "keeps I (on_store (append_model_invocation i m))"
    and finding: "keeps I (on_store (append_finding i f))"
    and completion: "keeps I (on_store (complete_investigation i c))"
    and replacement: "keeps I (on_store (compare_and_set i n b))"
    and evidence: "keeps I (on_store (append_evidence i e))"
    and failure: "keeps I (on_store (append_evidence_retrieval_failure i x))"
    and decision: "keeps I (on_store (record_policy_decision i p))"
    and query: "keeps I (execute_query en gw i role ident n)"
begin

lemma audit: "keeps I (gateway_audit en i k a d)"
  unfolding gateway_audit_def by (intro keeps_seq uuid clock event_added keeps_ret)

lemma evaluate_record: "keeps I (evaluate_and_record en i)"
  unfolding evaluate_and_record_def
  by (intro keeps_seq keeps_option keeps_get_record keeps_raise keeps_ret policy decision uuid clock event_added)

lemma council_audit: "keeps I (council_audit en i k d)"
  unfolding council_audit_def by (intro keeps_seq keeps_ret audit)

lemma council_record: "keeps I (council_record i)"
  unfolding council_record_def by (intro keeps_seq keeps_get_record keeps_lift_result)

lemma note_invocation: "keeps I (note_invocation en cn i role response started n reason)"
  unfolding note_invocation_def
  by (intro keeps_seq keeps_ret keeps_lift_result monotonic uuid invocation)

lemma specialist_failed: "keeps I (specialist_failed en i role reason)"
  unfolding specialist_failed_def by (intro keeps_seq keeps_lift_result council_audit)

lemma record_failure: "keeps I (record_specialist_failure en cn i role status reason started response)"
  unfolding record_specialist_failure_def
  by (intro keeps_seq keeps_lift_result council_audit note_invocation)

lemma begin_specialist: "keeps I (begin_specialist en cn i role)"
  unfolding begin_specialist_def Let_def
  by (intro keeps_seq keeps_if keeps_ret keeps_lift_result council_audit council_record specialist_failed monotonic)

lemma stop_turn: "keeps I (stop_turn en cn q response started reason)"
  unfolding stop_turn_def by (intro keeps_seq keeps_ret note_invocation specialist_failed)

lemma run_evidence_query: "keeps I (run_evidence_query en cn gw q response started ident)"
  unfolding run_evidence_query_def
  by (intro keeps_seq keeps_try_except keeps_if keeps_ret keeps_raise query stop_turn note_invocation council_record)

lemma specialist_turn: "keeps I (specialist_turn en cn q response started)"
  unfolding specialist_turn_def
  by (intro keeps_seq keeps_option keeps_if keeps_ret keeps_raise keeps_raise_when keeps_lift_result
      stop_turn run_evidence_query)

lemma conclude: "keeps I (conclude_specialist en cn q response started f)"
  unfolding conclude_specialist_def
  by (intro keeps_seq keeps_ret keeps_lift_result note_invocation finding council_audit)

lemma resume: "keeps I (resume_specialist en cn q started previous answer)"
  unfolding resume_specialist_def Let_def
proof (intro keeps_seq keeps_try_except keeps_lift_result specialist_turn record_failure keeps_ret)
  fix x
  show "keeps I (case x of Stopped s \<Rightarrow> ret (Finished s)
     | Asking q' \<Rightarrow> seq (read_monotonic cn) (\<lambda>t. ret (Awaiting q' t
         (case answer of Inl e \<Rightarrow> previous | Inr m \<Rightarrow> Some m)))
     | Reported f \<Rightarrow> conclude_specialist en cn q
         (case answer of Inl e \<Rightarrow> previous | Inr m \<Rightarrow> Some m) started f)"
    by (cases x) (simp_all add: keeps_ret keeps_seq monotonic conclude)
qed

lemma event: "keeps I (specialist_event en cn i e tasks)"
proof (cases e)
  case (Start r)
  then show ?thesis by (cases "tasks r") (simp_all add: keeps_seq keeps_ret begin_specialist)
next
  case (Answer r a)
  then show ?thesis by (cases "tasks r") (simp_all add: keeps_seq keeps_ret resume)
qed

lemma run: "keeps I (run_specialists en cn i events tasks)"
  by (induction events arbitrary: tasks) (simp_all add: keeps_seq keeps_ret event)

lemma coordinator: "keeps I (run_coordinator en cn q answer)"
  unfolding run_coordinator_def Let_def
  by (intro keeps_seq keeps_sum keeps_ret council_audit monotonic note_invocation)

lemma open': "keeps I (open_investigation en i)"
  unfolding open_investigation_def
  by (intro keeps_seq keeps_get_record keeps_lift_result keeps_raise_when replacement council_audit)

lemma investigate: "keeps I (investigate en cn i events answer)"
  unfolding investigate_def request_coordinator_def complete_council_def
  by (intro keeps_seq keeps_option keeps_ret keeps_lift_result open' run coordinator council_record completion
      council_audit)

lemma append_failures: "keeps I (append_failure en i o' m)" "keeps I (append_provider_failure en i m)"
  unfolding append_failure_def append_provider_failure_def
  by (intro keeps_seq keeps_ret uuid clock failure)+

lemma store_evidence: "keeps I (store_evidence en i window m o' bounded excerpt reference)"
  unfolding store_evidence_def
  by (intro keeps_try_except keeps_seq keeps_if keeps_ret keeps_raise keeps_lift_result uuid evidence append_failures)

lemma collect_one: "keeps I (collect_one en redactor i p window target o')"
  unfolding collect_one_def Let_def
  by (intro keeps_sum append_failures) (auto intro: store_evidence split: prod.split)

lemma collect_each: "(\<And>o'. keeps I (one o')) \<Longrightarrow> keeps I (collect_each one os)"
  by (induction os) (simp_all add: keeps_seq keeps_ret)

lemma collect: "keeps I (collect en pr redactor i p g window)"
proof (rule keepsI)
  fix w assume w: "I w"
  obtain res w1 where run: "on_kube (pr p g window) w = (res, w1)" by fastforce
  have w1: "I w1" using keepsD [OF provider w, of "pr p g window"] run by simp
  show "I (snd (collect en pr redactor i p g window w))"
  proof (cases res)
    case (Inl x)
    then show ?thesis using run keepsD [OF append_failures(2) w1] by (simp add: collect_def)
  next
    case (Inr os)
    have "keeps I (seq (raise_when b x) (\<lambda>_. seq (collect_each (collect_one en redactor i p window target) os')
        (\<lambda>_. if c then append_provider_failure en i m else ret ())))" for b x target os' c m
      by (intro keeps_seq keeps_raise_when keeps_if keeps_ret append_failures collect_each collect_one)
    from keepsD [OF this w1] show ?thesis using run Inr by (simp add: collect_def Let_def)
  qed
qed

lemma initial: "keeps I (collect_initial en wk n r)"
  unfolding collect_initial_def by (intro keeps_if keeps_seq keeps_lift_result keeps_ret collect)

lemma investigate_alert: "keeps I (investigate_alert en wk i events answer)"
  unfolding investigate_alert_def
  by (intro keeps_seq keeps_option keeps_if keeps_get_record keeps_ret investigate evaluate_record)

end

section \<open>Alert signals and identities stay\<close>

text \<open>Every incident has the signals it had, no incident is new, and identities are only used up.\<close>

definition signals_are :: "store \<Rightarrow> store \<Rightarrow> bool" where
  "signals_are s0 s \<longleftrightarrow> (\<forall>i. map_option ir_alert_signals (store_get s i) = map_option ir_alert_signals (store_get s0 i))
     \<and> (\<forall>i r. store_get s i = Some r \<longrightarrow> inc_incident_id (ir_incident r) = i)"

definition adds_no_signal :: "string \<Rightarrow> store_op \<Rightarrow> bool" where
  "adds_no_signal i op \<longleftrightarrow> leaves_queries i op \<and> \<not> (\<exists>g. op = Append_Alert_Signal g)
     \<or> (\<exists>q. op = Append_Query q)"

lemma adds_no_signal_simps [simp]:
  "adds_no_signal i (Append_Evidence e)" "adds_no_signal i (Append_Failure f)"
  "adds_no_signal i (Append_Finding d)" "adds_no_signal i (Append_Model_Invocation m)"
  "adds_no_signal i (Append_Audit_Event a)" "adds_no_signal i (Complete_Investigation c)"
  "adds_no_signal i (Compare_And_Set n b)" "adds_no_signal i (Record_Policy_Decision p)"
  "adds_no_signal i (Append_Query q)" "adds_no_signal i (Record_Approval_Decision dg t n ap ev)"
  by (simp_all add: adds_no_signal_def)

lemma signals_method:
  assumes "signals_are s0 s" "adds_no_signal i op"
  shows "signals_are s0 (snd (run_method i op s))"
proof (cases "run_method i op s")
  case (Pair res s')
  show ?thesis
  proof (cases res)
    case (Inl e)
    then show ?thesis using run_method_Inl [OF Pair [unfolded Inl]] Pair assms(1) by simp
  next
    case (Inr r')
    have "inc_incident_id (ir_incident r) = i" if "store_get s i = Some r" for r
      using assms(1) that by (simp add: signals_are_def)
    then obtain r where "store_get s i = Some r" "s' = store_replace r' s" "inc_incident_id (ir_incident r') = i"
      "ir_alert_signals r' = ir_alert_signals r"
      using assms(2) Pair Inr
      by (cases op) (auto simp: bump_version_simps adds_no_signal_def leaves_queries_def store_method_defs store_update_Inr
        guarded_Inr append_evidence_record_def append_failure_record_def append_finding_record_def
        append_model_invocation_record_def append_audit_event_record_def complete_investigation_record_def
        compare_and_set_record_def append_query_record_def record_policy_decision_record_def record_approval_record_def
        validate_record_Inr bind_result_Inr with_event_def dest: transition_incident_frame split: if_splits)
    then show ?thesis using assms(1) Pair
      by (auto simp: signals_are_def store_get_replace) (metis option.simps(9))+
  qed
qed

interpretation signalled: store_client "signals_are s0" adds_no_signal for s0
  by unfold_locales (rule signals_method)

definition quiet :: "store \<Rightarrow> nat \<Rightarrow> 'k world \<Rightarrow> bool" where
  "quiet s0 u0 w \<longleftrightarrow> signals_are s0 (w_store w) \<and> u0 \<le> w_uuids w"

lemma quiet_call: "adds_no_signal i op \<Longrightarrow> keeps (quiet s0 u0) (on_store (run_method i op))"
  by (rule keeps_on_store) (simp add: quiet_def signals_method)

lemma quiet_calls:
  "keeps (quiet s0 u0) (on_store (append_evidence i e))"
  "keeps (quiet s0 u0) (on_store (append_evidence_retrieval_failure i f))"
  "keeps (quiet s0 u0) (on_store (append_evidence_query i q))"
  "keeps (quiet s0 u0) (on_store (append_finding i d))"
  "keeps (quiet s0 u0) (on_store (append_model_invocation i m))"
  "keeps (quiet s0 u0) (on_store (complete_investigation i c))"
  "keeps (quiet s0 u0) (on_store (append_audit_event i a))"
  "keeps (quiet s0 u0) (on_store (compare_and_set i n b))"
  "keeps (quiet s0 u0) (on_store (record_policy_decision i p))"
  using quiet_call [of i "Append_Evidence e"] quiet_call [of i "Append_Failure f"]
    quiet_call [of i "Append_Query q"] quiet_call [of i "Append_Finding d"]
    quiet_call [of i "Append_Model_Invocation m"] quiet_call [of i "Complete_Investigation c"]
    quiet_call [of i "Append_Audit_Event a"] quiet_call [of i "Compare_And_Set n b"]
    quiet_call [of i "Record_Policy_Decision p"] by simp_all

lemma quiet_providers:
  "keeps (quiet s0 u0) (on_kube m)" "keeps (quiet s0 u0) (now_act en)" "keeps (quiet s0 u0) (uuid4 en)"
  by (auto intro: keeps_intros simp: quiet_def keeps_def uuid4_def now_act_def on_kube_def on_part_def split: prod.split)

interpretation quiet_gateway: gateway_client "quiet s0 u0" en for s0 u0 en
  by unfold_locales (auto intro: quiet_calls quiet_providers simp: quiet_def)

interpretation quiet: investigation_client "quiet s0 u0" en for s0 u0 en
  by unfold_locales (auto intro: quiet_calls quiet_gateway.execute_query)

lemma budget_query: "keeps (\<lambda>w. within_budget (w_store w)) (execute_query en gw i role ident n)"
  by (rule keepsI) (rule execute_budget)

lemma budget_decision: "keeps (\<lambda>w. within_budget (w_store w)) (on_store (record_policy_decision i p))"
  using budget.call [of i "Record_Policy_Decision p"] by simp

interpretation budgeted: investigation_client "\<lambda>w. within_budget (w_store w)" en for en
  by unfold_locales (auto intro: budget.calls budget.providers budget_query budget_decision)

section \<open>Growth\<close>

lemma grows_failure_call:
  assumes "message \<noteq> []" "length message \<le> 1000" "pred_option workload_reference_fields scope"
  shows "grows (exists_incident i) (on_store (append_evidence_retrieval_failure i
      \<lparr>ef_failure_id = ''evidence-failure-'' @ u, ef_incident_id = i, ef_source = src, ef_query = k,
       ef_scope = scope, ef_occurred_at = t, ef_message = message\<rparr>)) (\<lambda>_ _. True)"
proof (rule grows_pre [where c = "i \<noteq> []"])
  assume "i \<noteq> []"
  then show ?thesis using assms by (intro grows_keeps growing.calls) (simp add: wf_evidence_retrieval_failure_def)
qed (rule known_id)

lemma grows_append_failure:
  assumes "wf_raw_evidence o'" "message \<noteq> []" "length message \<le> 1000"
  shows "grows (exists_incident i) (append_failure en i o' message) (\<lambda>_. exists_incident i)"
  unfolding append_failure_def
  by (intro grows_then [OF lasting_exists] grows_providers grows_failure_call grows_ret)
    (use assms in \<open>simp_all add: wf_raw_evidence_def raw_evidence_fields_def\<close>)

lemma grows_provider_failure:
  assumes "message \<noteq> []" "length message \<le> 1000"
  shows "grows (exists_incident i) (append_provider_failure en i message) (\<lambda>_. exists_incident i)"
  unfolding append_provider_failure_def
  by (intro grows_then [OF lasting_exists] grows_providers grows_failure_call grows_ret) (use assms in simp_all)

lemma grows_store_evidence:
  assumes "wf_raw_evidence o'"
  shows "grows (exists_incident i) (store_evidence en i window m o' bounded excerpt reference) (\<lambda>_. exists_incident i)"
proof -
  have call: "grows (exists_incident i) (on_store (append_evidence i e)) (\<lambda>_ _. True)"
    if "validate_observation x = Inr e" for x e
    using that by (intro grows_keeps growing.calls) (auto simp: validate_observation_def split: if_splits)
  show ?thesis unfolding store_evidence_def
    by (intro grows_try [OF lasting_exists] grows_then [OF lasting_exists] grows_providers grows_validated
        call grows_ret grows_if grows_append_failure grows_raise assms) simp_all
qed

lemma grows_collect_one:
  assumes "wf_raw_evidence o'"
  shows "grows (exists_incident i) (collect_one en redactor i p window target o') (\<lambda>_. exists_incident i)"
proof (cases "validate_scope_and_mapping p window target o'")
  case (Inl x)
  have "exn_str x \<noteq> [] \<and> length (exn_str x) \<le> 1000" using Inl
    by (auto simp: validate_scope_and_mapping_def guarded_def first_problem.simps split: if_splits option.splits)
  then show ?thesis unfolding collect_one_def Inl sum.case by (intro grows_append_failure assms) simp_all
next
  case (Inr m)
  have failed: "grows (exists_incident i) (append_failure en i o' ''redaction failed; evidence was not retained'')
      (\<lambda>_. exists_incident i)" by (rule grows_append_failure [OF assms]) simp_all
  show ?thesis unfolding collect_one_def Let_def Inr sum.case
    by (auto simp: failed grows_store_evidence [OF assms] split: sum.split)
qed

lemma grows_collect_each:
  "list_all wf_raw_evidence os \<Longrightarrow> grows (exists_incident i)
     (collect_each (collect_one en redactor i p window target) os) (\<lambda>_. exists_incident i)"
proof (induction os)
  case Nil
  then show ?case by (simp add: grows_ret)
next
  case (Cons o' os)
  then show ?case by (simp add: grows_seq [OF grows_collect_one])
qed

lemma grows_collect:
  fixes pr :: "'k evidence_provider"
  assumes "valid_evidence_provider pr"
  shows "grows (exists_incident i) (collect en pr redactor i p g window) (\<lambda>_ _. True)"
proof (rule growsI)
  fix w :: "'k world" assume w: "store_inv (w_store w)" "exists_incident i (w_store w)"
  obtain res w1 where run: "on_kube (pr p g window) w = (res, w1)" by fastforce
  then have w1: "w_store w1 = w_store w" by (auto simp: on_kube_def on_part_def split: prod.splits)
  show "wp (collect en pr redactor i p g window)
      (\<lambda>_ w'. grown (w_store w) (w_store w') \<and> True) (\<lambda>_ w'. grown (w_store w) (w_store w')) w"
  proof (cases res)
    case (Inl x)
    have "wp (collect en pr redactor i p g window) Q E w = wp (append_provider_failure en i
        ''evidence provider failed; no evidence was retained'') Q E w1" for Q E
      using run Inl by (simp add: wp_def collect_def)
    moreover have "grows (exists_incident i) (append_provider_failure en i
        ''evidence provider failed; no evidence was retained'') (\<lambda>_. exists_incident i)"
      by (rule grows_provider_failure) simp_all
    from growsD [OF this, of w1] have "wp (append_provider_failure en i
        ''evidence provider failed; no evidence was retained'')
      (\<lambda>_ w'. grown (w_store w) (w_store w') \<and> True) (\<lambda>_ w'. grown (w_store w) (w_store w')) w1"
      using w by (auto simp: w1 elim: wp_mono)
    ultimately show ?thesis by simp
  next
    case (Inr os)
    let ?max = "length (ap_evidence_mappings p)"
    let ?target = "deployment_reference (sg_namespace g) (sg_workload_name g)"
    have "fst (pr p g window (w_kube w)) = Inr os" using run Inr
      by (auto simp: on_kube_def on_part_def split: prod.splits)
    then have "list_all wf_raw_evidence os" using assms
      unfolding valid_evidence_provider_def by (metis sum.simps(6))
    then have "list_all wf_raw_evidence (take ?max os)" by (auto simp: list_all_iff dest: in_set_takeD)
    then have each: "grows (exists_incident i) (collect_each (collect_one en redactor i p window ?target) (take ?max os))
        (\<lambda>_. exists_incident i)"
      by (rule grows_collect_each)
    have last: "grows (exists_incident i) (if length os > ?max then append_provider_failure en i
        ''evidence budget exceeded; additional observations were not retained'' else ret ()) (\<lambda>_. exists_incident i)"
      by (intro grows_if grows_provider_failure grows_ret) simp_all
    let ?rest = "seq (raise_when (\<not> workload_reference_fields ?target \<and> take ?max os \<noteq> [])
        (ValidationError ''WorkloadReference'' ''invalid field'')) (\<lambda>_.
      seq (collect_each (collect_one en redactor i p window ?target) (take ?max os)) (\<lambda>_.
      if length os > ?max then append_provider_failure en i
        ''evidence budget exceeded; additional observations were not retained'' else ret ()))"
    have "wp (collect en pr redactor i p g window) Q E w = wp ?rest Q E w1" for Q E
      using run Inr by (simp add: wp_def collect_def Let_def)
    moreover have "grows (exists_incident i) ?rest (\<lambda>_. exists_incident i)"
      by (rule grows_guarded, rule grows_seq, rule each, rule last)
    from growsD [OF this, of w1]
    have "wp ?rest (\<lambda>_ w'. grown (w_store w) (w_store w') \<and> True) (\<lambda>_ w'. grown (w_store w) (w_store w')) w1"
      using w by (auto simp: w1 elim: wp_mono)
    ultimately show ?thesis by simp
  qed
qed

interpretation growing_policy: policy_client "\<lambda>w. grown s0 (w_store w)" en for s0 en
  by unfold_locales (simp_all add: growing.providers)

lemma grows_evaluate_record: "grows (exists_incident i) (evaluate_and_record en i) (\<lambda>_. exists_incident i)"
proof -
  have event: "grows (exists_incident i) (on_store (append_audit_event i
      \<lparr>ae_event_id = ''audit-'' @ u, ae_incident_id = i, ae_event_type = k, ae_occurred_at = t,
       ae_actor = ''deterministic-policy-engine'', ae_details = d, ae_cursor = 0\<rparr>)) (\<lambda>_ _. True)"
    if "k \<noteq> []" for u k t d
  proof (rule grows_pre [where c = "i \<noteq> []"])
    assume "i \<noteq> []"
    with that show ?thesis by (intro grows_keeps growing.calls) (simp add: wf_audit_event_def)
  qed (rule known_id)
  have decision: "grows (exists_incident i) (on_store (record_policy_decision i p)) (\<lambda>_ _. True)" for p
    using grows_call [of "Record_Policy_Decision p" _ i] by (simp add: wf_op_def)
  have policy: "grows (exists_incident i) (evaluate en r p) (\<lambda>_ _. True)" for r p
    by (rule grows_keeps) (rule growing_policy.policy)
  have found: "grows (exists_incident i) (get_record i) (\<lambda>_ _. True)"
    by (rule grows_weaken [OF grows_get_record]) simp_all
  have "grows (exists_incident i) (evaluate_and_record en i) (\<lambda>_ _. True)"
    unfolding evaluate_and_record_def
    by (intro grows_then [OF lasting_exists] found grows_option grows_raise grows_ret policy decision
        grows_providers event) simp_all
  from grows_frame [OF this lasting_exists] show ?thesis by (rule grows_weaken) simp_all
qed

lemma grows_initial:
  assumes "valid_evidence_provider (wk_provider wk)"
  shows "grows (exists_incident (inc_incident_id (ir_incident r))) (collect_initial en wk n r) (\<lambda>_ _. True)"
  unfolding collect_initial_def
  by (intro grows_if grows_validated grows_collect assms grows_ret) simp

lemma grows_investigate_alert: "grows (exists_incident i) (investigate_alert en wk i events answer) (\<lambda>_ _. True)"
proof -
  have found: "grows (exists_incident i) (get_record i) (\<lambda>_ _. True)"
    by (rule grows_weaken [OF grows_get_record]) simp_all
  have investigated: "grows (exists_incident i) (investigate en cn i events answer) (\<lambda>_ _. True)" for cn
    by (rule grows_weaken [OF grows_investigate]) simp_all
  have policy: "grows (exists_incident i) (evaluate_and_record en i) (\<lambda>_ _. True)"
    by (rule grows_weaken [OF grows_evaluate_record]) simp_all
  show ?thesis unfolding investigate_alert_def
    by (intro grows_then [OF lasting_exists] found grows_option grows_if grows_ret investigated policy) simp_all
qed

section \<open>The state the worker keeps\<close>

definition worker_ok :: "'k environment \<Rightarrow> store \<Rightarrow> 'k world \<Rightarrow> bool" where
  "worker_ok en s0 w \<longleftrightarrow> grown s0 (w_store w) \<and> alerts_once (w_store w) \<and> unused_ids en w
     \<and> within_budget (w_store w)"

lemma worker_ok_self: "worker_ok en s0 w \<Longrightarrow> worker_ok en (w_store w) w"
  by (auto simp: worker_ok_def intro: grown_refl grown_inv)

lemma worker_ok_then: "worker_ok en s0 w \<Longrightarrow> worker_ok en (w_store w) w' \<Longrightarrow> worker_ok en s0 w'"
  by (auto simp: worker_ok_def intro: grown_trans)

lemma signals_recorded:
  assumes "signals_are s0 s"
  shows "recorded n s i = recorded n s0 i"
proof -
  have "map_option ir_alert_signals (store_get s i) = map_option ir_alert_signals (store_get s0 i)"
    using assms by (simp add: signals_are_def)
  then show ?thesis
    by (cases "store_get s i"; cases "store_get s0 i") (simp_all add: recorded_def has_notification_def)
qed

lemma recorded_grown:
  assumes "grown s s'" "recorded n s i"
  shows "recorded n s' i"
proof -
  obtain r where r: "store_get s i = Some r" "has_notification n r"
    using assms(2) by (auto simp: recorded_def split: option.splits)
  obtain r' where r': "store_get s' i = Some r'" "prefix (ir_alert_signals r) (ir_alert_signals r')"
    using grown_get [OF assms(1) r(1)] by (auto simp: record_extends_def)
  then show ?thesis using r(2) by (auto simp: recorded_def has_notification_def prefix_def)
qed

text \<open>A step that grows an incident, keeps the budget and records no alert.\<close>

lemma worker_step:
  fixes m :: "('k world, 'a) act"
  assumes ok: "worker_ok en s0 w" and i: "exists_incident i (w_store w)"
    and grows: "grows (exists_incident i) m (\<lambda>_ _. True)"
    and quiet: "keeps (quiet (w_store w) (w_uuids w)) m"
    and budget: "keeps (\<lambda>w. within_budget (w_store w)) m"
  shows "worker_ok en s0 (snd (m w))" "recorded n (w_store (snd (m w))) j = recorded n (w_store w) j"
proof -
  let ?w = "snd (m w)"
  have inv: "store_inv (w_store w)" using ok by (simp add: worker_ok_def grown_def)
  have g: "grown (w_store w) (w_store ?w)" by (rule grows_world [OF grows inv i])
  have "quiet (w_store w) (w_uuids w) w" using store_inv_get [OF inv] by (auto simp: quiet_def signals_are_def)
  from keepsD [OF quiet this] have q: "signals_are (w_store w) (w_store ?w)" "w_uuids w \<le> w_uuids ?w"
    by (simp_all add: quiet_def)
  have none: "(store_get (w_store ?w) x = None) = (store_get (w_store w) x = None)" for x
    using q(1) unfolding signals_are_def by (metis map_option_is_None)
  have "unused_ids en ?w" using ok q(2) by (auto simp: worker_ok_def unused_ids_def none)
  moreover have "alerts_once (w_store ?w)" using ok
    by (simp add: worker_ok_def alerts_once_def signals_recorded [OF q(1)])
  moreover have "within_budget (w_store ?w)" using keepsD [OF budget] ok by (simp add: worker_ok_def)
  ultimately show "worker_ok en s0 ?w" using g ok by (auto simp: worker_ok_def intro: grown_trans)
  show "recorded n (w_store ?w) j = recorded n (w_store w) j" by (rule signals_recorded [OF q(1)])
qed

section \<open>Ingestion\<close>

lemma budget_create:
  assumes "wf_application_profile p"
  shows "keeps (\<lambda>w. within_budget (w_store w)) (create_incident en p g)"
proof -
  have "within_budget (snd (store_create p g h1 h2 s))" if s: "within_budget s" for h1 h2 s
  proof (cases "create_record p g h1 h2")
    case (Inl e)
    then show ?thesis using s by (simp add: store_create_def)
  next
    case (Inr r)
    then have "ir_evidence_queries r = []" "ir_application_profile r = p" unfolding create_record_def Let_def
      by (auto simp: guarded_Inr new_record_def split: if_splits option.splits)
    moreover have "0 \<le> eb_maximum_queries_per_specialist (ap_evidence_budget p)"
      using assms by (simp add: wf_application_profile_def evidence_budget_fields_def)
    ultimately show ?thesis using within_budget_replace [OF s create_record_id [OF Inr]] Inr
      by (simp add: store_create_def prior_queries_def query_budget_def)
  qed
  then show ?thesis unfolding create_incident_def
    by (intro keeps_seq budget.providers keeps_on_store) simp
qed

lemma budget_persist:
  fixes al :: "'k alert_services"
  assumes "valid_profiles al"
  shows "keeps (\<lambda>w. within_budget (w_store w)) (persist_alert en al n)"
proof (rule keepsI)
  fix w :: "'k world" assume w: "within_budget (w_store w)"
  obtain res w1 where run: "authorize_alert en al n w = (res, w1)" by fastforce
  then have w1: "within_budget (w_store w1)"
    using keepsD [OF authorize_keeps [of "w_store w" "w_uuids w" en al n], of w] w by simp
  show "within_budget (w_store (snd (persist_alert en al n w)))"
  proof (cases res)
    case (Inl e)
    then show ?thesis using run w1 by (simp add: persist_alert_def seq_def)
  next
    case (Inr gp)
    obtain g p where gp: "gp = (g, p)" by fastforce
    have p: "wf_application_profile p" using authorize_alert_Inr [OF _ assms] run Inr gp by blast
    let ?B = "\<lambda>w. within_budget (w_store w)"
    have audit: "keeps ?B (ensure_alert_audit en r n)" for r
      unfolding ensure_alert_audit_def by (intro keeps_if keeps_ret keeps_seq budget.providers budget.calls) simp
    have signal: "keeps ?B (record_signal en n g r)" for r
      unfolding record_signal_def by (intro keeps_seq budget.providers budget.calls) simp
    have correlated: "keeps ?B (correlate_alert en al n g p)"
      unfolding correlate_alert_def
      by (intro keeps_seq keeps_option keeps_gets keeps_ret keeps_raise_when budget_create p)
    have "keeps ?B (seq (gets (\<lambda>w. find_by_notification (an_notification_id n) (w_store w))) (\<lambda>duplicate.
        case duplicate of Some r \<Rightarrow> ensure_alert_audit en r n
        | None \<Rightarrow> seq (correlate_alert en al n g p) (\<lambda>r.
            seq (record_signal en n g r) (\<lambda>r'. ensure_alert_audit en r' n))))"
      by (intro keeps_seq keeps_option keeps_gets audit signal correlated)
    from keepsD [OF this w1] show ?thesis using run Inr gp by (simp add: persist_alert_def seq_def)
  qed
qed

lemma persist_ok:
  assumes "worker_ok en s0 w" "valid_profiles al"
  shows "wp (persist_alert en al n) (\<lambda>r w'. worker_ok en s0 w'
      \<and> recorded (an_notification_id n) (w_store w') (inc_incident_id (ir_incident r)))
    (\<lambda>_ w'. worker_ok en s0 w') w"
proof -
  obtain res w' where run: "persist_alert en al n w = (res, w')" by fastforce
  have "alert_state en (an_state n = State_Closed) (w_store w) w"
    using assms(1) by (intro alert_state_start) (simp_all add: worker_ok_def grown_def)
  note st = persist_wp [OF this assms(2)]
  have b: "within_budget (w_store w')" using keepsD [OF budget_persist [OF assms(2)], of w en n] run assms(1)
    by (simp add: worker_ok_def)
  have grown: "worker_ok en s0 w'" if "alert_state en c (w_store w) w'" for c
    using that b assms(1) unfolding worker_ok_def alert_state_def same_incidents_def grown_def
    by (metis record_extends_trans)
  show ?thesis
  proof (cases res)
    case (Inl e)
    then show ?thesis using st run grown by (simp add: wp_run)
  next
    case (Inr r)
    then show ?thesis using st run grown by (auto simp: wp_run alert_stored_def recorded_def)
  qed
qed

lemma ingest_alert_run: "ingest_alert en al n w = (case persist_alert en al n w of
    (Inl e, w') \<Rightarrow> (Inl e, w') | (Inr r, w') \<Rightarrow> (Inr (r, True), w'))"
  by (simp add: ingest_alert_def consume_alert_def seq_def on_part_def flag_acknowledged_def ret_def
    split: prod.split sum.split)

lemma ingest_ok:
  assumes "worker_ok en s0 w" "valid_profiles al"
  shows "wp (ingest_alert en al n) (\<lambda>(r, acknowledged) w'. worker_ok en s0 w' \<and> acknowledged
      \<and> recorded (an_notification_id n) (w_store w') (inc_incident_id (ir_incident r)))
    (\<lambda>_ w'. worker_ok en s0 w') w"
  using persist_ok [OF assms, of n]
  by (cases "persist_alert en al n w") (auto simp: wp_def ingest_alert_run split: sum.splits)

section \<open>One delivery and the loop\<close>

lemma wp_first: "wp (on_part fst apfst m) Q E (w, l) \<longleftrightarrow> wp m (\<lambda>a w'. Q a (w', l)) (\<lambda>e w'. E e (w', l)) w"
  by (simp add: wp_def on_part_def split: prod.splits sum.splits)

lemma wp_second: "wp (on_part snd apsnd m) Q E (w, l) \<longleftrightarrow> wp m (\<lambda>a l'. Q a (w, l')) (\<lambda>e l'. E e (w, l')) l"
  by (simp add: wp_def on_part_def split: prod.splits sum.splits)

text \<open>A subscription that remembers what it was told, whatever it answers.\<close>

definition logging_ack :: "(string \<Rightarrow> pyexn + unit) \<Rightarrow> string \<Rightarrow> (string list, unit) act" where
  "logging_ack answer ack_id ids = (answer ack_id, ids @ [ack_id])"

definition durable :: "store \<Rightarrow> alert_delivery \<Rightarrow> bool" where
  "durable s d \<longleftrightarrow> (\<exists>n i. dv_notification d = Inr n \<and> recorded (an_notification_id n) s i)"

lemma durable_grown: "grown s s' \<Longrightarrow> durable s d \<Longrightarrow> durable s' d"
  unfolding durable_def using recorded_grown by blast

text \<open>A step after the acknowledgement.\<close>

lemma worker_step_wp:
  assumes ok: "worker_ok en s0 w" and i: "recorded n (w_store w) i"
    and step: "grows (exists_incident i) m (\<lambda>_ _. True)" "keeps (quiet (w_store w) (w_uuids w)) m"
      "keeps (\<lambda>w. within_budget (w_store w)) m"
  shows "wp m (\<lambda>_ w'. worker_ok en s0 w' \<and> recorded n (w_store w') i)
    (\<lambda>_ w'. worker_ok en s0 w' \<and> recorded n (w_store w') i) w"
proof -
  have "exists_incident i (w_store w)" using i by (auto simp: recorded_def known_def split: option.splits)
  from worker_step [OF ok this step] i show ?thesis
    by (cases "m w") (auto simp: wp_def split: sum.splits)
qed

lemma handle_alert_wp:
  assumes ok: "worker_ok en s0 w" and al: "valid_profiles (wk_alerts wk)"
    and pr: "valid_evidence_provider (wk_provider wk)"
  shows "wp (handle_alert en wk (logging_ack answer) d)
    (\<lambda>_ (w', ids'). worker_ok en s0 w' \<and> (ids' = ids \<or> ids' = ids @ [dv_ack_id d] \<and> durable (w_store w') d))
    (\<lambda>_ _. False) (w, ids)"
proof (cases "dv_notification d")
  case (Inl e)
  then show ?thesis using ok by (simp add: handle_alert_def wp_simps)
next
  case (Inr n)
  let ?K = "\<lambda>(w', ids'). worker_ok en s0 w' \<and> (ids' = ids \<or> ids' = ids @ [dv_ack_id d] \<and> durable (w_store w') d)"
  have acked: "?K (w', ids @ [dv_ack_id d])"
    if "worker_ok en s0 w' \<and> recorded (an_notification_id n) (w_store w') j" for w' j
    using that Inr by (auto simp: durable_def)
  have rest: "wp (seq (raise_when (\<not> acknowledged)
         (RuntimeError ''alert persistence completed without acknowledgement'')) (\<lambda>_.
       seq (on_part snd apsnd (logging_ack answer (dv_ack_id d))) (\<lambda>_.
       seq (on_part fst apfst (collect_initial en wk n r)) (\<lambda>_.
       on_part fst apfst (investigate_alert en wk (inc_incident_id (ir_incident r))
         (dv_events d) (dv_answer d)))))) (\<lambda>_. ?K) (\<lambda>_. ?K) (w1, ids)"
    if w1: "worker_ok en s0 w1 \<and> acknowledged
      \<and> recorded (an_notification_id n) (w_store w1) (inc_incident_id (ir_incident r))" for r acknowledged w1
  proof -
    let ?i = "inc_incident_id (ir_incident r)"
    have investigated: "wp (investigate_alert en wk ?i (dv_events d) (dv_answer d))
        (\<lambda>_ w'. ?K (w', ids @ [dv_ack_id d])) (\<lambda>_ w'. ?K (w', ids @ [dv_ack_id d])) w2"
      if "worker_ok en s0 w2 \<and> recorded (an_notification_id n) (w_store w2) ?i" for w2
      by (rule wp_mono [OF worker_step_wp]) (use that acked grows_investigate_alert quiet.investigate_alert
        budgeted.investigate_alert in blast)+
    have "wp (collect_initial en wk n r)
        (\<lambda>_. wp (investigate_alert en wk ?i (dv_events d) (dv_answer d))
          (\<lambda>_ w'. ?K (w', ids @ [dv_ack_id d])) (\<lambda>_ w'. ?K (w', ids @ [dv_ack_id d])))
        (\<lambda>_ w'. ?K (w', ids @ [dv_ack_id d])) w1"
      by (rule wp_mono [OF worker_step_wp]) (use w1 acked investigated grows_initial [OF pr] quiet.initial
        budgeted.initial in blast)+
    then show ?thesis using w1 acked [of w1]
      by (cases "answer (dv_ack_id d)")
        (auto simp: wp_seq wp_raise_when wp_second wp_first logging_ack_def wp_def [of "logging_ack answer (dv_ack_id d)"])
  qed
  show ?thesis unfolding handle_alert_def Inr
    using ingest_ok [OF ok al, of n] rest ok
    by (auto simp: wp_try_except wp_seq wp_lift_result wp_first wp_ret elim!: wp_mono)
qed

definition durably_acknowledged :: "alert_delivery list \<Rightarrow> store \<Rightarrow> string list \<Rightarrow> bool" where
  "durably_acknowledged ds s ids \<longleftrightarrow> (\<forall>i\<in>set ids. \<exists>d\<in>set ds. dv_ack_id d = i \<and> durable s d)"

lemma durably_acknowledged_step:
  assumes "durably_acknowledged ds s ids" "grown s s'" "d \<in> set ds"
    and "ids' = ids \<or> ids' = ids @ [dv_ack_id d] \<and> durable s' d"
  shows "durably_acknowledged ds s' ids'"
  using assms durable_grown by (fastforce simp: durably_acknowledged_def)

lemma run_alert_worker_wp:
  assumes "worker_ok en s0 w" "valid_profiles (wk_alerts wk)" "valid_evidence_provider (wk_provider wk)"
    and "durably_acknowledged ds0 (w_store w) ids" "set ds \<subseteq> set ds0"
  shows "wp (run_alert_worker en wk (logging_ack answer) ds)
    (\<lambda>_ (w', ids'). worker_ok en s0 w' \<and> durably_acknowledged ds0 (w_store w') ids') (\<lambda>_ _. False) (w, ids)"
  using assms(1,4,5)
proof (induction ds arbitrary: w ids)
  case Nil
  then show ?case by (simp add: wp_ret)
next
  case (Cons d ds)
  show ?case unfolding run_alert_worker.simps wp_seq
  proof (rule wp_mono [OF handle_alert_wp [OF worker_ok_self [OF Cons.prems(1)] assms(2,3)]])
    fix done' and x :: "'a world \<times> string list"
    obtain w' ids' where x: "x = (w', ids')" by fastforce
    assume "case x of (w', ids') \<Rightarrow> worker_ok en (w_store w) w'
      \<and> (ids' = ids \<or> ids' = ids @ [dv_ack_id d] \<and> durable (w_store w') d)"
    then have step: "worker_ok en (w_store w) w'"
      "ids' = ids \<or> ids' = ids @ [dv_ack_id d] \<and> durable (w_store w') d" using x by simp_all
    have ok: "worker_ok en s0 w'" by (rule worker_ok_then [OF Cons.prems(1) step(1)])
    have "durably_acknowledged ds0 (w_store w') ids'"
      using durably_acknowledged_step [OF Cons.prems(2) _ _ step(2)] Cons.prems(3) step(1)
      by (simp add: worker_ok_def)
    then show "wp (if done' then run_alert_worker en wk (logging_ack answer) ds else ret False)
        (\<lambda>_ (w', ids'). worker_ok en s0 w' \<and> durably_acknowledged ds0 (w_store w') ids') (\<lambda>_ _. False) x"
      using Cons.IH [OF ok] Cons.prems(3) ok x by (simp add: wp_ret)
  qed simp
qed

section \<open>The property\<close>


text \<open>A malformed delivery, and an alert whose investigation is still waiting for its Specialists.\<close>

definition sample_worker :: "unit investigator" where
  "sample_worker = \<lparr>wk_alerts = sample_alerts, wk_provider = fake_evidence_provider (Some [leaky_observation]), wk_redactor = Inr,
     wk_council = sample_council\<rparr>"

definition worker_deliveries :: "alert_delivery list" where
  "worker_deliveries =
    [\<lparr>dv_ack_id = ''a1'', dv_notification = Inl (ValueError ''malformed''), dv_events = [], dv_answer = silence\<rparr>,
     \<lparr>dv_ack_id = ''a2'', dv_notification = Inr (sample_notification ''n1'' State_Open),
      dv_events = [], dv_answer = silence\<rparr>]"

definition worked :: "(pyexn + bool) \<times> unit world \<times> string list" where
  "worked = run_alert_worker alert_environment sample_worker
     (logging_ack (\<lambda>_. Inr ())) worker_deliveries (quiet_world, [])"

lemma worked_result:
  "(case worked of (res, w, ids) \<Rightarrow> (map (\<lambda>(i, r). (map se_notification_id (ir_alert_signals r),
        inc_investigation_outcome (ir_incident r), length (ir_evidence r),
        length (ir_evidence_retrieval_failures r))) (w_store w), ids))
   = ([([''n1''], INV_NOT_STARTED, 1, 0)], [''a2''])"
  by code_simp


end
