(* ===== verification/Deployment_Profile.thy ===== *)
theory Deployment_Profile
  imports Approval_Binding "HOL-Library.Sublist"
begin

text \<open>
  The configuration and the reports of the environment bootstrap (\<open>bootstrap/models.py\<close>): the
  deployment profile with every validator, requirements, observations, actions and the hashed plan.
  Parsing (YAML and pydantic's construction of the nested models from JSON) is a parameter; a loaded
  profile is what the validators accept. Fields with a single literal value (the Firestore mode, the
  registry format, the architecture and platform) are left out of the records.
\<close>

section \<open>Text patterns\<close>

definition lower_letter :: "char \<Rightarrow> bool" where
  "lower_letter c \<longleftrightarrow> CHR ''a'' \<le> c \<and> c \<le> CHR ''z''"

definition upper_letter :: "char \<Rightarrow> bool" where
  "upper_letter c \<longleftrightarrow> CHR ''A'' \<le> c \<and> c \<le> CHR ''Z''"

definition hex_digit :: "char \<Rightarrow> bool" where
  "hex_digit c \<longleftrightarrow> is_digit c \<or> CHR ''a'' \<le> c \<and> c \<le> CHR ''f''"

definition lowered :: "string \<Rightarrow> string" where
  "lowered = map (\<lambda>c. if upper_letter c then char_of (of_char c + (32 :: nat)) else c)"

text \<open>\<open>[1-9][0-9]*\<close> and \<open>[1-9][0-9]*d\<close>.\<close>

definition positive_number :: "string \<Rightarrow> bool" where
  "positive_number s \<longleftrightarrow> s \<noteq> [] \<and> hd s \<noteq> CHR ''0'' \<and> list_all is_digit s"

definition positive_with_unit :: "char \<Rightarrow> string \<Rightarrow> bool" where
  "positive_with_unit u s \<longleftrightarrow> s \<noteq> [] \<and> last s = u \<and> positive_number (butlast s)"

text \<open>\<open>[a-z][a-z0-9-]+@[a-z][a-z0-9-]+.iam.gserviceaccount.com\<close>.\<close>

definition account_part :: "string \<Rightarrow> bool" where
  "account_part s \<longleftrightarrow> 2 \<le> length s \<and> lower_letter (hd s)
     \<and> list_all (\<lambda>c. lower_letter c \<or> is_digit c \<or> c = CHR ''-'') s"

definition google_service_account :: "string \<Rightarrow> bool" where
  "google_service_account s \<longleftrightarrow>
     (let name = takeWhile (\<lambda>c. c \<noteq> CHR ''@'') s;
          rest = dropWhile (\<lambda>c. c \<noteq> CHR ''@'') s;
          project = takeWhile (\<lambda>c. c \<noteq> CHR ''.'') (tl rest);
          domain = dropWhile (\<lambda>c. c \<noteq> CHR ''.'') (tl rest)
      in rest \<noteq> [] \<and> account_part name \<and> account_part project \<and> domain = ''.iam.gserviceaccount.com'')"

definition image_tag :: "string \<Rightarrow> bool" where
  "image_tag s \<longleftrightarrow> length (take 12 s) = 12 \<and> list_all hex_digit (take 12 s)
     \<and> (drop 12 s = [] \<or> prefix ''-live'' (drop 12 s) \<and> drop 17 s \<noteq> [] \<and> list_all is_digit (drop 17 s))"

definition image_digest :: "string \<Rightarrow> bool" where
  "image_digest s \<longleftrightarrow> prefix ''sha256:'' s \<and> length s = 71 \<and> list_all hex_digit (drop 7 s)"

definition sha256_hex :: "string \<Rightarrow> bool" where
  "sha256_hex s \<longleftrightarrow> length s = 64 \<and> list_all hex_digit s"

definition repository_part :: "string \<Rightarrow> bool" where
  "repository_part s \<longleftrightarrow> s \<noteq> [] \<and> list_all (\<lambda>c. lower_letter c \<or> upper_letter c \<or> is_digit c
     \<or> c \<in> set ''_.-'') s"

definition github_repository :: "string \<Rightarrow> bool" where
  "github_repository s \<longleftrightarrow> (let rest = dropWhile (\<lambda>c. c \<noteq> CHR ''/'') s in
     rest \<noteq> [] \<and> repository_part (takeWhile (\<lambda>c. c \<noteq> CHR ''/'') s) \<and> repository_part (tl rest))"

section \<open>Credentials are refused\<close>

definition credential_field_parts :: "string list" where
  "credential_field_parts = [''access_token'', ''client_secret'', ''credential'', ''oauth_secret'',
     ''password'', ''private_key'', ''secret_key'', ''service_account_key'', ''token'']"

definition normalized_key :: "string \<Rightarrow> string" where
  "normalized_key k = map (\<lambda>c. if c = CHR ''-'' then CHR ''_'' else c) (lowered k)"

definition credential_like :: "string \<Rightarrow> bool" where
  "credential_like k \<longleftrightarrow> list_ex (\<lambda>part. sublist part (normalized_key k)) credential_field_parts"

text \<open>The entry that is reported: the first in the order of the walk.\<close>

fun reject_credential_fields :: "string \<Rightarrow> json \<Rightarrow> pyexn + unit"
  and reject_in_dict :: "string \<Rightarrow> (string \<times> json) list \<Rightarrow> pyexn + unit"
  and reject_in_list :: "string \<Rightarrow> nat \<Rightarrow> json list \<Rightarrow> pyexn + unit" where
  "reject_credential_fields path (JObj kvs) = reject_in_dict path kvs"
| "reject_credential_fields path (JList xs) = reject_in_list path 0 xs"
| "reject_credential_fields path v = Inr ()"
| "reject_in_dict path [] = Inr ()"
| "reject_in_dict path ((k, v) # rest) =
    (if credential_like k
     then Inl (ValueError (''credential-like field is forbidden: '' @ path @ ''.'' @ k))
     else bind_result (reject_credential_fields (path @ ''.'' @ k) v) (\<lambda>_. reject_in_dict path rest))"
| "reject_in_list path n [] = Inr ()"
| "reject_in_list path n (x # xs) =
    bind_result (reject_credential_fields (path @ ''['' @ nat_str n @ '']'') x) (\<lambda>_. reject_in_list path (Suc n) xs)"

section \<open>The deployment profile\<close>

record firestore_config =
  fc_database_id :: string
  fc_location :: string

datatype cluster_mode = Reuse_Only | Create_If_Missing

record cluster_config =
  cl_name :: string
  cl_mode :: cluster_mode
  cl_expected_context :: string
  cl_minimum_version :: string
  cl_minimum_allocatable_cpu_millis :: int
  cl_minimum_allocatable_memory_bytes :: int
  cl_workload_pool :: string

definition cluster_fields :: "cluster_config \<Rightarrow> bool" where
  "cluster_fields c \<longleftrightarrow> cl_name c \<noteq> [] \<and> cl_expected_context c \<noteq> [] \<and> cl_minimum_version c \<noteq> []
     \<and> 1000 \<le> cl_minimum_allocatable_cpu_millis c
     \<and> 1073741824 \<le> cl_minimum_allocatable_memory_bytes c \<and> cl_workload_pool c \<noteq> []"

record artifact_registry_config =
  ar_repository :: string
  ar_prefix :: string

record subscription_config =
  sc_topic :: string
  sc_subscription :: string
  sc_ack_deadline_seconds :: int
  sc_retention :: string
  sc_retry_minimum :: string
  sc_retry_maximum :: string
  sc_dead_letter_topic :: string
  sc_dead_letter_subscription :: string
  sc_maximum_delivery_attempts :: int

definition subscription_fields :: "subscription_config \<Rightarrow> bool" where
  "subscription_fields s \<longleftrightarrow> sc_topic s \<noteq> [] \<and> sc_subscription s \<noteq> []
     \<and> 10 \<le> sc_ack_deadline_seconds s \<and> sc_ack_deadline_seconds s \<le> 600
     \<and> positive_with_unit (CHR ''d'') (sc_retention s)
     \<and> positive_with_unit (CHR ''s'') (sc_retry_minimum s) \<and> positive_with_unit (CHR ''s'') (sc_retry_maximum s)
     \<and> sc_dead_letter_topic s \<noteq> [] \<and> sc_dead_letter_subscription s \<noteq> []
     \<and> 5 \<le> sc_maximum_delivery_attempts s \<and> sc_maximum_delivery_attempts s \<le> 100"

record kubernetes_service_account =
  ka_name :: string
  ka_namespace :: string
  ka_google_service_account :: string

definition service_account_fields :: "kubernetes_service_account \<Rightarrow> bool" where
  "service_account_fields a \<longleftrightarrow> ka_name a \<noteq> [] \<and> ka_namespace a \<noteq> []
     \<and> google_service_account (ka_google_service_account a)"

record kubernetes_config =
  kc_system_namespace :: string
  kc_application_namespace :: string
  kc_demo_control_namespace :: string
  kc_investigator :: kubernetes_service_account
  kc_executor :: kubernetes_service_account
  kc_scenario_controller :: kubernetes_service_account

definition kubernetes_config_problem :: "kubernetes_config \<Rightarrow> string option" where
  "kubernetes_config_problem k = first_problem
    [(ka_namespace (kc_investigator k) \<noteq> kc_system_namespace k,
      ''Investigator KSA must use the system namespace''),
     (ka_namespace (kc_executor k) \<noteq> kc_system_namespace k,
      ''Executor KSA must use the system namespace''),
     (ka_namespace (kc_scenario_controller k) \<noteq> kc_demo_control_namespace k,
      ''Scenario Controller KSA must use the demo-control namespace'')]"

definition wf_kubernetes_config :: "kubernetes_config \<Rightarrow> bool" where
  "wf_kubernetes_config k \<longleftrightarrow> kc_system_namespace k \<noteq> [] \<and> kc_application_namespace k \<noteq> []
     \<and> kc_demo_control_namespace k \<noteq> [] \<and> service_account_fields (kc_investigator k)
     \<and> service_account_fields (kc_executor k) \<and> service_account_fields (kc_scenario_controller k)
     \<and> kubernetes_config_problem k = None"

record cloud_identity =
  cd_name :: string
  cd_email :: string
  cd_project_roles :: "string list"

record identity_config =
  id_investigator :: cloud_identity
  id_executor :: cloud_identity
  id_scenario_controller :: cloud_identity
  id_github_deployer :: cloud_identity

definition all_identities :: "identity_config \<Rightarrow> cloud_identity list" where
  "all_identities c = [id_investigator c, id_executor c, id_scenario_controller c, id_github_deployer c]"

definition forbidden_executor_roles :: "string list" where
  "forbidden_executor_roles = [''roles/aiplatform.user'', ''roles/logging.viewer'', ''roles/monitoring.viewer'']"

definition identity_config_problem :: "identity_config \<Rightarrow> string option" where
  "identity_config_problem c = first_problem
    [(\<not> distinct (map cd_email (all_identities c)), ''bootstrap Google service accounts must be distinct''),
     (cd_project_roles (id_scenario_controller c) \<noteq> [],
      ''Scenario Controller must not receive project-level cloud roles''),
     (list_ex (\<lambda>role. role \<in> set (cd_project_roles (id_executor c))) forbidden_executor_roles,
      ''Executor must not receive model or broad observability roles'')]"

definition wf_identity_config :: "identity_config \<Rightarrow> bool" where
  "wf_identity_config c \<longleftrightarrow>
     list_all (\<lambda>i. cd_name i \<noteq> [] \<and> google_service_account (cd_email i)) (all_identities c)
     \<and> identity_config_problem c = None"

record image_config =
  ig_repository :: string
  ig_source_commit :: string
  ig_tag :: string
  ig_digest :: "string option"
  ig_build_context :: "string option"
  ig_available :: bool

definition image_config_problem :: "image_config \<Rightarrow> string option" where
  "image_config_problem i = first_problem
    [(ig_available i \<and> (ig_digest i = None \<or> ig_build_context i = None),
      ''available images require a digest and build context''),
     (\<not> ig_available i \<and> ig_digest i \<noteq> None, ''unavailable images cannot declare a published digest'')]"

definition wf_image_config :: "image_config \<Rightarrow> bool" where
  "wf_image_config i \<longleftrightarrow> ig_repository i \<noteq> []
     \<and> length (ig_source_commit i) = 40 \<and> list_all hex_digit (ig_source_commit i)
     \<and> image_tag (ig_tag i) \<and> pred_option image_digest (ig_digest i) \<and> image_config_problem i = None"

definition immutable_reference :: "image_config \<Rightarrow> string option" where
  "immutable_reference i = (case ig_digest i of
     None \<Rightarrow> None | Some d \<Rightarrow> if d = [] then None else Some (ig_repository i @ ''@'' @ d))"

record github_federation_config =
  gh_repository :: string
  gh_pool :: string
  gh_provider :: string
  gh_provider_resource :: string

record iap_config =
  ia_viewer_principals :: "string list"
  ia_responder_principals :: "string list"

definition iap_config_problem :: "iap_config \<Rightarrow> string option" where
  "iap_config_problem i = first_problem
    [(list_ex (\<lambda>p. CHR '':'' \<notin> set p) (ia_viewer_principals i @ ia_responder_principals i),
      ''IAP principals must include their principal type'')]"

record deployment_profile =
  df_profile_id :: string
  df_project_id :: string
  df_project_number :: string
  df_region :: string
  df_zone :: string
  df_resource_prefix :: string
  df_cluster :: cluster_config
  df_artifact_registry :: artifact_registry_config
  df_firestore :: firestore_config
  df_alerts :: subscription_config
  df_interventions :: subscription_config
  df_kubernetes :: kubernetes_config
  df_identities :: identity_config
  df_images :: "(string \<times> image_config) list"
  df_github :: github_federation_config
  df_iap :: iap_config
  df_vertex_model :: string
  df_required_apis :: "string list"

text \<open>The fields and the validators of the nested models; \<open>images\<close> is a dict.\<close>

definition deployment_profile_fields :: "deployment_profile \<Rightarrow> bool" where
  "deployment_profile_fields p \<longleftrightarrow> df_profile_id p \<noteq> [] \<and> df_project_id p \<noteq> []
     \<and> df_project_number p \<noteq> [] \<and> list_all is_digit (df_project_number p)
     \<and> df_region p \<noteq> [] \<and> df_zone p \<noteq> [] \<and> df_resource_prefix p \<noteq> []
     \<and> cluster_fields (df_cluster p)
     \<and> ar_repository (df_artifact_registry p) \<noteq> [] \<and> ar_prefix (df_artifact_registry p) \<noteq> []
     \<and> fc_database_id (df_firestore p) \<noteq> [] \<and> fc_location (df_firestore p) \<noteq> []
     \<and> subscription_fields (df_alerts p) \<and> subscription_fields (df_interventions p)
     \<and> wf_kubernetes_config (df_kubernetes p) \<and> wf_identity_config (df_identities p)
     \<and> distinct (map fst (df_images p)) \<and> list_all (wf_image_config \<circ> snd) (df_images p)
     \<and> github_repository (gh_repository (df_github p)) \<and> gh_pool (df_github p) \<noteq> []
     \<and> gh_provider (df_github p) \<noteq> [] \<and> gh_provider_resource (df_github p) \<noteq> []
     \<and> iap_config_problem (df_iap p) = None \<and> df_vertex_model p \<noteq> [] \<and> df_required_apis p \<noteq> []"

definition deployment_profile_problem :: "deployment_profile \<Rightarrow> string option" where
  "deployment_profile_problem p = first_problem
    [(\<not> prefix (df_region p @ ''-'') (df_zone p), ''zone must belong to the configured region''),
     (fc_location (df_firestore p) \<noteq> df_region p,
      ''Firestore location must be explicitly aligned with this profile''),
     (\<not> prefix (df_region p @ ''-docker.pkg.dev/'' @ df_project_id p @ ''/'') (ar_prefix (df_artifact_registry p)),
      ''Artifact Registry prefix does not match project and region''),
     (\<not> list_all (\<lambda>i. suffix (''@'' @ df_project_id p @ ''.iam.gserviceaccount.com'') (cd_email i))
        (all_identities (df_identities p)),
      ''Google service accounts must belong to the configured project''),
     (set (map fst (df_images p)) \<noteq> set [''backend'', ''frontend'', ''executor'', ''scenario_controller''],
      ''profile must declare all incident-response image repositories''),
     (\<not> distinct (df_required_apis p), ''required APIs must be unique'')]"

definition wf_deployment_profile :: "deployment_profile \<Rightarrow> bool" where
  "wf_deployment_profile p \<longleftrightarrow> deployment_profile_fields p \<and> deployment_profile_problem p = None"

definition validate_deployment_profile :: "deployment_profile \<Rightarrow> pyexn + deployment_profile" where
  "validate_deployment_profile p =
    (if \<not> deployment_profile_fields p then Inl (ValidationError ''DeploymentProfile'' ''invalid field'')
     else (case deployment_profile_problem p of
       None \<Rightarrow> Inr p | Some m \<Rightarrow> Inl (ValidationError ''DeploymentProfile'' m)))"

definition from_untrusted :: "(json \<Rightarrow> pyexn + deployment_profile) \<Rightarrow> json \<Rightarrow> pyexn + deployment_profile" where
  "from_untrusted parse v = bind_result (reject_credential_fields ''profile'' v) (\<lambda>_.
     bind_result (parse v) validate_deployment_profile)"

definition load_deployment_profile ::
  "(string \<Rightarrow> pyexn + json) \<Rightarrow> (json \<Rightarrow> pyexn + deployment_profile) \<Rightarrow> string \<Rightarrow> pyexn + deployment_profile" where
  "load_deployment_profile safe_load parse text' = bind_result (safe_load text') (\<lambda>raw.
     case raw of JObj kvs \<Rightarrow> from_untrusted parse raw
     | _ \<Rightarrow> Inl (ValueError ''deployment profile must contain a YAML mapping''))"

section \<open>Observations, actions and plans\<close>

datatype observation_status = Compatible | Missing | Incompatible

record bootstrap_observation =
  bo_resource_id :: string
  bo_status :: observation_status
  bo_summary :: string
  bo_details :: "(string \<times> json) list"

record bootstrap_requirement =
  rq_resource_id :: string
  rq_category :: string

record bootstrap_action =
  ba_resource_id :: string
  ba_category :: string
  ba_approval :: string
  ba_command :: "string list"
  ba_follow_up_commands :: "string list list"
  ba_reason :: string

record bootstrap_plan =
  pl_profile_id :: string
  pl_generated_at :: datetime
  pl_actions :: "bootstrap_action list"
  pl_reused :: "string list"
  pl_incompatible :: "string list"
  pl_plan_hash :: string

definition dump_bootstrap_action :: "bootstrap_action \<Rightarrow> json" where
  "dump_bootstrap_action a = JObj
    [(''resource_id'', JStr (ba_resource_id a)), (''category'', JStr (ba_category a)),
     (''approval'', JStr (ba_approval a)), (''command'', JList (map JStr (ba_command a))),
     (''follow_up_commands'', JList (map (\<lambda>c. JList (map JStr c)) (ba_follow_up_commands a))),
     (''reason'', JStr (ba_reason a))]"

definition plan_material ::
  "string \<Rightarrow> bootstrap_action list \<Rightarrow> string list \<Rightarrow> string list \<Rightarrow> json" where
  "plan_material profile_id actions reused incompatible = JObj
    [(''profile_id'', JStr profile_id), (''actions'', JList (map dump_bootstrap_action actions)),
     (''reused'', JList (map JStr reused)), (''incompatible'', JList (map JStr incompatible))]"

definition create_plan ::
  "digest \<Rightarrow> datetime \<Rightarrow> string \<Rightarrow> bootstrap_action list \<Rightarrow> string list \<Rightarrow> string list \<Rightarrow> pyexn + bootstrap_plan" where
  "create_plan g now profile_id actions reused incompatible =
    (let plan_hash = canonical_hash g (plan_material profile_id actions reused incompatible) in
     if profile_id = [] \<or> \<not> sha256_hex plan_hash then Inl (ValidationError ''BootstrapPlan'' ''invalid field'')
     else Inr \<lparr>pl_profile_id = profile_id, pl_generated_at = now, pl_actions = actions, pl_reused = reused,
       pl_incompatible = incompatible, pl_plan_hash = plan_hash\<rparr>)"

record bootstrap_apply_report =
  rt_profile_id :: string
  rt_plan_hash :: string
  rt_applied :: "string list"
  rt_reused :: "string list"

record preflight_check =
  pf_check_id :: string
  pf_passed :: bool
  pf_summary :: string

definition preflight_ready :: "preflight_check list \<Rightarrow> bool" where
  "preflight_ready checks \<longleftrightarrow> list_all pf_passed checks"

end
