(* ===== verification/Bootstrap.thy ===== *)
theory Bootstrap
  imports Deployment_Profile
begin

text \<open>
  The bootstrap planner (\<open>bootstrap/planner.py\<close>): the requirements of a deployment profile, the plan
  for the missing ones, and the application of a reviewed plan. Running a command is an action on the
  environment \<open>'k\<close>; reading the clock is an argument of \<open>plan\<close>.
\<close>

section \<open>Requirements\<close>

definition require :: "string \<Rightarrow> string \<Rightarrow> bootstrap_requirement" where
  "require resource_id category = \<lparr>rq_resource_id = resource_id, rq_category = category\<rparr>"

definition stream_requirements :: "subscription_config \<Rightarrow> bootstrap_requirement list" where
  "stream_requirements s =
    [require (''pubsub-topic/'' @ sc_topic s) ''pubsub'',
     require (''pubsub-topic/'' @ sc_dead_letter_topic s) ''pubsub'',
     require (''pubsub-subscription/'' @ sc_subscription s) ''pubsub'',
     require (''pubsub-subscription/'' @ sc_dead_letter_subscription s) ''pubsub'']"

definition identity_requirements :: "cloud_identity \<Rightarrow> bootstrap_requirement list" where
  "identity_requirements i = require (''gsa/'' @ cd_name i) ''identity''
     # map (\<lambda>role. require (''iam-role/'' @ cd_name i @ ''/'' @ role) ''identity'') (cd_project_roles i)"

definition account_requirement :: "kubernetes_service_account \<Rightarrow> bootstrap_requirement" where
  "account_requirement a = require (''ksa/'' @ ka_namespace a @ ''/'' @ ka_name a) ''identity''"

definition all_accounts :: "kubernetes_config \<Rightarrow> kubernetes_service_account list" where
  "all_accounts k = [kc_investigator k, kc_executor k, kc_scenario_controller k]"

definition requirements :: "deployment_profile \<Rightarrow> bootstrap_requirement list" where
  "requirements p =
     map (\<lambda>api. require (''api/'' @ api) ''api'') (df_required_apis p)
     @ [require (''cluster/'' @ cl_name (df_cluster p)) ''cluster'',
        require (''registry/'' @ ar_repository (df_artifact_registry p)) ''artifact-registry'',
        require (''firestore/'' @ fc_database_id (df_firestore p)) ''firestore'']
     @ concat (map stream_requirements [df_alerts p, df_interventions p])
     @ concat (map identity_requirements (all_identities (df_identities p)))
     @ [require (''namespace/'' @ kc_system_namespace (df_kubernetes p)) ''identity'',
        require (''namespace/'' @ kc_demo_control_namespace (df_kubernetes p)) ''identity'']
     @ map account_requirement (all_accounts (df_kubernetes p))
     @ map (\<lambda>name. require (''workload-identity/'' @ name) ''identity'')
         [''investigator'', ''executor'', ''scenario-controller'']
     @ [require (''github-pool/'' @ gh_pool (df_github p)) ''github'',
        require (''github-provider/'' @ gh_provider (df_github p)) ''github'',
        require ''github-binding/deployer'' ''github'']
     @ map (\<lambda>(name, image). require (''image/'' @ name) ''image'')
         (filter (\<lambda>(name, image). ig_available image) (df_images p))"

section \<open>Actions\<close>

definition removeprefix :: "string \<Rightarrow> string \<Rightarrow> string" where
  "removeprefix p s = (if prefix p s then drop (length p) s else s)"

text \<open>\<open>s.split(c, maxsplit=n)\<close>.\<close>

fun split_max :: "nat \<Rightarrow> char \<Rightarrow> string \<Rightarrow> string list" where
  "split_max 0 c s = [s]"
| "split_max (Suc n) c s = (case dropWhile (\<lambda>d. d \<noteq> c) s of
     [] \<Rightarrow> [s] | _ # rest \<Rightarrow> takeWhile (\<lambda>d. d \<noteq> c) s # split_max n c rest)"

text \<open>\<open>next(x for x in xs if P(x))\<close>.\<close>

definition first_such :: "('a \<Rightarrow> bool) \<Rightarrow> 'a list \<Rightarrow> pyexn + 'a" where
  "first_such P xs = (case List.find P xs of None \<Rightarrow> Inl (OtherError ''StopIteration'' []) | Some x \<Rightarrow> Inr x)"

text \<open>The fields of requirements and actions are not empty by construction.\<close>

definition build_action ::
  "bootstrap_requirement \<Rightarrow> string \<Rightarrow> string list \<Rightarrow> string list list \<Rightarrow> string \<Rightarrow> bootstrap_action" where
  "build_action rq approval command follow_up reason =
    \<lparr>ba_resource_id = rq_resource_id rq, ba_category = rq_category rq, ba_approval = approval,
     ba_command = command, ba_follow_up_commands = follow_up, ba_reason = reason\<rparr>"

definition project_flag :: "deployment_profile \<Rightarrow> string" where
  "project_flag p = ''--project='' @ df_project_id p"

definition api_action :: "deployment_profile \<Rightarrow> bootstrap_requirement \<Rightarrow> bootstrap_action" where
  "api_action p rq = build_action rq ''enable-apis''
    [''gcloud'', ''services'', ''enable'', removeprefix ''api/'' (rq_resource_id rq), project_flag p]
    [] ''required Google API is disabled''"

definition cluster_action :: "deployment_profile \<Rightarrow> bootstrap_requirement \<Rightarrow> bootstrap_action" where
  "cluster_action p rq = build_action rq ''create-cluster''
    [''gcloud'', ''container'', ''clusters'', ''create'', cl_name (df_cluster p),
     ''--zone='' @ df_zone p, ''--machine-type=e2-standard-4'', ''--num-nodes=1'',
     ''--workload-pool='' @ cl_workload_pool (df_cluster p), project_flag p]
    [] ''explicit create-if-missing cluster is absent''"

definition registry_action :: "deployment_profile \<Rightarrow> bootstrap_requirement \<Rightarrow> bootstrap_action" where
  "registry_action p rq = build_action rq ''create-shared-resources''
    [''gcloud'', ''artifacts'', ''repositories'', ''create'', ar_repository (df_artifact_registry p),
     ''--repository-format=docker'', ''--location='' @ df_region p, project_flag p]
    [] ''configured Artifact Registry repository is absent''"

definition firestore_action :: "deployment_profile \<Rightarrow> bootstrap_requirement \<Rightarrow> bootstrap_action" where
  "firestore_action p rq = build_action rq (''firestore-location:'' @ fc_location (df_firestore p))
    [''gcloud'', ''firestore'', ''databases'', ''create'',
     ''--database='' @ fc_database_id (df_firestore p), ''--location='' @ fc_location (df_firestore p),
     ''--type=firestore-native'', ''--delete-protection'', project_flag p]
    [] ''explicitly located Firestore Native database is absent''"

definition topic_action :: "deployment_profile \<Rightarrow> bootstrap_requirement \<Rightarrow> bootstrap_action" where
  "topic_action p rq = build_action rq ''create-shared-resources''
    [''gcloud'', ''pubsub'', ''topics'', ''create'', removeprefix ''pubsub-topic/'' (rq_resource_id rq),
     project_flag p]
    [] ''required Pub/Sub topic is absent''"

definition subscription_command ::
  "deployment_profile \<Rightarrow> string \<Rightarrow> subscription_config \<Rightarrow> string list" where
  "subscription_command p name s =
    (let dead = name = sc_dead_letter_subscription s in
     [''gcloud'', ''pubsub'', ''subscriptions'', ''create'', name,
      ''--topic='' @ (if dead then sc_dead_letter_topic s else sc_topic s),
      ''--ack-deadline='' @ int_str (if dead then 10 else sc_ack_deadline_seconds s),
      ''--message-retention-duration='' @ sc_retention s, ''--expiration-period=never'']
     @ (if dead then [] else
         [''--dead-letter-topic='' @ sc_dead_letter_topic s,
          ''--max-delivery-attempts='' @ int_str (sc_maximum_delivery_attempts s),
          ''--min-retry-delay='' @ sc_retry_minimum s, ''--max-retry-delay='' @ sc_retry_maximum s])
     @ [project_flag p])"

definition subscription_action :: "deployment_profile \<Rightarrow> bootstrap_requirement \<Rightarrow> pyexn + bootstrap_action" where
  "subscription_action p rq =
    (let name = removeprefix ''pubsub-subscription/'' (rq_resource_id rq) in
     bind_result (first_such (\<lambda>s. name \<in> set [sc_subscription s, sc_dead_letter_subscription s])
       [df_alerts p, df_interventions p]) (\<lambda>s.
     Inr (build_action rq ''create-shared-resources'' (subscription_command p name s) []
       ''required Pub/Sub subscription is absent'')))"

definition gsa_action :: "deployment_profile \<Rightarrow> bootstrap_requirement \<Rightarrow> bootstrap_action" where
  "gsa_action p rq = build_action rq ''identity''
    [''gcloud'', ''iam'', ''service-accounts'', ''create'', removeprefix ''gsa/'' (rq_resource_id rq), project_flag p]
    [] ''required Google service account is absent''"

definition role_action :: "deployment_profile \<Rightarrow> bootstrap_requirement \<Rightarrow> pyexn + bootstrap_action" where
  "role_action p rq = (case split_max 2 (CHR ''/'') (rq_resource_id rq) of
     [_, identity_name, role] \<Rightarrow>
       bind_result (first_such (\<lambda>i. cd_name i = identity_name) (all_identities (df_identities p))) (\<lambda>i.
       Inr (build_action rq ''identity''
         [''gcloud'', ''projects'', ''add-iam-policy-binding'', df_project_id p,
          ''--member=serviceAccount:'' @ cd_email i, ''--role='' @ role, ''--condition=None'']
         [] ''required least-privilege project role is absent''))
   | _ \<Rightarrow> Inl (ValueError ''not enough values to unpack''))"

definition namespace_action :: "bootstrap_requirement \<Rightarrow> bootstrap_action" where
  "namespace_action rq = build_action rq ''identity''
    [''kubectl'', ''create'', ''namespace'', removeprefix ''namespace/'' (rq_resource_id rq)]
    [] ''required Kubernetes identity namespace is absent''"

definition ksa_action :: "deployment_profile \<Rightarrow> bootstrap_requirement \<Rightarrow> pyexn + bootstrap_action" where
  "ksa_action p rq = (case split_max 2 (CHR ''/'') (rq_resource_id rq) of
     [_, namespace, name] \<Rightarrow>
       bind_result (first_such (\<lambda>a. ka_namespace a = namespace \<and> ka_name a = name)
         (all_accounts (df_kubernetes p))) (\<lambda>a.
       Inr (build_action rq ''identity''
         [''kubectl'', ''create'', ''serviceaccount'', name, ''--namespace='' @ namespace]
         [[''kubectl'', ''annotate'', ''serviceaccount'', name, ''--namespace='' @ namespace,
           ''iam.gke.io/gcp-service-account='' @ ka_google_service_account a, ''--overwrite'']]
         ''required Kubernetes service account is absent''))
   | _ \<Rightarrow> Inl (ValueError ''not enough values to unpack''))"

text \<open>\<open>getattr\<close> on the identities and on the service accounts.\<close>

definition workload_identity_pair ::
  "deployment_profile \<Rightarrow> string \<Rightarrow> pyexn + (cloud_identity \<times> kubernetes_service_account)" where
  "workload_identity_pair p name =
    (if name = ''investigator'' then Inr (id_investigator (df_identities p), kc_investigator (df_kubernetes p))
     else if name = ''executor'' then Inr (id_executor (df_identities p), kc_executor (df_kubernetes p))
     else if name = ''scenario_controller''
     then Inr (id_scenario_controller (df_identities p), kc_scenario_controller (df_kubernetes p))
     else Inl (OtherError ''AttributeError'' name))"

definition workload_identity_action ::
  "deployment_profile \<Rightarrow> bootstrap_requirement \<Rightarrow> pyexn + bootstrap_action" where
  "workload_identity_action p rq =
    bind_result (workload_identity_pair p
      (map (\<lambda>c. if c = CHR ''-'' then CHR ''_'' else c) (removeprefix ''workload-identity/'' (rq_resource_id rq))))
      (\<lambda>(i, a).
      Inr (build_action rq ''identity''
        [''gcloud'', ''iam'', ''service-accounts'', ''add-iam-policy-binding'', cd_email i,
         ''--role=roles/iam.workloadIdentityUser'',
         ''--member=serviceAccount:'' @ df_project_id p @ ''.svc.id.goog['' @ ka_namespace a @ ''/'' @ ka_name a @ '']'',
         project_flag p]
        [[''kubectl'', ''annotate'', ''serviceaccount'', ka_name a, ''--namespace='' @ ka_namespace a,
          ''iam.gke.io/gcp-service-account='' @ cd_email i, ''--overwrite'']]
        ''Workload Identity binding or annotation is absent''))"

definition pool_action :: "deployment_profile \<Rightarrow> bootstrap_requirement \<Rightarrow> bootstrap_action" where
  "pool_action p rq = build_action rq ''github-federation''
    [''gcloud'', ''iam'', ''workload-identity-pools'', ''create'', gh_pool (df_github p),
     ''--location=global'', ''--display-name=GitHub Actions'', project_flag p]
    [] ''GitHub Workload Identity pool is absent''"

definition provider_action :: "deployment_profile \<Rightarrow> bootstrap_requirement \<Rightarrow> bootstrap_action" where
  "provider_action p rq = build_action rq ''github-federation''
    [''gcloud'', ''iam'', ''workload-identity-pools'', ''providers'', ''create-oidc'', gh_provider (df_github p),
     ''--workload-identity-pool='' @ gh_pool (df_github p), ''--location=global'',
     ''--issuer-uri=https://token.actions.githubusercontent.com'',
     ''--attribute-mapping=google.subject=assertion.sub,'' @
       ''attribute.repository=assertion.repository,attribute.ref=assertion.ref'',
     ''--attribute-condition=assertion.repository=='' @ [CHR 0x27] @ gh_repository (df_github p) @ [CHR 0x27],
     project_flag p]
    [] ''repository-restricted GitHub OIDC provider is absent''"

definition binding_action :: "deployment_profile \<Rightarrow> bootstrap_requirement \<Rightarrow> bootstrap_action" where
  "binding_action p rq = build_action rq ''github-federation''
    [''gcloud'', ''iam'', ''service-accounts'', ''add-iam-policy-binding'',
     cd_email (id_github_deployer (df_identities p)), ''--role=roles/iam.workloadIdentityUser'',
     ''--member=principalSet://iam.googleapis.com/projects/'' @ df_project_number p
       @ ''/locations/global/workloadIdentityPools/'' @ gh_pool (df_github p)
       @ ''/attribute.repository/'' @ gh_repository (df_github p),
     project_flag p]
    [] ''GitHub repository impersonation binding is absent''"

definition image_action :: "deployment_profile \<Rightarrow> bootstrap_requirement \<Rightarrow> pyexn + bootstrap_action" where
  "image_action p rq = (case dict_get (df_images p) (removeprefix ''image/'' (rq_resource_id rq)) of
     None \<Rightarrow> Inl (KeyError (removeprefix ''image/'' (rq_resource_id rq)))
   | Some i \<Rightarrow> Inr (build_action rq ''publish-images''
       [''docker'', ''buildx'', ''build'', ''--platform'', ''linux/amd64'', ''--tag'',
        ig_repository i @ '':'' @ ig_tag i, ''--push'', case_option [] id (ig_build_context i)]
       [] ''immutable image tag and digest are not published''))"

definition action_for :: "deployment_profile \<Rightarrow> bootstrap_requirement \<Rightarrow> pyexn + bootstrap_action" where
  "action_for p rq =
    (let i = rq_resource_id rq in
     if prefix ''api/'' i then Inr (api_action p rq)
     else if prefix ''cluster/'' i then Inr (cluster_action p rq)
     else if prefix ''registry/'' i then Inr (registry_action p rq)
     else if prefix ''firestore/'' i then Inr (firestore_action p rq)
     else if prefix ''pubsub-topic/'' i then Inr (topic_action p rq)
     else if prefix ''pubsub-subscription/'' i then subscription_action p rq
     else if prefix ''gsa/'' i then Inr (gsa_action p rq)
     else if prefix ''iam-role/'' i then role_action p rq
     else if prefix ''namespace/'' i then Inr (namespace_action rq)
     else if prefix ''ksa/'' i then ksa_action p rq
     else if prefix ''workload-identity/'' i then workload_identity_action p rq
     else if prefix ''github-pool/'' i then Inr (pool_action p rq)
     else if prefix ''github-provider/'' i then Inr (provider_action p rq)
     else if i = ''github-binding/deployer'' then Inr (binding_action p rq)
     else if prefix ''image/'' i then image_action p rq
     else Inl (ValueError (''unsupported bootstrap resource: '' @ i)))"

section \<open>The plan\<close>

text \<open>The dict of observations, in which the last one of a resource stays.\<close>

definition observed :: "bootstrap_observation list \<Rightarrow> string \<Rightarrow> bootstrap_observation option" where
  "observed os resource_id = List.find (\<lambda>o'. bo_resource_id o' = resource_id) (rev os)"

fun plan_requirements ::
  "deployment_profile \<Rightarrow> bootstrap_observation list \<Rightarrow> bootstrap_requirement list
     \<Rightarrow> bootstrap_action list \<Rightarrow> string list \<Rightarrow> string list
     \<Rightarrow> pyexn + (bootstrap_action list \<times> string list \<times> string list)" where
  "plan_requirements p os [] actions reused incompatible = Inr (actions, reused, incompatible)"
| "plan_requirements p os (rq # rqs) actions reused incompatible =
    (let observation = observed os (rq_resource_id rq);
         status = case_option Missing bo_status observation
     in if status = Compatible
        then plan_requirements p os rqs actions (reused @ [rq_resource_id rq]) incompatible
        else if status = Incompatible
        then plan_requirements p os rqs actions reused
          (incompatible @ [rq_resource_id rq @ '': '' @ case_option ''incompatible'' bo_summary observation])
        else if rq_category rq = ''cluster'' \<and> cl_mode (df_cluster p) = Reuse_Only
        then plan_requirements p os rqs actions reused
          (incompatible @ [rq_resource_id rq @ '': reuse-only cluster is missing''])
        else bind_result (action_for p rq) (\<lambda>a.
          plan_requirements p os rqs (actions @ [a]) reused incompatible))"

definition plan ::
  "digest \<Rightarrow> datetime \<Rightarrow> deployment_profile \<Rightarrow> bootstrap_observation list \<Rightarrow> pyexn + bootstrap_plan" where
  "plan g now p os =
    bind_result (plan_requirements p os (requirements p) [] [] []) (\<lambda>(actions, reused, incompatible).
      create_plan g now (df_profile_id p) actions reused incompatible)"

section \<open>Applying a plan\<close>

type_synonym 'k command_runner = "string list \<Rightarrow> ('k, unit) act"

text \<open>\<open>RecordingCommandRunner\<close>.\<close>

definition recording_run :: "string list list command_runner" where
  "recording_run command commands = (Inr (), commands @ [command])"

fun run_commands :: "'k command_runner \<Rightarrow> string list list \<Rightarrow> ('k, unit) act" where
  "run_commands run [] = ret ()"
| "run_commands run (command # commands) = seq (run command) (\<lambda>_. run_commands run commands)"

fun apply_actions :: "'k command_runner \<Rightarrow> bootstrap_action list \<Rightarrow> string list \<Rightarrow> ('k, string list) act" where
  "apply_actions run [] applied = ret applied"
| "apply_actions run (a # actions) applied =
    seq (run (ba_command a)) (\<lambda>_.
    seq (run_commands run (ba_follow_up_commands a)) (\<lambda>_.
    apply_actions run actions (applied @ [ba_resource_id a])))"

definition approval_error :: "string \<Rightarrow> pyexn" where
  "approval_error m = OtherError ''BootstrapApprovalError'' m"

definition missing_approvals :: "bootstrap_plan \<Rightarrow> string list \<Rightarrow> string list" where
  "missing_approvals pl approvals =
     sort (remdups (filter (\<lambda>a. a \<notin> set approvals) (map ba_approval (pl_actions pl))))"

definition apply_bootstrap_plan ::
  "bootstrap_plan \<Rightarrow> string \<Rightarrow> string list \<Rightarrow> 'k command_runner \<Rightarrow> ('k, bootstrap_apply_report) act" where
  "apply_bootstrap_plan pl approved_plan_hash approvals run =
    seq (raise_when (approved_plan_hash \<noteq> pl_plan_hash pl)
      (approval_error ''approved plan hash does not match the current plan hash'')) (\<lambda>_.
    seq (raise_when (pl_incompatible pl \<noteq> [])
      (approval_error ''incompatible resources prevent bootstrap apply'')) (\<lambda>_.
    seq (raise_when (missing_approvals pl approvals \<noteq> [])
      (approval_error (''missing explicit approval: '' @ join '', '' (missing_approvals pl approvals)))) (\<lambda>_.
    seq (apply_actions run (pl_actions pl) []) (\<lambda>applied.
      ret \<lparr>rt_profile_id = pl_profile_id pl, rt_plan_hash = pl_plan_hash pl, rt_applied = applied,
        rt_reused = pl_reused pl\<rparr>))))"

definition smoke_resource_can_be_deleted :: "(string \<times> string) list \<Rightarrow> string \<Rightarrow> bool" where
  "smoke_resource_can_be_deleted labels environment \<longleftrightarrow>
     dict_get labels ''kubecouncil.io/bootstrap-smoke'' = Some ''true''
     \<and> dict_get labels ''kubecouncil.io/environment'' = Some environment"

section \<open>The smoke run\<close>

text \<open>\<open>BootstrapSmokeRunner\<close> (\<open>bootstrap/smoke.py\<close>) over a probe of the environment.\<close>

record smoke_check =
  sk_name :: string
  sk_passed :: bool
  sk_error_type :: "string option"

record 'k smoke_probe =
  pb_vertex :: "('k, unit) act"
  pb_firestore_round_trip :: "string \<Rightarrow> ('k, unit) act"
  pb_pubsub_round_trip :: "string \<Rightarrow> ('k, unit) act"
  pb_logging_read :: "('k, unit) act"
  pb_monitoring_read :: "('k, unit) act"

definition smoke_operations :: "'k smoke_probe \<Rightarrow> string \<Rightarrow> (string \<times> ('k, unit) act) list" where
  "smoke_operations probe marker =
    [(''vertex'', pb_vertex probe), (''firestore'', pb_firestore_round_trip probe marker),
     (''pubsub'', pb_pubsub_round_trip probe marker), (''logging-read'', pb_logging_read probe),
     (''monitoring-read'', pb_monitoring_read probe)]"

definition smoke_one :: "string \<Rightarrow> ('k, unit) act \<Rightarrow> ('k, smoke_check) act" where
  "smoke_one name operation = try_except
     (seq operation (\<lambda>_. ret \<lparr>sk_name = name, sk_passed = True, sk_error_type = None\<rparr>))
     (\<lambda>e. ret \<lparr>sk_name = name, sk_passed = False, sk_error_type = Some (exn_type e)\<rparr>)"

fun smoke_each :: "(string \<times> ('k, unit) act) list \<Rightarrow> ('k, smoke_check list) act" where
  "smoke_each [] = ret []"
| "smoke_each ((name, operation) # rest) =
    seq (smoke_one name operation) (\<lambda>c. seq (smoke_each rest) (\<lambda>cs. ret (c # cs)))"

definition run_smoke :: "'k smoke_probe \<Rightarrow> string \<Rightarrow> ('k, smoke_check list) act" where
  "run_smoke probe marker = smoke_each (smoke_operations probe marker)"

definition smoke_passed :: "smoke_check list \<Rightarrow> bool" where
  "smoke_passed checks \<longleftrightarrow> list_all sk_passed checks"

end
