(* ===== verification/Bootstrap_Guarantees.thy ===== *)
theory Bootstrap_Guarantees
  imports Bootstrap
begin

text \<open>
  What the bootstrap promises: a plan accounts for every requirement of the profile and grants only
  declared roles, and applying runs the reviewed commands, in order, or none.
\<close>

section \<open>Every requirement has an action\<close>

definition slash_free :: "string \<Rightarrow> bool" where
  "slash_free s \<longleftrightarrow> CHR ''/'' \<notin> set s"

definition names_ok :: "deployment_profile \<Rightarrow> bool" where
  "names_ok p \<longleftrightarrow> list_all (slash_free \<circ> cd_name) (all_identities (df_identities p))
     \<and> distinct (map cd_name (all_identities (df_identities p)))
     \<and> list_all (slash_free \<circ> ka_namespace) (all_accounts (df_kubernetes p))"

lemma split_max_head:
  assumes "slash_free s"
  shows "split_max (Suc n) (CHR ''/'') (s @ CHR ''/'' # t) = s # split_max n (CHR ''/'') t"
proof -
  have s: "\<And>c. c \<in> set s \<Longrightarrow> c \<noteq> CHR ''/''" using assms by (auto simp: slash_free_def)
  have "dropWhile (\<lambda>d. d \<noteq> CHR ''/'') (s @ CHR ''/'' # t) = CHR ''/'' # t"
    using s by (simp add: dropWhile_append2)
  moreover have "takeWhile (\<lambda>d. d \<noteq> CHR ''/'') (s @ CHR ''/'' # t) = s"
    using s by (simp add: takeWhile_append2)
  ultimately show ?thesis by simp
qed

lemma split_three:
  assumes "slash_free a" "slash_free b"
  shows "split_max 2 (CHR ''/'') (a @ ''/'' @ b @ ''/'' @ c) = [a, b, c]"
  using split_max_head [OF assms(1), of 1] split_max_head [OF assms(2), of 0 c]
  by (simp add: numeral_2_eq_2)

lemma first_such_exists: "x \<in> set xs \<Longrightarrow> P x \<Longrightarrow> \<exists>y. first_such P xs = Inr y \<and> y \<in> set xs \<and> P y"
proof -
  assume "x \<in> set xs" "P x"
  then obtain y where "List.find P xs = Some y" by (cases "List.find P xs") (auto simp: find_None_iff)
  then show ?thesis using find_in_set [of P xs y] by (auto simp: first_such_def)
qed

text \<open>A command that grants a project role grants one its identity declares.\<close>

definition role_command :: "deployment_profile \<Rightarrow> cloud_identity \<Rightarrow> string \<Rightarrow> string list" where
  "role_command p i role = [''gcloud'', ''projects'', ''add-iam-policy-binding'', df_project_id p,
     ''--member=serviceAccount:'' @ cd_email i, ''--role='' @ role, ''--condition=None'']"

definition least_privilege :: "deployment_profile \<Rightarrow> bootstrap_action \<Rightarrow> bool" where
  "least_privilege p a \<longleftrightarrow> (take 2 (ba_command a) = [''gcloud'', ''projects''] \<longrightarrow>
     (\<exists>i\<in>set (all_identities (df_identities p)). \<exists>role\<in>set (cd_project_roles i).
        ba_command a = role_command p i role))"

definition action_ok :: "deployment_profile \<Rightarrow> bootstrap_requirement \<Rightarrow> bool" where
  "action_ok p rq \<longleftrightarrow> (\<exists>a. action_for p rq = Inr a \<and> ba_resource_id a = rq_resource_id rq
     \<and> least_privilege p a)"

lemmas prefixes = action_for_def Let_def require_def removeprefix_def

lemma static_actions:
  "action_ok p (require (''api/'' @ x) k)"
  "action_ok p (require (''cluster/'' @ x) k)"
  "action_ok p (require (''registry/'' @ x) k)"
  "action_ok p (require (''firestore/'' @ x) k)"
  "action_ok p (require (''pubsub-topic/'' @ x) k)"
  "action_ok p (require (''gsa/'' @ x) k)"
  "action_ok p (require (''namespace/'' @ x) k)"
  "action_ok p (require (''github-pool/'' @ x) k)"
  "action_ok p (require (''github-provider/'' @ x) k)"
  "action_ok p (require ''github-binding/deployer'' k)"
  by (simp_all add: action_ok_def least_privilege_def build_action_def prefixes api_action_def
    cluster_action_def registry_action_def firestore_action_def topic_action_def gsa_action_def
    namespace_action_def pool_action_def provider_action_def binding_action_def)

lemmas static_action_simps [simp] = static_actions [simplified]

lemma stream_action:
  assumes "s \<in> set [df_alerts p, df_interventions p]"
    and "x = sc_subscription s \<or> x = sc_dead_letter_subscription s"
  shows "action_ok p (require (''pubsub-subscription/'' @ x) k)"
proof -
  obtain t where "first_such (\<lambda>s. x \<in> set [sc_subscription s, sc_dead_letter_subscription s])
      [df_alerts p, df_interventions p] = Inr t"
    using first_such_exists [OF assms(1), of "\<lambda>s. x \<in> set [sc_subscription s, sc_dead_letter_subscription s]"]
      assms(2) by auto
  then show ?thesis
    by (simp add: action_ok_def least_privilege_def build_action_def prefixes subscription_action_def
      subscription_command_def)
qed

lemma role_action_ok:
  assumes "names_ok p" "i \<in> set (all_identities (df_identities p))" "role \<in> set (cd_project_roles i)"
  shows "action_ok p (require (''iam-role/'' @ cd_name i @ ''/'' @ role) k)"
proof -
  have free: "slash_free (cd_name i)" "slash_free ''iam-role''"
    using assms(1,2) by (auto simp: names_ok_def list_all_iff slash_free_def)
  have split: "split_max 2 (CHR ''/'') (''iam-role/'' @ cd_name i @ ''/'' @ role) = [''iam-role'', cd_name i, role]"
    using split_three [OF free(2,1), of role] by simp
  obtain j where j: "first_such (\<lambda>j. cd_name j = cd_name i) (all_identities (df_identities p)) = Inr j"
    "j \<in> set (all_identities (df_identities p))" "cd_name j = cd_name i"
    using first_such_exists [OF assms(2), of "\<lambda>j. cd_name j = cd_name i"] by auto
  then have "j = i" using assms(1,2) by (auto simp: names_ok_def distinct_map dest: inj_onD)
  then show ?thesis using j(1) split assms(2,3)
    by (auto simp: action_ok_def least_privilege_def build_action_def prefixes role_action_def role_command_def)
qed

lemma account_action_ok:
  assumes "names_ok p" "a \<in> set (all_accounts (df_kubernetes p))"
  shows "action_ok p (account_requirement a)"
proof -
  have free: "slash_free (ka_namespace a)" "slash_free ''ksa''"
    using assms by (auto simp: names_ok_def list_all_iff slash_free_def)
  have split: "split_max 2 (CHR ''/'') (''ksa/'' @ ka_namespace a @ ''/'' @ ka_name a) = [''ksa'', ka_namespace a, ka_name a]"
    using split_three [OF free(2,1), of "ka_name a"] by simp
  obtain b where "first_such (\<lambda>b. ka_namespace b = ka_namespace a \<and> ka_name b = ka_name a)
      (all_accounts (df_kubernetes p)) = Inr b"
    using first_such_exists [OF assms(2), of "\<lambda>b. ka_namespace b = ka_namespace a \<and> ka_name b = ka_name a"] by auto
  then show ?thesis using split
    by (simp add: action_ok_def least_privilege_def build_action_def account_requirement_def prefixes ksa_action_def)
qed

lemma workload_action_ok:
  "action_ok p (require (''workload-identity/'' @ ''investigator'') k)"
  "action_ok p (require (''workload-identity/'' @ ''executor'') k)"
  "action_ok p (require (''workload-identity/'' @ ''scenario-controller'') k)"
  by (simp_all add: action_ok_def least_privilege_def build_action_def prefixes workload_identity_action_def
    workload_identity_pair_def)

lemma image_action_ok:
  assumes "wf_deployment_profile p" "(name, ig) \<in> set (df_images p)"
  shows "action_ok p (require (''image/'' @ name) k)"
proof -
  have "distinct (map fst (df_images p))"
    using assms(1) by (simp add: wf_deployment_profile_def deployment_profile_fields_def)
  then have "dict_get (df_images p) name = Some ig" using assms(2) by (rule map_of_is_SomeI)
  then show ?thesis
    by (simp add: action_ok_def least_privilege_def build_action_def prefixes image_action_def)
qed

lemma requirement_ok:
  assumes "wf_deployment_profile p" "names_ok p" "rq \<in> set (requirements p)"
  shows "action_ok p rq"
proof -
  have id: "action_ok p rq" if "rq \<in> set (identity_requirements i)" "i \<in> set (all_identities (df_identities p))" for i
    using that role_action_ok [OF assms(2) that(2)] by (auto simp: identity_requirements_def)
  have stream: "action_ok p rq" if "rq \<in> set (stream_requirements s)" "s \<in> set [df_alerts p, df_interventions p]" for s
    using that(1) stream_action [OF that(2)] by (auto simp: stream_requirements_def)
  have image: "action_ok p rq" if "rq = require (''image/'' @ name) ''image''" "(name, i) \<in> set (df_images p)" for name i
    using image_action_ok [OF assms(1) that(2)] that(1) by simp
  from assms(3) show ?thesis unfolding requirements_def set_append Un_iff
  proof (elim disjE)
    assume "rq \<in> set (concat (map stream_requirements [df_alerts p, df_interventions p]))"
    then show ?thesis using stream by auto
  next
    assume "rq \<in> set (concat (map identity_requirements (all_identities (df_identities p))))"
    then show ?thesis using id by auto
  next
    assume "rq \<in> set (map account_requirement (all_accounts (df_kubernetes p)))"
    then show ?thesis using account_action_ok [OF assms(2)] by auto
  next
    assume "rq \<in> set (map (\<lambda>name. require (''workload-identity/'' @ name) ''identity'')
         [''investigator'', ''executor'', ''scenario-controller''])"
    then show ?thesis using workload_action_ok by auto
  next
    assume "rq \<in> set (map (\<lambda>(name, image). require (''image/'' @ name) ''image'')
         (filter (\<lambda>(name, image). ig_available image) (df_images p)))"
    then show ?thesis using image by auto
  qed auto
qed

section \<open>The plan\<close>

text \<open>What is done about a requirement: a missing reuse-only cluster is incompatible.\<close>

definition requirement_status ::
  "deployment_profile \<Rightarrow> bootstrap_observation list \<Rightarrow> bootstrap_requirement \<Rightarrow> observation_status" where
  "requirement_status p os rq =
    (let status = case_option Missing bo_status (observed os (rq_resource_id rq)) in
     if status = Missing \<and> rq_category rq = ''cluster'' \<and> cl_mode (df_cluster p) = Reuse_Only
     then Incompatible else status)"

definition resources_with ::
  "deployment_profile \<Rightarrow> bootstrap_observation list \<Rightarrow> observation_status \<Rightarrow> bootstrap_requirement list \<Rightarrow> string list" where
  "resources_with p os status rqs = map rq_resource_id (filter (\<lambda>rq. requirement_status p os rq = status) rqs)"

lemma plan_requirements_run:
  assumes "\<And>rq. rq \<in> set rqs \<Longrightarrow> action_ok p rq"
  shows "\<exists>acts msgs. plan_requirements p os rqs A R M =
      Inr (A @ acts, R @ resources_with p os Compatible rqs, M @ msgs)
    \<and> map ba_resource_id acts = resources_with p os Missing rqs
    \<and> length msgs = length (resources_with p os Incompatible rqs) \<and> list_all (least_privilege p) acts"
  using assms
proof (induction rqs arbitrary: A R M)
  case Nil
  then show ?case by (simp add: resources_with_def)
next
  case (Cons rq rqs)
  have IH: "\<exists>acts msgs. plan_requirements p os rqs A R M =
      Inr (A @ acts, R @ resources_with p os Compatible rqs, M @ msgs)
    \<and> map ba_resource_id acts = resources_with p os Missing rqs
    \<and> length msgs = length (resources_with p os Incompatible rqs) \<and> list_all (least_privilege p) acts" for A R M
    using Cons by simp
  obtain a where a: "action_for p rq = Inr a" "ba_resource_id a = rq_resource_id rq" "least_privilege p a"
    using Cons.prems [of rq] by (auto simp: action_ok_def)
  show ?case
  proof (cases "requirement_status p os rq")
    case Compatible
    then show ?thesis using IH [of A "R @ [rq_resource_id rq]" M]
      by (auto simp: requirement_status_def resources_with_def Let_def split: if_splits)
  next
    case Missing
    then have "plan_requirements p os (rq # rqs) A R M = plan_requirements p os rqs (A @ [a]) R M"
      using a(1) by (auto simp: requirement_status_def Let_def split: if_splits)
    moreover obtain acts msgs where "plan_requirements p os rqs (A @ [a]) R M =
        Inr ((A @ [a]) @ acts, R @ resources_with p os Compatible rqs, M @ msgs)"
      "map ba_resource_id acts = resources_with p os Missing rqs"
      "length msgs = length (resources_with p os Incompatible rqs)" "list_all (least_privilege p) acts"
      using IH [of "A @ [a]" R M] by blast
    ultimately show ?thesis using Missing a(2,3)
      by (intro exI [of _ "a # acts"] exI [of _ msgs]) (simp add: resources_with_def)
  next
    case Incompatible
    then obtain m where "plan_requirements p os (rq # rqs) A R M = plan_requirements p os rqs A R (M @ [m])"
      by (auto simp: requirement_status_def Let_def split: if_splits)
    moreover obtain acts msgs where "plan_requirements p os rqs A R (M @ [m]) =
        Inr (A @ acts, R @ resources_with p os Compatible rqs, (M @ [m]) @ msgs)"
      "map ba_resource_id acts = resources_with p os Missing rqs"
      "length msgs = length (resources_with p os Incompatible rqs)" "list_all (least_privilege p) acts"
      using IH [of A R "M @ [m]"] by blast
    ultimately show ?thesis using Incompatible
      by (intro exI [of _ acts] exI [of _ "m # msgs"]) (simp add: resources_with_def)
  qed
qed

section \<open>Applying\<close>

definition plan_commands :: "bootstrap_action list \<Rightarrow> string list list" where
  "plan_commands actions = concat (map (\<lambda>a. ba_command a # ba_follow_up_commands a) actions)"

text \<open>A runner that remembers what it was given; its answer may depend on everything so far.\<close>

definition attempt :: "(string list list \<Rightarrow> pyexn + unit) \<Rightarrow> string list list command_runner" where
  "attempt answer command cmds = (answer (cmds @ [command]), cmds @ [command])"

lemma run_commands_attempt:
  "\<exists>k. snd (run_commands (attempt answer) cs cmds) = cmds @ take k cs
     \<and> (fst (run_commands (attempt answer) cs cmds) = Inr () \<longrightarrow> take k cs = cs)"
proof (induction cs arbitrary: cmds)
  case Nil
  then show ?case by (simp add: ret_def)
next
  case (Cons c cs)
  show ?case
  proof (cases "answer (cmds @ [c])")
    case (Inl e)
    then show ?thesis by (intro exI [of _ 1]) (simp add: seq_def attempt_def [of answer c cmds])
  next
    case (Inr u)
    obtain k where "snd (run_commands (attempt answer) cs (cmds @ [c])) = (cmds @ [c]) @ take k cs"
      "fst (run_commands (attempt answer) cs (cmds @ [c])) = Inr () \<longrightarrow> take k cs = cs"
      using Cons.IH by blast
    then show ?thesis using Inr by (intro exI [of _ "Suc k"]) (simp add: seq_def attempt_def [of answer c cmds])
  qed
qed

lemma apply_actions_commands:
  "apply_actions run actions applied w =
     (case run_commands run (plan_commands actions) w of
        (Inl e, w') \<Rightarrow> (Inl e, w') | (Inr _, w') \<Rightarrow> (Inr (applied @ map ba_resource_id actions), w'))"
proof (induction actions arbitrary: applied w)
  case Nil
  then show ?case by (simp add: plan_commands_def ret_def)
next
  case (Cons a actions)
  have append: "run_commands run (xs @ ys) = seq (run_commands run xs) (\<lambda>_. run_commands run ys)" for xs ys
    by (induction xs) (auto simp: seq_def ret_def fun_eq_iff split: prod.split sum.split)
  show ?case using Cons.IH
    by (simp add: plan_commands_def append) (simp add: seq_def split: prod.split sum.split)
qed

lemma dump_bootstrap_action_inj:
  "sort_keys (dump_bootstrap_action a) = sort_keys (dump_bootstrap_action b) \<longleftrightarrow> a = b"
proof -
  have "sort_keys (JList (map (\<lambda>c. JList (map JStr c)) xs)) = sort_keys (JList (map (\<lambda>c. JList (map JStr c)) ys))
      \<longleftrightarrow> xs = ys" for xs ys
    by (rule sort_keys_list) (rule sort_keys_strings)
  then show ?thesis
    by (cases a; cases b) (simp add: dump_bootstrap_action_def sort_keys_same_keys sort_keys_strings
      del: sort_keys.simps(1))
qed

lemma plan_material_inj:
  "sort_keys (plan_material i as r m) = sort_keys (plan_material i' as' r' m')
     \<longleftrightarrow> i = i' \<and> as = as' \<and> r = r' \<and> m = m'"
proof -
  have "sort_keys (JList (map dump_bootstrap_action as)) = sort_keys (JList (map dump_bootstrap_action as'))
      \<longleftrightarrow> as = as'"
    by (rule sort_keys_list) (rule dump_bootstrap_action_inj)
  then show ?thesis
    by (simp add: plan_material_def sort_keys_same_keys sort_keys_strings del: sort_keys.simps(1))
qed

lemma missing_approvals_Nil:
  "missing_approvals pl approvals = [] \<longleftrightarrow> (\<forall>a\<in>set (pl_actions pl). ba_approval a \<in> set approvals)"
proof -
  have "set (missing_approvals pl approvals) = {x \<in> ba_approval ` set (pl_actions pl). x \<notin> set approvals}"
    by (auto simp: missing_approvals_def)
  then show ?thesis unfolding set_empty [symmetric] by auto
qed

lemma create_plan_Inr:
  "create_plan g now i as r m = Inr pl \<Longrightarrow> pl_profile_id pl = i \<and> pl_actions pl = as \<and> pl_reused pl = r
     \<and> pl_incompatible pl = m \<and> pl_plan_hash pl = canonical_hash g (plan_material i as r m)"
  by (auto simp: create_plan_def Let_def split: if_splits)

section \<open>The properties\<close>


text \<open>C34. Applying runs the commands of the reviewed plan, in order, or none. When a plan is applied
  with the hash of a reviewed plan (and the hash does not confuse the two), then either no command is
  run, or the plan has the actions that were reviewed, no incompatible resource, and every action's
  approval was given; and the commands run are an initial part of the reviewed ones, all of them if
  applying returned.\<close>

theorem apply_runs_the_reviewed_plan:
  assumes "create_plan g t i as r m = Inr reviewed" "create_plan g t' i' as' r' m' = Inr pl"
    and "collision_free g (plan_material i as r m) (plan_material i' as' r' m')"
    and "apply_bootstrap_plan pl (pl_plan_hash reviewed) approvals (attempt answer) [] = (res, cmds)"
  shows "(cmds = [] \<or> pl_actions pl = as \<and> m = [] \<and> (\<forall>a\<in>set as. ba_approval a \<in> set approvals)
      \<and> prefix cmds (plan_commands as))
    \<and> (case res of Inl e \<Rightarrow> True
       | Inr report \<Rightarrow> pl_actions pl = as \<and> cmds = plan_commands as \<and> rt_applied report = map ba_resource_id as)"
proof (cases "pl_plan_hash reviewed = pl_plan_hash pl \<and> pl_incompatible pl = [] \<and> missing_approvals pl approvals = []")
  case False
  then have "res = Inl (projl res) \<and> cmds = []" using assms(4)
    by (auto simp: apply_bootstrap_plan_def raise_when_def seq_def raise_def ret_def split: if_splits)
  then show ?thesis by (metis sum.simps(5))
next
  case True
  note reviewed = create_plan_Inr [OF assms(1)] and current = create_plan_Inr [OF assms(2)]
  have "canonical_hash g (plan_material i as r m) = canonical_hash g (plan_material i' as' r' m')"
    using True reviewed current by metis
  from canonical_hash_eq [OF assms(3) this] have same: "as = as'" "m = m'"
    by (simp_all only: plan_material_inj)
  then have "pl_actions pl = as" "pl_incompatible pl = m" using current by simp_all
  moreover have "\<forall>a\<in>set as. ba_approval a \<in> set approvals"
    using True \<open>pl_actions pl = as\<close> by (simp add: missing_approvals_Nil)
  moreover obtain k where "snd (run_commands (attempt answer) (plan_commands as) []) = [] @ take k (plan_commands as)"
    "fst (run_commands (attempt answer) (plan_commands as) []) = Inr () \<longrightarrow> take k (plan_commands as) = plan_commands as"
    using run_commands_attempt by blast
  ultimately show ?thesis using assms(4) True
    by (auto simp: apply_bootstrap_plan_def raise_when_def seq_def ret_def apply_actions_commands take_is_prefix
      split: prod.splits sum.splits)
qed

section \<open>The checked-in profile\<close>

text \<open>\<open>deploy/profiles/findydevops-dev.yaml\<close>.\<close>

definition findydevops_profile :: deployment_profile where
  "findydevops_profile =
    \<lparr>df_profile_id = ''findydevops-dev'', df_project_id = ''findydevops'', df_project_number = ''1019610377153'',
     df_region = ''asia-northeast1'', df_zone = ''asia-northeast1-a'', df_resource_prefix = ''kc'',
     df_cluster = \<lparr>cl_name = ''kubecouncil-dev'', cl_mode = Reuse_Only,
       cl_expected_context = ''gke_findydevops_asia-northeast1-a_kubecouncil-dev'', cl_minimum_version = ''1.30'',
       cl_minimum_allocatable_cpu_millis = 3500, cl_minimum_allocatable_memory_bytes = 10737418240,
       cl_workload_pool = ''findydevops.svc.id.goog''\<rparr>,
     df_artifact_registry = \<lparr>ar_repository = ''kubecouncil'',
       ar_prefix = ''asia-northeast1-docker.pkg.dev/findydevops/kubecouncil''\<rparr>,
     df_firestore = \<lparr>fc_database_id = ''(default)'', fc_location = ''asia-northeast1''\<rparr>,
     df_alerts = \<lparr>sc_topic = ''kc-alert-signals'', sc_subscription = ''kc-investigator-alerts'',
       sc_ack_deadline_seconds = 30, sc_retention = ''7d'', sc_retry_minimum = ''10s'',
       sc_retry_maximum = ''600s'', sc_dead_letter_topic = ''kc-alert-signals-dlq'',
       sc_dead_letter_subscription = ''kc-alert-signals-dlq-reader'', sc_maximum_delivery_attempts = 5\<rparr>,
     df_interventions = \<lparr>sc_topic = ''kc-interventions'', sc_subscription = ''kc-executor-interventions'',
       sc_ack_deadline_seconds = 60, sc_retention = ''7d'', sc_retry_minimum = ''10s'',
       sc_retry_maximum = ''600s'', sc_dead_letter_topic = ''kc-interventions-dlq'',
       sc_dead_letter_subscription = ''kc-interventions-dlq-reader'', sc_maximum_delivery_attempts = 5\<rparr>,
     df_kubernetes = \<lparr>kc_system_namespace = ''kubecouncil-system'',
       kc_application_namespace = ''online-boutique'', kc_demo_control_namespace = ''kubecouncil-demo-control'',
       kc_investigator = \<lparr>ka_name = ''investigator'', ka_namespace = ''kubecouncil-system'',
         ka_google_service_account = ''kc-investigator@findydevops.iam.gserviceaccount.com''\<rparr>,
       kc_executor = \<lparr>ka_name = ''executor'', ka_namespace = ''kubecouncil-system'',
         ka_google_service_account = ''kc-executor@findydevops.iam.gserviceaccount.com''\<rparr>,
       kc_scenario_controller = \<lparr>ka_name = ''scenario-controller'', ka_namespace = ''kubecouncil-demo-control'',
         ka_google_service_account = ''kc-scenario-controller@findydevops.iam.gserviceaccount.com''\<rparr>\<rparr>,
     df_identities = \<lparr>id_investigator = \<lparr>cd_name = ''kc-investigator'',
         cd_email = ''kc-investigator@findydevops.iam.gserviceaccount.com'',
         cd_project_roles = [''roles/aiplatform.user'', ''roles/datastore.user'', ''roles/logging.viewer'', ''roles/monitoring.viewer'', ''roles/serviceusage.serviceUsageConsumer'']\<rparr>,
       id_executor = \<lparr>cd_name = ''kc-executor'',
         cd_email = ''kc-executor@findydevops.iam.gserviceaccount.com'',
         cd_project_roles = [''roles/datastore.user'']\<rparr>,
       id_scenario_controller = \<lparr>cd_name = ''kc-scenario-controller'',
         cd_email = ''kc-scenario-controller@findydevops.iam.gserviceaccount.com'',
         cd_project_roles = []\<rparr>,
       id_github_deployer = \<lparr>cd_name = ''kc-github-deployer'',
         cd_email = ''kc-github-deployer@findydevops.iam.gserviceaccount.com'',
         cd_project_roles = [''roles/container.clusterViewer'']\<rparr>\<rparr>,
     df_images =
      [(''backend'', \<lparr>ig_repository = ''asia-northeast1-docker.pkg.dev/findydevops/kubecouncil/kubecouncil-backend'',
         ig_source_commit = ''4e1f6a84c445faf94338f094ca7d4821da1f1ce1'', ig_tag = ''4e1f6a84c445-live24'',
         ig_digest = Some ''sha256:2cde6d17600de23b44c399eee48da82d8a299fa515bd8ed9453351451d45b331'',
         ig_build_context = Some ''backend'', ig_available = True\<rparr>),
       (''frontend'', \<lparr>ig_repository = ''asia-northeast1-docker.pkg.dev/findydevops/kubecouncil/kubecouncil-frontend'',
         ig_source_commit = ''4e1f6a84c445faf94338f094ca7d4821da1f1ce1'', ig_tag = ''4e1f6a84c445'',
         ig_digest = Some ''sha256:bae6d6fa1f209d00f68e333675fe6c1b19a1ba359d5d2145ddce02620b386fb3'',
         ig_build_context = Some ''frontend'', ig_available = True\<rparr>),
       (''executor'', \<lparr>ig_repository = ''asia-northeast1-docker.pkg.dev/findydevops/kubecouncil/kubecouncil-executor'',
         ig_source_commit = ''4e1f6a84c445faf94338f094ca7d4821da1f1ce1'', ig_tag = ''4e1f6a84c445'',
         ig_digest = None,
         ig_build_context = None, ig_available = False\<rparr>),
       (''scenario_controller'', \<lparr>ig_repository = ''asia-northeast1-docker.pkg.dev/findydevops/kubecouncil/kubecouncil-scenario-controller'',
         ig_source_commit = ''bcc5223c20c5fb291616309f1a58b86eefd2d03f'', ig_tag = ''bcc5223c20c5-live27'',
         ig_digest = Some ''sha256:31ca22bb21aa818f29330d4a0e8c42a61082a50f3bd9ac77d32ad6d19e78d5de'',
         ig_build_context = Some ''backend'', ig_available = True\<rparr>)],
     df_github = \<lparr>gh_repository = ''nikhil-p21/kubecouncil'', gh_pool = ''github'', gh_provider = ''kubecouncil'',
       gh_provider_resource = ''projects/1019610377153/locations/global/workloadIdentityPools/github/providers/kubecouncil''\<rparr>,
     df_iap = \<lparr>ia_viewer_principals = [''user:nikhil.p6257@gmail.com''], ia_responder_principals = [''user:nikhil.p6257@gmail.com'']\<rparr>,
     df_vertex_model = ''gemini-3.5-flash'',
     df_required_apis = [''container.googleapis.com'', ''artifactregistry.googleapis.com'', ''aiplatform.googleapis.com'', ''firestore.googleapis.com'', ''pubsub.googleapis.com'', ''logging.googleapis.com'', ''monitoring.googleapis.com'',
       ''iam.googleapis.com'', ''iamcredentials.googleapis.com'', ''sts.googleapis.com'', ''serviceusage.googleapis.com'', ''cloudresourcemanager.googleapis.com'', ''iap.googleapis.com'', ''compute.googleapis.com'']\<rparr>"

text \<open>A digest with a constant value.\<close>

definition constant_digest :: digest where
  "constant_digest = \<lparr>dg_sha256 = (\<lambda>_. replicate 64 (CHR ''0'')), dg_isoformat = int_str\<rparr>"

lemma constant_digest_hex: "sha256_hex (dg_sha256 constant_digest x)"
  unfolding constant_digest_def digest.simps by code_simp

lemma findydevops_profile_wf: "wf_deployment_profile findydevops_profile"
  by code_simp

lemma findydevops_names_ok: "names_ok findydevops_profile"
  by code_simp

definition observed_cluster :: "bootstrap_observation list" where
  "observed_cluster = [\<lparr>bo_resource_id = ''cluster/kubecouncil-dev'', bo_status = Compatible, bo_summary = ''verified'', bo_details = []\<rparr>]"

lemma findydevops_counts:
  "resources_with findydevops_profile observed_cluster Compatible (requirements findydevops_profile) = [''cluster/kubecouncil-dev'']"
  "length (resources_with findydevops_profile observed_cluster Missing (requirements findydevops_profile)) = 49"
  "resources_with findydevops_profile observed_cluster Incompatible (requirements findydevops_profile) = []"
  by code_simp+


definition demo_actions :: "bootstrap_action list" where
  "demo_actions = [namespace_action (require ''namespace/kubecouncil-demo-control'' ''identity''),
     gsa_action findydevops_profile (require ''gsa/kc-executor'' ''identity'')]"

definition demo_plan :: bootstrap_plan where
  "demo_plan = projr (create_plan constant_digest 0 ''findydevops-dev'' demo_actions [] [])"

definition demo_applied :: "(pyexn + bootstrap_apply_report) \<times> string list list" where
  "demo_applied = apply_bootstrap_plan demo_plan (pl_plan_hash demo_plan) [''identity''] (attempt (\<lambda>_. Inr ())) []"

theorem apply_runs_the_reviewed_plan_witness:
  "snd demo_applied = plan_commands demo_actions \<and> length (plan_commands demo_actions) = 2"
proof -
  have plan: "create_plan constant_digest 0 ''findydevops-dev'' demo_actions [] [] = Inr demo_plan"
    using constant_digest_hex by (simp add: demo_plan_def create_plan_def Let_def canonical_hash_def)
  have run: "apply_bootstrap_plan demo_plan (pl_plan_hash demo_plan) [''identity''] (attempt (\<lambda>_. Inr ())) []
      = (fst demo_applied, snd demo_applied)" by (simp add: demo_applied_def)
  have ok: "\<not> is_error (fst demo_applied)" by code_simp
  have "collision_free constant_digest (plan_material ''findydevops-dev'' demo_actions [] [])
      (plan_material ''findydevops-dev'' demo_actions [] [])" by (simp add: collision_free_def)
  from apply_runs_the_reviewed_plan [OF plan plan this run] ok
  have "snd demo_applied = plan_commands demo_actions" by (auto split: sum.splits)
  moreover have "length (plan_commands demo_actions) = 2" by code_simp
  ultimately show ?thesis by simp
qed

section \<open>What the validators do not exclude\<close>

text \<open>
  Distinct emails with one name are a valid profile, and the role of the second identity is then
  granted to the first.
\<close>

definition shared_name_profile :: deployment_profile where
  "shared_name_profile = findydevops_profile\<lparr>df_identities := (df_identities findydevops_profile)
     \<lparr>id_github_deployer := (id_github_deployer (df_identities findydevops_profile))\<lparr>cd_name := ''kc-executor''\<rparr>\<rparr>\<rparr>"

lemma shared_names_grant_to_the_wrong_identity:
  "wf_deployment_profile shared_name_profile"
  "map_sum id (\<lambda>a. ba_command a ! 4) (action_for shared_name_profile
      (require ''iam-role/kc-executor/roles/container.clusterViewer'' ''identity''))
    = Inr ''--member=serviceAccount:kc-executor@findydevops.iam.gserviceaccount.com''"
  by code_simp+

end
