(* ===== verification/Scenario.thy ===== *)
theory Scenario
  imports Deployment_Profile
begin

text \<open>
  The demo Scenario Controller (\<open>scenario_controller/\<close>): its configuration, the narrow Kubernetes
  provider over the API's calls, and the transitions with their audit log. The API client is an action
  on the cluster state \<open>'k\<close>; \<open>ak_document\<close> is the JSON value of a response (a dict as it is, anything
  else as the client serializes it).
\<close>

section \<open>Contracts (\<open>models.py\<close>)\<close>

datatype scenario_name = Recommendation_Oom | Redis_Outage
datatype scenario_action = Inject | Reset

text \<open>\<open>[a-z0-9]([-a-z0-9]*[a-z0-9])?\<close> and \<open>[1-9][0-9]*(?:Ki|Mi|Gi|K|M|G)?\<close>.\<close>

definition kubernetes_name :: "string \<Rightarrow> bool" where
  "kubernetes_name s \<longleftrightarrow> s \<noteq> [] \<and> list_all (\<lambda>c. lower_letter c \<or> is_digit c \<or> c = CHR ''-'') s
     \<and> hd s \<noteq> CHR ''-'' \<and> last s \<noteq> CHR ''-''"

definition memory_units :: "string list" where
  "memory_units = [''Ki'', ''Mi'', ''Gi'', ''K'', ''M'', ''G'']"

definition memory_quantity :: "string \<Rightarrow> bool" where
  "memory_quantity s \<longleftrightarrow> positive_number (takeWhile is_digit s)
     \<and> (dropWhile is_digit s = [] \<or> dropWhile is_digit s \<in> set memory_units)"

record scenario_state =
  ss_name :: string
  ss_namespace :: string
  ss_resource_version :: string
  ss_replicas :: int
  ss_container :: string
  ss_memory_request :: string
  ss_memory_limit :: string

definition wf_scenario_state :: "scenario_state \<Rightarrow> bool" where
  "wf_scenario_state s \<longleftrightarrow> kubernetes_name (ss_name s) \<and> kubernetes_name (ss_namespace s)
     \<and> ss_resource_version s \<noteq> [] \<and> 0 \<le> ss_replicas s \<and> kubernetes_name (ss_container s)
     \<and> memory_quantity (ss_memory_request s) \<and> memory_quantity (ss_memory_limit s)"

definition validate_scenario_state :: "scenario_state \<Rightarrow> pyexn + scenario_state" where
  "validate_scenario_state s =
    (if \<not> (kubernetes_name (ss_name s) \<and> kubernetes_name (ss_namespace s) \<and> ss_resource_version s \<noteq> []
        \<and> 0 \<le> ss_replicas s \<and> kubernetes_name (ss_container s)
        \<and> ss_memory_request s \<noteq> [] \<and> ss_memory_limit s \<noteq> [])
     then Inl (ValidationError ''ScenarioDeploymentState'' ''invalid field'')
     else if \<not> (memory_quantity (ss_memory_request s) \<and> memory_quantity (ss_memory_limit s))
     then Inl (ValidationError ''ScenarioDeploymentState''
       ''memory resources must be positive Kubernetes memory quantities'')
     else Inr s)"

record scenario_config =
  sn_demo_mode :: bool
  sn_application_namespace :: string
  sn_recommendation_deployment :: string
  sn_recommendation_container :: string
  sn_recommendation_safe_memory_request :: string
  sn_recommendation_safe_memory_limit :: string
  sn_recommendation_unsafe_memory_request :: string
  sn_recommendation_unsafe_memory_limit :: string
  sn_redis_deployment :: string
  sn_redis_safe_replicas :: int

definition scenario_config_problem :: "scenario_config \<Rightarrow> string option" where
  "scenario_config_problem c = first_problem
    [(\<not> list_all memory_quantity [sn_recommendation_safe_memory_request c, sn_recommendation_safe_memory_limit c,
        sn_recommendation_unsafe_memory_request c, sn_recommendation_unsafe_memory_limit c],
      ''scenario memory limits must be positive Kubernetes quantities''),
     (sn_recommendation_safe_memory_limit c = sn_recommendation_unsafe_memory_limit c,
      ''safe and unsafe recommendation memory limits must differ''),
     (sn_recommendation_unsafe_memory_request c \<noteq> sn_recommendation_unsafe_memory_limit c,
      ''unsafe recommendation memory request and limit must match''),
     (sn_recommendation_deployment c = sn_redis_deployment c, ''scenario targets must be distinct'')]"

definition wf_scenario_config :: "scenario_config \<Rightarrow> bool" where
  "wf_scenario_config c \<longleftrightarrow> kubernetes_name (sn_application_namespace c)
     \<and> kubernetes_name (sn_recommendation_deployment c) \<and> kubernetes_name (sn_recommendation_container c)
     \<and> kubernetes_name (sn_redis_deployment c) \<and> 1 \<le> sn_redis_safe_replicas c
     \<and> scenario_config_problem c = None"

datatype scenario_outcome = Applied | Noop | Refused

record scenario_event =
  sv_event_id :: string
  sv_recorded_at :: datetime
  sv_scenario :: scenario_name
  sv_action :: scenario_action
  sv_outcome :: scenario_outcome
  sv_target_namespace :: string
  sv_target_name :: string
  sv_before :: "scenario_state option"
  sv_after :: "scenario_state option"
  sv_reason :: "string option"

definition validate_scenario_event :: "scenario_event \<Rightarrow> pyexn + scenario_event" where
  "validate_scenario_event e =
    (if sv_event_id e = [] \<or> sv_target_namespace e = [] \<or> sv_target_name e = []
        \<or> \<not> pred_option (\<lambda>m. m \<noteq> [] \<and> length m \<le> 500) (sv_reason e)
     then Inl (ValidationError ''ScenarioAuditEvent'' ''invalid field'') else Inr e)"

record scenario_result =
  sr_scenario :: scenario_name
  sr_action :: scenario_action
  sr_changed :: bool
  sr_before :: scenario_state
  sr_after :: scenario_state
  sr_audit_event_id :: string

section \<open>The Kubernetes provider (\<open>kubernetes.py\<close>)\<close>

text \<open>The provider as the controller sees it; the last argument of a setter is the expected version.\<close>

record 'k scenario_provider =
  sp_inspect :: "string \<Rightarrow> ('k, scenario_state) act"
  sp_set_memory_resources :: "string \<Rightarrow> string \<Rightarrow> string \<Rightarrow> string \<Rightarrow> string \<Rightarrow> ('k, scenario_state) act"
  sp_set_replicas :: "string \<Rightarrow> int \<Rightarrow> string \<Rightarrow> ('k, scenario_state) act"

record ('k, 'r) apps_api =
  ak_read :: "string \<Rightarrow> string \<Rightarrow> ('k, 'r) act"
  ak_patch :: "string \<Rightarrow> string \<Rightarrow> json \<Rightarrow> string \<Rightarrow> ('k, 'r) act"
  ak_document :: "'r \<Rightarrow> pyexn + json"

text \<open>\<open>ScenarioKubernetesError\<close> is a \<open>ScenarioProviderError\<close>.\<close>

definition kubernetes_error :: "string \<Rightarrow> pyexn" where
  "kubernetes_error m = OtherError ''ScenarioKubernetesError'' m"

definition is_provider_error :: "pyexn \<Rightarrow> bool" where
  "is_provider_error e \<longleftrightarrow> exn_type e \<in> set [''ScenarioProviderError'', ''ScenarioKubernetesError'']"

text \<open>\<open>v.get(key, default)\<close>, iteration, \<open>str\<close> and \<open>int\<close> of a JSON value; the text of a list or a dict and
  the number in a text are Python's and parameters.\<close>

definition json_get :: "string \<Rightarrow> json \<Rightarrow> json \<Rightarrow> pyexn + json" where
  "json_get key d v = (case v of JObj kvs \<Rightarrow> Inr (case_option d id (dict_get kvs key))
     | _ \<Rightarrow> Inl (OtherError ''AttributeError'' key))"

definition json_items :: "json \<Rightarrow> pyexn + json list" where
  "json_items v = (case v of JList xs \<Rightarrow> Inr xs | JObj kvs \<Rightarrow> Inr (map (JStr \<circ> fst) kvs)
     | JStr s \<Rightarrow> Inr (map (\<lambda>c. JStr [c]) s) | _ \<Rightarrow> Inl (OtherError ''TypeError'' ''not iterable''))"

record python_text =
  py_repr :: "json \<Rightarrow> string"
  py_int :: "string \<Rightarrow> pyexn + int"

fun json_str :: "python_text \<Rightarrow> json \<Rightarrow> string" where
  "json_str py (JStr s) = s"
| "json_str py (JInt i) = int_str i"
| "json_str py (JBool b) = (if b then ''True'' else ''False'')"
| "json_str py JNull = ''None''"
| "json_str py v = py_repr py v"

fun json_int :: "python_text \<Rightarrow> json \<Rightarrow> pyexn + int" where
  "json_int py (JInt i) = Inr i"
| "json_int py (JBool b) = Inr (if b then 1 else 0)"
| "json_int py (JStr s) = py_int py s"
| "json_int py v = Inl (OtherError ''TypeError'' ''int() argument'')"

definition containers_of :: "scenario_config \<Rightarrow> (string \<times> string) list" where
  "containers_of c = dict_set (sn_redis_deployment c) ''redis''
     [(sn_recommendation_deployment c, sn_recommendation_container c)]"

definition require_scenario_target :: "scenario_config \<Rightarrow> string \<Rightarrow> pyexn + unit" where
  "require_scenario_target c name = (if dict_get (containers_of c) name = None
     then Inl (kubernetes_error ''Deployment is outside Scenario Controller scope'') else Inr ())"

text \<open>\<open>next(item for item in items if item.get("name") == expected), None)\<close>.\<close>

fun find_container :: "string \<Rightarrow> json list \<Rightarrow> pyexn + json option" where
  "find_container expected [] = Inr None"
| "find_container expected (item # items) =
    bind_result (json_get ''name'' JNull item) (\<lambda>name.
      if name = JStr expected then Inr (Some item) else find_container expected items)"

definition memory_of :: "string \<Rightarrow> json \<Rightarrow> pyexn + json" where
  "memory_of kind resources = bind_result (json_get kind (JObj []) resources) (json_get ''memory'' JNull)"

definition scenario_state_of ::
  "python_text \<Rightarrow> scenario_config \<Rightarrow> json \<Rightarrow> string \<Rightarrow> pyexn + scenario_state" where
  "scenario_state_of py c document expected =
    bind_result (json_get ''metadata'' (JObj []) document) (\<lambda>metadata.
    bind_result (json_get ''spec'' (JObj []) document) (\<lambda>spec.
    bind_result (json_get ''template'' (JObj []) spec) (\<lambda>template.
    bind_result (json_get ''spec'' (JObj []) template) (\<lambda>template_spec.
    bind_result (json_get ''name'' JNull metadata) (\<lambda>name.
    if name \<noteq> JStr expected then Inl (kubernetes_error ''Kubernetes returned an unexpected Deployment'')
    else bind_result (case dict_get (containers_of c) expected of
        None \<Rightarrow> Inl (KeyError expected) | Some k \<Rightarrow> Inr k) (\<lambda>container_name.
    bind_result (json_get ''containers'' (JList []) template_spec) (\<lambda>containers.
    bind_result (json_items containers) (\<lambda>items.
    bind_result (find_container container_name items) (\<lambda>found. case found of
      None \<Rightarrow> Inl (kubernetes_error ''configured scenario container is absent'')
    | Some container \<Rightarrow>
        bind_result (json_get ''resources'' (JObj []) container) (\<lambda>resources.
        bind_result (memory_of ''requests'' resources) (\<lambda>request.
        bind_result (memory_of ''limits'' resources) (\<lambda>limit. case (request, limit) of
          (JStr memory_request, JStr memory_limit) \<Rightarrow>
            bind_result (json_get ''resourceVersion'' (JStr []) metadata) (\<lambda>version.
            bind_result (json_get ''replicas'' (JInt 1) spec) (\<lambda>replicas.
            bind_result (json_int py replicas) (\<lambda>n. validate_scenario_state
              \<lparr>ss_name = expected, ss_namespace = sn_application_namespace c,
               ss_resource_version = json_str py version, ss_replicas = n, ss_container = container_name,
               ss_memory_request = memory_request, ss_memory_limit = memory_limit\<rparr>)))
        | _ \<Rightarrow> Inl (kubernetes_error ''configured scenario container has incomplete memory resources'')))))))))))))"

definition document_of :: "('k, 'r) apps_api \<Rightarrow> 'r \<Rightarrow> pyexn + json" where
  "document_of api r = bind_result (ak_document api r) (\<lambda>v. if as_dict v = None
     then Inl (kubernetes_error ''Kubernetes returned a non-object response'') else Inr v)"

definition inspect_deployment ::
  "python_text \<Rightarrow> scenario_config \<Rightarrow> ('k, 'r) apps_api \<Rightarrow> string \<Rightarrow> ('k, scenario_state) act" where
  "inspect_deployment py c api name =
    seq (lift_result (require_scenario_target c name)) (\<lambda>_.
    seq (try_except (ak_read api name (sn_application_namespace c))
      (\<lambda>_. raise (kubernetes_error ''Kubernetes could not read the allowlisted scenario target''))) (\<lambda>response.
    lift_result (bind_result (document_of api response) (\<lambda>d. scenario_state_of py c d name))))"

definition patch_deployment ::
  "python_text \<Rightarrow> scenario_config \<Rightarrow> ('k, 'r) apps_api \<Rightarrow> string \<Rightarrow> json \<Rightarrow> string \<Rightarrow> ('k, scenario_state) act" where
  "patch_deployment py c api name patch content_type =
    seq (try_except (ak_patch api name (sn_application_namespace c) patch content_type)
      (\<lambda>_. raise (kubernetes_error ''Kubernetes rejected the allowlisted scenario patch''))) (\<lambda>response.
    lift_result (bind_result (document_of api response) (\<lambda>d. scenario_state_of py c d name)))"

definition memory_patch :: "string \<Rightarrow> string \<Rightarrow> string \<Rightarrow> string \<Rightarrow> json" where
  "memory_patch container memory_request memory_limit version = JObj
    [(''metadata'', JObj [(''resourceVersion'', JStr version)]),
     (''spec'', JObj [(''template'', JObj [(''spec'', JObj [(''containers'', JList [JObj
        [(''name'', JStr container),
         (''resources'', JObj [(''requests'', JObj [(''memory'', JStr memory_request)]),
            (''limits'', JObj [(''memory'', JStr memory_limit)])])]])])])])]"

definition replicas_patch :: "int \<Rightarrow> string \<Rightarrow> json" where
  "replicas_patch replicas version = JObj
    [(''metadata'', JObj [(''resourceVersion'', JStr version)]), (''spec'', JObj [(''replicas'', JInt replicas)])]"

definition set_memory_resources ::
  "python_text \<Rightarrow> scenario_config \<Rightarrow> ('k, 'r) apps_api \<Rightarrow> string \<Rightarrow> string \<Rightarrow> string \<Rightarrow> string \<Rightarrow> string
     \<Rightarrow> ('k, scenario_state) act" where
  "set_memory_resources py c api name container memory_request memory_limit version =
    seq (lift_result (require_scenario_target c name)) (\<lambda>_.
    seq (raise_when (name \<noteq> sn_recommendation_deployment c)
      (kubernetes_error ''memory mutation is allowed only for recommendationservice'')) (\<lambda>_.
    seq (raise_when (container \<noteq> sn_recommendation_container c)
      (kubernetes_error ''recommendation container does not match configuration'')) (\<lambda>_.
    patch_deployment py c api name (memory_patch container memory_request memory_limit version)
      ''application/strategic-merge-patch+json'')))"

definition set_replicas ::
  "python_text \<Rightarrow> scenario_config \<Rightarrow> ('k, 'r) apps_api \<Rightarrow> string \<Rightarrow> int \<Rightarrow> string \<Rightarrow> ('k, scenario_state) act" where
  "set_replicas py c api name replicas version =
    seq (lift_result (require_scenario_target c name)) (\<lambda>_.
    seq (raise_when (name \<noteq> sn_redis_deployment c)
      (kubernetes_error ''replica mutation is allowed only for redis-cart'')) (\<lambda>_.
    patch_deployment py c api name (replicas_patch replicas version) ''application/merge-patch+json''))"

definition kubernetes_scenario_provider ::
  "python_text \<Rightarrow> scenario_config \<Rightarrow> ('k, 'r) apps_api \<Rightarrow> 'k scenario_provider" where
  "kubernetes_scenario_provider py c api = \<lparr>sp_inspect = inspect_deployment py c api,
     sp_set_memory_resources = set_memory_resources py c api, sp_set_replicas = set_replicas py c api\<rparr>"

section \<open>Transitions (\<open>service.py\<close>)\<close>

text \<open>The cluster and the controller's audit log, with the clock and the identities as readings.\<close>

record 'k scenario_world =
  sw_kube :: 'k
  sw_audit :: "scenario_event list"
  sw_events :: nat

record scenario_source =
  sc_clock :: "nat \<Rightarrow> datetime"
  sc_uuid :: "nat \<Rightarrow> string"

definition on_cluster :: "('k, 'a) act \<Rightarrow> ('k scenario_world, 'a) act" where
  "on_cluster = on_part sw_kube sw_kube_update"

definition safety_error :: "string \<Rightarrow> pyexn" where
  "safety_error m = OtherError ''ScenarioSafetyError'' m"

definition is_safety_error :: "pyexn \<Rightarrow> bool" where
  "is_safety_error e \<longleftrightarrow> exn_type e = ''ScenarioSafetyError''"

definition scenario_target :: "scenario_config \<Rightarrow> scenario_name \<Rightarrow> string" where
  "scenario_target c scenario = (case scenario of
     Recommendation_Oom \<Rightarrow> sn_recommendation_deployment c | Redis_Outage \<Rightarrow> sn_redis_deployment c)"

text \<open>\<open>_event\<close> and \<open>append\<close>: an identity and a clock reading are used even if the event is invalid.\<close>

definition record_scenario_event ::
  "scenario_source \<Rightarrow> scenario_config \<Rightarrow> scenario_name \<Rightarrow> scenario_action \<Rightarrow> scenario_outcome \<Rightarrow> string
     \<Rightarrow> scenario_state option \<Rightarrow> scenario_state option \<Rightarrow> string option \<Rightarrow> ('k scenario_world, scenario_event) act" where
  "record_scenario_event src c scenario action outcome target before after reason w =
    (let n = sw_events w;
         e = \<lparr>sv_event_id = ''scenario-'' @ sc_uuid src n, sv_recorded_at = sc_clock src n, sv_scenario = scenario,
              sv_action = action, sv_outcome = outcome, sv_target_namespace = sn_application_namespace c,
              sv_target_name = target, sv_before = before, sv_after = after, sv_reason = reason\<rparr>;
         w' = w\<lparr>sw_events := Suc n\<rparr>
     in (case validate_scenario_event e of Inl x \<Rightarrow> (Inl x, w')
         | Inr e \<Rightarrow> (Inr e, w'\<lparr>sw_audit := sw_audit w' @ [e]\<rparr>)))"

definition refuse ::
  "scenario_source \<Rightarrow> scenario_config \<Rightarrow> scenario_name \<Rightarrow> scenario_action \<Rightarrow> string
     \<Rightarrow> scenario_state option \<Rightarrow> string \<Rightarrow> ('k scenario_world, 'a) act" where
  "refuse src c scenario action target before reason =
    seq (record_scenario_event src c scenario action Refused target before None (Some reason))
      (\<lambda>_. raise (safety_error reason))"

definition memory_target :: "scenario_config \<Rightarrow> scenario_action \<Rightarrow> string \<times> string" where
  "memory_target c action = (case action of
     Inject \<Rightarrow> (sn_recommendation_unsafe_memory_request c, sn_recommendation_unsafe_memory_limit c)
   | Reset \<Rightarrow> (sn_recommendation_safe_memory_request c, sn_recommendation_safe_memory_limit c))"

definition memory_expected :: "scenario_config \<Rightarrow> scenario_action \<Rightarrow> string \<times> string" where
  "memory_expected c action = memory_target c (case action of Inject \<Rightarrow> Reset | Reset \<Rightarrow> Inject)"

definition apply_recommendation ::
  "scenario_config \<Rightarrow> 'k scenario_provider \<Rightarrow> scenario_action \<Rightarrow> scenario_state
     \<Rightarrow> ('k scenario_world, scenario_state \<times> bool) act" where
  "apply_recommendation c pr action before =
    (let target = memory_target c action; current = (ss_memory_request before, ss_memory_limit before)
     in if current = target then ret (before, False)
        else if current \<noteq> memory_expected c action
        then raise (safety_error (''unexpected memory resources on recommendationservice: request=''
          @ ss_memory_request before @ '', limit='' @ ss_memory_limit before))
        else seq (on_cluster (sp_set_memory_resources pr (sn_recommendation_deployment c)
            (sn_recommendation_container c) (fst target) (snd target) (ss_resource_version before))) (\<lambda>after.
          if (ss_memory_request after, ss_memory_limit after) \<noteq> target
          then raise (safety_error ''recommendation memory resource patch did not reach the requested state'')
          else ret (after, True)))"

definition replicas_target :: "scenario_config \<Rightarrow> scenario_action \<Rightarrow> int" where
  "replicas_target c action = (case action of Inject \<Rightarrow> 0 | Reset \<Rightarrow> sn_redis_safe_replicas c)"

definition replicas_expected :: "scenario_config \<Rightarrow> scenario_action \<Rightarrow> int" where
  "replicas_expected c action = (case action of Inject \<Rightarrow> sn_redis_safe_replicas c | Reset \<Rightarrow> 0)"

definition apply_redis ::
  "scenario_config \<Rightarrow> 'k scenario_provider \<Rightarrow> scenario_action \<Rightarrow> scenario_state
     \<Rightarrow> ('k scenario_world, scenario_state \<times> bool) act" where
  "apply_redis c pr action before =
    (let target = replicas_target c action
     in if ss_replicas before = target then ret (before, False)
        else if ss_replicas before \<noteq> replicas_expected c action
        then raise (safety_error (''unexpected replica count on redis-cart: '' @ int_str (ss_replicas before)))
        else seq (on_cluster (sp_set_replicas pr (sn_redis_deployment c) target (ss_resource_version before))) (\<lambda>after.
          if ss_replicas after \<noteq> target
          then raise (safety_error ''redis replica patch did not reach the requested state'')
          else ret (after, True)))"

definition apply_scenario ::
  "scenario_config \<Rightarrow> 'k scenario_provider \<Rightarrow> scenario_name \<Rightarrow> scenario_action \<Rightarrow> scenario_state
     \<Rightarrow> ('k scenario_world, scenario_state \<times> bool) act" where
  "apply_scenario c pr scenario action before = (case scenario of
     Recommendation_Oom \<Rightarrow> apply_recommendation c pr action before
   | Redis_Outage \<Rightarrow> apply_redis c pr action before)"

definition transition ::
  "scenario_source \<Rightarrow> scenario_config \<Rightarrow> 'k scenario_provider \<Rightarrow> scenario_name \<Rightarrow> scenario_action
     \<Rightarrow> ('k scenario_world, scenario_result) act" where
  "transition src c pr scenario action =
    (let target = scenario_target c scenario in
     seq (if \<not> sn_demo_mode c
          then refuse src c scenario action target None ''demo Scenario Controller is disabled'' else ret ()) (\<lambda>_.
     seq (try_except (on_cluster (sp_inspect pr target)) (\<lambda>e. if is_provider_error e
          then refuse src c scenario action target None
            ''Kubernetes could not inspect the allowlisted scenario target'' else raise e)) (\<lambda>before.
     seq (try_except (apply_scenario c pr scenario action before) (\<lambda>e. if is_safety_error e
          then refuse src c scenario action target (Some before) (exn_str e)
          else if is_provider_error e
          then refuse src c scenario action target (Some before)
            ''Kubernetes rejected the allowlisted scenario transition'' else raise e)) (\<lambda>(after, changed).
     seq (record_scenario_event src c scenario action (if changed then Applied else Noop) target
          (Some before) (Some after) None) (\<lambda>e.
       ret \<lparr>sr_scenario = scenario, sr_action = action, sr_changed = changed, sr_before = before,
         sr_after = after, sr_audit_event_id = sv_event_id e\<rparr>)))))"

section \<open>The HTTP surface (\<open>api.py\<close>)\<close>

definition getenv :: "(string \<Rightarrow> string option) \<Rightarrow> string \<Rightarrow> string \<Rightarrow> string" where
  "getenv environ name d = case_option d id (environ name)"

definition config_from_environment :: "(string \<Rightarrow> string option) \<Rightarrow> scenario_config" where
  "config_from_environment environ =
    \<lparr>sn_demo_mode = lowered (getenv environ ''KUBECOUNCIL_DEMO_MODE'' ''false'') = ''true'',
     sn_application_namespace = getenv environ ''KUBECOUNCIL_APPLICATION_NAMESPACE'' ''online-boutique'',
     sn_recommendation_deployment = ''recommendationservice'', sn_recommendation_container = ''server'',
     sn_recommendation_safe_memory_request = getenv environ ''RECOMMENDATION_SAFE_MEMORY_REQUEST'' ''220Mi'',
     sn_recommendation_safe_memory_limit = getenv environ ''RECOMMENDATION_SAFE_MEMORY_LIMIT'' ''450Mi'',
     sn_recommendation_unsafe_memory_request = getenv environ ''RECOMMENDATION_UNSAFE_MEMORY_REQUEST'' ''25Mi'',
     sn_recommendation_unsafe_memory_limit = getenv environ ''RECOMMENDATION_UNSAFE_MEMORY_LIMIT'' ''25Mi'',
     sn_redis_deployment = ''redis-cart'', sn_redis_safe_replicas = 1\<rparr>"

definition validate_scenario_config :: "scenario_config \<Rightarrow> pyexn + scenario_config" where
  "validate_scenario_config c = (if wf_scenario_config c then Inr c
     else Inl (ValidationError ''ScenarioControllerConfig''
       (case_option ''invalid field'' id (scenario_config_problem c))))"

text \<open>The endpoint: a refusal is a response with status 409; another error is the server's.\<close>

datatype scenario_response = Response scenario_result | Conflict string

definition transition_endpoint ::
  "scenario_source \<Rightarrow> scenario_config \<Rightarrow> 'k scenario_provider \<Rightarrow> scenario_name \<Rightarrow> scenario_action
     \<Rightarrow> ('k scenario_world, scenario_response) act" where
  "transition_endpoint src c pr scenario action = try_except
     (seq (transition src c pr scenario action) (\<lambda>r. ret (Response r)))
     (\<lambda>e. if is_safety_error e then ret (Conflict (exn_str e)) else raise e)"

end
