(* ===== verification/Scenario_Guarantees.thy ===== *)
theory Scenario_Guarantees
  imports Scenario
begin

text \<open>
  What the Scenario Controller promises: one transition sends at most one patch, the allowlisted one for
  the state it inspected, and its outcome is in the audit log.
\<close>

type_synonym patch_call = "string \<times> string \<times> json \<times> string"

text \<open>The API with a log of the patches that were sent, accepted or not.\<close>

definition watched :: "('k, 'r) apps_api \<Rightarrow> ('k \<times> patch_call list, 'r) apps_api" where
  "watched api = \<lparr>ak_read = (\<lambda>name namespace. on_part fst apfst (ak_read api name namespace)),
     ak_patch = (\<lambda>name namespace patch content_type (k, sent).
       (case ak_patch api name namespace patch content_type k of
          (res, k') \<Rightarrow> (res, (k', sent @ [(name, namespace, patch, content_type)])))),
     ak_document = ak_document api\<rparr>"

text \<open>Serializing a response and parsing a number raise no error of the controller's own.\<close>

definition foreign_errors :: "python_text \<Rightarrow> ('k, 'r) apps_api \<Rightarrow> bool" where
  "foreign_errors py api \<longleftrightarrow> (\<forall>r e. ak_document api r = Inl e \<longrightarrow> \<not> is_safety_error e)
     \<and> (\<forall>s e. py_int py s = Inl e \<longrightarrow> \<not> is_safety_error e)"

section \<open>The provider's calls\<close>

lemma wp_on_cluster [wp_simps]:
  "wp (on_cluster m) Q E w \<longleftrightarrow>
     wp m (\<lambda>a k. Q a (w\<lparr>sw_kube := k\<rparr>)) (\<lambda>e k. E e (w\<lparr>sw_kube := k\<rparr>)) (sw_kube w)"
  by (simp add: wp_def on_cluster_def on_part_def split: prod.splits sum.splits)

lemma wp_bind_result:
  "wp (lift_result (bind_result r f)) Q E w \<longleftrightarrow>
     (case r of Inl e \<Rightarrow> E e w | Inr a \<Rightarrow> wp (lift_result (f a)) Q E w)"
  by (cases r) (simp_all add: wp_lift_result)

lemma patch_deployment_wp:
  "wp (patch_deployment py c (watched api) name patch content_type)
     (\<lambda>_ s'. snd s' = snd s @ [(name, sn_application_namespace c, patch, content_type)])
     (\<lambda>_ s'. snd s' = snd s @ [(name, sn_application_namespace c, patch, content_type)]) s"
  by (cases s; cases "ak_patch api name (sn_application_namespace c) patch content_type (fst s)")
    (auto simp: wp_def patch_deployment_def watched_def seq_def try_except_def raise_def lift_result_def
      split: sum.splits)

lemma inspect_wp:
  "wp (inspect_deployment py c (watched api) name) (\<lambda>_ s'. snd s' = snd s) (\<lambda>_ s'. snd s' = snd s) s"
  by (cases s; cases "ak_read api name (sn_application_namespace c) (fst s)")
    (auto simp: wp_def inspect_deployment_def watched_def seq_def try_except_def raise_def lift_result_def
      on_part_def split: sum.splits)

text \<open>The only patch of a scenario and action on a state of the given version.\<close>

fun allowed_patch :: "scenario_config \<Rightarrow> scenario_name \<Rightarrow> scenario_action \<Rightarrow> string \<Rightarrow> patch_call" where
  "allowed_patch c Recommendation_Oom action version =
     (sn_recommendation_deployment c, sn_application_namespace c,
      memory_patch (sn_recommendation_container c) (fst (memory_target c action)) (snd (memory_target c action)) version,
      ''application/strategic-merge-patch+json'')"
| "allowed_patch c Redis_Outage action version =
     (sn_redis_deployment c, sn_application_namespace c, replicas_patch (replicas_target c action) version,
      ''application/merge-patch+json'')"

text \<open>The state a scenario's action starts from: the target of the opposite action.\<close>

fun starts_from :: "scenario_config \<Rightarrow> scenario_name \<Rightarrow> scenario_action \<Rightarrow> scenario_state \<Rightarrow> bool" where
  "starts_from c Recommendation_Oom action s \<longleftrightarrow>
     (ss_memory_request s, ss_memory_limit s) = memory_expected c action"
| "starts_from c Redis_Outage action s \<longleftrightarrow> ss_replicas s = replicas_expected c action"

definition may_patch :: "scenario_config \<Rightarrow> scenario_name \<Rightarrow> scenario_action \<Rightarrow> scenario_state \<Rightarrow> patch_call list \<Rightarrow> bool" where
  "may_patch c scenario action before calls \<longleftrightarrow> calls = []
     \<or> calls = [allowed_patch c scenario action (ss_resource_version before)] \<and> starts_from c scenario action before"

definition patched :: "scenario_config \<Rightarrow> scenario_name \<Rightarrow> scenario_action \<Rightarrow> scenario_state
    \<Rightarrow> ('k \<times> patch_call list) scenario_world \<Rightarrow> bool \<Rightarrow> ('k \<times> patch_call list) scenario_world \<Rightarrow> bool" where
  "patched c scenario action before w changed w' \<longleftrightarrow> sw_audit w' = sw_audit w
     \<and> (\<exists>calls. snd (sw_kube w') = snd (sw_kube w) @ calls \<and> may_patch c scenario action before calls
        \<and> (changed \<longrightarrow> calls \<noteq> []))"

lemma patched_none: "patched c scenario action before w False w"
  by (simp add: patched_def may_patch_def)

lemma patched_sent:
  assumes "starts_from c scenario action before"
    and "snd s = snd (sw_kube w) @ [allowed_patch c scenario action (ss_resource_version before)]"
  shows "patched c scenario action before w changed (w\<lparr>sw_kube := s\<rparr>)"
  using assms by (auto simp: patched_def may_patch_def)

lemma patched_not: "snd s = snd (sw_kube w) \<Longrightarrow> patched c scenario action before w False (w\<lparr>sw_kube := s\<rparr>)"
  by (simp add: patched_def may_patch_def)

lemma set_memory_wp:
  fixes s :: "'k \<times> patch_call list"
  assumes call: "(name, sn_application_namespace c, memory_patch container request limit version,
      ''application/strategic-merge-patch+json'') = call"
  shows "wp (set_memory_resources py c (watched api) name container request limit version)
    (\<lambda>_ s'. snd s' = snd s @ [call]) (\<lambda>_ s'. snd s' = snd s @ [call] \<or> snd s' = snd s) s"
proof -
  have "wp (patch_deployment py c (watched api) name (memory_patch container request limit version)
      ''application/strategic-merge-patch+json'')
    (\<lambda>_ s'. snd s' = snd s @ [call]) (\<lambda>_ s'. snd s' = snd s @ [call] \<or> snd s' = snd s) s"
    unfolding call [symmetric] by (rule wp_mono [OF patch_deployment_wp]) simp_all
  then show ?thesis
    by (auto simp: set_memory_resources_def wp_seq wp_lift_result wp_raise_when require_scenario_target_def)
qed

lemma set_replicas_wp:
  fixes s :: "'k \<times> patch_call list"
  assumes call: "(name, sn_application_namespace c, replicas_patch n version, ''application/merge-patch+json'') = call"
  shows "wp (set_replicas py c (watched api) name n version)
    (\<lambda>_ s'. snd s' = snd s @ [call]) (\<lambda>_ s'. snd s' = snd s @ [call] \<or> snd s' = snd s) s"
proof -
  have "wp (patch_deployment py c (watched api) name (replicas_patch n version) ''application/merge-patch+json'')
    (\<lambda>_ s'. snd s' = snd s @ [call]) (\<lambda>_ s'. snd s' = snd s @ [call] \<or> snd s' = snd s) s"
    unfolding call [symmetric] by (rule wp_mono [OF patch_deployment_wp]) simp_all
  then show ?thesis
    by (auto simp: set_replicas_def wp_seq wp_lift_result wp_raise_when require_scenario_target_def)
qed

lemma apply_scenario_wp:
  fixes w :: "('k \<times> patch_call list) scenario_world"
  shows "wp (apply_scenario c (kubernetes_scenario_provider py c (watched api)) scenario action before)
    (\<lambda>r w'. patched c scenario action before w (snd r) w'
       \<and> (\<not> snd r \<longrightarrow> snd (sw_kube w') = snd (sw_kube w)))
    (\<lambda>_ w'. patched c scenario action before w False w') w"
proof (cases scenario)
  case Recommendation_Oom
  let ?call = "allowed_patch c scenario action (ss_resource_version before)"
  have set: "wp (set_memory_resources py c (watched api) (sn_recommendation_deployment c)
      (sn_recommendation_container c) (fst (memory_target c action)) (snd (memory_target c action)) (ss_resource_version before))
    (\<lambda>_ s'. snd s' = snd (sw_kube w) @ [?call])
    (\<lambda>_ s'. snd s' = snd (sw_kube w) @ [?call] \<or> snd s' = snd (sw_kube w)) (sw_kube w)"
    by (rule set_memory_wp) (simp add: Recommendation_Oom)
  have sent: "wp (seq (on_cluster (set_memory_resources py c (watched api) (sn_recommendation_deployment c)
      (sn_recommendation_container c) (fst (memory_target c action)) (snd (memory_target c action)) (ss_resource_version before)))
      (\<lambda>after. if (ss_memory_request after, ss_memory_limit after) \<noteq> memory_target c action
          then raise e else ret (after, True)))
    (\<lambda>r w'. patched c scenario action before w (snd r) w'
       \<and> (\<not> snd r \<longrightarrow> snd (sw_kube w') = snd (sw_kube w)))
    (\<lambda>_ w'. patched c scenario action before w False w') w"
    if "starts_from c scenario action before" for e
    unfolding wp_seq wp_on_cluster
    by (rule wp_mono [OF set]) (auto simp: wp_raise wp_ret intro: patched_sent [OF that] patched_not)
  show ?thesis using sent Recommendation_Oom
    by (simp add: apply_scenario_def apply_recommendation_def Let_def kubernetes_scenario_provider_def wp_ret
      wp_raise patched_none)
next
  case Redis_Outage
  let ?call = "allowed_patch c scenario action (ss_resource_version before)"
  have set: "wp (set_replicas py c (watched api) (sn_redis_deployment c) (replicas_target c action) (ss_resource_version before))
    (\<lambda>_ s'. snd s' = snd (sw_kube w) @ [?call])
    (\<lambda>_ s'. snd s' = snd (sw_kube w) @ [?call] \<or> snd s' = snd (sw_kube w)) (sw_kube w)"
    by (rule set_replicas_wp) (simp add: Redis_Outage)
  have sent: "wp (seq (on_cluster (set_replicas py c (watched api) (sn_redis_deployment c) (replicas_target c action)
        (ss_resource_version before)))
      (\<lambda>after. if ss_replicas after \<noteq> replicas_target c action then raise e else ret (after, True)))
    (\<lambda>r w'. patched c scenario action before w (snd r) w'
       \<and> (\<not> snd r \<longrightarrow> snd (sw_kube w') = snd (sw_kube w)))
    (\<lambda>_ w'. patched c scenario action before w False w') w"
    if "starts_from c scenario action before" for e
    unfolding wp_seq wp_on_cluster
    by (rule wp_mono [OF set]) (auto simp: wp_raise wp_ret intro: patched_sent [OF that] patched_not)
  show ?thesis using sent Redis_Outage
    by (simp add: apply_scenario_def apply_redis_def Let_def kubernetes_scenario_provider_def wp_ret
      wp_raise patched_none)
qed

section \<open>A transition\<close>

definition refused :: "scenario_event list \<Rightarrow> string \<Rightarrow> scenario_event list \<Rightarrow> bool" where
  "refused audit m audit' \<longleftrightarrow> (\<exists>e. audit' = audit @ [e] \<and> sv_outcome e = Refused \<and> sv_reason e = Some m)"

text \<open>What a refusal leaves: the cluster as it is, and the event if the raised error is its reason.\<close>

definition refusal :: "'k scenario_world \<Rightarrow> pyexn \<Rightarrow> 'k scenario_world \<Rightarrow> bool" where
  "refusal w e w' \<longleftrightarrow> sw_kube w' = sw_kube w
     \<and> (is_safety_error e \<longrightarrow> refused (sw_audit w) (exn_str e) (sw_audit w'))"

lemma record_event_wp:
  "wp (record_scenario_event src c scenario action outcome target before after reason)
     (\<lambda>e w'. sw_kube w' = sw_kube w \<and> sw_audit w' = sw_audit w @ [e] \<and> sv_outcome e = outcome
        \<and> sv_before e = before \<and> sv_after e = after \<and> sv_reason e = reason \<and> sv_scenario e = scenario
        \<and> sv_action e = action)
     (\<lambda>e w'. sw_kube w' = sw_kube w \<and> \<not> is_safety_error e) w"
  by (simp add: wp_def record_scenario_event_def Let_def validate_scenario_event_def is_safety_error_def
    split: sum.split)

lemma refuse_wp: "wp (refuse src c scenario action target before reason) (\<lambda>_ _. False) (refusal w) w"
  unfolding refuse_def wp_seq wp_raise
  by (rule wp_mono [OF record_event_wp]) (auto simp: refusal_def refused_def safety_error_def)

lemma inspect_wp':
  "wp (on_cluster (sp_inspect (kubernetes_scenario_provider py c (watched api)) target))
     (\<lambda>_ w'. sw_audit w' = sw_audit w \<and> snd (sw_kube w') = snd (sw_kube w))
     (\<lambda>_ w'. sw_audit w' = sw_audit w \<and> snd (sw_kube w') = snd (sw_kube w)) w"
  unfolding wp_on_cluster kubernetes_scenario_provider_def scenario_provider.simps
  by (rule wp_mono [OF inspect_wp]) simp_all

text \<open>The provider raises no error of the controller's own.\<close>

definition benign :: "pyexn + 'a \<Rightarrow> bool" where
  "benign r \<longleftrightarrow> (\<forall>e. r = Inl e \<longrightarrow> \<not> is_safety_error e)"

lemma benign_bind: "benign r \<Longrightarrow> (\<And>a. benign (f a)) \<Longrightarrow> benign (bind_result r f)"
  by (cases r) (simp_all add: benign_def)

lemma benign_intros:
  "benign (Inr a)" "benign (Inl (kubernetes_error m))" "benign (Inl (KeyError m))" "benign (json_get k d v)"
  "benign (json_items v)" "benign (validate_scenario_state x)"
  by (simp_all add: benign_def is_safety_error_def kubernetes_error_def json_get_def json_items_def
    validate_scenario_state_def split: json.split)

lemma benign_int: "foreign_errors py api \<Longrightarrow> benign (json_int py v)"
  by (cases v) (simp_all add: benign_def is_safety_error_def foreign_errors_def)

lemma benign_find: "benign (find_container expected items)"
proof (induction items)
  case (Cons item items)
  then show ?case unfolding find_container.simps by (intro benign_bind benign_intros) (simp add: benign_intros)
qed (simp add: benign_intros)

lemma benign_state:
  assumes "foreign_errors py api"
  shows "benign (scenario_state_of py c d name)"
proof -
  have last: "benign (case (request, limit) of (JStr a, JStr b) \<Rightarrow> f a b | _ \<Rightarrow> Inl (kubernetes_error m))"
    if "\<And>a b. benign (f a b)" for request limit f m
    using that by (cases request; cases limit) (simp_all add: benign_intros)
  have memory: "benign (memory_of k v)" for k v
    unfolding memory_of_def by (intro benign_bind benign_intros)
  have key: "benign (case x of None \<Rightarrow> Inl (KeyError name) | Some k \<Rightarrow> Inr k)" for x
    by (cases x) (simp_all add: benign_intros)
  have cond: "benign (if b then Inl (kubernetes_error m) else r)" if "benign r" for b m r
    using that by (simp add: benign_intros)
  have found: "benign (case x of None \<Rightarrow> Inl (kubernetes_error m) | Some k \<Rightarrow> f k)" if "\<And>k. benign (f k)" for x m f
    using that by (cases x) (simp_all add: benign_intros)
  show ?thesis unfolding scenario_state_of_def
    by (intro benign_bind benign_intros cond key found last memory benign_find benign_int [OF assms])
qed

lemma inspect_benign:
  assumes "foreign_errors py (watched api)"
  shows "benign (fst (inspect_deployment py c (watched api) name s))"
proof -
  have document: "benign (ak_document (watched api) r)" for r
    using assms by (auto simp: benign_def foreign_errors_def)
  have "benign (bind_result (document_of (watched api) r) (\<lambda>d. scenario_state_of py c d name))" for r
    unfolding document_of_def
    by (intro benign_bind document benign_state [OF assms]) (simp add: benign_intros)
  then show ?thesis
    by (auto simp: inspect_deployment_def seq_def try_except_def raise_def lift_result_def require_scenario_target_def
      benign_intros benign_def is_safety_error_def kubernetes_error_def split: prod.splits sum.splits)
qed

section \<open>The property\<close>

definition allowed_calls ::
  "python_text \<Rightarrow> scenario_config \<Rightarrow> ('k, 'r) apps_api \<Rightarrow> scenario_name \<Rightarrow> scenario_action
     \<Rightarrow> ('k \<times> patch_call list) scenario_world \<Rightarrow> patch_call list \<Rightarrow> bool" where
  "allowed_calls py c api scenario action w calls \<longleftrightarrow> calls = [] \<or> sn_demo_mode c
     \<and> (\<exists>before. fst (inspect_deployment py c (watched api) (scenario_target c scenario) (sw_kube w)) = Inr before
        \<and> starts_from c scenario action before
        \<and> calls = [allowed_patch c scenario action (ss_resource_version before)])"

definition outcome_recorded ::
  "pyexn + scenario_result \<Rightarrow> 'k scenario_world \<Rightarrow> bool \<Rightarrow> 'k scenario_world \<Rightarrow> bool" where
  "outcome_recorded res w patched' w' \<longleftrightarrow> (case res of
     Inr r \<Rightarrow> (sr_changed r \<longleftrightarrow> patched') \<and> (\<exists>e. sw_audit w' = sw_audit w @ [e]
       \<and> sv_outcome e = (if sr_changed r then Applied else Noop)
       \<and> sv_before e = Some (sr_before r) \<and> sv_after e = Some (sr_after r))
   | Inl x \<Rightarrow> is_safety_error x \<longrightarrow> refused (sw_audit w) (exn_str x) (sw_audit w'))"

definition transition_ok ::
  "python_text \<Rightarrow> scenario_config \<Rightarrow> ('k, 'r) apps_api \<Rightarrow> scenario_name \<Rightarrow> scenario_action
     \<Rightarrow> ('k \<times> patch_call list) scenario_world \<Rightarrow> pyexn + scenario_result
     \<Rightarrow> ('k \<times> patch_call list) scenario_world \<Rightarrow> bool" where
  "transition_ok py c api scenario action w res w' \<longleftrightarrow>
     (\<exists>calls. snd (sw_kube w') = snd (sw_kube w) @ calls \<and> allowed_calls py c api scenario action w calls
        \<and> outcome_recorded res w (calls \<noteq> []) w')"

lemma refusal_ok:
  assumes "refusal w1 e w'" "sw_audit w1 = sw_audit w" "snd (sw_kube w1) = snd (sw_kube w) @ calls"
    and "allowed_calls py c api scenario action w calls"
  shows "transition_ok py c api scenario action w (Inl e) w'"
  using assms by (auto simp: transition_ok_def refusal_def outcome_recorded_def)

lemma refuse_start_wp:
  assumes "sw_audit w1 = sw_audit w" "snd (sw_kube w1) = snd (sw_kube w)"
  shows "wp (refuse src c scenario action target None m) Q
    (\<lambda>e w'. transition_ok py c api scenario action w (Inl e) w') w1"
  by (rule wp_mono [OF refuse_wp]) (use assms in \<open>auto intro!: refusal_ok [where calls = "[]"] simp: allowed_calls_def\<close>)

lemma patched_allowed:
  assumes "patched c scenario action before w1 changed w2" "sw_audit w1 = sw_audit w"
    "snd (sw_kube w1) = snd (sw_kube w)" "sn_demo_mode c"
    "fst (inspect_deployment py c (watched api) (scenario_target c scenario) (sw_kube w)) = Inr before"
  obtains calls where "sw_audit w2 = sw_audit w" "snd (sw_kube w2) = snd (sw_kube w) @ calls"
    "allowed_calls py c api scenario action w calls" "changed \<longrightarrow> calls \<noteq> []"
  using assms by (auto simp: patched_def may_patch_def allowed_calls_def)

lemma applied_wp:
  assumes w1: "sw_audit w1 = sw_audit w" "snd (sw_kube w1) = snd (sw_kube w)" and demo: "sn_demo_mode c"
    and seen: "fst (inspect_deployment py c (watched api) (scenario_target c scenario) (sw_kube w)) = Inr before"
  shows "wp (seq (try_except (apply_scenario c (kubernetes_scenario_provider py c (watched api)) scenario action before)
      (\<lambda>e. if is_safety_error e
          then refuse src c scenario action target (Some before) (exn_str e)
          else if is_provider_error e
          then refuse src c scenario action target (Some before)
            ''Kubernetes rejected the allowlisted scenario transition'' else raise e)) (\<lambda>(after, changed).
     seq (record_scenario_event src c scenario action (if changed then Applied else Noop) target
          (Some before) (Some after) None) (\<lambda>e.
       ret \<lparr>sr_scenario = scenario, sr_action = action, sr_changed = changed, sr_before = before,
         sr_after = after, sr_audit_event_id = sv_event_id e\<rparr>)))
    (\<lambda>r w'. transition_ok py c api scenario action w (Inr r) w')
    (\<lambda>e w'. transition_ok py c api scenario action w (Inl e) w') w1"
  unfolding wp_seq wp_try_except
proof (rule wp_mono [OF apply_scenario_wp])
  fix x :: "scenario_state \<times> bool" and w2 assume "patched c scenario action before w1 (snd x) w2
      \<and> (\<not> snd x \<longrightarrow> snd (sw_kube w2) = snd (sw_kube w1))"
  then obtain after changed where x: "x = (after, changed)" and p: "patched c scenario action before w1 changed w2"
    and n: "\<not> changed \<longrightarrow> snd (sw_kube w2) = snd (sw_kube w1)" by (cases x) auto
  obtain calls where calls: "sw_audit w2 = sw_audit w" "snd (sw_kube w2) = snd (sw_kube w) @ calls"
    "allowed_calls py c api scenario action w calls" "changed \<longrightarrow> calls \<noteq> []"
    by (rule patched_allowed [OF p w1 demo seen])
  have iff: "changed \<longleftrightarrow> calls \<noteq> []" using calls(2,4) n w1 by auto
  show "wp (case x of (after, changed) \<Rightarrow>
      seq (record_scenario_event src c scenario action (if changed then Applied else Noop) target
          (Some before) (Some after) None) (\<lambda>e.
       ret \<lparr>sr_scenario = scenario, sr_action = action, sr_changed = changed, sr_before = before,
         sr_after = after, sr_audit_event_id = sv_event_id e\<rparr>))
    (\<lambda>r w'. transition_ok py c api scenario action w (Inr r) w')
    (\<lambda>e w'. transition_ok py c api scenario action w (Inl e) w') w2"
    unfolding x prod.case wp_seq
    by (rule wp_mono [OF record_event_wp]) (use calls iff in \<open>auto simp: wp_ret transition_ok_def outcome_recorded_def\<close>)
next
  fix e w2 assume p: "patched c scenario action before w1 False w2"
  obtain calls where calls: "sw_audit w2 = sw_audit w" "snd (sw_kube w2) = snd (sw_kube w) @ calls"
    "allowed_calls py c api scenario action w calls" by (rule patched_allowed [OF p w1 demo seen])
  have refused: "wp (refuse src c scenario action target (Some before) m) Q
      (\<lambda>e w'. transition_ok py c api scenario action w (Inl e) w') w2" for m Q
    by (rule wp_mono [OF refuse_wp]) (simp_all add: refusal_ok [OF _ calls])
  show "wp (if is_safety_error e then refuse src c scenario action target (Some before) (exn_str e)
      else if is_provider_error e
      then refuse src c scenario action target (Some before)
        ''Kubernetes rejected the allowlisted scenario transition'' else raise e)
    (\<lambda>x. wp (case x of (after, changed) \<Rightarrow>
      seq (record_scenario_event src c scenario action (if changed then Applied else Noop) target
          (Some before) (Some after) None) (\<lambda>e.
       ret \<lparr>sr_scenario = scenario, sr_action = action, sr_changed = changed, sr_before = before,
         sr_after = after, sr_audit_event_id = sv_event_id e\<rparr>))
      (\<lambda>r w'. transition_ok py c api scenario action w (Inr r) w')
      (\<lambda>e w'. transition_ok py c api scenario action w (Inl e) w'))
    (\<lambda>e w'. transition_ok py c api scenario action w (Inl e) w') w2"
    using refused calls by (auto simp: wp_raise transition_ok_def outcome_recorded_def)
qed


section \<open>The default scenarios\<close>

definition boutique_environ :: "string \<Rightarrow> string option" where
  "boutique_environ name = (if name = ''KUBECOUNCIL_DEMO_MODE'' then Some ''True'' else None)"

definition boutique_config :: scenario_config where
  "boutique_config = config_from_environment boutique_environ"

text \<open>A Deployment that is in the unsafe state once \<open>injected\<close>.\<close>

definition boutique_document :: "bool \<Rightarrow> json" where
  "boutique_document injected = JObj
    [(''metadata'', JObj [(''name'', JStr ''recommendationservice''),
        (''resourceVersion'', JStr (if injected then ''8'' else ''7''))]),
     (''spec'', JObj [(''replicas'', JInt 1), (''template'', JObj [(''spec'', JObj [(''containers'', JList [JObj
        [(''name'', JStr ''server''), (''resources'', JObj
           [(''requests'', JObj [(''memory'', JStr (if injected then ''25Mi'' else ''220Mi''))]),
            (''limits'', JObj [(''memory'', JStr (if injected then ''25Mi'' else ''450Mi''))])])]])])])])]"

definition boutique_api :: "(json \<Rightarrow> json) \<Rightarrow> (bool, json) apps_api" where
  "boutique_api answer = \<lparr>ak_read = (\<lambda>name namespace injected. (Inr (boutique_document injected), injected)),
     ak_patch = (\<lambda>name namespace patch content_type injected. (Inr (answer (boutique_document True)), True)),
     ak_document = Inr\<rparr>"

definition plain_python :: python_text where
  "plain_python = \<lparr>py_repr = (\<lambda>_. []), py_int = (\<lambda>_. Inl (ValueError ''invalid literal''))\<rparr>"

definition boutique_source :: scenario_source where
  "boutique_source = \<lparr>sc_clock = int, sc_uuid = nat_str\<rparr>"

definition injected_by :: "(json \<Rightarrow> json) \<Rightarrow> (pyexn + scenario_result) \<times> (bool \<times> patch_call list) scenario_world" where
  "injected_by answer = transition boutique_source boutique_config
     (kubernetes_scenario_provider plain_python boutique_config (watched (boutique_api answer)))
     Recommendation_Oom Inject \<lparr>sw_kube = (False, []), sw_audit = [], sw_events = 0\<rparr>"

lemma boutique_config_wf: "wf_scenario_config boutique_config"
  by code_simp

lemma boutique_foreign: "foreign_errors plain_python (boutique_api answer)"
  by (simp add: foreign_errors_def boutique_api_def plain_python_def is_safety_error_def)

lemma injected_result:
  "map_sum exn_str sr_changed (fst (injected_by id)) = Inr True"
  "snd (sw_kube (snd (injected_by id))) = [allowed_patch boutique_config Recommendation_Oom Inject ''7'']"
  by code_simp+


section \<open>Errors after the patch\<close>

text \<open>
  \<open>ScenarioSafetyError\<close> is documented as raised before mutation. A patch that was sent and accepted
  ends in a refusal as well, if the response does not show the requested state or cannot be read; the
  event then says that Kubernetes rejected the transition.
\<close>

lemma refused_after_the_patch:
  "map_sum exn_str sr_changed (fst (injected_by (\<lambda>_. boutique_document False)))
     = Inl ''recommendation memory resource patch did not reach the requested state''"
  "length (snd (sw_kube (snd (injected_by (\<lambda>_. boutique_document False))))) = 1"
  "map_sum exn_str sr_changed (fst (injected_by (\<lambda>_. JNull)))
     = Inl ''Kubernetes rejected the allowlisted scenario transition''"
  "fst (sw_kube (snd (injected_by (\<lambda>_. JNull))))"
  by code_simp+

end
