(* ===== verification/Identity.thy ===== *)
theory Identity
  imports Approval_Service Fake_Cluster
begin

text \<open>
  Who is asking: the verified identity of an operator (\<open>services/identity.py\<close>), the dependencies of the
  routes that use it (\<open>api/identity.py\<close>), and the readiness of the process that gates human Approval
  (\<open>runtime/readiness.py\<close>). Checking a token's signature, expiry and audience is Google's library and a
  parameter; texts are over characters up to U+00FF.
\<close>

section \<open>Principals\<close>

text \<open>\<open>str.lower\<close>: ASCII and Latin-1 letters.\<close>

definition latin_lower :: "char \<Rightarrow> char" where
  "latin_lower c =
    (let n = of_char c :: nat
     in if 65 \<le> n \<and> n \<le> 90 \<or> 192 \<le> n \<and> n \<le> 222 \<and> n \<noteq> 215 then char_of (n + 32) else c)"

definition normalize_principal :: "string \<Rightarrow> string" where
  "normalize_principal p =
    (let normalized = map latin_lower (strip p)
     in if prefix ''accounts.google.com:'' normalized then drop (length ''accounts.google.com:'') normalized
        else normalized)"

section \<open>Identity providers\<close>

definition identity_error :: "string \<Rightarrow> pyexn" where
  "identity_error m = OtherError ''IdentityError'' m"

definition is_identity_error :: "pyexn \<Rightarrow> bool" where
  "is_identity_error e \<longleftrightarrow> exn_type e = ''IdentityError''"

definition iap_issuer :: string where "iap_issuer = ''https://cloud.google.com/iap''"

definition iap_public_keys_url :: string where
  "iap_public_keys_url = ''https://www.gstatic.com/iap/verify/public_key''"

text \<open>The claims a verifier finds in an assertion made for an audience.\<close>

type_synonym claims = "(string \<times> json) list"

type_synonym token_verifier = "string \<Rightarrow> string \<Rightarrow> pyexn + claims"

text \<open>\<open>GoogleIAPTokenVerifier\<close> over \<open>id_token.verify_token\<close> with the keys at a URL.\<close>

definition google_iap_verifier :: "(string \<Rightarrow> string \<Rightarrow> string \<Rightarrow> pyexn + claims) \<Rightarrow> token_verifier" where
  "google_iap_verifier verify_token assertion audience =
     map_sum (\<lambda>_. identity_error ''IAP assertion signature or claims are invalid'') id
       (verify_token assertion audience iap_public_keys_url)"

record iap_provider =
  ip_audience :: string
  ip_responders :: "string list"
  ip_verifier :: token_verifier

definition iap_identity_provider :: "string \<Rightarrow> string list \<Rightarrow> token_verifier \<Rightarrow> pyexn + iap_provider" where
  "iap_identity_provider audience responder_principals verifier =
    (if audience = [] then Inl (ValueError ''IAP audience is required in deployed mode'')
     else Inr \<lparr>ip_audience = audience, ip_responders = map normalize_principal responder_principals,
       ip_verifier = verifier\<rparr>)"

text \<open>A claim that is a text that is not empty.\<close>

fun text_claim :: "json option \<Rightarrow> string option" where
  "text_claim (Some (JStr s)) = (if s = [] then None else Some s)"
| "text_claim _ = None"

definition validate_identity :: "operator_identity \<Rightarrow> pyexn + operator_identity" where
  "validate_identity i = (if wf_operator_identity i then Inr i
     else Inl (ValidationError ''OperatorIdentity'' ''invalid field''))"

definition role_of :: "string list \<Rightarrow> string \<Rightarrow> operator_role" where
  "role_of responders p =
    (if ''*'' \<in> set responders \<or> p \<in> set responders then RESPONDER else VIEWER)"

definition iap_authenticate :: "iap_provider \<Rightarrow> string option \<Rightarrow> pyexn + operator_identity" where
  "iap_authenticate ip assertion = (case text_claim (map_option JStr assertion) of
     None \<Rightarrow> Inl (identity_error ''signed IAP assertion is required'')
   | Some token \<Rightarrow> bind_result (ip_verifier ip token (ip_audience ip)) (\<lambda>cs.
       if dict_get cs ''iss'' \<noteq> Some (JStr iap_issuer)
       then Inl (identity_error ''IAP assertion issuer is invalid'')
       else (case text_claim (dict_get cs ''sub'') of
           None \<Rightarrow> Inl (identity_error ''IAP assertion subject is missing'')
         | Some subject \<Rightarrow> (case text_claim (dict_get cs ''email'') of
             None \<Rightarrow> Inl (identity_error ''IAP assertion email is missing'')
           | Some email \<Rightarrow> validate_identity
               \<lparr>oi_principal = normalize_principal email, oi_subject = subject,
                oi_role = role_of (ip_responders ip) (normalize_principal email)\<rparr>))))"

datatype identity_provider = IAP iap_provider | Local operator_identity | Unavailable

definition local_identity_provider :: "string \<Rightarrow> operator_identity \<Rightarrow> pyexn + identity_provider" where
  "local_identity_provider runtime_mode identity =
    (if runtime_mode \<noteq> ''development''
     then Inl (ValueError ''local identity is available only in explicit development mode'')
     else Inr (Local identity))"

fun authenticate :: "identity_provider \<Rightarrow> string option \<Rightarrow> pyexn + operator_identity" where
  "authenticate (IAP ip) assertion = iap_authenticate ip assertion"
| "authenticate (Local identity) assertion = Inr identity"
| "authenticate Unavailable assertion = Inl (identity_error ''deployed IAP identity is not configured'')"

lemma text_claim_Some: "text_claim v = Some s \<Longrightarrow> v = Some (JStr s) \<and> s \<noteq> []"
  by (cases v rule: text_claim.cases) (auto split: if_splits)

lemma iap_authenticate_Inr:
  assumes "iap_authenticate ip assertion = Inr identity"
  obtains token cs email where "assertion = Some token" "token \<noteq> []" "ip_verifier ip token (ip_audience ip) = Inr cs"
    "dict_get cs ''iss'' = Some (JStr iap_issuer)" "dict_get cs ''sub'' = Some (JStr (oi_subject identity))"
    "dict_get cs ''email'' = Some (JStr email)" "oi_principal identity = normalize_principal email"
    "oi_role identity = role_of (ip_responders ip) (normalize_principal email)" "wf_operator_identity identity"
proof -
  obtain token where token: "text_claim (map_option JStr assertion) = Some token"
    using assms by (cases "text_claim (map_option JStr assertion)") (simp_all add: iap_authenticate_def)
  then obtain cs where cs: "ip_verifier ip token (ip_audience ip) = Inr cs"
    using assms by (cases "ip_verifier ip token (ip_audience ip)") (simp_all add: iap_authenticate_def)
  then have iss: "dict_get cs ''iss'' = Some (JStr iap_issuer)"
    using assms token by (simp add: iap_authenticate_def split: if_split_asm)
  then obtain subject email where s: "text_claim (dict_get cs ''sub'') = Some subject"
    and e: "text_claim (dict_get cs ''email'') = Some email"
    and v: "validate_identity \<lparr>oi_principal = normalize_principal email, oi_subject = subject,
      oi_role = role_of (ip_responders ip) (normalize_principal email)\<rparr> = Inr identity"
    using assms token cs by (simp add: iap_authenticate_def split: option.split_asm)
  have "identity = \<lparr>oi_principal = normalize_principal email, oi_subject = subject,
      oi_role = role_of (ip_responders ip) (normalize_principal email)\<rparr>" "wf_operator_identity identity"
    using v by (auto simp: validate_identity_def split: if_split_asm)
  then show ?thesis using text_claim_Some [OF token] text_claim_Some [OF s] text_claim_Some [OF e] cs iss
    by (intro that) auto
qed

section \<open>The dependencies of a route\<close>

text \<open>
  What a request gets: the body of a successful answer, an \<open>HTTPException\<close> with its status, code and
  message, the refusal of a request that does not validate, or nothing while the route awaits a model.
  An exception of another kind stays one (the server's error).
\<close>

datatype 'a reply = Reply (reply_body: 'a) | Refusal int string string | Invalid_Request | Pending

definition with_identity ::
  "identity_provider \<Rightarrow> string option \<Rightarrow> (operator_identity \<Rightarrow> ('w, 'a reply) act) \<Rightarrow> ('w, 'a reply) act" where
  "with_identity provider assertion route = (case authenticate provider assertion of
     Inl e \<Rightarrow> if is_identity_error e then ret (Refusal 401 ''identity_unverified'' (exn_str e)) else raise e
   | Inr identity \<Rightarrow> route identity)"

definition with_responder ::
  "operator_identity \<Rightarrow> (operator_identity \<Rightarrow> ('w, 'a reply) act) \<Rightarrow> ('w, 'a reply) act" where
  "with_responder identity route =
    (if oi_role identity \<noteq> RESPONDER
     then ret (Refusal 403 ''responder_required'' ''Responder role is required for this command'')
     else route identity)"

definition current_identity :: "identity_provider \<Rightarrow> string option \<Rightarrow> ('w, operator_identity reply) act" where
  "current_identity provider assertion = with_identity provider assertion (\<lambda>identity. ret (Reply identity))"

section \<open>Readiness\<close>

record readiness_check =
  rd_ready :: bool
  rd_detail :: string

text \<open>The registry's dict; setting a check replaces the one of its name.\<close>

type_synonym readiness = "(string \<times> readiness_check) list"

definition set_check :: "string \<Rightarrow> bool \<Rightarrow> string \<Rightarrow> readiness \<Rightarrow> readiness" where
  "set_check name ready detail = dict_set name \<lparr>rd_ready = ready, rd_detail = detail\<rparr>"

definition all_ready :: "readiness \<Rightarrow> bool" where
  "all_ready checks \<longleftrightarrow> checks \<noteq> [] \<and> list_all (rd_ready \<circ> snd) checks"

definition approval_components :: "string list" where
  "approval_components = [''identity'', ''incident_store'', ''evidence'', ''council'', ''intervention'']"

definition approval_enabled :: "readiness \<Rightarrow> bool" where
  "approval_enabled checks \<longleftrightarrow> list_all (\<lambda>name. case dict_get checks name of
     None \<Rightarrow> False | Some c \<Rightarrow> rd_ready c) approval_components"

end
