(* ===== verification/Incident_Api.thy ===== *)
theory Incident_Api
  imports Identity Alerts Council
begin

text \<open>
  The incident routes of the HTTP surface (\<open>api/incidents.py\<close>): which identity each one needs, what it
  calls, and the status and code of every refusal. A route runs after its dependencies, in FastAPI's
  order: the identity, the readiness of the process, the Responder role, then the request's own
  validation. Rendering the answers is FastAPI's and not modelled.
\<close>

section \<open>Requests\<close>

record open_incident_request =
  oq_summary :: string
  oq_application_id :: string
  oq_target :: workload_reference

definition wf_open_incident_request :: "open_incident_request \<Rightarrow> bool" where
  "wf_open_incident_request q \<longleftrightarrow> oq_summary q \<noteq> [] \<and> int (length (oq_summary q)) \<le> 1000
     \<and> oq_application_id q \<noteq> [] \<and> workload_reference_fields (oq_target q)"

definition default_open_request :: "string \<Rightarrow> open_incident_request" where
  "default_open_request summary =
    \<lparr>oq_summary = summary, oq_application_id = ''online-boutique'',
     oq_target = deployment_reference ''online-boutique'' ''recommendationservice''\<rparr>"

record run_evidence_query_request =
  rq_specialist :: specialist_role
  rq_mapping_identifier :: string
  rq_query_round :: int

definition wf_run_evidence_query_request :: "run_evidence_query_request \<Rightarrow> bool" where
  "wf_run_evidence_query_request q \<longleftrightarrow> rq_mapping_identifier q \<noteq> []
     \<and> int (length (rq_mapping_identifier q)) \<le> 500 \<and> 1 \<le> rq_query_round q \<and> rq_query_round q \<le> 2"

record decide_proposal_request =
  dq_decision :: approval_decision
  dq_reviewed_binding :: approval_binding

text \<open>What the application holds for its routes (\<open>app.state\<close>).\<close>

record 'k app_state =
  st_identity :: identity_provider
  st_runtime_mode :: string
  st_readiness :: readiness
  st_profiles :: "('k, profile_load_result list) act"
  st_evidence :: "'k evidence_provider"
  st_redactor :: "string \<Rightarrow> pyexn + string"
  st_gateway :: "'k gateway"
  st_council :: "'k council"
  st_publisher :: "(intervention_request \<Rightarrow> (request_queue, unit) act) option"
  st_review_ttl :: timedelta

section \<open>Refusals\<close>

definition missing_status :: "string \<Rightarrow> int" where
  "missing_status m = (if m = ''incident does not exist'' then 404 else 409)"

text \<open>An expected error becomes a refusal; any other one leaves the route.\<close>

definition refusing :: "(pyexn \<Rightarrow> 'a reply option) \<Rightarrow> ('w, 'a reply) act \<Rightarrow> ('w, 'a reply) act" where
  "refusing refusal route = try_except route (\<lambda>e. case refusal e of None \<Rightarrow> raise e | Some x \<Rightarrow> ret x)"

fun council_refusal :: "pyexn \<Rightarrow> 'a reply option" where
  "council_refusal (CouncilError m) = Some (Refusal (missing_status m) ''investigation_rejected'' m)"
| "council_refusal (ProposalPolicyError m) = Some (Refusal (missing_status m) ''proposal_policy_rejected'' m)"
| "council_refusal e = None"

fun approval_refusal :: "string \<Rightarrow> pyexn \<Rightarrow> 'a reply option" where
  "approval_refusal code (ApprovalError m) = Some (Refusal (missing_status m) code m)"
| "approval_refusal code e = None"

fun gateway_refusal :: "pyexn \<Rightarrow> 'a reply option" where
  "gateway_refusal (EvidenceGatewayError m) = Some (Refusal (missing_status m) ''evidence_query_rejected'' m)"
| "gateway_refusal e = None"

definition value_refusal :: "int \<Rightarrow> string \<Rightarrow> pyexn \<Rightarrow> 'a reply option" where
  "value_refusal status code e = (if is_value_error e then Some (Refusal status code (exn_str e)) else None)"

definition require_intervention_readiness :: "'k app_state \<Rightarrow> ('w, 'a reply) act \<Rightarrow> ('w, 'a reply) act" where
  "require_intervention_readiness st route =
    (if st_runtime_mode st \<noteq> ''deployed'' then route
     else if approval_enabled (st_readiness st) then route
     else ret (Refusal 503 ''intervention_not_ready'' (''Approval is disabled until identity, evidence, Council, '' @
       ''persistence, and every intervention enforcement layer are ready'')))"

definition when_valid :: "bool \<Rightarrow> ('w, 'a reply) act \<Rightarrow> ('w, 'a reply) act" where
  "when_valid valid route = (if valid then route else ret Invalid_Request)"

section \<open>Opening an incident\<close>

text \<open>The signal of a manual request, through the notification it is normalized from.\<close>

definition manual_signal ::
  "'k environment \<Rightarrow> application_profile \<Rightarrow> open_incident_request \<Rightarrow> ('k world, alert_signal) act" where
  "manual_signal en p q =
    seq (uuid4 en) (\<lambda>u. seq (now_act en) (\<lambda>t.
    let n = \<lparr>an_notification_id = ''manual-'' @ u, an_application_id = ap_application_id p,
             an_namespace = wr_namespace (oq_target q), an_workload_name = wr_name (oq_target q),
             an_summary = oq_summary q, an_observed_at = t, an_state = State_Open,
             an_provider_incident_id = None, an_window_start = None, an_window_end = None\<rparr>
    in seq (raise_when (\<not> wf_alert_notification n) (ValidationError ''AlertNotification'' ''invalid field''))
         (\<lambda>_. lift_result (normalize n))))"

definition record_opening ::
  "'k environment \<Rightarrow> operator_identity \<Rightarrow> alert_signal \<Rightarrow> string \<Rightarrow> ('k world, investigation_record) act" where
  "record_opening en identity g incident_id =
    seq (now_act en) (\<lambda>received.
    seq (on_store (append_alert_signal incident_id
      \<lparr>se_notification_id = sg_signal_id g, se_incident_id = incident_id, se_signal = g,
       se_provider_state = State_Open, se_received_at = received\<rparr>)) (\<lambda>_.
    seq (uuid4 en) (\<lambda>u.
    seq (now_act en) (\<lambda>t.
    on_store (append_audit_event incident_id
      \<lparr>ae_event_id = ''audit-'' @ u, ae_incident_id = incident_id, ae_event_type = ''incident_opened'',
       ae_occurred_at = t, ae_actor = oi_principal identity, ae_details = [], ae_cursor = 0\<rparr>)))))"

definition open_enrolled ::
  "'k environment \<Rightarrow> 'k app_state \<Rightarrow> operator_identity \<Rightarrow> open_incident_request \<Rightarrow> application_profile
     \<Rightarrow> ('k world, investigation_record) act" where
  "open_enrolled en st identity q p =
    seq (manual_signal en p q) (\<lambda>g.
    seq (create_incident en p g) (\<lambda>r.
    seq (record_opening en identity g (inc_incident_id (ir_incident r))) (\<lambda>r'.
    let i = inc_incident_id (ir_incident r') in
    seq (collect en (st_evidence st) (st_redactor st) i p g (ir_evidence_window r')) (\<lambda>_.
    seq (get_record i) (\<lambda>completed. case completed of
      None \<Rightarrow> raise (RuntimeError ''incident disappeared while collecting its evidence window'')
    | Some c \<Rightarrow> ret c)))))"

definition open_incident ::
  "'k environment \<Rightarrow> 'k app_state \<Rightarrow> operator_identity \<Rightarrow> open_incident_request
     \<Rightarrow> ('k world, investigation_record reply) act" where
  "open_incident en st identity q =
    seq (on_kube (st_profiles st)) (\<lambda>results.
    case List.find (\<lambda>l. lr_application_id l = Some (oq_application_id q)) results of
      None \<Rightarrow> ret (Refusal 404 ''application_not_enrolled'' ''application is not enrolled'')
    | Some l \<Rightarrow> (case lr_profile l of
        None \<Rightarrow> ret (Refusal 409 ''profile_invalid'' (join ''; '' (map snd (lr_errors l))))
      | Some p \<Rightarrow>
          seq (on_kube (en_enrollment en p)) (\<lambda>snapshot.
          case require_enrolled_target p (check_enrollment p snapshot) (oq_target q) False of
            Inl e \<Rightarrow> if is_value_error e then ret (Refusal 409 ''enrollment_not_ready'' (exn_str e)) else raise e
          | Inr _ \<Rightarrow> seq (open_enrolled en st identity q p) (\<lambda>r. ret (Reply r)))))"

section \<open>The other commands\<close>

definition investigate_incident ::
  "'k environment \<Rightarrow> 'k app_state \<Rightarrow> string \<Rightarrow> council_event list \<Rightarrow> pyexn + model_response
     \<Rightarrow> ('k world, investigation_record reply) act" where
  "investigate_incident en st incident_id events answer = refusing council_refusal
    (seq (investigate en (st_council st) incident_id events answer) (\<lambda>result. case result of
       None \<Rightarrow> ret Pending
     | Some r \<Rightarrow> if ir_proposal r = None then ret (Reply r)
         else seq (evaluate_and_record en incident_id) (\<lambda>r'. ret (Reply r'))))"

definition review_proposal ::
  "'k environment \<Rightarrow> 'k app_state \<Rightarrow> string \<Rightarrow> operator_identity \<Rightarrow> ('k world, approval_review reply) act" where
  "review_proposal en st incident_id identity = refusing (approval_refusal ''approval_review_rejected'')
    (seq (review en (st_review_ttl st) incident_id identity) (\<lambda>r. ret (Reply r)))"

definition decide_proposal ::
  "'k environment \<Rightarrow> 'k app_state \<Rightarrow> string \<Rightarrow> operator_identity \<Rightarrow> decide_proposal_request
     \<Rightarrow> ('k world, investigation_record reply) act" where
  "decide_proposal en st incident_id identity q = refusing (approval_refusal ''approval_rejected'')
    (seq (decide en (st_publisher st) incident_id identity (dq_decision q) (dq_reviewed_binding q))
      (\<lambda>r. ret (Reply r)))"

definition close_incident ::
  "'k environment \<Rightarrow> string \<Rightarrow> operator_identity \<Rightarrow> int \<Rightarrow> ('k world, investigation_record reply) act" where
  "close_incident en incident_id identity expected_version =
    seq (get_record incident_id) (\<lambda>found. case found of
      None \<Rightarrow> ret (Refusal 404 ''incident_not_found'' ''incident does not exist'')
    | Some record \<Rightarrow> refusing (value_refusal 409 ''incident_close_rejected'')
        (seq (lift_result (transition_incident (ir_incident record) (Some CLOSED) None None)) (\<lambda>replacement.
         seq (on_store (compare_and_set incident_id expected_version replacement)) (\<lambda>_.
         seq (uuid4 en) (\<lambda>u.
         seq (now_act en) (\<lambda>t.
         seq (on_store (append_audit_event incident_id
           \<lparr>ae_event_id = ''audit-'' @ u, ae_incident_id = incident_id, ae_event_type = ''incident_closed'',
            ae_occurred_at = t, ae_actor = oi_principal identity,
            ae_details = [(''subject'', oi_subject identity)], ae_cursor = 0\<rparr>)) (\<lambda>r.
         ret (Reply r))))))))"

definition run_evidence_query_route ::
  "'k environment \<Rightarrow> 'k app_state \<Rightarrow> string \<Rightarrow> run_evidence_query_request
     \<Rightarrow> ('k world, investigation_record reply) act" where
  "run_evidence_query_route en st incident_id q = refusing gateway_refusal
    (seq (execute_query en (st_gateway st) incident_id (rq_specialist q) (rq_mapping_identifier q) (rq_query_round q))
      (\<lambda>r. ret (Reply r)))"

definition replay_timeline :: "string \<Rightarrow> int \<Rightarrow> ('k world, audit_event list reply) act" where
  "replay_timeline incident_id after =
    seq (gets (\<lambda>w. timeline incident_id after (w_store w))) (\<lambda>events.
    refusing (value_refusal 404 ''incident_not_found'') (seq (lift_result events) (\<lambda>es. ret (Reply es))))"

definition get_incident :: "string \<Rightarrow> ('k world, investigation_record reply) act" where
  "get_incident incident_id = seq (get_record incident_id) (\<lambda>found. case found of
     None \<Rightarrow> ret (Refusal 404 ''incident_not_found'' ''incident does not exist'')
   | Some r \<Rightarrow> ret (Reply r))"

section \<open>The event stream\<close>

text \<open>The first reply: the cursor the stream starts from.\<close>

definition stream_cursor :: "int \<Rightarrow> string option \<Rightarrow> pyexn + int" where
  "stream_cursor after last_event_id = (case last_event_id of
     None \<Rightarrow> Inr (max after 0)
   | Some s \<Rightarrow> (case parse_int s of
       None \<Rightarrow> Inl (ValueError ''invalid literal for int()'')
     | Some n \<Rightarrow> Inr (max after n)))"

definition stream_timeline :: "string \<Rightarrow> int \<Rightarrow> string option \<Rightarrow> ('k world, int reply) act" where
  "stream_timeline incident_id after last_event_id = (case stream_cursor after last_event_id of
     Inl e \<Rightarrow> ret (Refusal 400 ''invalid_timeline_cursor'' ''Last-Event-ID must be numeric'')
   | Inr cursor \<Rightarrow>
       seq (gets (\<lambda>w. timeline incident_id cursor (w_store w))) (\<lambda>events.
       refusing (value_refusal 404 ''incident_not_found'') (seq (lift_result events) (\<lambda>_. ret (Reply cursor)))))"

text \<open>
  \<open>encode\<close>: one reading of the store for each second the client stays connected. \<open>stores\<close> holds the
  store at each reading; a chunk is one event or a heartbeat.
\<close>

datatype chunk = Event audit_event | Heartbeat

fun encode :: "string \<Rightarrow> int \<Rightarrow> store list \<Rightarrow> pyexn + chunk list" where
  "encode incident_id cursor [] = Inr []"
| "encode incident_id cursor (s # stores) =
    bind_result (timeline incident_id cursor s) (\<lambda>events.
    bind_result (encode incident_id (case last_option events of None \<Rightarrow> cursor | Some e \<Rightarrow> ae_cursor e) stores)
      (\<lambda>chunks. Inr ((if events = [] then [Heartbeat] else map Event events) @ chunks)))"

fun delivered :: "chunk list \<Rightarrow> audit_event list" where
  "delivered [] = []"
| "delivered (Event e # cs) = e # delivered cs"
| "delivered (Heartbeat # cs) = delivered cs"

section \<open>The routes\<close>

datatype api_request =
    Open_Incident open_incident_request
  | List_Incidents
  | Investigate string "council_event list" "pyexn + model_response"
  | Review string
  | Decide string decide_proposal_request
  | Close string int
  | Run_Query string run_evidence_query_request
  | Timeline string int
  | Stream string int "string option"
  | Get_Incident string

datatype api_body =
    One_Record investigation_record
  | Records "investigation_record list"
  | Review_Body approval_review
  | Event_List "audit_event list"
  | Stream_From int

definition body :: "('a \<Rightarrow> api_body) \<Rightarrow> ('w, 'a reply) act \<Rightarrow> ('w, api_body reply) act" where
  "body f route = seq route (\<lambda>r. ret (map_reply f r))"

fun serve_route ::
  "'k environment \<Rightarrow> 'k app_state \<Rightarrow> operator_identity \<Rightarrow> api_request \<Rightarrow> ('k world, api_body reply) act" where
  "serve_route en st identity (Open_Incident q) = with_responder identity (\<lambda>identity.
     when_valid (wf_open_incident_request q) (body One_Record (open_incident en st identity q)))"
| "serve_route en st identity List_Incidents = seq (gets (\<lambda>w. store_list (w_store w))) (\<lambda>rs. ret (Reply (Records rs)))"
| "serve_route en st identity (Investigate i events answer) = with_responder identity (\<lambda>_.
     body One_Record (investigate_incident en st i events answer))"
| "serve_route en st identity (Review i) = require_intervention_readiness st (with_responder identity (\<lambda>identity.
     body Review_Body (review_proposal en st i identity)))"
| "serve_route en st identity (Decide i q) = require_intervention_readiness st (with_responder identity (\<lambda>identity.
     when_valid (approval_binding_fields (dq_reviewed_binding q)) (body One_Record (decide_proposal en st i identity q))))"
| "serve_route en st identity (Close i version) = with_responder identity (\<lambda>identity.
     when_valid (0 \<le> version) (body One_Record (close_incident en i identity version)))"
| "serve_route en st identity (Run_Query i q) =
     when_valid (wf_run_evidence_query_request q) (body One_Record (run_evidence_query_route en st i q))"
| "serve_route en st identity (Timeline i after) = when_valid (0 \<le> after) (body Event_List (replay_timeline i after))"
| "serve_route en st identity (Stream i after last_id) =
     when_valid (0 \<le> after) (body Stream_From (stream_timeline i after last_id))"
| "serve_route en st identity (Get_Incident i) = body One_Record (get_incident i)"

text \<open>A request with the assertion it carries; every route of the router needs an identity.\<close>

definition serve ::
  "'k environment \<Rightarrow> 'k app_state \<Rightarrow> string option \<Rightarrow> api_request \<Rightarrow> ('k world, api_body reply) act" where
  "serve en st assertion q = with_identity (st_identity st) assertion (\<lambda>identity. serve_route en st identity q)"

fun serve_all ::
  "'k environment \<Rightarrow> 'k app_state \<Rightarrow> (string option \<times> api_request) list \<Rightarrow> 'k world
     \<Rightarrow> (pyexn + api_body reply) list \<times> 'k world" where
  "serve_all en st [] w = ([], w)"
| "serve_all en st ((assertion, q) # qs) w =
    (case serve en st assertion q w of (r, w1) \<Rightarrow>
       case serve_all en st qs w1 of (rs, w2) \<Rightarrow> (r # rs, w2))"

end
