(* ===== verification/Incident_Api_Guarantees.thy ===== *)
theory Incident_Api_Guarantees
  imports Incident_Api Worker_Guarantees Approval_Guarantees Store_Guarantees
begin

text \<open>
  What the incident routes promise: commands need a verified Responder, an Approval enters the store
  only through a Responder's decision on a ready process, the store stays valid under any requests,
  and the event stream delivers every audit event once.
\<close>

section \<open>The calls of a route\<close>

text \<open>Reviewing and deciding, for a property that the calls on the world keep.\<close>

context policy_client
begin

lemma required: "keeps I (require_responder identity)"
  unfolding require_responder_def by (rule keeps_raise_when)

lemma undecided: "keeps I (undecided_proposal i m)"
  unfolding undecided_proposal_def
  by (intro keeps_seq keeps_get_record keeps_option keeps_raise keeps_if keeps_ret)

lemma live: "keeps I (live_state en p)"
  unfolding live_state_def by (intro keeps_seq keeps_option keeps_raise keeps_ret provider)

lemma binding: "keeps I (binding_now en r state e)"
  unfolding binding_now_def by (rule keeps_lift_result)

lemma reviewing: "keeps I (review en ttl i identity)"
  unfolding review_def
  by (intro keeps_seq required undecided) (auto intro!: keeps_seq live clock binding keeps_ret split: prod.split)

lemma fresh: "keeps I (fresh_context en i identity b)"
  unfolding fresh_context_def
  by (intro keeps_seq required clock keeps_raise_when undecided)
    (auto intro!: keeps_seq live binding keeps_raise_when keeps_ret split: prod.split)

lemma event: "keeps I (new_event en i k t a d)"
  unfolding new_event_def by (intro keeps_seq uuid keeps_ret)

end

lemma keeps_on_queue: "(\<And>w q. I (w\<lparr>w_queue := q\<rparr>) = I w) \<Longrightarrow> keeps I (on_queue m)"
  by (auto simp: keeps_def on_queue_def on_part_def split: prod.split)

locale decision_client = policy_client I en for I :: "'k world \<Rightarrow> bool" and en :: "'k environment" +
  assumes decided: "keeps I (on_store (record_approval_decision g t i n a e))"
    and published: "keeps I (on_store (append_audit_event i e))"
    and requests: "I (w\<lparr>w_queue := d\<rparr>) = I w"
begin

lemma queue: "keeps I (on_queue m)"
  by (rule keeps_on_queue) (rule requests)

lemma record_decision: "keeps I (record_decision en i identity choice b now p)"
  unfolding record_decision_def
  by (intro keeps_seq uuid keeps_lift_result event clock keeps_try_except decided keeps_raise keeps_ret)

lemma publish_request: "keeps I (publish_request en publisher i r a now)"
  unfolding publish_request_def by (intro keeps_seq keeps_lift_result queue event published)

lemma decide: "keeps I (decide en publisher i identity choice b)"
  unfolding decide_def
  by (rule keeps_seq [OF fresh])
    (auto intro!: keeps_seq record_decision publish_request keeps_if keeps_ret split: prod.split option.split)

end

lemma keeps_refusing: "keeps I m \<Longrightarrow> keeps I (refusing f m)"
  unfolding refusing_def by (intro keeps_try_except) (auto intro: keeps_raise keeps_ret split: option.split)

lemma keeps_body: "keeps I m \<Longrightarrow> keeps I (body f m)"
  unfolding body_def by (intro keeps_seq keeps_ret)

lemma keeps_when_valid: "keeps I m \<Longrightarrow> keeps I (when_valid b m)"
  unfolding when_valid_def by (simp add: keeps_ret)

lemma keeps_ready: "keeps I m \<Longrightarrow> keeps I (require_intervention_readiness st m)"
  unfolding require_intervention_readiness_def by (simp add: keeps_ret)

lemma keeps_responder: "(\<And>identity. keeps I (m identity)) \<Longrightarrow> keeps I (with_responder identity m)"
  unfolding with_responder_def by (simp add: keeps_ret)

lemmas keeps_route = keeps_refusing keeps_body keeps_when_valid keeps_ready keeps_responder keeps_seq
  keeps_option keeps_if keeps_ret keeps_raise keeps_lift_result keeps_get_record keeps_gets

text \<open>The routes of commands, for a property that all their calls keep.\<close>

context investigation_client
begin

lemma investigation: "keeps I (investigate_incident en st i events answer)"
  unfolding investigate_incident_def by (intro keeps_route investigate evaluate_record)

lemma closing: "keeps I (close_incident en i identity n)"
  unfolding close_incident_def by (intro keeps_route replacement uuid clock event_added)

lemma querying: "keeps I (run_evidence_query_route en st i q)"
  unfolding run_evidence_query_route_def by (intro keeps_route query)

end

locale command_client = investigation_client I en for I :: "'k world \<Rightarrow> bool" and en :: "'k environment" +
  assumes created: "keeps I (on_store (store_create p g h1 h2))"
    and signal: "keeps I (on_store (append_alert_signal i s))"
begin

lemma opened: "keeps I (open_incident en st identity q)"
proof -
  have manual: "keeps I (manual_signal en p q)" for p
    unfolding manual_signal_def Let_def by (intro keeps_seq uuid clock keeps_raise_when keeps_lift_result)
  have record': "keeps I (record_opening en identity g i)" for g i
    unfolding record_opening_def by (intro keeps_seq clock signal uuid event_added)
  have "keeps I (open_enrolled en st identity q p)" for p
    unfolding open_enrolled_def create_incident_def Let_def
    by (intro keeps_route manual uuid created record' collect)
  then show ?thesis unfolding open_incident_def
    by (intro keeps_route provider keeps_sum) 
qed

end

section \<open>Who may change what\<close>

text \<open>No Approval is new, and the queue of requests and the leases are as they were.\<close>

definition approvals_within :: "store \<Rightarrow> store \<Rightarrow> bool" where
  "approvals_within s0 s \<longleftrightarrow> (\<forall>i r. store_get s i = Some r \<longrightarrow> inc_incident_id (ir_incident r) = i
     \<and> (\<forall>a\<in>set (ir_approvals r). \<exists>r0. store_get s0 i = Some r0 \<and> a \<in> set (ir_approvals r0)))"

definition adds_no_approval :: "store_op \<Rightarrow> bool" where
  "adds_no_approval op \<longleftrightarrow> (case op of Append_Evidence _ \<Rightarrow> True | Append_Failure _ \<Rightarrow> True
     | Append_Query _ \<Rightarrow> True | Append_Finding _ \<Rightarrow> True | Append_Model_Invocation _ \<Rightarrow> True
     | Append_Audit_Event _ \<Rightarrow> True | Complete_Investigation _ \<Rightarrow> True | Compare_And_Set _ _ \<Rightarrow> True
     | Append_Alert_Signal _ \<Rightarrow> True | Record_Policy_Decision _ \<Rightarrow> True | _ \<Rightarrow> False)"

lemma approvals_replace:
  assumes "approvals_within s0 s" "inc_incident_id (ir_incident r') = i"
    and "\<And>a. a \<in> set (ir_approvals r') \<Longrightarrow> \<exists>r0. store_get s0 i = Some r0 \<and> a \<in> set (ir_approvals r0)"
  shows "approvals_within s0 (store_replace r' s)"
  using assms by (simp add: approvals_within_def store_get_replace)

lemma approvals_method:
  assumes "approvals_within s0 s" "adds_no_approval op"
  shows "approvals_within s0 (snd (run_method i op s))"
proof (cases "run_method i op s")
  case (Pair res s')
  show ?thesis
  proof (cases res)
    case (Inl e)
    then show ?thesis using run_method_Inl [OF Pair [unfolded Inl]] Pair assms(1) by simp
  next
    case (Inr r')
    have id: "inc_incident_id (ir_incident r) = i" if "store_get s i = Some r" for r
      using assms(1) that by (simp add: approvals_within_def)
    obtain r where r: "store_get s i = Some r" "s' = store_replace r' s" "inc_incident_id (ir_incident r') = i"
      "ir_approvals r' = ir_approvals r"
      using id assms(2) Pair Inr
      by (cases op) (auto simp: bump_version_simps adds_no_approval_def store_method_defs store_update_Inr
        guarded_Inr append_evidence_record_def append_failure_record_def append_finding_record_def
        append_model_invocation_record_def append_audit_event_record_def complete_investigation_record_def
        compare_and_set_record_def append_query_record_def append_alert_signal_record_def
        record_policy_decision_record_def validate_record_Inr bind_result_Inr with_event_def
        dest: transition_incident_frame split: if_splits)
    have "\<exists>r0. store_get s0 i = Some r0 \<and> a \<in> set (ir_approvals r0)" if "a \<in> set (ir_approvals r')" for a
      using assms(1) r(1,4) that by (simp add: approvals_within_def)
    then show ?thesis using approvals_replace [OF assms(1) r(3)] r(2) Pair by simp
  qed
qed

lemma approvals_create:
  assumes "approvals_within s0 s"
  shows "approvals_within s0 (snd (store_create p g h1 h2 s))"
proof (cases "create_record p g h1 h2")
  case (Inl e)
  then show ?thesis using assms by (simp add: store_create_def)
next
  case (Inr r)
  then have "ir_approvals r = []" unfolding create_record_def Let_def
    by (auto simp: guarded_Inr new_record_def split: if_splits option.splits)
  then show ?thesis using approvals_replace [OF assms create_record_id [OF Inr]] Inr
    by (simp add: store_create_def)
qed

definition no_authority :: "'k world \<Rightarrow> 'k world \<Rightarrow> bool" where
  "no_authority w0 w \<longleftrightarrow> approvals_within (w_store w0) (w_store w)
     \<and> w_queue w = w_queue w0 \<and> w_leases w = w_leases w0"

lemma authority_call: "adds_no_approval op \<Longrightarrow> keeps (no_authority w0) (on_store (run_method i op))"
  by (rule keeps_on_store) (simp add: no_authority_def approvals_method)

lemma authority_calls:
  "keeps (no_authority w0) (on_store (append_evidence i e))"
  "keeps (no_authority w0) (on_store (append_alert_signal i g))"
  "keeps (no_authority w0) (on_store (append_evidence_retrieval_failure i f))"
  "keeps (no_authority w0) (on_store (append_evidence_query i q))"
  "keeps (no_authority w0) (on_store (append_finding i d))"
  "keeps (no_authority w0) (on_store (append_model_invocation i m))"
  "keeps (no_authority w0) (on_store (complete_investigation i c))"
  "keeps (no_authority w0) (on_store (append_audit_event i a))"
  "keeps (no_authority w0) (on_store (compare_and_set i n b))"
  "keeps (no_authority w0) (on_store (record_policy_decision i p))"
  "keeps (no_authority w0) (on_store (store_create ap sg h1 h2))"
  using authority_call [of "Append_Evidence e"] authority_call [of "Append_Failure f"]
    authority_call [of "Append_Query q"] authority_call [of "Append_Finding d"]
    authority_call [of "Append_Model_Invocation m"] authority_call [of "Complete_Investigation c"]
    authority_call [of "Append_Audit_Event a"] authority_call [of "Compare_And_Set n b"]
    authority_call [of "Record_Policy_Decision p"] authority_call [of "Append_Alert_Signal g"]
    keeps_on_store [of "no_authority w0" "store_create ap sg h1 h2"]
  by (simp_all add: adds_no_approval_def no_authority_def approvals_create)

lemma authority_providers:
  "keeps (no_authority w0) (on_kube m)" "keeps (no_authority w0) (now_act en)" "keeps (no_authority w0) (uuid4 en)"
  by (auto intro: keeps_intros simp: no_authority_def keeps_def uuid4_def now_act_def on_kube_def on_part_def
    split: prod.split)

interpretation unauthorized_query: gateway_client "no_authority w0" en for w0 en
  by unfold_locales (auto intro: authority_calls authority_providers simp: no_authority_def)

interpretation unauthorized: command_client "no_authority w0" en for w0 en
  by unfold_locales (auto intro: authority_calls unauthorized_query.execute_query)

lemma keeps_leases:
  "keeps (\<lambda>w. w_leases w = l) (on_store m)" "keeps (\<lambda>w. w_leases w = l) (on_kube k)"
  "keeps (\<lambda>w. w_leases w = l) (now_act en)" "keeps (\<lambda>w. w_leases w = l) (uuid4 en)"
  by (auto simp: keeps_def on_store_def on_kube_def on_part_def now_act_def uuid4_def split: prod.split)

interpretation leased: decision_client "\<lambda>w. w_leases w = l" en for l en
  by unfold_locales (auto intro: keeps_leases)

lemmas read_route_defs = get_incident_def replay_timeline_def stream_timeline_def stream_cursor_def
  refusing_def body_def when_valid_def try_except_def seq_def gets_def get_record_def lift_result_def ret_def raise_def

text \<open>Requests that only read, and commands of a Viewer, change nothing.\<close>

fun is_command :: "api_request \<Rightarrow> bool" where
  "is_command (Open_Incident q) = True"
| "is_command (Investigate i events answer) = True"
| "is_command (Review i) = True"
| "is_command (Decide i q) = True"
| "is_command (Close i n) = True"
| "is_command _ = False"

fun is_query :: "api_request \<Rightarrow> bool" where
  "is_query (Run_Query i q) = True"
| "is_query _ = False"

fun is_decision :: "api_request \<Rightarrow> bool" where
  "is_decision (Decide i q) = True"
| "is_decision _ = False"

lemma read_route: "\<not> is_command q \<Longrightarrow> \<not> is_query q \<Longrightarrow> snd (serve_route en st identity q w) = w"
  by (cases q) (auto simp: read_route_defs split: option.splits sum.splits prod.splits)

lemma viewer_route: "oi_role identity \<noteq> RESPONDER \<Longrightarrow> is_command q \<Longrightarrow> snd (serve_route en st identity q w) = w"
  by (cases q) (simp_all add: with_responder_def require_intervention_readiness_def ret_def)

lemma authority_route:
  assumes "\<not> is_decision q"
  shows "keeps (no_authority w0) (serve_route en st identity q)"
proof (cases q)
  case (Review i)
  have "keeps (no_authority w0) (review_proposal en st i identity)" for identity
    unfolding review_proposal_def by (intro keeps_route unauthorized_query.reviewing)
  then show ?thesis using Review by (simp add: keeps_route)
next
  case (Open_Incident x)
  then show ?thesis by (simp add: keeps_route unauthorized.opened)
next
  case (Investigate i events answer)
  then show ?thesis by (simp add: keeps_route unauthorized.investigation)
next
  case (Close i n)
  then show ?thesis by (simp add: keeps_route unauthorized.closing)
next
  case (Run_Query i x)
  then show ?thesis by (simp add: keeps_route unauthorized.querying)
next
  case (Decide i x)
  then show ?thesis using assms by simp
qed (rule keepsI, subst read_route; simp)+

definition ready_for_approval :: "'k app_state \<Rightarrow> bool" where
  "ready_for_approval st \<longleftrightarrow> (st_runtime_mode st = ''deployed'' \<longrightarrow> approval_enabled (st_readiness st))"

lemma decision_route:
  assumes "is_decision q"
  shows "w_leases (snd (serve_route en st identity q w)) = w_leases w"
    and "ready_for_approval st \<or> snd (serve_route en st identity q w) = w"
proof -
  obtain i d where q: "q = Decide i d" using assms by (cases q) simp_all
  have "keeps (\<lambda>w'. w_leases w' = w_leases w) (serve_route en st identity q)"
    unfolding q by (simp add: decide_proposal_def) (intro keeps_route leased.decide)
  from keepsD [OF this, of w] show "w_leases (snd (serve_route en st identity q w)) = w_leases w" by simp
  show "ready_for_approval st \<or> snd (serve_route en st identity q w) = w"
    unfolding q by (simp add: require_intervention_readiness_def ready_for_approval_def ret_def)
qed

text \<open>What the proxy's assertion says of an identity.\<close>

definition vouched :: "iap_provider \<Rightarrow> string option \<Rightarrow> operator_identity \<Rightarrow> bool" where
  "vouched ip assertion identity \<longleftrightarrow> (\<exists>token cs email. assertion = Some token \<and> token \<noteq> []
     \<and> ip_verifier ip token (ip_audience ip) = Inr cs
     \<and> dict_get cs ''iss'' = Some (JStr iap_issuer) \<and> dict_get cs ''sub'' = Some (JStr (oi_subject identity))
     \<and> dict_get cs ''email'' = Some (JStr email) \<and> oi_principal identity = normalize_principal email
     \<and> (oi_role identity = RESPONDER \<longrightarrow> {''*'', normalize_principal email} \<inter> set (ip_responders ip) \<noteq> {}))"

lemma iap_vouched: "iap_authenticate ip assertion = Inr identity \<Longrightarrow> vouched ip assertion identity"
  by (erule iap_authenticate_Inr) (auto simp: vouched_def role_of_def)

definition speaks_for :: "identity_provider \<Rightarrow> string option \<Rightarrow> operator_identity \<Rightarrow> bool" where
  "speaks_for provider assertion identity \<longleftrightarrow> authenticate provider assertion = Inr identity
     \<and> (case provider of IAP ip \<Rightarrow> vouched ip assertion identity | Local i \<Rightarrow> identity = i | Unavailable \<Rightarrow> False)"

lemma authenticated: "authenticate provider assertion = Inr identity \<Longrightarrow> speaks_for provider assertion identity"
  by (cases provider) (simp_all add: speaks_for_def iap_vouched)


section \<open>The event stream\<close>

text \<open>The stores a client's stream reads, each grown from the one before.\<close>

fun read_along :: "store \<Rightarrow> store list \<Rightarrow> bool" where
  "read_along s [] = True"
| "read_along s (s' # stores) \<longleftrightarrow> grown s s' \<and> read_along s' stores"

lemma last_cursor:
  assumes "store_inv s" "store_get s i = Some r"
  shows "(case last_option (drop n (ir_audit_events r)) of None \<Rightarrow> int n | Some e \<Rightarrow> ae_cursor e)
    = int (max n (length (ir_audit_events r)))"
proof (cases "n < length (ir_audit_events r)")
  case True
  have "audit_ok r" using store_inv_get [OF assms] by (simp add: record_inv_def)
  then have "ae_cursor (last (ir_audit_events r)) = int (length (ir_audit_events r))"
    using True by (cases "ir_audit_events r" rule: rev_cases) (simp_all add: audit_ok_def)
  then show ?thesis using True by (simp add: last_option_def last_drop max_def)
next
  case False
  then show ?thesis by (simp add: last_option_def max_def)
qed

lemma encode_delivers:
  assumes "read_along s stores" "store_inv s" "store_get s i = Some r"
  shows "\<exists>chunks r'. encode i (int n) stores = Inr chunks \<and> store_get (last (s # stores)) i = Some r'
    \<and> record_extends r r' \<and> (stores = [] \<and> chunks = [] \<or> delivered chunks = drop n (ir_audit_events r'))"
  using assms
proof (induction stores arbitrary: s r n)
  case Nil
  then show ?case by (simp add: record_extends_refl)
next
  case (Cons s' stores)
  obtain r1 where r1: "store_get s' i = Some r1" "record_extends r r1"
    using grown_get [of s s' i r] Cons.prems by auto
  have inv: "store_inv s'" by (rule grown_inv [of s]) (use Cons.prems(1) in simp)
  let ?m = "max n (length (ir_audit_events r1))"
  obtain chunks r' where c: "encode i (int ?m) stores = Inr chunks" "store_get (last (s' # stores)) i = Some r'"
    "record_extends r1 r'" "stores = [] \<and> chunks = [] \<or> delivered chunks = drop ?m (ir_audit_events r')"
    using Cons.IH [OF _ inv r1(1), of ?m] Cons.prems(1) by auto
  have events: "timeline i (int n) s' = Inr (drop n (ir_audit_events r1))"
    by (rule timeline_pages [OF inv r1(1)])
  have sent: "delivered ((if es = [] then [Heartbeat] else map Event es) @ cs) = es @ delivered cs" for es cs
  proof -
    have "delivered (map Event es @ cs) = es @ delivered cs" by (induction es) simp_all
    then show ?thesis by simp
  qed
  have "prefix (ir_audit_events r1) (ir_audit_events r')" using c(3) by (simp add: record_extends_def)
  then obtain more where more: "ir_audit_events r' = ir_audit_events r1 @ more" by (auto simp: prefix_def)
  have "drop n (ir_audit_events r1) @ delivered chunks = drop n (ir_audit_events r')"
  proof (cases "stores = []")
    case True
    then have "r' = r1" using c(2) r1(1) by simp
    then show ?thesis using True c(1) by simp
  next
    case False
    then show ?thesis using c(4) by (simp add: more max_def)
  qed
  moreover have "encode i (int n) (s' # stores) = Inr ((if drop n (ir_audit_events r1) = [] then [Heartbeat]
      else map Event (drop n (ir_audit_events r1))) @ chunks)"
    using c(1) by (simp add: events last_cursor [OF inv r1(1)] del: of_nat_max)
  moreover have "delivered ((if drop n (ir_audit_events r1) = [] then [Heartbeat]
      else map Event (drop n (ir_audit_events r1))) @ chunks) = drop n (ir_audit_events r1) @ delivered chunks"
    by (rule sent)
  moreover have "store_get (last (s # s' # stores)) i = Some r'" "record_extends r r'"
    using c(2) record_extends_trans [OF r1(2) c(3)] by simp_all
  ultimately show ?case by metis
qed

lemma stream_cursor_Inr: "stream_cursor after last_id = Inr cursor \<Longrightarrow> after \<le> cursor
    \<and> (\<forall>s n. last_id = Some s \<longrightarrow> parse_int s = Some n \<longrightarrow> cursor = max after n)"
  by (auto simp: stream_cursor_def split: option.splits)

text \<open>C39. The event stream delivers every audit event after its cursor exactly once and in order. A client
  that reconnects with the last identity it received (or asks for the events after a number) gets,
  over any number of readings of a store that changes meanwhile, exactly the events that follow: their
  identities are consecutive, up to the last event recorded at the last reading, and no reading
  fails.\<close>

theorem stream_delivers_each_event_once:
  assumes "store_inv (w_store w)" "0 \<le> after" "stream_timeline i after last_id w = (Inr (Reply cursor), w')"
    and "read_along (w_store w) stores" "stores \<noteq> []"
  shows "\<exists>chunks r'. encode i cursor stores = Inr chunks \<and> store_get (last stores) i = Some r'
    \<and> delivered chunks = drop (nat cursor) (ir_audit_events r')
    \<and> map ae_cursor (delivered chunks) = map int [Suc (nat cursor)..<Suc (length (ir_audit_events r'))]
    \<and> after \<le> cursor \<and> (\<forall>s n. last_id = Some s \<longrightarrow> parse_int s = Some n \<longrightarrow> cursor = max after n)"
proof -
  have c: "stream_cursor after last_id = Inr cursor" and t: "\<exists>es. timeline i cursor (w_store w) = Inr es"
    using assms(3) by (auto simp: stream_timeline_def refusing_def try_except_def seq_def gets_def lift_result_def
      ret_def raise_def value_refusal_def split: sum.splits if_splits)
  then obtain r where r: "store_get (w_store w) i = Some r"
    by (auto simp: timeline_def bind_result_Inr required_record_def split: option.splits)
  have cursor: "int (nat cursor) = cursor" using stream_cursor_Inr [OF c] assms(2) by simp
  obtain chunks r' where e: "encode i cursor stores = Inr chunks" "store_get (last stores) i = Some r'"
    "delivered chunks = drop (nat cursor) (ir_audit_events r')"
    using encode_delivers [OF assms(4,1) r, of "nat cursor"] assms(5) unfolding cursor by auto
  have "store_inv s" if "s \<in> set stores" "read_along s0 stores" for s s0
    using that by (induction stores arbitrary: s0) (auto dest: grown_inv)
  then have "store_inv (last stores)" using assms(4,5) last_in_set by blast
  from store_inv_get [OF this e(2)] have "audit_ok r'" by (simp add: record_inv_def)
  then have "map ae_cursor (ir_audit_events r') = map int [1..<Suc (length (ir_audit_events r'))]"
    by (simp add: audit_ok_def)
  then have "map ae_cursor (delivered chunks) = drop (nat cursor) (map int [1..<Suc (length (ir_audit_events r'))])"
    unfolding e(3) by (metis drop_map)
  then have "map ae_cursor (delivered chunks) = map int [Suc (nat cursor)..<Suc (length (ir_audit_events r'))]"
    by (simp add: drop_map del: upt_Suc)
  then show ?thesis using e stream_cursor_Inr [OF c] by blast
qed

section \<open>Closing under a running Intervention\<close>

text \<open>
  A Responder may close an incident from any other state, also while its Intervention runs; a closed
  incident then refuses the success the Executor reports, and the Executor halts instead.
\<close>

lemma closing_is_always_allowed:
  "inc_lifecycle (ir_incident r) \<noteq> CLOSED \<Longrightarrow> CLOSED \<in> set (lifecycle_transitions (inc_lifecycle (ir_incident r)))"
  by (cases "inc_lifecycle (ir_incident r)") simp_all

lemma closed_incident_refuses_success:
  assumes "inc_lifecycle (ir_incident r) = CLOSED" "iv_state v = IV_SUCCEEDED"
  shows "is_error (update_intervention_record i v e r)"
proof (cases "update_intervention_record i v e r")
  case (Inr r')
  then show ?thesis using assms
    by (auto simp: update_intervention_record_def guarded_Inr bind_result_Inr transition_incident_def Let_def
      split: option.splits)
qed simp

end
