(* ===== verification/Incident_Api_Runs.thy ===== *)
theory Incident_Api_Runs
  imports Incident_Api_Guarantees
begin

text \<open>
  Any sequence of requests, from any callers, keeps what the Investigator's worker keeps: the store
  stays valid and every record is extended, each notification is in at most one incident, and no
  Specialist exceeds its query budget.
\<close>

section \<open>Growth of the store in a route\<close>

lemma grows_new_event:
  "grows F (new_event en i k t a d) (\<lambda>e _. \<exists>u. e = \<lparr>ae_event_id = ''audit-'' @ u, ae_incident_id = i,
     ae_event_type = k, ae_occurred_at = t, ae_actor = a, ae_details = d, ae_cursor = 0\<rparr>)"
  by (rule growsI) (auto simp: wp_new_event grown_refl)

lemma grows_event_call:
  assumes "k \<noteq> []" "a \<noteq> []"
  shows "grows (exists_incident i) (on_store (append_audit_event i \<lparr>ae_event_id = ''audit-'' @ u, ae_incident_id = i,
     ae_event_type = k, ae_occurred_at = t, ae_actor = a, ae_details = d, ae_cursor = 0\<rparr>)) (\<lambda>_ _. True)"
proof (rule grows_pre [where c = "i \<noteq> []"])
  assume "i \<noteq> []"
  then show ?thesis using assms by (intro grows_keeps growing.calls) (simp add: wf_audit_event_def)
qed (rule known_id)

lemma grows_given: "(c \<Longrightarrow> grows F m Q) \<Longrightarrow> grows (\<lambda>s. F s \<and> c) m Q"
  by (auto simp: grows_def)

lemma grows_publish:
  "grows (exists_incident i) (publish_request en publisher i r a now) (\<lambda>_ _. True)"
proof -
  have queue: "grows F (on_queue m) (\<lambda>_ _. True)" for F :: "store \<Rightarrow> bool" and m :: "(request_queue, unit) act"
    by (rule grows_keeps, rule keeps_on_queue) simp
  have event: "grows (exists_incident i) (seq (new_event en i ''intervention_requested'' t ''investigator'' d)
      (\<lambda>event. on_store (append_audit_event i event))) (\<lambda>_ _. True)" for t d
    by (rule grows_bind [OF lasting_exists grows_new_event], rule grows_given, elim exE, simp only:)
      (rule grows_event_call, simp_all)
  show ?thesis unfolding publish_request_def
    by (intro grows_validated grows_then [OF lasting_exists] queue event)
qed

lemma grows_record_decision:
  "grows (exists_incident i) (record_decision en i identity choice b now p) (\<lambda>_ _. True)"
proof -
  have call: "grows (exists_incident i) (on_store (record_approval_decision g t i n a e)) (\<lambda>_ _. True)" for g t n a e
    using grows_call [of "Record_Approval_Decision g t n a e" _ i] by (simp add: wf_op_def)
  have event: "grows (exists_incident i) (new_event en i k t a d) (\<lambda>_ _. True)" for k t a d
    by (rule grows_weaken [OF grows_new_event]) simp_all
  show ?thesis unfolding record_decision_def
    by (intro grows_then [OF lasting_exists] grows_providers grows_validated event grows_try [OF lasting_exists]
        call grows_raise grows_ret) simp_all
qed

lemma grows_fresh: "grows F (fresh_context en i identity b) (\<lambda>_ _. True)"
  by (rule grows_keeps) (rule growing_policy.fresh)

lemma grows_decide: "grows (exists_incident i) (decide en publisher i identity choice b) (\<lambda>_ _. True)"
proof -
  have "grows (exists_incident i) (case publisher of None \<Rightarrow> ret r | Some pb \<Rightarrow>
      if choice = APPROVED then publish_request en pb i r a now else ret r) (\<lambda>_ _. True)" for r a now
    by (intro grows_option grows_if grows_publish grows_ret) simp_all
  then show ?thesis unfolding decide_def
    by (intro grows_then [OF lasting_exists] grows_fresh)
      (auto intro!: grows_then [OF lasting_exists] grows_record_decision split: prod.split)
qed

lemma grows_refusing: "lasting F \<Longrightarrow> grows F m (\<lambda>_ _. True) \<Longrightarrow> grows F (refusing f m) (\<lambda>_ _. True)"
  unfolding refusing_def
  by (rule grows_try) (auto intro: grows_raise grows_ret split: option.split)

lemma grows_get: "grows F (get_record i) (\<lambda>_ _. True)"
  by (rule grows_weaken [OF grows_get_record]) simp_all

lemma grows_close:
  assumes "wf_operator_identity identity"
  shows "grows (exists_incident i) (close_incident en i identity n) (\<lambda>_ _. True)"
proof -
  have who: "oi_principal identity \<noteq> []" using assms by (simp add: wf_operator_identity_def)
  have call: "grows (exists_incident i) (on_store (compare_and_set i n b)) (\<lambda>_ _. True)" for b
    by (intro grows_keeps growing.calls) simp
  show ?thesis unfolding close_incident_def
    by (intro grows_then [OF lasting_exists] grows_get grows_option grows_ret grows_refusing [OF lasting_exists]
        grows_validated call grows_providers grows_event_call who) simp_all
qed

lemma grows_investigation: "grows (exists_incident i) (investigate_incident en st i events answer) (\<lambda>_ _. True)"
proof -
  have investigated: "grows (exists_incident i) (investigate en cn i events answer) (\<lambda>_ _. True)" for cn
    by (rule grows_weaken [OF grows_investigate]) simp_all
  have policy: "grows (exists_incident i) (evaluate_and_record en i) (\<lambda>_ _. True)"
    by (rule grows_weaken [OF grows_evaluate_record]) simp_all
  show ?thesis unfolding investigate_incident_def
    by (intro grows_refusing [OF lasting_exists] grows_then [OF lasting_exists] investigated grows_option
        grows_if grows_ret policy) simp_all
qed

lemma grows_querying: "grows (exists_incident i) (run_evidence_query_route en st i q) (\<lambda>_ _. True)"
proof -
  have "grows (exists_incident i) (execute_query en gw i role ident n) (\<lambda>_ _. True)" for gw role ident n
    by (rule grows_weaken [OF grows_execute_query]) simp_all
  then show ?thesis unfolding run_evidence_query_route_def
    by (intro grows_refusing [OF lasting_exists] grows_then [OF lasting_exists] grows_ret) simp_all
qed

section \<open>Signals and budgets in a route\<close>

lemma decision_is_permitted: "keeps (quiet s0 u0) (on_store (record_approval_decision dg t i n ap ev))"
  using quiet_call [of i "Record_Approval_Decision dg t n ap ev"] by simp

interpretation quiet_decisions: decision_client "quiet s0 u0" en for s0 u0 en
  by unfold_locales (auto intro: decision_is_permitted quiet_calls simp: quiet_def)

lemma budget_decided: "keeps (\<lambda>w. within_budget (w_store w)) (on_store (record_approval_decision dg t i n ap ev))"
  using budget.call [of i "Record_Approval_Decision dg t n ap ev"] by simp

interpretation budgeted_decisions: decision_client "\<lambda>w. within_budget (w_store w)" en for en
  by unfold_locales (auto intro: budget_decided budget.calls)

section \<open>The state the routes keep\<close>

text \<open>The identities of manual signals are not yet in use.\<close>

definition manual_unused :: "'k environment \<Rightarrow> 'k world \<Rightarrow> bool" where
  "manual_unused en w \<longleftrightarrow> (\<forall>k\<ge>w_uuids w. \<forall>i. \<not> recorded (''manual-'' @ en_uuid en k) (w_store w) i)"

definition api_ok :: "'k environment \<Rightarrow> store \<Rightarrow> 'k world \<Rightarrow> bool" where
  "api_ok en s0 w \<longleftrightarrow> worker_ok en s0 w \<and> manual_unused en w"

lemma wp_snd: "wp m (\<lambda>_. P) (\<lambda>_. P) w \<longleftrightarrow> P (snd (m w))"
  by (cases "m w") (simp add: wp_def split: sum.split)

lemma api_step:
  fixes m :: "('k world, 'a) act"
  assumes ok: "api_ok en s0 w" and i: "exists_incident i (w_store w)"
    and m: "grows (exists_incident i) m (\<lambda>_ _. True)" "keeps (quiet (w_store w) (w_uuids w)) m"
      "keeps (\<lambda>w. within_budget (w_store w)) m"
  shows "api_ok en s0 (snd (m w))"
proof -
  have worker: "worker_ok en s0 w" using ok by (simp add: api_ok_def)
  have "store_inv (w_store w)" using worker by (simp add: worker_ok_def grown_def)
  then have "quiet (w_store w) (w_uuids w) w" using store_inv_get by (auto simp: quiet_def signals_are_def)
  from keepsD [OF m(2) this] have "w_uuids w \<le> w_uuids (snd (m w))" by (simp add: quiet_def)
  moreover have "recorded n (w_store (snd (m w))) j = recorded n (w_store w) j" for n j
    using worker_step(2) [OF worker i m] .
  ultimately show ?thesis using worker_step(1) [OF worker i m] ok
    by (auto simp: api_ok_def manual_unused_def)
qed

lemma api_unmoved: "api_ok en s0 w \<Longrightarrow> w_store w' = w_store w \<Longrightarrow> w_uuids w \<le> w_uuids w' \<Longrightarrow> api_ok en s0 w'"
  by (auto simp: api_ok_def worker_ok_def manual_unused_def unused_ids_def)

interpretation unmoved: policy_client "\<lambda>w. w_store w = s \<and> u \<le> w_uuids w" en for s u en
  by unfold_locales
    (auto intro: keeps_intros simp: keeps_def uuid4_def now_act_def on_kube_def on_part_def split: prod.split)

section \<open>The routes on one incident\<close>

lemma no_investigation: "store_get (w_store w) i = None \<Longrightarrow> snd (investigate_incident en st i events answer w) = w"
  by (simp add: investigate_incident_def investigate_def open_investigation_def refusing_def try_except_def
    seq_def get_record_def gets_def lift_result_def ret_def)

lemma no_closing: "store_get (w_store w) i = None \<Longrightarrow> snd (close_incident en i identity n w) = w"
  by (simp add: close_incident_def seq_def get_record_def gets_def ret_def)

lemma no_querying: "store_get (w_store w) i = None \<Longrightarrow> snd (run_evidence_query_route en st i q w) = w"
  by (simp add: run_evidence_query_route_def execute_query_def authorize_query_def refusing_def try_except_def
    seq_def get_record_def gets_def lift_result_def ret_def)

lemma no_decision:
  assumes "store_get (w_store w) i = None"
  shows "snd (decide en publisher i identity choice b w) = snd (fresh_context en i identity b w)"
proof (cases "fresh_context en i identity b w")
  case (Pair res w1)
  show ?thesis
  proof (cases res)
    case (Inl e)
    then show ?thesis using Pair by (simp add: decide_def seq_def)
  next
    case (Inr x)
    then have "\<exists>r. store_get (w_store w) i = Some r" using Pair by (cases x) (auto elim: fresh_context_Inr)
    with assms show ?thesis by simp
  qed
qed

lemma snd_refusing: "snd (refusing f (seq m (\<lambda>r. ret (g r))) w) = snd (m w)"
  by (cases "m w") (simp add: refusing_def try_except_def seq_def ret_def raise_def split: sum.split option.split)

lemma api_investigation:
  assumes "api_ok en s0 w"
  shows "api_ok en s0 (snd (investigate_incident en st i events answer w))"
proof (cases "store_get (w_store w) i")
  case (Some r)
  then show ?thesis by (intro api_step [OF assms, of i] grows_investigation quiet.investigation budgeted.investigation)
    (simp add: known_def)
qed (simp add: no_investigation assms)

lemma api_closing:
  assumes "api_ok en s0 w" "wf_operator_identity identity"
  shows "api_ok en s0 (snd (close_incident en i identity n w))"
proof (cases "store_get (w_store w) i")
  case (Some r)
  then show ?thesis by (intro api_step [OF assms(1), of i] grows_close assms(2) quiet.closing budgeted.closing)
    (simp add: known_def)
qed (simp add: no_closing assms)

lemma api_querying:
  assumes "api_ok en s0 w"
  shows "api_ok en s0 (snd (run_evidence_query_route en st i q w))"
proof (cases "store_get (w_store w) i")
  case (Some r)
  then show ?thesis by (intro api_step [OF assms, of i] grows_querying quiet.querying budgeted.querying)
    (simp add: known_def)
qed (simp add: no_querying assms)

lemma api_deciding:
  fixes w :: "'k world"
  assumes "api_ok en s0 w"
  shows "api_ok en s0 (snd (decide en publisher i identity choice b w))"
proof (cases "store_get (w_store w) i")
  case None
  have "w_store (snd (fresh_context en i identity b w)) = w_store w \<and> w_uuids w \<le> w_uuids (snd (fresh_context en i identity b w))"
    by (rule keepsD [OF unmoved.fresh]) simp
  then show ?thesis using api_unmoved [OF assms] by (simp add: no_decision [OF None])
next
  case (Some r)
  then show ?thesis
    by (intro api_step [OF assms, of i] grows_decide quiet_decisions.decide budgeted_decisions.decide)
      (simp add: known_def)
qed

section \<open>Opening an incident\<close>

definition recorded_within :: "string set \<Rightarrow> store \<Rightarrow> bool" where
  "recorded_within M s \<longleftrightarrow> (\<forall>n i. recorded n s i \<longrightarrow> n \<in> M)"

lemma recorded_within_replace:
  assumes "recorded_within M s" "\<And>n. has_notification n r' \<Longrightarrow> n \<in> M"
  shows "recorded_within M (store_replace r' s)"
  using assms by (auto simp: recorded_within_def recorded_def store_get_replace)

lemma recorded_within_create:
  assumes "recorded_within M s"
  shows "recorded_within M (snd (store_create p g h1 h2 s))"
proof (cases "create_record p g h1 h2")
  case (Inl e)
  then show ?thesis using assms by (simp add: store_create_def)
next
  case (Inr r)
  then have "ir_alert_signals r = []" unfolding create_record_def Let_def
    by (auto simp: guarded_Inr new_record_def split: if_splits option.splits)
  then have "recorded_within M (store_replace r s)"
    by (intro recorded_within_replace [OF assms]) (simp add: has_notification_def)
  then show ?thesis using Inr by (simp add: store_create_def)
qed

lemma recorded_within_signal:
  assumes "recorded_within M s" "se_notification_id e \<in> M"
  shows "recorded_within M (snd (append_alert_signal i e s))"
proof (cases "append_alert_signal i e s")
  case (Pair res s')
  show ?thesis
  proof (cases res)
    case (Inl x)
    then show ?thesis using Pair assms(1) run_method_Inl [of i "Append_Alert_Signal e" s x s'] by simp
  next
    case (Inr r')
    then obtain r where r: "store_get s i = Some r" "s' = store_replace r' s"
      "ir_alert_signals r' = ir_alert_signals r @ [e]"
      using Pair by (auto simp: append_alert_signal_def store_update_Inr append_alert_signal_record_def guarded_Inr)
    have "n \<in> M" if n: "has_notification n r'" for n
    proof (cases "has_notification n r")
      case True
      then have "recorded n s i" using r(1) by (simp add: recorded_def)
      then show ?thesis using assms(1) unfolding recorded_within_def by blast
    next
      case False
      then show ?thesis using n r(3) assms(2) by (auto simp: has_notification_def)
    qed
    from recorded_within_replace [OF assms(1) this] show ?thesis using Pair r(2) by simp
  qed
qed

text \<open>While an incident is opened: what alerts keep, and which notifications can be recorded.\<close>

definition opening_state :: "'k environment \<Rightarrow> store \<Rightarrow> string set \<Rightarrow> nat \<Rightarrow> 'k world \<Rightarrow> bool" where
  "opening_state en s M k w \<longleftrightarrow> alert_state en False s w \<and> within_budget (w_store w)
     \<and> recorded_within M (w_store w) \<and> k \<le> w_uuids w"

lemma opening_ok:
  assumes ok: "api_ok en s0 w" and st: "opening_state en (w_store w) M (Suc (w_uuids w)) w'"
    and M: "M = insert (''manual-'' @ en_uuid en (w_uuids w)) {n. \<exists>i. recorded n (w_store w) i}"
  shows "api_ok en s0 w'"
proof -
  have inv: "store_inv (w_store w)" and inj: "inj (en_uuid en)"
    using ok by (auto simp: api_ok_def worker_ok_def grown_def unused_ids_def)
  have "grown (w_store w) (w_store w')"
    using st by (auto simp: opening_state_def alert_state_def grown_def same_incidents_def)
  then have "worker_ok en s0 w'" using ok st grown_trans
    by (auto simp: api_ok_def worker_ok_def opening_state_def alert_state_def)
  moreover have "\<not> recorded (''manual-'' @ en_uuid en k) (w_store w') i" if "w_uuids w' \<le> k" for k i
  proof
    assume r: "recorded (''manual-'' @ en_uuid en k) (w_store w') i"
    have k: "Suc (w_uuids w) \<le> k" using that st by (simp add: opening_state_def)
    have "''manual-'' @ en_uuid en k \<in> M" using r st unfolding opening_state_def recorded_within_def by blast
    then have "en_uuid en k = en_uuid en (w_uuids w) \<or> (\<exists>i. recorded (''manual-'' @ en_uuid en k) (w_store w) i)"
      using M by simp
    then show False using inj k ok by (auto simp: inj_eq api_ok_def manual_unused_def)
  qed
  ultimately show ?thesis by (simp add: api_ok_def manual_unused_def)
qed

lemma opening_counters:
  "opening_state en s M k w \<Longrightarrow> w_store w' = w_store w \<Longrightarrow> w_uuids w \<le> w_uuids w' \<Longrightarrow> opening_state en s M k w'"
  by (auto simp: opening_state_def intro: alert_state_counters)

lemma opening_create:
  assumes "opening_state en s M k w" "wf_application_profile p" "unrecorded n w"
  shows "wp (create_incident en p g) (\<lambda>r w'. opening_state en s M k w' \<and> unrecorded n w'
      \<and> store_get (w_store w') (inc_incident_id (ir_incident r)) = Some r) (\<lambda>_. opening_state en s M k) w"
proof -
  let ?I = "\<lambda>w. within_budget (w_store w) \<and> recorded_within M (w_store w) \<and> k \<le> w_uuids w"
  have "keeps (\<lambda>w. recorded_within M (w_store w) \<and> k \<le> w_uuids w) (create_incident en p g)"
    unfolding create_incident_def
    by (intro keeps_seq keeps_on_store) (auto simp: keeps_def uuid4_def recorded_within_create)
  then have "keeps ?I (create_incident en p g)"
    using budget_create [OF assms(2), of en g] by (auto simp: keeps_def split: prod.splits)
  then have "wp (create_incident en p g) (\<lambda>_. ?I) (\<lambda>_. ?I) w"
    using keepsD [of ?I "create_incident en p g" w] assms(1) by (simp add: opening_state_def wp_snd)
  moreover have "wp (create_incident en p g) (\<lambda>r w'. alert_state en False s w' \<and> unrecorded n w'
      \<and> store_get (w_store w') (inc_incident_id (ir_incident r)) = Some r) (\<lambda>_ w'. alert_state en False s w') w"
    by (rule create_wp) (use assms in \<open>simp_all add: opening_state_def\<close>)
  ultimately show ?thesis by (auto simp: wp_def opening_state_def split: prod.splits sum.splits)
qed

lemma opening_signal:
  assumes "opening_state en s M k w" "unrecorded (se_notification_id e) w" "wf_alert_signal_evidence e"
    and "se_notification_id e \<in> M"
  shows "wp (on_store (append_alert_signal i e)) (\<lambda>r w'. opening_state en s M k w') (\<lambda>_. opening_state en s M k) w"
proof -
  let ?I = "\<lambda>w. within_budget (w_store w) \<and> recorded_within M (w_store w) \<and> k \<le> w_uuids w"
  have "keeps (\<lambda>w. recorded_within M (w_store w) \<and> k \<le> w_uuids w) (on_store (append_alert_signal i e))"
    by (intro keeps_on_store) (simp add: recorded_within_signal assms(4))
  then have "keeps ?I (on_store (append_alert_signal i e))"
    using budget.calls(2) [of i e] by (auto simp: keeps_def split: prod.splits)
  then have "wp (on_store (append_alert_signal i e)) (\<lambda>_. ?I) (\<lambda>_. ?I) w"
    using keepsD [of ?I "on_store (append_alert_signal i e)" w] assms(1) by (simp add: opening_state_def wp_snd)
  moreover have "wp (on_store (append_alert_signal i e)) (\<lambda>r w'. alert_state en False s w'
      \<and> alert_stored (se_notification_id e) r w') (\<lambda>_ w'. alert_state en False s w') w"
    by (rule append_signal_wp) (use assms in \<open>simp_all add: opening_state_def\<close>)
  ultimately show ?thesis by (auto simp: wp_def opening_state_def split: prod.splits sum.splits)
qed

text \<open>What follows the recorded signal: the audit event, the evidence and the record.\<close>

definition announce_opening ::
  "'k environment \<Rightarrow> 'k app_state \<Rightarrow> operator_identity \<Rightarrow> application_profile \<Rightarrow> alert_signal \<Rightarrow> string
     \<Rightarrow> ('k world, investigation_record) act" where
  "announce_opening en st identity p g incident_id =
    seq (seq (uuid4 en) (\<lambda>u. seq (now_act en) (\<lambda>t.
      on_store (append_audit_event incident_id
        \<lparr>ae_event_id = ''audit-'' @ u, ae_incident_id = incident_id, ae_event_type = ''incident_opened'',
         ae_occurred_at = t, ae_actor = oi_principal identity, ae_details = [], ae_cursor = 0\<rparr>)))) (\<lambda>r'.
    let i = inc_incident_id (ir_incident r') in
    seq (collect en (st_evidence st) (st_redactor st) i p g (ir_evidence_window r')) (\<lambda>_.
    seq (get_record i) (\<lambda>completed. case completed of
      None \<Rightarrow> raise (RuntimeError ''incident disappeared while collecting its evidence window'')
    | Some c \<Rightarrow> ret c)))"

context investigation_client
begin

lemma announced: "keeps I (announce_opening en st identity p g i)"
  unfolding announce_opening_def Let_def by (intro keeps_route uuid clock event_added collect)

end

lemma grows_returned:
  assumes call: "grows (exists_incident i) (on_store (append_audit_event i e) :: ('k world, investigation_record) act) (\<lambda>_ _. True)"
  shows "grows (exists_incident i) (on_store (append_audit_event i e) :: ('k world, investigation_record) act)
    (\<lambda>r s. exists_incident (inc_incident_id (ir_incident r)) s)"
proof (rule growsI)
  fix w :: "'k world" assume w: "store_inv (w_store w)" "exists_incident i (w_store w)"
  have "wp (on_store (append_audit_event i e)) (\<lambda>r w'. exists_incident (inc_incident_id (ir_incident r)) (w_store w'))
      (\<lambda>_ _. True) w"
    unfolding append_audit_event_def by (rule wp_store_update) (simp_all add: known_def store_get_replace)
  with growsD [OF call w] show "wp (on_store (append_audit_event i e)) (\<lambda>r w'. grown (w_store w) (w_store w')
      \<and> exists_incident (inc_incident_id (ir_incident r)) (w_store w')) (\<lambda>_ w'. grown (w_store w) (w_store w')) w"
    by (auto simp: wp_def split: prod.splits sum.splits)
qed

lemma grows_announced:
  assumes "valid_evidence_provider (st_evidence st)" "wf_operator_identity identity"
  shows "grows (exists_incident i) (announce_opening en st identity p g i) (\<lambda>_ _. True)"
proof -
  have who: "oi_principal identity \<noteq> []" using assms(2) by (simp add: wf_operator_identity_def)
  have collected: "grows (exists_incident j) (seq (collect en (st_evidence st) (st_redactor st) j p g window) (\<lambda>_.
      seq (get_record j) (\<lambda>completed. case completed of
        None \<Rightarrow> raise (RuntimeError ''incident disappeared while collecting its evidence window'')
      | Some c \<Rightarrow> ret c))) (\<lambda>_ _. True)" for j window
    by (intro grows_then [OF lasting_exists] grows_collect assms(1) grows_get grows_option grows_raise grows_ret)
      simp
  show ?thesis unfolding announce_opening_def Let_def
    by (rule grows_seq [OF _ collected], intro grows_then [OF lasting_exists] grows_providers grows_returned
        grows_event_call who) simp
qed

lemma announce_eq: "wp (record_opening en identity g i) (\<lambda>r'. wp (let i = inc_incident_id (ir_incident r') in
    seq (collect en (st_evidence st) (st_redactor st) i p g (ir_evidence_window r')) (\<lambda>_.
    seq (get_record i) (\<lambda>completed. case completed of
      None \<Rightarrow> raise (RuntimeError ''incident disappeared while collecting its evidence window'')
    | Some c \<Rightarrow> ret c))) Q E) E w = wp (seq (now_act en) (\<lambda>received.
    seq (on_store (append_alert_signal i
      \<lparr>se_notification_id = sg_signal_id g, se_incident_id = i, se_signal = g,
       se_provider_state = State_Open, se_received_at = received\<rparr>)) (\<lambda>_. announce_opening en st identity p g i))) Q E w"
  by (simp add: record_opening_def announce_opening_def wp_seq)

lemma open_enrolled_ok:
  fixes w :: "'k world"
  assumes ok: "api_ok en s0 w" and p: "wf_application_profile p"
    and pr: "valid_evidence_provider (st_evidence st)" and who: "wf_operator_identity identity"
  shows "api_ok en s0 (snd (open_enrolled en st identity q p w))"
proof -
  let ?n = "''manual-'' @ en_uuid en (w_uuids w)" and ?k = "Suc (w_uuids w)"
  let ?M = "insert ?n {n. \<exists>i. recorded n (w_store w) i}"
  let ?P = "\<lambda>_. api_ok en s0"
  define w1 where "w1 = w\<lparr>w_uuids := ?k, w_readings := Suc (w_readings w)\<rparr>"
  have "alert_state en False (w_store w) w1"
    by (rule alert_state_counters [of en False "w_store w" w], rule alert_state_start)
      (use ok in \<open>simp_all add: api_ok_def worker_ok_def grown_def w1_def\<close>)
  then have st1: "opening_state en (w_store w) ?M ?k w1" using ok
    by (auto simp: opening_state_def w1_def api_ok_def worker_ok_def recorded_within_def)
  have new: "unrecorded ?n w1" using ok by (simp add: unrecorded_def w1_def api_ok_def manual_unused_def)
  have done': "api_ok en s0 w'" if "opening_state en (w_store w) ?M ?k w'" for w'
    by (rule opening_ok [OF ok that refl])
  have announce: "wp (announce_opening en st identity p g i) ?P ?P w3"
    if st: "opening_state en (w_store w) ?M ?k w3" and i: "exists_incident i (w_store w3)" for g i w3
    unfolding wp_snd
    by (rule api_step [OF done' [OF st] i grows_announced [OF pr who] quiet.announced budgeted.announced])
  have signal: "wp (seq (now_act en) (\<lambda>received. seq (on_store (append_alert_signal i
      \<lparr>se_notification_id = ?n, se_incident_id = i, se_signal = g,
       se_provider_state = State_Open, se_received_at = received\<rparr>)) (\<lambda>_. announce_opening en st identity p g i))) ?P ?P w2"
    if st: "opening_state en (w_store w) ?M ?k w2" "unrecorded ?n w2" and g: "wf_alert_signal g"
      and r: "store_get (w_store w2) i = Some r" for g i r w2
  proof -
    define w3 where "w3 = w2\<lparr>w_readings := Suc (w_readings w2)\<rparr>"
    have i: "i \<noteq> []" using store_inv_get r st(1) record_inv_id
      by (fastforce simp: opening_state_def alert_state_def)
    have st3: "opening_state en (w_store w) ?M ?k w3" "unrecorded ?n w3" "store_get (w_store w3) i = Some r"
      using opening_counters [OF st(1), of w3] st(2) r by (simp_all add: w3_def unrecorded_def)
    define e where "e = \<lparr>se_notification_id = ?n, se_incident_id = i, se_signal = g,
       se_provider_state = State_Open, se_received_at = en_clock en (w_readings w2)\<rparr>"
    have e: "wf_alert_signal_evidence e" "se_notification_id e = ?n" using g i by (simp_all add: e_def wf_alert_signal_evidence_def)
    have "wp (on_store (append_alert_signal i e)) (\<lambda>r w'. opening_state en (w_store w) ?M ?k w')
        (\<lambda>_. opening_state en (w_store w) ?M ?k) w3"
    proof (rule opening_signal [OF st3(1) _ e(1)])
      show "unrecorded (se_notification_id e) w3" unfolding e(2) by (rule st3(2))
      show "se_notification_id e \<in> ?M" unfolding e(2) by (rule insertI1)
    qed
    moreover have "wp (on_store (append_alert_signal i e)) (\<lambda>_ w'. exists_incident i (w_store w')) (\<lambda>_ _. True) w3"
      using st3(3) by (auto simp: wp_def on_store_def on_part_def append_alert_signal_def store_update_def
        required_record_def known_def store_get_replace split: sum.split prod.split)
    ultimately have "wp (on_store (append_alert_signal i e)) (\<lambda>r w'. opening_state en (w_store w) ?M ?k w'
        \<and> exists_incident i (w_store w')) (\<lambda>_. opening_state en (w_store w) ?M ?k) w3"
      by (auto simp: wp_def split: prod.splits sum.splits)
    then have "wp (on_store (append_alert_signal i e)) (\<lambda>_. wp (announce_opening en st identity p g i) ?P ?P) ?P w3"
      by (rule wp_mono) (use announce done' in blast)+
    then show ?thesis by (simp add: wp_seq wp_now w3_def e_def)
  qed
  have created: "wp (create_incident en p g) (\<lambda>r. wp (seq (now_act en) (\<lambda>received. seq (on_store (append_alert_signal
      (inc_incident_id (ir_incident r)) \<lparr>se_notification_id = ?n, se_incident_id = inc_incident_id (ir_incident r), se_signal = g,
       se_provider_state = State_Open, se_received_at = received\<rparr>))
       (\<lambda>_. announce_opening en st identity p g (inc_incident_id (ir_incident r))))) ?P ?P) ?P w1"
    if "wf_alert_signal g" for g
    by (rule wp_mono [OF opening_create [OF st1 p new]]) (use signal that done' in blast)+
  have manual: "wp (manual_signal en p q) Q ?P w"
    if "\<And>g. wf_alert_signal g \<Longrightarrow> sg_signal_id g = ?n \<Longrightarrow> Q g w1" for Q
  proof -
    have "api_ok en s0 w1" by (rule done' [OF st1])
    then show ?thesis using that
      by (simp add: manual_signal_def wp_seq wp_uuid4 wp_now Let_def wp_raise_when wp_lift_result normalize_def
        wf_alert_signal_def signal_of_def w1_def split: sum.split option.split)
  qed
  have "wp (open_enrolled en st identity q p) ?P ?P w"
    unfolding open_enrolled_def wp_seq announce_eq
    by (rule manual) (use created in \<open>simp add: wp_seq_fun\<close>)
  then show ?thesis by (simp only: wp_snd)
qed

section \<open>Any requests\<close>

text \<open>Profiles and local identities are validated documents, and the evidence provider returns such.\<close>

definition valid_app_state :: "'k app_state \<Rightarrow> bool" where
  "valid_app_state st \<longleftrightarrow> valid_profiles \<lparr>al_profiles = st_profiles st, al_correlation_window = 0\<rparr>
     \<and> valid_evidence_provider (st_evidence st)
     \<and> (case st_identity st of Local i \<Rightarrow> wf_operator_identity i | _ \<Rightarrow> True)"

lemma identity_wf:
  assumes "valid_app_state st" "authenticate (st_identity st) assertion = Inr identity"
  shows "wf_operator_identity identity"
proof (cases "st_identity st")
  case (IAP ip)
  then show ?thesis using assms(2)
    by (auto elim: iap_authenticate_Inr)
next
  case (Local i)
  then show ?thesis using assms by (simp add: valid_app_state_def)
qed (use assms(2) in simp)

lemma snd_seq_ret: "snd (seq m (\<lambda>r. ret (f r)) w) = snd (m w)"
  by (cases "m w") (simp add: seq_def ret_def split: sum.split)

lemma snd_ends: "snd (ret a w) = w" "snd (raise e w) = w"
  by (simp_all add: ret_def raise_def)

lemma api_opening:
  fixes w :: "'k world"
  assumes ok: "api_ok en s0 w" and st: "valid_app_state st" and who: "wf_operator_identity identity"
  shows "api_ok en s0 (snd (open_incident en st identity q w))"
proof -
  have pr: "valid_evidence_provider (st_evidence st)" using st by (simp add: valid_app_state_def)
  obtain res w1 where run: "on_kube (st_profiles st) w = (res, w1)" by fastforce
  have w1: "w_store w1 = w_store w" "w_uuids w1 = w_uuids w"
    using run by (auto simp: on_kube_def on_part_def split: prod.splits)
  have ok1: "api_ok en s0 w1" by (rule api_unmoved [OF ok]) (simp_all add: w1)
  show ?thesis
  proof (cases res)
    case (Inl e)
    then show ?thesis using run ok1 by (simp add: open_incident_def seq_def)
  next
    case (Inr results)
    then have "fst (st_profiles st (w_kube w)) = Inr results" using run
      by (auto simp: on_kube_def on_part_def split: prod.splits)
    then have valid: "list_all (\<lambda>l. pred_option wf_application_profile (lr_profile l)) results"
      using st unfolding valid_app_state_def valid_profiles_def
      by (metis alert_services.select_convs(1) old.sum.simps(6))
    let ?found = "List.find (\<lambda>l. lr_application_id l = Some (oq_application_id q)) results"
    have enrolled: "api_ok en s0 (snd (seq (on_kube (en_enrollment en p)) (\<lambda>snapshot.
          case require_enrolled_target p (check_enrollment p snapshot) (oq_target q) False of
            Inl e \<Rightarrow> if is_value_error e then ret (Refusal 409 ''enrollment_not_ready'' (exn_str e)) else raise e
          | Inr _ \<Rightarrow> seq (open_enrolled en st identity q p) (\<lambda>r. ret (Reply r))) w1))"
      if p: "wf_application_profile p" for p
    proof -
      obtain res2 w2 where run2: "on_kube (en_enrollment en p) w1 = (res2, w2)" by fastforce
      have "w_store w2 = w_store w1" "w_uuids w2 = w_uuids w1"
        using run2 by (auto simp: on_kube_def on_part_def split: prod.splits)
      then have ok2: "api_ok en s0 w2" by (intro api_unmoved [OF ok1]) simp_all
      show ?thesis using run2 ok2 open_enrolled_ok [OF ok2 p pr who]
        by (auto simp: seq_def [of "on_kube (en_enrollment en p)"] snd_seq_ret snd_ends split: sum.split)
    qed
    show ?thesis
    proof (cases ?found)
      case None
      then show ?thesis using run Inr ok1 by (simp add: open_incident_def seq_def ret_def)
    next
      case (Some l)
      then have l: "pred_option wf_application_profile (lr_profile l)"
        using valid by (auto simp: list_all_iff dest!: find_in_set)
      have "snd (open_incident en st identity q w) = snd ((case lr_profile l of
        None \<Rightarrow> ret (Refusal 409 ''profile_invalid'' (join ''; '' (map snd (lr_errors l))))
      | Some p \<Rightarrow>
          seq (on_kube (en_enrollment en p)) (\<lambda>snapshot.
          case require_enrolled_target p (check_enrollment p snapshot) (oq_target q) False of
            Inl e \<Rightarrow> if is_value_error e then ret (Refusal 409 ''enrollment_not_ready'' (exn_str e)) else raise e
          | Inr _ \<Rightarrow> seq (open_enrolled en st identity q p) (\<lambda>r. ret (Reply r)))) w1)"
        using run Inr Some by (simp add: open_incident_def seq_def [of "on_kube (st_profiles st)"])
      then show ?thesis using enrolled l ok1
        by (cases "lr_profile l") (simp_all add: snd_ends)
    qed
  qed
qed

lemma snd_body: "snd (body f m w) = snd (m w)"
  by (simp add: body_def snd_seq_ret)

lemma api_review:
  fixes w :: "'k world"
  assumes "api_ok en s0 w"
  shows "api_ok en s0 (snd (review_proposal en st i identity w))"
proof -
  have "w_store (snd (review en ttl i identity w)) = w_store w \<and> w_uuids w \<le> w_uuids (snd (review en ttl i identity w))" for ttl
    by (rule keepsD [OF unmoved.reviewing]) simp
  then show ?thesis using api_unmoved [OF assms] by (simp add: review_proposal_def snd_refusing)
qed

lemma api_route:
  assumes ok: "api_ok en s0 w" and st: "valid_app_state st" and who: "wf_operator_identity identity"
  shows "api_ok en s0 (snd (serve_route en st identity q w))"
proof (cases "is_command q \<or> is_query q")
  case False
  then show ?thesis using ok read_route [of q en st identity w] by simp
next
  case True
  then show ?thesis
    by (cases q) (simp_all add: with_responder_def require_intervention_readiness_def when_valid_def snd_body snd_ends
      snd_refusing decide_proposal_def ok api_opening [OF ok st who] api_investigation [OF ok] api_closing [OF ok who]
      api_querying [OF ok] api_deciding [OF ok] api_review [OF ok])
qed

lemma api_serve:
  assumes "api_ok en s0 w" "valid_app_state st"
  shows "api_ok en s0 (snd (serve en st assertion q w))"
proof (cases "authenticate (st_identity st) assertion")
  case (Inl e)
  then show ?thesis using assms(1) by (simp add: serve_def with_identity_def ret_def raise_def)
next
  case (Inr identity)
  then show ?thesis using api_route [OF assms identity_wf [OF assms(2) Inr]]
    by (simp add: serve_def with_identity_def)
qed

lemma api_serve_all:
  assumes "valid_app_state st"
  shows "api_ok en s0 w \<Longrightarrow> api_ok en s0 (snd (serve_all en st qs w))"
proof (induction qs arbitrary: w)
  case (Cons q qs)
  obtain assertion x where q: "q = (assertion, x)" by fastforce
  show ?case using Cons.IH [OF api_serve [OF Cons.prems assms, of assertion x]]
    by (simp add: q split: prod.split) (metis prod.collapse snd_conv)
qed simp

text \<open>C38. The HTTP surface keeps the store valid. Whatever requests are sent, by whom and with whatever
  assertions, and whatever the cluster, the providers and the models answer: every record stays valid
  and is only extended, each notification stays in at most one incident, no Specialist exceeds its
  query budget, and no incident identity is used twice.\<close>

theorem requests_keep_the_store:
  assumes "store_inv (w_store w)" "alerts_once (w_store w)" "unused_ids en w" "manual_unused en w"
    and "within_budget (w_store w)" "valid_app_state st"
  shows "grown (w_store w) (w_store (snd (serve_all en st qs w)))
    \<and> alerts_once (w_store (snd (serve_all en st qs w))) \<and> within_budget (w_store (snd (serve_all en st qs w)))
    \<and> unused_ids en (snd (serve_all en st qs w))"
proof -
  have "api_ok en (w_store w) w" using assms(1-5) by (simp add: api_ok_def worker_ok_def grown_refl)
  from api_serve_all [OF assms(6) this, of qs] show ?thesis by (simp add: api_ok_def worker_ok_def)
qed

section \<open>A day's requests\<close>

text \<open>Alice is a Responder, Bob is not, and nobody else is known to the proxy.\<close>

definition claims_of :: "string \<Rightarrow> claims" where
  "claims_of email = [(''iss'', JStr iap_issuer), (''sub'', JStr email), (''email'', JStr email)]"

definition sample_iap :: iap_provider where
  "sample_iap = \<lparr>ip_audience = ''/projects/1'', ip_responders = [''alice@example.com''],
     ip_verifier = (\<lambda>token audience. if token = ''alice'' then Inr (claims_of ''Accounts.Google.com:Alice@example.com'')
       else if token = ''bob'' then Inr (claims_of ''bob@example.com'')
       else Inl (identity_error ''IAP assertion signature or claims are invalid''))\<rparr>"

definition sample_app :: "unit app_state" where
  "sample_app = \<lparr>st_identity = IAP sample_iap, st_runtime_mode = ''deployed'', st_readiness = [],
     st_profiles = al_profiles sample_alerts, st_evidence = fake_evidence_provider (Some [leaky_observation]),
     st_redactor = Inr, st_gateway = sample_gateway, st_council = sample_council, st_publisher = None,
     st_review_ttl = minutes 5\<rparr>"

definition sample_open :: open_incident_request where
  "sample_open = \<lparr>oq_summary = ''slow'', oq_application_id = ap_application_id sample_profile, oq_target = sample_target\<rparr>"

definition sample_alice :: operator_identity where
  "sample_alice = \<lparr>oi_principal = ''alice@example.com'', oi_subject = ''Accounts.Google.com:Alice@example.com'',
     oi_role = RESPONDER\<rparr>"

definition sample_bob :: operator_identity where
  "sample_bob = \<lparr>oi_principal = ''bob@example.com'', oi_subject = ''bob@example.com'', oi_role = VIEWER\<rparr>"

lemma sample_principals:
  "normalize_principal ''Accounts.Google.com:Alice@example.com'' = ''alice@example.com''"
  "normalize_principal ''bob@example.com'' = ''bob@example.com''"
proof -
  have "char_of (97 :: nat) = CHR ''a''" "char_of (103 :: nat) = CHR ''g''"
    by (simp_all add: char_of_def bit_0)
  then show "normalize_principal ''Accounts.Google.com:Alice@example.com'' = ''alice@example.com''"
    "normalize_principal ''bob@example.com'' = ''bob@example.com''"
    by (simp_all add: normalize_principal_def strip_def is_space_def latin_lower_def Let_def)
qed

lemma sample_authenticated:
  "iap_authenticate sample_iap (Some ''alice'') = Inr sample_alice"
  "iap_authenticate sample_iap (Some ''bob'') = Inr sample_bob"
  "iap_authenticate sample_iap None = Inl (identity_error ''signed IAP assertion is required'')"
  by (simp_all add: iap_authenticate_def sample_iap_def claims_of_def sample_principals role_of_def
    validate_identity_def wf_operator_identity_def sample_alice_def sample_bob_def)

lemma sample_served:
  "serve en sample_app (Some ''alice'') q = serve_route en sample_app sample_alice q"
  "serve en sample_app (Some ''bob'') q = serve_route en sample_app sample_bob q"
  "serve en sample_app None q = ret (Refusal 401 ''identity_unverified'' ''signed IAP assertion is required'')"
proof -
  have "st_identity sample_app = IAP sample_iap" by (simp add: sample_app_def)
  then show "serve en sample_app (Some ''alice'') q = serve_route en sample_app sample_alice q"
    "serve en sample_app (Some ''bob'') q = serve_route en sample_app sample_bob q"
    "serve en sample_app None q = ret (Refusal 401 ''identity_unverified'' ''signed IAP assertion is required'')"
    by (simp_all add: serve_def with_identity_def sample_authenticated is_identity_error_def identity_error_def)
qed

definition sample_requests :: "(string option \<times> api_request) list" where
  "sample_requests = [(None, List_Incidents), (Some ''bob'', Open_Incident sample_open),
     (Some ''alice'', Open_Incident sample_open), (Some ''alice'', Review ''inc-u1''),
     (Some ''bob'', Close ''inc-u1'' 0), (Some ''alice'', Close ''inc-u1'' 0)]"

fun status_of :: "pyexn + 'a reply \<Rightarrow> int" where
  "status_of (Inr (Reply x)) = 200"
| "status_of (Inr (Refusal s c m)) = s"
| "status_of (Inr Invalid_Request) = 422"
| "status_of _ = 500"

definition sample_day :: "(pyexn + api_body reply) list \<times> unit world" where
  "sample_day = serve_all alert_environment sample_app sample_requests quiet_world"

lemma sample_day_result:
  "map status_of (fst sample_day) = [401, 403, 200, 503, 403, 200]"
  "map (\<lambda>(i, r). (inc_lifecycle (ir_incident r), map se_notification_id (ir_alert_signals r),
        length (ir_evidence_queries r), length (ir_audit_events r))) (w_store (snd sample_day))
      = [(CLOSED, [''manual-u0''], 0, 2)]"
  unfolding sample_day_def sample_requests_def serve_all.simps sample_served by code_simp+

lemma sample_app_valid: "valid_app_state sample_app"
proof -
  have "wf_raw_evidence leaky_observation" by code_simp
  then have "valid_evidence_provider (st_evidence sample_app)"
    by (simp add: sample_app_def valid_evidence_provider_def fake_evidence_provider_def ret_def)
  moreover have "valid_profiles \<lparr>al_profiles = st_profiles sample_app, al_correlation_window = 0\<rparr>"
    using quiet_world_start(4) by (simp add: sample_app_def valid_profiles_def)
  ultimately show ?thesis by (simp add: valid_app_state_def sample_app_def)
qed

lemma quiet_world_manual: "manual_unused alert_environment quiet_world" "within_budget (w_store quiet_world)"
  by (simp_all add: manual_unused_def quiet_world_def recorded_def within_budget_def store_get_def)

theorem requests_keep_the_store_witness:
  "store_inv (w_store (snd sample_day)) \<and> alerts_once (w_store (snd sample_day))
    \<and> map status_of (fst sample_day) = [401, 403, 200, 503, 403, 200]"
  using requests_keep_the_store [OF quiet_world_start(1-3) quiet_world_manual sample_app_valid, of sample_requests]
    sample_day_result by (auto simp: sample_day_def grown_def)

section \<open>One request and one stream\<close>

definition sample_closed :: "(pyexn + api_body reply) \<times> unit world" where
  "sample_closed = serve alert_environment sample_app (Some ''alice'') (Close ''inc-1'' 6) evidence_world"

lemma sample_closed_lifecycle:
  "map_option (\<lambda>r. inc_lifecycle (ir_incident r)) (store_get (w_store (snd sample_closed)) ''inc-1'') = Some CLOSED"
  unfolding sample_closed_def sample_served by code_simp


text \<open>
  A Viewer may run evidence queries, and they count against the Specialist that is named: after two of
  them the Council's own queries of that Specialist are refused.
\<close>

definition sample_query :: "int \<Rightarrow> api_request" where
  "sample_query n = Run_Query ''inc-1'' \<lparr>rq_specialist = HEALTH, rq_mapping_identifier = ''web'', rq_query_round = n\<rparr>"

lemma viewer_query:
  assumes "n \<in> {1, 2}"
  shows "snd (serve en sample_app (Some ''bob'') (sample_query n) w) = snd (execute_query en sample_gateway ''inc-1'' HEALTH ''web'' n w)"
proof -
  have "st_gateway sample_app = sample_gateway" by (simp add: sample_app_def)
  then show ?thesis using assms
    by (auto simp: sample_served sample_query_def when_valid_def wf_run_evidence_query_request_def snd_body
      run_evidence_query_route_def snd_refusing)
qed

lemma viewers_use_up_query_budgets:
  "map_option (\<lambda>r. length (ir_evidence_queries r)) (store_get (w_store (snd (serve_all alert_environment sample_app
     [(Some ''bob'', sample_query 1), (Some ''bob'', sample_query 2), (Some ''bob'', sample_query 2)] evidence_world)))
     ''inc-1'') = Some 2"
proof -
  have "snd (serve_all alert_environment sample_app
     [(Some ''bob'', sample_query 1), (Some ''bob'', sample_query 2), (Some ''bob'', sample_query 2)] evidence_world)
     = asked_world"
    by (simp add: asked_world_def viewer_query [symmetric] split: prod.split)
  then show ?thesis using asked_queries by (auto simp: map_option_case split: option.splits)
qed

definition sample_readings :: "store list" where
  "sample_readings = [sample_store, snd (append_audit_event ''inc-1'' \<lparr>ae_event_id = ''a9'', ae_incident_id = ''inc-1'',
     ae_event_type = ''noted'', ae_occurred_at = 9, ae_actor = ''alice'', ae_details = [], ae_cursor = 0\<rparr> sample_store)]"

theorem stream_delivers_each_event_once_witness:
  "\<exists>chunks r'. encode ''inc-1'' 1 sample_readings = Inr chunks
    \<and> store_get (last sample_readings) ''inc-1'' = Some r'
    \<and> map ae_cursor (delivered chunks) = map int [2..<Suc (length (ir_audit_events r'))]"
proof -
  have start: "w_store evidence_world = sample_store" by (simp add: evidence_world_def)
  define e where "e = \<lparr>ae_event_id = ''a9'', ae_incident_id = ''inc-1'',
     ae_event_type = ''noted'', ae_occurred_at = 9, ae_actor = ''alice'', ae_details = [], ae_cursor = 0\<rparr>"
  have "grown sample_store (snd (run_method ''inc-1'' (Append_Audit_Event e) sample_store))"
    by (rule grown_method [OF grown_refl [OF sample_store_inv]]) (simp add: e_def wf_audit_event_def)
  then have along: "read_along (w_store evidence_world) sample_readings"
    using grown_refl [OF sample_store_inv] by (simp add: start sample_readings_def e_def)
  have cursor: "stream_timeline ''inc-1'' 0 (Some ''1'') evidence_world = (Inr (Reply 1), evidence_world)"
    by code_simp
  have "sample_readings \<noteq> []" by (simp add: sample_readings_def)
  from stream_delivers_each_event_once [OF evidence_world_start(1) order.refl cursor along this]
  obtain chunks r' where "encode ''inc-1'' 1 sample_readings = Inr chunks"
    "store_get (last sample_readings) ''inc-1'' = Some r'"
    "map ae_cursor (delivered chunks) = map int [Suc (nat 1)..<Suc (length (ir_audit_events r'))]" by blast
  moreover have "Suc (nat 1) = 2" by simp
  ultimately show ?thesis by metis
qed

end
