(* ===== verification/Runtime_Config.thy ===== *)
theory Runtime_Config
  imports Incident_Api Bootstrap Scenario
begin

text \<open>
  How the process of the HTTP surface is put together: the environment contract of the deployed runtime
  (\<open>runtime/config.py\<close>), and the choice between local fakes and live providers with the readiness that
  gates Approval (\<open>runtime/composition.py\<close>). The clients of Google Cloud and Kubernetes and the
  outcomes of the calls made on them at start-up are parameters.
\<close>

section \<open>Configuration\<close>

definition configuration_error :: "string \<Rightarrow> pyexn" where
  "configuration_error m = OtherError ''RuntimeConfigurationError'' m"

record deployed_config =
  dy_project_id :: string
  dy_firestore_database :: string
  dy_incident_collection :: string
  dy_lease_collection :: string
  dy_alert_subscription :: string
  dy_intervention_topic :: string
  dy_intervention_subscription :: string
  dy_profile_path :: string
  dy_vertex_model :: string
  dy_vertex_location :: string
  dy_iap_audience :: string
  dy_responder_principals :: "string list"
  dy_admission_policy_binding :: string
  dy_preflight_identity :: string

record executor_config =
  ec_project_id :: string
  ec_firestore_database :: string
  ec_incident_collection :: string
  ec_lease_collection :: string
  ec_intervention_subscription :: string
  ec_admission_policy_binding :: string

text \<open>The loop over the required variables, in the order of the dict.\<close>

fun required_values :: "(string \<Rightarrow> string option) \<Rightarrow> string \<Rightarrow> string list \<Rightarrow> pyexn + string list" where
  "required_values environ why [] = Inr []"
| "required_values environ why (variable # variables) =
    (let value = strip (getenv environ variable [])
     in if value = [] then Inl (configuration_error (variable @ why))
        else bind_result (required_values environ why variables) (\<lambda>values. Inr (value # values)))"

definition split_commas :: "string \<Rightarrow> string list" where
  "split_commas s = split_max (length s) (CHR '','') s"

definition responder_principals :: "string \<Rightarrow> string list" where
  "responder_principals s = map (map latin_lower) (filter (\<lambda>p. p \<noteq> []) (map strip (split_commas s)))"

definition deployed_variables :: "string list" where
  "deployed_variables = [''KUBECOUNCIL_PROJECT_ID'', ''KUBECOUNCIL_FIRESTORE_DATABASE'',
     ''KUBECOUNCIL_ALERT_SUBSCRIPTION'', ''KUBECOUNCIL_INTERVENTION_TOPIC'',
     ''KUBECOUNCIL_INTERVENTION_SUBSCRIPTION'', ''KUBECOUNCIL_APPLICATION_PROFILE_PATH'',
     ''KUBECOUNCIL_VERTEX_MODEL'', ''GOOGLE_CLOUD_LOCATION'', ''KUBECOUNCIL_IAP_AUDIENCE'',
     ''KUBECOUNCIL_ADMISSION_POLICY_BINDING'', ''KUBECOUNCIL_PREFLIGHT_IDENTITY'']"

definition incident_collection :: "(string \<Rightarrow> string option) \<Rightarrow> string" where
  "incident_collection environ = getenv environ ''KUBECOUNCIL_INCIDENT_COLLECTION'' ''kubecouncil-incidents''"

definition lease_collection :: "(string \<Rightarrow> string option) \<Rightarrow> string" where
  "lease_collection environ = getenv environ ''KUBECOUNCIL_LEASE_COLLECTION'' ''kubecouncil-workload-leases''"

definition deployed_from_environment :: "(string \<Rightarrow> string option) \<Rightarrow> pyexn + deployed_config" where
  "deployed_from_environment environ =
    bind_result (required_values environ '' is required; deployed mode never falls back to a fake provider''
      deployed_variables) (\<lambda>v.
    let responders = responder_principals (getenv environ ''KUBECOUNCIL_RESPONDER_PRINCIPALS'' [])
    in if responders = []
       then Inl (configuration_error ''KUBECOUNCIL_RESPONDER_PRINCIPALS requires at least one verified Responder'')
       else Inr \<lparr>dy_project_id = v ! 0, dy_firestore_database = v ! 1,
         dy_incident_collection = incident_collection environ, dy_lease_collection = lease_collection environ,
         dy_alert_subscription = v ! 2, dy_intervention_topic = v ! 3, dy_intervention_subscription = v ! 4,
         dy_profile_path = v ! 5, dy_vertex_model = v ! 6, dy_vertex_location = v ! 7, dy_iap_audience = v ! 8,
         dy_responder_principals = responders, dy_admission_policy_binding = v ! 9,
         dy_preflight_identity = v ! 10\<rparr>)"

definition executor_from_environment :: "(string \<Rightarrow> string option) \<Rightarrow> pyexn + executor_config" where
  "executor_from_environment environ =
    bind_result (required_values environ '' is required by the Executor''
      [''KUBECOUNCIL_PROJECT_ID'', ''KUBECOUNCIL_FIRESTORE_DATABASE'', ''KUBECOUNCIL_INTERVENTION_SUBSCRIPTION'',
       ''KUBECOUNCIL_ADMISSION_POLICY_BINDING'']) (\<lambda>v.
    Inr \<lparr>ec_project_id = v ! 0, ec_firestore_database = v ! 1,
      ec_incident_collection = incident_collection environ, ec_lease_collection = lease_collection environ,
      ec_intervention_subscription = v ! 2, ec_admission_policy_binding = v ! 3\<rparr>)"

definition resource_path :: "string \<Rightarrow> string \<Rightarrow> string \<Rightarrow> string" where
  "resource_path project_id kind name = ''projects/'' @ project_id @ ''/'' @ kind @ ''/'' @ name"

definition alert_subscription_path :: "deployed_config \<Rightarrow> string" where
  "alert_subscription_path c = resource_path (dy_project_id c) ''subscriptions'' (dy_alert_subscription c)"

definition intervention_topic_path :: "deployed_config \<Rightarrow> string" where
  "intervention_topic_path c = resource_path (dy_project_id c) ''topics'' (dy_intervention_topic c)"

definition intervention_subscription_path :: "deployed_config \<Rightarrow> string" where
  "intervention_subscription_path c = resource_path (dy_project_id c) ''subscriptions'' (dy_intervention_subscription c)"

definition executor_subscription_path :: "executor_config \<Rightarrow> string" where
  "executor_subscription_path c = resource_path (ec_project_id c) ''subscriptions'' (ec_intervention_subscription c)"

section \<open>The local runtime\<close>

definition ready_detail :: "string \<Rightarrow> string" where
  "ready_detail mode = ''Explicit '' @ mode @ '' provider is ready.''"

definition local_readiness :: "string \<Rightarrow> readiness" where
  "local_readiness mode = fold (\<lambda>name. set_check name True (ready_detail mode))
     [''api'', ''identity'', ''incident_store'', ''evidence'', ''council'', ''intervention''] []"

text \<open>\<open>InMemoryApplicationProfileProvider((profile,))\<close> over a validated profile.\<close>

definition local_profiles :: "application_profile \<Rightarrow> ('k, profile_load_result list) act" where
  "local_profiles p = ret [\<lparr>lr_source = ''fake://application-profiles/0'', lr_application_id = Some (ap_application_id p),
     lr_profile = Some p, lr_errors = []\<rparr>]"

definition local_gateway :: "('k, rat) act \<Rightarrow> 'k gateway" where
  "local_gateway monotonic = \<lparr>gw_adapters = (\<lambda>source. if source = MANUAL then None else Some fake_query),
     gw_redactor = redact None, gw_deadline_seconds = 5, gw_maximum_attempts = 2, gw_monotonic = monotonic\<rparr>"

definition compose_local ::
  "('k, rat) act \<Rightarrow> ('k \<Rightarrow> rat \<times> 'k) \<Rightarrow> (rat \<Rightarrow> string) \<Rightarrow> (string \<Rightarrow> string option) \<Rightarrow> string \<Rightarrow> pyexn + 'k app_state" where
  "compose_local monotonic clock float_str environ mode =
    (let p = getenv environ ''KUBECOUNCIL_LOCAL_PRINCIPAL'' ''developer@example.com''
     in bind_result (validate_identity \<lparr>oi_principal = p, oi_subject = ''local:'' @ p, oi_role = RESPONDER\<rparr>) (\<lambda>identity.
        bind_result (local_identity_provider ''development'' identity) (\<lambda>provider.
        Inr \<lparr>st_identity = provider, st_runtime_mode = mode, st_readiness = local_readiness mode,
          st_profiles = local_profiles fake_application_profile, st_evidence = fake_evidence_provider None,
          st_redactor = redact None, st_gateway = local_gateway monotonic,
          st_council = \<lparr>cn_model_id = ''gemini-3.5-flash'', cn_gateway = Some (local_gateway monotonic),
            cn_monotonic = clock, cn_float_str = float_str\<rparr>,
          st_publisher = Some publish, st_review_ttl = minutes 5\<rparr>)))"

section \<open>The deployed runtime\<close>

definition readiness_error :: "pyexn \<Rightarrow> string" where
  "readiness_error e = exn_type e @ '': '' @ take 300 (exn_str e)"

text \<open>The first loaded profile, and what the checks at start-up found: whether the store can be listed,
  the Enrollment of that profile, and the probe of the model.\<close>

definition first_profile :: "profile_load_result list \<Rightarrow> application_profile option" where
  "first_profile results = (case results of [] \<Rightarrow> None | l # _ \<Rightarrow> lr_profile l)"

record start_up =
  su_listed :: "pyexn + unit"
  su_profiles :: "profile_load_result list"
  su_enrollment :: "application_profile \<Rightarrow> pyexn + enrollment_snapshot"
  su_probed :: "pyexn + unit"

definition store_check :: "pyexn + unit \<Rightarrow> readiness \<Rightarrow> readiness" where
  "store_check listed = (case listed of
     Inl e \<Rightarrow> set_check ''incident_store'' False (readiness_error e)
   | Inr _ \<Rightarrow> set_check ''incident_store'' True ''Firestore IncidentStore transaction boundary is reachable.'')"

definition no_profile_detail :: "profile_load_result list \<Rightarrow> string" where
  "no_profile_detail results =
    (let detail = join ''; '' (map snd (concat (map lr_errors results)))
     in if detail = [] then ''No Application Profile was loaded.'' else detail)"

definition enrollment_detail :: "string \<Rightarrow> enrollment_readiness \<Rightarrow> string" where
  "enrollment_detail ready r = (if er_ready r then ready else join ''; '' (map ek_message (failed_checks r)))"

definition enrollment_gate :: "start_up \<Rightarrow> readiness \<Rightarrow> readiness" where
  "enrollment_gate su = (case first_profile (su_profiles su) of
     None \<Rightarrow> set_check ''intervention'' False (no_profile_detail (su_profiles su))
       \<circ> set_check ''evidence'' False (no_profile_detail (su_profiles su))
   | Some p \<Rightarrow> (case su_enrollment su p of
       Inl e \<Rightarrow> set_check ''intervention'' False (readiness_error e) \<circ> set_check ''evidence'' False (readiness_error e)
     | Inr snapshot \<Rightarrow>
         (let r = check_enrollment p snapshot
          in set_check ''intervention'' (er_ready r) (enrollment_detail
               ''Executor RBAC, managed labels, Enrollment, and admission binding are active.'' r)
             \<circ> set_check ''evidence'' (er_ready r) (enrollment_detail
               (''Kubernetes, Cloud Logging, and Cloud Monitoring evidence adapters are ''
                @ ''bound to the enrolled Application Profile.'') r))))"

definition council_check :: "string \<Rightarrow> pyexn + unit \<Rightarrow> readiness \<Rightarrow> readiness" where
  "council_check model probed = (case probed of
     Inl e \<Rightarrow> set_check ''council'' False
       (''ADK structured Specialist/Coordinator probe failed: '' @ readiness_error e)
   | Inr _ \<Rightarrow> set_check ''council'' True
       (''ADK structured Specialist and Coordinator contracts passed on '' @ model @ ''.''))"

definition deployed_readiness :: "deployed_config \<Rightarrow> start_up \<Rightarrow> readiness" where
  "deployed_readiness c su =
    council_check (dy_vertex_model c) (su_probed su)
      (enrollment_gate su
        (store_check (su_listed su)
          (set_check ''identity'' True ''Signed IAP assertion verification and Responder mapping are configured.''
            (set_check ''api'' True ''API process is available.'' []))))"

text \<open>The live providers that the state holds.\<close>

record 'k live_providers =
  lv_profiles :: "('k, profile_load_result list) act"
  lv_evidence :: "'k evidence_provider"
  lv_gateway :: "'k gateway"
  lv_council :: "'k council"
  lv_publisher :: "intervention_request \<Rightarrow> (request_queue, unit) act"
  lv_verifier :: token_verifier

definition compose_deployed :: "'k live_providers \<Rightarrow> start_up \<Rightarrow> deployed_config \<Rightarrow> pyexn + 'k app_state" where
  "compose_deployed lv su c =
    bind_result (iap_identity_provider (dy_iap_audience c) (dy_responder_principals c) (lv_verifier lv)) (\<lambda>ip.
    Inr \<lparr>st_identity = IAP ip, st_runtime_mode = ''deployed'', st_readiness = deployed_readiness c su,
      st_profiles = lv_profiles lv, st_evidence = lv_evidence lv, st_redactor = redact None,
      st_gateway = lv_gateway lv, st_council = lv_council lv, st_publisher = Some (lv_publisher lv),
      st_review_ttl = minutes 5\<rparr>)"

definition compose_runtime ::
  "(string \<Rightarrow> string option) \<Rightarrow> (string \<Rightarrow> pyexn + 'k app_state) \<Rightarrow> (deployed_config \<Rightarrow> pyexn + 'k app_state)
     \<Rightarrow> pyexn + 'k app_state" where
  "compose_runtime environ local_runtime deployed_runtime =
    (let mode = map latin_lower (strip (getenv environ ''KUBECOUNCIL_RUNTIME_MODE'' ''deployed''))
     in if mode \<in> set [''development'', ''test''] then local_runtime mode
        else if mode \<noteq> ''deployed''
        then Inl (configuration_error ''KUBECOUNCIL_RUNTIME_MODE must be development, test, or deployed'')
        else bind_result (deployed_from_environment environ) deployed_runtime)"

text \<open>\<open>/ready\<close> (\<open>api/health.py\<close>): the status code and the bodies of the checks.\<close>

definition ready_status :: "readiness \<Rightarrow> int" where
  "ready_status checks = (if all_ready checks then 200 else 503)"

definition ready_checks :: "readiness \<Rightarrow> (string \<times> string) list" where
  "ready_checks checks = map (\<lambda>(name, c). (name, if rd_ready c then ''ok'' else ''failed'')) checks"

section \<open>Deployed mode fails closed\<close>

lemma required_values_Inr:
  "required_values environ why variables = Inr vs \<Longrightarrow> length vs = length variables \<and> list_all (\<lambda>v. v \<noteq> []) vs"
  by (induction variables arbitrary: vs) (auto simp: Let_def bind_result_Inr split: if_splits)

lemma deployed_config_complete:
  assumes "deployed_from_environment environ = Inr c"
  shows "dy_iap_audience c \<noteq> []" "dy_responder_principals c \<noteq> []"
proof -
  obtain v where v: "required_values environ '' is required; deployed mode never falls back to a fake provider''
      deployed_variables = Inr v" and c: "dy_iap_audience c = v ! 8" "dy_responder_principals c \<noteq> []"
    using assms by (auto simp: deployed_from_environment_def bind_result_Inr Let_def split: if_splits)
  have "length v = 11" "list_all (\<lambda>v. v \<noteq> []) v" using required_values_Inr [OF v] by (simp_all add: deployed_variables_def)
  then show "dy_iap_audience c \<noteq> []" "dy_responder_principals c \<noteq> []" using c by (simp_all add: list_all_length)
qed

lemma approval_enabled_deployed:
  "approval_enabled (deployed_readiness c su) \<longleftrightarrow> \<not> is_error (su_listed su) \<and> \<not> is_error (su_probed su)
     \<and> (\<exists>p snapshot. first_profile (su_profiles su) = Some p \<and> su_enrollment su p = Inr snapshot
          \<and> er_ready (check_enrollment p snapshot))"
  by (cases "su_listed su"; cases "su_probed su"; cases "first_profile (su_profiles su)")
    (auto simp: approval_enabled_def approval_components_def deployed_readiness_def council_check_def store_check_def
      enrollment_gate_def set_check_def dict_get_set Let_def split: sum.splits)


definition sample_environ :: "string \<Rightarrow> string option" where
  "sample_environ variable = (if variable = ''KUBECOUNCIL_RUNTIME_MODE'' then None
     else if variable = ''KUBECOUNCIL_RESPONDER_PRINCIPALS'' then Some ''alice@example.com, bob'' else Some ''x'')"

definition sample_live :: "unit live_providers" where
  "sample_live = \<lparr>lv_profiles = local_profiles fake_application_profile, lv_evidence = fake_evidence_provider None,
     lv_gateway = local_gateway (ret 0), lv_council = \<lparr>cn_model_id = ''x'', cn_gateway = None,
       cn_monotonic = (\<lambda>k. (0, k)), cn_float_str = (\<lambda>_. ''1.0'')\<rparr>,
     lv_publisher = publish, lv_verifier = (\<lambda>token audience. Inl (identity_error token))\<rparr>"

definition sample_start_up :: start_up where
  "sample_start_up = \<lparr>su_listed = Inr (), su_profiles = [\<lparr>lr_source = ''file'',
       lr_application_id = Some (ap_application_id fake_application_profile),
       lr_profile = Some fake_application_profile, lr_errors = []\<rparr>],
     su_enrollment = (\<lambda>p. Inr (ready_for p)), su_probed = Inl (TimeoutError ''model'')\<rparr>"

lemma sample_deployed: "\<not> is_error (compose_runtime sample_environ
    (compose_local (ret 0) (\<lambda>k. (0, k)) (\<lambda>_. ''1.0'') sample_environ) (compose_deployed sample_live sample_start_up))"
proof -
  have mode: "map latin_lower (strip ''deployed'') = ''deployed''" "strip ''x'' = ''x''"
    by (simp_all add: strip_def is_space_def latin_lower_def)
  have "responder_principals ''alice@example.com, bob'' \<noteq> []"
    by (simp add: responder_principals_def split_commas_def strip_def is_space_def)
  then show ?thesis
    by (simp add: compose_runtime_def getenv_def sample_environ_def mode deployed_from_environment_def deployed_variables_def
      Let_def compose_deployed_def iap_identity_provider_def)
qed


text \<open>
  The wildcard of the checked-in runtime configuration: with it everyone the proxy lets through is a
  Responder.
\<close>

lemma wildcard_makes_everyone_a_responder:
  assumes "iap_identity_provider audience (responder_principals ''*'') verifier = Inr ip"
    and "iap_authenticate ip assertion = Inr identity"
  shows "oi_role identity = RESPONDER"
proof -
  have "responder_principals ''*'' = [''*'']" "normalize_principal ''*'' = ''*''"
    by (simp_all add: responder_principals_def split_commas_def strip_def is_space_def latin_lower_def normalize_principal_def)
  then have "''*'' \<in> set (ip_responders ip)" using assms(1)
    by (auto simp: iap_identity_provider_def split: if_splits)
  then have role: "role_of (ip_responders ip) p = RESPONDER" for p by (simp add: role_of_def)
  show ?thesis using assms(2) by (rule iap_authenticate_Inr) (simp add: role)
qed

end
