(* ===== verification/Spec2Isabelle.thy ===== *)
theory Spec2Isabelle
  imports Store_Guarantees Fakes Approval_Guarantees Executor_Closed Recovery_Guarantees
    Firestore_Guarantees Alert_Guarantees Worker_Guarantees Bootstrap_Guarantees
    Scenario_Guarantees Incident_Api_Runs Runtime_Config
begin

text \<open>
  Verification of the incident control plane of KubeCouncil (\<open>src/backend/app\<close>).

  The program. KubeCouncil investigates an incident of an onboarded application, lets a Responder
  approve one minimal Deployment patch, and has a deterministic Executor apply it. The incident
  store keeps one record per incident with an append-only audit timeline
  (\<open>domain/incidents.py\<close>, \<open>domain/incident_fakes.py\<close>). The proposal policy
  (\<open>services/proposal_policy.py\<close>) decides whether a proposed action is authorized and builds its
  patch. The Approval service (\<open>services/approval.py\<close>, \<open>domain/approval.py\<close>) binds a Responder's
  decision to the hashes of everything reviewed and publishes one Intervention request
  (\<open>services/intervention_queue.py\<close>). The Executor (\<open>services/intervention_executor.py\<close>) consumes
  it under a workload lease (\<open>services/workload_lease.py\<close>) and records the outcome; the recovery
  verifier (\<open>services/recovery_verifier.py\<close>) judges one stabilization window after the other and
  resolves the incident. \<open>services/incident_store.py\<close> is the durable store of the same methods.
  Enrollment (\<open>services/enrollment.py\<close>) says whether the application was onboarded. Before all
  that, alert ingestion (\<open>services/alerts.py\<close>) turns redeliverable notifications into incidents,
  the collector (\<open>services/evidence.py\<close>) retains bounded, redacted evidence, the incident Council
  (\<open>services/council.py\<close>) has four Specialists and a Coordinator propose an action, and the evidence
  gateway (\<open>services/evidence_gateway.py\<close>) answers the Specialists' follow-up queries. Two worker
  loops (\<open>runtime/workers.py\<close>) drive ingestion and Executor, and an HTTP surface
  (\<open>api/incidents.py\<close>) takes the requests of operators whose identity IAP verified
  (\<open>services/identity.py\<close>); \<open>runtime/composition.py\<close> puts the process together. The
  bootstrap planner (\<open>bootstrap/planner.py\<close>) plans the environment, and the scenario controller
  (\<open>scenario_controller\<close>) breaks the demo application in allowlisted ways.

  Theories and the code they model.
   \<^item> \<open>Prelude\<close>: exceptions (\<open>pyexn\<close>), validators (\<open>first_problem\<close>, \<open>guarded\<close>), dicts as association
     lists, and actions \<open>('w, 'a) act\<close>: a state transformer that returns or raises, with
     \<open>seq\<close>, \<open>try_except\<close>, \<open>try_finally\<close>, the weakest precondition \<open>wp\<close> and the invariant
     judgement \<open>keeps\<close>.
   \<^item> \<open>Profile\<close>, \<open>Lifecycle\<close>, \<open>Records\<close>, \<open>Decisions\<close>: the documents of \<open>domain/incidents.py\<close> with their
     field constraints (\<open>wf_...\<close>) and validators (\<open>..._problem\<close>), the transition tables and
     \<open>transition_incident\<close>. \<open>World\<close>: the state that the services share (store, leases, queue,
     cluster, readings of the clock, UUIDs drawn) and the providers as parameters (\<open>environment\<close>).
   \<^item> \<open>Json\<close>, \<open>Approval_Binding\<close>: canonical JSON with a proof that it is injective, and the hash rules of
     \<open>domain/approval.py\<close>.
   \<^item> \<open>Incident_Store\<close>, \<open>Fakes\<close>: every method of \<open>InMemoryIncidentStore\<close> and the fakes beside it.
     \<open>Store_Invariants\<close>, \<open>Store_Methods\<close>: the record invariant \<open>record_inv\<close> and its preservation by each
     method; \<open>Store_Contract\<close>: the locale of a versioned store, calls as data and runs;
     \<open>Store_Guarantees\<close>: the properties of all runs.
   \<^item> \<open>Enrollment\<close>, \<open>Lease\<close>, \<open>Proposal_Policy\<close>, \<open>Intervention_Queue\<close>, \<open>Approval_Service\<close>: one service
     each; \<open>Fake_Cluster\<close>: the Kubernetes provider of the local deployment.
     \<open>Policy_Guarantees\<close>, \<open>Approval_Guarantees\<close>: their properties.
   \<^item> \<open>Executor\<close>: \<open>DeterministicInterventionExecutor\<close>; the locals that the exception handlers read are
     part of the state. \<open>Executor_Log\<close>: what a run may write, over any provider that logs its
     writes (locale \<open>write_log\<close>); \<open>Executor_Halts\<close>: the invariant under which a running Intervention can
     always be stopped (locale \<open>safe_run\<close>); \<open>Executor_Guarantees\<close>, \<open>Executor_Closed\<close>: the properties.
   \<^item> \<open>Recovery\<close>: \<open>services/recovery_verifier.py\<close>; \<open>Recovery_Guarantees\<close>: what a verdict means and that
     the store accepts it. \<open>Firestore\<close>: \<open>services/incident_store.py\<close>, over the locale
     \<open>transactional_documents\<close> with the in-memory fake and the retrying client as interpretations;
     \<open>Firestore_Guarantees\<close>: it refines the in-memory store.
   \<^item> \<open>Store_Client\<close>: the locale of a service that reaches the store only through its methods, by which
     a property every allowed call keeps is kept by the service. \<open>Alerts\<close>: \<open>services/alerts.py\<close>;
     \<open>Redaction\<close>: the redactor's expression as a scanner; \<open>Evidence\<close>: \<open>services/evidence.py\<close>;
     \<open>Evidence_Gateway\<close>: \<open>services/evidence_gateway.py\<close>. \<open>Alert_Guarantees\<close>, \<open>Redaction_Guarantees\<close>,
     \<open>Evidence_Guarantees\<close>, \<open>Gateway_Guarantees\<close>: their properties.
   \<^item> \<open>Council_Types\<close>, \<open>Council\<close>: \<open>services/council.py\<close>. A Specialist is a task that stops where it
     awaits the model; a run takes any sequence of answers, failures and timeouts (\<open>council_event\<close>)
     of any task. \<open>Store_Growth\<close>: the calls after which every record is an extension of the one
     before; \<open>Council_Guarantees\<close>, \<open>Council_Outcomes\<close>: their properties; \<open>Council_Samples\<close>: concrete
     investigations.
   \<^item> \<open>Workers\<close>: the loops of \<open>runtime/workers.py\<close> over the deliveries pulled; \<open>Worker_Guarantees\<close>: an
     alert worker through all its services (locales \<open>investigation_client\<close>, \<open>policy_client\<close>,
     \<open>gateway_client\<close>).
   \<^item> \<open>Deployment_Profile\<close>, \<open>Bootstrap\<close>: \<open>bootstrap/models.py\<close>, \<open>bootstrap/planner.py\<close> and the runner of
     \<open>bootstrap/smoke.py\<close>; \<open>Bootstrap_Guarantees\<close>: their properties.
   \<^item> \<open>Scenario\<close>, \<open>Scenario_Guarantees\<close>: the scenario controller.
   \<^item> \<open>Identity\<close>: identity providers, the dependencies of the routes and the readiness registry;
     \<open>Incident_Api\<close>: every route of \<open>api/incidents.py\<close> and the event stream (\<open>encode\<close>, one reading of
     the store for each second the client stays); \<open>Incident_Api_Guarantees\<close>, \<open>Incident_Api_Runs\<close>:
     who may change what, and that all requests keep the store. \<open>Runtime_Config\<close>:
     \<open>runtime/config.py\<close>, \<open>runtime/composition.py\<close> and \<open>api/health.py\<close>.
   \<^item> \<open>Sample_Run\<close>, \<open>Sample_Execution\<close>: concrete inputs of the witnesses.

  What is shown. The store keeps its invariant under every run of calls, is append-only, refuses
  stale writers, and resolves an incident only on stable recovery windows. A decision is recorded
  only on the context the Responder reviewed, and the published request carries it. The policy
  passes exactly the authorized proposals. The Executor writes only what was approved, never
  leaves its Intervention running, and reports success only when it was observed. Recovery is
  decided by the evidence of the window alone and its verdict is always recorded. The durable
  store gives the results of the in-memory store call by call. A lease excludes other holders; one
  theorem shows how a retried transaction breaks this. A notification is recorded once however
  often it is delivered, and acknowledged only when it is durable. Retained evidence is
  allowlisted, bounded and free of recognized credentials, collection accounts for every
  observation, and no Specialist exceeds its query budget. The Council's states are well typed in
  every interleaving, an investigation ends, and its outcome is the Coordinator's valid one or
  inconclusive. The alert worker raises nothing and keeps the promises of all services it
  calls. A bootstrap plan accounts for every requirement and only the reviewed plan is applied; the
  scenario controller sends allowlisted patches only. A request changes the store only for the
  verified operator the route asks for, all requests together keep the store, the stream delivers
  each event once, and a deployed process starts without fallback and enables Approval only when
  every component is ready.

  Conventions. Times are integers in microseconds; floats are rationals; SHA-256, the ISO text of a
  time and Python's \<open>repr\<close> are parameters, and theorems that need it name a collision of the hash
  as the alternative. Providers may return or raise anything unless a theorem names their law. No
  definition needs fuel: the modelled loops run over lists or a number of attempts.

  Not modelled. The clients of the Kubernetes API, Google Cloud, GitHub and k6, and the live providers
  built on them, only translate to and from external services, whose answers are parameters
  here. So are the ADK adapter with its prompts, the token check of Google's library and YAML
  parsing. The bootstrap command line and its inspector read the live environment with gcloud and
  kubectl; what they observe is the input of the modelled planner. FastAPI's rendering, logging and
  tracing are left out. The earlier run product (\<open>agents/council.py\<close>, \<open>api/runs.py\<close>,
  \<open>domain/models.py\<close>, rehearsal, pull requests, repositories, load scenarios) shares no state with
  the incident control plane and is not part of this development. The manifest lists every part
  with its status.
\<close>

end
